(* ===== verification/Prelude.thy ===== *)
theory Prelude
  imports Main "HOL-Library.Word"
begin

text \<open>
  What every component shares: the machine types, the status codes of
  \<open>onlp/onlp.h\<close>, the reading of C truth values and bit flags, and the
  collections of facts (\<open>oid_simps\<close>, \<open>drv_simps\<close>, \<open>step_simps\<close>) the component
  theories add to.
\<close>

unbundle bit_operations_syntax

section \<open>Machine types\<close>

type_synonym u8 = "8 word"
type_synonym u16 = "16 word"
type_synonym u32 = "32 word"
type_synonym u64 = "64 word"

text \<open>
  A C \<open>int\<close> that only carries a status code, a count or a small identifier is a
  HOL \<open>int\<close>; unsigned values on which the code shifts and masks are words.
\<close>

named_theorems oid_simps "facts that evaluate the OID macros"
named_theorems drv_simps "facts that evaluate calls into a platform driver"
named_theorems step_simps "facts that evaluate one step of a component"

section \<open>Status codes (\<open>onlp/onlp.h\<close>)\<close>

definition ONLP_STATUS_OK :: int where [simp]: "ONLP_STATUS_OK = 0"
definition ONLP_STATUS_E_GENERIC :: int where [simp]: "ONLP_STATUS_E_GENERIC = -1"
definition ONLP_STATUS_E_UNSUPPORTED :: int where [simp]: "ONLP_STATUS_E_UNSUPPORTED = -10"
definition ONLP_STATUS_E_MISSING :: int where [simp]: "ONLP_STATUS_E_MISSING = -11"
definition ONLP_STATUS_E_INVALID :: int where [simp]: "ONLP_STATUS_E_INVALID = -12"
definition ONLP_STATUS_E_INTERNAL :: int where [simp]: "ONLP_STATUS_E_INTERNAL = -13"
definition ONLP_STATUS_E_PARAM :: int where [simp]: "ONLP_STATUS_E_PARAM = -14"
definition ONLP_STATUS_E_I2C :: int where [simp]: "ONLP_STATUS_E_I2C = -15"

definition ONLP_FAILURE :: "int \<Rightarrow> bool" where
  [simp]: "ONLP_FAILURE rv \<longleftrightarrow> rv < 0"

definition ONLP_SUCCESS :: "int \<Rightarrow> bool" where
  [simp]: "ONLP_SUCCESS rv \<longleftrightarrow> \<not> ONLP_FAILURE rv"

definition ONLP_UNSUPPORTED :: "int \<Rightarrow> bool" where
  [simp]: "ONLP_UNSUPPORTED rv \<longleftrightarrow> rv = ONLP_STATUS_E_UNSUPPORTED"

section \<open>Bit flags\<close>

text \<open>\<open>if(flags \& mask)\<close>: some bit of the mask is set.\<close>

definition has :: "'a::len word \<Rightarrow> 'a word \<Rightarrow> bool" where
  "has flags m \<longleftrightarrow> flags AND m \<noteq> 0"

lemma has_zero [simp]: "\<not> has 0 m" "\<not> has f 0"
  by (simp_all add: has_def)

lemma has_or [simp]: "has (f OR g) m \<longleftrightarrow> has f m \<or> has g m"
  by (simp add: has_def bit.conj_disj_distrib2 or_eq_0_iff)

lemma has_power: "has (f :: 'a::len word) (2 ^ n) \<longleftrightarrow> bit f n"
  by (simp add: has_def and_exp_eq_0_iff_not_bit)

lemma has_push_bit: "has (f :: 'a::len word) (push_bit n 1) \<longleftrightarrow> bit f n"
  by (simp add: has_power)

lemma xor_left_cancel [simp]: "(a :: 'a::len word) XOR b = a XOR c \<longleftrightarrow> b = c"
  by (metis xor.assoc xor.left_neutral xor_self_eq)

lemma xor_right_cancel [simp]: "(b :: 'a::len word) XOR a = c XOR a \<longleftrightarrow> b = c"
  by (metis xor_left_cancel xor.commute)

lemma unat_two_power:
  assumes "k < LENGTH('a)"
  shows "unat (2 ^ k :: 'a::len word) = 2 ^ k"
proof -
  have "(2 ^ k :: 'a word) = word_of_nat (2 ^ k)" by simp
  moreover have "(2::nat) ^ k < 2 ^ LENGTH('a)" using assms by simp
  ultimately show ?thesis by (simp only: unsigned_of_nat take_bit_nat_eq_self of_nat_id)
qed

lemma bit_less_power:
  assumes "(w :: 'a::len word) < 2 ^ k" and "bit w n"
  shows "n < k"
proof (rule ccontr)
  assume "\<not> n < k"
  moreover have "n < LENGTH('a)" using assms(2) by (rule bit_imp_le_length)
  ultimately have "unat w < 2 ^ k"
    using assms(1) by (simp add: word_less_nat_alt unat_two_power)
  then have "take_bit k (unat w) = unat w" by (rule take_bit_nat_eq_self)
  moreover have "bit (unat w) n" using assms(2) by (simp add: bit_unsigned_iff)
  ultimately show False using \<open>\<not> n < k\<close> by (metis bit_take_bit_iff)
qed

lemma bit_low_mask:
  "bit ((x :: 'a::len word) AND 0xFF) n \<longleftrightarrow> n < 8 \<and> bit x n"
  "bit (x AND 0xFFFFFF) n \<longleftrightarrow> n < 24 \<and> bit x n"
proof -
  have "x AND 0xFF = take_bit 8 x" "x AND 0xFFFFFF = take_bit 24 x"
    by (simp_all add: take_bit_eq_mask mask_eq_exp_minus_1)
  then show "bit (x AND 0xFF) n \<longleftrightarrow> n < 8 \<and> bit x n" "bit (x AND 0xFFFFFF) n \<longleftrightarrow> n < 24 \<and> bit x n"
    by (simp_all add: bit_take_bit_iff)
qed

lemma unat_u8: "unat (w :: u8) \<le> 255"
  using unsigned_less [of w, where 'a = nat] by simp

lemma unat_u16: "unat (w :: u16) \<le> 65535"
  using unsigned_less [of w, where 'a = nat] by simp

lemma unat_minus_one_u64 [simp]: "unat (-1 :: u64) = 18446744073709551615"
  by (simp add: unsigned_minus_1_eq_mask mask_eq_exp_minus_1)

section \<open>C integer division\<close>

text \<open>C99 division and remainder truncate towards zero (\<open>ONLP_MILLI_NORMAL_*\<close>).\<close>

definition cdiv :: "int \<Rightarrow> int \<Rightarrow> int" where
  "cdiv a b = sgn a * sgn b * (\<bar>a\<bar> div \<bar>b\<bar>)"

definition cmod :: "int \<Rightarrow> int \<Rightarrow> int" where
  "cmod a b = a - cdiv a b * b"

lemma cdiv_nonneg: "0 \<le> a \<Longrightarrow> 0 < b \<Longrightarrow> cdiv a b = a div b"
  by (cases "a = 0") (auto simp: cdiv_def)

lemma cmod_nonneg: "0 \<le> a \<Longrightarrow> 0 < b \<Longrightarrow> cmod a b = a mod b"
  by (simp add: cmod_def cdiv_nonneg minus_div_mult_eq_mod)

section \<open>Lists read at an index\<close>

text \<open>A read past the end of a buffer is \<open>None\<close>: the C reads unrelated memory there.\<close>

definition rd :: "'a list \<Rightarrow> nat \<Rightarrow> 'a option" where
  "rd xs i = (if i < length xs then Some (xs ! i) else None)"

lemma rd_append1: "i < length xs \<Longrightarrow> rd (xs @ ys) i = rd xs i"
  by (simp add: rd_def nth_append)

lemma rd_append2: "rd (xs @ ys) (length xs + i) = rd ys i"
  by (simp add: rd_def nth_append)

lemma rd_Some: "rd xs i = Some x \<longleftrightarrow> i < length xs \<and> xs ! i = x"
  by (auto simp: rd_def)

lemma rd_Cons_0 [simp]: "rd (x # xs) 0 = Some x"
  by (simp add: rd_def)

lemma rd_Cons_Suc [simp]: "rd (x # xs) (Suc n) = rd xs n"
  by (simp add: rd_def)

lemma rd_Nil [simp]: "rd [] n = None"
  by (simp add: rd_def)

end
