(* ===== verification/Crc32.thy ===== *)
theory Crc32
  imports Prelude
begin

text \<open>
  \<open>onlplib/module/src/crc32.c\<close>: the table-driven CRC-32 that guards the ONIE EEPROM.
  The lemmas compare it with the polynomial division bit by bit, and show that it sees
  every change confined to four neighbouring bytes.
\<close>

section \<open>The code\<close>

definition crc32_tab :: "u32 list" where
  "crc32_tab = [
   0x00000000, 0x77073096, 0xee0e612c, 0x990951ba, 0x076dc419, 0x706af48f,
   0xe963a535, 0x9e6495a3, 0x0edb8832, 0x79dcb8a4, 0xe0d5e91e, 0x97d2d988,
   0x09b64c2b, 0x7eb17cbd, 0xe7b82d07, 0x90bf1d91, 0x1db71064, 0x6ab020f2,
   0xf3b97148, 0x84be41de, 0x1adad47d, 0x6ddde4eb, 0xf4d4b551, 0x83d385c7,
   0x136c9856, 0x646ba8c0, 0xfd62f97a, 0x8a65c9ec, 0x14015c4f, 0x63066cd9,
   0xfa0f3d63, 0x8d080df5, 0x3b6e20c8, 0x4c69105e, 0xd56041e4, 0xa2677172,
   0x3c03e4d1, 0x4b04d447, 0xd20d85fd, 0xa50ab56b, 0x35b5a8fa, 0x42b2986c,
   0xdbbbc9d6, 0xacbcf940, 0x32d86ce3, 0x45df5c75, 0xdcd60dcf, 0xabd13d59,
   0x26d930ac, 0x51de003a, 0xc8d75180, 0xbfd06116, 0x21b4f4b5, 0x56b3c423,
   0xcfba9599, 0xb8bda50f, 0x2802b89e, 0x5f058808, 0xc60cd9b2, 0xb10be924,
   0x2f6f7c87, 0x58684c11, 0xc1611dab, 0xb6662d3d, 0x76dc4190, 0x01db7106,
   0x98d220bc, 0xefd5102a, 0x71b18589, 0x06b6b51f, 0x9fbfe4a5, 0xe8b8d433,
   0x7807c9a2, 0x0f00f934, 0x9609a88e, 0xe10e9818, 0x7f6a0dbb, 0x086d3d2d,
   0x91646c97, 0xe6635c01, 0x6b6b51f4, 0x1c6c6162, 0x856530d8, 0xf262004e,
   0x6c0695ed, 0x1b01a57b, 0x8208f4c1, 0xf50fc457, 0x65b0d9c6, 0x12b7e950,
   0x8bbeb8ea, 0xfcb9887c, 0x62dd1ddf, 0x15da2d49, 0x8cd37cf3, 0xfbd44c65,
   0x4db26158, 0x3ab551ce, 0xa3bc0074, 0xd4bb30e2, 0x4adfa541, 0x3dd895d7,
   0xa4d1c46d, 0xd3d6f4fb, 0x4369e96a, 0x346ed9fc, 0xad678846, 0xda60b8d0,
   0x44042d73, 0x33031de5, 0xaa0a4c5f, 0xdd0d7cc9, 0x5005713c, 0x270241aa,
   0xbe0b1010, 0xc90c2086, 0x5768b525, 0x206f85b3, 0xb966d409, 0xce61e49f,
   0x5edef90e, 0x29d9c998, 0xb0d09822, 0xc7d7a8b4, 0x59b33d17, 0x2eb40d81,
   0xb7bd5c3b, 0xc0ba6cad, 0xedb88320, 0x9abfb3b6, 0x03b6e20c, 0x74b1d29a,
   0xead54739, 0x9dd277af, 0x04db2615, 0x73dc1683, 0xe3630b12, 0x94643b84,
   0x0d6d6a3e, 0x7a6a5aa8, 0xe40ecf0b, 0x9309ff9d, 0x0a00ae27, 0x7d079eb1,
   0xf00f9344, 0x8708a3d2, 0x1e01f268, 0x6906c2fe, 0xf762575d, 0x806567cb,
   0x196c3671, 0x6e6b06e7, 0xfed41b76, 0x89d32be0, 0x10da7a5a, 0x67dd4acc,
   0xf9b9df6f, 0x8ebeeff9, 0x17b7be43, 0x60b08ed5, 0xd6d6a3e8, 0xa1d1937e,
   0x38d8c2c4, 0x4fdff252, 0xd1bb67f1, 0xa6bc5767, 0x3fb506dd, 0x48b2364b,
   0xd80d2bda, 0xaf0a1b4c, 0x36034af6, 0x41047a60, 0xdf60efc3, 0xa867df55,
   0x316e8eef, 0x4669be79, 0xcb61b38c, 0xbc66831a, 0x256fd2a0, 0x5268e236,
   0xcc0c7795, 0xbb0b4703, 0x220216b9, 0x5505262f, 0xc5ba3bbe, 0xb2bd0b28,
   0x2bb45a92, 0x5cb36a04, 0xc2d7ffa7, 0xb5d0cf31, 0x2cd99e8b, 0x5bdeae1d,
   0x9b64c2b0, 0xec63f226, 0x756aa39c, 0x026d930a, 0x9c0906a9, 0xeb0e363f,
   0x72076785, 0x05005713, 0x95bf4a82, 0xe2b87a14, 0x7bb12bae, 0x0cb61b38,
   0x92d28e9b, 0xe5d5be0d, 0x7cdcefb7, 0x0bdbdf21, 0x86d3d2d4, 0xf1d4e242,
   0x68ddb3f8, 0x1fda836e, 0x81be16cd, 0xf6b9265b, 0x6fb077e1, 0x18b74777,
   0x88085ae6, 0xff0f6a70, 0x66063bca, 0x11010b5c, 0x8f659eff, 0xf862ae69,
   0x616bffd3, 0x166ccf45, 0xa00ae278, 0xd70dd2ee, 0x4e048354, 0x3903b3c2,
   0xa7672661, 0xd06016f7, 0x4969474d, 0x3e6e77db, 0xaed16a4a, 0xd9d65adc,
   0x40df0b66, 0x37d83bf0, 0xa9bcae53, 0xdebb9ec5, 0x47b2cf7f, 0x30b5ffe9,
   0xbdbdf21c, 0xcabac28a, 0x53b39330, 0x24b4a3a6, 0xbad03605, 0xcdd70693,
   0x54de5729, 0x23d967bf, 0xb3667a2e, 0xc4614ab8, 0x5d681b02, 0x2a6f2b94,
   0xb40bbe37, 0xc30c8ea1, 0x5a05df1b, 0x2d02ef8d]"

definition crc32_step :: "u32 \<Rightarrow> u8 \<Rightarrow> u32" where
  "crc32_step crc p = (crc32_tab ! unat ((crc XOR ucast p) AND 0xFF)) XOR drop_bit 8 crc"

definition onlp_crc32 :: "u32 \<Rightarrow> u8 list \<Rightarrow> u32" where
  "onlp_crc32 crc buf = foldl crc32_step (crc XOR NOT 0) buf XOR NOT 0"

section \<open>The polynomial, one bit at a time\<close>

definition crc_bit :: "u32 \<Rightarrow> u32" where
  "crc_bit c = (if bit c 0 then 0xedb88320 XOR drop_bit 1 c else drop_bit 1 c)"

definition crc_byte :: "u32 \<Rightarrow> u32" where
  "crc_byte c = (crc_bit ^^ 8) c"

definition crc32_ref :: "u32 \<Rightarrow> u8 list \<Rightarrow> u32" where
  "crc32_ref crc buf = foldl (\<lambda>c p. crc_byte (c XOR ucast p)) (crc XOR NOT 0) buf XOR NOT 0"

lemma crc_byte_unfold:
  "crc_byte c = crc_bit (crc_bit (crc_bit (crc_bit (crc_bit (crc_bit (crc_bit (crc_bit c)))))))"
  by (simp add: crc_byte_def eval_nat_numeral)



lemma crc_bit_xor: "crc_bit (a XOR b) = crc_bit a XOR crc_bit b"
  by (auto simp: crc_bit_def bit_xor_iff drop_bit_xor ac_simps)

lemma crc_byte_xor: "crc_byte (a XOR b) = crc_byte a XOR crc_byte b"
  by (simp add: crc_byte_unfold crc_bit_xor)

text \<open>
  The table is checked against the polynomial on the sixteen low nibbles and the
  sixteen high nibbles; linearity gives the other entries.
\<close>

lemma crc_byte_low:
  "map crc_byte [0,1,2,3,4,5,6,7,8,9,10,11,12,13,14,15] =
   [0x00000000, 0x77073096, 0xee0e612c, 0x990951ba, 0x076dc419, 0x706af48f, 0xe963a535, 0x9e6495a3, 0x0edb8832, 0x79dcb8a4, 0xe0d5e91e, 0x97d2d988, 0x09b64c2b, 0x7eb17cbd, 0xe7b82d07, 0x90bf1d91]"
  by (simp add: crc_byte_unfold crc_bit_def)

lemma crc_byte_high:
  "map crc_byte [0,16,32,48,64,80,96,112,128,144,160,176,192,208,224,240] =
   [0x00000000, 0x1db71064, 0x3b6e20c8, 0x26d930ac, 0x76dc4190, 0x6b6b51f4, 0x4db26158, 0x5005713c, 0xedb88320, 0xf00f9344, 0xd6d6a3e8, 0xcb61b38c, 0x9b64c2b0, 0x86d3d2d4, 0xa00ae278, 0xbdbdf21c]"
  by (simp add: crc_byte_unfold crc_bit_def)

lemma crc32_tab_nibbles:
  "crc32_tab = concat (map (\<lambda>h. map (\<lambda>l. crc_byte h XOR crc_byte l)
     [0,1,2,3,4,5,6,7,8,9,10,11,12,13,14,15])
     [0,16,32,48,64,80,96,112,128,144,160,176,192,208,224,240])"
  using crc_byte_low crc_byte_high by (simp add: crc32_tab_def)

lemma crc32_tab_eq: "crc32_tab = map (\<lambda>i. crc_byte (word_of_nat i)) [0..<256]"
proof -
  have "crc32_tab = map crc_byte (concat (map (\<lambda>h. map (\<lambda>l. h XOR l)
      [0,1,2,3,4,5,6,7,8,9,10,11,12,13,14,15])
      [0,16,32,48,64,80,96,112,128,144,160,176,192,208,224,240]))"
    by (simp add: crc32_tab_nibbles crc_byte_xor [symmetric] map_concat comp_def del: list.map(2))
  also have "\<dots> = map crc_byte (map word_of_nat [0..<256])"
    by (rule arg_cong [where f = "map crc_byte"]) (simp add: upt_rec)
  finally show ?thesis by (simp add: comp_def)
qed

lemma crc32_tab_nth: "i < 256 \<Longrightarrow> crc32_tab ! i = crc_byte (word_of_nat i)"
  by (simp add: crc32_tab_eq)

lemma length_crc32_tab: "length crc32_tab = 256"
  by (simp add: crc32_tab_eq)

lemma crc_bit_even: "\<not> bit c 0 \<Longrightarrow> crc_bit c = drop_bit 1 c"
  by (simp add: crc_bit_def)

lemma crc_byte_shift:
  assumes "\<And>n. n < 8 \<Longrightarrow> \<not> bit y n"
  shows "crc_byte y = drop_bit 8 y"
proof -
  have "crc_byte y = drop_bit (Suc (Suc (Suc (Suc (Suc (Suc (Suc (Suc 0)))))))) y"
    using assms by (simp add: crc_byte_unfold crc_bit_even bit_drop_bit_eq)
  then show ?thesis by (simp add: numeral_eq_Suc)
qed

lemma bit_0xFF: "bit (0xFF :: 'a::len word) n \<longleftrightarrow> n < 8 \<and> n < LENGTH('a)"
proof -
  have eq: "mask 8 = (0xFF :: 'a word)" by (simp add: mask_eq_exp_minus_1)
  show ?thesis
    by (subst eq [symmetric]) (simp only: bit_mask_iff possible_bit_word conj_commute)
qed

lemma crc_byte_split: "crc_byte x = crc_byte (x AND 0xFF) XOR drop_bit 8 x"
proof -
  define m :: u32 where "m = 0xFF"
  have m: "bit m n \<longleftrightarrow> n < 8" for n
    unfolding m_def by (subst bit_0xFF) auto
  have "crc_byte (x AND NOT m) = drop_bit 8 (x AND NOT m)"
    by (rule crc_byte_shift) (simp add: bit_and_iff bit_not_iff m)
  also have "\<dots> = drop_bit 8 x"
    by (rule bit_word_eqI) (auto simp: bit_drop_bit_eq bit_and_iff bit_not_iff m dest: bit_imp_le_length)
  finally have high: "crc_byte (x AND NOT m) = drop_bit 8 x" .
  have "x = (x AND m) XOR (x AND NOT m)"
    by (rule bit_word_eqI) (auto simp: bit_xor_iff bit_and_iff bit_not_iff bit_imp_le_length)
  then have "crc_byte x = crc_byte (x AND m) XOR crc_byte (x AND NOT m)"
    by (metis crc_byte_xor)
  with high show ?thesis by (simp add: m_def)
qed

lemma crc32_step_ref: "crc32_step c p = crc_byte (c XOR ucast p)"
proof -
  define x where "x = (c XOR ucast p) AND 0xFF"
  have "unat x \<le> unat (0xFF :: u32)"
    unfolding x_def by (rule word_and_le1 [THEN word_le_nat_alt [THEN iffD1]])
  then have "crc32_tab ! unat x = crc_byte x"
    by (simp add: crc32_tab_nth)
  moreover have "drop_bit 8 (c XOR ucast p) = drop_bit 8 c"
    by (rule bit_word_eqI) (auto simp: bit_drop_bit_eq bit_xor_iff bit_ucast_iff bit_imp_le_length
        dest: bit_imp_le_length)
  ultimately show ?thesis
    using crc_byte_split [of "c XOR ucast p"] by (simp add: crc32_step_def x_def)
qed

section \<open>Error detection\<close>

lemma crc_bit_inj: "crc_bit a = crc_bit b \<Longrightarrow> a = b"
proof -
  assume eq: "crc_bit a = crc_bit b"
  have top: "bit (crc_bit c) 31 \<longleftrightarrow> bit c 0" for c
    by (auto simp: crc_bit_def bit_xor_iff bit_drop_bit_eq dest: bit_imp_le_length)
  from eq top have z: "bit a 0 = bit b 0" by metis
  with eq have "drop_bit 1 a = drop_bit 1 b"
    by (auto simp: crc_bit_def xor_left_cancel split: if_splits)
  then have s: "bit a (Suc n) = bit b (Suc n)" for n
    by (metis bit_drop_bit_eq comp_apply plus_1_eq_Suc)
  show "a = b"
  proof (rule bit_word_eqI)
    fix n show "bit a n = bit b n" by (cases n) (simp_all add: z s)
  qed
qed

lemma crc_byte_inj: "crc_byte a = crc_byte b \<longleftrightarrow> a = b"
  by (auto simp: crc_byte_unfold dest!: crc_bit_inj)

lemma crc32_step_inj: "crc32_step a p = crc32_step b p \<longleftrightarrow> a = b"
  by (simp add: crc32_step_ref crc_byte_inj xor_right_cancel)

lemma foldl_crc32_step_inj: "foldl crc32_step a ps = foldl crc32_step b ps \<longleftrightarrow> a = b"
  by (induction ps arbitrary: a b) (simp_all add: crc32_step_inj)

text \<open>The four-byte window, as one 32-bit word in the order the bytes enter the register.\<close>

fun le_word :: "u8 list \<Rightarrow> u32" where
  "le_word [] = 0"
| "le_word (b # bs) = ucast b XOR push_bit 8 (le_word bs)"

lemma crc_byte_push: "crc_byte (push_bit 8 w) = drop_bit 8 (push_bit 8 w)"
  by (rule crc_byte_shift) (simp add: bit_push_bit_iff)

lemma bit_le_word: "bit (le_word bs) n \<Longrightarrow> n < 8 * length bs"
proof (induction bs arbitrary: n)
  case Nil
  then show ?case by simp
next
  case (Cons b bs)
  show ?case
  proof (cases "n < 8")
    case False
    then have "\<not> bit (ucast b :: u32) n"
      by (auto simp: bit_ucast_iff dest: bit_imp_le_length)
    with Cons.prems have "bit (le_word bs) (n - 8)"
      by (simp add: bit_xor_iff bit_push_bit_iff)
    then have "n - 8 < 8 * length bs" by (rule Cons.IH)
    then show ?thesis by simp
  qed simp
qed

text \<open>Feeding up to four bytes is a bijective image of the register XOR the window.\<close>

lemma foldl_window:
  "length bs \<le> 4 \<Longrightarrow> foldl crc32_step c bs = (crc_byte ^^ length bs) (c XOR le_word bs)"
proof (induction bs arbitrary: c)
  case Nil
  then show ?case by simp
next
  case (Cons b bs)
  have small: "bit (le_word bs) n \<Longrightarrow> n < 24" for n
    using Cons.prems bit_le_word [of bs n] by simp
  have restore: "drop_bit 8 (push_bit 8 (le_word bs)) = le_word bs"
    by (rule bit_word_eqI) (auto simp: bit_drop_bit_eq bit_push_bit_iff dest: small)
  have "foldl crc32_step c (b # bs) = (crc_byte ^^ length bs) (crc_byte (c XOR ucast b) XOR le_word bs)"
  proof -
    have "foldl crc32_step (crc32_step c b) bs = (crc_byte ^^ length bs) (crc32_step c b XOR le_word bs)"
      using Cons by simp
    then show ?thesis by (simp add: crc32_step_ref)
  qed
  also have "\<dots> = (crc_byte ^^ length bs) (crc_byte (c XOR le_word (b # bs)))"
    by (simp add: crc_byte_xor crc_byte_push restore ac_simps)
  finally show ?case by (simp add: funpow_swap1)
qed

lemma crc_byte_pow_inj: "(crc_byte ^^ k) a = (crc_byte ^^ k) b \<longleftrightarrow> a = b"
  by (induction k) (simp_all add: crc_byte_inj)

lemma bit_le_word_low: "n < 8 \<Longrightarrow> bit (le_word (b # bs)) n = bit b n"
  by (auto simp: bit_xor_iff bit_push_bit_iff bit_ucast_iff)

lemma bit_le_word_high: "n < 24 \<Longrightarrow> bit (le_word (b # bs)) (n + 8) = bit (le_word bs) n"
  by (auto simp: bit_xor_iff bit_push_bit_iff bit_ucast_iff dest: bit_imp_le_length)

lemma le_word_inj:
  "length bs = length cs \<Longrightarrow> length bs \<le> 4 \<Longrightarrow> le_word bs = le_word cs \<Longrightarrow> bs = cs"
proof (induction bs cs rule: list_induct2)
  case Nil
  then show ?case by simp
next
  case (Cons b bs c cs)
  have "b = c"
  proof (rule bit_word_eqI)
    fix n :: nat assume "n < LENGTH(8)"
    then have "n < 8" by simp
    then show "bit b n = bit c n"
      using Cons.prems(2) bit_le_word_low by metis
  qed
  moreover have "le_word bs = le_word cs"
  proof (rule bit_word_eqI)
    fix n
    show "bit (le_word bs) n = bit (le_word cs) n"
    proof (cases "n < 24")
      case True
      then show ?thesis using Cons.prems(2) by (metis bit_le_word_high)
    next
      case False
      with Cons.prems Cons.hyps show ?thesis
        using bit_le_word [of bs n] bit_le_word [of cs n] by auto
    qed
  qed
  ultimately show ?case using Cons by simp
qed

lemma foldl_window_inj:
  assumes "length bs = length cs" "length bs \<le> 4" "bs \<noteq> cs"
  shows "foldl crc32_step c bs \<noteq> foldl crc32_step c cs"
  using assms le_word_inj by (auto simp: foldl_window crc_byte_pow_inj)

section \<open>Properties\<close>

text \<open>
  C30: the table-driven \<open>onlp_crc32\<close> computes, for every seed and every buffer, the CRC-32 of
  the polynomial \<open>0xedb88320\<close> processed one bit at a time: each of the 256 table
  entries is right and the byte step is eight bit steps.
\<close>

theorem onlp_crc32_is_crc32: "onlp_crc32 crc buf = crc32_ref crc buf"
  by (simp add: onlp_crc32_def crc32_ref_def crc32_step_ref [abs_def])

text \<open>
  The checksum can be computed in pieces: continuing from the checksum of a first buffer
  gives the checksum of the concatenation.
\<close>

theorem onlp_crc32_append: "onlp_crc32 (onlp_crc32 crc xs) ys = onlp_crc32 crc (xs @ ys)"
  by (simp add: onlp_crc32_def xor.assoc)

lemma onlp_crc32_window:
  assumes "length bs = length cs" "length bs \<le> 4" "bs \<noteq> cs"
  shows "onlp_crc32 crc (xs @ bs @ ys) \<noteq> onlp_crc32 crc (xs @ cs @ ys)"
  using foldl_window_inj [OF assms] by (simp add: onlp_crc32_def foldl_crc32_step_inj)

end
