(* ===== verification/Onie.thy ===== *)
theory Onie
  imports Crc32
begin

text \<open>
  \<open>onlplib/module/src/onie.c\<close>: decoding the ONIE TlvInfo EEPROM. The buffer the decoder
  is given is a byte list; a read outside it is \<open>None\<close>, so a result \<open>Some r\<close> says that
  every byte the C code touched was inside the buffer. The AIM linked-list insertion
  \<open>list_push\<close> is not part of the repository and is the parameter \<open>lpush\<close>.
\<close>

section \<open>State\<close>

record onie_vx =
  vx_data :: "u8 list"
  vx_size :: int

text \<open>A \<open>char*\<close> member is \<open>None\<close> for NULL, else the contents of its allocation.\<close>

record onie_info =
  product_name :: "u8 list option"
  part_number :: "u8 list option"
  serial_number :: "u8 list option"
  mac :: "u8 list"
  manufacture_date :: "u8 list option"
  device_version :: u8
  label_revision :: "u8 list option"
  platform_name :: "u8 list option"
  onie_version :: "u8 list option"
  mac_range :: u16
  manufacturer :: "u8 list option"
  country_code :: "u8 list option"
  vendor :: "u8 list option"
  diag_version :: "u8 list option"
  service_tag :: "u8 list option"
  onie_crc :: u32
  vx_list :: "onie_vx list"
  hdr_id_string :: "u8 list option"
  hdr_version :: u8
  hdr_length :: u8
  hdr_valid_crc :: u8

text \<open>\<open>memset(rv, 0, sizeof( *rv)); list_init(\&rv->vx_list)\<close>.\<close>

definition onie_zero :: onie_info where
  "onie_zero = \<lparr>product_name = None, part_number = None, serial_number = None,
     mac = replicate 6 0, manufacture_date = None, device_version = 0, label_revision = None,
     platform_name = None, onie_version = None, mac_range = 0, manufacturer = None,
     country_code = None, vendor = None, diag_version = None, service_tag = None, onie_crc = 0,
     vx_list = [], hdr_id_string = None, hdr_version = 0, hdr_length = 0, hdr_valid_crc = 0\<rparr>"

section \<open>Constants\<close>

text \<open>The bytes of the string \<open>TlvInfo\<close> with its terminating zero.\<close>

definition TLV_INFO_ID_STRING :: "u8 list" where
  "TLV_INFO_ID_STRING = [0x54, 0x6c, 0x76, 0x49, 0x6e, 0x66, 0x6f, 0]"

definition TLV_INFO_VERSION :: u8 where [simp]: "TLV_INFO_VERSION = 1"
definition TLV_HEADER_SIZE :: nat where [simp]: "TLV_HEADER_SIZE = 11"
definition TLV_TOTAL_LEN_MAX :: nat where [simp]: "TLV_TOTAL_LEN_MAX = 2048 - TLV_HEADER_SIZE"

section \<open>Reading the buffer\<close>

fun c_streq :: "u8 list \<Rightarrow> nat \<Rightarrow> u8 list \<Rightarrow> bool option" where
  "c_streq data i [] = Some True"
| "c_streq data i (c # cs) =
     (case rd data i of
        None \<Rightarrow> None
      | Some b \<Rightarrow> if b = c then c_streq data (Suc i) cs else Some False)"

text \<open>\<open>memcpy\<close> of \<open>n\<close> bytes from offset \<open>off\<close>.\<close>

definition slice :: "u8 list \<Rightarrow> nat \<Rightarrow> nat \<Rightarrow> u8 list option" where
  "slice data off n = (if off + n \<le> length data then Some (take n (drop off data)) else None)"

definition be16 :: "u8 \<Rightarrow> u8 \<Rightarrow> u16" where
  "be16 a b = push_bit 8 (ucast a) OR ucast b"

definition be32 :: "u8 \<Rightarrow> u8 \<Rightarrow> u8 \<Rightarrow> u8 \<Rightarrow> u32" where
  "be32 a b c d = push_bit 24 (ucast a) OR push_bit 16 (ucast b) OR push_bit 8 (ucast c) OR ucast d"

text \<open>\<open>ntohs(data_hdr->totallen)\<close>.\<close>

definition hdr_totallen :: "u8 list \<Rightarrow> u16 option" where
  "hdr_totallen data = (case slice data 9 2 of None \<Rightarrow> None | Some bs \<Rightarrow> Some (be16 (bs ! 0) (bs ! 1)))"

section \<open>Header and checksum\<close>

definition is_valid_tlvinfo_header :: "u8 list \<Rightarrow> bool option" where
  "is_valid_tlvinfo_header data =
     (case c_streq data 0 TLV_INFO_ID_STRING of
        None \<Rightarrow> None
      | Some False \<Rightarrow> Some False
      | Some True \<Rightarrow>
          (case rd data 8 of
             None \<Rightarrow> None
           | Some v \<Rightarrow>
               if v \<noteq> TLV_INFO_VERSION then Some False
               else case hdr_totallen data of
                      None \<Rightarrow> None
                    | Some n \<Rightarrow> Some (unat n \<le> TLV_TOTAL_LEN_MAX)))"

definition is_valid_tlv :: "u8 \<Rightarrow> bool" where
  "is_valid_tlv ty \<longleftrightarrow> ty \<noteq> 0x00 \<and> ty \<noteq> 0xFF"

definition checksum_validate :: "u8 list \<Rightarrow> int option" where
  "checksum_validate data =
     (case is_valid_tlvinfo_header data of
        None \<Rightarrow> None
      | Some False \<Rightarrow> Some 0
      | Some True \<Rightarrow>
          (case hdr_totallen data of
             None \<Rightarrow> None
           | Some n \<Rightarrow>
               (let o_crc = TLV_HEADER_SIZE + unat n - 6 in
                case rd data o_crc of
                  None \<Rightarrow> None
                | Some ty \<Rightarrow>
                    if ty \<noteq> 0xFE then Some 0
                    else case rd data (o_crc + 1) of
                      None \<Rightarrow> None
                    | Some ln \<Rightarrow>
                        if ln \<noteq> 4 then Some 0
                        else case slice data 0 (TLV_HEADER_SIZE + unat n - 4) of
                          None \<Rightarrow> None
                        | Some covered \<Rightarrow>
                            (case slice data (o_crc + 2) 4 of
                               None \<Rightarrow> None
                             | Some v \<Rightarrow>
                                 if onlp_crc32 0 covered \<noteq> be32 (v ! 0) (v ! 1) (v ! 2) (v ! 3)
                                 then Some (-1) else Some 0))))"

section \<open>Decoding\<close>

text \<open>
  \<open>decode_tlv__\<close>: \<open>off\<close> is the offset of \<open>tlv->value\<close>. A string member is
  \<open>aim_zmalloc(length + 1)\<close> filled with the value; \<open>MAC_BASE\<close> copies six bytes whatever the
  length field says, and the numeric members read one, two or four bytes.
\<close>

definition decode_tlv ::
  "(onie_vx \<Rightarrow> onie_vx list \<Rightarrow> onie_vx list) \<Rightarrow> u8 list \<Rightarrow> u8 \<Rightarrow> u8 \<Rightarrow> nat \<Rightarrow> onie_info
     \<Rightarrow> onie_info option" where
  "decode_tlv lpush data ty ln off info =
     (let str = map_option (\<lambda>v. v @ [0]) (slice data off (unat ln)) in
      if ty = 0x21 then map_option (\<lambda>s. info\<lparr>product_name := Some s\<rparr>) str
      else if ty = 0x22 then map_option (\<lambda>s. info\<lparr>part_number := Some s\<rparr>) str
      else if ty = 0x23 then map_option (\<lambda>s. info\<lparr>serial_number := Some s\<rparr>) str
      else if ty = 0x25 then map_option (\<lambda>s. info\<lparr>manufacture_date := Some s\<rparr>) str
      else if ty = 0x27 then map_option (\<lambda>s. info\<lparr>label_revision := Some s\<rparr>) str
      else if ty = 0x28 then map_option (\<lambda>s. info\<lparr>platform_name := Some s\<rparr>) str
      else if ty = 0x29 then map_option (\<lambda>s. info\<lparr>onie_version := Some s\<rparr>) str
      else if ty = 0x2B then map_option (\<lambda>s. info\<lparr>manufacturer := Some s\<rparr>) str
      else if ty = 0x2C then map_option (\<lambda>s. info\<lparr>country_code := Some s\<rparr>) str
      else if ty = 0x2D then map_option (\<lambda>s. info\<lparr>vendor := Some s\<rparr>) str
      else if ty = 0x2F then map_option (\<lambda>s. info\<lparr>service_tag := Some s\<rparr>) str
      else if ty = 0x2E then map_option (\<lambda>s. info\<lparr>diag_version := Some s\<rparr>) str
      else if ty = 0x24 then map_option (\<lambda>v. info\<lparr>mac := v\<rparr>) (slice data off 6)
      else if ty = 0x26 then map_option (\<lambda>v. info\<lparr>device_version := v ! 0\<rparr>) (slice data off 1)
      else if ty = 0x2A then
        map_option (\<lambda>v. info\<lparr>mac_range := be16 (v ! 0) (v ! 1)\<rparr>) (slice data off 2)
      else if ty = 0xFD then
        map_option (\<lambda>v. info\<lparr>vx_list := lpush
            \<lparr>vx_data = v @ replicate (256 - unat ln) 0, vx_size = int (unat ln)\<rparr> (vx_list info)\<rparr>)
          (slice data off (unat ln))
      else if ty = 0xFE then
        map_option (\<lambda>v. info\<lparr>onie_crc := be32 (v ! 0) (v ! 1) (v ! 2) (v ! 3)\<rparr>) (slice data off 4)
      else Some info)"

text \<open>The \<open>while(curr_tlv < tlv_end)\<close> loop; each pass moves on by at least the two header bytes.\<close>

function decode_loop ::
  "(onie_vx \<Rightarrow> onie_vx list \<Rightarrow> onie_vx list) \<Rightarrow> u8 list \<Rightarrow> nat \<Rightarrow> nat \<Rightarrow> onie_info
     \<Rightarrow> (int \<times> onie_info) option" where
  "decode_loop lpush data curr_tlv tlv_end info =
     (if curr_tlv < tlv_end then
        (case rd data curr_tlv of
           None \<Rightarrow> None
         | Some ty \<Rightarrow>
             if \<not> is_valid_tlv ty then Some (-1, info)
             else (case rd data (curr_tlv + 1) of
                     None \<Rightarrow> None
                   | Some ln \<Rightarrow>
                       (case decode_tlv lpush data ty ln (curr_tlv + 2) info of
                          None \<Rightarrow> None
                        | Some info' \<Rightarrow>
                            decode_loop lpush data (curr_tlv + 2 + unat ln) tlv_end info')))
      else Some (0, info))"
  by pat_completeness auto
termination
  by (relation "measure (\<lambda>(p, d, c, e, i). e - c)") auto

declare decode_loop.simps [simp del]

text \<open>
  \<open>onlp_onie_decode\<close>. The guard compares the \<open>int\<close> argument with a \<open>sizeof\<close>, so a negative
  size is converted to a large unsigned value and passes.
\<close>

definition onlp_onie_decode ::
  "(onie_vx \<Rightarrow> onie_vx list \<Rightarrow> onie_vx list) \<Rightarrow> onie_info option \<Rightarrow> u8 list option \<Rightarrow> int
     \<Rightarrow> (int \<times> onie_info option) option" where
  "onlp_onie_decode lpush rv datap sz =
     (case (rv, datap) of
        (None, _) \<Rightarrow> Some (-1, rv)
      | (_, None) \<Rightarrow> Some (-1, rv)
      | (Some _, Some data) \<Rightarrow>
          if sz \<noteq> 0 \<and> unat (word_of_int sz :: u64) < TLV_HEADER_SIZE then Some (-1, rv)
          else case is_valid_tlvinfo_header data of
            None \<Rightarrow> None
          | Some False \<Rightarrow> Some (-1, Some onie_zero)
          | Some True \<Rightarrow>
              (case (rd data 8, hdr_totallen data) of
                 (Some v, Some n) \<Rightarrow>
                   (let info = onie_zero\<lparr>hdr_id_string := Some TLV_INFO_ID_STRING,
                                 hdr_version := v, hdr_length := ucast n\<rparr> in
                    if hdr_version info \<noteq> 1 then Some (-1, Some info)
                    else case checksum_validate data of
                      None \<Rightarrow> None
                    | Some c \<Rightarrow>
                        if c \<noteq> 0 then Some (-1, Some info)
                        else map_option (\<lambda>(r, i). (r, Some i))
                          (decode_loop lpush data TLV_HEADER_SIZE (TLV_HEADER_SIZE + unat n) info))
               | _ \<Rightarrow> None))"

section \<open>Reference: TlvInfo images\<close>

type_synonym tlv = "u8 \<times> u8 list"

fun tlv_bytes :: "tlv \<Rightarrow> u8 list" where
  "tlv_bytes (ty, v) = ty # word_of_nat (length v) # v"

definition body_bytes :: "tlv list \<Rightarrow> u8 list" where
  "body_bytes ts = concat (map tlv_bytes ts)"

fun wf_tlv :: "tlv \<Rightarrow> bool" where
  "wf_tlv (ty, v) \<longleftrightarrow> is_valid_tlv ty \<and> length v \<le> 255 \<and>
     (ty = 0x24 \<longrightarrow> 6 \<le> length v) \<and> (ty = 0x26 \<longrightarrow> 1 \<le> length v) \<and>
     (ty = 0x2A \<longrightarrow> 2 \<le> length v) \<and> (ty = 0xFE \<longrightarrow> 4 \<le> length v)"

definition be_bytes16 :: "u16 \<Rightarrow> u8 list" where
  "be_bytes16 w = [ucast (drop_bit 8 w), ucast w]"

definition be_bytes32 :: "u32 \<Rightarrow> u8 list" where
  "be_bytes32 w = [ucast (drop_bit 24 w), ucast (drop_bit 16 w), ucast (drop_bit 8 w), ucast w]"

definition tlv_header :: "nat \<Rightarrow> u8 list" where
  "tlv_header n = TLV_INFO_ID_STRING @ [TLV_INFO_VERSION] @ be_bytes16 (word_of_nat n)"

definition onie_image :: "tlv list \<Rightarrow> u8 list" where
  "onie_image ts =
     (let pre = tlv_header (length (body_bytes ts) + 6) @ body_bytes ts @ [0xFE, 4]
      in pre @ be_bytes32 (onlp_crc32 0 pre))"

definition put_tlv :: "(onie_vx \<Rightarrow> onie_vx list \<Rightarrow> onie_vx list) \<Rightarrow> onie_info \<Rightarrow> tlv \<Rightarrow> onie_info" where
  "put_tlv lpush info t =
     the (decode_tlv lpush (snd t) (fst t) (word_of_nat (length (snd t))) 0 info)"

section \<open>Lemmas on the reads\<close>

lemma slice_mid [simp]: "n \<le> length v \<Longrightarrow> slice (a @ v @ b) (length a) n = Some (take n v)"
  by (simp add: slice_def)

lemma slice_here [simp]: "n \<le> length v \<Longrightarrow> slice v 0 n = Some (take n v)"
  by (simp add: slice_def)

lemma slice_Some: "off + n \<le> length data \<Longrightarrow> \<exists>v. slice data off n = Some v"
  by (simp add: slice_def)

lemma unat_len [simp]: "n \<le> 255 \<Longrightarrow> unat (word_of_nat n :: u8) = n"
  by (simp add: unat_of_nat)

lemma decode_tlv_local:
  assumes "wf_tlv (ty, v)"
  shows "decode_tlv lpush (a @ v @ b) ty (word_of_nat (length v)) (length a) info =
         Some (put_tlv lpush info (ty, v))"
  using assms by (auto simp: decode_tlv_def put_tlv_def Let_def)

lemma decode_tlv_in_bounds:
  "off + 255 \<le> length data \<Longrightarrow> \<exists>i. decode_tlv lpush data ty ln off info = Some i"
proof -
  assume b: "off + 255 \<le> length data"
  have u: "unat ln \<le> 255" by (rule unat_u8)
  have "\<exists>v. slice data off n = Some v" if "n \<le> 255" for n
    using that b by (intro slice_Some) simp
  then have "\<exists>v. slice data off (unat ln) = Some v" "\<exists>v. slice data off 6 = Some v"
    "\<exists>v. slice data off 1 = Some v" "\<exists>v. slice data off 2 = Some v" "\<exists>v. slice data off 4 = Some v"
    using u by simp_all
  then show ?thesis by (auto simp: decode_tlv_def Let_def)
qed

section \<open>The loop\<close>

lemma decode_loop_in_bounds:
  "tlv_end + 256 \<le> length data \<Longrightarrow> \<exists>r. decode_loop lpush data pos tlv_end info = Some r"
proof (induction lpush data pos tlv_end info rule: decode_loop.induct)
  case (1 lpush data pos tlv_end info)
  show ?case
  proof (cases "pos < tlv_end")
    case True
    with "1.prems" obtain ty ln where r: "rd data pos = Some ty" "rd data (pos + 1) = Some ln"
      by (simp add: rd_def)
    from True "1.prems" obtain i where "decode_tlv lpush data ty ln (pos + 2) info = Some i"
      using decode_tlv_in_bounds [of "pos + 2" data] by fastforce
    with True r "1.IH" "1.prems" show ?thesis
      by (subst decode_loop.simps) auto
  qed (simp add: decode_loop.simps)
qed

lemma decode_loop_body:
  assumes "list_all wf_tlv ts"
  shows "decode_loop lpush (a @ body_bytes ts @ b) (length a) (length a + length (body_bytes ts)) info =
         Some (0, foldl (put_tlv lpush) info ts)"
  using assms
proof (induction ts arbitrary: a info)
  case Nil
  then show ?case by (simp add: body_bytes_def decode_loop.simps)
next
  case (Cons t ts)
  obtain ty v where t: "t = (ty, v)" by (cases t)
  with Cons.prems have wf: "wf_tlv (ty, v)" by simp
  then have ty: "is_valid_tlv ty" and len: "length v \<le> 255" by simp_all
  let ?l = "word_of_nat (length v) :: u8"
  let ?data = "a @ body_bytes (t # ts) @ b"
  have d2: "?data = (a @ ty # ?l # v) @ body_bytes ts @ b"
    by (simp add: body_bytes_def t)
  have rds: "rd ?data (length a) = Some ty" "rd ?data (length a + 1) = Some ?l"
    using rd_append2 [of a _ 0] rd_append2 [of a _ 1] by (simp_all add: body_bytes_def t)
  have dec: "decode_tlv lpush ?data ty ?l (length a + 2) info = Some (put_tlv lpush info t)"
    using decode_tlv_local [OF wf, of lpush "a @ [ty, ?l]" "body_bytes ts @ b" info]
    by (simp add: body_bytes_def t)
  have rest: "decode_loop lpush ?data (length a + 2 + length v)
      (length a + length (body_bytes (t # ts))) (put_tlv lpush info t) =
      Some (0, foldl (put_tlv lpush) (put_tlv lpush info t) ts)"
    using Cons.IH [of "a @ ty # ?l # v" "put_tlv lpush info t"] Cons.prems
    by (simp add: d2 body_bytes_def t add.assoc)
  have "length a < length a + length (body_bytes (t # ts))"
    by (simp add: body_bytes_def t)
  with rds ty dec rest len show ?case
    by (subst decode_loop.simps) simp
qed

section \<open>Header and checksum of an image\<close>

lemma be16_bytes [simp]: "be16 (ucast (drop_bit 8 w)) (ucast w) = w"
  unfolding be16_def
  by (rule bit_word_eqI) (auto simp: bit_or_iff bit_push_bit_iff bit_ucast_iff bit_drop_bit_eq)

lemma be32_bytes [simp]:
  "be32 (ucast (drop_bit 24 w)) (ucast (drop_bit 16 w)) (ucast (drop_bit 8 w)) (ucast w) = w"
proof (rule bit_word_eqI)
  fix n :: nat assume "n < LENGTH(32)"
  then consider "n < 8" | "8 \<le> n" "n < 16" | "16 \<le> n" "n < 24" | "24 \<le> n" "n < 32" by fastforce
  then show "bit (be32 (ucast (drop_bit 24 w)) (ucast (drop_bit 16 w)) (ucast (drop_bit 8 w)) (ucast w)) n
    = bit w n"
    by cases (auto simp: be32_def bit_or_iff bit_push_bit_iff bit_ucast_iff bit_drop_bit_eq)
qed

lemma length_tlv_header [simp]: "length (tlv_header n) = 11"
  by (simp add: tlv_header_def TLV_INFO_ID_STRING_def be_bytes16_def)

lemma length_be_bytes32 [simp]: "length (be_bytes32 w) = 4"
  by (simp add: be_bytes32_def)

lemma tlv_header_reads:
  "c_streq (tlv_header n @ r) 0 TLV_INFO_ID_STRING = Some True"
  "rd (tlv_header n @ r) 8 = Some 1"
  "hdr_totallen (tlv_header n @ r) = Some (word_of_nat n)"
  by (simp_all add: tlv_header_def TLV_INFO_ID_STRING_def be_bytes16_def hdr_totallen_def slice_def
      rd_def)

lemma unat_totallen [simp]: "n \<le> 2037 \<Longrightarrow> unat (word_of_nat n :: u16) = n"
  by (simp add: unat_of_nat)

lemma tlv_header_valid: "n \<le> 2037 \<Longrightarrow> is_valid_tlvinfo_header (tlv_header n @ r) = Some True"
  by (simp add: is_valid_tlvinfo_header_def tlv_header_reads)

lemma checksum_validate_image:
  assumes "n = length mid + 6" and "n \<le> 2037"
  shows "checksum_validate (tlv_header n @ mid @ [0xFE, 4] @ be_bytes32 c @ rest) =
         Some (if onlp_crc32 0 (tlv_header n @ mid @ [0xFE, 4]) \<noteq> c then -1 else 0)"
proof -
  let ?d = "tlv_header n @ mid @ [0xFE, 4] @ be_bytes32 c @ rest"
  let ?p = "tlv_header n @ mid @ [0xFE, 4]"
  have o: "11 + n - 6 = length (tlv_header n @ mid)" using assms by simp
  have tl: "hdr_totallen ?d = Some (word_of_nat n)" "unat (word_of_nat n :: u16) = n"
    using assms(2) by (simp_all add: tlv_header_reads)
  have ty: "rd ?d (11 + n - 6) = Some 0xFE" "rd ?d (11 + n - 6 + 1) = Some 4"
    unfolding o using rd_append2 [of "tlv_header n @ mid" _ 0] rd_append2 [of "tlv_header n @ mid" _ 1]
    by simp_all
  have crc: "slice ?d (11 + n - 6 + 2) 4 = Some (be_bytes32 c)"
    using slice_mid [of 4 "be_bytes32 c" ?p rest] assms by simp
  have cov: "slice ?d 0 (11 + n - 4) = Some ?p"
    using slice_mid [of "length ?p" ?p "[]" "be_bytes32 c @ rest"] assms by simp
  have v: "is_valid_tlvinfo_header ?d = Some True" using assms by (simp add: tlv_header_valid)
  have be: "be32 (be_bytes32 c ! 0) (be_bytes32 c ! 1) (be_bytes32 c ! 2) (be_bytes32 c ! 3) = c"
    by (simp add: be_bytes32_def)
  show ?thesis
    unfolding checksum_validate_def v tl(1) Let_def
    using tl(2) ty crc cov be by simp
qed

lemma onlp_onie_decode_header:
  assumes "n \<le> 2037" and "sz = 0 \<or> 11 \<le> unat (word_of_int sz :: u64)"
  shows "onlp_onie_decode lpush (Some r) (Some (tlv_header n @ d)) sz =
    (let info = onie_zero\<lparr>hdr_id_string := Some TLV_INFO_ID_STRING, hdr_version := 1,
                          hdr_length := ucast (word_of_nat n :: u16)\<rparr> in
     case checksum_validate (tlv_header n @ d) of
       None \<Rightarrow> None
     | Some c \<Rightarrow> if c \<noteq> 0 then Some (-1, Some info)
                 else map_option (\<lambda>(r, i). (r, Some i))
                   (decode_loop lpush (tlv_header n @ d) 11 (11 + n) info))"
  using assms
  by (auto simp: onlp_onie_decode_def tlv_header_valid tlv_header_reads Let_def split: option.splits)

section \<open>What an image means\<close>

text \<open>The value of the last TLV of a type: later entries replace earlier ones.\<close>

definition last_tlv :: "u8 \<Rightarrow> tlv list \<Rightarrow> u8 list option" where
  "last_tlv ty ts = map_option snd (find (\<lambda>t. fst t = ty) (rev ts))"

definition tlv_str :: "u8 \<Rightarrow> tlv list \<Rightarrow> u8 list option" where
  "tlv_str ty ts = map_option (\<lambda>v. v @ [0]) (last_tlv ty ts)"

definition tlv_vx :: "u8 list \<Rightarrow> onie_vx" where
  "tlv_vx v = \<lparr>vx_data = v @ replicate (256 - length v) 0, vx_size = int (length v)\<rparr>"

definition onie_spec :: "(onie_vx \<Rightarrow> onie_vx list \<Rightarrow> onie_vx list) \<Rightarrow> u8 \<Rightarrow> tlv list \<Rightarrow> onie_info" where
  "onie_spec lpush len ts =
     \<lparr>product_name = tlv_str 0x21 ts, part_number = tlv_str 0x22 ts, serial_number = tlv_str 0x23 ts,
      mac = (case last_tlv 0x24 ts of None \<Rightarrow> replicate 6 0 | Some v \<Rightarrow> take 6 v),
      manufacture_date = tlv_str 0x25 ts,
      device_version = (case last_tlv 0x26 ts of None \<Rightarrow> 0 | Some v \<Rightarrow> v ! 0),
      label_revision = tlv_str 0x27 ts, platform_name = tlv_str 0x28 ts, onie_version = tlv_str 0x29 ts,
      mac_range = (case last_tlv 0x2A ts of None \<Rightarrow> 0 | Some v \<Rightarrow> be16 (v ! 0) (v ! 1)),
      manufacturer = tlv_str 0x2B ts, country_code = tlv_str 0x2C ts, vendor = tlv_str 0x2D ts,
      diag_version = tlv_str 0x2E ts, service_tag = tlv_str 0x2F ts,
      onie_crc = (case last_tlv 0xFE ts of None \<Rightarrow> 0 | Some v \<Rightarrow> be32 (v ! 0) (v ! 1) (v ! 2) (v ! 3)),
      vx_list = foldl (\<lambda>l t. lpush (tlv_vx (snd t)) l) [] (filter (\<lambda>t. fst t = 0xFD) ts),
      hdr_id_string = Some TLV_INFO_ID_STRING, hdr_version = 1, hdr_length = len,
      hdr_valid_crc = 0\<rparr>"

lemma last_tlv_Nil [simp]: "last_tlv ty [] = None"
  by (simp add: last_tlv_def)

lemma last_tlv_snoc [simp]: "last_tlv ty (ts @ [t]) = (if fst t = ty then Some (snd t) else last_tlv ty ts)"
  by (simp add: last_tlv_def)

definition tlv_codes :: "u8 set" where
  "tlv_codes = {0x21, 0x22, 0x23, 0x25, 0x27, 0x28, 0x29, 0x2B, 0x2C, 0x2D, 0x2F, 0x2E, 0x24, 0x26, 0x2A, 0xFD, 0xFE}"

lemma put_tlv_unknown: "ty \<notin> tlv_codes \<Longrightarrow> put_tlv lpush info (ty, v) = info"
  by (simp add: put_tlv_def decode_tlv_def tlv_codes_def)

lemma put_tlv_spec:
  assumes "wf_tlv t"
  shows "put_tlv lpush (onie_spec lpush len ts) t = onie_spec lpush len (ts @ [t])"
proof -
  obtain ty v where t: "t = (ty, v)" by (cases t)
  show ?thesis
  proof (cases "ty \<in> tlv_codes")
    case True
    then consider "ty = 0x21" | "ty = 0x22" | "ty = 0x23" | "ty = 0x25" | "ty = 0x27" | "ty = 0x28" | "ty = 0x29" | "ty = 0x2B" | "ty = 0x2C" | "ty = 0x2D" | "ty = 0x2F" | "ty = 0x2E" | "ty = 0x24" | "ty = 0x26" | "ty = 0x2A" | "ty = 0xFD" | "ty = 0xFE"
      unfolding tlv_codes_def by blast
    then show ?thesis
      using assms unfolding t
      by cases (simp_all add: put_tlv_def decode_tlv_def onie_spec_def tlv_str_def tlv_vx_def)
  next
    case False
    then have "put_tlv lpush (onie_spec lpush len ts) t = onie_spec lpush len ts"
      unfolding t by (rule put_tlv_unknown)
    moreover have "last_tlv c (ts @ [t]) = last_tlv c ts" if "c \<in> tlv_codes" for c
      using that False by (auto simp: t)
    then have "onie_spec lpush len (ts @ [t]) = onie_spec lpush len ts"
      using False by (simp add: onie_spec_def tlv_str_def tlv_codes_def t)
    ultimately show ?thesis by simp
  qed
qed

lemma foldl_put_tlv_spec:
  "list_all wf_tlv us \<Longrightarrow>
   foldl (put_tlv lpush) (onie_spec lpush len ts) us = onie_spec lpush len (ts @ us)"
  by (induction us arbitrary: ts) (simp_all add: put_tlv_spec)

lemma onie_spec_Nil:
  "onie_spec lpush len [] = onie_zero\<lparr>hdr_id_string := Some TLV_INFO_ID_STRING, hdr_version := 1,
     hdr_length := len\<rparr>"
  by (simp add: onie_spec_def onie_zero_def tlv_str_def)

lemma decode_unchecked:
  assumes "list_all wf_tlv ts" and n: "n = length (body_bytes ts)" and "n \<le> 2037"
    and sz: "sz = 0 \<or> 11 \<le> unat (word_of_int sz :: u64)"
    and ok: "checksum_validate (tlv_header n @ body_bytes ts @ rest) = Some 0"
  shows "onlp_onie_decode lpush (Some r) (Some (tlv_header n @ body_bytes ts @ rest)) sz =
         Some (0, Some (onie_spec lpush (ucast (word_of_nat n :: u16)) ts))"
proof -
  let ?info = "onie_spec lpush (ucast (word_of_nat n :: u16)) []"
  have "decode_loop lpush (tlv_header n @ body_bytes ts @ rest) 11 (11 + n) ?info =
      Some (0, onie_spec lpush (ucast (word_of_nat n :: u16)) ts)"
    using decode_loop_body [OF assms(1), of lpush "tlv_header n" rest ?info]
      foldl_put_tlv_spec [OF assms(1), of lpush _ "[]"] by (simp add: n)
  with onlp_onie_decode_header [OF assms(3) sz, of lpush r "body_bytes ts @ rest"] ok
  show ?thesis by (simp add: onie_spec_Nil)
qed

definition crc_tlv :: "tlv list \<Rightarrow> tlv" where
  "crc_tlv ts = (0xFE, be_bytes32 (onlp_crc32 0
     (tlv_header (length (body_bytes ts) + 6) @ body_bytes ts @ [0xFE, 4])))"

lemma onie_image_alt:
  "onie_image ts = tlv_header (length (body_bytes ts) + 6) @ body_bytes (ts @ [crc_tlv ts])"
  by (simp add: onie_image_def crc_tlv_def body_bytes_def Let_def)

lemma length_body_crc: "length (body_bytes (ts @ [crc_tlv ts])) = length (body_bytes ts) + 6"
  by (simp add: body_bytes_def crc_tlv_def)

lemma wf_crc_tlv: "wf_tlv (crc_tlv ts)"
  by (simp add: crc_tlv_def is_valid_tlv_def)

section \<open>Properties\<close>

text \<open>The decoder on the image of a list of TLVs.\<close>

lemma decode_of_image:
  assumes "list_all wf_tlv ts" and "length (body_bytes ts) + 6 \<le> TLV_TOTAL_LEN_MAX"
    and "sz = 0 \<or> 11 \<le> unat (word_of_int sz :: u64)"
  shows "onlp_onie_decode lpush (Some r) (Some (onie_image ts @ rest)) sz =
    Some (0, Some (onie_spec lpush (ucast (word_of_nat (length (body_bytes ts) + 6) :: u16))
                     (ts @ [crc_tlv ts])))"
proof -
  let ?n = "length (body_bytes ts) + 6"
  have "checksum_validate (tlv_header ?n @ body_bytes ts @ [0xFE, 4] @
      be_bytes32 (onlp_crc32 0 (tlv_header ?n @ body_bytes ts @ [0xFE, 4])) @ rest) = Some 0"
    using assms(2) by (subst checksum_validate_image) simp_all
  then have "checksum_validate (tlv_header ?n @ body_bytes (ts @ [crc_tlv ts]) @ rest) = Some 0"
    by (simp add: body_bytes_def crc_tlv_def)
  then show ?thesis
    using assms wf_crc_tlv unfolding onie_image_alt append_assoc
    by (intro decode_unchecked) (simp_all add: length_body_crc)
qed

text \<open>
  C2: decoding an image built from any list of well-formed TLVs (total length within the
  format's limit) succeeds and yields exactly the information those TLVs carry: for each field the
  value of its last TLV, the vendor extensions in \<open>list_push\<close> order and the stored CRC.
\<close>

theorem onie_decode_image:
  assumes "list_all wf_tlv ts" and "length (body_bytes ts) + 6 \<le> TLV_TOTAL_LEN_MAX"
    and "sz = 0 \<or> 11 \<le> unat (word_of_int sz :: u64)"
  shows "onlp_onie_decode lpush (Some r) (Some (onie_image ts @ rest)) sz =
    Some (0, Some (onie_spec lpush (ucast (word_of_nat (length (body_bytes ts) + 6) :: u16))
                     (ts @ [crc_tlv ts])))"
  using assms by (rule decode_of_image)

theorem onie_decode_image_witness:
  "onlp_onie_decode (#) (Some onie_zero) (Some (onie_image [(0x21, [65, 66]), (0x26, [7])] @ [])) (-1) =
    Some (0, Some (onie_spec (#) (ucast (word_of_nat
      (length (body_bytes [(0x21, [65, 66]), (0x26, [7])]) + 6) :: u16))
      ([(0x21, [65, 66]), (0x26, [7])] @ [crc_tlv [(0x21, [65, 66]), (0x26, [7])]])))"
  by (rule onie_decode_image) (simp_all add: is_valid_tlv_def body_bytes_def)



lemma onlp_onie_decode_total:
  assumes "2304 \<le> length data"
  shows "\<exists>res. onlp_onie_decode lpush (Some r) (Some data) sz = Some res"
proof (cases "is_valid_tlvinfo_header data")
  case None
  have "c_streq data i cs \<noteq> None" if "i + length cs \<le> length data" for i cs
    using that by (induction cs arbitrary: i) (auto simp: rd_def)
  from this [of 0 TLV_INFO_ID_STRING] assms None show ?thesis
    by (auto simp: is_valid_tlvinfo_header_def TLV_INFO_ID_STRING_def rd_def hdr_totallen_def
        slice_def split: option.splits bool.splits if_splits)
next
  case (Some v)
  show ?thesis
  proof (cases v)
    case False
    with Some show ?thesis by (simp add: onlp_onie_decode_def)
  next
    case True
    with Some obtain n where n: "hdr_totallen data = Some n" "unat n \<le> 2037"
      by (auto simp: is_valid_tlvinfo_header_def split: option.splits bool.splits if_splits)
    have c: "\<exists>c. checksum_validate data = Some c"
      using assms n Some True by (auto simp: checksum_validate_def Let_def rd_def slice_def)
    have "\<exists>q. decode_loop lpush data 11 (11 + unat n) info = Some q" for info
      using assms n(2) by (intro decode_loop_in_bounds) simp
    with c n assms Some True show ?thesis
      by (auto simp: onlp_onie_decode_def rd_def Let_def split: option.splits)
  qed
qed

text \<open>
  C32: whatever the bytes are, the decoder stops and reads nothing at or beyond offset 2304
  (the longest accepted total length, one TLV header and 255 value bytes): on a buffer of at least
  that size there is always a result.
\<close>

theorem onie_decode_in_bounds:
  assumes "2304 \<le> length data"
  shows "\<exists>res. onlp_onie_decode lpush (Some r) (Some data) sz = Some res"
  using assms by (rule onlp_onie_decode_total)

theorem onie_decode_in_bounds_witness:
  "\<exists>res. onlp_onie_decode (#) (Some onie_zero) (Some (replicate 2304 0)) (-1) = Some res"
  by (rule onie_decode_in_bounds) simp

text \<open>
  The integrity check is only made when the last TLV is a CRC-32: if the type byte six bytes
  before the end is anything else, the decoder accepts the image and returns every TLV it holds,
  checked by nothing (the comment in the source says the last TLV is made sure to be a CRC-32).
\<close>

theorem onie_decode_without_crc_accepted:
  assumes "list_all wf_tlv ts" and n: "n = length (body_bytes ts)" and "n \<le> TLV_TOTAL_LEN_MAX"
    and "sz = 0 \<or> 11 \<le> unat (word_of_int sz :: u64)"
    and "rd (tlv_header n @ body_bytes ts @ rest) (n + 5) \<noteq> Some 0xFE"
  shows "onlp_onie_decode lpush (Some r) (Some (tlv_header n @ body_bytes ts @ rest)) sz =
         Some (0, Some (onie_spec lpush (ucast (word_of_nat n :: u16)) ts))"
proof -
  let ?d = "tlv_header n @ body_bytes ts @ rest"
  have "n + 5 < length ?d" using n by simp
  then obtain ty where "rd ?d (n + 5) = Some ty" by (simp add: rd_def)
  with assms have "rd ?d (11 + n - 6) = Some ty" "ty \<noteq> 0xFE" by (simp_all add: add.commute)
  then have "checksum_validate ?d = Some 0"
    using assms(3) by (simp add: checksum_validate_def tlv_header_valid tlv_header_reads Let_def)
  then show ?thesis using assms by (intro decode_unchecked) simp_all
qed

theorem onie_decode_without_crc_accepted_witness:
  "onlp_onie_decode (#) (Some onie_zero)
     (Some (tlv_header (length (body_bytes [(0x21, [1, 2, 3, 4, 5])])) @
        body_bytes [(0x21, [1, 2, 3, 4, 5])] @ [])) 18 =
   Some (0, Some (onie_spec (#) (ucast (word_of_nat (length (body_bytes [(0x21, [1, 2, 3, 4, 5])])) :: u16))
     [(0x21, [1, 2, 3, 4, 5])]))"
  by (rule onie_decode_without_crc_accepted)
    (simp_all add: is_valid_tlv_def body_bytes_def rd_def tlv_header_def TLV_INFO_ID_STRING_def
      be_bytes16_def)

text \<open>
  The buffer length the caller passes is not checked against the total length in the header:
  an 11-byte file whose header announces 100 bytes makes the decoder read past the buffer.
\<close>

theorem onie_decode_reads_past_short_file:
  "onlp_onie_decode lpush (Some r) (Some (tlv_header 100)) 11 = None"
  using tlv_header_valid [of 100 "[]"] tlv_header_reads [of 100 "[]"]
  by (simp add: onlp_onie_decode_def checksum_validate_def rd_def [of "tlv_header 100" "11 + 100 - 6"]
      Let_def) (simp add: rd_def)

end
