(* ===== verification/Locks.thy ===== *)
theory Locks
  imports Prelude "HOL-Library.Monad_Syntax"
begin

text \<open>
  \<open>onlp_locks.h\<close>, \<open>onlp_locks.c\<close> and \<open>onlplib/shlocks.c\<close>: every public ONLP call is a \<open>_locked__\<close>
  function between a lock and an unlock. The lock is either a semaphore of the process or, in the
  default build, a robust mutex in a System V shared-memory segment that all processes map.
  The pthread mutex is modelled with its POSIX behaviour (robust, process-shared, error checking).
\<close>

section \<open>A robust, error-checking mutex\<close>

datatype pmutex = MFree | MHeld nat | MOwnerDead | MInconsistent nat | MNotRecoverable

text \<open>\<open>None\<close>: the caller blocks. The codes are those of \<open>errno.h\<close>.\<close>

definition EPERM :: int where [simp]: "EPERM = 1"
definition EEXIST :: int where [simp]: "EEXIST = 17"
definition EDEADLK :: int where [simp]: "EDEADLK = 35"
definition EOWNERDEAD :: int where [simp]: "EOWNERDEAD = 130"
definition ENOTRECOVERABLE :: int where [simp]: "ENOTRECOVERABLE = 131"

fun pthread_mutex_lock :: "nat \<Rightarrow> pmutex \<Rightarrow> (int \<times> pmutex) option" where
  "pthread_mutex_lock me MFree = Some (0, MHeld me)"
| "pthread_mutex_lock me (MHeld t) = (if t = me then Some (EDEADLK, MHeld t) else None)"
| "pthread_mutex_lock me MOwnerDead = Some (EOWNERDEAD, MInconsistent me)"
| "pthread_mutex_lock me (MInconsistent t) = (if t = me then Some (EDEADLK, MInconsistent t) else None)"
| "pthread_mutex_lock me MNotRecoverable = Some (ENOTRECOVERABLE, MNotRecoverable)"

fun pthread_mutex_consistent :: "pmutex \<Rightarrow> pmutex" where
  "pthread_mutex_consistent (MInconsistent t) = MHeld t"
| "pthread_mutex_consistent m = m"

fun pthread_mutex_unlock :: "nat \<Rightarrow> pmutex \<Rightarrow> int \<times> pmutex" where
  "pthread_mutex_unlock me (MHeld t) = (if t = me then (0, MFree) else (EPERM, MHeld t))"
| "pthread_mutex_unlock me (MInconsistent t) = (if t = me then (0, MNotRecoverable) else (EPERM, MInconsistent t))"
| "pthread_mutex_unlock me m = (EPERM, m)"

text \<open>The kernel's part when a process dies: a mutex it holds is marked.\<close>

fun robust_exit :: "nat \<Rightarrow> pmutex \<Rightarrow> pmutex" where
  "robust_exit p (MHeld t) = (if t = p then MOwnerDead else MHeld t)"
| "robust_exit p (MInconsistent t) = (if t = p then MOwnerDead else MInconsistent t)"
| "robust_exit p m = m"

section \<open>The shared lock (\<open>shlocks.c\<close>)\<close>

record shlock =
  magic :: u32
  lock_name :: string
  mutex :: pmutex

definition SHLOCK_MAGIC :: u32 where "SHLOCK_MAGIC = 0xDEADBEEF"

text \<open>
  \<open>shared_pthread_mutex_init__\<close>, given what the four pthread calls return: 0 only when all of them
  succeed, and the first failure skips the rest.
\<close>

definition shared_pthread_mutex_init :: "int \<Rightarrow> int \<Rightarrow> int \<Rightarrow> int \<Rightarrow> int" where
  "shared_pthread_mutex_init setrobust setpshared settype mutex_init =
     (if setrobust \<noteq> 0 then -1
      else if setpshared \<noteq> 0 then -1
      else if settype \<noteq> 0 then -1
      else if mutex_init \<noteq> 0 then -1
      else 0)"

text \<open>
  \<open>onlp_shmem_create\<close>: \<open>excl\<close> and \<open>any\<close> are what the two \<open>shmget\<close> calls return (an identifier or
  an error number), \<open>attach\<close> what \<open>shmat\<close> returns for an identifier (\<open>None\<close> for \<open>(void*)-1\<close>).
  The result is the status and the new \<open>*rvmem\<close>: 1 for a new segment, 0 for an existing one.
\<close>

datatype shmget_res = ShmId int | ShmErr int

datatype 'm shmptr = ShmNull | ShmFailed | Shm 'm

definition onlp_shmem_attach :: "(int \<Rightarrow> 'm option) \<Rightarrow> int \<Rightarrow> int \<Rightarrow> int \<times> 'm shmptr" where
  "onlp_shmem_attach attach rv shmid =
     (case attach shmid of None \<Rightarrow> (-1, ShmFailed) | Some m \<Rightarrow> (rv, Shm m))"

definition onlp_shmem_create ::
  "shmget_res \<Rightarrow> shmget_res \<Rightarrow> (int \<Rightarrow> 'm option) \<Rightarrow> bool \<Rightarrow> int \<times> 'm shmptr" where
  "onlp_shmem_create excl any attach rvmem_null =
     (if rvmem_null then (-1, ShmNull)
      else case excl of
        ShmErr e \<Rightarrow>
          if e = EEXIST then
            (case any of
               ShmErr _ \<Rightarrow> (-1, ShmNull)
             | ShmId i \<Rightarrow> onlp_shmem_attach attach 0 i)
          else onlp_shmem_attach attach 0 (-1)
      | ShmId i \<Rightarrow> onlp_shmem_attach attach 1 i)"

text \<open>\<open>onlp_shlock_init__\<close>: only a segment without the magic number is initialised; \<open>None\<close> is \<open>AIM_DIE\<close>.\<close>

definition onlp_shlock_init :: "int \<Rightarrow> string \<Rightarrow> shlock \<Rightarrow> shlock option" where
  "onlp_shlock_init init_rv name l =
     (if magic l \<noteq> SHLOCK_MAGIC then
        (if init_rv \<noteq> 0 then None
         else Some (l\<lparr>mutex := MFree, lock_name := take 63 name, magic := SHLOCK_MAGIC\<rparr>))
      else Some l)"

datatype 'a outcome = Done 'a | Blocks | Dies

fun onlp_shlock_take :: "nat \<Rightarrow> shlock option \<Rightarrow> (int \<times> shlock) outcome" where
  "onlp_shlock_take me None = Dies"
| "onlp_shlock_take me (Some l) =
     (case pthread_mutex_lock me (mutex l) of
        None \<Rightarrow> Blocks
      | Some (rv, m) \<Rightarrow>
          if rv = 0 then Done (0, l\<lparr>mutex := m\<rparr>)
          else if rv = EOWNERDEAD then Done (0, l\<lparr>mutex := pthread_mutex_consistent m\<rparr>)
          else Dies)"

fun onlp_shlock_give :: "nat \<Rightarrow> shlock option \<Rightarrow> (int \<times> shlock) outcome" where
  "onlp_shlock_give me None = Dies"
| "onlp_shlock_give me (Some l) =
     (case pthread_mutex_unlock me (mutex l) of
        (rv, m) \<Rightarrow> if rv \<noteq> 0 then Dies else Done (0, l\<lparr>mutex := m\<rparr>))"

section \<open>The API lock (\<open>onlp_locks.c\<close>)\<close>

text \<open>Shared variant: \<open>onlp_api_lock\<close> is the global shared lock. \<open>None\<close>: the call does not return.\<close>

definition sh_api_lock :: "nat \<Rightarrow> string \<Rightarrow> shlock option \<Rightarrow> shlock option option" where
  "sh_api_lock me api g = (case onlp_shlock_take me g of Done (_, l) \<Rightarrow> Some (Some l) | _ \<Rightarrow> None)"

definition sh_api_unlock :: "nat \<Rightarrow> shlock option \<Rightarrow> shlock option option" where
  "sh_api_unlock me g = (case onlp_shlock_give me g of Done (_, l) \<Rightarrow> Some (Some l) | _ \<Rightarrow> None)"

text \<open>
  Process-local variant: a counting semaphore (created with one unit) and the name of the call
  that owns it; when it cannot be taken within the timeout the process dies.
\<close>

record sem_lock =
  api_sem :: nat
  api_owner :: "string option"

definition sem_api_lock_init :: sem_lock where
  "sem_api_lock_init = \<lparr>api_sem = 1, api_owner = None\<rparr>"

definition sem_api_lock :: "string \<Rightarrow> sem_lock \<Rightarrow> sem_lock option" where
  "sem_api_lock api s =
     (if api_sem s = 0 then None else Some (s\<lparr>api_sem := api_sem s - 1, api_owner := Some api\<rparr>))"

definition sem_api_unlock :: "sem_lock \<Rightarrow> sem_lock option" where
  "sem_api_unlock s = Some (s\<lparr>api_sem := api_sem s + 1\<rparr>)"

text \<open>
  The \<open>ONLP_LOCKED_API\<close> and \<open>ONLP_LOCKED_VAPI\<close> macros: lock, call the \<open>_locked__\<close> body, unlock,
  return the body's result. The state is the lock and what the body works on; a body that dies
  (\<open>AIM_DIE\<close>) or leaves the defined behaviour is \<open>None\<close>.
\<close>

definition ONLP_LOCKED_API ::
  "(string \<Rightarrow> 'l \<Rightarrow> 'l option) \<Rightarrow> ('l \<Rightarrow> 'l option) \<Rightarrow> string \<Rightarrow> ('w \<Rightarrow> ('a \<times> 'w) option) \<Rightarrow> 'l \<times> 'w
     \<Rightarrow> ('a \<times> 'l \<times> 'w) option" where
  "ONLP_LOCKED_API lck unl api body s =
     do { l1 \<leftarrow> lck api (fst s);
          (rv, w1) \<leftarrow> body (snd s);
          l2 \<leftarrow> unl l1;
          Some (rv, l2, w1) }"

section \<open>The contract of the API lock\<close>

locale api_lock =
  fixes lck :: "string \<Rightarrow> 'l \<Rightarrow> 'l option" and unl :: "'l \<Rightarrow> 'l option"
    and free :: "'l \<Rightarrow> bool" and inv :: "'l \<Rightarrow> bool"
  assumes lock_free: "inv l \<Longrightarrow> free l \<Longrightarrow>
      \<exists>l1 l2. lck api l = Some l1 \<and> inv l1 \<and> \<not> free l1 \<and> unl l1 = Some l2 \<and> inv l2 \<and> free l2"
    and lock_held: "inv l \<Longrightarrow> \<not> free l \<Longrightarrow> lck api l = None"
begin

text \<open>
  From a free lock a call runs its body exactly once, returns when the body does and leaves the
  lock free.
\<close>

lemma call_free:
  assumes "inv l" and "free l"
  shows "\<exists>l'. inv l' \<and> free l' \<and>
    ONLP_LOCKED_API lck unl api body (l, w) = map_option (\<lambda>(rv, w1). (rv, l', w1)) (body w)"
proof -
  obtain l1 l2 where "lck api l = Some l1" "unl l1 = Some l2" "inv l2" "free l2"
    using lock_free [OF assms] by blast
  then show ?thesis by (cases "body w") (auto simp: ONLP_LOCKED_API_def)
qed

text \<open>A call made while the lock is held never returns: locked bodies must not re-enter.\<close>

lemma call_held: "inv l \<Longrightarrow> \<not> free l \<Longrightarrow> ONLP_LOCKED_API lck unl api body (l, w) = None"
  by (simp add: ONLP_LOCKED_API_def lock_held)

lemma nested_call_stuck:
  assumes "inv l" and "free l" and "lck api l = Some l1"
  shows "ONLP_LOCKED_API lck unl api' body (l1, w) = None"
  using lock_free [OF assms(1,2), of api] assms(3) by (auto intro!: call_held)

end

definition sh_free :: "shlock option \<Rightarrow> bool" where
  "sh_free g \<longleftrightarrow> (\<exists>l. g = Some l \<and> (mutex l = MFree \<or> mutex l = MOwnerDead))"

definition sem_free :: "sem_lock \<Rightarrow> bool" where
  "sem_free s \<longleftrightarrow> 0 < api_sem s"

text \<open>The semaphore never holds more than its single unit.\<close>

definition sem_inv :: "sem_lock \<Rightarrow> bool" where
  "sem_inv s \<longleftrightarrow> api_sem s \<le> 1"

interpretation shl: api_lock "sh_api_lock me" "sh_api_unlock me" sh_free "\<lambda>_. True"
proof unfold_locales
  fix l :: "shlock option" and api
  assume "sh_free l"
  then show "\<exists>l1 l2. sh_api_lock me api l = Some l1 \<and> True \<and> \<not> sh_free l1 \<and>
      sh_api_unlock me l1 = Some l2 \<and> True \<and> sh_free l2"
    by (auto simp: sh_free_def sh_api_lock_def sh_api_unlock_def)
next
  fix l :: "shlock option" and api
  assume "\<not> sh_free l"
  then show "sh_api_lock me api l = None"
    by (cases l; cases "mutex (the l)") (auto simp: sh_free_def sh_api_lock_def)
qed

interpretation sem: api_lock sem_api_lock sem_api_unlock sem_free sem_inv
  by unfold_locales (auto simp: sem_free_def sem_inv_def sem_api_lock_def sem_api_unlock_def)

section \<open>Properties\<close>

text \<open>
  C1: whichever lock is built in, a public ONLP call made while the lock is free runs its
  \<open>_locked__\<close> body exactly once, returns the body's result (when it has one) and leaves the lock
  free; with the shared lock that includes taking over after an owner that died.
\<close>

theorem locked_api_runs_body_once:
  "(sh_free g \<longrightarrow> (\<exists>g'. sh_free g' \<and>
      ONLP_LOCKED_API (sh_api_lock me) (sh_api_unlock me) api body (g, w) =
        map_option (\<lambda>(rv, w1). (rv, g', w1)) (body w))) \<and>
   (sem_inv s \<and> sem_free s \<longrightarrow> (\<exists>s'. sem_inv s' \<and> sem_free s' \<and>
      ONLP_LOCKED_API sem_api_lock sem_api_unlock api body (s, w) =
        map_option (\<lambda>(rv, w1). (rv, s', w1)) (body w)))"
  using shl.call_free [of g me api body w] sem.call_free [of s api body w] by auto

theorem locked_api_runs_body_once_witness:
  "sh_free (Some \<lparr>magic = SHLOCK_MAGIC, lock_name = [], mutex = MOwnerDead\<rparr>) \<and>
   sem_inv sem_api_lock_init \<and> sem_free sem_api_lock_init \<and>
   (\<exists>s'. ONLP_LOCKED_API sem_api_lock sem_api_unlock ''f'' (\<lambda>w. Some (w, w + 1)) (sem_api_lock_init, 5 :: int) =
      Some (5, s', 6))"
  using locked_api_runs_body_once [of None 0 "''f''" "\<lambda>w. Some (w, w + 1)" "5 :: int" sem_api_lock_init]
  by (auto simp: sh_free_def sem_inv_def sem_free_def sem_api_lock_init_def)

text \<open>
  A public call made from inside a \<open>_locked__\<close> body (the lock is already held by
  this caller) never returns, with either lock: it dies or blocks.
\<close>

theorem locked_api_reentry_never_returns:
  "(sh_free g \<and> sh_api_lock me api g = Some g1 \<longrightarrow>
      ONLP_LOCKED_API (sh_api_lock me) (sh_api_unlock me) api' body (g1, w) = None) \<and>
   (sem_inv s \<and> sem_free s \<and> sem_api_lock api s = Some s1 \<longrightarrow>
      ONLP_LOCKED_API sem_api_lock sem_api_unlock api' body (s1, w) = None)"
  using shl.nested_call_stuck [of g me api g1 api' body w]
    sem.nested_call_stuck [of s api s1 api' body w] by auto

theorem locked_api_reentry_never_returns_witness:
  "sem_api_lock ''f'' sem_api_lock_init = Some \<lparr>api_sem = 0, api_owner = Some ''f''\<rparr> \<and>
   ONLP_LOCKED_API sem_api_lock sem_api_unlock ''g'' (\<lambda>w. Some (w, w))
     (\<lparr>api_sem = 0, api_owner = Some ''f''\<rparr>, 0 :: int) = None"
  using locked_api_reentry_never_returns [of None 0 "''f''" None "''g''" "\<lambda>w. Some (w, w)" "0 :: int"
      sem_api_lock_init "\<lparr>api_sem = 0, api_owner = Some ''f''\<rparr>"]
  by (simp add: sem_inv_def sem_free_def sem_api_lock_init_def sem_api_lock_def)

end
