(* ===== verification/LockProtocol.thy ===== *)
theory LockProtocol
  imports Locks
begin

text \<open>
  Several processes around one shared lock: each maps the segment (\<open>onlp_shlock_create\<close>), tests the
  magic number and initialises the mutex when it is missing (\<open>onlp_shlock_init__\<close>), then takes and
  gives the lock; any process may die at any point. One rule per observable step of the code.
\<close>

datatype phase = Out | Mapped | MustInit | Initialised | Ready | Holding | Dead

record lsys =
  seg :: "shlock option"
  ph :: "nat \<Rightarrow> phase"

definition shlock_zero :: shlock where
  "shlock_zero = \<lparr>magic = 0, lock_name = [], mutex = MFree\<rparr>"

definition lsys_init :: lsys where
  "lsys_init = \<lparr>seg = None, ph = (\<lambda>_. Out)\<rparr>"

definition set_ph :: "nat \<Rightarrow> phase \<Rightarrow> lsys \<Rightarrow> lsys" where
  "set_ph p q s = s\<lparr>ph := (ph s)(p := q)\<rparr>"

inductive lstep :: "lsys \<Rightarrow> lsys \<Rightarrow> bool" where
  create: "ph s p = Out \<Longrightarrow> seg s = None \<Longrightarrow> lstep s (set_ph p Mapped (s\<lparr>seg := Some shlock_zero\<rparr>))"
| map_existing: "ph s p = Out \<Longrightarrow> seg s = Some l \<Longrightarrow> lstep s (set_ph p Mapped s)"
| test_old: "ph s p = Mapped \<Longrightarrow> seg s = Some l \<Longrightarrow> magic l = SHLOCK_MAGIC \<Longrightarrow> lstep s (set_ph p Ready s)"
| test_new: "ph s p = Mapped \<Longrightarrow> seg s = Some l \<Longrightarrow> magic l \<noteq> SHLOCK_MAGIC \<Longrightarrow> lstep s (set_ph p MustInit s)"
| init_mutex: "ph s p = MustInit \<Longrightarrow> seg s = Some l \<Longrightarrow>
    lstep s (set_ph p Initialised (s\<lparr>seg := Some (l\<lparr>mutex := MFree\<rparr>)\<rparr>))"
| publish: "ph s p = Initialised \<Longrightarrow> seg s = Some l \<Longrightarrow>
    lstep s (set_ph p Ready (s\<lparr>seg := Some (l\<lparr>magic := SHLOCK_MAGIC\<rparr>)\<rparr>))"
| take_lock: "ph s p = Ready \<Longrightarrow> onlp_shlock_take p (seg s) = Done (rv, l) \<Longrightarrow>
    lstep s (set_ph p Holding (s\<lparr>seg := Some l\<rparr>))"
| give_lock: "ph s p = Holding \<Longrightarrow> onlp_shlock_give p (seg s) = Done (rv, l) \<Longrightarrow>
    lstep s (set_ph p Ready (s\<lparr>seg := Some l\<rparr>))"
| die: "ph s p \<noteq> Dead \<Longrightarrow>
    lstep s (set_ph p Dead (s\<lparr>seg := map_option (\<lambda>l. l\<lparr>mutex := robust_exit p (mutex l)\<rparr>) (seg s)\<rparr>))"

inductive lreach :: "lsys \<Rightarrow> lsys \<Rightarrow> bool" where
  here: "lreach s s"
| further: "lreach s t \<Longrightarrow> lstep t u \<Longrightarrow> lreach s u"

section \<open>Once the lock is published\<close>

text \<open>The magic number is written and nobody is between testing it and writing it.\<close>

definition published :: "lsys \<Rightarrow> bool" where
  "published s \<longleftrightarrow> (\<exists>l. seg s = Some l \<and> magic l = SHLOCK_MAGIC \<and>
     (\<forall>p. ph s p \<noteq> MustInit \<and> ph s p \<noteq> Initialised) \<and>
     (\<forall>p. ph s p = Holding \<longleftrightarrow> mutex l = MHeld p) \<and>
     (\<forall>p. mutex l \<noteq> MInconsistent p) \<and> mutex l \<noteq> MNotRecoverable)"

lemma set_ph_simps [simp]:
  "seg (set_ph p q s) = seg s" "ph (set_ph p q s) = (ph s)(p := q)"
  by (simp_all add: set_ph_def)

lemma take_Done:
  "onlp_shlock_take p g = Done (rv, l) \<Longrightarrow>
   \<exists>l0. g = Some l0 \<and> l = l0\<lparr>mutex := MHeld p\<rparr> \<and> (mutex l0 = MFree \<or> mutex l0 = MOwnerDead)"
  by (cases "(p, g)" rule: onlp_shlock_take.cases; cases "mutex (the g)")
    (auto split: if_splits)

lemma give_Done:
  "onlp_shlock_give p g = Done (rv, l) \<Longrightarrow> (\<forall>l0 t. g = Some l0 \<longrightarrow> mutex l0 \<noteq> MInconsistent t) \<Longrightarrow>
   \<exists>l0. g = Some l0 \<and> l = l0\<lparr>mutex := MFree\<rparr> \<and> mutex l0 = MHeld p"
  by (cases "(p, g)" rule: onlp_shlock_give.cases; cases "mutex (the g)")
    (auto split: if_splits)

lemma published_holding: "published s \<Longrightarrow> seg s = Some l \<Longrightarrow> ph s p = Holding \<longleftrightarrow> mutex l = MHeld p"
  by (auto simp: published_def)

lemma published_move:
  assumes "published s" and "ph s p = a" and "a \<noteq> Holding" and "b \<noteq> Holding" "b \<noteq> MustInit" "b \<noteq> Initialised"
  shows "published (set_ph p b s)"
proof -
  from assms(1) obtain l where l: "seg s = Some l" by (auto simp: published_def)
  have "mutex l \<noteq> MHeld p" using published_holding [OF assms(1) l, of p] assms(2,3) by simp
  then show ?thesis using assms l by (auto simp: published_def)
qed

lemma published_step: "lstep s t \<Longrightarrow> published s \<Longrightarrow> published t"
proof (induction rule: lstep.induct)
  case (take_lock s p rv l)
  then show ?case by (auto simp: published_def dest!: take_Done)
next
  case (give_lock s p rv l)
  then show ?case by (fastforce simp: published_def dest!: give_Done)
next
  case (die s p)
  from die.prems obtain l where l: "seg s = Some l" by (auto simp: published_def)
  from die show ?case by (cases "mutex l") (auto simp: published_def l)
next
  case (map_existing s p l)
  then show ?case by (intro published_move) auto
next
  case (test_old s p l)
  then show ?case by (intro published_move) auto
qed (auto simp: published_def)

lemma published_reach: "lreach s t \<Longrightarrow> published s \<Longrightarrow> published t"
  by (induction rule: lreach.induct) (auto dest: published_step)

lemma published_exclusive:
  "published s \<Longrightarrow> ph s p = Holding \<Longrightarrow> ph s q = Holding \<Longrightarrow> p = q"
  by (auto simp: published_def)

text \<open>A lock nobody alive holds can be taken.\<close>

lemma published_take:
  assumes "published s" and "ph s p = Ready" and "\<forall>q. ph s q \<noteq> Holding"
  shows "\<exists>t. lstep s t \<and> ph t p = Holding"
proof -
  obtain l where l: "seg s = Some l" "\<forall>q. mutex l \<noteq> MHeld q" "\<forall>q. mutex l \<noteq> MInconsistent q"
    "mutex l \<noteq> MNotRecoverable"
    using assms by (auto simp: published_def)
  then have "onlp_shlock_take p (seg s) = Done (0, l\<lparr>mutex := MHeld p\<rparr>)"
    by (cases "mutex l") auto
  from lstep.take_lock [OF assms(2) this] show ?thesis by fastforce
qed

section \<open>Properties\<close>

text \<open>
  C20: from any state in which the lock is published, whatever the processes do and whichever of
  them die, at most one process is ever inside a locked call.
\<close>

theorem shared_lock_mutual_exclusion:
  assumes "published s" and "lreach s t" and "ph t p = Holding" and "ph t q = Holding"
  shows "p = q"
  using published_exclusive [OF published_reach] assms by blast

definition demo_published :: lsys where
  "demo_published = \<lparr>seg = Some (shlock_zero\<lparr>magic := SHLOCK_MAGIC\<rparr>),
     ph = (\<lambda>p. if p \<le> 1 then Ready else Out)\<rparr>"

lemma demo_published: "published demo_published"
  by (simp add: published_def demo_published_def shlock_zero_def)

lemma demo_take: "lstep demo_published (set_ph 0 Holding (demo_published\<lparr>seg :=
    Some \<lparr>magic = SHLOCK_MAGIC, lock_name = [], mutex = MHeld 0\<rparr>\<rparr>))"
  by (rule lstep.take_lock [where rv = 0]) (simp_all add: demo_published_def shlock_zero_def)

theorem shared_lock_mutual_exclusion_witness:
  "\<exists>t. lreach demo_published t \<and> ph t 0 = Holding \<and> (\<forall>q. ph t q = Holding \<longrightarrow> q = 0)"
proof -
  let ?t = "set_ph 0 Holding (demo_published\<lparr>seg :=
    Some \<lparr>magic = SHLOCK_MAGIC, lock_name = [], mutex = MHeld 0\<rparr>\<rparr>)"
  have "lreach demo_published ?t" using lreach.further [OF lreach.here demo_take] .
  moreover have "ph ?t 0 = Holding" by simp
  ultimately show ?thesis
    using shared_lock_mutual_exclusion [OF demo_published, of ?t _ 0] by blast
qed

text \<open>
  C33: the lock recovers from crashes: in every state reached from a published one, if no live
  process is inside a locked call then any process that is ready can take the lock in its next step,
  even when the last owner died holding it.
\<close>

theorem shared_lock_survives_owner_death:
  assumes "published s" and "lreach s t" and "ph t p = Ready" and "\<forall>q. ph t q \<noteq> Holding"
  shows "\<exists>u. lstep t u \<and> ph u p = Holding"
  using published_take [OF published_reach [OF assms(2,1)]] assms(3,4) by blast

theorem shared_lock_survives_owner_death_witness:
  "\<exists>t u. lreach demo_published t \<and> ph t 0 = Dead \<and> lstep t u \<and> ph u 1 = Holding"
proof -
  let ?s = "set_ph 0 Holding (demo_published\<lparr>seg :=
    Some \<lparr>magic = SHLOCK_MAGIC, lock_name = [], mutex = MHeld 0\<rparr>\<rparr>)"
  let ?t = "set_ph 0 Dead (?s\<lparr>seg := map_option (\<lambda>l. l\<lparr>mutex := robust_exit 0 (mutex l)\<rparr>) (seg ?s)\<rparr>)"
  have "lstep ?s ?t" by (rule lstep.die) simp
  then have r: "lreach demo_published ?t"
    by (rule lreach.further [OF lreach.further [OF lreach.here demo_take]])
  have "ph ?t 1 = Ready" "\<forall>q. ph ?t q \<noteq> Holding" "ph ?t 0 = Dead"
    by (simp_all add: demo_published_def)
  with shared_lock_survives_owner_death [OF demo_published r, of 1] r show ?thesis by blast
qed

text \<open>
  C34: creation is not protected: two processes that start together can both find the magic number
  missing, and the second initialisation frees a mutex the first process already holds. A state
  with two processes inside a locked call is reachable from a cold start.
\<close>

theorem shared_lock_creation_race:
  "\<exists>t. lreach lsys_init t \<and> ph t 0 = Holding \<and> ph t 1 = Holding"
proof -
  let ?z = shlock_zero
  define s1 where "s1 = set_ph 0 Mapped (lsys_init\<lparr>seg := Some ?z\<rparr>)"
  define s2 where "s2 = set_ph 1 Mapped s1"
  define s3 where "s3 = set_ph 0 MustInit s2"
  define s4 where "s4 = set_ph 1 MustInit s3"
  define s5 where "s5 = set_ph 0 Initialised (s4\<lparr>seg := Some ?z\<rparr>)"
  define s6 where "s6 = set_ph 0 Ready (s5\<lparr>seg := Some (?z\<lparr>magic := SHLOCK_MAGIC\<rparr>)\<rparr>)"
  define s7 where "s7 = set_ph 0 Holding (s6\<lparr>seg := Some (?z\<lparr>magic := SHLOCK_MAGIC, mutex := MHeld 0\<rparr>)\<rparr>)"
  define s8 where "s8 = set_ph 1 Initialised (s7\<lparr>seg := Some (?z\<lparr>magic := SHLOCK_MAGIC\<rparr>)\<rparr>)"
  define s9 where "s9 = set_ph 1 Ready (s8\<lparr>seg := Some (?z\<lparr>magic := SHLOCK_MAGIC\<rparr>)\<rparr>)"
  define s10 where "s10 = set_ph 1 Holding (s9\<lparr>seg := Some (?z\<lparr>magic := SHLOCK_MAGIC, mutex := MHeld 1\<rparr>)\<rparr>)"
  note defs = s1_def s2_def s3_def s4_def s5_def s6_def s7_def s8_def s9_def s10_def
    lsys_init_def shlock_zero_def SHLOCK_MAGIC_def
  have "lstep lsys_init s1" unfolding s1_def by (rule lstep.create) (simp_all add: lsys_init_def)
  moreover have "lstep s1 s2" unfolding s2_def by (rule lstep.map_existing) (simp_all add: defs)
  moreover have "lstep s2 s3" unfolding s3_def
    by (rule lstep.test_new [where l = ?z]) (simp_all add: defs)
  moreover have "lstep s3 s4" unfolding s4_def
    by (rule lstep.test_new [where l = ?z]) (simp_all add: defs)
  moreover have "lstep s4 s5" using lstep.init_mutex [of s4 0 ?z] by (simp add: defs)
  moreover have "lstep s5 s6" using lstep.publish [of s5 0 ?z] by (simp add: defs)
  moreover have "lstep s6 s7"
    unfolding s7_def by (rule lstep.take_lock [where rv = 0]) (simp_all add: defs)
  moreover have "lstep s7 s8"
    using lstep.init_mutex [of s7 1 "?z\<lparr>magic := SHLOCK_MAGIC, mutex := MHeld 0\<rparr>"] by (simp add: defs)
  moreover have "lstep s8 s9"
    using lstep.publish [of s8 1 "?z\<lparr>magic := SHLOCK_MAGIC\<rparr>"] by (simp add: defs)
  moreover have "lstep s9 s10"
    unfolding s10_def by (rule lstep.take_lock [where rv = 0]) (simp_all add: defs)
  ultimately have "lreach lsys_init s10"
    by (meson lreach.here lreach.further)
  moreover have "ph s10 0 = Holding" "ph s10 1 = Holding" by (simp_all add: defs)
  ultimately show ?thesis by blast
qed

end
