(* ===== verification/Oids.thy ===== *)
theory Oids
  imports Prelude
begin

text \<open>
  \<open>onlp/oids.h\<close> and the table and dispatch part of \<open>oids.c\<close>: an OID is a 32-bit word, the
  object class in its top byte and the identifier in the other three; an object header carries a
  table of 128 child OIDs in which zero marks an unused slot.
\<close>

type_synonym onlp_oid_t = u32

section \<open>Classes\<close>

datatype oid_type = SYS | THERMAL | FAN | PSU | LED | MODULE | RTC

primrec ONLP_OID_TYPE :: "oid_type \<Rightarrow> u32" where
  "ONLP_OID_TYPE SYS = 1"
| "ONLP_OID_TYPE THERMAL = 2"
| "ONLP_OID_TYPE FAN = 3"
| "ONLP_OID_TYPE PSU = 4"
| "ONLP_OID_TYPE LED = 5"
| "ONLP_OID_TYPE MODULE = 6"
| "ONLP_OID_TYPE RTC = 7"

section \<open>The macros\<close>

definition ONLP_OID_TYPE_GET :: "onlp_oid_t \<Rightarrow> u32" where
  "ONLP_OID_TYPE_GET oid = drop_bit 24 oid"

definition ONLP_OID_TYPE_CREATE :: "u32 \<Rightarrow> u32 \<Rightarrow> onlp_oid_t" where
  "ONLP_OID_TYPE_CREATE ty i = push_bit 24 ty OR i"

definition ONLP_OID_ID_GET :: "onlp_oid_t \<Rightarrow> u32" where
  "ONLP_OID_ID_GET oid = oid AND 0xFFFFFF"

definition ONLP_OID_IS_TYPE :: "u32 \<Rightarrow> onlp_oid_t \<Rightarrow> bool" where
  "ONLP_OID_IS_TYPE ty oid \<longleftrightarrow> ONLP_OID_TYPE_GET oid = ty"

definition ONLP_OID_SYS :: onlp_oid_t where
  "ONLP_OID_SYS = ONLP_OID_TYPE_CREATE (ONLP_OID_TYPE SYS) 1"

section \<open>Headers and tables\<close>

definition ONLP_OID_TABLE_SIZE :: nat where [simp]: "ONLP_OID_TABLE_SIZE = 128"

record oid_hdr =
  oid_id :: onlp_oid_t
  oid_desc :: string
  oid_poid :: onlp_oid_t
  oid_coids :: "onlp_oid_t list"

text \<open>\<open>memset(hdr, 0, sizeof( *hdr))\<close>.\<close>

definition oid_hdr_zero :: oid_hdr where
  "oid_hdr_zero = \<lparr>oid_id = 0, oid_desc = '''', oid_poid = 0,
     oid_coids = replicate ONLP_OID_TABLE_SIZE 0\<rparr>"

text \<open>The header of an object without parent and children, as the tables of the drivers have it.\<close>

definition hdr_of :: "oid_type \<Rightarrow> u32 \<Rightarrow> string \<Rightarrow> oid_hdr" where
  "hdr_of ty i desc = oid_hdr_zero\<lparr>oid_id := ONLP_OID_TYPE_CREATE (ONLP_OID_TYPE ty) i, oid_desc := desc\<rparr>"

text \<open>The OIDs the iteration macros visit, in order: every non-zero slot (of the type).\<close>

definition ONLP_OID_TABLE_ITER :: "onlp_oid_t list \<Rightarrow> onlp_oid_t list" where
  "ONLP_OID_TABLE_ITER table = filter (\<lambda>oid. oid \<noteq> 0) (take ONLP_OID_TABLE_SIZE table)"

definition ONLP_OID_TABLE_ITER_TYPE :: "onlp_oid_t list \<Rightarrow> oid_type \<Rightarrow> onlp_oid_t list" where
  "ONLP_OID_TABLE_ITER_TYPE table ty =
     filter (\<lambda>oid. oid \<noteq> 0 \<and> ONLP_OID_IS_TYPE (ONLP_OID_TYPE ty) oid) (take ONLP_OID_TABLE_SIZE table)"

section \<open>Dispatch on the class\<close>

text \<open>
  The \<open>switch(ONLP_OID_TYPE_GET(oid))\<close> that \<open>onlp.x\<close> expands to one case per class; \<open>None\<close> is
  falling out of the switch.
\<close>

definition oid_class :: "onlp_oid_t \<Rightarrow> oid_type option" where
  "oid_class oid =
     (let t = ONLP_OID_TYPE_GET oid in
      if t = ONLP_OID_TYPE SYS then Some SYS
      else if t = ONLP_OID_TYPE THERMAL then Some THERMAL
      else if t = ONLP_OID_TYPE FAN then Some FAN
      else if t = ONLP_OID_TYPE PSU then Some PSU
      else if t = ONLP_OID_TYPE LED then Some LED
      else if t = ONLP_OID_TYPE MODULE then Some MODULE
      else if t = ONLP_OID_TYPE RTC then Some RTC
      else None)"

section \<open>Facts\<close>

lemma ONLP_OID_TYPE_small: "ONLP_OID_TYPE ty < 8"
  by (cases ty) simp_all

lemma oid_create_get_type:
  assumes "ty < 2 ^ 8" and "i < 2 ^ 24"
  shows "ONLP_OID_TYPE_GET (ONLP_OID_TYPE_CREATE ty i) = ty"
proof (rule bit_word_eqI)
  fix n :: nat assume "n < LENGTH(32)"
  then show "bit (ONLP_OID_TYPE_GET (ONLP_OID_TYPE_CREATE ty i)) n = bit ty n"
    using bit_less_power [OF assms(1), of n] bit_less_power [OF assms(2), of "24 + n"]
    by (auto simp: ONLP_OID_TYPE_GET_def ONLP_OID_TYPE_CREATE_def bit_drop_bit_eq bit_or_iff
        bit_push_bit_iff)
qed

lemma oid_create_get_id:
  assumes "i < 2 ^ 24"
  shows "ONLP_OID_ID_GET (ONLP_OID_TYPE_CREATE ty i) = i"
  unfolding ONLP_OID_ID_GET_def ONLP_OID_TYPE_CREATE_def
  using assms [THEN bit_less_power]
  by (intro bit_word_eqI) (auto simp: bit_low_mask bit_or_iff bit_push_bit_iff)

lemma oid_split: "ONLP_OID_TYPE_CREATE (ONLP_OID_TYPE_GET oid) (ONLP_OID_ID_GET oid) = oid"
  unfolding ONLP_OID_TYPE_CREATE_def ONLP_OID_TYPE_GET_def ONLP_OID_ID_GET_def
  by (rule bit_word_eqI)
    (auto simp: bit_drop_bit_eq bit_or_iff bit_push_bit_iff bit_low_mask)

lemma oid_class_Some: "oid_class oid = Some ty \<longleftrightarrow> ONLP_OID_IS_TYPE (ONLP_OID_TYPE ty) oid"
  by (cases ty) (auto simp: oid_class_def ONLP_OID_IS_TYPE_def Let_def)

lemma oid_zero [oid_simps]: "ONLP_OID_TYPE_GET 0 = 0"
  by (simp add: ONLP_OID_TYPE_GET_def)

lemma not_type_zero [simp]: "\<not> ONLP_OID_IS_TYPE (ONLP_OID_TYPE ty) 0"
  by (cases ty) (simp_all add: ONLP_OID_IS_TYPE_def oid_simps)

lemma ITER_TYPE_filter:
  "ONLP_OID_TABLE_ITER_TYPE table ty =
   filter (ONLP_OID_IS_TYPE (ONLP_OID_TYPE ty)) (ONLP_OID_TABLE_ITER table)"
  by (auto simp: ONLP_OID_TABLE_ITER_TYPE_def ONLP_OID_TABLE_ITER_def conj_commute intro: filter_cong)

lemma ITER_TYPE_class: "oid \<in> set (ONLP_OID_TABLE_ITER_TYPE table ty) \<Longrightarrow> oid_class oid = Some ty"
  by (simp add: ONLP_OID_TABLE_ITER_TYPE_def oid_class_Some)

lemma length_ITER: "length (ONLP_OID_TABLE_ITER table) \<le> 128"
  unfolding ONLP_OID_TABLE_ITER_def by (rule order.trans [OF length_filter_le]) simp

lemma oid_sys [oid_simps]: "ONLP_OID_SYS = 0x1000001" "oid_class 0x1000001 = Some SYS"
  by (simp_all add: ONLP_OID_SYS_def ONLP_OID_TYPE_CREATE_def oid_class_def ONLP_OID_TYPE_GET_def)

end
