(* ===== verification/Platform.thy ===== *)
theory Platform
  imports Oids Onie
begin

text \<open>
  The information structures of \<open>fan.h\<close>, \<open>psu.h\<close>, \<open>thermal.h\<close>, \<open>led.h\<close>, \<open>sys.h\<close> and \<open>pi.h\<close>, and the interface
  \<open>onlp/platformi\<close> behind which the platform drivers sit. Which driver is linked in is decided at
  link time, so a driver is a record of functions over a hardware state \<open>'w\<close>, and ONLP's own code
  is proved for every such record. An output parameter is passed in with its previous
  contents and handed back with its new ones.
\<close>

section \<open>Information structures\<close>

record fan_info =
  fi_hdr :: oid_hdr
  fi_status :: u32
  fi_caps :: u32
  fi_rpm :: int
  fi_percentage :: int
  fi_mode :: int
  fi_model :: string
  fi_serial :: string

record psu_info =
  pi_hdr :: oid_hdr
  pi_model :: string
  pi_serial :: string
  pi_status :: u32
  pi_caps :: u32
  pi_mvin :: int
  pi_mvout :: int
  pi_miin :: int
  pi_miout :: int
  pi_mpin :: int
  pi_mpout :: int

record thermal_info =
  ti_hdr :: oid_hdr
  ti_status :: u32
  ti_caps :: u32
  ti_mcelsius :: int
  ti_warning :: int
  ti_error :: int
  ti_shutdown :: int

record led_info =
  li_hdr :: oid_hdr
  li_status :: u32
  li_caps :: u32
  li_mode :: int
  li_character :: char

record platform_info =
  cpld_versions :: "string option"
  other_versions :: "string option"

record sys_info =
  si_hdr :: oid_hdr
  si_onie :: onie_info
  si_platform :: platform_info

text \<open>\<open>memset(rv, 0, sizeof( *rv))\<close> on a system information structure.\<close>

definition sys_info_zero :: sys_info where
  "sys_info_zero = \<lparr>si_hdr = oid_hdr_zero, si_onie = onie_zero,
     si_platform = \<lparr>cpld_versions = None, other_versions = None\<rparr>\<rparr>"

section \<open>Flags\<close>

definition ONLP_FAN_CAPS_B2F :: u32 where "ONLP_FAN_CAPS_B2F = 2 ^ 0"
definition ONLP_FAN_CAPS_F2B :: u32 where "ONLP_FAN_CAPS_F2B = 2 ^ 1"
definition ONLP_FAN_CAPS_SET_RPM :: u32 where "ONLP_FAN_CAPS_SET_RPM = 2 ^ 2"
definition ONLP_FAN_CAPS_SET_PERCENTAGE :: u32 where "ONLP_FAN_CAPS_SET_PERCENTAGE = 2 ^ 3"
definition ONLP_FAN_CAPS_GET_RPM :: u32 where "ONLP_FAN_CAPS_GET_RPM = 2 ^ 4"
definition ONLP_FAN_CAPS_GET_PERCENTAGE :: u32 where "ONLP_FAN_CAPS_GET_PERCENTAGE = 2 ^ 5"

definition ONLP_FAN_STATUS_PRESENT :: u32 where "ONLP_FAN_STATUS_PRESENT = 2 ^ 0"
definition ONLP_FAN_STATUS_FAILED :: u32 where "ONLP_FAN_STATUS_FAILED = 2 ^ 1"
definition ONLP_FAN_STATUS_B2F :: u32 where "ONLP_FAN_STATUS_B2F = 2 ^ 2"
definition ONLP_FAN_STATUS_F2B :: u32 where "ONLP_FAN_STATUS_F2B = 2 ^ 3"

definition ONLP_PSU_CAPS_AC :: u32 where "ONLP_PSU_CAPS_AC = 2 ^ 0"
definition ONLP_PSU_CAPS_DC12 :: u32 where "ONLP_PSU_CAPS_DC12 = 2 ^ 1"
definition ONLP_PSU_CAPS_DC48 :: u32 where "ONLP_PSU_CAPS_DC48 = 2 ^ 2"
definition ONLP_PSU_CAPS_VIN :: u32 where "ONLP_PSU_CAPS_VIN = 2 ^ 3"
definition ONLP_PSU_CAPS_VOUT :: u32 where "ONLP_PSU_CAPS_VOUT = 2 ^ 4"
definition ONLP_PSU_CAPS_IIN :: u32 where "ONLP_PSU_CAPS_IIN = 2 ^ 5"
definition ONLP_PSU_CAPS_IOUT :: u32 where "ONLP_PSU_CAPS_IOUT = 2 ^ 6"
definition ONLP_PSU_CAPS_PIN :: u32 where "ONLP_PSU_CAPS_PIN = 2 ^ 7"
definition ONLP_PSU_CAPS_POUT :: u32 where "ONLP_PSU_CAPS_POUT = 2 ^ 8"

definition ONLP_PSU_STATUS_PRESENT :: u32 where "ONLP_PSU_STATUS_PRESENT = 2 ^ 0"
definition ONLP_PSU_STATUS_FAILED :: u32 where "ONLP_PSU_STATUS_FAILED = 2 ^ 1"
definition ONLP_PSU_STATUS_UNPLUGGED :: u32 where "ONLP_PSU_STATUS_UNPLUGGED = 2 ^ 2"

definition ONLP_THERMAL_STATUS_PRESENT :: u32 where "ONLP_THERMAL_STATUS_PRESENT = 2 ^ 0"
definition ONLP_THERMAL_STATUS_FAILED :: u32 where "ONLP_THERMAL_STATUS_FAILED = 2 ^ 1"
definition ONLP_THERMAL_CAPS_GET_TEMPERATURE :: u32 where
  "ONLP_THERMAL_CAPS_GET_TEMPERATURE = 2 ^ 0"

definition ONLP_LED_STATUS_PRESENT :: u32 where "ONLP_LED_STATUS_PRESENT = 2 ^ 0"
definition ONLP_LED_CAPS_ON_OFF :: u32 where "ONLP_LED_CAPS_ON_OFF = 2 ^ 0"
definition ONLP_LED_CAPS_CHAR :: u32 where "ONLP_LED_CAPS_CHAR = 2 ^ 1"

definition ONLP_LED_MODE_OFF :: int where [simp]: "ONLP_LED_MODE_OFF = 0"
definition ONLP_LED_MODE_ON :: int where [simp]: "ONLP_LED_MODE_ON = 1"
definition ONLP_LED_MODE_BLINKING :: int where [simp]: "ONLP_LED_MODE_BLINKING = 2"

lemmas flag_defs =
  ONLP_FAN_CAPS_B2F_def ONLP_FAN_CAPS_F2B_def ONLP_FAN_CAPS_SET_RPM_def
  ONLP_FAN_CAPS_SET_PERCENTAGE_def ONLP_FAN_CAPS_GET_RPM_def ONLP_FAN_CAPS_GET_PERCENTAGE_def
  ONLP_FAN_STATUS_PRESENT_def ONLP_FAN_STATUS_FAILED_def ONLP_FAN_STATUS_B2F_def
  ONLP_FAN_STATUS_F2B_def ONLP_PSU_CAPS_AC_def ONLP_PSU_CAPS_DC12_def ONLP_PSU_CAPS_DC48_def
  ONLP_PSU_CAPS_VIN_def ONLP_PSU_CAPS_VOUT_def ONLP_PSU_CAPS_IIN_def ONLP_PSU_CAPS_IOUT_def
  ONLP_PSU_CAPS_PIN_def ONLP_PSU_CAPS_POUT_def ONLP_PSU_STATUS_PRESENT_def
  ONLP_PSU_STATUS_FAILED_def ONLP_PSU_STATUS_UNPLUGGED_def ONLP_THERMAL_STATUS_PRESENT_def
  ONLP_THERMAL_STATUS_FAILED_def ONLP_THERMAL_CAPS_GET_TEMPERATURE_def ONLP_LED_STATUS_PRESENT_def
  ONLP_LED_CAPS_ON_OFF_def ONLP_LED_CAPS_CHAR_def

section \<open>Driver interfaces\<close>

text \<open>An argument of a variadic call, of \<open>iof_iprintf\<close> or an \<open>ioctl\<close>.\<close>

datatype farg = FInt int | FWord u32 | FStr string | FChar char | FBytes "u8 list"

type_synonym ('a, 'w) getter = "onlp_oid_t \<Rightarrow> 'a \<Rightarrow> 'w \<Rightarrow> int \<times> 'a \<times> 'w"

record 'w fani =
  onlp_fani_init :: "'w \<Rightarrow> int \<times> 'w"
  onlp_fani_info_get :: "(fan_info, 'w) getter"
  onlp_fani_status_get :: "(u32, 'w) getter"
  onlp_fani_hdr_get :: "(oid_hdr, 'w) getter"
  onlp_fani_rpm_set :: "onlp_oid_t \<Rightarrow> int \<Rightarrow> 'w \<Rightarrow> int \<times> 'w"
  onlp_fani_percentage_set :: "onlp_oid_t \<Rightarrow> int \<Rightarrow> 'w \<Rightarrow> int \<times> 'w"
  onlp_fani_mode_set :: "onlp_oid_t \<Rightarrow> int \<Rightarrow> 'w \<Rightarrow> int \<times> 'w"
  onlp_fani_dir_set :: "onlp_oid_t \<Rightarrow> int \<Rightarrow> 'w \<Rightarrow> int \<times> 'w"

record 'w psui =
  onlp_psui_init :: "'w \<Rightarrow> int \<times> 'w"
  onlp_psui_info_get :: "(psu_info, 'w) getter"
  onlp_psui_status_get :: "(u32, 'w) getter"
  onlp_psui_hdr_get :: "(oid_hdr, 'w) getter"
  onlp_psui_ioctl :: "onlp_oid_t \<Rightarrow> farg list \<Rightarrow> 'w \<Rightarrow> int \<times> 'w"

record 'w thermali =
  onlp_thermali_init :: "'w \<Rightarrow> int \<times> 'w"
  onlp_thermali_info_get :: "(thermal_info, 'w) getter"
  onlp_thermali_status_get :: "(u32, 'w) getter"
  onlp_thermali_hdr_get :: "(oid_hdr, 'w) getter"
  onlp_thermali_ioctl :: "int \<Rightarrow> farg list \<Rightarrow> 'w \<Rightarrow> int \<times> 'w"

record 'w ledi =
  onlp_ledi_init :: "'w \<Rightarrow> int \<times> 'w"
  onlp_ledi_info_get :: "(led_info, 'w) getter"
  onlp_ledi_status_get :: "(u32, 'w) getter"
  onlp_ledi_hdr_get :: "(oid_hdr, 'w) getter"
  onlp_ledi_set :: "onlp_oid_t \<Rightarrow> int \<Rightarrow> 'w \<Rightarrow> int \<times> 'w"
  onlp_ledi_mode_set :: "onlp_oid_t \<Rightarrow> int \<Rightarrow> 'w \<Rightarrow> int \<times> 'w"
  onlp_ledi_char_set :: "onlp_oid_t \<Rightarrow> char \<Rightarrow> 'w \<Rightarrow> int \<times> 'w"

text \<open>
  The system driver. A pointer to memory is the bytes readable from it on (\<open>None\<close> for \<open>NULL\<close>);
  \<open>sys_mmap\<close> is \<open>onlp_mmap\<close> of a physical address, \<open>sys_file\<close> the contents of the platform
  identifier file.
\<close>

record 'w sysi =
  onlp_sysi_platform_get :: "string option"
  onlp_sysi_platform_set :: "string \<Rightarrow> 'w \<Rightarrow> int \<times> 'w"
  onlp_sysi_init :: "'w \<Rightarrow> int \<times> 'w"
  onlp_sysi_onie_data_phys_addr_get :: "'w \<Rightarrow> int \<times> u64 \<times> 'w"
  onlp_sysi_onie_data_get :: "'w \<Rightarrow> int \<times> u8 list option \<times> 'w"
  onlp_sysi_onie_data_free :: "u8 list \<Rightarrow> 'w \<Rightarrow> 'w"
  onlp_sysi_onie_info_get :: "onie_info \<Rightarrow> 'w \<Rightarrow> int \<times> onie_info \<times> 'w"
  onlp_sysi_oids_get :: "onlp_oid_t list \<Rightarrow> nat \<Rightarrow> 'w \<Rightarrow> int \<times> onlp_oid_t list \<times> 'w"
  onlp_sysi_platform_info_get :: "platform_info \<Rightarrow> 'w \<Rightarrow> int \<times> platform_info \<times> 'w"
  onlp_sysi_platform_info_free :: "platform_info \<Rightarrow> 'w \<Rightarrow> 'w"
  onlp_sysi_ioctl :: "int \<Rightarrow> farg list \<Rightarrow> 'w \<Rightarrow> int \<times> 'w"
  onlp_sysi_debug :: "string list \<Rightarrow> 'w \<Rightarrow> int \<times> 'w"
  onlp_sysi_platform_manage_init :: "'w \<Rightarrow> int \<times> 'w"
  onlp_sysi_platform_manage_fans :: "'w \<Rightarrow> int \<times> 'w"
  onlp_sysi_platform_manage_leds :: "'w \<Rightarrow> int \<times> 'w"
  sys_mmap :: "u64 \<Rightarrow> 'w \<Rightarrow> u8 list option"
  sys_file :: "'w \<Rightarrow> string option"

text \<open>
  The configuration file as \<open>cjson_util\<close> (not part of the repository) answers for it:
  \<open>cj_lookup fmt id\<close> is the object found under a path, \<open>cj_lookup_int obj key old\<close> the status
  of an integer lookup and the new contents of the destination that held \<open>old\<close>.
\<close>

record cjson =
  cj_lookup :: "string \<Rightarrow> int \<Rightarrow> nat option"
  cj_lookup_int :: "nat \<Rightarrow> string \<Rightarrow> int \<Rightarrow> int \<times> int"

text \<open>What an uninitialised local variable holds when its function is entered.\<close>

record 'w junk =
  junk_fan :: "'w \<Rightarrow> fan_info"
  junk_psu :: "'w \<Rightarrow> psu_info"
  junk_thermal :: "'w \<Rightarrow> thermal_info"
  junk_led :: "'w \<Rightarrow> led_info"
  junk_int :: "'w \<Rightarrow> int"
  junk_hdr :: "'w \<Rightarrow> oid_hdr"

record 'w platform =
  fan_drv :: "'w fani"
  psu_drv :: "'w psui"
  thermal_drv :: "'w thermali"
  led_drv :: "'w ledi"
  sys_drv :: "'w sysi"
  list_push :: "onie_vx \<Rightarrow> onie_vx list \<Rightarrow> onie_vx list"
  config :: cjson
  uninit :: "'w junk"

section \<open>The default drivers (\<open>onlp_platform_defaults\<close>)\<close>

text \<open>Every weak default returns \<open>ONLP_STATUS_E_UNSUPPORTED\<close> and touches nothing.\<close>

definition default_get :: "('a, 'w) getter" where
  "default_get oid buf w = (ONLP_STATUS_E_UNSUPPORTED, buf, w)"

definition default_op :: "'w \<Rightarrow> int \<times> 'w" where
  "default_op w = (ONLP_STATUS_E_UNSUPPORTED, w)"

definition default_fani :: "'w fani" where
  "default_fani = \<lparr>onlp_fani_init = default_op, onlp_fani_info_get = default_get,
     onlp_fani_status_get = default_get, onlp_fani_hdr_get = default_get,
     onlp_fani_rpm_set = (\<lambda>_ _. default_op), onlp_fani_percentage_set = (\<lambda>_ _. default_op),
     onlp_fani_mode_set = (\<lambda>_ _. default_op), onlp_fani_dir_set = (\<lambda>_ _. default_op)\<rparr>"

definition default_psui :: "'w psui" where
  "default_psui = \<lparr>onlp_psui_init = default_op, onlp_psui_info_get = default_get,
     onlp_psui_status_get = default_get, onlp_psui_hdr_get = default_get,
     onlp_psui_ioctl = (\<lambda>_ _. default_op)\<rparr>"

definition default_thermali :: "'w thermali" where
  "default_thermali = \<lparr>onlp_thermali_init = default_op, onlp_thermali_info_get = default_get,
     onlp_thermali_status_get = default_get, onlp_thermali_hdr_get = default_get,
     onlp_thermali_ioctl = (\<lambda>_ _. default_op)\<rparr>"

definition default_ledi :: "'w ledi" where
  "default_ledi = \<lparr>onlp_ledi_init = default_op, onlp_ledi_info_get = default_get,
     onlp_ledi_status_get = default_get, onlp_ledi_hdr_get = default_get,
     onlp_ledi_set = (\<lambda>_ _. default_op), onlp_ledi_mode_set = (\<lambda>_ _. default_op),
     onlp_ledi_char_set = (\<lambda>_ _. default_op)\<rparr>"

text \<open>
  The default \<open>onlp_sysi_platform_get\<close> calls \<open>abort\<close> in the default configuration; it is given as
  \<open>None\<close>, on which its only caller dies too.
\<close>

definition default_sysi :: "'w sysi" where
  "default_sysi = \<lparr>onlp_sysi_platform_get = None,
     onlp_sysi_platform_set = (\<lambda>_. default_op), onlp_sysi_init = default_op,
     onlp_sysi_onie_data_phys_addr_get = (\<lambda>w. (ONLP_STATUS_E_UNSUPPORTED, 0, w)),
     onlp_sysi_onie_data_get = (\<lambda>w. (ONLP_STATUS_E_UNSUPPORTED, None, w)),
     onlp_sysi_onie_data_free = (\<lambda>_ w. w),
     onlp_sysi_onie_info_get = (\<lambda>i w. (ONLP_STATUS_E_UNSUPPORTED, i, w)),
     onlp_sysi_oids_get = (\<lambda>t _ w. (ONLP_STATUS_E_UNSUPPORTED, t, w)),
     onlp_sysi_platform_info_get = (\<lambda>i w. (ONLP_STATUS_E_UNSUPPORTED, i, w)),
     onlp_sysi_platform_info_free = (\<lambda>_ w. w), onlp_sysi_ioctl = (\<lambda>_ _. default_op),
     onlp_sysi_debug = (\<lambda>_ w. (-1, w)), onlp_sysi_platform_manage_init = default_op,
     onlp_sysi_platform_manage_fans = default_op, onlp_sysi_platform_manage_leds = default_op,
     sys_mmap = (\<lambda>_ _. None), sys_file = (\<lambda>_. None)\<rparr>"

lemmas [drv_simps] = default_get_def default_op_def default_sysi_def default_fani_def default_psui_def
  default_thermali_def default_ledi_def

section \<open>Drivers with undefined behaviour\<close>

text \<open>The state of such a driver is \<open>None\<close> once something undefined has happened.\<close>

definition guarded :: "('a \<Rightarrow> 'w \<Rightarrow> (int \<times> 'a \<times> 'w) option) \<Rightarrow> 'a \<Rightarrow> 'w option \<Rightarrow> int \<times> 'a \<times> 'w option" where
  "guarded f a w =
     (case w of
        None \<Rightarrow> (ONLP_STATUS_E_INTERNAL, a, None)
      | Some w \<Rightarrow> (case f a w of None \<Rightarrow> (ONLP_STATUS_E_INTERNAL, a, None) | Some (rv, a, w) \<Rightarrow> (rv, a, Some w)))"

definition guarded_op :: "('w \<Rightarrow> (int \<times> 'w) option) \<Rightarrow> 'w option \<Rightarrow> int \<times> 'w option" where
  "guarded_op f w =
     (case w of
        None \<Rightarrow> (ONLP_STATUS_E_INTERNAL, None)
      | Some w \<Rightarrow> (case f w of None \<Rightarrow> (ONLP_STATUS_E_INTERNAL, None) | Some (rv, w) \<Rightarrow> (rv, Some w)))"

section \<open>Falling back on the whole information structure\<close>

text \<open>
  The status and header operations of the four object classes share one contract: ask the driver
  for the small item and, when it says it does not support that, fetch the whole
  structure and take the item out of it.
\<close>

locale item_with_fallback =
  fixes item_get :: "('a, 'w) getter" and info_get :: "('i, 'w) getter"
    and part :: "'i \<Rightarrow> 'a" and junk :: "'w \<Rightarrow> 'i"
    and get :: "onlp_oid_t \<Rightarrow> 'a \<Rightarrow> 'w \<Rightarrow> int \<times> 'a \<times> 'w"
  assumes supported: "item_get oid a w = (rv, a', w') \<Longrightarrow> rv \<noteq> ONLP_STATUS_E_UNSUPPORTED \<Longrightarrow>
      get oid a w = (rv, a', w')"
    and fallback: "item_get oid a w = (ONLP_STATUS_E_UNSUPPORTED, a', w') \<Longrightarrow>
      info_get oid (junk w) w' = (rv, i, w'') \<Longrightarrow> get oid a w = (rv, part i, w'')"
begin

lemma get_cases:
  obtains (direct) rv a' w' where "item_get oid a w = (rv, a', w')" "rv \<noteq> ONLP_STATUS_E_UNSUPPORTED"
      "get oid a w = (rv, a', w')"
  | (whole) a' w' rv i w'' where "item_get oid a w = (ONLP_STATUS_E_UNSUPPORTED, a', w')"
      "info_get oid (junk w) w' = (rv, i, w'')" "get oid a w = (rv, part i, w'')"
  using supported fallback by (metis surj_pair)

text \<open>On a driver without the item the outcome is exactly that of the whole structure.\<close>

lemma get_unsupported:
  assumes "\<And>oid a w. item_get oid a w = (ONLP_STATUS_E_UNSUPPORTED, a, w)"
  shows "get oid a w = (let (rv, i, w') = info_get oid (junk w) w in (rv, part i, w'))"
  using fallback [OF assms] by (cases "info_get oid (junk w) w") auto

text \<open>
  A driver whose item agrees with its structure (same status, same item, same effect) cannot
  be told from one that has only the structure, as long as the read succeeds.
\<close>

lemma get_agrees:
  assumes agree: "\<And>i. item_get oid a w = (let (rv, i, w') = info_get oid i w in (rv, part i, w'))"
    and ok: "info_get oid j w = (rv, i, w')" "0 \<le> rv"
  shows "get oid a w = (rv, part i, w')"
  using agree [of j] ok supported [of oid a w rv "part i" w'] by simp

end

end
