(* ===== verification/Api.thy ===== *)
theory Api
  imports Platform Locks
begin

text \<open>
  What the public ONLP calls are made of: the lock chosen at build time as a record, the calls
  \<open>ONLP_LOCKED_API*\<close> define from the \<open>_locked__\<close> bodies, and the output they produce. The IOF and
  AIM print functions are not part of the repository: a printing function is modelled by
  the sequence of print calls it makes, and a call that does not return is \<open>None\<close>.
\<close>

section \<open>Locked entry points\<close>

record 'l alock =
  al_lock :: "string \<Rightarrow> 'l \<Rightarrow> 'l option"
  al_unlock :: "'l \<Rightarrow> 'l option"

definition shared_alock :: "nat \<Rightarrow> shlock option alock" where
  "shared_alock me = \<lparr>al_lock = sh_api_lock me, al_unlock = sh_api_unlock me\<rparr>"

definition sem_alock :: "sem_lock alock" where
  "sem_alock = \<lparr>al_lock = sem_api_lock, al_unlock = sem_api_unlock\<rparr>"

definition locked_api ::
  "'l alock \<Rightarrow> string \<Rightarrow> ('w \<Rightarrow> ('a \<times> 'w) option) \<Rightarrow> 'l \<times> 'w \<Rightarrow> ('a \<times> 'l \<times> 'w) option" where
  "locked_api L api body = ONLP_LOCKED_API (al_lock L) (al_unlock L) api body"

text \<open>A body that always returns: a status, or a status and an output parameter.\<close>

definition total1 :: "('w \<Rightarrow> 'a \<times> 'w) \<Rightarrow> 'w \<Rightarrow> ('a \<times> 'w) option" where
  "total1 f w = Some (f w)"

definition total2 :: "('w \<Rightarrow> int \<times> 'a \<times> 'w) \<Rightarrow> 'w \<Rightarrow> ((int \<times> 'a) \<times> 'w) option" where
  "total2 f w = (case f w of (rv, a, w') \<Rightarrow> Some ((rv, a), w'))"

section \<open>Output\<close>

datatype iof_op = Push string "farg list" | Iprintf string "farg list" | Pop | Aprintf string "farg list"

text \<open>The indentation level after some output, \<open>None\<close> when a level is popped that was not pushed.\<close>

fun iof_run :: "nat \<Rightarrow> iof_op list \<Rightarrow> nat option" where
  "iof_run k [] = Some k"
| "iof_run k (Push _ _ # os) = iof_run (Suc k) os"
| "iof_run k (Iprintf _ _ # os) = iof_run k os"
| "iof_run k (Aprintf _ _ # os) = iof_run k os"
| "iof_run k (Pop # os) = (case k of 0 \<Rightarrow> None | Suc j \<Rightarrow> iof_run j os)"

definition balanced :: "iof_op list \<Rightarrow> bool" where
  "balanced os \<longleftrightarrow> (\<forall>k. iof_run k os = Some k)"

lemma iof_run_append: "iof_run k (a @ b) = Option.bind (iof_run k a) (\<lambda>j. iof_run j b)"
  by (induction k a rule: iof_run.induct) (auto split: nat.splits)

lemma balanced_simps [simp]:
  "balanced []" "balanced (Iprintf f a # os) = balanced os" "balanced (Aprintf f a # os) = balanced os"
  by (simp_all add: balanced_def)

lemma iof_run_balanced [simp]: "balanced a \<Longrightarrow> iof_run k (a @ b) = iof_run k b"
  by (simp add: balanced_def iof_run_append)

lemma balanced_Push: "balanced (Push f a # os) \<longleftrightarrow> (\<forall>k. iof_run (Suc k) os = Some k)"
  by (simp add: balanced_def)

lemma balanced_append [simp, intro]: "balanced a \<Longrightarrow> balanced b \<Longrightarrow> balanced (a @ b)"
  by (simp add: balanced_def iof_run_append)

lemma balanced_if [intro]: "(b \<Longrightarrow> balanced x) \<Longrightarrow> (\<not> b \<Longrightarrow> balanced y) \<Longrightarrow> balanced (if b then x else y)"
  by simp

lemma balanced_enclose [simp, intro]: "balanced os \<Longrightarrow> balanced (Push f a # os @ [Pop])"
  by (simp add: balanced_def iof_run_append)

text \<open>\<open>if(c) iof_iprintf(...)\<close>\<close>

definition only :: "bool \<Rightarrow> 'a list \<Rightarrow> 'a list" where
  "only b xs = (if b then xs else [])"

lemma balanced_only [simp, intro]: "(b \<Longrightarrow> balanced xs) \<Longrightarrow> balanced (only b xs)"
  by (simp add: only_def)

text \<open>\<open>FOREACH\<close> loops that print: the outputs in order, the state threaded through.\<close>

type_synonym 's printer = "'s \<Rightarrow> (iof_op list \<times> 's) option"

fun each :: "('x \<Rightarrow> 's printer) \<Rightarrow> 'x list \<Rightarrow> 's printer" where
  "each f [] s = Some ([], s)"
| "each f (x # xs) s =
     do { (o1, s1) \<leftarrow> f x s;
          (o2, s2) \<leftarrow> each f xs s1;
          Some (o1 @ o2, s2) }"

text \<open>A printer that returns from every state of a kind, into such a state, with balanced output.\<close>

definition prints :: "('s \<Rightarrow> bool) \<Rightarrow> 's printer \<Rightarrow> bool" where
  "prints I f \<longleftrightarrow> (\<forall>s. I s \<longrightarrow> (\<exists>os s'. f s = Some (os, s') \<and> balanced os \<and> I s'))"

lemma each_prints: "(\<And>x. x \<in> set xs \<Longrightarrow> prints I (f x)) \<Longrightarrow> prints I (each f xs)"
proof (induction xs)
  case Nil
  then show ?case by (simp add: prints_def)
next
  case (Cons x xs)
  show ?case unfolding prints_def
  proof (intro allI impI)
    fix s assume "I s"
    then obtain o1 s1 where 1: "f x s = Some (o1, s1)" "balanced o1" "I s1"
      using Cons.prems [of x] by (auto simp: prints_def)
    then obtain o2 s2 where "each f xs s1 = Some (o2, s2)" "balanced o2" "I s2"
      using Cons by (fastforce simp: prints_def)
    with 1 show "\<exists>os s'. each f (x # xs) s = Some (os, s') \<and> balanced os \<and> I s'"
      by auto
  qed
qed

text \<open>Whatever a printer that returns has printed is balanced.\<close>

definition tidy :: "'s printer \<Rightarrow> bool" where
  "tidy f \<longleftrightarrow> (\<forall>s os s'. f s = Some (os, s') \<longrightarrow> balanced os)"

lemma each_tidy: "(\<And>x. x \<in> set xs \<Longrightarrow> tidy (f x)) \<Longrightarrow> tidy (each f xs)"
proof (induction xs)
  case Nil
  then show ?case by (simp add: tidy_def)
next
  case (Cons x xs)
  then have "tidy (f x)" "tidy (each f xs)" by auto
  then show ?case
    unfolding tidy_def each.simps
    by (fastforce simp: bind_eq_Some_conv intro: balanced_append)
qed

section \<open>The printing helpers (\<open>onlp_util.c\<close>)\<close>

definition onlp_oid_info_get_error :: "int \<Rightarrow> iof_op list" where
  "onlp_oid_info_get_error err = [Iprintf ''Error retrieving status: %{onlp_status}'' [FInt err]]"

definition onlp_oid_show_description :: "oid_hdr \<Rightarrow> iof_op list" where
  "onlp_oid_show_description hdr = [Iprintf ''Description: %s'' [FStr (oid_desc hdr)]]"

definition onlp_oid_show_state_missing :: "iof_op list" where
  "onlp_oid_show_state_missing = [Iprintf ''State: Missing'' []]"

lemma balanced_helpers [simp]:
  "balanced (onlp_oid_info_get_error e)" "balanced (onlp_oid_show_description h)"
  "balanced onlp_oid_show_state_missing"
  by (simp_all add: onlp_oid_info_get_error_def onlp_oid_show_description_def
      onlp_oid_show_state_missing_def)

definition ONLP_OID_DUMP_RECURSE :: u32 where "ONLP_OID_DUMP_RECURSE = 2 ^ 0"
definition ONLP_OID_DUMP_EVEN_IF_ABSENT :: u32 where "ONLP_OID_DUMP_EVEN_IF_ABSENT = 2 ^ 1"
definition ONLP_OID_SHOW_RECURSE :: u32 where "ONLP_OID_SHOW_RECURSE = 2 ^ 0"
definition ONLP_OID_SHOW_EXTENDED :: u32 where "ONLP_OID_SHOW_EXTENDED = 2 ^ 1"
definition ONLP_OID_SHOW_YAML :: u32 where "ONLP_OID_SHOW_YAML = 2 ^ 2"

text \<open>The two arguments \<open>ONLP_MILLI_NORMAL_INTEGER_TENTHS\<close> expands to.\<close>

definition ONLP_MILLI_NORMAL_INTEGER :: "int \<Rightarrow> int" where
  "ONLP_MILLI_NORMAL_INTEGER m = cdiv m 1000"

definition ONLP_MILLI_NORMAL_TENTHS :: "int \<Rightarrow> int" where
  "ONLP_MILLI_NORMAL_TENTHS m = cdiv (cmod m 1000) 100"

definition milli_args :: "int \<Rightarrow> farg list" where
  "milli_args m = [FInt (ONLP_MILLI_NORMAL_INTEGER m), FInt (ONLP_MILLI_NORMAL_TENTHS m)]"

text \<open>
  The heading of a \<open>show\<close> function: in YAML a list item and its name, otherwise the name as
  heading. The item mark differs between the callers.
\<close>

definition show_heading :: "bool \<Rightarrow> string \<Rightarrow> string \<Rightarrow> string \<Rightarrow> u32 \<Rightarrow> iof_op list" where
  "show_heading yaml mark named plain i =
     (if yaml then [Push mark [], Iprintf named [FWord i]] else [Push plain [FWord i]])"

definition show_error :: "bool \<Rightarrow> int \<Rightarrow> iof_op list" where
  "show_error yaml rv =
     (if yaml then [Iprintf ''State: Error'' [], Iprintf ''Error: %{onlp_status}'' [FInt rv]]
      else onlp_oid_info_get_error rv)"

lemma balanced_show_error [simp]: "balanced (show_error y rv)"
  by (simp add: show_error_def)

lemma balanced_heading [simp, intro]: "balanced os \<Longrightarrow> balanced (show_heading y m n p i @ os @ [Pop])"
  by (auto simp: show_heading_def balanced_def iof_run_append)

lemma balanced_heading_run: "balanced (show_heading y m n p i @ os) \<longleftrightarrow> (\<forall>k. iof_run (Suc k) os = Some k)"
  by (simp add: show_heading_def balanced_def)

section \<open>Children\<close>

text \<open>\<open>dump\<close> is \<open>onlp_oid_dump\<close>, which \<open>onlp_oid_table_dump\<close> calls for every child.\<close>

definition onlp_oid_table_dump ::
  "(onlp_oid_t \<Rightarrow> u32 \<Rightarrow> 's printer) \<Rightarrow> onlp_oid_t list \<Rightarrow> u32 \<Rightarrow> 's printer" where
  "onlp_oid_table_dump dump table flags = each (\<lambda>oid. dump oid flags) (ONLP_OID_TABLE_ITER table)"

text \<open>One class of children, under a heading in YAML only.\<close>

definition show_children ::
  "(onlp_oid_t \<Rightarrow> u32 \<Rightarrow> 's printer) \<Rightarrow> bool \<Rightarrow> string \<Rightarrow> onlp_oid_t list \<Rightarrow> oid_type \<Rightarrow> u32 \<Rightarrow> 's printer" where
  "show_children show heading key table ty flags s =
     do { (os, s1) \<leftarrow> each (\<lambda>oid. show oid flags) (ONLP_OID_TABLE_ITER_TYPE table ty) s;
          Some (if heading then Push key [] # os @ [Pop] else os, s1) }"

lemma onlp_oid_table_dump_prints:
  "(\<And>oid. oid \<in> set (ONLP_OID_TABLE_ITER table) \<Longrightarrow> prints I (dump oid flags)) \<Longrightarrow>
   prints I (onlp_oid_table_dump dump table flags)"
  unfolding onlp_oid_table_dump_def by (rule each_prints)

lemma show_children_prints:
  assumes "\<And>oid. oid \<in> set (ONLP_OID_TABLE_ITER table) \<Longrightarrow> prints I (show oid flags)"
  shows "prints I (show_children show h key table ty flags)"
proof -
  have "prints I (each (\<lambda>oid. show oid flags) (ONLP_OID_TABLE_ITER_TYPE table ty))"
    by (rule each_prints) (simp add: assms ITER_TYPE_filter)
  then show ?thesis
    unfolding prints_def show_children_def by (fastforce split: if_splits)
qed

section \<open>Locked calls that return\<close>

context api_lock
begin

definition good :: "'l \<times> 'w \<Rightarrow> bool" where
  "good s \<longleftrightarrow> inv (fst s) \<and> free (fst s)"

text \<open>What a completed call makes of the lock.\<close>

definition after :: "string \<Rightarrow> 'l \<Rightarrow> 'l" where
  "after api l = the (Option.bind (lck api l) unl)"

lemma after_good [simp]: "inv l \<Longrightarrow> free l \<Longrightarrow> inv (after api l)" "inv l \<Longrightarrow> free l \<Longrightarrow> free (after api l)"
  using lock_free [of l api] by (auto simp: after_def)

lemma locked_api_eq:
  assumes "good s" and "L = \<lparr>al_lock = lck, al_unlock = unl\<rparr>"
  shows "locked_api L api body s = map_option (\<lambda>(r, w). (r, after api (fst s), w)) (body (snd s))"
proof -
  obtain l1 l2 where "lck api (fst s) = Some l1" "unl l1 = Some l2"
    using lock_free [of "fst s" api] assms(1) by (auto simp: good_def)
  then show ?thesis
    by (cases "body (snd s)") (auto simp: locked_api_def ONLP_LOCKED_API_def after_def assms(2))
qed

lemma locked_total2:
  assumes "good s" and "L = \<lparr>al_lock = lck, al_unlock = unl\<rparr>"
  shows "locked_api L api (total2 f) s =
    (case f (snd s) of (rv, a, w) \<Rightarrow> Some ((rv, a), after api (fst s), w))"
  by (simp add: locked_api_eq [OF assms] total2_def split: prod.splits)

end

end
