(* ===== verification/Fan.thy ===== *)
theory Fan
  imports Api
begin

text \<open>
  \<open>fan.c\<close>: the fan calls behind the API lock (\<open>_locked__\<close> functions), the override read from the
  configuration file, the presence and capability guards of the setters, and the \<open>dump\<close> and
  \<open>show\<close> printers.
\<close>

section \<open>Locked bodies\<close>

definition onlp_fan_init_locked :: "'w platform \<Rightarrow> 'w \<Rightarrow> int \<times> 'w" where
  "onlp_fan_init_locked P w = onlp_fani_init (fan_drv P) w"

text \<open>
  \<open>onlp_fani_info_from_json__\<close>: each present key replaces its field; a missing one stops the
  function only when \<open>errorcheck\<close> is set.
\<close>

definition onlp_fani_info_from_json ::
  "cjson \<Rightarrow> nat option \<Rightarrow> fan_info \<Rightarrow> bool \<Rightarrow> int \<times> fan_info" where
  "onlp_fani_info_from_json cj data fip errorcheck =
     (case data of
        None \<Rightarrow> (if errorcheck then ONLP_STATUS_E_PARAM else 0, fip)
      | Some obj \<Rightarrow>
          let (rv, v) = cj_lookup_int cj obj ''status'' (sint (fi_status fip));
              fip = fip\<lparr>fi_status := word_of_int v\<rparr> in
          if rv < 0 \<and> errorcheck then (rv, fip) else
          let (rv, v) = cj_lookup_int cj obj ''caps'' (sint (fi_caps fip));
              fip = fip\<lparr>fi_caps := word_of_int v\<rparr> in
          if rv < 0 \<and> errorcheck then (rv, fip) else
          let (rv, v) = cj_lookup_int cj obj ''rpm'' (fi_rpm fip);
              fip = fip\<lparr>fi_rpm := v\<rparr> in
          if rv < 0 \<and> errorcheck then (rv, fip) else
          let (rv, v) = cj_lookup_int cj obj ''percentage'' (fi_percentage fip);
              fip = fip\<lparr>fi_percentage := v\<rparr> in
          if rv < 0 \<and> errorcheck then (rv, fip) else
          let (rv, v) = cj_lookup_int cj obj ''mode'' (fi_mode fip);
              fip = fip\<lparr>fi_mode := v\<rparr> in
          if rv < 0 \<and> errorcheck then (rv, fip) else (0, fip))"

definition onlp_fan_info_get_locked ::
  "'w platform \<Rightarrow> onlp_oid_t \<Rightarrow> fan_info \<Rightarrow> 'w \<Rightarrow> int \<times> fan_info \<times> 'w" where
  "onlp_fan_info_get_locked P oid fip w =
     (if \<not> ONLP_OID_IS_TYPE (ONLP_OID_TYPE FAN) oid then (ONLP_STATUS_E_INVALID, fip, w)
      else
        (let (rv, fip, w1) = onlp_fani_info_get (fan_drv P) oid fip w in
         if rv \<ge> 0 then
           (let i = uint (ONLP_OID_ID_GET oid);
                entry = cj_lookup (config P) ''overrides.fan.%d'' i;
                fip = snd (onlp_fani_info_from_json (config P) entry fip False);
                fip = (if fi_percentage fip \<noteq> 0 \<and> fi_rpm fip = 0
                       then fip\<lparr>fi_rpm := fi_percentage fip * 100\<rparr> else fip) in
            (rv, fip, w1))
         else (rv, fip, w1)))"

text \<open>
  The status and the header alone: the driver's own call and, when it is unsupported, the whole
  structure read into an uninitialised local. Neither validates the OID, and the part is
  copied out whatever the second call returned.
\<close>

definition onlp_fan_status_get_locked :: "'w platform \<Rightarrow> onlp_oid_t \<Rightarrow> u32 \<Rightarrow> 'w \<Rightarrow> int \<times> u32 \<times> 'w" where
  "onlp_fan_status_get_locked P oid status w =
     (let (rv, status1, w1) = onlp_fani_status_get (fan_drv P) oid status w in
      if ONLP_SUCCESS rv then (rv, status1, w1)
      else if ONLP_UNSUPPORTED rv then
        (let (rv2, fi, w2) = onlp_fani_info_get (fan_drv P) oid (junk_fan (uninit P) w) w1 in
         (rv2, fi_status fi, w2))
      else (rv, status1, w1))"

definition onlp_fan_hdr_get_locked :: "'w platform \<Rightarrow> onlp_oid_t \<Rightarrow> oid_hdr \<Rightarrow> 'w \<Rightarrow> int \<times> oid_hdr \<times> 'w" where
  "onlp_fan_hdr_get_locked P oid hdr w =
     (let (rv, hdr1, w1) = onlp_fani_hdr_get (fan_drv P) oid hdr w in
      if ONLP_SUCCESS rv then (rv, hdr1, w1)
      else if ONLP_UNSUPPORTED rv then
        (let (rv2, fi, w2) = onlp_fani_info_get (fan_drv P) oid (junk_fan (uninit P) w) w1 in
         (rv2, fi_hdr fi, w2))
      else (rv, hdr1, w1))"

interpretation fan_status: item_with_fallback "onlp_fani_status_get (fan_drv P)"
  "onlp_fani_info_get (fan_drv P)" fi_status "junk_fan (uninit P)" "onlp_fan_status_get_locked P"
  by unfold_locales (auto simp: onlp_fan_status_get_locked_def)

interpretation fan_hdr: item_with_fallback "onlp_fani_hdr_get (fan_drv P)"
  "onlp_fani_info_get (fan_drv P)" fi_hdr "junk_fan (uninit P)" "onlp_fan_hdr_get_locked P"
  by unfold_locales (auto simp: onlp_fan_hdr_get_locked_def)

section \<open>Guarded setters\<close>

definition onlp_fan_present :: "'w platform \<Rightarrow> onlp_oid_t \<Rightarrow> fan_info \<Rightarrow> 'w \<Rightarrow> int \<times> fan_info \<times> 'w" where
  "onlp_fan_present P oid info w =
     (if \<not> ONLP_OID_IS_TYPE (ONLP_OID_TYPE FAN) oid then (ONLP_STATUS_E_INVALID, info, w)
      else
        (let (rv, info, w1) = onlp_fani_info_get (fan_drv P) oid info w in
         if rv < 0 then (rv, info, w1)
         else if fi_status info AND 1 = 0 then (ONLP_STATUS_E_MISSING, info, w1)
         else (ONLP_STATUS_OK, info, w1)))"

definition onlp_fan_rpm_set_locked :: "'w platform \<Rightarrow> onlp_oid_t \<Rightarrow> int \<Rightarrow> 'w \<Rightarrow> int \<times> 'w" where
  "onlp_fan_rpm_set_locked P oid rpm w =
     (let (rv, info, w1) = onlp_fan_present P oid (junk_fan (uninit P) w) w in
      if rv < 0 then (rv, w1)
      else if has (fi_caps info) ONLP_FAN_CAPS_SET_RPM then onlp_fani_rpm_set (fan_drv P) oid rpm w1
      else (ONLP_STATUS_E_UNSUPPORTED, w1))"

definition onlp_fan_percentage_set_locked :: "'w platform \<Rightarrow> onlp_oid_t \<Rightarrow> int \<Rightarrow> 'w \<Rightarrow> int \<times> 'w" where
  "onlp_fan_percentage_set_locked P oid p w =
     (let (rv, info, w1) = onlp_fan_present P oid (junk_fan (uninit P) w) w in
      if rv < 0 then (rv, w1)
      else if has (fi_caps info) ONLP_FAN_CAPS_SET_PERCENTAGE
        then onlp_fani_percentage_set (fan_drv P) oid p w1
      else (ONLP_STATUS_E_UNSUPPORTED, w1))"

definition onlp_fan_mode_set_locked :: "'w platform \<Rightarrow> onlp_oid_t \<Rightarrow> int \<Rightarrow> 'w \<Rightarrow> int \<times> 'w" where
  "onlp_fan_mode_set_locked P oid mode w =
     (let (rv, info, w1) = onlp_fan_present P oid (junk_fan (uninit P) w) w in
      if rv < 0 then (rv, w1) else onlp_fani_mode_set (fan_drv P) oid mode w1)"

definition onlp_fan_dir_set_locked :: "'w platform \<Rightarrow> onlp_oid_t \<Rightarrow> int \<Rightarrow> 'w \<Rightarrow> int \<times> 'w" where
  "onlp_fan_dir_set_locked P oid dir w =
     (let (rv, info, w1) = onlp_fan_present P oid (junk_fan (uninit P) w) w in
      if rv < 0 then (rv, w1)
      else if has (fi_caps info) ONLP_FAN_CAPS_B2F \<and> has (fi_caps info) ONLP_FAN_CAPS_F2B
        then onlp_fani_dir_set (fan_drv P) oid dir w1
      else (ONLP_STATUS_E_UNSUPPORTED, w1))"

section \<open>Public calls\<close>

definition onlp_fan_init :: "'l alock \<Rightarrow> 'w platform \<Rightarrow> 'l \<times> 'w \<Rightarrow> (int \<times> 'l \<times> 'w) option" where
  "onlp_fan_init L P = locked_api L ''onlp_fan_init'' (total1 (onlp_fan_init_locked P))"

definition onlp_fan_info_get ::
  "'l alock \<Rightarrow> 'w platform \<Rightarrow> onlp_oid_t \<Rightarrow> fan_info \<Rightarrow> 'l \<times> 'w \<Rightarrow> ((int \<times> fan_info) \<times> 'l \<times> 'w) option" where
  "onlp_fan_info_get L P oid info =
     locked_api L ''onlp_fan_info_get'' (total2 (onlp_fan_info_get_locked P oid info))"

definition onlp_fan_status_get ::
  "'l alock \<Rightarrow> 'w platform \<Rightarrow> onlp_oid_t \<Rightarrow> u32 \<Rightarrow> 'l \<times> 'w \<Rightarrow> ((int \<times> u32) \<times> 'l \<times> 'w) option" where
  "onlp_fan_status_get L P oid status =
     locked_api L ''onlp_fan_status_get'' (total2 (onlp_fan_status_get_locked P oid status))"

definition onlp_fan_hdr_get ::
  "'l alock \<Rightarrow> 'w platform \<Rightarrow> onlp_oid_t \<Rightarrow> oid_hdr \<Rightarrow> 'l \<times> 'w \<Rightarrow> ((int \<times> oid_hdr) \<times> 'l \<times> 'w) option" where
  "onlp_fan_hdr_get L P oid hdr =
     locked_api L ''onlp_fan_hdr_get'' (total2 (onlp_fan_hdr_get_locked P oid hdr))"

definition onlp_fan_rpm_set :: "'l alock \<Rightarrow> 'w platform \<Rightarrow> onlp_oid_t \<Rightarrow> int \<Rightarrow> 'l \<times> 'w \<Rightarrow> (int \<times> 'l \<times> 'w) option" where
  "onlp_fan_rpm_set L P oid v =
     locked_api L ''onlp_fan_rpm_set'' (total1 (onlp_fan_rpm_set_locked P oid v))"

definition onlp_fan_percentage_set :: "'l alock \<Rightarrow> 'w platform \<Rightarrow> onlp_oid_t \<Rightarrow> int \<Rightarrow> 'l \<times> 'w \<Rightarrow> (int \<times> 'l \<times> 'w) option" where
  "onlp_fan_percentage_set L P oid v =
     locked_api L ''onlp_fan_percentage_set'' (total1 (onlp_fan_percentage_set_locked P oid v))"

definition onlp_fan_mode_set :: "'l alock \<Rightarrow> 'w platform \<Rightarrow> onlp_oid_t \<Rightarrow> int \<Rightarrow> 'l \<times> 'w \<Rightarrow> (int \<times> 'l \<times> 'w) option" where
  "onlp_fan_mode_set L P oid v =
     locked_api L ''onlp_fan_mode_set'' (total1 (onlp_fan_mode_set_locked P oid v))"

definition onlp_fan_dir_set :: "'l alock \<Rightarrow> 'w platform \<Rightarrow> onlp_oid_t \<Rightarrow> int \<Rightarrow> 'l \<times> 'w \<Rightarrow> (int \<times> 'l \<times> 'w) option" where
  "onlp_fan_dir_set L P oid v =
     locked_api L ''onlp_fan_dir_set'' (total1 (onlp_fan_dir_set_locked P oid v))"

section \<open>Dump and show\<close>

definition onlp_fan_dump :: "'l alock \<Rightarrow> 'w platform \<Rightarrow> onlp_oid_t \<Rightarrow> u32 \<Rightarrow> ('l \<times> 'w) printer" where
  "onlp_fan_dump L P oid flags s =
     (if \<not> ONLP_OID_IS_TYPE (ONLP_OID_TYPE FAN) oid then Some ([], s)
      else do {
        ((rv, info), s1) \<leftarrow> onlp_fan_info_get L P oid (junk_fan (uninit P) (snd s)) s;
        Some (Push ''fan @ %d'' [FWord (ONLP_OID_ID_GET oid)] #
          (if rv < 0 then onlp_oid_info_get_error rv
           else onlp_oid_show_description (fi_hdr info) @
             (if has (fi_status info) 1 then
                [Iprintf ''Status: %{onlp_fan_status_flags}'' [FWord (fi_status info)],
                 Iprintf ''Caps:   %{onlp_fan_caps_flags}'' [FWord (fi_caps info)],
                 Iprintf ''RPM:    %d'' [FInt (fi_rpm info)],
                 Iprintf ''Per:    %d'' [FInt (fi_percentage info)],
                 Iprintf ''Model:  %s'' [FStr (if fi_model info \<noteq> [] then fi_model info else ''NULL'')],
                 Iprintf ''SN:     %s'' [FStr (if fi_serial info \<noteq> [] then fi_serial info else ''NULL'')]]
              else [Iprintf ''Not present.'' []])) @ [Pop], s1) })"

definition fan_show_present :: "fan_info \<Rightarrow> iof_op list" where
  "fan_show_present fi =
     [Iprintf ''State: Present'' []] @
     (if has (fi_status fi) ONLP_FAN_STATUS_FAILED then [Iprintf ''Status: Failed'' []]
      else
        [Iprintf ''Status: Running'' []] @
        only (fi_model fi \<noteq> []) [Iprintf ''Model: %{pstr}'' [FStr (fi_model fi), FChar (CHR ''?'')]] @
        only (fi_serial fi \<noteq> []) [Iprintf ''SN: %{pstr}'' [FStr (fi_serial fi), FChar (CHR ''?'')]] @
        only (has (fi_caps fi) ONLP_FAN_CAPS_GET_RPM) [Iprintf ''RPM: %d'' [FInt (fi_rpm fi)]] @
        only (has (fi_caps fi) ONLP_FAN_CAPS_GET_PERCENTAGE)
          [Iprintf ''Speed: %d%%'' [FInt (fi_percentage fi)]] @
        only (has (fi_status fi) ONLP_FAN_STATUS_B2F) [Iprintf ''Airflow: Back-to-Front'' []] @
        only (has (fi_status fi) ONLP_FAN_STATUS_F2B) [Iprintf ''Airflow: Front-to-Back'' []])"

definition onlp_fan_show :: "'l alock \<Rightarrow> 'w platform \<Rightarrow> onlp_oid_t \<Rightarrow> u32 \<Rightarrow> ('l \<times> 'w) printer" where
  "onlp_fan_show L P oid flags s =
     do { ((rv, fi), s1) \<leftarrow> onlp_fan_info_get L P oid (junk_fan (uninit P) (snd s)) s;
          let yaml = has flags ONLP_OID_SHOW_YAML;
          Some (show_heading yaml ''- '' ''Name: Fan %d'' ''Fan %d'' (ONLP_OID_ID_GET oid) @
            (if rv < 0 then show_error yaml rv
             else onlp_oid_show_description (fi_hdr fi) @
               (if has (fi_status fi) 1 then fan_show_present fi else onlp_oid_show_state_missing)) @
            [Pop], s1) }"

lemma fan_show_present_balanced [simp]: "balanced (fan_show_present fi)"
  by (simp add: fan_show_present_def)

end
