(* ===== verification/Thermal.thy ===== *)
theory Thermal
  imports Api
begin

text \<open>
  \<open>thermal.c\<close>: the thermal sensor calls behind the API lock, the override read from the
  configuration file, and the \<open>dump\<close> and \<open>show\<close> printers (the build leaves
  \<open>ONLP_CONFIG_INCLUDE_THERMAL_THRESHOLDS\<close> off).
\<close>

section \<open>Locked bodies\<close>

definition onlp_thermal_init_locked :: "'w platform \<Rightarrow> 'w \<Rightarrow> int \<times> 'w" where
  "onlp_thermal_init_locked P w = onlp_thermali_init (thermal_drv P) w"

text \<open>
  \<open>onlp_thermali_info_from_json__\<close>: the local \<open>t\<close> has no initial value (\<open>t0\<close>) and is stored even
  when the lookup did not set it.
\<close>

definition onlp_thermali_info_from_json ::
  "cjson \<Rightarrow> nat option \<Rightarrow> int \<Rightarrow> thermal_info \<Rightarrow> bool \<Rightarrow> int \<times> thermal_info" where
  "onlp_thermali_info_from_json cj data t0 info errorcheck =
     (case data of
        None \<Rightarrow> (if errorcheck then ONLP_STATUS_E_PARAM else 0, info)
      | Some obj \<Rightarrow>
          let (rv, v) = cj_lookup_int cj obj ''status'' (sint (ti_status info));
              info = info\<lparr>ti_status := word_of_int v\<rparr> in
          if rv < 0 \<and> errorcheck then (rv, info) else
          let (rv, t) = cj_lookup_int cj obj ''mcelsius'' t0 in
          if rv < 0 \<and> errorcheck then (rv, info) else (0, info\<lparr>ti_mcelsius := t\<rparr>))"

definition onlp_thermal_info_get_locked ::
  "'w platform \<Rightarrow> onlp_oid_t \<Rightarrow> thermal_info \<Rightarrow> 'w \<Rightarrow> int \<times> thermal_info \<times> 'w" where
  "onlp_thermal_info_get_locked P oid info w =
     (if \<not> ONLP_OID_IS_TYPE (ONLP_OID_TYPE THERMAL) oid then (ONLP_STATUS_E_INVALID, info, w)
      else
        (let (rv, info, w1) = onlp_thermali_info_get (thermal_drv P) oid info w in
         if rv \<ge> 0 then
           (let i = uint (ONLP_OID_ID_GET oid);
                entry = cj_lookup (config P) ''overrides.thermal.%d'' i in
            (rv, snd (onlp_thermali_info_from_json (config P) entry (junk_int (uninit P) w1) info False), w1))
         else (rv, info, w1)))"

text \<open>
  The status and the header alone: the driver's own call and, when it is unsupported, the whole
  structure read into an uninitialised local. Neither validates the OID, and the part is
  copied out whatever the second call returned.
\<close>

definition onlp_thermal_status_get_locked :: "'w platform \<Rightarrow> onlp_oid_t \<Rightarrow> u32 \<Rightarrow> 'w \<Rightarrow> int \<times> u32 \<times> 'w" where
  "onlp_thermal_status_get_locked P oid status w =
     (let (rv, status1, w1) = onlp_thermali_status_get (thermal_drv P) oid status w in
      if ONLP_SUCCESS rv then (rv, status1, w1)
      else if ONLP_UNSUPPORTED rv then
        (let (rv2, ti, w2) = onlp_thermali_info_get (thermal_drv P) oid (junk_thermal (uninit P) w) w1 in
         (rv2, ti_status ti, w2))
      else (rv, status1, w1))"

definition onlp_thermal_hdr_get_locked :: "'w platform \<Rightarrow> onlp_oid_t \<Rightarrow> oid_hdr \<Rightarrow> 'w \<Rightarrow> int \<times> oid_hdr \<times> 'w" where
  "onlp_thermal_hdr_get_locked P oid hdr w =
     (let (rv, hdr1, w1) = onlp_thermali_hdr_get (thermal_drv P) oid hdr w in
      if ONLP_SUCCESS rv then (rv, hdr1, w1)
      else if ONLP_UNSUPPORTED rv then
        (let (rv2, ti, w2) = onlp_thermali_info_get (thermal_drv P) oid (junk_thermal (uninit P) w) w1 in
         (rv2, ti_hdr ti, w2))
      else (rv, hdr1, w1))"

interpretation thermal_status: item_with_fallback "onlp_thermali_status_get (thermal_drv P)"
  "onlp_thermali_info_get (thermal_drv P)" ti_status "junk_thermal (uninit P)" "onlp_thermal_status_get_locked P"
  by unfold_locales (auto simp: onlp_thermal_status_get_locked_def)

interpretation thermal_hdr: item_with_fallback "onlp_thermali_hdr_get (thermal_drv P)"
  "onlp_thermali_info_get (thermal_drv P)" ti_hdr "junk_thermal (uninit P)" "onlp_thermal_hdr_get_locked P"
  by unfold_locales (auto simp: onlp_thermal_hdr_get_locked_def)

definition onlp_thermal_vioctl_locked :: "'w platform \<Rightarrow> int \<Rightarrow> farg list \<Rightarrow> 'w \<Rightarrow> int \<times> 'w" where
  "onlp_thermal_vioctl_locked P code vargs w = onlp_thermali_ioctl (thermal_drv P) code vargs w"

section \<open>Public calls\<close>

definition onlp_thermal_init :: "'l alock \<Rightarrow> 'w platform \<Rightarrow> 'l \<times> 'w \<Rightarrow> (int \<times> 'l \<times> 'w) option" where
  "onlp_thermal_init L P = locked_api L ''onlp_thermal_init'' (total1 (onlp_thermal_init_locked P))"

definition onlp_thermal_info_get ::
  "'l alock \<Rightarrow> 'w platform \<Rightarrow> onlp_oid_t \<Rightarrow> thermal_info \<Rightarrow> 'l \<times> 'w \<Rightarrow> ((int \<times> thermal_info) \<times> 'l \<times> 'w) option" where
  "onlp_thermal_info_get L P oid info =
     locked_api L ''onlp_thermal_info_get'' (total2 (onlp_thermal_info_get_locked P oid info))"

definition onlp_thermal_status_get ::
  "'l alock \<Rightarrow> 'w platform \<Rightarrow> onlp_oid_t \<Rightarrow> u32 \<Rightarrow> 'l \<times> 'w \<Rightarrow> ((int \<times> u32) \<times> 'l \<times> 'w) option" where
  "onlp_thermal_status_get L P oid status =
     locked_api L ''onlp_thermal_status_get'' (total2 (onlp_thermal_status_get_locked P oid status))"

definition onlp_thermal_hdr_get ::
  "'l alock \<Rightarrow> 'w platform \<Rightarrow> onlp_oid_t \<Rightarrow> oid_hdr \<Rightarrow> 'l \<times> 'w \<Rightarrow> ((int \<times> oid_hdr) \<times> 'l \<times> 'w) option" where
  "onlp_thermal_hdr_get L P oid hdr =
     locked_api L ''onlp_thermal_hdr_get'' (total2 (onlp_thermal_hdr_get_locked P oid hdr))"

definition onlp_thermal_vioctl ::
  "'l alock \<Rightarrow> 'w platform \<Rightarrow> int \<Rightarrow> farg list \<Rightarrow> 'l \<times> 'w \<Rightarrow> (int \<times> 'l \<times> 'w) option" where
  "onlp_thermal_vioctl L P code vargs =
     locked_api L ''onlp_thermal_vioctl'' (total1 (onlp_thermal_vioctl_locked P code vargs))"

definition onlp_thermal_ioctl ::
  "'l alock \<Rightarrow> 'w platform \<Rightarrow> int \<Rightarrow> farg list \<Rightarrow> 'l \<times> 'w \<Rightarrow> (int \<times> 'l \<times> 'w) option" where
  "onlp_thermal_ioctl L P code vargs = onlp_thermal_vioctl L P code vargs"

section \<open>Dump and show\<close>

definition onlp_thermal_dump :: "'l alock \<Rightarrow> 'w platform \<Rightarrow> onlp_oid_t \<Rightarrow> u32 \<Rightarrow> ('l \<times> 'w) printer" where
  "onlp_thermal_dump L P oid flags s =
     (if \<not> ONLP_OID_IS_TYPE (ONLP_OID_TYPE THERMAL) oid then Some ([], s)
      else do {
        ((rv, info), s1) \<leftarrow> onlp_thermal_info_get L P oid (junk_thermal (uninit P) (snd s)) s;
        Some (Push ''thermal @ %d'' [FWord (ONLP_OID_ID_GET oid)] #
          (if rv < 0 then onlp_oid_info_get_error rv
           else onlp_oid_show_description (ti_hdr info) @
             (if has (ti_status info) 1 then
                [Iprintf ''Status: %{onlp_thermal_status_flags}'' [FWord (ti_status info)],
                 Iprintf ''Caps:   %{onlp_thermal_caps_flags}'' [FWord (ti_caps info)],
                 Iprintf ''Temperature: %d'' [FInt (ti_mcelsius info)],
                 Push ''thresholds'' [],
                 Iprintf ''Warning: %d'' [FInt (ti_warning info)],
                 Iprintf ''Error: %d'' [FInt (ti_error info)],
                 Iprintf ''Shutdown: %d'' [FInt (ti_shutdown info)],
                 Pop]
              else [Iprintf ''Not present.'' []])) @ [Pop], s1) })"

definition thermal_show_present :: "thermal_info \<Rightarrow> iof_op list" where
  "thermal_show_present ti =
     (if has (ti_status ti) ONLP_THERMAL_STATUS_FAILED then [Iprintf ''Status: Failed'' []]
      else
        [Iprintf ''Status: Functional'' []] @
        only (has (ti_caps ti) ONLP_THERMAL_CAPS_GET_TEMPERATURE)
          [Iprintf ''Temperature: %d.%d C'' (milli_args (ti_mcelsius ti))])"

definition onlp_thermal_show :: "'l alock \<Rightarrow> 'w platform \<Rightarrow> onlp_oid_t \<Rightarrow> u32 \<Rightarrow> ('l \<times> 'w) printer" where
  "onlp_thermal_show L P oid flags s =
     (if \<not> ONLP_OID_IS_TYPE (ONLP_OID_TYPE THERMAL) oid then Some ([], s)
      else do {
        ((rv, ti), s1) \<leftarrow> onlp_thermal_info_get L P oid (junk_thermal (uninit P) (snd s)) s;
        let yaml = has flags ONLP_OID_SHOW_YAML;
        Some (show_heading yaml ''- '' ''Name: Thermal %d'' ''Thermal %d'' (ONLP_OID_ID_GET oid) @
          (if rv < 0 then show_error yaml rv
           else onlp_oid_show_description (ti_hdr ti) @
             (if has (ti_status ti) 1 then thermal_show_present ti else onlp_oid_show_state_missing)) @
          [Pop], s1) })"

lemma thermal_show_present_balanced [simp]: "balanced (thermal_show_present ti)"
  by (simp add: thermal_show_present_def)

end
