(* ===== verification/Led.thy ===== *)
theory Led
  imports Api
begin

text \<open>
  \<open>led.c\<close>: the LED calls behind the API lock, the presence and capability guards of the
  setters, and the \<open>dump\<close> and \<open>show\<close> printers.
\<close>

section \<open>Locked bodies\<close>

definition onlp_led_present :: "'w platform \<Rightarrow> onlp_oid_t \<Rightarrow> led_info \<Rightarrow> 'w \<Rightarrow> int \<times> led_info \<times> 'w" where
  "onlp_led_present P oid info w =
     (if \<not> ONLP_OID_IS_TYPE (ONLP_OID_TYPE LED) oid then (ONLP_STATUS_E_INVALID, info, w)
      else
        (let (rv, info, w1) = onlp_ledi_info_get (led_drv P) oid info w in
         if rv < 0 then (rv, info, w1)
         else if li_status info AND 1 = 0 then (ONLP_STATUS_E_MISSING, info, w1)
         else (ONLP_STATUS_OK, info, w1)))"

definition onlp_led_init_locked :: "'w platform \<Rightarrow> 'w \<Rightarrow> int \<times> 'w" where
  "onlp_led_init_locked P w = onlp_ledi_init (led_drv P) w"

definition onlp_led_info_get_locked ::
  "'w platform \<Rightarrow> onlp_oid_t \<Rightarrow> led_info \<Rightarrow> 'w \<Rightarrow> int \<times> led_info \<times> 'w" where
  "onlp_led_info_get_locked P oid info w =
     (if \<not> ONLP_OID_IS_TYPE (ONLP_OID_TYPE LED) oid then (ONLP_STATUS_E_INVALID, info, w)
      else onlp_ledi_info_get (led_drv P) oid info w)"

text \<open>
  The status and the header alone: the driver's own call and, when it is unsupported, the whole
  structure read into an uninitialised local. Neither validates the OID, and the part is
  copied out whatever the second call returned.
\<close>

definition onlp_led_status_get_locked :: "'w platform \<Rightarrow> onlp_oid_t \<Rightarrow> u32 \<Rightarrow> 'w \<Rightarrow> int \<times> u32 \<times> 'w" where
  "onlp_led_status_get_locked P oid status w =
     (let (rv, status1, w1) = onlp_ledi_status_get (led_drv P) oid status w in
      if ONLP_SUCCESS rv then (rv, status1, w1)
      else if ONLP_UNSUPPORTED rv then
        (let (rv2, li, w2) = onlp_ledi_info_get (led_drv P) oid (junk_led (uninit P) w) w1 in
         (rv2, li_status li, w2))
      else (rv, status1, w1))"

definition onlp_led_hdr_get_locked :: "'w platform \<Rightarrow> onlp_oid_t \<Rightarrow> oid_hdr \<Rightarrow> 'w \<Rightarrow> int \<times> oid_hdr \<times> 'w" where
  "onlp_led_hdr_get_locked P oid hdr w =
     (let (rv, hdr1, w1) = onlp_ledi_hdr_get (led_drv P) oid hdr w in
      if ONLP_SUCCESS rv then (rv, hdr1, w1)
      else if ONLP_UNSUPPORTED rv then
        (let (rv2, li, w2) = onlp_ledi_info_get (led_drv P) oid (junk_led (uninit P) w) w1 in
         (rv2, li_hdr li, w2))
      else (rv, hdr1, w1))"

interpretation led_status: item_with_fallback "onlp_ledi_status_get (led_drv P)"
  "onlp_ledi_info_get (led_drv P)" li_status "junk_led (uninit P)" "onlp_led_status_get_locked P"
  by unfold_locales (auto simp: onlp_led_status_get_locked_def)

interpretation led_hdr: item_with_fallback "onlp_ledi_hdr_get (led_drv P)"
  "onlp_ledi_info_get (led_drv P)" li_hdr "junk_led (uninit P)" "onlp_led_hdr_get_locked P"
  by unfold_locales (auto simp: onlp_led_hdr_get_locked_def)

section \<open>Guarded setters\<close>

definition onlp_led_set_locked :: "'w platform \<Rightarrow> onlp_oid_t \<Rightarrow> int \<Rightarrow> 'w \<Rightarrow> int \<times> 'w" where
  "onlp_led_set_locked P oid on_or_off w =
     (let (rv, info, w1) = onlp_led_present P oid (junk_led (uninit P) w) w in
      if rv < 0 then (rv, w1)
      else if has (li_caps info) ONLP_LED_CAPS_ON_OFF then onlp_ledi_set (led_drv P) oid on_or_off w1
      else (ONLP_STATUS_E_UNSUPPORTED, w1))"

text \<open>\<open>1 << mode\<close>, for the enumeration values of \<open>onlp_led_mode_t\<close> (all small and not negative).\<close>

definition onlp_led_mode_set_locked :: "'w platform \<Rightarrow> onlp_oid_t \<Rightarrow> int \<Rightarrow> 'w \<Rightarrow> int \<times> 'w" where
  "onlp_led_mode_set_locked P oid mode w =
     (let (rv, info, w1) = onlp_led_present P oid (junk_led (uninit P) w) w in
      if rv < 0 then (rv, w1)
      else if has (li_caps info) (push_bit (nat mode) 1) then onlp_ledi_mode_set (led_drv P) oid mode w1
      else (ONLP_STATUS_E_UNSUPPORTED, w1))"

definition onlp_led_char_set_locked :: "'w platform \<Rightarrow> onlp_oid_t \<Rightarrow> char \<Rightarrow> 'w \<Rightarrow> int \<times> 'w" where
  "onlp_led_char_set_locked P oid c w =
     (let (rv, info, w1) = onlp_led_present P oid (junk_led (uninit P) w) w in
      if rv < 0 then (rv, w1)
      else if has (li_caps info) ONLP_LED_CAPS_CHAR then onlp_ledi_char_set (led_drv P) oid c w1
      else (ONLP_STATUS_E_UNSUPPORTED, w1))"

section \<open>Public calls\<close>

definition onlp_led_init :: "'l alock \<Rightarrow> 'w platform \<Rightarrow> 'l \<times> 'w \<Rightarrow> (int \<times> 'l \<times> 'w) option" where
  "onlp_led_init L P = locked_api L ''onlp_led_init'' (total1 (onlp_led_init_locked P))"

definition onlp_led_info_get ::
  "'l alock \<Rightarrow> 'w platform \<Rightarrow> onlp_oid_t \<Rightarrow> led_info \<Rightarrow> 'l \<times> 'w \<Rightarrow> ((int \<times> led_info) \<times> 'l \<times> 'w) option" where
  "onlp_led_info_get L P oid info =
     locked_api L ''onlp_led_info_get'' (total2 (onlp_led_info_get_locked P oid info))"

definition onlp_led_status_get ::
  "'l alock \<Rightarrow> 'w platform \<Rightarrow> onlp_oid_t \<Rightarrow> u32 \<Rightarrow> 'l \<times> 'w \<Rightarrow> ((int \<times> u32) \<times> 'l \<times> 'w) option" where
  "onlp_led_status_get L P oid status =
     locked_api L ''onlp_led_status_get'' (total2 (onlp_led_status_get_locked P oid status))"

definition onlp_led_hdr_get ::
  "'l alock \<Rightarrow> 'w platform \<Rightarrow> onlp_oid_t \<Rightarrow> oid_hdr \<Rightarrow> 'l \<times> 'w \<Rightarrow> ((int \<times> oid_hdr) \<times> 'l \<times> 'w) option" where
  "onlp_led_hdr_get L P oid hdr =
     locked_api L ''onlp_led_hdr_get'' (total2 (onlp_led_hdr_get_locked P oid hdr))"

definition onlp_led_set :: "'l alock \<Rightarrow> 'w platform \<Rightarrow> onlp_oid_t \<Rightarrow> int \<Rightarrow> 'l \<times> 'w \<Rightarrow> (int \<times> 'l \<times> 'w) option" where
  "onlp_led_set L P oid v =
     locked_api L ''onlp_led_set'' (total1 (onlp_led_set_locked P oid v))"

definition onlp_led_mode_set :: "'l alock \<Rightarrow> 'w platform \<Rightarrow> onlp_oid_t \<Rightarrow> int \<Rightarrow> 'l \<times> 'w \<Rightarrow> (int \<times> 'l \<times> 'w) option" where
  "onlp_led_mode_set L P oid v =
     locked_api L ''onlp_led_mode_set'' (total1 (onlp_led_mode_set_locked P oid v))"

definition onlp_led_char_set :: "'l alock \<Rightarrow> 'w platform \<Rightarrow> onlp_oid_t \<Rightarrow> char \<Rightarrow> 'l \<times> 'w \<Rightarrow> (int \<times> 'l \<times> 'w) option" where
  "onlp_led_char_set L P oid v =
     locked_api L ''onlp_led_char_set'' (total1 (onlp_led_char_set_locked P oid v))"

section \<open>Dump and show\<close>

definition onlp_led_dump :: "'l alock \<Rightarrow> 'w platform \<Rightarrow> onlp_oid_t \<Rightarrow> u32 \<Rightarrow> ('l \<times> 'w) printer" where
  "onlp_led_dump L P oid flags s =
     (if \<not> ONLP_OID_IS_TYPE (ONLP_OID_TYPE LED) oid then Some ([], s)
      else do {
        ((rv, info), s1) \<leftarrow> onlp_led_info_get L P oid (junk_led (uninit P) (snd s)) s;
        Some (Push ''led @ %d'' [FWord (ONLP_OID_ID_GET oid)] #
          (if rv < 0 then onlp_oid_info_get_error rv
           else onlp_oid_show_description (li_hdr info) @
             (if has (li_status info) 1 then
                [Iprintf ''Status: %{onlp_led_status_flags}'' [FWord (li_status info)],
                 Iprintf ''Caps:   %{onlp_led_caps_flags}'' [FWord (li_caps info)],
                 Iprintf ''Mode: %{onlp_led_mode}'' [FInt (li_mode info)],
                 Iprintf ''Char: %c'' [FChar (li_character info)]]
              else [Iprintf ''Not present.'' []])) @ [Pop], s1) })"

definition onlp_led_show :: "'l alock \<Rightarrow> 'w platform \<Rightarrow> onlp_oid_t \<Rightarrow> u32 \<Rightarrow> ('l \<times> 'w) printer" where
  "onlp_led_show L P oid flags s =
     (if \<not> ONLP_OID_IS_TYPE (ONLP_OID_TYPE LED) oid then Some ([], s)
      else do {
        ((rv, info), s1) \<leftarrow> onlp_led_info_get L P oid (junk_led (uninit P) (snd s)) s;
        let yaml = has flags ONLP_OID_SHOW_YAML;
        Some (show_heading yaml '' -'' ''Name: LED %d'' ''LED %d'' (ONLP_OID_ID_GET oid) @
          (if rv < 0 then show_error yaml rv
           else onlp_oid_show_description (li_hdr info) @
             (if has (li_status info) 1 then
                [Iprintf ''State: Present'' [],
                 Iprintf ''Mode: %{onlp_led_mode}'' [FInt (li_mode info)]] @
                only (has (li_caps info) ONLP_LED_CAPS_CHAR)
                  [Iprintf ''Char: %c'' [FChar (li_character info)]]
              else onlp_oid_show_state_missing)) @
          [Pop], s1) })"

end
