(* ===== verification/Psu.thy ===== *)
theory Psu
  imports Api
begin

text \<open>
  \<open>psu.c\<close>: the power supply calls behind the API lock and the \<open>dump\<close> and \<open>show\<close> printers. A
  printer that descends into the children takes the printer of one OID as an argument; the
  theory of the printing recursion ties the knot.
\<close>

section \<open>Locked bodies\<close>

definition onlp_psu_init_locked :: "'w platform \<Rightarrow> 'w \<Rightarrow> int \<times> 'w" where
  "onlp_psu_init_locked P w = onlp_psui_init (psu_drv P) w"

definition onlp_psu_info_get_locked ::
  "'w platform \<Rightarrow> onlp_oid_t \<Rightarrow> psu_info \<Rightarrow> 'w \<Rightarrow> int \<times> psu_info \<times> 'w" where
  "onlp_psu_info_get_locked P oid info w =
     (if \<not> ONLP_OID_IS_TYPE (ONLP_OID_TYPE PSU) oid then (ONLP_STATUS_E_INVALID, info, w)
      else onlp_psui_info_get (psu_drv P) oid info w)"

text \<open>
  The status and the header alone: the driver's own call and, when it is unsupported, the whole
  structure read into an uninitialised local. Neither validates the OID, and the part is
  copied out whatever the second call returned.
\<close>

definition onlp_psu_status_get_locked :: "'w platform \<Rightarrow> onlp_oid_t \<Rightarrow> u32 \<Rightarrow> 'w \<Rightarrow> int \<times> u32 \<times> 'w" where
  "onlp_psu_status_get_locked P oid status w =
     (let (rv, status1, w1) = onlp_psui_status_get (psu_drv P) oid status w in
      if ONLP_SUCCESS rv then (rv, status1, w1)
      else if ONLP_UNSUPPORTED rv then
        (let (rv2, pi, w2) = onlp_psui_info_get (psu_drv P) oid (junk_psu (uninit P) w) w1 in
         (rv2, pi_status pi, w2))
      else (rv, status1, w1))"

definition onlp_psu_hdr_get_locked :: "'w platform \<Rightarrow> onlp_oid_t \<Rightarrow> oid_hdr \<Rightarrow> 'w \<Rightarrow> int \<times> oid_hdr \<times> 'w" where
  "onlp_psu_hdr_get_locked P oid hdr w =
     (let (rv, hdr1, w1) = onlp_psui_hdr_get (psu_drv P) oid hdr w in
      if ONLP_SUCCESS rv then (rv, hdr1, w1)
      else if ONLP_UNSUPPORTED rv then
        (let (rv2, pi, w2) = onlp_psui_info_get (psu_drv P) oid (junk_psu (uninit P) w) w1 in
         (rv2, pi_hdr pi, w2))
      else (rv, hdr1, w1))"

interpretation psu_status: item_with_fallback "onlp_psui_status_get (psu_drv P)"
  "onlp_psui_info_get (psu_drv P)" pi_status "junk_psu (uninit P)" "onlp_psu_status_get_locked P"
  by unfold_locales (auto simp: onlp_psu_status_get_locked_def)

interpretation psu_hdr: item_with_fallback "onlp_psui_hdr_get (psu_drv P)"
  "onlp_psui_info_get (psu_drv P)" pi_hdr "junk_psu (uninit P)" "onlp_psu_hdr_get_locked P"
  by unfold_locales (auto simp: onlp_psu_hdr_get_locked_def)

definition onlp_psu_vioctl_locked :: "'w platform \<Rightarrow> onlp_oid_t \<Rightarrow> farg list \<Rightarrow> 'w \<Rightarrow> int \<times> 'w" where
  "onlp_psu_vioctl_locked P oid vargs w = onlp_psui_ioctl (psu_drv P) oid vargs w"

section \<open>Public calls\<close>

definition onlp_psu_init :: "'l alock \<Rightarrow> 'w platform \<Rightarrow> 'l \<times> 'w \<Rightarrow> (int \<times> 'l \<times> 'w) option" where
  "onlp_psu_init L P = locked_api L ''onlp_psu_init'' (total1 (onlp_psu_init_locked P))"

definition onlp_psu_info_get ::
  "'l alock \<Rightarrow> 'w platform \<Rightarrow> onlp_oid_t \<Rightarrow> psu_info \<Rightarrow> 'l \<times> 'w \<Rightarrow> ((int \<times> psu_info) \<times> 'l \<times> 'w) option" where
  "onlp_psu_info_get L P oid info =
     locked_api L ''onlp_psu_info_get'' (total2 (onlp_psu_info_get_locked P oid info))"

definition onlp_psu_status_get ::
  "'l alock \<Rightarrow> 'w platform \<Rightarrow> onlp_oid_t \<Rightarrow> u32 \<Rightarrow> 'l \<times> 'w \<Rightarrow> ((int \<times> u32) \<times> 'l \<times> 'w) option" where
  "onlp_psu_status_get L P oid status =
     locked_api L ''onlp_psu_status_get'' (total2 (onlp_psu_status_get_locked P oid status))"

definition onlp_psu_hdr_get ::
  "'l alock \<Rightarrow> 'w platform \<Rightarrow> onlp_oid_t \<Rightarrow> oid_hdr \<Rightarrow> 'l \<times> 'w \<Rightarrow> ((int \<times> oid_hdr) \<times> 'l \<times> 'w) option" where
  "onlp_psu_hdr_get L P oid hdr =
     locked_api L ''onlp_psu_hdr_get'' (total2 (onlp_psu_hdr_get_locked P oid hdr))"

definition onlp_psu_vioctl ::
  "'l alock \<Rightarrow> 'w platform \<Rightarrow> onlp_oid_t \<Rightarrow> farg list \<Rightarrow> 'l \<times> 'w \<Rightarrow> (int \<times> 'l \<times> 'w) option" where
  "onlp_psu_vioctl L P oid vargs =
     locked_api L ''onlp_psu_vioctl'' (total1 (onlp_psu_vioctl_locked P oid vargs))"

definition onlp_psu_ioctl ::
  "'l alock \<Rightarrow> 'w platform \<Rightarrow> onlp_oid_t \<Rightarrow> farg list \<Rightarrow> 'l \<times> 'w \<Rightarrow> (int \<times> 'l \<times> 'w) option" where
  "onlp_psu_ioctl L P oid vargs = onlp_psu_vioctl L P oid vargs"

section \<open>Dump and show\<close>

definition psu_dump_present :: "psu_info \<Rightarrow> iof_op list" where
  "psu_dump_present info =
     [Iprintf ''Model:  %s'' [FStr (if pi_model info \<noteq> [] then pi_model info else ''NULL'')],
      Iprintf ''SN:     %s'' [FStr (if pi_serial info \<noteq> [] then pi_serial info else ''NULL'')],
      Iprintf ''Status: %{onlp_psu_status_flags}'' [FWord (pi_status info)],
      Iprintf ''Caps:   %{onlp_psu_caps_flags}'' [FWord (pi_caps info)],
      Iprintf ''Vin:    %d'' [FInt (pi_mvin info)],
      Iprintf ''Vout:   %d'' [FInt (pi_mvout info)],
      Iprintf ''Iin:    %d'' [FInt (pi_miin info)],
      Iprintf ''Iout:   %d'' [FInt (pi_miout info)],
      Iprintf ''Pin:    %d'' [FInt (pi_mpin info)],
      Iprintf ''Pout:   %d'' [FInt (pi_mpout info)]]"

definition onlp_psu_dump ::
  "(onlp_oid_t \<Rightarrow> u32 \<Rightarrow> ('l \<times> 'w) printer) \<Rightarrow> 'l alock \<Rightarrow> 'w platform \<Rightarrow> onlp_oid_t \<Rightarrow> u32
     \<Rightarrow> ('l \<times> 'w) printer" where
  "onlp_psu_dump dump L P oid flags s =
     (if \<not> ONLP_OID_IS_TYPE (ONLP_OID_TYPE PSU) oid then Some ([], s)
      else do {
        ((rv, info), s1) \<leftarrow> onlp_psu_info_get L P oid (junk_psu (uninit P) (snd s)) s;
        (body, s2) \<leftarrow>
          (if rv < 0 then Some (onlp_oid_info_get_error rv, s1)
           else if has (pi_status info) 1 then
             do { (sub, s2) \<leftarrow>
                    (if has flags ONLP_OID_DUMP_RECURSE
                     then onlp_oid_table_dump dump (oid_coids (pi_hdr info)) flags s1
                     else Some ([], s1));
                  Some (Iprintf ''Description: %s'' [FStr (oid_desc (pi_hdr info))] #
                        psu_dump_present info @ sub, s2) }
           else Some ([Iprintf ''Description: %s'' [FStr (oid_desc (pi_hdr info))],
                       Iprintf ''Not present.'' []], s1));
        Some (Push ''psu @ %d'' [FWord (ONLP_OID_ID_GET oid)] # body @ [Pop], s2) })"

definition psu_show_running :: "psu_info \<Rightarrow> iof_op list" where
  "psu_show_running pi =
     [Iprintf ''Status: Running'' []] @
     only (pi_model pi \<noteq> []) [Iprintf ''Model: %{pstr}'' [FStr (pi_model pi), FChar (CHR ''?'')]] @
     only (pi_serial pi \<noteq> []) [Iprintf ''SN: %{pstr}'' [FStr (pi_serial pi), FChar (CHR ''?'')]] @
     [Iprintf (if has (pi_caps pi) ONLP_PSU_CAPS_AC then ''Type: AC''
               else if has (pi_caps pi) ONLP_PSU_CAPS_DC12 then ''Type: DC 12V''
               else if has (pi_caps pi) ONLP_PSU_CAPS_DC48 then ''Type: DC 48V''
               else ''Type: Unknown'') []] @
     only (has (pi_caps pi) ONLP_PSU_CAPS_VIN) [Iprintf ''Vin: %d.%d'' (milli_args (pi_mvin pi))] @
     only (has (pi_caps pi) ONLP_PSU_CAPS_VOUT) [Iprintf ''Vout: %d.%d'' (milli_args (pi_mvout pi))] @
     only (has (pi_caps pi) ONLP_PSU_CAPS_IIN) [Iprintf ''Iin: %d.%d'' (milli_args (pi_miin pi))] @
     only (has (pi_caps pi) ONLP_PSU_CAPS_IOUT) [Iprintf ''Iout: %d.%d'' (milli_args (pi_miout pi))] @
     only (has (pi_caps pi) ONLP_PSU_CAPS_PIN) [Iprintf ''Pin: %d.%d'' (milli_args (pi_mpin pi))] @
     only (has (pi_caps pi) ONLP_PSU_CAPS_POUT) [Iprintf ''Pout: %d.%d'' (milli_args (pi_mpout pi))]"

definition psu_show_children ::
  "(onlp_oid_t \<Rightarrow> u32 \<Rightarrow> 's printer) \<Rightarrow> psu_info \<Rightarrow> u32 \<Rightarrow> 's printer" where
  "psu_show_children show pi flags s =
     (let yaml = has flags ONLP_OID_SHOW_YAML; table = oid_coids (pi_hdr pi) in
      do { (o1, s1) \<leftarrow> show_children show yaml ''Fans: '' table FAN flags s;
           (o2, s2) \<leftarrow> show_children show yaml ''Thermals: '' table THERMAL flags s1;
           (o3, s3) \<leftarrow> (if has flags ONLP_OID_SHOW_EXTENDED
                        then show_children show False [] table LED flags s2 else Some ([], s2));
           Some (o1 @ o2 @ o3, s3) })"

definition onlp_psu_show ::
  "(onlp_oid_t \<Rightarrow> u32 \<Rightarrow> ('l \<times> 'w) printer) \<Rightarrow> 'l alock \<Rightarrow> 'w platform \<Rightarrow> onlp_oid_t \<Rightarrow> u32
     \<Rightarrow> ('l \<times> 'w) printer" where
  "onlp_psu_show show L P oid flags s =
     do { ((rv, pi), s1) \<leftarrow> onlp_psu_info_get L P oid (junk_psu (uninit P) (snd s)) s;
          let yaml = has flags ONLP_OID_SHOW_YAML;
          (body, s2) \<leftarrow>
            (if rv < 0 then Some (show_error yaml rv, s1)
             else if \<not> has (pi_status pi) 1 then
               Some (onlp_oid_show_description (pi_hdr pi) @ onlp_oid_show_state_missing, s1)
             else
               do { (st, s2) \<leftarrow>
                      (if has (pi_status pi) ONLP_PSU_STATUS_UNPLUGGED
                       then Some ([Iprintf ''Status: Unplugged'' []], s1)
                       else if has (pi_status pi) ONLP_PSU_STATUS_FAILED
                       then Some ([Iprintf ''Status: Unplugged or Failed'' []], s1)
                       else
                         do { (sub, s2) \<leftarrow>
                                (if has flags ONLP_OID_SHOW_RECURSE
                                 then psu_show_children show pi flags s1 else Some ([], s1));
                              Some (psu_show_running pi @ sub, s2) });
                    Some (onlp_oid_show_description (pi_hdr pi) @
                          [Iprintf ''State: Present'' []] @ st, s2) });
          Some (show_heading yaml ''- '' ''Name: PSU %d'' ''PSU %d'' (ONLP_OID_ID_GET oid) @ body @ [Pop], s2) }"

lemma psu_parts_balanced [simp]: "balanced (psu_dump_present i)" "balanced (psu_show_running i)"
  by (simp_all add: psu_dump_present_def psu_show_running_def)

end
