(* ===== verification/Sys.thy ===== *)
theory Sys
  imports Api
begin

text \<open>
  \<open>sys.c\<close>: finding out the platform at start, the system information structure with the decoded
  ONIE data, and the \<open>dump\<close> and \<open>show\<close> of the system OID; with \<open>onlp_onie_show\<close> and
  \<open>onlp_platform_info_show\<close>, which they call.
\<close>

section \<open>Platform detection\<close>

text \<open>
  \<open>fgets\<close> of at most 255 characters up to the first newline (\<open>None\<close>: end of file at once), and
  the C string in the buffer.
\<close>

fun fgets_line :: "nat \<Rightarrow> string \<Rightarrow> string" where
  "fgets_line 0 cs = []"
| "fgets_line (Suc n) [] = []"
| "fgets_line (Suc n) (c # cs) = (if c = CHR 0x0A then [c] else c # fgets_line n cs)"

definition c_string :: "string \<Rightarrow> string" where
  "c_string cs = takeWhile (\<lambda>c. c \<noteq> CHR 0x00) cs"

definition platform_detect_fs :: "string option \<Rightarrow> string option" where
  "platform_detect_fs contents =
     (case contents of
        None \<Rightarrow> None
      | Some cs \<Rightarrow>
          (if cs = [] then None
           else let platform = c_string (fgets_line 255 cs) in
             if platform = [] then None
             else if last platform = CHR 0x0A then Some (butlast platform)
             else Some platform))"

text \<open>
  \<open>onlp_sys_init\<close>: the driver must name a platform, and accept the detected one when it differs;
  otherwise the process dies (\<open>None\<close>).
\<close>

definition onlp_sys_init_locked :: "'w platform \<Rightarrow> 'w \<Rightarrow> (int \<times> 'w) option" where
  "onlp_sys_init_locked P w =
     (case platform_detect_fs (sys_file (sys_drv P) w) of
        None \<Rightarrow> None
      | Some current_platform \<Rightarrow>
          (case onlp_sysi_platform_get (sys_drv P) of
             None \<Rightarrow> None
           | Some current_interface \<Rightarrow>
               (if current_interface \<noteq> current_platform then
                  (let (rv, w1) = onlp_sysi_platform_set (sys_drv P) current_platform w in
                   if rv < 0 then None else Some (onlp_sysi_init (sys_drv P) w1))
                else Some (onlp_sysi_init (sys_drv P) w))))"

section \<open>System information\<close>

text \<open>The ONIE data, whether it must be freed, and the state.\<close>

definition onie_data_get :: "'w platform \<Rightarrow> 'w \<Rightarrow> u8 list option \<times> bool \<times> 'w" where
  "onie_data_get P w =
     (let (rv, pa, w1) = onlp_sysi_onie_data_phys_addr_get (sys_drv P) w in
      if rv = 0 then (sys_mmap (sys_drv P) pa w1, False, w1)
      else
        (let (rv, ma, w2) = onlp_sysi_onie_data_get (sys_drv P) w1 in
         if rv = 0 then (ma, True, w2) else (None, False, w2)))"

text \<open>
  The data is decoded without a size and the decoder's status is dropped; \<open>None\<close>: the decoder
  reads outside the data.
\<close>

definition sys_onie_info :: "'w platform \<Rightarrow> 'w \<Rightarrow> (onie_info \<times> 'w) option" where
  "sys_onie_info P w =
     (let (onie_data, must_free, w1) = onie_data_get P w in
      case onie_data of
        Some data \<Rightarrow>
          (case onlp_onie_decode (list_push P) (Some onie_zero) (Some data) (-1) of
             None \<Rightarrow> None
           | Some (_, info) \<Rightarrow>
               Some ((case info of None \<Rightarrow> onie_zero | Some i \<Rightarrow> i),
                     if must_free then onlp_sysi_onie_data_free (sys_drv P) data w1 else w1))
      | None \<Rightarrow>
          (let (rv, info, w2) = onlp_sysi_onie_info_get (sys_drv P) onie_zero w1 in
           Some (if rv \<noteq> 0 then onie_zero else info, w2)))"

definition onlp_sys_info_get_locked ::
  "'w platform \<Rightarrow> sys_info option \<Rightarrow> 'w \<Rightarrow> ((int \<times> sys_info option) \<times> 'w) option" where
  "onlp_sys_info_get_locked P rv w =
     (case rv of
        None \<Rightarrow> Some ((-1, None), w)
      | Some _ \<Rightarrow>
          do { (onie, w1) \<leftarrow> sys_onie_info P w;
               let si = sys_info_zero\<lparr>si_onie := onie\<rparr>;
               let (_, coids, w2) =
                 onlp_sysi_oids_get (sys_drv P) (oid_coids (si_hdr si)) ONLP_OID_TABLE_SIZE w1;
               let si = si\<lparr>si_hdr := (si_hdr si)\<lparr>oid_coids := coids\<rparr>\<rparr>;
               let (_, pinfo, w3) = onlp_sysi_platform_info_get (sys_drv P) (si_platform si) w2;
               Some ((0, Some (si\<lparr>si_platform := pinfo\<rparr>)), w3) })"

definition onlp_sys_info_free :: "'w platform \<Rightarrow> sys_info \<Rightarrow> 'w \<Rightarrow> 'w" where
  "onlp_sys_info_free P info w = onlp_sysi_platform_info_free (sys_drv P) (si_platform info) w"

definition onlp_sys_hdr_get_locked :: "'w platform \<Rightarrow> oid_hdr \<Rightarrow> 'w \<Rightarrow> int \<times> oid_hdr \<times> 'w" where
  "onlp_sys_hdr_get_locked P hdr w =
     (let hdr = oid_hdr_zero;
          (rv, coids, w1) = onlp_sysi_oids_get (sys_drv P) (oid_coids hdr) ONLP_OID_TABLE_SIZE w in
      (rv, hdr\<lparr>oid_coids := coids\<rparr>, w1))"

definition onlp_sys_vioctl_locked :: "'w platform \<Rightarrow> int \<Rightarrow> farg list \<Rightarrow> 'w \<Rightarrow> int \<times> 'w" where
  "onlp_sys_vioctl_locked P code vargs w = onlp_sysi_ioctl (sys_drv P) code vargs w"

definition onlp_sys_debug_locked :: "'w platform \<Rightarrow> string list \<Rightarrow> 'w \<Rightarrow> int \<times> 'w" where
  "onlp_sys_debug_locked P argv w = onlp_sysi_debug (sys_drv P) argv w"

section \<open>Public calls\<close>

definition onlp_sys_init :: "'l alock \<Rightarrow> 'w platform \<Rightarrow> 'l \<times> 'w \<Rightarrow> (int \<times> 'l \<times> 'w) option" where
  "onlp_sys_init L P = locked_api L ''onlp_sys_init'' (onlp_sys_init_locked P)"

definition onlp_sys_info_get ::
  "'l alock \<Rightarrow> 'w platform \<Rightarrow> sys_info option \<Rightarrow> 'l \<times> 'w \<Rightarrow> ((int \<times> sys_info option) \<times> 'l \<times> 'w) option" where
  "onlp_sys_info_get L P rv = locked_api L ''onlp_sys_info_get'' (onlp_sys_info_get_locked P rv)"

definition onlp_sys_hdr_get ::
  "'l alock \<Rightarrow> 'w platform \<Rightarrow> oid_hdr \<Rightarrow> 'l \<times> 'w \<Rightarrow> ((int \<times> oid_hdr) \<times> 'l \<times> 'w) option" where
  "onlp_sys_hdr_get L P hdr = locked_api L ''onlp_sys_hdr_get'' (total2 (onlp_sys_hdr_get_locked P hdr))"

definition onlp_sys_vioctl ::
  "'l alock \<Rightarrow> 'w platform \<Rightarrow> int \<Rightarrow> farg list \<Rightarrow> 'l \<times> 'w \<Rightarrow> (int \<times> 'l \<times> 'w) option" where
  "onlp_sys_vioctl L P code vargs =
     locked_api L ''onlp_sys_vioctl'' (total1 (onlp_sys_vioctl_locked P code vargs))"

definition onlp_sys_ioctl ::
  "'l alock \<Rightarrow> 'w platform \<Rightarrow> int \<Rightarrow> farg list \<Rightarrow> 'l \<times> 'w \<Rightarrow> (int \<times> 'l \<times> 'w) option" where
  "onlp_sys_ioctl L P code vargs = onlp_sys_vioctl L P code vargs"

definition onlp_sys_debug ::
  "'l alock \<Rightarrow> 'w platform \<Rightarrow> string list \<Rightarrow> 'l \<times> 'w \<Rightarrow> (int \<times> 'l \<times> 'w) option" where
  "onlp_sys_debug L P argv = locked_api L ''onlp_sys_debug'' (total1 (onlp_sys_debug_locked P argv))"

section \<open>Dump and show\<close>

definition show_str :: "string \<Rightarrow> u8 list option \<Rightarrow> iof_op list" where
  "show_str fmt s = (case s of None \<Rightarrow> [] | Some cs \<Rightarrow> [Iprintf fmt [FBytes cs]])"

text \<open>\<open>mac\<close> is an array, so \<open>if(info->mac)\<close> always holds.\<close>

definition onlp_onie_show :: "onie_info \<Rightarrow> iof_op list" where
  "onlp_onie_show info =
     show_str ''Product Name: %s'' (product_name info) @
     show_str ''Part Number: %s'' (part_number info) @
     show_str ''Serial Number: %s'' (serial_number info) @
     [Iprintf ''MAC: %{mac}'' [FBytes (mac info)]] @
     only (mac_range info \<noteq> 0) [Iprintf ''MAC Range: %d'' [FInt (uint (mac_range info))]] @
     show_str ''Manufacturer: %s'' (manufacturer info) @
     show_str ''Manufacture Date: %s'' (manufacture_date info) @
     show_str ''Vendor: %s'' (vendor info) @
     show_str ''Platform Name: %s'' (platform_name info) @
     only (device_version info \<noteq> 0) [Iprintf ''Device Version: %u'' [FInt (uint (device_version info))]] @
     show_str ''Label Revision: %s'' (label_revision info) @
     show_str ''Country Code: %s'' (country_code info) @
     show_str ''Diag Version: %s'' (diag_version info) @
     show_str ''Service Tag: %s'' (service_tag info) @
     show_str ''ONIE Version: %s'' (onie_version info)"

definition onlp_platform_info_show :: "platform_info \<Rightarrow> iof_op list" where
  "onlp_platform_info_show pi =
     (case cpld_versions pi of None \<Rightarrow> [] | Some v \<Rightarrow> [Iprintf ''CPLD Versions: %s'' [FStr v]]) @
     (case other_versions pi of None \<Rightarrow> [] | Some v \<Rightarrow> [Iprintf ''Other Versions: %s'' [FStr v]])"

text \<open>The \<open>STROUT\<close> lines are \<open>aim_printf\<close> calls.\<close>

definition strout :: "string \<Rightarrow> string option \<Rightarrow> string \<Rightarrow> iof_op list" where
  "strout name member comma =
     [Aprintf ''    \"%s\" : '' [FStr name],
      (case member of Some v \<Rightarrow> Aprintf (''\"%s\"%s'' @ [CHR 0x0A]) [FStr v, FStr comma]
                    | None \<Rightarrow> Aprintf (''null%s'' @ [CHR 0x0A]) [FStr comma])]"

definition onlp_platform_info_show_json :: "platform_info \<Rightarrow> iof_op list" where
  "onlp_platform_info_show_json pi =
     [Aprintf (''{'' @ [CHR 0x0A]) []] @ strout ''CPLD Versions'' (cpld_versions pi) '','' @
     strout ''Other Versions'' (other_versions pi) [] @ [Aprintf (''}'' @ [CHR 0x0A]) []]"

definition onlp_sys_dump ::
  "(onlp_oid_t \<Rightarrow> u32 \<Rightarrow> ('l \<times> 'w) printer) \<Rightarrow> 'l alock \<Rightarrow> 'w platform \<Rightarrow> onlp_oid_t \<Rightarrow> u32
     \<Rightarrow> ('l \<times> 'w) printer" where
  "onlp_sys_dump dump L P oid flags s =
     (if ONLP_OID_TYPE_GET oid \<noteq> ONLP_OID_TYPE SYS then Some ([], s)
      else do {
        ((rv, si), s1) \<leftarrow> onlp_sys_info_get L P (Some sys_info_zero) s;
        (case si of
           None \<Rightarrow> Some ([Push ''System Information:'' []] @ onlp_oid_info_get_error rv @ [Pop], s1)
         | Some si \<Rightarrow>
             if rv < 0 then Some ([Push ''System Information:'' []] @ onlp_oid_info_get_error rv @ [Pop], s1)
             else do {
               (sub, s2) \<leftarrow> onlp_oid_table_dump dump (oid_coids (si_hdr si)) flags s1;
               Some (Push ''System Information:'' [] # onlp_onie_show (si_onie si) @ [Pop] @ sub,
                     fst s2, onlp_sys_info_free P si (snd s2)) }) })"

definition sys_show_children ::
  "(onlp_oid_t \<Rightarrow> u32 \<Rightarrow> 's printer) \<Rightarrow> sys_info \<Rightarrow> u32 \<Rightarrow> 's printer" where
  "sys_show_children show si flags s =
     (let yaml = has flags ONLP_OID_SHOW_YAML; table = oid_coids (si_hdr si) in
      do { (o1, s1) \<leftarrow> show_children show yaml ''Fans:'' table FAN flags s;
           (o2, s2) \<leftarrow> show_children show yaml ''Thermals:'' table THERMAL flags s1;
           (o3, s3) \<leftarrow> show_children show yaml ''PSUs:'' table PSU flags s2;
           (o4, s4) \<leftarrow> (if has flags ONLP_OID_SHOW_EXTENDED
                        then show_children show yaml ''LEDs:'' table LED flags s3 else Some ([], s3));
           Some (o1 @ o2 @ o3 @ o4, s4) })"

definition onlp_sys_show ::
  "(onlp_oid_t \<Rightarrow> u32 \<Rightarrow> ('l \<times> 'w) printer) \<Rightarrow> 'l alock \<Rightarrow> 'w platform \<Rightarrow> onlp_oid_t \<Rightarrow> u32
     \<Rightarrow> ('l \<times> 'w) printer" where
  "onlp_sys_show show L P oid flags s =
     (if oid \<noteq> 0 \<and> ONLP_OID_TYPE_GET oid \<noteq> ONLP_OID_TYPE SYS then Some ([], s)
      else do {
        ((rv, si), s1) \<leftarrow> onlp_sys_info_get L P (Some sys_info_zero) s;
        (case si of
           None \<Rightarrow> Some (onlp_oid_info_get_error rv, s1)
         | Some si \<Rightarrow>
             if rv < 0 then Some (onlp_oid_info_get_error rv, s1)
             else do {
               (sub, s2) \<leftarrow> (if has flags ONLP_OID_SHOW_RECURSE
                             then sys_show_children show si flags s1 else Some ([], s1));
               Some (only (has flags ONLP_OID_SHOW_YAML \<or> has flags ONLP_OID_SHOW_EXTENDED \<or>
                           \<not> has flags ONLP_OID_SHOW_RECURSE)
                       (Push ''System Information:'' [] # onlp_onie_show (si_onie si) @ [Pop]) @ sub,
                     fst s2, onlp_sys_info_free P si (snd s2)) }) })"

lemma balanced_onie_show [simp]: "balanced (onlp_onie_show i)"
  by (auto simp: onlp_onie_show_def show_str_def split: option.splits)

end
