(* ===== verification/OidTree.thy ===== *)
theory OidTree
  imports Fan Thermal Led Psu Sys
begin

text \<open>
  \<open>oids.c\<close>: dispatch on the OID class, the recursive \<open>dump\<close> and \<open>show\<close>, the
  header of any OID, and the iteration over the tree of OIDs. The C recursion follows the OIDs
  the platform driver reports, so nothing in the code bounds it: it is modelled with fuel,
  and running out of fuel for every amount of it is a call that never returns.
\<close>

section \<open>Dump and show of any OID\<close>

definition oid_type_unknown_dump :: "onlp_oid_t \<Rightarrow> iof_op list" where
  "oid_type_unknown_dump oid =
     [Push ''invalid oid @ 0x%x'' [FWord oid],
      Iprintf ''type = %d'' [FWord (ONLP_OID_TYPE_GET oid)],
      Iprintf ''  id = %d'' [FWord (ONLP_OID_ID_GET oid)],
      Pop]"

definition oid_or_sys :: "onlp_oid_t \<Rightarrow> onlp_oid_t" where
  "oid_or_sys oid = (if oid = 0 then ONLP_OID_SYS else oid)"

primrec onlp_oid_showdump ::
  "nat \<Rightarrow> bool \<Rightarrow> 'l alock \<Rightarrow> 'w platform \<Rightarrow> onlp_oid_t \<Rightarrow> u32 \<Rightarrow> ('l \<times> 'w) printer" where
  "onlp_oid_showdump 0 = (\<lambda>show L P oid flags s. None)"
| "onlp_oid_showdump (Suc n) = (\<lambda>show L P oid flags s.
     let oid = oid_or_sys oid; again = onlp_oid_showdump n in
     case oid_class oid of
       Some SYS \<Rightarrow> if show then onlp_sys_show (again True L P) L P oid flags s
                   else onlp_sys_dump (again False L P) L P oid flags s
     | Some THERMAL \<Rightarrow> if show then onlp_thermal_show L P oid flags s else onlp_thermal_dump L P oid flags s
     | Some FAN \<Rightarrow> if show then onlp_fan_show L P oid flags s else onlp_fan_dump L P oid flags s
     | Some PSU \<Rightarrow> if show then onlp_psu_show (again True L P) L P oid flags s
                   else onlp_psu_dump (again False L P) L P oid flags s
     | Some LED \<Rightarrow> if show then onlp_led_show L P oid flags s else onlp_led_dump L P oid flags s
     | Some MODULE \<Rightarrow> Some ([], s)
     | Some RTC \<Rightarrow> Some ([], s)
     | None \<Rightarrow> Some (oid_type_unknown_dump oid, s))"

definition onlp_oid_dump ::
  "nat \<Rightarrow> 'l alock \<Rightarrow> 'w platform \<Rightarrow> onlp_oid_t \<Rightarrow> u32 \<Rightarrow> ('l \<times> 'w) printer" where
  "onlp_oid_dump n L P oid flags = onlp_oid_showdump n False L P oid flags"

definition onlp_oid_show ::
  "nat \<Rightarrow> 'l alock \<Rightarrow> 'w platform \<Rightarrow> onlp_oid_t \<Rightarrow> u32 \<Rightarrow> ('l \<times> 'w) printer" where
  "onlp_oid_show n L P oid flags = onlp_oid_showdump n True L P oid flags"

definition onlp_oid_table_show ::
  "nat \<Rightarrow> 'l alock \<Rightarrow> 'w platform \<Rightarrow> onlp_oid_t list \<Rightarrow> u32 \<Rightarrow> ('l \<times> 'w) printer" where
  "onlp_oid_table_show n L P table flags =
     each (\<lambda>oid. onlp_oid_show n L P oid flags) (ONLP_OID_TABLE_ITER table)"

section \<open>Headers\<close>

definition onlp_oid_hdr_get ::
  "'l alock \<Rightarrow> 'w platform \<Rightarrow> onlp_oid_t \<Rightarrow> oid_hdr \<Rightarrow> 'l \<times> 'w \<Rightarrow> ((int \<times> oid_hdr) \<times> 'l \<times> 'w) option" where
  "onlp_oid_hdr_get L P oid hdr s =
     (case oid_class oid of
        Some SYS \<Rightarrow> onlp_sys_hdr_get L P hdr s
      | Some THERMAL \<Rightarrow> onlp_thermal_hdr_get L P oid hdr s
      | Some FAN \<Rightarrow> onlp_fan_hdr_get L P oid hdr s
      | Some PSU \<Rightarrow> onlp_psu_hdr_get L P oid hdr s
      | Some LED \<Rightarrow> onlp_led_hdr_get L P oid hdr s
      | Some MODULE \<Rightarrow> Some ((ONLP_STATUS_E_INVALID, hdr), s)
      | Some RTC \<Rightarrow> Some ((ONLP_STATUS_E_INVALID, hdr), s)
      | None \<Rightarrow> Some ((ONLP_STATUS_E_INVALID, hdr), s))"

section \<open>Iteration\<close>

text \<open>
  The callback works on a cookie \<open>'c\<close> and returns a status; a negative status stops everything.
  The loop over the children takes the recursive call as an argument.
\<close>

fun iterate_children ::
  "(onlp_oid_t \<Rightarrow> 's \<times> 'c \<Rightarrow> (int \<times> 's \<times> 'c) option) \<Rightarrow> u32 \<Rightarrow> (onlp_oid_t \<Rightarrow> 'c \<Rightarrow> int \<times> 'c)
     \<Rightarrow> onlp_oid_t list \<Rightarrow> 's \<times> 'c \<Rightarrow> (int \<times> 's \<times> 'c) option" where
  "iterate_children rec ty itf [] sc = Some (ONLP_STATUS_OK, sc)"
| "iterate_children rec ty itf (oid # oids) (s, c) =
     (if ty = 0 \<or> ONLP_OID_IS_TYPE ty oid then
        (let (rv, c1) = itf oid c in
         if rv < 0 then Some (rv, s, c1)
         else
           do { (rv2, sc2) \<leftarrow> rec oid (s, c1);
                if rv2 < 0 then Some (rv2, sc2) else iterate_children rec ty itf oids sc2 })
      else iterate_children rec ty itf oids (s, c))"

primrec onlp_oid_iterate ::
  "nat \<Rightarrow> 'l alock \<Rightarrow> 'w platform \<Rightarrow> u32 \<Rightarrow> (onlp_oid_t \<Rightarrow> 'c \<Rightarrow> int \<times> 'c) \<Rightarrow> onlp_oid_t
     \<Rightarrow> ('l \<times> 'w) \<times> 'c \<Rightarrow> (int \<times> ('l \<times> 'w) \<times> 'c) option" where
  "onlp_oid_iterate 0 = (\<lambda>L P ty itf oid sc. None)"
| "onlp_oid_iterate (Suc n) = (\<lambda>L P ty itf oid sc.
     do { ((rv, hdr), s1) \<leftarrow>
            onlp_oid_hdr_get L P (oid_or_sys oid) (junk_hdr (uninit P) (snd (fst sc))) (fst sc);
          if rv < 0 then Some (rv, s1, snd sc)
          else iterate_children (onlp_oid_iterate n L P ty itf) ty itf
                 (ONLP_OID_TABLE_ITER (oid_coids hdr)) (s1, snd sc) })"

section \<open>The platform as a tree\<close>

datatype oid_tree = Node (root: onlp_oid_t) (subs: "oid_tree list")

fun height :: "oid_tree \<Rightarrow> nat" where
  "height (Node oid ts) = Suc (foldr max (map height ts) 0)"

text \<open>The OIDs below the root in the order of a preorder walk that skips what is not of the type.\<close>

fun walk :: "u32 \<Rightarrow> oid_tree \<Rightarrow> onlp_oid_t list" where
  "walk ty (Node oid ts) =
     concat (map (\<lambda>t. if ty = 0 \<or> ONLP_OID_IS_TYPE ty (root t) then root t # walk ty t else []) ts)"

text \<open>The header call answers with the children of the tree, everywhere in it.\<close>

fun reports :: "('s \<Rightarrow> bool) \<Rightarrow> (onlp_oid_t \<Rightarrow> oid_hdr \<Rightarrow> 's \<Rightarrow> ((int \<times> oid_hdr) \<times> 's) option) \<Rightarrow> oid_tree \<Rightarrow> bool" where
  "reports I hg (Node oid ts) \<longleftrightarrow>
     oid \<noteq> 0 \<and> (\<forall>h s. I s \<longrightarrow> (\<exists>h' s'. hg oid h s = Some ((0, h'), s') \<and> I s' \<and>
        ONLP_OID_TABLE_ITER (oid_coids h') = map root ts)) \<and> list_all (reports I hg) ts"

text \<open>Running a callback over a list until it fails.\<close>

fun run_callback :: "(onlp_oid_t \<Rightarrow> 'c \<Rightarrow> int \<times> 'c) \<Rightarrow> onlp_oid_t list \<Rightarrow> 'c \<Rightarrow> int \<times> 'c" where
  "run_callback itf [] c = (0, c)"
| "run_callback itf (oid # oids) c =
     (let (rv, c1) = itf oid c in if rv < 0 then (rv, c1) else run_callback itf oids c1)"

lemma run_callback_append:
  "run_callback itf (xs @ ys) c =
     (let (rv, c1) = run_callback itf xs c in if rv < 0 then (rv, c1) else run_callback itf ys c1)"
  by (induction xs arbitrary: c) (auto simp: Let_def split: prod.splits)

lemma run_callback_nonpos: "run_callback itf xs c = (rv, c1) \<Longrightarrow> rv \<le> 0"
  by (induction xs arbitrary: c) (auto simp: Let_def split: prod.splits if_splits)

text \<open>The loop over the children, when the recursive call is right for each of them.\<close>

lemma iterate_children_walk:
  assumes "\<And>t s c. t \<in> set ts \<Longrightarrow> I s \<Longrightarrow>
      \<exists>s'. I s' \<and> rec (root t) (s, c) =
        Some (fst (run_callback itf (walk ty t) c), s', snd (run_callback itf (walk ty t) c))"
    and "I s"
  shows "\<exists>s'. I s' \<and> iterate_children rec ty itf (map root ts) (s, c) =
    Some (fst (run_callback itf (walk ty (Node oid ts)) c), s',
          snd (run_callback itf (walk ty (Node oid ts)) c))"
  using assms
proof (induction ts arbitrary: s c)
  case Nil
  then show ?case by auto
next
  case (Cons t ts)
  note IH = Cons.IH [OF Cons.prems(1) [OF list.set_intros(2)]]
  show ?case
  proof (cases "ty = 0 \<or> ONLP_OID_IS_TYPE ty (root t)")
    case False
    then show ?thesis using IH [of s c] Cons.prems(2) by auto
  next
    case True
    obtain rv c1 where i: "itf (root t) c = (rv, c1)" by fastforce
    obtain rv2 c2 where r: "run_callback itf (walk ty t) c1 = (rv2, c2)" by fastforce
    obtain s2 where s2: "I s2" "rec (root t) (s, c1) = Some (rv2, s2, c2)"
      using Cons.prems(1) [of t s c1] Cons.prems(2) r by auto
    show ?thesis
      using IH [of s2 c2] s2 Cons.prems(2) True i r by (auto simp: run_callback_append)
  qed
qed

lemma height_sub: "t \<in> set ts \<Longrightarrow> height t < height (Node oid ts)"
proof -
  have "t \<in> set ts \<Longrightarrow> height t \<le> foldr max (map height ts) 0"
    by (induction ts) auto
  then show "t \<in> set ts \<Longrightarrow> height t < height (Node oid ts)" by simp
qed

lemma onlp_oid_iterate_walk:
  assumes "reports I (onlp_oid_hdr_get L P) t" and "height t \<le> n" and "I s"
  shows "\<exists>s'. I s' \<and> onlp_oid_iterate n L P ty itf (root t) (s, c) =
    Some (fst (run_callback itf (walk ty t) c), s', snd (run_callback itf (walk ty t) c))"
  using assms
proof (induction n arbitrary: t s c)
  case 0
  then show ?case by (cases t) simp
next
  case (Suc n)
  obtain oid ts where t: "t = Node oid ts" by (cases t)
  from Suc.prems(1) t have z: "oid_or_sys oid = oid" by (simp add: oid_or_sys_def)
  from Suc.prems(1,3) t obtain h' s1 where h: "I s1" "ONLP_OID_TABLE_ITER (oid_coids h') = map root ts"
    "onlp_oid_hdr_get L P oid (junk_hdr (uninit P) (snd s)) s = Some ((0, h'), s1)"
    unfolding t reports.simps by blast
  have rec: "\<exists>s'. I s' \<and> onlp_oid_iterate n L P ty itf (root u) (s, c) =
      Some (fst (run_callback itf (walk ty u) c), s', snd (run_callback itf (walk ty u) c))"
    if "u \<in> set ts" "I s" for u s c
  proof (rule Suc.IH)
    show "reports I (onlp_oid_hdr_get L P) u" using Suc.prems(1) that t by (simp add: list_all_iff)
    show "height u \<le> n" using height_sub [OF that(1), of oid] Suc.prems(2) t by simp
  qed (rule that)
  from iterate_children_walk [of ts I "onlp_oid_iterate n L P ty itf" itf ty s1 c oid, OF rec h(1)]
  show ?case using h t z by simp
qed

section \<open>When the printing recursion ends\<close>

text \<open>
  The OIDs a power supply or the system reports as children rank below it; the ONIE data the
  driver hands out is long enough for the decoder.
\<close>

definition ranked :: "'w platform \<Rightarrow> (onlp_oid_t \<Rightarrow> nat) \<Rightarrow> bool" where
  "ranked P rank \<longleftrightarrow>
     (\<forall>oid i w rv i' w'. onlp_psui_info_get (psu_drv P) oid i w = (rv, i', w') \<longrightarrow> 0 \<le> rv \<longrightarrow>
        (\<forall>c \<in> set (ONLP_OID_TABLE_ITER (oid_coids (pi_hdr i'))). rank c < rank oid)) \<and>
     (\<forall>oid w rv t w'. onlp_sysi_oids_get (sys_drv P) (replicate 128 0) 128 w = (rv, t, w') \<longrightarrow>
        oid_class oid = Some SYS \<longrightarrow> (\<forall>c \<in> set (ONLP_OID_TABLE_ITER t). rank c < rank oid))"

definition onie_readable :: "'w platform \<Rightarrow> bool" where
  "onie_readable P \<longleftrightarrow> (\<forall>w data w' f. onie_data_get P w = (Some data, f, w') \<longrightarrow> 2304 \<le> length data)"

lemma sys_onie_info_total:
  assumes "onie_readable P"
  shows "\<exists>r. sys_onie_info P w = Some r"
proof -
  obtain d f w1 where d: "onie_data_get P w = (d, f, w1)" using prod_cases3 by blast
  show ?thesis
  proof (cases d)
    case None
    with d show ?thesis by (auto simp: sys_onie_info_def split: prod.splits)
  next
    case (Some data)
    with assms d have "2304 \<le> length data" by (auto simp: onie_readable_def)
    from onlp_onie_decode_total [OF this, of "list_push P" onie_zero "-1"] obtain res where
      "onlp_onie_decode (list_push P) (Some onie_zero) (Some data) (-1) = Some res" by blast
    with d Some show ?thesis by (cases res) (simp add: sys_onie_info_def)
  qed
qed

lemma sys_info_body:
  assumes "onie_readable P" and "ranked P rank"
  shows "\<exists>si w'. onlp_sys_info_get_locked P (Some i) w = Some ((0, Some si), w') \<and>
    (\<forall>oid. oid_class oid = Some SYS \<longrightarrow>
      (\<forall>c \<in> set (ONLP_OID_TABLE_ITER (oid_coids (si_hdr si))). rank c < rank oid))"
proof -
  obtain onie w1 where o: "sys_onie_info P w = Some (onie, w1)"
    using sys_onie_info_total [OF assms(1), of w] by auto
  obtain rv t w2 where t: "onlp_sysi_oids_get (sys_drv P) (replicate 128 0) 128 w1 = (rv, t, w2)"
    using prod_cases3 by blast
  obtain rv' p w3 where p: "onlp_sysi_platform_info_get (sys_drv P) (si_platform sys_info_zero) w2 = (rv', p, w3)"
    using prod_cases3 by blast
  have r: "rank c < rank oid" if "oid_class oid = Some SYS" "c \<in> set (ONLP_OID_TABLE_ITER t)" for c oid
    using assms(2) t that unfolding ranked_def by blast
  show ?thesis
    using o t p r by (simp add: onlp_sys_info_get_locked_def sys_info_zero_def oid_hdr_zero_def)
qed

lemma oid_class_type: "oid_class oid = Some ty \<longleftrightarrow> ONLP_OID_TYPE_GET oid = ONLP_OID_TYPE ty"
  by (simp add: oid_class_Some ONLP_OID_IS_TYPE_def)

context api_lock
begin

lemma leaf_prints:
  assumes L: "L = \<lparr>al_lock = lck, al_unlock = unl\<rparr>"
  shows "prints good (onlp_fan_dump L P oid flags)" "prints good (onlp_fan_show L P oid flags)"
    "prints good (onlp_thermal_dump L P oid flags)" "prints good (onlp_thermal_show L P oid flags)"
    "prints good (onlp_led_dump L P oid flags)" "prints good (onlp_led_show L P oid flags)"
proof -
  note get = locked_total2 [OF _ L] good_def Let_def
  show "prints good (onlp_fan_dump L P oid flags)" "prints good (onlp_fan_show L P oid flags)"
    by (simp_all add: prints_def onlp_fan_dump_def onlp_fan_show_def onlp_fan_info_get_def get
        split: prod.splits)
  show "prints good (onlp_thermal_dump L P oid flags)" "prints good (onlp_thermal_show L P oid flags)"
    by (simp_all add: prints_def onlp_thermal_dump_def onlp_thermal_show_def onlp_thermal_info_get_def
        get balanced_Push split: prod.splits)
  show "prints good (onlp_led_dump L P oid flags)" "prints good (onlp_led_show L P oid flags)"
    by (simp_all add: prints_def onlp_led_dump_def onlp_led_show_def onlp_led_info_get_def get
        split: prod.splits)
qed

text \<open>The children a power supply reports when its information call succeeds.\<close>

lemma psu_kids:
  assumes L: "L = \<lparr>al_lock = lck, al_unlock = unl\<rparr>" and r: "ranked P rank" and g: "good s"
  obtains rv i s1 where "onlp_psu_info_get L P oid x s = Some ((rv, i), s1)" "good s1"
    "\<And>c. 0 \<le> rv \<Longrightarrow> c \<in> set (ONLP_OID_TABLE_ITER (oid_coids (pi_hdr i))) \<Longrightarrow> rank c < rank oid \<and> c \<noteq> 0"
proof -
  obtain rv i w where b: "onlp_psu_info_get_locked P oid x (snd s) = (rv, i, w)"
    using prod_cases3 by blast
  have e: "onlp_psu_info_get L P oid x s = Some ((rv, i), after ''onlp_psu_info_get'' (fst s), w)"
    using b by (simp add: onlp_psu_info_get_def locked_total2 [OF g L])
  moreover have "good (after ''onlp_psu_info_get'' (fst s), w)"
    using g by (simp add: good_def)
  moreover have "rank c < rank oid \<and> c \<noteq> 0" if "0 \<le> rv" "c \<in> set (ONLP_OID_TABLE_ITER (oid_coids (pi_hdr i)))" for c
  proof -
    have "onlp_psui_info_get (psu_drv P) oid x (snd s) = (rv, i, w)"
      using b that(1) by (auto simp: onlp_psu_info_get_locked_def split: if_splits)
    with r that have "rank c < rank oid" unfolding ranked_def by blast
    with that(2) show ?thesis by (simp add: ONLP_OID_TABLE_ITER_def)
  qed
  ultimately show thesis by (rule that)
qed

lemma psu_dump_prints:
  fixes P :: "'w platform"
  assumes L: "L = \<lparr>al_lock = lck, al_unlock = unl\<rparr>" and r: "ranked P rank"
    and kids: "\<And>c. rank c < rank oid \<Longrightarrow> c \<noteq> 0 \<Longrightarrow> prints good (dump c flags)"
  shows "prints good (onlp_psu_dump dump L P oid flags)"
  unfolding prints_def
proof (intro allI impI)
  fix s :: "'l \<times> 'w" assume g: "good s"
  from psu_kids [OF L r g, of oid "junk_psu (uninit P) (snd s)"] obtain rv i s1 where
    e: "onlp_psu_info_get L P oid (junk_psu (uninit P) (snd s)) s = Some ((rv, i), s1)" "good s1" and
    k: "\<And>c. 0 \<le> rv \<Longrightarrow> c \<in> set (ONLP_OID_TABLE_ITER (oid_coids (pi_hdr i))) \<Longrightarrow> rank c < rank oid \<and> c \<noteq> 0"
    by blast
  show "\<exists>os s'. onlp_psu_dump dump L P oid flags s = Some (os, s') \<and> balanced os \<and> good s'"
  proof (cases "0 \<le> rv \<and> has flags ONLP_OID_DUMP_RECURSE")
    case True
    have "prints good (onlp_oid_table_dump dump (oid_coids (pi_hdr i)) flags)"
      using k kids True by (intro onlp_oid_table_dump_prints) blast
    then obtain sub s2 where "onlp_oid_table_dump dump (oid_coids (pi_hdr i)) flags s1 = Some (sub, s2)"
      "balanced sub" "good s2"
      using e(2) unfolding prints_def by blast
    with e g True show ?thesis
      by (cases s; cases s1; cases s2) (simp add: onlp_psu_dump_def balanced_Push)
  next
    case False
    with e g show ?thesis
      by (cases s; cases s1) (auto simp: onlp_psu_dump_def balanced_Push)
  qed
qed

lemma children_print:
  assumes "\<And>oid. oid \<in> set (ONLP_OID_TABLE_ITER (oid_coids hdr)) \<Longrightarrow> prints I (show oid flags)"
  shows "pi_hdr i = hdr \<Longrightarrow> prints I (psu_show_children show i flags)"
    and "si_hdr si = hdr \<Longrightarrow> prints I (sys_show_children show si flags)"
proof -
  note c = show_children_prints [of "oid_coids hdr" I "show" flags, OF assms, unfolded prints_def, rule_format]
  show "pi_hdr i = hdr \<Longrightarrow> prints I (psu_show_children show i flags)"
    unfolding prints_def
  proof (intro allI impI)
    fix s assume h: "pi_hdr i = hdr" and "I s"
    let ?y = "has flags ONLP_OID_SHOW_YAML"
    from c [OF _ \<open>I s\<close>, of ?y "''Fans: ''" FAN] obtain o1 s1 where 1:
      "show_children show ?y ''Fans: '' (oid_coids hdr) FAN flags s = Some (o1, s1)" "balanced o1" "I s1" by blast
    from c [OF _ 1(3), of ?y "''Thermals: ''" THERMAL] obtain o2 s2 where 2:
      "show_children show ?y ''Thermals: '' (oid_coids hdr) THERMAL flags s1 = Some (o2, s2)" "balanced o2" "I s2"
      by blast
    from c [OF _ 2(3), of False "[]" LED] obtain o3 s3 where 3:
      "show_children show False [] (oid_coids hdr) LED flags s2 = Some (o3, s3)" "balanced o3" "I s3" by blast
    from 1 2 3 h show "\<exists>os s'. psu_show_children show i flags s = Some (os, s') \<and> balanced os \<and> I s'"
      by (simp add: psu_show_children_def Let_def)
  qed
  show "si_hdr si = hdr \<Longrightarrow> prints I (sys_show_children show si flags)"
    unfolding prints_def
  proof (intro allI impI)
    fix s assume h: "si_hdr si = hdr" and "I s"
    let ?y = "has flags ONLP_OID_SHOW_YAML"
    from c [OF _ \<open>I s\<close>, of ?y "''Fans:''" FAN] obtain o1 s1 where 1:
      "show_children show ?y ''Fans:'' (oid_coids hdr) FAN flags s = Some (o1, s1)" "balanced o1" "I s1" by blast
    from c [OF _ 1(3), of ?y "''Thermals:''" THERMAL] obtain o2 s2 where 2:
      "show_children show ?y ''Thermals:'' (oid_coids hdr) THERMAL flags s1 = Some (o2, s2)" "balanced o2" "I s2"
      by blast
    from c [OF _ 2(3), of ?y "''PSUs:''" PSU] obtain o3 s3 where 3:
      "show_children show ?y ''PSUs:'' (oid_coids hdr) PSU flags s2 = Some (o3, s3)" "balanced o3" "I s3" by blast
    from c [OF _ 3(3), of ?y "''LEDs:''" LED] obtain o4 s4 where 4:
      "show_children show ?y ''LEDs:'' (oid_coids hdr) LED flags s3 = Some (o4, s4)" "balanced o4" "I s4" by blast
    from 1 2 3 4 h show "\<exists>os s'. sys_show_children show si flags s = Some (os, s') \<and> balanced os \<and> I s'"
      by (simp add: sys_show_children_def Let_def)
  qed
qed

lemma psu_show_prints:
  fixes P :: "'w platform"
  assumes L: "L = \<lparr>al_lock = lck, al_unlock = unl\<rparr>" and r: "ranked P rank"
    and kids: "\<And>c. rank c < rank oid \<Longrightarrow> c \<noteq> 0 \<Longrightarrow> prints good (show c flags)"
  shows "prints good (onlp_psu_show show L P oid flags)"
  unfolding prints_def
proof (intro allI impI)
  fix s :: "'l \<times> 'w" assume g: "good s"
  from psu_kids [OF L r g, of oid "junk_psu (uninit P) (snd s)"] obtain rv i s1 where
    e: "onlp_psu_info_get L P oid (junk_psu (uninit P) (snd s)) s = Some ((rv, i), s1)" "good s1" and
    k: "\<And>c. 0 \<le> rv \<Longrightarrow> c \<in> set (ONLP_OID_TABLE_ITER (oid_coids (pi_hdr i))) \<Longrightarrow> rank c < rank oid \<and> c \<noteq> 0"
    by blast
  show "\<exists>os s'. onlp_psu_show show L P oid flags s = Some (os, s') \<and> balanced os \<and> good s'"
  proof (cases "0 \<le> rv")
    case True
    have "prints good (psu_show_children show i flags)"
      using k kids True by (intro children_print(1) [where hdr = "pi_hdr i"]) auto
    then obtain sub s2 where "psu_show_children show i flags s1 = Some (sub, s2)" "balanced sub" "good s2"
      using e(2) unfolding prints_def by blast
    with e g True show ?thesis
      by (cases s; cases s1; cases s2) (simp add: onlp_psu_show_def Let_def balanced_heading_run)
  next
    case False
    with e g show ?thesis
      by (cases s; cases s1) (simp add: onlp_psu_show_def Let_def balanced_heading_run)
  qed
qed

lemma sys_kids:
  fixes P :: "'w platform"
  assumes L: "L = \<lparr>al_lock = lck, al_unlock = unl\<rparr>" and r: "ranked P rank" "onie_readable P" and g: "good s"
  obtains si s1 where "onlp_sys_info_get L P (Some x) s = Some ((0, Some si), s1)" "good s1"
    "\<And>c oid. oid_class oid = Some SYS \<Longrightarrow> c \<in> set (ONLP_OID_TABLE_ITER (oid_coids (si_hdr si))) \<Longrightarrow> rank c < rank oid \<and> c \<noteq> 0"
proof -
  from sys_info_body [OF r(2,1), of x "snd s"] obtain si w where
    b: "onlp_sys_info_get_locked P (Some x) (snd s) = Some ((0, Some si), w)"
    "\<And>c oid. oid_class oid = Some SYS \<Longrightarrow> c \<in> set (ONLP_OID_TABLE_ITER (oid_coids (si_hdr si))) \<Longrightarrow> rank c < rank oid \<and> c \<noteq> 0"
    by (auto simp: ONLP_OID_TABLE_ITER_def)
  have "onlp_sys_info_get L P (Some x) s = Some ((0, Some si), after ''onlp_sys_info_get'' (fst s), w)"
    using b by (simp add: onlp_sys_info_get_def locked_api_eq [OF g L])
  moreover have "good (after ''onlp_sys_info_get'' (fst s), w)" using g by (simp add: good_def)
  ultimately show thesis using b(2) by (rule that)
qed

lemma sys_prints:
  fixes P :: "'w platform"
  assumes L: "L = \<lparr>al_lock = lck, al_unlock = unl\<rparr>" and r: "ranked P rank" "onie_readable P"
    and c: "oid_class oid = Some SYS"
    and kids: "\<And>c. rank c < rank oid \<Longrightarrow> c \<noteq> 0 \<Longrightarrow> prints good (rec c flags)"
  shows "prints good (onlp_sys_dump rec L P oid flags)" "prints good (onlp_sys_show rec L P oid flags)"
  unfolding prints_def
proof -
  have "(\<exists>os s'. onlp_sys_dump rec L P oid flags s = Some (os, s') \<and> balanced os \<and> good s') \<and>
    (\<exists>os s'. onlp_sys_show rec L P oid flags s = Some (os, s') \<and> balanced os \<and> good s')"
    if g: "good s" for s :: "'l \<times> 'w"
  proof -
    from sys_kids [OF L r g, of sys_info_zero] obtain si s1 where
      e: "onlp_sys_info_get L P (Some sys_info_zero) s = Some ((0, Some si), s1)" "good s1" and
      k: "\<And>c oid. oid_class oid = Some SYS \<Longrightarrow> c \<in> set (ONLP_OID_TABLE_ITER (oid_coids (si_hdr si))) \<Longrightarrow> rank c < rank oid \<and> c \<noteq> 0"
      by blast
    have "prints good (onlp_oid_table_dump rec (oid_coids (si_hdr si)) flags)"
      using k [OF c] kids by (intro onlp_oid_table_dump_prints) blast
    then obtain o1 s2 where 1: "onlp_oid_table_dump rec (oid_coids (si_hdr si)) flags s1 = Some (o1, s2)"
      "balanced o1" "good s2"
      using e(2) unfolding prints_def by blast
    have "prints good (sys_show_children rec si flags)"
      using k [OF c] kids by (intro children_print(2) [where hdr = "si_hdr si"]) auto
    then obtain o2 s3 where 2: "sys_show_children rec si flags s1 = Some (o2, s3)" "balanced o2" "good s3"
      using e(2) unfolding prints_def by blast
    have "balanced (Push ''System Information:'' [] # onlp_onie_show (si_onie si) @ Pop # o1)"
      using 1(2) by (simp add: balanced_Push) (simp add: balanced_def)
    with c e 1 2 show ?thesis
      by (cases s1; cases s2; cases s3)
        (auto simp: onlp_sys_dump_def onlp_sys_show_def oid_class_type good_def)
  qed
  then show "\<forall>s :: 'l \<times> 'w. good s \<longrightarrow> (\<exists>os s'. onlp_sys_dump rec L P oid flags s = Some (os, s') \<and> balanced os \<and> good s')"
    "\<forall>s :: 'l \<times> 'w. good s \<longrightarrow> (\<exists>os s'. onlp_sys_show rec L P oid flags s = Some (os, s') \<and> balanced os \<and> good s')"
    by blast+
qed

text \<open>With fuel above the rank of the OID, both printers return.\<close>

lemma onlp_oid_showdump_prints:
  fixes P :: "'w platform"
  assumes L: "L = \<lparr>al_lock = lck, al_unlock = unl\<rparr>" and r: "ranked P rank" "onie_readable P"
    and n: "rank (oid_or_sys oid) < n"
  shows "prints good (onlp_oid_showdump n b L P oid flags)"
  using n
proof (induction n arbitrary: oid b)
  case 0
  then show ?case by simp
next
  case (Suc n)
  let ?o = "oid_or_sys oid"
  have nz: "oid_or_sys c = c" if "c \<noteq> 0" for c using that by (simp add: oid_or_sys_def)
  have kids: "prints good (onlp_oid_showdump n b' L P c flags)" if "rank c < rank ?o" "c \<noteq> 0" for c b'
    using Suc.IH [of c b'] that Suc.prems nz by simp
  have psu: "prints good (onlp_psu_dump (onlp_oid_showdump n False L P) L P ?o flags)"
    "prints good (onlp_psu_show (onlp_oid_showdump n True L P) L P ?o flags)"
    using kids by (auto intro!: psu_dump_prints [OF L r(1)] psu_show_prints [OF L r(1)])
  have sys: "prints good (onlp_sys_dump (onlp_oid_showdump n False L P) L P ?o flags)"
    "prints good (onlp_sys_show (onlp_oid_showdump n True L P) L P ?o flags)"
    if "oid_class ?o = Some SYS"
    using kids by (auto intro!: sys_prints [OF L r that])
  have none: "prints good (\<lambda>s. Some (os, s))" if "balanced os" for os
    using that by (simp add: prints_def)
  have eq: "onlp_oid_showdump (Suc n) b L P oid flags = (\<lambda>s.
     case oid_class ?o of
       Some SYS \<Rightarrow> if b then onlp_sys_show (onlp_oid_showdump n True L P) L P ?o flags s
                   else onlp_sys_dump (onlp_oid_showdump n False L P) L P ?o flags s
     | Some THERMAL \<Rightarrow> if b then onlp_thermal_show L P ?o flags s else onlp_thermal_dump L P ?o flags s
     | Some FAN \<Rightarrow> if b then onlp_fan_show L P ?o flags s else onlp_fan_dump L P ?o flags s
     | Some PSU \<Rightarrow> if b then onlp_psu_show (onlp_oid_showdump n True L P) L P ?o flags s
                   else onlp_psu_dump (onlp_oid_showdump n False L P) L P ?o flags s
     | Some LED \<Rightarrow> if b then onlp_led_show L P ?o flags s else onlp_led_dump L P ?o flags s
     | Some MODULE \<Rightarrow> Some ([], s) | Some RTC \<Rightarrow> Some ([], s)
     | None \<Rightarrow> Some (oid_type_unknown_dump ?o, s))"
    by (simp add: Let_def fun_eq_iff)
  show ?case unfolding eq
    using psu sys leaf_prints [OF L, of P ?o flags] none [of "[]"] none [of "oid_type_unknown_dump ?o"]
    by (cases "oid_class ?o"; cases "the (oid_class ?o)"; cases b)
      (simp_all add: oid_type_unknown_dump_def balanced_def)
qed

end

section \<open>A small platform\<close>

definition oid_psu1 :: onlp_oid_t where "oid_psu1 = 0x4000001"
definition oid_fan1 :: onlp_oid_t where "oid_fan1 = 0x3000001"
definition oid_fan2 :: onlp_oid_t where "oid_fan2 = 0x3000002"

definition demo_hdr :: "onlp_oid_t list \<Rightarrow> oid_hdr" where
  "demo_hdr kids = oid_hdr_zero\<lparr>oid_coids := kids @ replicate (128 - length kids) 0\<rparr>"

definition demo_fan_info :: "fan_info" where
  "demo_fan_info = \<lparr>fi_hdr = demo_hdr [], fi_status = 1, fi_caps = 16, fi_rpm = 5000, fi_percentage = 50,
     fi_mode = 0, fi_model = [], fi_serial = []\<rparr>"

definition demo_psu_info :: "onlp_oid_t list \<Rightarrow> psu_info" where
  "demo_psu_info kids = \<lparr>pi_hdr = demo_hdr kids, pi_model = [], pi_serial = [], pi_status = 1, pi_caps = 1,
     pi_mvin = 0, pi_mvout = 12000, pi_miin = 0, pi_miout = 0, pi_mpin = 0, pi_mpout = 0\<rparr>"

definition demo_junk :: "'w junk" where
  "demo_junk = \<lparr>junk_fan = (\<lambda>_. demo_fan_info), junk_psu = (\<lambda>_. demo_psu_info []),
     junk_thermal = (\<lambda>_. \<lparr>ti_hdr = demo_hdr [], ti_status = 0, ti_caps = 0, ti_mcelsius = 0,
        ti_warning = 0, ti_error = 0, ti_shutdown = 0\<rparr>),
     junk_led = (\<lambda>_. \<lparr>li_hdr = demo_hdr [], li_status = 0, li_caps = 0, li_mode = 0, li_character = CHR ''x''\<rparr>),
     junk_int = (\<lambda>_. 77), junk_hdr = (\<lambda>_. demo_hdr [])\<rparr>"

text \<open>One chassis fan and one power supply with the given children.\<close>

definition demo_platform :: "onlp_oid_t list \<Rightarrow> unit platform" where
  "demo_platform kids = \<lparr>
     fan_drv = default_fani\<lparr>onlp_fani_info_get := \<lambda>oid i w.
       (if oid_class oid = Some FAN then (0, demo_fan_info, w) else (-1, i, w))\<rparr>,
     psu_drv = default_psui\<lparr>onlp_psui_info_get := \<lambda>oid i w.
       (if oid_class oid = Some PSU then (0, demo_psu_info kids, w) else (-1, i, w))\<rparr>,
     thermal_drv = default_thermali, led_drv = default_ledi,
     sys_drv = default_sysi\<lparr>onlp_sysi_oids_get := \<lambda>t n w. (0, [oid_psu1, oid_fan2] @ replicate 126 0, w)\<rparr>,
     list_push = (#), config = \<lparr>cj_lookup = \<lambda>_ _. None, cj_lookup_int = \<lambda>_ _ v. (-1, v)\<rparr>,
     uninit = demo_junk\<rparr>"

definition demo_rank :: "onlp_oid_t \<Rightarrow> nat" where
  "demo_rank oid = (if oid_class oid = Some SYS then 2 else if oid_class oid = Some PSU then 1 else 0)"

definition demo_lock :: "shlock option" where
  "demo_lock = Some \<lparr>magic = SHLOCK_MAGIC, lock_name = [], mutex = MFree\<rparr>"

lemma demo_classes [oid_simps]:
  "oid_class oid_psu1 = Some PSU" "oid_class oid_fan1 = Some FAN" "oid_class oid_fan2 = Some FAN"
  by (simp_all add: oid_class_def ONLP_OID_TYPE_GET_def oid_psu1_def oid_fan1_def oid_fan2_def)

lemma demo_nonzero [simp]: "oid_psu1 \<noteq> 0" "oid_fan1 \<noteq> 0" "oid_fan2 \<noteq> 0"
  by (simp_all add: oid_psu1_def oid_fan1_def oid_fan2_def)

lemma demo_iter:
  "list_all (\<lambda>c. c \<noteq> 0) kids \<Longrightarrow> length kids \<le> 128 \<Longrightarrow>
   ONLP_OID_TABLE_ITER (oid_coids (demo_hdr kids)) = kids"
  "ONLP_OID_TABLE_ITER ([oid_psu1, oid_fan2] @ replicate 126 0) = [oid_psu1, oid_fan2]"
  by (simp_all add: ONLP_OID_TABLE_ITER_def demo_hdr_def filter_id_conv list_all_iff oid_psu1_def oid_fan2_def)

lemma demo_ranked: "ranked (demo_platform [oid_fan1]) demo_rank"
  using demo_iter(1) [of "[oid_fan1]"] demo_iter(2)
  by (auto simp: ranked_def demo_platform_def demo_psu_info_def demo_rank_def oid_simps
      split: if_splits)

lemma demo_readable: "onie_readable (demo_platform kids)"
  by (simp add: onie_readable_def onie_data_get_def demo_platform_def drv_simps)

section \<open>Properties\<close>

text \<open>
  For OIDs of a class and identifier that fit their fields, the class and the identifier can
  be read back from the OID built from them, and the dispatch selects exactly that class.
\<close>

theorem oid_roundtrip:
  assumes "i < 2 ^ 24"
  shows "ONLP_OID_TYPE_GET (ONLP_OID_TYPE_CREATE (ONLP_OID_TYPE ty) i) = ONLP_OID_TYPE ty \<and>
    ONLP_OID_ID_GET (ONLP_OID_TYPE_CREATE (ONLP_OID_TYPE ty) i) = i \<and>
    oid_class (ONLP_OID_TYPE_CREATE (ONLP_OID_TYPE ty) i) = Some ty"
proof -
  have "ONLP_OID_TYPE ty < 2 ^ 8" by (cases ty) simp_all
  then show ?thesis
    using oid_create_get_type [OF _ assms] oid_create_get_id [OF assms] by (simp add: oid_class_type)
qed

theorem oid_roundtrip_witness:
  "oid_class (ONLP_OID_TYPE_CREATE (ONLP_OID_TYPE PSU) 2) = Some PSU"
  using oid_roundtrip [of 2 PSU] by simp



lemma each_stuck: "x \<in> set xs \<Longrightarrow> (\<And>s. f x s = None) \<Longrightarrow> each f xs s = None"
  by (induction xs arbitrary: s) (auto simp: bind_eq_None_conv)

text \<open>
  Nothing in the code bounds the recursion: a present power supply that lists itself among its
  children is dumped for ever, whatever the fuel and the lock state.
\<close>

theorem oid_dump_cycle_never_returns:
  assumes "oid_class oid = Some PSU" and "has flags ONLP_OID_DUMP_RECURSE"
    and cyc: "\<And>i w rv i' w'. onlp_psui_info_get (psu_drv P) oid i w = (rv, i', w') \<Longrightarrow>
        0 \<le> rv \<and> has (pi_status i') 1 \<and> oid \<in> set (ONLP_OID_TABLE_ITER (oid_coids (pi_hdr i')))"
  shows "onlp_oid_dump n L P oid flags s = None"
proof -
  have ty: "ONLP_OID_IS_TYPE 4 oid" using assms(1) by (simp add: oid_class_Some)
  then have nz: "oid_or_sys oid = oid" by (auto simp: oid_or_sys_def ONLP_OID_IS_TYPE_def oid_simps)
  have "onlp_oid_showdump n False L P oid flags s = None" for s
  proof (induction n arbitrary: s)
    case 0
    then show ?case by simp
  next
    case (Suc n)
    have "onlp_psu_dump (onlp_oid_showdump n False L P) L P oid flags s = None"
    proof (cases "onlp_psu_info_get L P oid (junk_psu (uninit P) (snd s)) s")
      case None
      then show ?thesis using ty by (simp add: onlp_psu_dump_def)
    next
      case (Some r)
      obtain rv i s1 where r: "r = ((rv, i), s1)" by (metis surj_pair)
      with Some obtain w w' where "onlp_psui_info_get (psu_drv P) oid (junk_psu (uninit P) (snd s)) w = (rv, i, w')"
        using ty by (auto simp: onlp_psu_info_get_def locked_api_def ONLP_LOCKED_API_def total2_def
            onlp_psu_info_get_locked_def bind_eq_Some_conv split: prod.splits)
      from cyc [OF this] Suc.IH have
        "onlp_oid_table_dump (onlp_oid_showdump n False L P) (oid_coids (pi_hdr i)) flags s1 = None"
        unfolding onlp_oid_table_dump_def by (intro each_stuck [of oid]) auto
      with cyc [OF \<open>onlp_psui_info_get _ _ _ _ = _\<close>] Some r assms(2) ty show ?thesis
        by (simp add: onlp_psu_dump_def)
    qed
    then show ?case using assms(1) nz by (simp add: Let_def)
  qed
  then show ?thesis by (simp add: onlp_oid_dump_def)
qed

theorem oid_dump_cycle_never_returns_witness:
  "\<forall>n. onlp_oid_dump n (shared_alock 0) (demo_platform [oid_psu1]) oid_psu1 ONLP_OID_DUMP_RECURSE (demo_lock, ())
    = None"
proof
  fix n
  show "onlp_oid_dump n (shared_alock 0) (demo_platform [oid_psu1]) oid_psu1 ONLP_OID_DUMP_RECURSE (demo_lock, ())
    = None"
    using demo_iter(1) [of "[oid_psu1]"]
    by (intro oid_dump_cycle_never_returns)
      (auto simp: oid_simps demo_platform_def demo_psu_info_def has_def ONLP_OID_DUMP_RECURSE_def)
qed

text \<open>
  C7: on a platform that reports its OIDs as a finite tree, \<open>onlp_oid_iterate\<close> calls the callback
  once for every OID below the start in preorder (with a type: for those of the type whose
  ancestors all are of the type), stops at the first negative status and returns it.
\<close>

theorem onlp_oid_iterate_preorder:
  assumes "reports I (onlp_oid_hdr_get L P) t" and "height t \<le> n" and "I s"
  shows "\<exists>s'. I s' \<and> onlp_oid_iterate n L P ty itf (root t) (s, c) =
    Some (fst (run_callback itf (walk ty t) c), s', snd (run_callback itf (walk ty t) c))"
  using assms by (rule onlp_oid_iterate_walk)

definition demo_tree :: oid_tree where
  "demo_tree = Node ONLP_OID_SYS [Node oid_psu1 [Node oid_fan1 []], Node oid_fan2 []]"

lemma demo_reports:
  "reports (\<lambda>s. s = (demo_lock, ())) (onlp_oid_hdr_get (shared_alock 0) (demo_platform [oid_fan1])) demo_tree"
  using demo_iter(1) [of "[oid_fan1]"] demo_iter(1) [of "[]"] demo_iter(2)
  by (simp add: demo_tree_def onlp_oid_hdr_get_def oid_simps onlp_sys_hdr_get_def onlp_psu_hdr_get_def
      onlp_fan_hdr_get_def locked_api_def ONLP_LOCKED_API_def total2_def shared_alock_def
      sh_api_lock_def sh_api_unlock_def demo_lock_def onlp_sys_hdr_get_locked_def
      onlp_psu_hdr_get_locked_def onlp_fan_hdr_get_locked_def demo_platform_def drv_simps
      demo_psu_info_def demo_fan_info_def)

theorem onlp_oid_iterate_preorder_witness:
  "\<exists>s'. onlp_oid_iterate 3 (shared_alock 0) (demo_platform [oid_fan1]) 0 (\<lambda>oid c. (0, c @ [oid])) ONLP_OID_SYS
     ((demo_lock, ()), []) = Some (0, s', [oid_psu1, oid_fan1, oid_fan2])"
  using onlp_oid_iterate_preorder [OF demo_reports, of 3 "(demo_lock, ())" 0 "\<lambda>oid c. (0, c @ [oid])" "[]"]
  by (auto simp: demo_tree_def)

end
