(* ===== verification/Guards.thy ===== *)
theory Guards
  imports OidTree
begin

text \<open>
  What protects the platform driver: the presence and capability checks in front of every setter,
  the fall back from a partial read to the whole structure, and the corrections made to
  what the driver reports.
\<close>

section \<open>Setters\<close>

text \<open>The check all setters begin with, for a structure with a status and a capability word.\<close>

definition reaches_setter ::
  "oid_type \<Rightarrow> ('i, 'w) getter \<Rightarrow> ('i \<Rightarrow> u32) \<Rightarrow> ('i \<Rightarrow> bool) \<Rightarrow> 'i \<Rightarrow> onlp_oid_t \<Rightarrow> 'w \<Rightarrow> bool" where
  "reaches_setter ty info_get status capable junk oid w \<longleftrightarrow>
     oid_class oid = Some ty \<and>
     (case info_get oid junk w of (rv, i, w1) \<Rightarrow> 0 \<le> rv \<and> bit (status i) 0 \<and> capable i)"

lemma and_one_zero: "(x :: u32) AND 1 = 0 \<longleftrightarrow> \<not> bit x 0"
  by (metis and_exp_eq_0_iff_not_bit power_0)

lemma cap_bits:
  "has f ONLP_FAN_CAPS_SET_RPM \<longleftrightarrow> bit f 2" "has f ONLP_FAN_CAPS_SET_PERCENTAGE \<longleftrightarrow> bit f 3"
  "has f ONLP_FAN_CAPS_B2F \<longleftrightarrow> bit f 0" "has f ONLP_FAN_CAPS_F2B \<longleftrightarrow> bit f 1"
  "has f ONLP_LED_CAPS_ON_OFF \<longleftrightarrow> bit f 0" "has f ONLP_LED_CAPS_CHAR \<longleftrightarrow> bit f 1"
  by (simp_all only: flag_defs has_power)

lemma fan_gate:
  fixes P :: "'w platform"
  defines "reach capable oid w \<equiv> reaches_setter FAN (onlp_fani_info_get (fan_drv P)) fi_status capable
    (junk_fan (uninit P) w) oid w"
  shows "\<not> reach (\<lambda>i. bit (fi_caps i) 2) oid w \<Longrightarrow>
      onlp_fan_rpm_set_locked (P\<lparr>fan_drv := (fan_drv P)\<lparr>onlp_fani_rpm_set := f\<rparr>\<rparr>) oid v w =
      onlp_fan_rpm_set_locked P oid v w"
    and "\<not> reach (\<lambda>i. bit (fi_caps i) 3) oid w \<Longrightarrow>
      onlp_fan_percentage_set_locked (P\<lparr>fan_drv := (fan_drv P)\<lparr>onlp_fani_percentage_set := f\<rparr>\<rparr>) oid v w =
      onlp_fan_percentage_set_locked P oid v w"
    and "\<not> reach (\<lambda>i. True) oid w \<Longrightarrow>
      onlp_fan_mode_set_locked (P\<lparr>fan_drv := (fan_drv P)\<lparr>onlp_fani_mode_set := f\<rparr>\<rparr>) oid v w =
      onlp_fan_mode_set_locked P oid v w"
    and "\<not> reach (\<lambda>i. bit (fi_caps i) 0 \<and> bit (fi_caps i) 1) oid w \<Longrightarrow>
      onlp_fan_dir_set_locked (P\<lparr>fan_drv := (fan_drv P)\<lparr>onlp_fani_dir_set := f\<rparr>\<rparr>) oid v w =
      onlp_fan_dir_set_locked P oid v w"
  unfolding reach_def
  by (auto simp: reaches_setter_def onlp_fan_rpm_set_locked_def onlp_fan_percentage_set_locked_def
      onlp_fan_mode_set_locked_def onlp_fan_dir_set_locked_def onlp_fan_present_def oid_class_Some
      cap_bits and_one_zero Let_def split: prod.splits)

lemma led_gate:
  fixes P :: "'w platform"
  defines "reach capable oid w \<equiv> reaches_setter LED (onlp_ledi_info_get (led_drv P)) li_status capable
    (junk_led (uninit P) w) oid w"
  shows "\<not> reach (\<lambda>i. bit (li_caps i) 0) oid w \<Longrightarrow>
      onlp_led_set_locked (P\<lparr>led_drv := (led_drv P)\<lparr>onlp_ledi_set := f\<rparr>\<rparr>) oid v w =
      onlp_led_set_locked P oid v w"
    and "\<not> reach (\<lambda>i. bit (li_caps i) (nat v)) oid w \<Longrightarrow>
      onlp_led_mode_set_locked (P\<lparr>led_drv := (led_drv P)\<lparr>onlp_ledi_mode_set := f\<rparr>\<rparr>) oid v w =
      onlp_led_mode_set_locked P oid v w"
    and "\<not> reach (\<lambda>i. bit (li_caps i) 1) oid w \<Longrightarrow>
      onlp_led_char_set_locked (P\<lparr>led_drv := (led_drv P)\<lparr>onlp_ledi_char_set := g\<rparr>\<rparr>) oid c w =
      onlp_led_char_set_locked P oid c w"
  unfolding reach_def
  by (auto simp: reaches_setter_def onlp_led_set_locked_def onlp_led_mode_set_locked_def
      onlp_led_char_set_locked_def onlp_led_present_def oid_class_Some
      cap_bits has_push_bit has_power and_one_zero Let_def split: prod.splits)

section \<open>The configuration file\<close>

text \<open>
  A lookup that follows the contract of \<open>cjson_util_lookup_int\<close>: on failure the destination keeps
  its contents.
\<close>

definition lookup_ok :: "cjson \<Rightarrow> bool" where
  "lookup_ok cj \<longleftrightarrow> (\<forall>obj key old rv v. cj_lookup_int cj obj key old = (rv, v) \<longrightarrow> rv < 0 \<longrightarrow> v = old)"

section \<open>Properties\<close>



text \<open>
  A driver whose separate call is missing, or agrees with its information structure in status,
  contents and effect.
\<close>

definition agrees :: "('a, 'w) getter \<Rightarrow> ('i, 'w) getter \<Rightarrow> ('i \<Rightarrow> 'a) \<Rightarrow> bool" where
  "agrees item info part \<longleftrightarrow>
     (\<forall>oid a w. item oid a w = (ONLP_STATUS_E_UNSUPPORTED, a, w)) \<or>
     (\<forall>oid a j w. item oid a w = (case info oid j w of (rv, i, w') \<Rightarrow> (rv, part i, w')))"

definition takes_part :: "('a, 'w) getter \<Rightarrow> ('i, 'w) getter \<Rightarrow> ('i \<Rightarrow> 'a) \<Rightarrow> ('w \<Rightarrow> 'i) \<Rightarrow> bool" where
  "takes_part get info part junk \<longleftrightarrow>
     (\<forall>oid a w rv i w'. info oid (junk w) w = (rv, i, w') \<longrightarrow> 0 \<le> rv \<longrightarrow> get oid a w = (rv, part i, w'))"

context item_with_fallback
begin

lemma agrees_takes_part: "agrees item_get info_get part \<Longrightarrow> takes_part get info_get part junk"
  unfolding takes_part_def
proof (intro allI impI)
  fix oid a w rv i w'
  assume a: "agrees item_get info_get part" and i: "info_get oid (junk w) w = (rv, i, w')" "0 \<le> rv"
  from a consider "\<And>oid a w. item_get oid a w = (ONLP_STATUS_E_UNSUPPORTED, a, w)"
    | "\<And>j. item_get oid a w = (let (rv, i, w') = info_get oid j w in (rv, part i, w'))"
    by (auto simp: agrees_def)
  then show "get oid a w = (rv, part i, w')"
    by cases (use get_unsupported [of oid a w] get_agrees [OF _ i] i in auto)
qed

end



text \<open>
  The comment in \<open>onlp_led_mode_set\<close> says the mode values are the capability bit
  positions; for the plain on mode they are not: an LED whose only capability is on and off
  refuses \<open>ONLP_LED_MODE_ON\<close> whatever its driver, and one that can only show a character
  hands that mode to the driver.
\<close>

theorem led_mode_on_checks_char_bit:
  assumes "oid_class oid = Some LED"
    and "onlp_ledi_info_get (led_drv P) oid (junk_led (uninit P) w) w = (0, info, w1)"
    and "bit (li_status info) 0"
  shows "(li_caps info = ONLP_LED_CAPS_ON_OFF \<longrightarrow>
      onlp_led_mode_set_locked P oid ONLP_LED_MODE_ON w = (ONLP_STATUS_E_UNSUPPORTED, w1)) \<and>
    (li_caps info = ONLP_LED_CAPS_CHAR \<longrightarrow>
      onlp_led_mode_set_locked P oid ONLP_LED_MODE_ON w = onlp_ledi_mode_set (led_drv P) oid 1 w1)"
  using assms
  by (simp add: onlp_led_mode_set_locked_def onlp_led_present_def oid_class_Some and_one_zero has_def
      ONLP_LED_CAPS_ON_OFF_def ONLP_LED_CAPS_CHAR_def)

definition demo_led_platform :: "u32 \<Rightarrow> unit platform" where
  "demo_led_platform caps = (demo_platform [])\<lparr>led_drv := default_ledi\<lparr>onlp_ledi_info_get := \<lambda>oid i w.
     (0, i\<lparr>li_status := 1, li_caps := caps\<rparr>, w), onlp_ledi_mode_set := \<lambda>oid m w. (0, w)\<rparr>\<rparr>"

theorem led_mode_on_checks_char_bit_witness:
  "onlp_led_mode_set_locked (demo_led_platform ONLP_LED_CAPS_ON_OFF) 0x5000001 ONLP_LED_MODE_ON () =
     (ONLP_STATUS_E_UNSUPPORTED, ())"
proof -
  have "oid_class 0x5000001 = Some LED" by (simp add: oid_class_def ONLP_OID_TYPE_GET_def)
  moreover have "onlp_ledi_info_get (led_drv (demo_led_platform ONLP_LED_CAPS_ON_OFF)) 0x5000001
      (junk_led (uninit (demo_led_platform ONLP_LED_CAPS_ON_OFF)) ()) () =
      (0, \<lparr>li_hdr = demo_hdr [], li_status = 1, li_caps = ONLP_LED_CAPS_ON_OFF, li_mode = 0,
           li_character = CHR ''x''\<rparr>, ())"
    by (simp add: demo_led_platform_def demo_platform_def demo_junk_def)
  ultimately show ?thesis using led_mode_on_checks_char_bit by fastforce
qed

text \<open>
  An override object for a thermal sensor that has no \<open>mcelsius\<close> key destroys the
  temperature: the lookup fails, the failure is ignored, and the reported temperature is the
  contents of an uninitialised variable, while the call succeeds.
\<close>

theorem thermal_override_uninitialised:
  assumes "lookup_ok (config P)"
    and "cj_lookup (config P) ''overrides.thermal.%d'' (uint (ONLP_OID_ID_GET oid)) = Some obj"
    and "\<And>old. fst (cj_lookup_int (config P) obj ''mcelsius'' old) < 0"
    and "oid_class oid = Some THERMAL"
    and "onlp_thermali_info_get (thermal_drv P) oid x w = (rv, i, w1)" and "0 \<le> rv"
  shows "\<exists>i'. onlp_thermal_info_get_locked P oid x w = (rv, i', w1) \<and> ti_mcelsius i' = junk_int (uninit P) w1"
proof -
  obtain e v where "cj_lookup_int (config P) obj ''mcelsius'' (junk_int (uninit P) w1) = (e, v)" "e < 0"
    using assms(3) by (metis fst_conv surj_pair)
  moreover from this have "v = junk_int (uninit P) w1"
    using assms(1) unfolding lookup_ok_def by blast
  ultimately show ?thesis
    using assms
    by (auto simp: onlp_thermal_info_get_locked_def oid_class_Some onlp_thermali_info_from_json_def
        Let_def split: prod.splits)
qed

theorem thermal_override_uninitialised_witness:
  "\<exists>P i. onlp_thermal_info_get_locked (P :: unit platform) 0x2000001 (junk_thermal demo_junk ()) () = (0, i, ()) \<and>
     ti_mcelsius i = 77"
proof -
  define P where "P = (demo_platform [])\<lparr>thermal_drv := default_thermali\<lparr>onlp_thermali_info_get := \<lambda>oid i w. (0, i, w)\<rparr>,
    config := \<lparr>cj_lookup = \<lambda>_ _. Some 0, cj_lookup_int = \<lambda>_ _ v. (-1, v)\<rparr>\<rparr>"
  have "oid_class 0x2000001 = Some THERMAL" by (simp add: oid_class_def ONLP_OID_TYPE_GET_def)
  then obtain i' where "onlp_thermal_info_get_locked P 0x2000001 (junk_thermal demo_junk ()) () = (0, i', ())"
    "ti_mcelsius i' = junk_int (uninit P) ()"
    using thermal_override_uninitialised [where P = P and oid = "0x2000001" and obj = 0 and w = "()" and rv = 0
        and x = "junk_thermal demo_junk ()" and i = "junk_thermal demo_junk ()"]
    by (auto simp: P_def lookup_ok_def)
  moreover have "junk_int (uninit P) () = 77" by (simp add: P_def demo_platform_def demo_junk_def)
  ultimately show ?thesis by auto
qed

end
