(* ===== verification/Sfp.thy ===== *)
theory Sfp
  imports Api
begin

text \<open>
  \<open>sfp.c\<close>: the pluggable transceiver ports. The module keeps the bitmap of valid ports that the
  driver reported at start; every call on a port is checked against it and the port number
  mapped before the driver is asked. The AIM bitmap is not part of the repository: its operations are a
  parameter, with the laws the proofs need as the predicate \<open>bitmap_laws\<close>.
\<close>

section \<open>Bitmaps\<close>

record 'b bitmap_ops =
  bm_init :: 'b
  bm_clr_all :: "'b \<Rightarrow> 'b"
  bm_get :: "'b \<Rightarrow> int \<Rightarrow> bool"
  bm_set :: "'b \<Rightarrow> int \<Rightarrow> 'b"
  bm_iter :: "'b \<Rightarrow> int list"
  bm_count :: "'b \<Rightarrow> nat"

text \<open>\<open>AIM_BITMAP_CLR_ALL\<close> empties, \<open>SET\<close> adds one bit, \<open>ITER\<close> visits exactly the set bits, once.\<close>

definition bitmap_laws :: "'b bitmap_ops \<Rightarrow> bool" where
  "bitmap_laws B \<longleftrightarrow>
     (\<forall>b p. \<not> bm_get B (bm_clr_all B b) p) \<and>
     (\<forall>b p q. p \<in> {0..255} \<longrightarrow> bm_get B (bm_set B b p) q = (q = p \<or> bm_get B b q)) \<and>
     (\<forall>b p. p \<in> set (bm_iter B b) \<longleftrightarrow> p \<in> {0..255} \<and> bm_get B b p) \<and>
     (\<forall>b. distinct (bm_iter B b)) \<and>
     (\<forall>b. bm_count B b = length (bm_iter B b))"

section \<open>Driver and state\<close>

record ('b, 'i, 'w) sfpi =
  onlp_sfpi_init :: "'w \<Rightarrow> int \<times> 'w"
  onlp_sfpi_bitmap_get :: "'b \<Rightarrow> 'w \<Rightarrow> int \<times> 'b \<times> 'w"
  onlp_sfpi_is_present :: "int \<Rightarrow> 'w \<Rightarrow> int \<times> 'w"
  onlp_sfpi_presence_bitmap_get :: "'b \<Rightarrow> 'w \<Rightarrow> int \<times> 'b \<times> 'w"
  onlp_sfpi_rx_los_bitmap_get :: "'b \<Rightarrow> 'w \<Rightarrow> int \<times> 'b \<times> 'w"
  onlp_sfpi_eeprom_read :: "int \<Rightarrow> u8 list \<Rightarrow> 'w \<Rightarrow> int \<times> u8 list \<times> 'w"
  onlp_sfpi_dom_read :: "int \<Rightarrow> u8 list \<Rightarrow> 'w \<Rightarrow> int \<times> u8 list \<times> 'w"
  onlp_sfpi_post_insert :: "int \<Rightarrow> 'i \<Rightarrow> 'w \<Rightarrow> int \<times> 'w"
  onlp_sfpi_port_map :: "int \<Rightarrow> int \<Rightarrow> 'w \<Rightarrow> int \<times> int \<times> 'w"
  onlp_sfpi_denit :: "'w \<Rightarrow> int \<times> 'w"
  onlp_sfpi_ioctl :: "int \<Rightarrow> farg list \<Rightarrow> 'w \<Rightarrow> int \<times> 'w"
  onlp_sfpi_control_supported :: "int \<Rightarrow> int \<Rightarrow> int \<Rightarrow> 'w \<Rightarrow> int \<times> int \<times> 'w"
  onlp_sfpi_control_set :: "int \<Rightarrow> int \<Rightarrow> int \<Rightarrow> 'w \<Rightarrow> int \<times> 'w"
  onlp_sfpi_control_get :: "int \<Rightarrow> int \<Rightarrow> int \<Rightarrow> 'w \<Rightarrow> int \<times> int \<times> 'w"
  onlp_sfpi_dev_readb :: "int \<Rightarrow> u8 \<Rightarrow> u8 \<Rightarrow> 'w \<Rightarrow> int \<times> 'w"
  onlp_sfpi_dev_writeb :: "int \<Rightarrow> u8 \<Rightarrow> u8 \<Rightarrow> u8 \<Rightarrow> 'w \<Rightarrow> int \<times> 'w"
  onlp_sfpi_dev_readw :: "int \<Rightarrow> u8 \<Rightarrow> u8 \<Rightarrow> 'w \<Rightarrow> int \<times> 'w"
  onlp_sfpi_dev_writew :: "int \<Rightarrow> u8 \<Rightarrow> u8 \<Rightarrow> u16 \<Rightarrow> 'w \<Rightarrow> int \<times> 'w"
  onlp_sfpi_dev_read :: "int \<Rightarrow> u8 \<Rightarrow> u8 \<Rightarrow> u8 list \<Rightarrow> int \<Rightarrow> 'w \<Rightarrow> int \<times> u8 list \<times> 'w"
  onlp_sfpi_dev_write :: "int \<Rightarrow> u8 \<Rightarrow> u8 \<Rightarrow> u8 list \<Rightarrow> int \<Rightarrow> 'w \<Rightarrow> int \<times> 'w"
  sfp_junk :: "'w \<Rightarrow> int"

definition default_sfpi :: "('b, 'i, 'w) sfpi" where
  "default_sfpi = \<lparr>onlp_sfpi_init = default_op, onlp_sfpi_bitmap_get = (\<lambda>b w. (ONLP_STATUS_E_UNSUPPORTED, b, w)),
     onlp_sfpi_is_present = (\<lambda>_. default_op),
     onlp_sfpi_presence_bitmap_get = (\<lambda>b w. (ONLP_STATUS_E_UNSUPPORTED, b, w)),
     onlp_sfpi_rx_los_bitmap_get = (\<lambda>b w. (ONLP_STATUS_E_UNSUPPORTED, b, w)),
     onlp_sfpi_eeprom_read = (\<lambda>_ d w. (ONLP_STATUS_E_UNSUPPORTED, d, w)),
     onlp_sfpi_dom_read = (\<lambda>_ d w. (ONLP_STATUS_E_UNSUPPORTED, d, w)),
     onlp_sfpi_post_insert = (\<lambda>_ _. default_op),
     onlp_sfpi_port_map = (\<lambda>_ r w. (ONLP_STATUS_E_UNSUPPORTED, r, w)),
     onlp_sfpi_denit = default_op, onlp_sfpi_ioctl = (\<lambda>_ _. default_op),
     onlp_sfpi_control_supported = (\<lambda>_ _ v w. (ONLP_STATUS_E_UNSUPPORTED, v, w)),
     onlp_sfpi_control_set = (\<lambda>_ _ _. default_op),
     onlp_sfpi_control_get = (\<lambda>_ _ v w. (ONLP_STATUS_E_UNSUPPORTED, v, w)),
     onlp_sfpi_dev_readb = (\<lambda>_ _ _. default_op), onlp_sfpi_dev_writeb = (\<lambda>_ _ _ _. default_op),
     onlp_sfpi_dev_readw = (\<lambda>_ _ _. default_op), onlp_sfpi_dev_writew = (\<lambda>_ _ _ _. default_op),
     onlp_sfpi_dev_read = (\<lambda>_ _ _ d _ w. (ONLP_STATUS_E_UNSUPPORTED, d, w)),
     onlp_sfpi_dev_write = (\<lambda>_ _ _ _ _. default_op), sfp_junk = (\<lambda>_. 0)\<rparr>"

text \<open>The static \<open>sfpi_bitmap__\<close> and the hardware.\<close>

record ('b, 'w) sfp_state =
  sfpi_bitmap :: 'b
  hw :: 'w

definition ONLP_SFP_CONTROL_RESET :: int where [simp]: "ONLP_SFP_CONTROL_RESET = 0"
definition ONLP_SFP_CONTROL_RESET_STATE :: int where [simp]: "ONLP_SFP_CONTROL_RESET_STATE = 1"
definition ONLP_SFP_CONTROL_RX_LOS :: int where [simp]: "ONLP_SFP_CONTROL_RX_LOS = 2"
definition ONLP_SFP_CONTROL_TX_FAULT :: int where [simp]: "ONLP_SFP_CONTROL_TX_FAULT = 3"
definition ONLP_SFP_CONTROL_TX_DISABLE :: int where [simp]: "ONLP_SFP_CONTROL_TX_DISABLE = 4"
definition ONLP_SFP_CONTROL_LP_MODE :: int where [simp]: "ONLP_SFP_CONTROL_LP_MODE = 6"

definition ONLP_SFP_CONTROL_VALID :: "int \<Rightarrow> bool" where
  "ONLP_SFP_CONTROL_VALID e \<longleftrightarrow> 0 \<le> e \<and> e \<le> 7"

text \<open>Running a driver call in the module's state.\<close>

definition drv :: "('w \<Rightarrow> int \<times> 'w) \<Rightarrow> ('b, 'w) sfp_state \<Rightarrow> int \<times> ('b, 'w) sfp_state" where
  "drv f st = (case f (hw st) of (rv, w) \<Rightarrow> (rv, st\<lparr>hw := w\<rparr>))"

definition drv2 :: "('w \<Rightarrow> int \<times> 'a \<times> 'w) \<Rightarrow> ('b, 'w) sfp_state \<Rightarrow> int \<times> 'a \<times> ('b, 'w) sfp_state" where
  "drv2 f st = (case f (hw st) of (rv, a, w) \<Rightarrow> (rv, a, st\<lparr>hw := w\<rparr>))"

section \<open>Start and validation\<close>

definition onlp_sfp_bitmap_t_init :: "'b bitmap_ops \<Rightarrow> 'b" where
  "onlp_sfp_bitmap_t_init B = bm_clr_all B (bm_init B)"

definition onlp_sfp_init_locked ::
  "'b bitmap_ops \<Rightarrow> ('b, 'i, 'w) sfpi \<Rightarrow> ('b, 'w) sfp_state \<Rightarrow> int \<times> ('b, 'w) sfp_state" where
  "onlp_sfp_init_locked B S st =
     (let st = st\<lparr>sfpi_bitmap := onlp_sfp_bitmap_t_init B\<rparr>;
          (rv, st) = drv (onlp_sfpi_init S) st in
      if rv < 0 then (rv, st)
      else
        (let (rv, bm, st) = drv2 (onlp_sfpi_bitmap_get S (sfpi_bitmap st)) st;
             st = st\<lparr>sfpi_bitmap := bm\<rparr> in
         if rv < 0 then (rv, st) else (ONLP_STATUS_OK, st)))"

definition onlp_sfp_bitmap_get_locked :: "'b \<Rightarrow> ('b, 'w) sfp_state \<Rightarrow> int \<times> 'b \<times> ('b, 'w) sfp_state" where
  "onlp_sfp_bitmap_get_locked bmap st = (ONLP_STATUS_OK, sfpi_bitmap st, st)"

definition onlp_sfp_denit_locked :: "('b, 'i, 'w) sfpi \<Rightarrow> ('b, 'w) sfp_state \<Rightarrow> int \<times> ('b, 'w) sfp_state" where
  "onlp_sfp_denit_locked S st = drv (onlp_sfpi_denit S) st"

definition onlp_sfp_port_valid :: "'b bitmap_ops \<Rightarrow> int \<Rightarrow> ('b, 'w) sfp_state \<Rightarrow> bool" where
  "onlp_sfp_port_valid B port st = bm_get B (sfpi_bitmap st) port"

text \<open>
  \<open>ONLP_SFP_PORT_VALIDATE_AND_MAP\<close>: leave with -1 on a port that is not in the bitmap, otherwise
  replace the port by the driver's mapping when there is one.
\<close>

definition ONLP_SFP_PORT_VALIDATE_AND_MAP ::
  "'b bitmap_ops \<Rightarrow> ('b, 'i, 'w) sfpi \<Rightarrow> int \<Rightarrow> ('b, 'w) sfp_state \<Rightarrow> int option \<times> ('b, 'w) sfp_state" where
  "ONLP_SFP_PORT_VALIDATE_AND_MAP B S port st =
     (if \<not> bm_get B (sfpi_bitmap st) port then (None, st)
      else
        (let (rv, rport, st1) = drv2 (onlp_sfpi_port_map S port (sfp_junk S (hw st))) st in
         (Some (if rv \<ge> 0 then rport else port), st1)))"

definition on_port ::
  "'b bitmap_ops \<Rightarrow> ('b, 'i, 'w) sfpi \<Rightarrow> int \<Rightarrow> (int \<Rightarrow> 'w \<Rightarrow> int \<times> 'w) \<Rightarrow> ('b, 'w) sfp_state
     \<Rightarrow> int \<times> ('b, 'w) sfp_state" where
  "on_port B S port f st =
     (case ONLP_SFP_PORT_VALIDATE_AND_MAP B S port st of
        (None, st) \<Rightarrow> (-1, st) | (Some p, st) \<Rightarrow> drv (f p) st)"

section \<open>Presence\<close>

definition onlp_sfp_is_present_locked ::
  "'b bitmap_ops \<Rightarrow> ('b, 'i, 'w) sfpi \<Rightarrow> int \<Rightarrow> ('b, 'w) sfp_state \<Rightarrow> int \<times> ('b, 'w) sfp_state" where
  "onlp_sfp_is_present_locked B S port st = on_port B S port (onlp_sfpi_is_present S) st"

text \<open>The loop over the valid ports: the first error ends it.\<close>

fun presence_loop ::
  "'b bitmap_ops \<Rightarrow> ('b, 'i, 'w) sfpi \<Rightarrow> int list \<Rightarrow> 'b \<Rightarrow> ('b, 'w) sfp_state
     \<Rightarrow> int \<times> 'b \<times> ('b, 'w) sfp_state" where
  "presence_loop B S [] dst st = (0, dst, st)"
| "presence_loop B S (p # ps) dst st =
     (let (rv, st) = onlp_sfp_is_present_locked B S p st in
      if rv < 0 then (rv, dst, st)
      else presence_loop B S ps (if rv > 0 then bm_set B dst p else dst) st)"

definition onlp_sfp_presence_bitmap_get_locked ::
  "'b bitmap_ops \<Rightarrow> ('b, 'i, 'w) sfpi \<Rightarrow> 'b \<Rightarrow> ('b, 'w) sfp_state \<Rightarrow> int \<times> 'b \<times> ('b, 'w) sfp_state" where
  "onlp_sfp_presence_bitmap_get_locked B S dst st =
     (let (rv, dst, st) = drv2 (onlp_sfpi_presence_bitmap_get S (onlp_sfp_bitmap_t_init B)) st in
      if rv = ONLP_STATUS_E_UNSUPPORTED then
        presence_loop B S (bm_iter B (sfpi_bitmap st)) (bm_clr_all B dst) st
      else (rv, dst, st))"

section \<open>EEPROM and device access\<close>

text \<open>\<open>NULL\<close> is handed out when the read fails; nothing is stored for an invalid port.\<close>

definition read_256 ::
  "'b bitmap_ops \<Rightarrow> ('b, 'i, 'w) sfpi \<Rightarrow> (int \<Rightarrow> u8 list \<Rightarrow> 'w \<Rightarrow> int \<times> u8 list \<times> 'w) \<Rightarrow> int
     \<Rightarrow> u8 list option \<Rightarrow> ('b, 'w) sfp_state \<Rightarrow> int \<times> u8 list option \<times> ('b, 'w) sfp_state" where
  "read_256 B S f port datap st =
     (case ONLP_SFP_PORT_VALIDATE_AND_MAP B S port st of
        (None, st) \<Rightarrow> (-1, datap, st)
      | (Some p, st) \<Rightarrow>
          (let (rv, data, st) = drv2 (f p (replicate 256 0)) st in
           (rv, if rv < 0 then None else Some data, st)))"

definition onlp_sfp_eeprom_read_locked ::
  "'b bitmap_ops \<Rightarrow> ('b, 'i, 'w) sfpi \<Rightarrow> int \<Rightarrow> u8 list option \<Rightarrow> ('b, 'w) sfp_state
     \<Rightarrow> int \<times> u8 list option \<times> ('b, 'w) sfp_state" where
  "onlp_sfp_eeprom_read_locked B S port datap st = read_256 B S (onlp_sfpi_eeprom_read S) port datap st"

definition onlp_sfp_dom_read_locked ::
  "'b bitmap_ops \<Rightarrow> ('b, 'i, 'w) sfpi \<Rightarrow> int \<Rightarrow> u8 list option \<Rightarrow> ('b, 'w) sfp_state
     \<Rightarrow> int \<times> u8 list option \<times> ('b, 'w) sfp_state" where
  "onlp_sfp_dom_read_locked B S port datap st = read_256 B S (onlp_sfpi_dom_read S) port datap st"

definition onlp_sfp_post_insert_locked ::
  "'b bitmap_ops \<Rightarrow> ('b, 'i, 'w) sfpi \<Rightarrow> int \<Rightarrow> 'i \<Rightarrow> ('b, 'w) sfp_state \<Rightarrow> int \<times> ('b, 'w) sfp_state" where
  "onlp_sfp_post_insert_locked B S port info st = on_port B S port (\<lambda>p. onlp_sfpi_post_insert S p info) st"

definition onlp_sfp_vioctl_locked ::
  "('b, 'i, 'w) sfpi \<Rightarrow> int \<Rightarrow> farg list \<Rightarrow> ('b, 'w) sfp_state \<Rightarrow> int \<times> ('b, 'w) sfp_state" where
  "onlp_sfp_vioctl_locked S port vargs st = drv (onlp_sfpi_ioctl S port vargs) st"

definition onlp_sfp_dev_readb_locked ::
  "'b bitmap_ops \<Rightarrow> ('b, 'i, 'w) sfpi \<Rightarrow> int \<Rightarrow> u8 \<Rightarrow> u8 \<Rightarrow> ('b, 'w) sfp_state \<Rightarrow> int \<times> ('b, 'w) sfp_state" where
  "onlp_sfp_dev_readb_locked B S port devaddr addr st =
     on_port B S port (\<lambda>p. onlp_sfpi_dev_readb S p devaddr addr) st"

definition onlp_sfp_dev_writeb_locked ::
  "'b bitmap_ops \<Rightarrow> ('b, 'i, 'w) sfpi \<Rightarrow> int \<Rightarrow> u8 \<Rightarrow> u8 \<Rightarrow> u8 \<Rightarrow> ('b, 'w) sfp_state \<Rightarrow> int \<times> ('b, 'w) sfp_state" where
  "onlp_sfp_dev_writeb_locked B S port devaddr addr v st =
     on_port B S port (\<lambda>p. onlp_sfpi_dev_writeb S p devaddr addr v) st"

definition onlp_sfp_dev_readw_locked ::
  "'b bitmap_ops \<Rightarrow> ('b, 'i, 'w) sfpi \<Rightarrow> int \<Rightarrow> u8 \<Rightarrow> u8 \<Rightarrow> ('b, 'w) sfp_state \<Rightarrow> int \<times> ('b, 'w) sfp_state" where
  "onlp_sfp_dev_readw_locked B S port devaddr addr st =
     on_port B S port (\<lambda>p. onlp_sfpi_dev_readw S p devaddr addr) st"

definition onlp_sfp_dev_writew_locked ::
  "'b bitmap_ops \<Rightarrow> ('b, 'i, 'w) sfpi \<Rightarrow> int \<Rightarrow> u8 \<Rightarrow> u8 \<Rightarrow> u16 \<Rightarrow> ('b, 'w) sfp_state \<Rightarrow> int \<times> ('b, 'w) sfp_state" where
  "onlp_sfp_dev_writew_locked B S port devaddr addr v st =
     on_port B S port (\<lambda>p. onlp_sfpi_dev_writew S p devaddr addr v) st"

definition onlp_sfp_dev_read_locked ::
  "'b bitmap_ops \<Rightarrow> ('b, 'i, 'w) sfpi \<Rightarrow> int \<Rightarrow> u8 \<Rightarrow> u8 \<Rightarrow> u8 list \<Rightarrow> int \<Rightarrow> ('b, 'w) sfp_state
     \<Rightarrow> int \<times> u8 list \<times> ('b, 'w) sfp_state" where
  "onlp_sfp_dev_read_locked B S port devaddr addr rdata sz st =
     (case ONLP_SFP_PORT_VALIDATE_AND_MAP B S port st of
        (None, st) \<Rightarrow> (-1, rdata, st)
      | (Some p, st) \<Rightarrow> drv2 (onlp_sfpi_dev_read S p devaddr addr rdata sz) st)"

definition onlp_sfp_dev_write_locked ::
  "'b bitmap_ops \<Rightarrow> ('b, 'i, 'w) sfpi \<Rightarrow> int \<Rightarrow> u8 \<Rightarrow> u8 \<Rightarrow> u8 list \<Rightarrow> int \<Rightarrow> ('b, 'w) sfp_state
     \<Rightarrow> int \<times> ('b, 'w) sfp_state" where
  "onlp_sfp_dev_write_locked B S port devaddr addr data sz st =
     on_port B S port (\<lambda>p. onlp_sfpi_dev_write S p devaddr addr data sz) st"

section \<open>Controls\<close>

text \<open>The checks \<open>control_set\<close> and \<open>control_get\<close> share, up to the \<open>switch\<close>.\<close>

definition control_unsupported ::
  "('b, 'i, 'w) sfpi \<Rightarrow> int \<Rightarrow> int \<Rightarrow> ('b, 'w) sfp_state \<Rightarrow> bool \<times> ('b, 'w) sfp_state" where
  "control_unsupported S p control st =
     (let (rv, supported, st1) = drv2 (onlp_sfpi_control_supported S p control (sfp_junk S (hw st))) st in
      (rv \<ge> 0 \<and> supported = 0, st1))"

definition onlp_sfp_control_set_locked ::
  "'b bitmap_ops \<Rightarrow> ('b, 'i, 'w) sfpi \<Rightarrow> int \<Rightarrow> int \<Rightarrow> int \<Rightarrow> ('b, 'w) sfp_state \<Rightarrow> int \<times> ('b, 'w) sfp_state" where
  "onlp_sfp_control_set_locked B S port control v st =
     (case ONLP_SFP_PORT_VALIDATE_AND_MAP B S port st of
        (None, st) \<Rightarrow> (-1, st)
      | (Some p, st) \<Rightarrow>
          if \<not> ONLP_SFP_CONTROL_VALID control then (ONLP_STATUS_E_PARAM, st)
          else
            (let (unsupported, st) = control_unsupported S p control st in
             if unsupported then (ONLP_STATUS_E_UNSUPPORTED, st)
             else if control = ONLP_SFP_CONTROL_RX_LOS \<or> control = ONLP_SFP_CONTROL_TX_FAULT
               then (ONLP_STATUS_E_PARAM, st)
             else drv (onlp_sfpi_control_set S p control v) st))"

text \<open>A \<open>NULL\<close> destination is \<open>None\<close>.\<close>

definition onlp_sfp_control_get_locked ::
  "'b bitmap_ops \<Rightarrow> ('b, 'i, 'w) sfpi \<Rightarrow> int \<Rightarrow> int \<Rightarrow> int option \<Rightarrow> ('b, 'w) sfp_state
     \<Rightarrow> int \<times> int option \<times> ('b, 'w) sfp_state" where
  "onlp_sfp_control_get_locked B S port control v st =
     (case ONLP_SFP_PORT_VALIDATE_AND_MAP B S port st of
        (None, st) \<Rightarrow> (-1, v, st)
      | (Some p, st) \<Rightarrow>
          if \<not> ONLP_SFP_CONTROL_VALID control then (ONLP_STATUS_E_PARAM, v, st)
          else
            (let (unsupported, st) = control_unsupported S p control st in
             if unsupported then (ONLP_STATUS_E_UNSUPPORTED, v, st)
             else if control = ONLP_SFP_CONTROL_RESET then (ONLP_STATUS_E_UNSUPPORTED, v, st)
             else
               (case v of
                  None \<Rightarrow> (ONLP_STATUS_E_PARAM, v, st)
                | Some old \<Rightarrow>
                    (let (rv, x, st) = drv2 (onlp_sfpi_control_get S p control old) st in (rv, Some x, st)))))"

text \<open>
  The emulated loss-of-signal bitmap: the status left in \<open>rv\<close> after the loop is returned, which is
  still \<open>E_UNSUPPORTED\<close> when there was no port to ask.
\<close>

fun rx_los_loop ::
  "'b bitmap_ops \<Rightarrow> ('b, 'i, 'w) sfpi \<Rightarrow> int list \<Rightarrow> int \<Rightarrow> 'b \<Rightarrow> ('b, 'w) sfp_state
     \<Rightarrow> int \<times> 'b \<times> ('b, 'w) sfp_state" where
  "rx_los_loop B S [] rv dst st = (rv, dst, st)"
| "rx_los_loop B S (p # ps) rv dst st =
     (let (rv, v, st) = onlp_sfp_control_get_locked B S p ONLP_SFP_CONTROL_RX_LOS (Some (sfp_junk S (hw st))) st in
      if rv < 0 then (rv, dst, st)
      else rx_los_loop B S ps rv (if v \<noteq> Some 0 then bm_set B dst p else dst) st)"

definition onlp_sfp_rx_los_bitmap_get_locked ::
  "'b bitmap_ops \<Rightarrow> ('b, 'i, 'w) sfpi \<Rightarrow> 'b \<Rightarrow> ('b, 'w) sfp_state \<Rightarrow> int \<times> 'b \<times> ('b, 'w) sfp_state" where
  "onlp_sfp_rx_los_bitmap_get_locked B S dst st =
     (let (rv, dst, st) = drv2 (onlp_sfpi_rx_los_bitmap_get S dst) st in
      if rv = ONLP_STATUS_E_UNSUPPORTED then
        rx_los_loop B S (bm_iter B (sfpi_bitmap st)) rv (bm_clr_all B dst) st
      else (rv, dst, st))"

section \<open>Public calls\<close>

definition onlp_sfp_init ::
  "'l alock \<Rightarrow> 'b bitmap_ops \<Rightarrow> ('b, 'i, 'w) sfpi \<Rightarrow> 'l \<times> ('b, 'w) sfp_state \<Rightarrow> (int \<times> 'l \<times> ('b, 'w) sfp_state) option" where
  "onlp_sfp_init L B S =
     locked_api L ''onlp_sfp_init'' (total1 (onlp_sfp_init_locked B S ))"

definition onlp_sfp_bitmap_get ::
  "'l alock \<Rightarrow> 'b bitmap_ops \<Rightarrow> ('b, 'i, 'w) sfpi \<Rightarrow> 'b \<Rightarrow> 'l \<times> ('b, 'w) sfp_state \<Rightarrow> ((int \<times> 'b) \<times> 'l \<times> ('b, 'w) sfp_state) option" where
  "onlp_sfp_bitmap_get L B S bmap =
     locked_api L ''onlp_sfp_bitmap_get'' (total2 (onlp_sfp_bitmap_get_locked bmap))"

definition onlp_sfp_denit ::
  "'l alock \<Rightarrow> 'b bitmap_ops \<Rightarrow> ('b, 'i, 'w) sfpi \<Rightarrow> 'l \<times> ('b, 'w) sfp_state \<Rightarrow> (int \<times> 'l \<times> ('b, 'w) sfp_state) option" where
  "onlp_sfp_denit L B S =
     locked_api L ''onlp_sfp_denit'' (total1 (onlp_sfp_denit_locked S ))"

definition onlp_sfp_is_present ::
  "'l alock \<Rightarrow> 'b bitmap_ops \<Rightarrow> ('b, 'i, 'w) sfpi \<Rightarrow> int \<Rightarrow> 'l \<times> ('b, 'w) sfp_state \<Rightarrow> (int \<times> 'l \<times> ('b, 'w) sfp_state) option" where
  "onlp_sfp_is_present L B S port =
     locked_api L ''onlp_sfp_is_present'' (total1 (onlp_sfp_is_present_locked B S port))"

definition onlp_sfp_presence_bitmap_get ::
  "'l alock \<Rightarrow> 'b bitmap_ops \<Rightarrow> ('b, 'i, 'w) sfpi \<Rightarrow> 'b \<Rightarrow> 'l \<times> ('b, 'w) sfp_state \<Rightarrow> ((int \<times> 'b) \<times> 'l \<times> ('b, 'w) sfp_state) option" where
  "onlp_sfp_presence_bitmap_get L B S dst =
     locked_api L ''onlp_sfp_presence_bitmap_get'' (total2 (onlp_sfp_presence_bitmap_get_locked B S dst))"

definition onlp_sfp_eeprom_read ::
  "'l alock \<Rightarrow> 'b bitmap_ops \<Rightarrow> ('b, 'i, 'w) sfpi \<Rightarrow> int \<Rightarrow> u8 list option \<Rightarrow> 'l \<times> ('b, 'w) sfp_state \<Rightarrow> ((int \<times> u8 list option) \<times> 'l \<times> ('b, 'w) sfp_state) option" where
  "onlp_sfp_eeprom_read L B S port datap =
     locked_api L ''onlp_sfp_eeprom_read'' (total2 (onlp_sfp_eeprom_read_locked B S port datap))"

definition onlp_sfp_dom_read ::
  "'l alock \<Rightarrow> 'b bitmap_ops \<Rightarrow> ('b, 'i, 'w) sfpi \<Rightarrow> int \<Rightarrow> u8 list option \<Rightarrow> 'l \<times> ('b, 'w) sfp_state \<Rightarrow> ((int \<times> u8 list option) \<times> 'l \<times> ('b, 'w) sfp_state) option" where
  "onlp_sfp_dom_read L B S port datap =
     locked_api L ''onlp_sfp_dom_read'' (total2 (onlp_sfp_dom_read_locked B S port datap))"

definition onlp_sfp_post_insert ::
  "'l alock \<Rightarrow> 'b bitmap_ops \<Rightarrow> ('b, 'i, 'w) sfpi \<Rightarrow> int \<Rightarrow> 'i \<Rightarrow> 'l \<times> ('b, 'w) sfp_state \<Rightarrow> (int \<times> 'l \<times> ('b, 'w) sfp_state) option" where
  "onlp_sfp_post_insert L B S port info =
     locked_api L ''onlp_sfp_post_insert'' (total1 (onlp_sfp_post_insert_locked B S port info))"

definition onlp_sfp_control_set ::
  "'l alock \<Rightarrow> 'b bitmap_ops \<Rightarrow> ('b, 'i, 'w) sfpi \<Rightarrow> int \<Rightarrow> int \<Rightarrow> int \<Rightarrow> 'l \<times> ('b, 'w) sfp_state \<Rightarrow> (int \<times> 'l \<times> ('b, 'w) sfp_state) option" where
  "onlp_sfp_control_set L B S port control v =
     locked_api L ''onlp_sfp_control_set'' (total1 (onlp_sfp_control_set_locked B S port control v))"

definition onlp_sfp_control_get ::
  "'l alock \<Rightarrow> 'b bitmap_ops \<Rightarrow> ('b, 'i, 'w) sfpi \<Rightarrow> int \<Rightarrow> int \<Rightarrow> int option \<Rightarrow> 'l \<times> ('b, 'w) sfp_state \<Rightarrow> ((int \<times> int option) \<times> 'l \<times> ('b, 'w) sfp_state) option" where
  "onlp_sfp_control_get L B S port control v =
     locked_api L ''onlp_sfp_control_get'' (total2 (onlp_sfp_control_get_locked B S port control v))"

definition onlp_sfp_rx_los_bitmap_get ::
  "'l alock \<Rightarrow> 'b bitmap_ops \<Rightarrow> ('b, 'i, 'w) sfpi \<Rightarrow> 'b \<Rightarrow> 'l \<times> ('b, 'w) sfp_state \<Rightarrow> ((int \<times> 'b) \<times> 'l \<times> ('b, 'w) sfp_state) option" where
  "onlp_sfp_rx_los_bitmap_get L B S dst =
     locked_api L ''onlp_sfp_rx_los_bitmap_get'' (total2 (onlp_sfp_rx_los_bitmap_get_locked B S dst))"

definition onlp_sfp_vioctl ::
  "'l alock \<Rightarrow> 'b bitmap_ops \<Rightarrow> ('b, 'i, 'w) sfpi \<Rightarrow> int \<Rightarrow> farg list \<Rightarrow> 'l \<times> ('b, 'w) sfp_state \<Rightarrow> (int \<times> 'l \<times> ('b, 'w) sfp_state) option" where
  "onlp_sfp_vioctl L B S port vargs =
     locked_api L ''onlp_sfp_vioctl'' (total1 (onlp_sfp_vioctl_locked S port vargs))"

definition onlp_sfp_dev_readb ::
  "'l alock \<Rightarrow> 'b bitmap_ops \<Rightarrow> ('b, 'i, 'w) sfpi \<Rightarrow> int \<Rightarrow> u8 \<Rightarrow> u8 \<Rightarrow> 'l \<times> ('b, 'w) sfp_state \<Rightarrow> (int \<times> 'l \<times> ('b, 'w) sfp_state) option" where
  "onlp_sfp_dev_readb L B S port devaddr addr =
     locked_api L ''onlp_sfp_dev_readb'' (total1 (onlp_sfp_dev_readb_locked B S port devaddr addr))"

definition onlp_sfp_dev_writeb ::
  "'l alock \<Rightarrow> 'b bitmap_ops \<Rightarrow> ('b, 'i, 'w) sfpi \<Rightarrow> int \<Rightarrow> u8 \<Rightarrow> u8 \<Rightarrow> u8 \<Rightarrow> 'l \<times> ('b, 'w) sfp_state \<Rightarrow> (int \<times> 'l \<times> ('b, 'w) sfp_state) option" where
  "onlp_sfp_dev_writeb L B S port devaddr addr v =
     locked_api L ''onlp_sfp_dev_writeb'' (total1 (onlp_sfp_dev_writeb_locked B S port devaddr addr v))"

definition onlp_sfp_dev_readw ::
  "'l alock \<Rightarrow> 'b bitmap_ops \<Rightarrow> ('b, 'i, 'w) sfpi \<Rightarrow> int \<Rightarrow> u8 \<Rightarrow> u8 \<Rightarrow> 'l \<times> ('b, 'w) sfp_state \<Rightarrow> (int \<times> 'l \<times> ('b, 'w) sfp_state) option" where
  "onlp_sfp_dev_readw L B S port devaddr addr =
     locked_api L ''onlp_sfp_dev_readw'' (total1 (onlp_sfp_dev_readw_locked B S port devaddr addr))"

definition onlp_sfp_dev_writew ::
  "'l alock \<Rightarrow> 'b bitmap_ops \<Rightarrow> ('b, 'i, 'w) sfpi \<Rightarrow> int \<Rightarrow> u8 \<Rightarrow> u8 \<Rightarrow> u16 \<Rightarrow> 'l \<times> ('b, 'w) sfp_state \<Rightarrow> (int \<times> 'l \<times> ('b, 'w) sfp_state) option" where
  "onlp_sfp_dev_writew L B S port devaddr addr v =
     locked_api L ''onlp_sfp_dev_writew'' (total1 (onlp_sfp_dev_writew_locked B S port devaddr addr v))"

definition onlp_sfp_dev_read ::
  "'l alock \<Rightarrow> 'b bitmap_ops \<Rightarrow> ('b, 'i, 'w) sfpi \<Rightarrow> int \<Rightarrow> u8 \<Rightarrow> u8 \<Rightarrow> u8 list \<Rightarrow> int \<Rightarrow> 'l \<times> ('b, 'w) sfp_state \<Rightarrow> ((int \<times> u8 list) \<times> 'l \<times> ('b, 'w) sfp_state) option" where
  "onlp_sfp_dev_read L B S port devaddr addr rdata sz =
     locked_api L ''onlp_sfp_dev_read'' (total2 (onlp_sfp_dev_read_locked B S port devaddr addr rdata sz))"

definition onlp_sfp_dev_write ::
  "'l alock \<Rightarrow> 'b bitmap_ops \<Rightarrow> ('b, 'i, 'w) sfpi \<Rightarrow> int \<Rightarrow> u8 \<Rightarrow> u8 \<Rightarrow> u8 list \<Rightarrow> int \<Rightarrow> 'l \<times> ('b, 'w) sfp_state \<Rightarrow> (int \<times> 'l \<times> ('b, 'w) sfp_state) option" where
  "onlp_sfp_dev_write L B S port devaddr addr data sz =
     locked_api L ''onlp_sfp_dev_write'' (total1 (onlp_sfp_dev_write_locked B S port devaddr addr data sz))"

definition onlp_sfp_ioctl ::
  "'l alock \<Rightarrow> 'b bitmap_ops \<Rightarrow> ('b, 'i, 'w) sfpi \<Rightarrow> int \<Rightarrow> farg list \<Rightarrow> 'l \<times> ('b, 'w) sfp_state \<Rightarrow> (int \<times> 'l \<times> ('b, 'w) sfp_state) option" where
  "onlp_sfp_ioctl L B S port vargs = onlp_sfp_vioctl L B S port vargs"

section \<open>Control flags\<close>

definition queried_controls :: "int list" where
  "queried_controls = [ONLP_SFP_CONTROL_RESET_STATE, ONLP_SFP_CONTROL_RX_LOS, ONLP_SFP_CONTROL_TX_DISABLE,
     ONLP_SFP_CONTROL_LP_MODE]"

text \<open>The local \<open>v\<close> keeps its value from one query to the next.\<close>

fun control_flags_loop ::
  "'l alock \<Rightarrow> 'b bitmap_ops \<Rightarrow> ('b, 'i, 'w) sfpi \<Rightarrow> int \<Rightarrow> int list \<Rightarrow> u32 \<Rightarrow> int option
     \<Rightarrow> 'l \<times> ('b, 'w) sfp_state \<Rightarrow> ((int \<times> u32) \<times> 'l \<times> ('b, 'w) sfp_state) option" where
  "control_flags_loop L B S port [] flags v s = Some ((0, flags), s)"
| "control_flags_loop L B S port (c # cs) flags v s =
     do { ((rv, v), s) \<leftarrow> onlp_sfp_control_get L B S port c v s;
          if rv \<ge> 0 then
            control_flags_loop L B S port cs (if v \<noteq> Some 0 then flags OR push_bit (nat c) 1 else flags) v s
          else if rv \<noteq> ONLP_STATUS_E_UNSUPPORTED then Some ((rv, flags), s)
          else control_flags_loop L B S port cs flags v s }"

definition onlp_sfp_control_flags_get ::
  "'l alock \<Rightarrow> 'b bitmap_ops \<Rightarrow> ('b, 'i, 'w) sfpi \<Rightarrow> int \<Rightarrow> u32 option
     \<Rightarrow> 'l \<times> ('b, 'w) sfp_state \<Rightarrow> ((int \<times> u32 option) \<times> 'l \<times> ('b, 'w) sfp_state) option" where
  "onlp_sfp_control_flags_get L B S port flags s =
     (case flags of
        None \<Rightarrow> Some ((ONLP_STATUS_E_PARAM, None), s)
      | Some _ \<Rightarrow>
          do { ((rv, fl), s1) \<leftarrow>
                 control_flags_loop L B S port queried_controls 0 (Some (sfp_junk S (hw (snd s)))) s;
               Some ((rv, Some fl), s1) })"

section \<open>Dump\<close>

text \<open>A bitmap as a print argument: the ports it holds.\<close>

definition bm_arg :: "'b bitmap_ops \<Rightarrow> 'b \<Rightarrow> farg list" where
  "bm_arg B b = map FInt (bm_iter B b)"

definition nl :: string where "nl = [CHR 0x0A]"

definition sfp_dump_present ::
  "'l alock \<Rightarrow> 'b bitmap_ops \<Rightarrow> ('b, 'i, 'w) sfpi \<Rightarrow> int \<Rightarrow> ('l \<times> ('b, 'w) sfp_state) printer" where
  "sfp_dump_present L B S p s =
     do { ((srv, flags), s1) \<leftarrow> onlp_sfp_control_flags_get L B S p (Some 0) s;
          ((rv, idprom), s2) \<leftarrow> onlp_sfp_eeprom_read L B S p None s1;
          Some (
            [if srv \<ge> 0
             then Aprintf (''Present, Status = %{onlp_sfp_control_flags}'' @ nl)
                    [FWord (case flags of None \<Rightarrow> 0 | Some f \<Rightarrow> f)]
             else Aprintf (''Present, Status Unavailable [ %{onlp_status} ]'' @ nl) [FInt srv],
             if rv < 0 then Aprintf (''Error reading eeprom: %{onlp_status}'' @ nl) []
             else Aprintf (''eeprom:'' @ nl @ ''%{data}'' @ nl)
                    [FBytes (case idprom of None \<Rightarrow> [] | Some d \<Rightarrow> d), FInt 256]], s2) }"

definition sfp_dump_port ::
  "'l alock \<Rightarrow> 'b bitmap_ops \<Rightarrow> ('b, 'i, 'w) sfpi \<Rightarrow> int \<Rightarrow> ('l \<times> ('b, 'w) sfp_state) printer" where
  "sfp_dump_port L B S p s =
     do { (rv, s1) \<leftarrow> onlp_sfp_is_present L B S p s;
          (os, s2) \<leftarrow>
            (if rv = 0 then Some ([Aprintf (''Missing.'' @ nl) []], s1)
             else if rv = 1 then sfp_dump_present L B S p s1
             else Some ([Aprintf (''Error: %{onlp_status}'' @ nl) [FInt rv]], s1));
          Some (Aprintf ''Port %.2d: '' [FInt p] # os, s2) }"

definition dump_bitmap :: "'b bitmap_ops \<Rightarrow> string \<Rightarrow> int \<Rightarrow> 'b \<Rightarrow> iof_op list" where
  "dump_bitmap B err rv bmap =
     [if rv = 0 then Aprintf (''%{aim_bitmap}'' @ nl) (bm_arg B bmap) else Aprintf (err @ nl) [FInt rv]]"

definition onlp_sfp_dump ::
  "'l alock \<Rightarrow> 'b bitmap_ops \<Rightarrow> ('b, 'i, 'w) sfpi \<Rightarrow> ('l \<times> ('b, 'w) sfp_state) printer" where
  "onlp_sfp_dump L B S s =
     (if bm_count B (sfpi_bitmap (snd s)) = 0
      then Some ([Aprintf (''There are no SFP capable ports.'' @ nl) []], s)
      else
        do { ((rv1, bmap), s1) \<leftarrow> onlp_sfp_presence_bitmap_get L B S (onlp_sfp_bitmap_t_init B) s;
             ((rv2, bmap2), s2) \<leftarrow> onlp_sfp_rx_los_bitmap_get L B S bmap s1;
             (ports, s3) \<leftarrow> each (sfp_dump_port L B S) (bm_iter B (sfpi_bitmap (snd s2))) s2;
             Some ([Aprintf ''  Presence Bitmap: '' []] @ dump_bitmap B ''Error: %{onlp_status}'' rv1 bmap @
                   [Aprintf ''  RX_LOS Bitmap: '' []] @ dump_bitmap B ''Error: %{onlp_status}'' rv2 bmap2 @
                   [Aprintf nl []] @ ports, s3) })"

end
