(* ===== verification/SfpProps.thy ===== *)
theory SfpProps
  imports Sfp
begin

text \<open>
  What \<open>sfp.c\<close> promises: calls on ports the driver did not report never reach it, the bitmaps it
  builds itself agree with the single-port calls, and the direction and support checks on controls.
\<close>

section \<open>Port validation\<close>

lemma validate_invalid:
  "\<not> bm_get B (sfpi_bitmap st) port \<Longrightarrow> ONLP_SFP_PORT_VALIDATE_AND_MAP B S port st = (None, st)"
  by (simp add: ONLP_SFP_PORT_VALIDATE_AND_MAP_def)

lemma validate_bitmap:
  "ONLP_SFP_PORT_VALIDATE_AND_MAP B S port st = (p, st') \<Longrightarrow> sfpi_bitmap st' = sfpi_bitmap st"
  by (auto simp: ONLP_SFP_PORT_VALIDATE_AND_MAP_def drv2_def split: if_splits prod.splits)

section \<open>A driver that does not change while it is asked\<close>

text \<open>Presence per port and the port mapping as functions; \<open>seen\<close> is what the module gets.\<close>

definition static_presence :: "('b, 'i, 'w) sfpi \<Rightarrow> (int \<Rightarrow> int) \<Rightarrow> (int \<Rightarrow> int option) \<Rightarrow> bool" where
  "static_presence S pres pmap \<longleftrightarrow>
     (\<forall>p w. onlp_sfpi_is_present S p w = (pres p, w)) \<and>
     (\<forall>p j w. onlp_sfpi_port_map S p j w = (case pmap p of Some r \<Rightarrow> (0, r, w) | None \<Rightarrow> (-1, j, w)))"

definition seen :: "(int \<Rightarrow> int) \<Rightarrow> (int \<Rightarrow> int option) \<Rightarrow> int \<Rightarrow> int" where
  "seen pres pmap p = pres (case pmap p of Some r \<Rightarrow> r | None \<Rightarrow> p)"

lemma is_present_static:
  assumes "static_presence S pres pmap" and "bm_get B (sfpi_bitmap st) p"
  shows "onlp_sfp_is_present_locked B S p st = (seen pres pmap p, st)"
  using assms
  by (cases "pmap p") (auto simp: onlp_sfp_is_present_locked_def on_port_def static_presence_def
      ONLP_SFP_PORT_VALIDATE_AND_MAP_def drv_def drv2_def seen_def)

lemma presence_loop_static:
  assumes "static_presence S pres pmap" and "\<forall>p \<in> set ps. bm_get B (sfpi_bitmap st) p"
    and "\<forall>p \<in> set ps. 0 \<le> seen pres pmap p"
  shows "presence_loop B S ps dst st =
    (0, foldl (\<lambda>d p. if seen pres pmap p > 0 then bm_set B d p else d) dst ps, st)"
  using assms(2,3)
  by (induction ps arbitrary: dst) (simp_all add: is_present_static [OF assms(1)])

lemma presence_loop_error:
  assumes "static_presence S pres pmap" and "\<forall>p \<in> set (xs @ p # ys). bm_get B (sfpi_bitmap st) p"
    and "\<forall>q \<in> set xs. 0 \<le> seen pres pmap q" and "seen pres pmap p < 0"
  shows "fst (presence_loop B S (xs @ p # ys) dst st) = seen pres pmap p"
  using assms(2-4)
  by (induction xs arbitrary: dst) (simp_all add: is_present_static [OF assms(1)])

lemma foldl_set_bits:
  assumes "bitmap_laws B" and "\<forall>p \<in> set ps. p \<in> {0..255}"
  shows "bm_get B (foldl (\<lambda>d p. if f p then bm_set B d p else d) d ps) q \<longleftrightarrow>
    bm_get B d q \<or> (q \<in> set ps \<and> f q)"
  using assms(2)
proof (induction ps arbitrary: d)
  case (Cons p ps)
  then show ?case using assms(1) by (auto simp: bitmap_laws_def)
qed simp

section \<open>A concrete bitmap for the witnesses\<close>

definition list_bitmap :: "int list bitmap_ops" where
  "list_bitmap = \<lparr>bm_init = [], bm_clr_all = (\<lambda>_. []), bm_get = (\<lambda>b p. p \<in> set b),
     bm_set = (\<lambda>b p. List.insert p b),
     bm_iter = (\<lambda>b. sorted_list_of_set {p \<in> set b. p \<in> {0..255}}),
     bm_count = (\<lambda>b. length (sorted_list_of_set {p \<in> set b. p \<in> {0..255}}))\<rparr>"

lemma list_bitmap_laws: "bitmap_laws list_bitmap"
  by (auto simp: bitmap_laws_def list_bitmap_def)

definition demo_sfpi :: "(int list, unit, unit) sfpi" where
  "demo_sfpi = default_sfpi\<lparr>onlp_sfpi_is_present := \<lambda>p w. (if p = 7 then 1 else 0, w),
     onlp_sfpi_port_map := \<lambda>p j w. (-1, j, w)\<rparr>"

definition demo_sfp_state :: "(int list, unit) sfp_state" where
  "demo_sfp_state = \<lparr>sfpi_bitmap = [5, 7], hw = ()\<rparr>"

lemma demo_static: "static_presence demo_sfpi (\<lambda>p. if p = 7 then 1 else 0) (\<lambda>_. None)"
  by (simp add: static_presence_def demo_sfpi_def)

section \<open>Properties\<close>

text \<open>
  A call on a port the driver did not report at start fails with -1, stores nothing and does not
  reach the driver, for every per-port operation.
\<close>

theorem sfp_invalid_port_rejected:
  assumes "\<not> bm_get B (sfpi_bitmap st) port"
  shows "onlp_sfp_is_present_locked B S port st = (-1, st) \<and>
    onlp_sfp_eeprom_read_locked B S port datap st = (-1, datap, st) \<and>
    onlp_sfp_dom_read_locked B S port datap st = (-1, datap, st) \<and>
    onlp_sfp_post_insert_locked B S port info st = (-1, st) \<and>
    onlp_sfp_control_set_locked B S port control v st = (-1, st) \<and>
    onlp_sfp_control_get_locked B S port control vp st = (-1, vp, st) \<and>
    onlp_sfp_dev_readb_locked B S port devaddr addr st = (-1, st) \<and>
    onlp_sfp_dev_writeb_locked B S port devaddr addr vb st = (-1, st) \<and>
    onlp_sfp_dev_readw_locked B S port devaddr addr st = (-1, st) \<and>
    onlp_sfp_dev_writew_locked B S port devaddr addr vw st = (-1, st) \<and>
    onlp_sfp_dev_read_locked B S port devaddr addr rdata sz st = (-1, rdata, st) \<and>
    onlp_sfp_dev_write_locked B S port devaddr addr rdata sz st = (-1, st)"
  by (simp add: validate_invalid [OF assms] onlp_sfp_is_present_locked_def onlp_sfp_eeprom_read_locked_def onlp_sfp_dom_read_locked_def
      onlp_sfp_post_insert_locked_def onlp_sfp_control_set_locked_def onlp_sfp_control_get_locked_def
      onlp_sfp_dev_readb_locked_def onlp_sfp_dev_writeb_locked_def onlp_sfp_dev_readw_locked_def
      onlp_sfp_dev_writew_locked_def onlp_sfp_dev_read_locked_def onlp_sfp_dev_write_locked_def
      on_port_def read_256_def)

theorem sfp_invalid_port_rejected_witness:
  "onlp_sfp_is_present_locked list_bitmap demo_sfpi 6 demo_sfp_state = (-1, demo_sfp_state)"
  using sfp_invalid_port_rejected [of list_bitmap demo_sfp_state 6 demo_sfpi]
  by (simp add: list_bitmap_def demo_sfp_state_def)

text \<open>
  C13: on a driver without a presence bitmap, whose ports do not change while they are read,
  \<open>onlp_sfp_presence_bitmap_get\<close> builds exactly the bitmap of the valid ports that are present,
  and leaves the state alone; if reading a port fails, the status of the first failing port
  is returned.
\<close>

theorem sfp_presence_bitmap_emulated:
  assumes B: "bitmap_laws B" and s: "static_presence S pres pmap"
    and u: "\<And>b w. onlp_sfpi_presence_bitmap_get S b w = (ONLP_STATUS_E_UNSUPPORTED, b, w)"
  shows "((\<forall>p \<in> set (bm_iter B (sfpi_bitmap st)). 0 \<le> seen pres pmap p) \<longrightarrow>
      (\<exists>bm. onlp_sfp_presence_bitmap_get_locked B S dst st = (0, bm, st) \<and>
        (\<forall>q. bm_get B bm q \<longleftrightarrow> q \<in> {0..255} \<and> bm_get B (sfpi_bitmap st) q \<and> 0 < seen pres pmap q))) \<and>
    (\<forall>xs p ys. bm_iter B (sfpi_bitmap st) = xs @ p # ys \<longrightarrow> (\<forall>q \<in> set xs. 0 \<le> seen pres pmap q) \<longrightarrow>
      seen pres pmap p < 0 \<longrightarrow>
      fst (onlp_sfp_presence_bitmap_get_locked B S dst st) = seen pres pmap p)"
proof -
  let ?ps = "bm_iter B (sfpi_bitmap st)"
  have eq: "onlp_sfp_presence_bitmap_get_locked B S dst st =
      presence_loop B S ?ps (bm_clr_all B (onlp_sfp_bitmap_t_init B)) st"
    by (simp add: onlp_sfp_presence_bitmap_get_locked_def drv2_def u)
  have it: "\<forall>p \<in> set ?ps. bm_get B (sfpi_bitmap st) p" "\<forall>p \<in> set ?ps. p \<in> {0..255}"
    "\<And>p. p \<in> set ?ps \<longleftrightarrow> p \<in> {0..255} \<and> bm_get B (sfpi_bitmap st) p"
    "\<And>b p. \<not> bm_get B (bm_clr_all B b) p"
    using B unfolding bitmap_laws_def by blast+
  have "\<exists>bm. onlp_sfp_presence_bitmap_get_locked B S dst st = (0, bm, st) \<and>
        (\<forall>q. bm_get B bm q \<longleftrightarrow> q \<in> {0..255} \<and> bm_get B (sfpi_bitmap st) q \<and> 0 < seen pres pmap q)"
    if "\<forall>p \<in> set ?ps. 0 \<le> seen pres pmap p"
    using presence_loop_static [OF s it(1) that] foldl_set_bits [OF B it(2)] it(3,4) by (auto simp: eq)
  moreover have "fst (onlp_sfp_presence_bitmap_get_locked B S dst st) = seen pres pmap p"
    if "?ps = xs @ p # ys" "\<forall>q \<in> set xs. 0 \<le> seen pres pmap q" "seen pres pmap p < 0" for xs p ys
    using presence_loop_error [OF s _ that(2,3), of ys B st] it(1) that(1) by (simp add: eq)
  ultimately show ?thesis by blast
qed

theorem sfp_presence_bitmap_emulated_witness:
  "\<exists>bm. onlp_sfp_presence_bitmap_get_locked list_bitmap demo_sfpi [] demo_sfp_state = (0, bm, demo_sfp_state) \<and>
     bm_get list_bitmap bm 7 \<and> \<not> bm_get list_bitmap bm 5"
proof -
  have "\<And>b w. onlp_sfpi_presence_bitmap_get demo_sfpi b w = (ONLP_STATUS_E_UNSUPPORTED, b, w)"
    by (simp add: demo_sfpi_def default_sfpi_def)
  from sfp_presence_bitmap_emulated [OF list_bitmap_laws demo_static this, of demo_sfp_state "[]"]
  obtain bm where "onlp_sfp_presence_bitmap_get_locked list_bitmap demo_sfpi [] demo_sfp_state = (0, bm, demo_sfp_state)"
    "\<And>q. bm_get list_bitmap bm q \<longleftrightarrow> q \<in> {0..255} \<and> bm_get list_bitmap (sfpi_bitmap demo_sfp_state) q \<and>
      0 < seen (\<lambda>p. if p = 7 then 1 else 0) (\<lambda>_. None) q"
    by (auto simp: seen_def)
  then show ?thesis by (auto simp: list_bitmap_def demo_sfp_state_def seen_def)
qed

text \<open>
  A control reaches the driver only when the control number is valid, the driver does not
  declare it unsupported, and its direction allows it: loss of signal and transmit fault are
  never written, the reset is never read.
\<close>

theorem sfp_control_guarded:
  "(\<not> ONLP_SFP_CONTROL_VALID c \<or> c = 2 \<or> c = 3 \<or>
      (\<forall>p j w. fst (onlp_sfpi_control_supported S p c j w) \<ge> 0 \<and> fst (snd (onlp_sfpi_control_supported S p c j w)) = 0)
      \<longrightarrow> onlp_sfp_control_set_locked B (S\<lparr>onlp_sfpi_control_set := f\<rparr>) port c v st =
          onlp_sfp_control_set_locked B S port c v st) \<and>
   (\<not> ONLP_SFP_CONTROL_VALID c \<or> c = 0 \<or> vp = None \<or>
      (\<forall>p j w. fst (onlp_sfpi_control_supported S p c j w) \<ge> 0 \<and> fst (snd (onlp_sfpi_control_supported S p c j w)) = 0)
      \<longrightarrow> onlp_sfp_control_get_locked B (S\<lparr>onlp_sfpi_control_get := g\<rparr>) port c vp st =
          onlp_sfp_control_get_locked B S port c vp st)"
proof -
  have v: "ONLP_SFP_PORT_VALIDATE_AND_MAP B (S\<lparr>onlp_sfpi_control_set := f\<rparr>) port st =
      ONLP_SFP_PORT_VALIDATE_AND_MAP B S port st"
    "ONLP_SFP_PORT_VALIDATE_AND_MAP B (S\<lparr>onlp_sfpi_control_get := g\<rparr>) port st =
      ONLP_SFP_PORT_VALIDATE_AND_MAP B S port st"
    "\<And>p st. control_unsupported (S\<lparr>onlp_sfpi_control_set := f\<rparr>) p c st = control_unsupported S p c st"
    "\<And>p st. control_unsupported (S\<lparr>onlp_sfpi_control_get := g\<rparr>) p c st = control_unsupported S p c st"
    by (simp_all add: ONLP_SFP_PORT_VALIDATE_AND_MAP_def control_unsupported_def)
  have u: "fst (control_unsupported S p c st)"
    if "\<forall>p j w. fst (onlp_sfpi_control_supported S p c j w) \<ge> 0 \<and>
      fst (snd (onlp_sfpi_control_supported S p c j w)) = 0" for p st
    using that by (auto simp: control_unsupported_def drv2_def split: prod.splits)
      (metis fst_conv snd_conv)+
  show ?thesis
  proof (intro conjI impI)
    assume a: "\<not> ONLP_SFP_CONTROL_VALID c \<or> c = 2 \<or> c = 3 \<or>
      (\<forall>p j w. fst (onlp_sfpi_control_supported S p c j w) \<ge> 0 \<and> fst (snd (onlp_sfpi_control_supported S p c j w)) = 0)"
    then show "onlp_sfp_control_set_locked B (S\<lparr>onlp_sfpi_control_set := f\<rparr>) port c v st =
          onlp_sfp_control_set_locked B S port c v st"
      using u by (auto simp: onlp_sfp_control_set_locked_def v Let_def split: option.splits prod.splits)
        (metis fst_conv)
  next
    assume a: "\<not> ONLP_SFP_CONTROL_VALID c \<or> c = 0 \<or> vp = None \<or>
      (\<forall>p j w. fst (onlp_sfpi_control_supported S p c j w) \<ge> 0 \<and> fst (snd (onlp_sfpi_control_supported S p c j w)) = 0)"
    then show "onlp_sfp_control_get_locked B (S\<lparr>onlp_sfpi_control_get := g\<rparr>) port c vp st =
          onlp_sfp_control_get_locked B S port c vp st"
      using u by (auto simp: onlp_sfp_control_get_locked_def v Let_def split: option.splits prod.splits)
        (metis fst_conv)+
  qed
qed

theorem sfp_control_guarded_witness:
  "onlp_sfp_control_set_locked list_bitmap (demo_sfpi\<lparr>onlp_sfpi_control_set := \<lambda>p c v w. (0, w)\<rparr>) 7 2 1 demo_sfp_state =
   onlp_sfp_control_set_locked list_bitmap demo_sfpi 7 2 1 demo_sfp_state"
  using sfp_control_guarded [where c = 2 and S = demo_sfpi and B = list_bitmap and port = 7 and v = 1
      and st = demo_sfp_state and f = "\<lambda>p c v w. (0, w)"]
  by simp

lemma control_flags_loop_bits:
  assumes "control_flags_loop L B S port cs flags v s = Some ((rv, f), s')"
    and "\<forall>c \<in> set cs. 0 \<le> c" and "bit f n"
  shows "bit flags n \<or> int n \<in> set cs"
  using assms
proof (induction cs arbitrary: flags v s)
  case Nil
  then show ?case by simp
next
  case (Cons c cs)
  from Cons.prems(1) obtain rv1 v1 s1 where
    g: "onlp_sfp_control_get L B S port c v s = Some ((rv1, v1), s1)"
    by (cases "onlp_sfp_control_get L B S port c v s") auto
  have p: "bit (push_bit (nat c) (1 :: u32)) n \<Longrightarrow> int n = c"
    using Cons.prems(2) by (auto simp: bit_exp_iff)
  show ?case
  proof (cases "rv1 \<ge> 0")
    case True
    with Cons.prems(1) g have "control_flags_loop L B S port cs
        (if v1 \<noteq> Some 0 then flags OR push_bit (nat c) 1 else flags) v1 s1 = Some ((rv, f), s')"
      by simp
    from Cons.IH [OF this] Cons.prems(2,3) p show ?thesis
      by (auto simp: bit_or_iff split: if_splits)
  next
    case False
    show ?thesis
    proof (cases "rv1 = ONLP_STATUS_E_UNSUPPORTED")
      case True
      with False Cons.prems(1) g have "control_flags_loop L B S port cs flags v1 s1 = Some ((rv, f), s')"
        by simp
      from Cons.IH [OF this] Cons.prems(2,3) show ?thesis by auto
    next
      case neq: False
      with False Cons.prems g show ?thesis by simp
    qed
  qed
qed

text \<open>
  \<open>onlp_sfp_control_flags_get\<close> asks for four controls only, so the word it returns never has
  another bit: in particular never the transmit-fault bit that the inventory listing prints.
\<close>

theorem sfp_control_flags_bits:
  assumes "onlp_sfp_control_flags_get L B S port (Some x) s = Some ((rv, Some f), s')" and "bit f n"
  shows "n \<in> {1, 2, 4, 6}"
proof -
  from assms(1) have "control_flags_loop L B S port queried_controls 0 (Some (sfp_junk S (hw (snd s)))) s
      = Some ((rv, f), s')"
    by (auto simp: onlp_sfp_control_flags_get_def bind_eq_Some_conv)
  from control_flags_loop_bits [OF this _ assms(2)] show ?thesis
    by (auto simp: queried_controls_def)
qed

definition demo_ctl :: "(int list, unit, unit) sfpi" where
  "demo_ctl = demo_sfpi\<lparr>onlp_sfpi_control_get := \<lambda>p c v w. (0, if c = 2 then 1 else 0, w)\<rparr>"

lemma demo_ctl_get:
  assumes "c = 1 \<or> c = 2 \<or> c = 4 \<or> c = 6"
  shows "onlp_sfp_control_get sem_alock list_bitmap demo_ctl 7 c (Some v) (\<lparr>api_sem = 1, api_owner = ow\<rparr>, demo_sfp_state)
    = Some ((0, Some (if c = 2 then 1 else 0)),
        \<lparr>api_sem = 1, api_owner = Some ''onlp_sfp_control_get''\<rparr>, demo_sfp_state)"
proof -
  have "ONLP_SFP_PORT_VALIDATE_AND_MAP list_bitmap demo_ctl 7 demo_sfp_state = (Some 7, demo_sfp_state)"
    by (simp add: ONLP_SFP_PORT_VALIDATE_AND_MAP_def list_bitmap_def demo_sfp_state_def drv2_def demo_ctl_def
        demo_sfpi_def)
  moreover have "control_unsupported demo_ctl 7 c demo_sfp_state = (False, demo_sfp_state)"
    by (simp add: control_unsupported_def drv2_def demo_ctl_def demo_sfpi_def default_sfpi_def demo_sfp_state_def)
  moreover have "drv2 (onlp_sfpi_control_get demo_ctl 7 c v) demo_sfp_state = (0, if c = 2 then 1 else 0, demo_sfp_state)"
    by (simp add: drv2_def demo_ctl_def demo_sfp_state_def)
  ultimately have "onlp_sfp_control_get_locked list_bitmap demo_ctl 7 c (Some v) demo_sfp_state =
      (0, Some (if c = 2 then 1 else 0), demo_sfp_state)"
    using assms by (auto simp: onlp_sfp_control_get_locked_def ONLP_SFP_CONTROL_VALID_def)
  then show ?thesis
    by (simp add: onlp_sfp_control_get_def locked_api_def ONLP_LOCKED_API_def total2_def sem_alock_def
        sem_api_lock_def sem_api_unlock_def)
qed

lemma demo_loop_step:
  assumes "c = 1 \<or> c = 2 \<or> c = 4 \<or> c = 6"
  shows "control_flags_loop sem_alock list_bitmap demo_ctl 7 (c # cs) flags (Some v)
      (\<lparr>api_sem = 1, api_owner = ow\<rparr>, demo_sfp_state) =
    control_flags_loop sem_alock list_bitmap demo_ctl 7 cs (if c = 2 then flags OR 4 else flags)
      (Some (if c = 2 then 1 else 0))
      (\<lparr>api_sem = 1, api_owner = Some ''onlp_sfp_control_get''\<rparr>, demo_sfp_state)"
  unfolding control_flags_loop.simps demo_ctl_get [OF assms] by simp

theorem sfp_control_flags_bits_witness:
  "\<exists>s'. onlp_sfp_control_flags_get sem_alock list_bitmap demo_ctl 7 (Some 0)
     (sem_api_lock_init, demo_sfp_state) = Some ((0, Some 4), s') \<and> (2 :: nat) \<in> {1, 2, 4, 6}"
proof -
  have l: "control_flags_loop sem_alock list_bitmap demo_ctl 7 [1, 2, 4, 6] 0 (Some v)
      (\<lparr>api_sem = 1, api_owner = None\<rparr>, demo_sfp_state) =
    Some ((0, 4), \<lparr>api_sem = 1, api_owner = Some ''onlp_sfp_control_get''\<rparr>, demo_sfp_state)" for v
    by (rule trans [OF demo_loop_step], simp)+ simp
  have s': "onlp_sfp_control_flags_get sem_alock list_bitmap demo_ctl 7 (Some 0)
     (sem_api_lock_init, demo_sfp_state) = Some ((0, Some 4),
       \<lparr>api_sem = 1, api_owner = Some ''onlp_sfp_control_get''\<rparr>, demo_sfp_state)"
    unfolding onlp_sfp_control_flags_get_def queried_controls_def sem_api_lock_init_def
      ONLP_SFP_CONTROL_RESET_STATE_def ONLP_SFP_CONTROL_RX_LOS_def ONLP_SFP_CONTROL_TX_DISABLE_def
      ONLP_SFP_CONTROL_LP_MODE_def option.case l
    by simp
  have "bit (4 :: u32) 2" by simp
  from sfp_control_flags_bits [OF s' this] s' show ?thesis by blast
qed

text \<open>
  On a driver without either bitmap and a platform without ports, the two emulated calls
  disagree: presence is reported as success, loss of signal as unsupported.
\<close>

theorem sfp_rx_los_no_ports_unsupported:
  assumes "bm_iter B (sfpi_bitmap st) = []"
    and "\<And>b w. onlp_sfpi_presence_bitmap_get S b w = (ONLP_STATUS_E_UNSUPPORTED, b, w)"
    and "\<And>b w. onlp_sfpi_rx_los_bitmap_get S b w = (ONLP_STATUS_E_UNSUPPORTED, b, w)"
  shows "fst (onlp_sfp_presence_bitmap_get_locked B S dst st) = 0 \<and>
    fst (onlp_sfp_rx_los_bitmap_get_locked B S dst st) = ONLP_STATUS_E_UNSUPPORTED"
  using assms
  by (simp add: onlp_sfp_presence_bitmap_get_locked_def onlp_sfp_rx_los_bitmap_get_locked_def drv2_def)

theorem sfp_rx_los_no_ports_unsupported_witness:
  "fst (onlp_sfp_rx_los_bitmap_get_locked list_bitmap demo_sfpi [] \<lparr>sfpi_bitmap = [], hw = ()\<rparr>) = -10"
  using sfp_rx_los_no_ports_unsupported [of list_bitmap "\<lparr>sfpi_bitmap = [], hw = ()\<rparr>" demo_sfpi "[]"]
  by (simp add: list_bitmap_def demo_sfpi_def default_sfpi_def)

end
