(* ===== verification/Notify.thy ===== *)
theory Notify
  imports Guards
begin

text \<open>
  The first half of \<open>platform_manager.c\<close>: the once-a-second comparison of the status of every power
  supply and fan with the one seen before, and the log lines it writes. A log line is its
  severity, its format and the identifier it is about.
\<close>

datatype severity = ERROR | CRIT | WARN | INFO

type_synonym event = "severity \<times> string"

section \<open>What is logged\<close>

definition psu_initial :: "u32 \<Rightarrow> event list" where
  "psu_initial st =
     only (\<not> has st 1) [(WARN, ''PSU %d is not present.'')] @
     only (has st ONLP_PSU_STATUS_FAILED) [(CRIT, ''PSU %d has failed.'')] @
     only (has st 1 \<and> \<not> has st ONLP_PSU_STATUS_FAILED \<and> has st ONLP_PSU_STATUS_UNPLUGGED)
       [(WARN, ''PSU %d power cord not plugged.'')]"

definition psu_transition :: "u32 \<Rightarrow> u32 \<Rightarrow> event list" where
  "psu_transition old new =
     only (\<not> has old 1 \<and> has new 1) [(INFO, ''PSU %d has been inserted.'')] @
     only (has old 1 \<and> \<not> has new 1) [(WARN, ''PSU %d has been removed.'')] @
     only (has new 1 \<and> has old ONLP_PSU_STATUS_FAILED \<and> \<not> has new ONLP_PSU_STATUS_FAILED)
       [(INFO, ''PSU %d has recovered.'')] @
     only (\<not> has old ONLP_PSU_STATUS_FAILED \<and> has new ONLP_PSU_STATUS_FAILED)
       [(CRIT, ''PSU %d has failed.'')] @
     only (\<not> has new ONLP_PSU_STATUS_FAILED \<and> has new ONLP_PSU_STATUS_PRESENT)
       (only (has old ONLP_PSU_STATUS_UNPLUGGED \<and> \<not> has new ONLP_PSU_STATUS_UNPLUGGED)
          [(INFO, ''PSU %d has been plugged in.'')] @
        only (\<not> has old ONLP_PSU_STATUS_UNPLUGGED \<and> has new ONLP_PSU_STATUS_UNPLUGGED)
          [(WARN, ''PSU %d has been unplugged.'')])"

definition fan_initial :: "u32 \<Rightarrow> event list" where
  "fan_initial st =
     only (\<not> has st 1) [(WARN, ''Fan %d is not present.'')] @
     only (has st ONLP_FAN_STATUS_FAILED) [(CRIT, ''Fan %d has failed.'')]"

definition fan_transition :: "u32 \<Rightarrow> u32 \<Rightarrow> event list" where
  "fan_transition old new =
     only (\<not> has old 1 \<and> has new 1) [(INFO, ''Fan %d has been inserted.'')] @
     only (has old 1 \<and> \<not> has new 1) [(WARN, ''Fan %d has been removed.'')] @
     only (has old ONLP_FAN_STATUS_FAILED \<and> \<not> has new ONLP_FAN_STATUS_FAILED)
       [(INFO, ''Fan %d has recovered.'')] @
     only (\<not> has old ONLP_FAN_STATUS_FAILED \<and> has new ONLP_FAN_STATUS_FAILED)
       [(CRIT, ''Fan %d has failed.'')]"

section \<open>One poll\<close>

record 'i monitor =
  mn_class :: oid_type
  mn_status :: "'i \<Rightarrow> u32"
  mn_initial :: "u32 \<Rightarrow> event list"
  mn_transition :: "u32 \<Rightarrow> u32 \<Rightarrow> event list"
  mn_failure :: string

definition psu_monitor :: "psu_info monitor" where
  "psu_monitor = \<lparr>mn_class = PSU, mn_status = pi_status, mn_initial = psu_initial,
     mn_transition = psu_transition, mn_failure = ''Failure retreiving status of PSU ID %d''\<rparr>"

definition fan_monitor :: "fan_info monitor" where
  "fan_monitor = \<lparr>mn_class = FAN, mn_status = fi_status, mn_initial = fan_initial,
     mn_transition = fan_transition, mn_failure = ''Failure retreiving status of FAN ID %d''\<rparr>"

text \<open>
  The body of the loop for one entry: the stored structure and whether the initial state was
  reported, given the result of the information call.
\<close>

definition notify_slot :: "'i monitor \<Rightarrow> int \<times> 'i \<Rightarrow> 'i \<times> bool \<Rightarrow> event list \<times> 'i \<times> bool" where
  "notify_slot M reading slot =
     (let (rv, new) = reading; (old, reported) = slot in
      if rv < 0 then ([(ERROR, mn_failure M)], old, reported)
      else
        (let first = (if reported then [] else mn_initial M (mn_status M new)) in
         if mn_status M new \<noteq> mn_status M old
         then (first @ mn_transition M (mn_status M old) (mn_status M new), new, True)
         else (first, old, True)))"

text \<open>The static tables of a notification function.\<close>

record 'i notify =
  nt_oids :: "onlp_oid_t list"
  nt_slots :: "('i \<times> bool) list"

text \<open>The loop over the table; it ends at the first unused entry.\<close>

fun notify_loop ::
  "'i monitor \<Rightarrow> (onlp_oid_t \<Rightarrow> 's \<Rightarrow> ((int \<times> 'i) \<times> 's) option) \<Rightarrow> onlp_oid_t list \<Rightarrow> ('i \<times> bool) list \<Rightarrow> 's
     \<Rightarrow> ((event \<times> u32) list \<times> ('i \<times> bool) list \<times> 's) option" where
  "notify_loop M get (oid # oids) (slot # slots) s =
     (if oid = 0 then Some ([], slot # slots, s)
      else
        do { (reading, s1) \<leftarrow> get oid s;
             let (ev, slot1) = notify_slot M reading slot;
             (evs, slots1, s2) \<leftarrow> notify_loop M get oids slots s1;
             Some (map (\<lambda>e. (e, ONLP_OID_ID_GET oid)) ev @ evs, slot1 # slots1, s2) })"
| "notify_loop M get _ slots s = Some ([], slots, s)"

text \<open>Filling the table from the children of the system on the first poll.\<close>

definition notify_fill :: "'i monitor \<Rightarrow> onlp_oid_t list \<Rightarrow> onlp_oid_t list \<Rightarrow> onlp_oid_t list" where
  "notify_fill M coids table =
     (let found = ONLP_OID_TABLE_ITER_TYPE coids (mn_class M) in found @ drop (length found) table)"

definition platform_notify ::
  "'i monitor \<Rightarrow> (onlp_oid_t \<Rightarrow> 'l \<times> 'w \<Rightarrow> ((int \<times> 'i) \<times> 'l \<times> 'w) option) \<Rightarrow> 'l alock \<Rightarrow> 'w platform
     \<Rightarrow> 'i notify \<Rightarrow> 'l \<times> 'w \<Rightarrow> (int \<times> (event \<times> u32) list \<times> 'i notify \<times> 'l \<times> 'w) option" where
  "platform_notify M get L P nt s =
     do { (rv, table, s1) \<leftarrow>
            (if nt_oids nt ! 0 = 0 then
               do { ((rv, si), s1) \<leftarrow> onlp_sys_info_get L P (Some sys_info_zero) s;
                    (case si of
                       None \<Rightarrow> Some (-1 :: int, nt_oids nt, s1)
                     | Some si \<Rightarrow>
                         if rv < 0 then Some (-1, nt_oids nt, s1)
                         else Some (0, notify_fill M (oid_coids (si_hdr si)) (nt_oids nt),
                                    fst s1, onlp_sys_info_free P si (snd s1))) }
             else Some (0, nt_oids nt, s));
          if rv < 0 then Some (-1, [((ERROR, ''onlp_sys_info_get() failed.''), 0)], nt, s1)
          else
            do { (evs, slots, s2) \<leftarrow> notify_loop M get table (nt_slots nt) s1;
                 Some (0, evs, \<lparr>nt_oids = table, nt_slots = slots\<rparr>, s2) } }"

definition psu_info_zero :: psu_info where
  "psu_info_zero = \<lparr>pi_hdr = oid_hdr_zero, pi_model = [], pi_serial = [], pi_status = 0, pi_caps = 0,
     pi_mvin = 0, pi_mvout = 0, pi_miin = 0, pi_miout = 0, pi_mpin = 0, pi_mpout = 0\<rparr>"

definition fan_info_zero :: fan_info where
  "fan_info_zero = \<lparr>fi_hdr = oid_hdr_zero, fi_status = 0, fi_caps = 0, fi_rpm = 0, fi_percentage = 0,
     fi_mode = 0, fi_model = [], fi_serial = []\<rparr>"

definition notify_zero :: "'i \<Rightarrow> 'i notify" where
  "notify_zero z = \<lparr>nt_oids = replicate ONLP_OID_TABLE_SIZE 0,
     nt_slots = replicate ONLP_OID_TABLE_SIZE (z, False)\<rparr>"

definition platform_psus_notify ::
  "'l alock \<Rightarrow> 'w platform \<Rightarrow> psu_info notify \<Rightarrow> 'l \<times> 'w
     \<Rightarrow> (int \<times> (event \<times> u32) list \<times> psu_info notify \<times> 'l \<times> 'w) option" where
  "platform_psus_notify L P nt s =
     platform_notify psu_monitor (\<lambda>oid s. onlp_psu_info_get L P oid (junk_psu (uninit P) (snd s)) s) L P nt s"

definition platform_fans_notify ::
  "'l alock \<Rightarrow> 'w platform \<Rightarrow> fan_info notify \<Rightarrow> 'l \<times> 'w
     \<Rightarrow> (int \<times> (event \<times> u32) list \<times> fan_info notify \<times> 'l \<times> 'w) option" where
  "platform_fans_notify L P nt s =
     platform_notify fan_monitor (\<lambda>oid s. onlp_fan_info_get L P oid (junk_fan (uninit P) (snd s)) s) L P nt s"

section \<open>One entry over many polls\<close>

text \<open>The lines logged for one entry by a sequence of readings, and what is stored after it.\<close>

fun run_slot :: "'i monitor \<Rightarrow> (int \<times> 'i) list \<Rightarrow> 'i \<times> bool \<Rightarrow> event list \<times> 'i \<times> bool" where
  "run_slot M [] slot = ([], slot)"
| "run_slot M (r # rs) slot =
     (let (ev, slot1) = notify_slot M r slot; (evs, slot2) = run_slot M rs slot1 in (ev @ evs, slot2))"

lemma last_step: "last (a # b # xs) = last (b # xs)"
  by simp

lemma run_slot_Cons:
  "fst (run_slot M (r # rs) slot) = fst (notify_slot M r slot) @ fst (run_slot M rs (snd (notify_slot M r slot)))"
  "snd (run_slot M (r # rs) slot) = snd (run_slot M rs (snd (notify_slot M r slot)))"
  by (simp_all split: prod.splits)

text \<open>The statuses of the successful readings, and the lines their changes should give.\<close>

fun good_statuses :: "'i monitor \<Rightarrow> (int \<times> 'i) list \<Rightarrow> u32 list" where
  "good_statuses M [] = []"
| "good_statuses M ((rv, i) # rs) =
     (if 0 \<le> rv then mn_status M i # good_statuses M rs else good_statuses M rs)"

fun transitions :: "'i monitor \<Rightarrow> u32 \<Rightarrow> u32 list \<Rightarrow> event list" where
  "transitions M st [] = []"
| "transitions M st (st' # sts) = mn_transition M st st' @ transitions M st' sts"

definition expected_lines :: "'i monitor \<Rightarrow> (int \<times> 'i) list \<Rightarrow> event list" where
  "expected_lines M rs =
     (case good_statuses M rs of [] \<Rightarrow> [] | st # _ \<Rightarrow> mn_initial M st) @ transitions M 0 (good_statuses M rs)"

definition not_failure :: "'i monitor \<Rightarrow> event \<Rightarrow> bool" where
  "not_failure M e \<longleftrightarrow> e \<noteq> (ERROR, mn_failure M)"

lemma not_failure_error [simp]: "\<not> not_failure M (ERROR, mn_failure M)"
  by (simp add: not_failure_def)

text \<open>
  The contract of a monitor: a status that does not change is not worth a line. \<open>up\<close> and \<open>down\<close> are
  the lines for the rise and the fall of one status bit.
\<close>

locale status_monitor =
  fixes M :: "'i monitor"
  assumes quiet: "mn_transition M a a = []"
begin

lemma slot_ok:
  "0 \<le> rv \<Longrightarrow> notify_slot M (rv, new) (old, rep) =
    ((if rep then [] else mn_initial M (mn_status M new)) @ mn_transition M (mn_status M old) (mn_status M new),
     (if mn_status M new \<noteq> mn_status M old then new else old), True)"
  by (auto simp: notify_slot_def quiet)

lemma slot_failed: "rv < 0 \<Longrightarrow> notify_slot M (rv, new) slot = ([(ERROR, mn_failure M)], slot)"
  by (simp add: notify_slot_def split: prod.splits)

lemma run_slot_reported:
  "filter (not_failure M) (fst (run_slot M rs (old, True))) =
     filter (not_failure M) (transitions M (mn_status M old) (good_statuses M rs)) \<and>
   mn_status M (fst (snd (run_slot M rs (old, True)))) = last (mn_status M old # good_statuses M rs) \<and>
   snd (snd (run_slot M rs (old, True)))"
proof (induction rs arbitrary: old)
  case Nil
  then show ?case by simp
next
  case (Cons r rs)
  obtain rv new where r: "r = (rv, new)" by fastforce
  let ?n = "if mn_status M new \<noteq> mn_status M old then new else old"
  have st: "mn_status M ?n = mn_status M new" by simp
  show ?case
    using Cons.IH [of ?n] Cons.IH [of old] unfolding r run_slot_Cons st
    by (cases "0 \<le> rv") (simp_all add: slot_ok slot_failed last_step del: run_slot.simps last.simps)
qed

text \<open>From a fresh entry: nothing but failures, or the initial report and then every change.\<close>

lemma run_slot_fresh:
  "filter (not_failure M) (fst (run_slot M rs (z, False))) =
     filter (not_failure M)
       ((case good_statuses M rs of [] \<Rightarrow> [] | st # _ \<Rightarrow> mn_initial M st) @
        transitions M (mn_status M z) (good_statuses M rs)) \<and>
   mn_status M (fst (snd (run_slot M rs (z, False)))) = last (mn_status M z # good_statuses M rs)"
proof (induction rs)
  case Nil
  then show ?case by simp
next
  case (Cons r rs)
  obtain rv new where r: "r = (rv, new)" by fastforce
  let ?n = "if mn_status M new \<noteq> mn_status M z then new else z"
  have st: "mn_status M ?n = mn_status M new" by simp
  show ?case
    using Cons.IH run_slot_reported [of rs ?n] unfolding r run_slot_Cons st
    by (cases "0 \<le> rv") (simp_all add: slot_ok slot_failed last_step del: run_slot.simps last.simps)
qed

end

locale tracked_bit = status_monitor M for M :: "'i monitor" +
  fixes up down :: event and k :: nat
  assumes rise: "count_list (mn_transition M old new) up = (if \<not> bit old k \<and> bit new k then 1 else 0)"
    and fall: "count_list (mn_transition M old new) down = (if bit old k \<and> \<not> bit new k then 1 else 0)"
    and lines: "up \<noteq> (ERROR, mn_failure M)" "down \<noteq> (ERROR, mn_failure M)"
    and no_fall: "count_list (mn_initial M st) down = 0"
begin

lemma transitions_count:
  "int (count_list (transitions M st sts) up) - int (count_list (transitions M st sts) down) =
   of_bool (bit (last (st # sts)) k) - of_bool (bit st k)"
proof (induction sts arbitrary: st)
  case (Cons a sts)
  show ?case using Cons.IH [of a]
    by (cases "bit a k"; cases "bit st k") (simp_all add: rise fall last_step del: last.simps)
qed simp

lemma count_list_filter: "P x \<Longrightarrow> count_list (filter P xs) x = count_list xs x"
  by (induction xs) auto

text \<open>Rises minus falls is the bit last seen, apart from what the initial report said.\<close>

lemma run_count:
  assumes "\<not> bit (mn_status M z) k"
  shows "int (count_list (fst (run_slot M rs (z, False))) up) -
    int (count_list (fst (run_slot M rs (z, False))) down) =
    of_bool (bit (mn_status M (fst (snd (run_slot M rs (z, False))))) k) +
    (case good_statuses M rs of [] \<Rightarrow> 0 | st # _ \<Rightarrow> int (count_list (mn_initial M st) up))"
proof -
  let ?e = "fst (run_slot M rs (z, False))"
  let ?P = "not_failure M"
  let ?i = "case good_statuses M rs of [] \<Rightarrow> [] | st # _ \<Rightarrow> mn_initial M st"
  let ?t = "transitions M (mn_status M z) (good_statuses M rs)"
  have f: "filter ?P ?e = filter ?P (?i @ ?t)"
    and l: "mn_status M (fst (snd (run_slot M rs (z, False)))) = last (mn_status M z # good_statuses M rs)"
    using run_slot_fresh [of rs z] by blast+
  have u: "count_list ?e x = count_list ?i x + count_list ?t x" if "?P x" for x
    using arg_cong [OF f, of "\<lambda>es. count_list es x"] count_list_filter [of ?P x] that by simp
  have "count_list ?i down = 0" by (simp add: no_fall split: list.splits)
  then show ?thesis
    using u [of up] u [of down] lines transitions_count [of "mn_status M z" "good_statuses M rs"] assms l
    by (cases "good_statuses M rs") (auto simp: not_failure_def)
qed

end

section \<open>The two monitors\<close>

lemma count_only: "count_list (only b [x]) y = (if b \<and> x = y then 1 else 0)"
  unfolding only_def by (cases b) auto

lemma only_append:
  "only b [] = []" "only False xs = []" "only b (x @ y) = only b x @ only b y"
  "only a (only b xs) = only (a \<and> b) xs"
  by (simp_all add: only_def)

lemma status_bits:
  "has st (1 :: u32) \<longleftrightarrow> bit st 0" "has st ONLP_PSU_STATUS_FAILED \<longleftrightarrow> bit st 1"
  "has st ONLP_PSU_STATUS_UNPLUGGED \<longleftrightarrow> bit st 2" "has st ONLP_PSU_STATUS_PRESENT \<longleftrightarrow> bit st 0"
  "has st ONLP_FAN_STATUS_FAILED \<longleftrightarrow> bit st 1"
proof -
  show "has st (1 :: u32) \<longleftrightarrow> bit st 0" using has_power [of st 0] by simp
qed (simp_all only: flag_defs has_power)

lemma monitor_fields [simp]:
  "mn_class psu_monitor = PSU" "mn_status psu_monitor = pi_status" "mn_initial psu_monitor = psu_initial"
  "mn_transition psu_monitor = psu_transition" "mn_class fan_monitor = FAN" "mn_status fan_monitor = fi_status"
  "mn_initial fan_monitor = fan_initial" "mn_transition fan_monitor = fan_transition"
  by (simp_all add: psu_monitor_def fan_monitor_def)

interpretation psu_presence: tracked_bit psu_monitor
  "(INFO, ''PSU %d has been inserted.'')" "(WARN, ''PSU %d has been removed.'')" 0
  by unfold_locales
    (simp_all add: psu_transition_def psu_initial_def only_append count_only status_bits)

interpretation fan_presence: tracked_bit fan_monitor
  "(INFO, ''Fan %d has been inserted.'')" "(WARN, ''Fan %d has been removed.'')" 0
  by unfold_locales
    (simp_all add: fan_transition_def fan_initial_def only_append count_only status_bits)

interpretation fan_failure: tracked_bit fan_monitor
  "(CRIT, ''Fan %d has failed.'')" "(INFO, ''Fan %d has recovered.'')" 1
  by unfold_locales
    (simp_all add: fan_transition_def fan_initial_def only_append count_only status_bits)

section \<open>Whole polls\<close>

lemma sys_info_body_total:
  assumes "onie_readable P"
  shows "\<exists>si w'. onlp_sys_info_get_locked P (Some i) w = Some ((0, Some si), w')"
proof -
  obtain onie w1 where "sys_onie_info P w = Some (onie, w1)"
    using sys_onie_info_total [OF assms, of w] by auto
  moreover obtain rv t w2 where
    "onlp_sysi_oids_get (sys_drv P) (oid_coids (si_hdr sys_info_zero)) 128 w1 = (rv, t, w2)"
    using prod_cases3 by blast
  moreover obtain rv' p w3 where
    "onlp_sysi_platform_info_get (sys_drv P) (si_platform sys_info_zero) w2 = (rv', p, w3)"
    using prod_cases3 by blast
  ultimately show ?thesis by (simp add: onlp_sys_info_get_locked_def)
qed

context api_lock
begin

lemma notify_loop_returns:
  assumes get: "\<forall>oid s. good s \<longrightarrow> (\<exists>r s'. get oid s = Some (r, s') \<and> good s')" and "good s"
  shows "\<exists>evs slots' s'. notify_loop M get oids slots s = Some (evs, slots', s') \<and> good s' \<and>
    length slots' = length slots \<and> (\<forall>e \<in> set evs. \<exists>oid \<in> set oids. snd e = ONLP_OID_ID_GET oid)"
  using assms(2)
proof (induction oids arbitrary: slots s)
  case Nil
  then show ?case by simp
next
  case (Cons oid oids)
  show ?case
  proof (cases slots)
    case Nil
    with Cons.prems show ?thesis by simp
  next
    case (Cons slot slots1)
    show ?thesis
    proof (cases "oid = 0")
      case True
      with Cons \<open>good s\<close> show ?thesis by simp
    next
      case False
      obtain r s1 where g: "get oid s = Some (r, s1)" "good s1" using get Cons.prems by blast
      obtain ev slot1 where n: "notify_slot M r slot = (ev, slot1)"
        by (cases "notify_slot M r slot")
      from Cons.IH [OF g(2), of slots1] obtain evs slots2 s2 where
        "notify_loop M get oids slots1 s1 = Some (evs, slots2, s2)" "good s2" "length slots2 = length slots1"
        "\<forall>e \<in> set evs. \<exists>oid \<in> set oids. snd e = ONLP_OID_ID_GET oid" by blast
      with g n False Cons show ?thesis by (auto simp: Let_def)
    qed
  qed
qed

lemma info_get_returns:
  assumes "L = \<lparr>al_lock = lck, al_unlock = unl\<rparr>"
  shows "\<forall>oid s. good s \<longrightarrow> (\<exists>r s'. onlp_psu_info_get L P oid (x s) s = Some (r, s') \<and> good s')"
    and "\<forall>oid s. good s \<longrightarrow> (\<exists>r s'. onlp_fan_info_get L P oid (y s) s = Some (r, s') \<and> good s')"
  by (auto simp: onlp_psu_info_get_def onlp_fan_info_get_def locked_total2 [OF _ assms] good_def
      split: prod.splits)

lemma platform_notify_returns:
  assumes L: "L = \<lparr>al_lock = lck, al_unlock = unl\<rparr>" and P: "onie_readable P" and g: "good s"
    and get: "\<forall>oid s. good s \<longrightarrow> (\<exists>r s'. get oid s = Some (r, s') \<and> good s')"
  shows "\<exists>evs nt' s'. platform_notify M get L P nt s = Some (0, evs, nt', s') \<and> good s' \<and>
    length (nt_slots nt') = length (nt_slots nt)"
proof (cases "nt_oids nt ! 0 = 0")
  case False
  from notify_loop_returns [where M = M and oids = "nt_oids nt" and slots = "nt_slots nt", OF get g] False show ?thesis
    by (auto simp: platform_notify_def)
next
  case True
  obtain si w where b: "onlp_sys_info_get_locked P (Some sys_info_zero) (snd s) = Some ((0, Some si), w)"
    using sys_info_body_total [OF P] by blast
  then have i: "onlp_sys_info_get L P (Some sys_info_zero) s =
      Some ((0, Some si), after ''onlp_sys_info_get'' (fst s), w)"
    by (simp add: onlp_sys_info_get_def locked_api_eq [OF g L])
  let ?s1 = "(after ''onlp_sys_info_get'' (fst s), onlp_sys_info_free P si w)"
  have "good ?s1" using g by (simp add: good_def)
  from notify_loop_returns [where M = M and oids = "notify_fill M (oid_coids (si_hdr si)) (nt_oids nt)"
      and slots = "nt_slots nt", OF get this]
    True i show ?thesis by (auto simp: platform_notify_def)
qed

end

section \<open>Properties\<close>


text \<open>
  Insertions and removals are logged in balance: after any sequence of polls the number of
  "inserted" lines minus the number of "removed" lines of a power supply or fan is one if it was
  last seen present and zero otherwise; for fan failures and recoveries the same holds, except
  that a fan found failed at the first successful poll is reported failed once more.
\<close>

theorem notify_counts_balance:
  defines "psu rs \<equiv> run_slot psu_monitor rs (psu_info_zero, False)"
    and "fan qs \<equiv> run_slot fan_monitor qs (fan_info_zero, False)"
  shows "int (count_list (fst (psu prs)) (INFO, ''PSU %d has been inserted.'')) -
      int (count_list (fst (psu prs)) (WARN, ''PSU %d has been removed.'')) =
      of_bool (bit (pi_status (fst (snd (psu prs)))) 0) \<and>
    int (count_list (fst (fan frs)) (INFO, ''Fan %d has been inserted.'')) -
      int (count_list (fst (fan frs)) (WARN, ''Fan %d has been removed.'')) =
      of_bool (bit (fi_status (fst (snd (fan frs)))) 0) \<and>
    int (count_list (fst (fan frs)) (CRIT, ''Fan %d has failed.'')) -
      int (count_list (fst (fan frs)) (INFO, ''Fan %d has recovered.'')) =
      of_bool (bit (fi_status (fst (snd (fan frs)))) 1) +
      (case good_statuses fan_monitor frs of [] \<Rightarrow> 0 | st # _ \<Rightarrow> of_bool (bit st 1))"
proof -
  have "count_list (psu_initial st) (INFO, ''PSU %d has been inserted.'') = 0"
    "count_list (fan_initial st) (INFO, ''Fan %d has been inserted.'') = 0"
    "int (count_list (fan_initial st) (CRIT, ''Fan %d has failed.'')) = of_bool (bit st 1)" for st
    by (simp_all add: psu_initial_def fan_initial_def count_only status_bits)
  then show ?thesis
    unfolding psu_def fan_def
    using psu_presence.run_count [of psu_info_zero prs] fan_presence.run_count [of fan_info_zero frs]
      fan_failure.run_count [of fan_info_zero frs]
    by (auto simp: psu_info_zero_def fan_info_zero_def split: list.splits)
qed

text \<open>
  The first poll reports a failed fan or power supply twice: once as its initial state and once
  as a transition from the zeroed table.
\<close>

theorem notify_first_failure_twice:
  assumes "0 \<le> rv"
  shows "(bit (fi_status fi) 1 \<longrightarrow>
      count_list (fst (notify_slot fan_monitor (rv, fi) (fan_info_zero, False))) (CRIT, ''Fan %d has failed.'') = 2) \<and>
    (bit (pi_status pi) 1 \<longrightarrow>
      count_list (fst (notify_slot psu_monitor (rv, pi) (psu_info_zero, False))) (CRIT, ''PSU %d has failed.'') = 2)"
proof -
  have "fi_status fan_info_zero = 0" "pi_status psu_info_zero = 0"
    by (simp_all add: fan_info_zero_def psu_info_zero_def)
  then show ?thesis
    using assms
    by (simp add: fan_presence.slot_ok psu_presence.slot_ok fan_initial_def fan_transition_def psu_initial_def
        psu_transition_def only_append count_only status_bits)
qed

theorem notify_first_failure_twice_witness:
  "count_list (fst (notify_slot fan_monitor (0, fan_info_zero\<lparr>fi_status := 3\<rparr>) (fan_info_zero, False)))
     (CRIT, ''Fan %d has failed.'') = 2"
proof -
  have "bit (fi_status (fan_info_zero\<lparr>fi_status := 3\<rparr>)) 1" by simp
  with notify_first_failure_twice [of 0 "fan_info_zero\<lparr>fi_status := 3\<rparr>" psu_info_zero] show ?thesis by simp
qed

text \<open>
  With the shared API lock free and readable ONIE data, a poll of the power supplies or of the
  fans always comes back with status 0 and the lock free again, whatever the driver answers.
\<close>

theorem platform_notify_polls_return:
  assumes "sh_free g" and "onie_readable P"
  shows "(\<exists>evs nt' g' w'. platform_psus_notify (shared_alock me) P pnt (g, w) = Some (0, evs, nt', g', w') \<and>
      sh_free g' \<and> length (nt_slots nt') = length (nt_slots pnt)) \<and>
    (\<exists>evs nt' g' w'. platform_fans_notify (shared_alock me) P fnt (g, w) = Some (0, evs, nt', g', w') \<and>
      sh_free g' \<and> length (nt_slots nt') = length (nt_slots fnt))"
proof -
  have L: "shared_alock me = \<lparr>al_lock = sh_api_lock me, al_unlock = sh_api_unlock me\<rparr>"
    by (simp add: shared_alock_def)
  have g: "shl.good (g, w)" using assms(1) by (simp add: shl.good_def)
  show ?thesis
    using shl.platform_notify_returns [where M = psu_monitor and nt = pnt, OF L assms(2) g shl.info_get_returns(1) [OF L]]
      shl.platform_notify_returns [where M = fan_monitor and nt = fnt, OF L assms(2) g shl.info_get_returns(2) [OF L]]
    unfolding platform_psus_notify_def platform_fans_notify_def shl.good_def by fastforce
qed

theorem platform_notify_polls_return_witness:
  "\<exists>evs nt' g' w'. platform_psus_notify (shared_alock 0) (demo_platform [oid_fan1]) (notify_zero psu_info_zero)
      (demo_lock, ()) = Some (0, evs, nt', g', w') \<and> sh_free g' \<and> length (nt_slots nt') = 128"
proof -
  have "sh_free demo_lock" by (simp add: sh_free_def demo_lock_def)
  from platform_notify_polls_return [OF this demo_readable, of 0 "[oid_fan1]" "notify_zero psu_info_zero" "()"]
  show ?thesis by (simp add: notify_zero_def)
qed

end
