(* ===== verification/Manager.thy ===== *)
theory Manager
  imports Notify
begin

text \<open>
  The second half of \<open>platform_manager.c\<close>: the management callbacks on a timer wheel and the thread
  that runs them until it is told to stop through an event file descriptor. The timer wheel is not
  part of the repository; it is a parameter with the laws \<open>wheel_laws\<close>.
\<close>

section \<open>The timer wheel\<close>

text \<open>Entries are the indices of \<open>management_entries\<close>; times are in microseconds.\<close>

record 'tw wheel =
  timer_wheel_create :: "nat \<Rightarrow> 'tw"
  timer_wheel_insert :: "'tw \<Rightarrow> nat \<Rightarrow> nat \<Rightarrow> 'tw"
  timer_wheel_next :: "'tw \<Rightarrow> nat \<Rightarrow> nat option \<times> 'tw"

text \<open>\<open>view\<close> is the deadline of every scheduled entry.\<close>

definition wheel_laws :: "'tw wheel \<Rightarrow> ('tw \<Rightarrow> nat \<Rightarrow> nat option) \<Rightarrow> bool" where
  "wheel_laws W view \<longleftrightarrow>
     (\<forall>now. view (timer_wheel_create W now) = (\<lambda>_. None)) \<and>
     (\<forall>t e d. view (timer_wheel_insert W t e d) = (view t)(e \<mapsto> d)) \<and>
     (\<forall>t now t'. timer_wheel_next W t now = (None, t') \<longrightarrow>
        view t' = view t \<and> (\<forall>e d. view t e = Some d \<longrightarrow> now < d)) \<and>
     (\<forall>t now e t'. timer_wheel_next W t now = (Some e, t') \<longrightarrow>
        (\<exists>d. view t e = Some d \<and> d \<le> now) \<and> view t' = (view t)(e := None))"

section \<open>Management entries\<close>

text \<open>The rates of \<open>management_entries\<close>: chassis fans, LEDs, PSU and fan notification.\<close>

definition management_rates :: "nat list" where
  "management_rates = [10 * 1000 * 1000, 2 * 1000 * 1000, 1 * 1000 * 1000, 1 * 1000 * 1000]"

record ('tw, 's) mctrl =
  tw :: "'tw option"
  calls :: "nat list"
  env :: 's

text \<open>What the manager uses of its surroundings: the clock and the callbacks.\<close>

record 's menv =
  os_time_monotonic :: "'s \<Rightarrow> nat \<times> 's"
  manage_init :: "'s \<Rightarrow> 's"
  manage :: "nat \<Rightarrow> 's \<Rightarrow> 's"

definition onlp_sys_platform_manage_init ::
  "'tw wheel \<Rightarrow> 's menv \<Rightarrow> ('tw, 's) mctrl \<Rightarrow> ('tw, 's) mctrl" where
  "onlp_sys_platform_manage_init W E c =
     (case tw c of
        Some _ \<Rightarrow> c
      | None \<Rightarrow>
          (let (now, s) = os_time_monotonic E (env c);
               s = manage_init E s;
               w = fold (\<lambda>i w. timer_wheel_insert W w i (now + management_rates ! i))
                     [0..<length management_rates] (timer_wheel_create W now) in
           c\<lparr>tw := Some w, env := s\<rparr>))"

text \<open>
  The loop of \<open>onlp_sys_platform_manage_now\<close>: run every expired entry and schedule it again. It
  goes on while entries expire, so it is given fuel; \<open>None\<close>: the fuel ran out.
\<close>

fun manage_loop :: "nat \<Rightarrow> 'tw wheel \<Rightarrow> 's menv \<Rightarrow> 'tw \<Rightarrow> nat list \<Rightarrow> 's \<Rightarrow> ('tw \<times> nat list \<times> 's) option" where
  "manage_loop 0 W E w cs s = None"
| "manage_loop (Suc n) W E w cs s =
     (let (now, s) = os_time_monotonic E s in
      case timer_wheel_next W w now of
        (None, w) \<Rightarrow> Some (w, cs, s)
      | (Some e, w) \<Rightarrow>
          (let s = manage E e s;
               cs = cs[e := cs ! e + 1];
               (now, s) = os_time_monotonic E s in
           manage_loop n W E (timer_wheel_insert W w e (now + management_rates ! e)) cs s))"

definition onlp_sys_platform_manage_now ::
  "nat \<Rightarrow> 'tw wheel \<Rightarrow> 's menv \<Rightarrow> ('tw, 's) mctrl \<Rightarrow> ('tw, 's) mctrl option" where
  "onlp_sys_platform_manage_now n W E c =
     (let c = onlp_sys_platform_manage_init W E c in
      case tw c of
        None \<Rightarrow> None
      | Some w \<Rightarrow>
          map_option (\<lambda>(w, cs, s). c\<lparr>tw := Some w, calls := cs, env := s\<rparr>)
            (manage_loop n W E w (calls c) (env c)))"

text \<open>
  How long the thread sleeps: \<open>twe\<close> is the deadline of the entry \<open>timer_wheel_peek\<close> finds within
  20000000 microseconds.
\<close>

definition peek_window :: nat where "peek_window = 20000000"

definition poll_timeout :: "nat option \<Rightarrow> nat \<Rightarrow> nat \<times> nat" where
  "poll_timeout twe now =
     (case twe of
        None \<Rightarrow> (2, 0)
      | Some deadline \<Rightarrow>
          if deadline > now then ((deadline - now) div 1000000, (deadline - now) mod 1000000) else (0, 0))"

section \<open>The thread\<close>

datatype tstate = NoThread | Looping | Exited

text \<open>\<open>eventfd\<close> is the field of \<open>control__\<close> (zero before the first start), \<open>pending\<close> the event counter.\<close>

record mgr =
  eventfd :: int
  pending :: nat
  thread :: tstate

definition mgr_zero :: mgr where
  "mgr_zero = \<lparr>eventfd = 0, pending = 0, thread = NoThread\<rparr>"

text \<open>\<open>efd\<close> is what \<open>eventfd()\<close> returns, \<open>prc\<close> what \<open>pthread_create\<close> returns.\<close>

definition onlp_sys_platform_manage_start :: "int \<Rightarrow> int \<Rightarrow> mgr \<Rightarrow> int \<times> mgr" where
  "onlp_sys_platform_manage_start efd prc m =
     (if eventfd m > 0 then (0, m)
      else if efd < 0 then (-1, m\<lparr>eventfd := efd\<rparr>)
      else if prc \<noteq> 0 then (-1, m\<lparr>eventfd := -1\<rparr>)
      else (0, m\<lparr>eventfd := efd, pending := 0, thread := Looping\<rparr>))"

definition onlp_sys_platform_manage_stop :: "mgr \<Rightarrow> int \<times> mgr" where
  "onlp_sys_platform_manage_stop m =
     (0, if eventfd m > 0 then m\<lparr>pending := pending m + 1\<rparr> else m)"

text \<open>\<open>onlp_sys_platform_manage_join\<close>: \<open>None\<close> while \<open>pthread_join\<close> waits for a thread that still loops.\<close>

definition onlp_sys_platform_manage_join :: "mgr \<Rightarrow> (int \<times> mgr) option" where
  "onlp_sys_platform_manage_join m =
     (if eventfd m > 0 then
        (if thread m = Looping then None else Some (0, m\<lparr>eventfd := -1\<rparr>))
      else Some (0, m))"

text \<open>One pass of \<open>onlp_sys_platform_manage_thread__\<close> after \<open>select\<close>: terminate, or run the callbacks.\<close>

definition manage_thread_pass :: "mgr \<Rightarrow> mgr" where
  "manage_thread_pass m =
     (if thread m = Looping \<and> pending m > 0 then m\<lparr>eventfd := -1, thread := Exited\<rparr> else m)"

text \<open>
  The caller and the thread interleaved. A blocking start or stop goes on with the join; while the
  caller is inside it the thread moves, and another thread may ask the manager to stop.
\<close>

datatype mpc = Idle | InStart | InJoin

inductive mstep :: "mgr \<times> mpc \<Rightarrow> mgr \<times> mpc \<Rightarrow> bool" where
  start: "efd \<noteq> 0 \<Longrightarrow> mstep (m, Idle) (snd (onlp_sys_platform_manage_start efd prc m), Idle)"
| start_wait: "efd > 0 \<Longrightarrow> eventfd m \<le> 0 \<Longrightarrow>
     mstep (m, Idle) (snd (onlp_sys_platform_manage_start efd 0 m), InStart)"
| stop: "mstep (m, Idle) (snd (onlp_sys_platform_manage_stop m), Idle)"
| stop_wait: "eventfd m > 0 \<Longrightarrow> mstep (m, Idle) (snd (onlp_sys_platform_manage_stop m), InJoin)"
| stop_other: "pc \<noteq> Idle \<Longrightarrow> mstep (m, pc) (snd (onlp_sys_platform_manage_stop m), pc)"
| joined: "pc \<noteq> Idle \<Longrightarrow> thread m \<noteq> Looping \<Longrightarrow> mstep (m, pc) (m\<lparr>eventfd := -1\<rparr>, Idle)"
| thread_pass: "mstep (m, pc) (manage_thread_pass m, pc)"

inductive mreach :: "mgr \<times> mpc \<Rightarrow> bool" where
  zero: "mreach (mgr_zero, Idle)"
| step: "mreach s \<Longrightarrow> mstep s t \<Longrightarrow> mreach t"

text \<open>The descriptor is open exactly while the thread loops, and a waiting caller has signalled.\<close>

definition mgr_inv :: "mgr \<times> mpc \<Rightarrow> bool" where
  "mgr_inv s \<longleftrightarrow> (eventfd (fst s) > 0 \<longleftrightarrow> thread (fst s) = Looping) \<and>
     (snd s = InJoin \<longrightarrow> thread (fst s) = Looping \<longrightarrow> pending (fst s) > 0)"

lemma mgr_inv_step: "mstep s t \<Longrightarrow> mgr_inv s \<Longrightarrow> mgr_inv t"
  by (induction rule: mstep.induct)
    (auto simp: mgr_inv_def onlp_sys_platform_manage_start_def onlp_sys_platform_manage_stop_def
      manage_thread_pass_def)

lemma mgr_inv_reach: "mreach s \<Longrightarrow> mgr_inv s"
  by (induction rule: mreach.induct) (auto simp: mgr_inv_def mgr_zero_def dest: mgr_inv_step [unfolded mgr_inv_def])

section \<open>The loop on a clock that stands still\<close>

text \<open>Entries that are due at a time.\<close>

definition due :: "(nat \<Rightarrow> nat option) \<Rightarrow> nat \<Rightarrow> nat set" where
  "due v now = {e. e < 4 \<and> (\<exists>d. v e = Some d \<and> d \<le> now)}"

lemma due_finite [simp]: "finite (due v now)"
  by (rule finite_subset [of _ "{..<4}"]) (auto simp: due_def)

lemma rates_pos: "e < 4 \<Longrightarrow> 0 < management_rates ! e"
  by (auto simp: management_rates_def nth_Cons split: nat.splits)

definition scheduled :: "(nat \<Rightarrow> nat option) \<Rightarrow> bool" where
  "scheduled v \<longleftrightarrow> dom v = {..<4}"

definition fires :: "nat set \<Rightarrow> nat \<Rightarrow> (nat \<Rightarrow> nat option) \<Rightarrow> nat \<Rightarrow> nat option" where
  "fires D now v e = (if e \<in> D then Some (now + management_rates ! e) else v e)"

lemma manage_loop_frozen:
  assumes W: "wheel_laws W view" and E: "\<And>s. os_time_monotonic E s = (now, s)"
    and v: "scheduled (view w)" and l: "length cs = 4" and n: "card (due (view w) now) < n"
  shows "\<exists>w' cs' s'. manage_loop n W E w cs s = Some (w', cs', s') \<and> view w' = fires (due (view w) now) now (view w) \<and>
    length cs' = 4 \<and> (\<forall>e < 4. cs' ! e = cs ! e + of_bool (e \<in> due (view w) now))"
  using v l n
proof (induction n arbitrary: w cs s)
  case 0
  then show ?case by simp
next
  case (Suc n)
  let ?D = "due (view w) now"
  obtain r w1 where nx: "timer_wheel_next W w now = (r, w1)" by fastforce
  show ?case
  proof (cases r)
    case None
    with W nx have "view w1 = view w" "\<And>e d. view w e = Some d \<Longrightarrow> now < d"
      unfolding wheel_laws_def by blast+
    moreover from this(2) have "?D = {}" by (fastforce simp: due_def)
    ultimately show ?thesis using nx None Suc.prems E by (auto simp: fires_def)
  next
    case (Some e)
    with W nx obtain d where d: "view w e = Some d" "d \<le> now" "view w1 = (view w)(e := None)"
      unfolding wheel_laws_def by blast
    then have e: "e < 4" using Suc.prems(1) by (auto simp: scheduled_def)
    let ?w2 = "timer_wheel_insert W w1 e (now + management_rates ! e)"
    have v2: "view ?w2 = (view w)(e \<mapsto> now + management_rates ! e)"
      using W d(3) unfolding wheel_laws_def by simp
    have D2: "due (view ?w2) now = ?D - {e}"
      using rates_pos [OF e] by (auto simp: due_def v2)
    have eD: "e \<in> ?D" using d e by (simp add: due_def)
    have "card (due (view ?w2) now) < n"
      using Suc.prems(3) eD by (simp add: D2 card_Diff_singleton)
        (metis Suc_less_eq Suc_pred card_gt_0_iff due_finite emptyE)
    moreover have "scheduled (view ?w2)" using Suc.prems(1) e by (auto simp: scheduled_def v2)
    moreover have "length (cs[e := cs ! e + 1]) = 4" using Suc.prems(2) by simp
    ultimately obtain w' cs' s' where
      r: "manage_loop n W E ?w2 (cs[e := cs ! e + 1]) (manage E e s) = Some (w', cs', s')"
      "view w' = fires (due (view ?w2) now) now (view ?w2)" "length cs' = 4"
      "\<forall>e' < 4. cs' ! e' = cs[e := cs ! e + 1] ! e' + of_bool (e' \<in> due (view ?w2) now)"
      using Suc.IH by blast
    have "manage_loop (Suc n) W E w cs s = Some (w', cs', s')"
      using nx Some E r(1) by simp
    moreover have "view w' = fires ?D now (view w)"
      using r(2) eD unfolding D2 by (auto simp: fires_def v2 fun_eq_iff)
    moreover have "\<forall>e' < 4. cs' ! e' = cs ! e' + of_bool (e' \<in> ?D)"
      using r(4) e eD Suc.prems(2) unfolding D2 by (auto simp: nth_list_update)
    ultimately show ?thesis using r(3) by blast
  qed
qed

lemma upt_4: "[0..<length management_rates] = [0, 1, 2, 3]"
  by (simp add: management_rates_def upt_rec)

lemma init_scheduled:
  assumes W: "wheel_laws W view"
  shows "view (fold (\<lambda>i w. timer_wheel_insert W w i (now + management_rates ! i))
      [0..<length management_rates] (timer_wheel_create W now)) =
    (\<lambda>e. if e < 4 then Some (now + management_rates ! e) else None)"
proof -
  have "view (timer_wheel_create W now) = (\<lambda>_. None)"
    "\<And>t e d. view (timer_wheel_insert W t e d) = (view t)(e \<mapsto> d)"
    using W unfolding wheel_laws_def by blast+
  then show ?thesis unfolding upt_4 by (auto simp: fun_eq_iff less_Suc_eq numeral_eq_Suc)
qed

section \<open>A concrete wheel for the witnesses\<close>

definition list_view :: "nat option list \<Rightarrow> nat \<Rightarrow> nat option" where
  "list_view t e = (if e < length t then t ! e else None)"

definition expired :: "nat option list \<Rightarrow> nat \<Rightarrow> nat \<Rightarrow> bool" where
  "expired t now e = (case list_view t e of None \<Rightarrow> False | Some d \<Rightarrow> d \<le> now)"

definition list_wheel :: "nat option list wheel" where
  "list_wheel = \<lparr>timer_wheel_create = (\<lambda>_. []),
     timer_wheel_insert = (\<lambda>t e d. (t @ replicate (Suc e - length t) None)[e := Some d]),
     timer_wheel_next = (\<lambda>t now. case find (expired t now) [0..<length t] of
        None \<Rightarrow> (None, t) | Some e \<Rightarrow> (Some e, t[e := None]))\<rparr>"

lemma list_wheel_laws: "wheel_laws list_wheel list_view"
  unfolding wheel_laws_def
proof (intro conjI allI impI)
  fix now show "list_view (timer_wheel_create list_wheel now) = (\<lambda>_. None)"
    by (simp add: list_wheel_def list_view_def fun_eq_iff)
next
  fix t e d show "list_view (timer_wheel_insert list_wheel t e d) = (list_view t)(e \<mapsto> d)"
    by (auto simp: list_wheel_def list_view_def fun_eq_iff nth_append nth_list_update)
next
  fix t now t' assume n: "timer_wheel_next list_wheel t now = (None, t')"
  then show "list_view t' = list_view t" by (simp add: list_wheel_def split: option.splits)
next
  fix t now t' e d assume n: "timer_wheel_next list_wheel t now = (None, t')" and v: "list_view t e = Some d"
  then have "\<not> expired t now e"
    by (auto simp: list_wheel_def find_None_iff list_view_def split: option.splits if_splits)
  with v show "now < d" by (simp add: expired_def)
next
  fix t now e t' assume n: "timer_wheel_next list_wheel t now = (Some e, t')"
  then have f: "find (expired t now) [0..<length t] = Some e" "t' = t[e := None]"
    by (auto simp: list_wheel_def split: option.splits)
  then have "expired t now e" "e < length t" by (auto simp: find_Some_iff)
  then show "\<exists>d. list_view t e = Some d \<and> d \<le> now" by (auto simp: expired_def split: option.splits)
  show "list_view t' = (list_view t)(e := None)" using f(2) by (auto simp: list_view_def fun_eq_iff)
qed

definition demo_menv :: "unit menv" where
  "demo_menv = \<lparr>os_time_monotonic = (\<lambda>s. (5, s)), manage_init = id, manage = (\<lambda>_ s. s)\<rparr>"

section \<open>Properties\<close>

lemma manage_first_call:
  assumes W: "wheel_laws W view" and E: "\<And>s. os_time_monotonic E s = (now, s)" and n: "0 < n" and t: "tw c = None"
  shows "\<exists>w' s'. onlp_sys_platform_manage_now n W E c = Some (c\<lparr>tw := Some w', env := s'\<rparr>) \<and>
    view w' = (\<lambda>e. if e < 4 then Some (now + management_rates ! e) else None)"
proof -
  let ?w = "fold (\<lambda>i w. timer_wheel_insert W w i (now + management_rates ! i))
      [0..<length management_rates] (timer_wheel_create W now)"
  note v = init_scheduled [OF W, of now]
  have sch: "scheduled (view ?w)" by (auto simp: v scheduled_def dom_def)
  have none: "due (view ?w) now = {}" using rates_pos by (auto simp: due_def v)
  have "timer_wheel_next W ?w now = (None, snd (timer_wheel_next W ?w now))"
  proof (cases "fst (timer_wheel_next W ?w now)")
    case (Some e)
    then have "timer_wheel_next W ?w now = (Some e, snd (timer_wheel_next W ?w now))"
      by (metis prod.collapse)
    with W obtain d where "view ?w e = Some d" "d \<le> now" unfolding wheel_laws_def by blast
    with sch none show ?thesis by (auto simp: due_def scheduled_def dom_def)
  qed (metis prod.collapse)
  moreover from this W have "view (snd (timer_wheel_next W ?w now)) = view ?w"
    unfolding wheel_laws_def by blast
  ultimately show ?thesis
    using t E n v
    by (cases n; cases "timer_wheel_next W ?w now")
      (auto simp: onlp_sys_platform_manage_now_def onlp_sys_platform_manage_init_def)
qed



text \<open>
  The sleep of the manager thread is exactly the time to the next deadline, in normalised
  seconds and microseconds; since the wheel is asked for the next twenty (not two) seconds,
  that can be far longer than the two seconds of the comment, and is bounded by twenty.
\<close>

theorem manage_poll_timeout:
  assumes "\<And>d. twe = Some d \<Longrightarrow> d \<le> now + peek_window" and "poll_timeout twe now = (sec, usec)"
  shows "usec < 1000000 \<and> sec * 1000000 + usec \<le> peek_window \<and>
    (case twe of None \<Rightarrow> sec = 2 \<and> usec = 0 | Some d \<Rightarrow> sec * 1000000 + usec = d - now) \<and>
    poll_timeout (Some (now + 15000000)) now = (15, 0)"
  using assms by (auto simp: poll_timeout_def peek_window_def split: option.splits if_splits)

theorem manage_poll_timeout_witness:
  "poll_timeout (Some 1500000) 0 = (1, 500000) \<and> (500000 :: nat) < 1000000"
  using manage_poll_timeout [of "Some 1500000" 0 1 500000]
  by (simp add: poll_timeout_def peek_window_def)


definition demo_running :: mgr where
  "demo_running = snd (onlp_sys_platform_manage_start 3 0 mgr_zero)"

definition demo_stopping :: mgr where
  "demo_stopping = snd (onlp_sys_platform_manage_stop demo_running)"

lemma demo_running_reach: "mreach (demo_running, Idle)"
  unfolding demo_running_def by (rule mreach.step [OF mreach.zero mstep.start]) simp


text \<open>
  A start right after a stop that does not wait is lost: a state is reachable in which
  \<open>onlp_sys_platform_manage_start\<close> reports success because the descriptor is still open, does
  nothing, and the next pass of the old thread ends it, leaving no manager running.
\<close>

theorem manage_start_after_stop_lost:
  "\<exists>m. mreach (m, Idle) \<and> thread m = Looping \<and>
     (\<forall>efd prc. onlp_sys_platform_manage_start efd prc m = (0, m)) \<and>
     mreach (manage_thread_pass m, Idle) \<and>
     thread (manage_thread_pass m) = Exited \<and> eventfd (manage_thread_pass m) = -1"
proof (intro exI conjI allI)
  have "mreach (demo_stopping, Idle)"
    unfolding demo_stopping_def by (rule mreach.step [OF demo_running_reach mstep.stop])
  then show "mreach (demo_stopping, Idle)" and "mreach (manage_thread_pass demo_stopping, Idle)"
    using mreach.step mstep.thread_pass by blast+
qed (simp_all add: demo_stopping_def demo_running_def onlp_sys_platform_manage_stop_def
      onlp_sys_platform_manage_start_def mgr_zero_def manage_thread_pass_def)

end
