(* ===== verification/File.thy ===== *)
theory File
  imports Prelude "HOL-Library.Monad_Syntax"
begin

text \<open>
  \<open>file.c\<close>: reading and writing the small files of \<open>sysfs\<close> and the domain sockets that stand in
  for them. The system calls are a parameter; a path is the string the format and its arguments
  give. A pointer that the code may leave without a value is tracked as such, and using it is
  undefined (\<open>None\<close>).
\<close>

section \<open>System calls\<close>

text \<open>
  \<open>fs_stat\<close>: whether the file is a socket, and its size; \<open>fs_walk\<close>: the regular files under a root
  in the order \<open>fts_read\<close> gives them, as name and real path, \<open>None\<close> when \<open>fts_open\<close> fails.
\<close>

record 'w fs =
  fs_stat :: "string \<Rightarrow> 'w \<Rightarrow> (bool \<times> int) option"
  fs_open :: "string \<Rightarrow> int \<Rightarrow> 'w \<Rightarrow> int \<times> 'w"
  fs_socket :: "'w \<Rightarrow> int \<times> 'w"
  fs_connect :: "int \<Rightarrow> string \<Rightarrow> 'w \<Rightarrow> int \<times> 'w"
  fs_read :: "int \<Rightarrow> nat \<Rightarrow> 'w \<Rightarrow> int \<times> u8 list \<times> 'w"
  fs_write :: "int \<Rightarrow> u8 list \<Rightarrow> 'w \<Rightarrow> int \<times> 'w"
  fs_close :: "int \<Rightarrow> 'w \<Rightarrow> 'w"
  fs_walk :: "string \<Rightarrow> 'w \<Rightarrow> (string \<times> string) list option"

definition O_RDONLY :: int where [simp]: "O_RDONLY = 0"
definition O_WRONLY :: int where [simp]: "O_WRONLY = 1"
definition O_RDWR :: int where [simp]: "O_RDWR = 2"

section \<open>Opening\<close>

text \<open>\<open>ds_connect__\<close>: a socket that cannot be connected is not closed again.\<close>

definition ds_connect :: "'w fs \<Rightarrow> string \<Rightarrow> 'w \<Rightarrow> int \<times> 'w" where
  "ds_connect F path w =
     (let (fd, w1) = fs_socket F w in
      if fd < 0 then (-1, w1)
      else
        (let (rv, w2) = fs_connect F fd (take 107 path) w1 in
         if rv = 0 then (fd, w2) else (ONLP_STATUS_E_MISSING, w2)))"

definition onlp_file_find :: "'w fs \<Rightarrow> string \<Rightarrow> string \<Rightarrow> 'w \<Rightarrow> int \<times> string option" where
  "onlp_file_find F root fname w =
     (case fs_walk F root w of
        None \<Rightarrow> (ONLP_STATUS_E_INTERNAL, None)
      | Some ents \<Rightarrow>
          (case find (\<lambda>(name, path). name = fname) ents of
             Some (name, path) \<Rightarrow> (ONLP_STATUS_OK, Some path)
           | None \<Rightarrow> (ONLP_STATUS_E_MISSING, None)))"

text \<open>The contents of a \<open>char*\<close> variable: never assigned, \<open>NULL\<close>, or a string.\<close>

datatype cptr = Unset | Null | Str string

text \<open>
  \<open>vopen__\<close>: an asterisk separates a directory to search from a file name. The name is handed out
  only once it is known.
\<close>

definition vopen :: "'w fs \<Rightarrow> cptr \<Rightarrow> int \<Rightarrow> string \<Rightarrow> 'w \<Rightarrow> int \<times> cptr \<times> 'w" where
  "vopen F dst flags path w =
     (let fname = take 4094 path;
          found = (if CHR ''*'' \<in> set fname
                   then snd (onlp_file_find F (takeWhile (\<lambda>c. c \<noteq> CHR ''*'') fname)
                               (tl (dropWhile (\<lambda>c. c \<noteq> CHR ''*'') fname)) w)
                   else Some fname) in
      case found of
        None \<Rightarrow> (ONLP_STATUS_E_MISSING, dst, w)
      | Some fname \<Rightarrow>
          (case fs_stat F fname w of
             None \<Rightarrow> (ONLP_STATUS_E_MISSING, Str fname, w)
           | Some (sock, _) \<Rightarrow>
               (let (fd, w1) = (if sock then ds_connect F fname w else fs_open F fname flags w) in
                (if fd > 0 then fd else ONLP_STATUS_E_MISSING, Str fname, w1))))"

text \<open>\<open>aim_free\<close> of a variable that was never assigned is undefined.\<close>

definition onlp_file_vopen :: "'w fs \<Rightarrow> int \<Rightarrow> string \<Rightarrow> 'w \<Rightarrow> (int \<times> 'w) option" where
  "onlp_file_vopen F flags path w =
     (let (rv, fname, w1) = vopen F Unset flags path w in
      if fname = Unset then None else Some (rv, w1))"

definition onlp_file_open :: "'w fs \<Rightarrow> int \<Rightarrow> string \<Rightarrow> 'w \<Rightarrow> (int \<times> 'w) option" where
  "onlp_file_open F flags path w = onlp_file_vopen F flags path w"

section \<open>Reading\<close>

definition onlp_file_vsize :: "'w fs \<Rightarrow> string \<Rightarrow> 'w \<Rightarrow> int" where
  "onlp_file_vsize F path w =
     (case fs_stat F path w of Some (_, sz) \<Rightarrow> sz | None \<Rightarrow> ONLP_STATUS_E_MISSING)"

definition onlp_file_size :: "'w fs \<Rightarrow> string \<Rightarrow> 'w \<Rightarrow> int" where
  "onlp_file_size F path w = onlp_file_vsize F path w"

text \<open>\<open>onlp_file_vread\<close>: the status, the buffer of \<open>max\<close> bytes and the length.\<close>

definition onlp_file_vread ::
  "'w fs \<Rightarrow> u8 list \<Rightarrow> nat \<Rightarrow> int \<Rightarrow> string \<Rightarrow> 'w \<Rightarrow> int \<times> u8 list \<times> int \<times> 'w" where
  "onlp_file_vread F data mx len path w =
     (let (fd, fname, w1) = vopen F Null O_RDONLY path w in
      if fd < 0 then (fd, data, len, w1)
      else
        (let (n, bytes, w2) = fs_read F fd mx w1;
             data = bytes @ replicate (mx - length bytes) 0 in
         (if n \<le> 0 then ONLP_STATUS_E_INTERNAL else ONLP_STATUS_OK, data, n, fs_close F fd w2)))"

definition onlp_file_read ::
  "'w fs \<Rightarrow> u8 list \<Rightarrow> nat \<Rightarrow> int \<Rightarrow> string \<Rightarrow> 'w \<Rightarrow> int \<times> u8 list \<times> int \<times> 'w" where
  "onlp_file_read F data mx len path w = onlp_file_vread F data mx len path w"

text \<open>
  \<open>onlp_file_vread_all\<close>: the inner calls take the expanded name as a format again, so the model is
  for names without a percent sign. \<open>None\<close> for \<open>*data\<close> is \<open>NULL\<close>.
\<close>

definition onlp_file_vread_all :: "'w fs \<Rightarrow> string \<Rightarrow> 'w \<Rightarrow> int \<times> u8 list option \<times> 'w" where
  "onlp_file_vread_all F path w =
     (let fsize = onlp_file_size F path w in
      if fsize > 0 then
        (let (rv, contents, rsize, w1) = onlp_file_read F (replicate (nat fsize) 0) (nat fsize) 0 path w in
         if rv \<ge> 0 then (rsize, Some contents, w1) else (rv, None, w1))
      else (fsize, None, w))"

definition onlp_file_read_all :: "'w fs \<Rightarrow> string \<Rightarrow> 'w \<Rightarrow> int \<times> u8 list option \<times> 'w" where
  "onlp_file_read_all F path w = onlp_file_vread_all F path w"

text \<open>Trailing line ends become zero bytes, and the length shrinks with them.\<close>

function strip_line_ends :: "u8 list \<Rightarrow> nat \<Rightarrow> u8 list \<times> nat" where
  "strip_line_ends s rv =
     (if rv > 0 \<and> (s ! (rv - 1) = 0x0A \<or> s ! (rv - 1) = 0x0D)
      then strip_line_ends (s[rv - 1 := 0]) (rv - 1) else (s, rv))"
  by pat_completeness auto
termination by (relation "measure snd") auto

declare strip_line_ends.simps [simp del]

definition onlp_file_vread_str :: "'w fs \<Rightarrow> string \<Rightarrow> 'w \<Rightarrow> int \<times> u8 list option \<times> 'w" where
  "onlp_file_vread_str F path w =
     (let (rv, str, w1) = onlp_file_vread_all F path w in
      case str of
        Some s \<Rightarrow>
          if rv > 0 then (let (s, n) = strip_line_ends s (nat rv) in (int n, Some s, w1))
          else (rv, Some s, w1)
      | None \<Rightarrow> (rv, None, w1))"

definition onlp_file_read_str :: "'w fs \<Rightarrow> string \<Rightarrow> 'w \<Rightarrow> int \<times> u8 list option \<times> 'w" where
  "onlp_file_read_str F path w = onlp_file_vread_str F path w"

text \<open>
  \<open>atoi\<close> on a buffer, without the overflow cases: leading white space, a sign, digits up to the
  first other byte. \<open>None\<close>: it runs past the end of the buffer.
\<close>

definition is_space :: "u8 \<Rightarrow> bool" where
  "is_space b \<longleftrightarrow> b = 0x20 \<or> (0x09 \<le> b \<and> b \<le> 0x0D)"

definition is_digit :: "u8 \<Rightarrow> bool" where
  "is_digit b \<longleftrightarrow> 0x30 \<le> b \<and> b \<le> 0x39"

fun atoi_digits :: "int \<Rightarrow> u8 list \<Rightarrow> int option" where
  "atoi_digits acc [] = None"
| "atoi_digits acc (b # bs) =
     (if is_digit b then atoi_digits (acc * 10 + (uint b - 48)) bs else Some acc)"

definition atoi :: "u8 list \<Rightarrow> int option" where
  "atoi s =
     (let s = dropWhile is_space s in
      case s of
        [] \<Rightarrow> None
      | b # bs \<Rightarrow>
          if b = 0x2D then map_option uminus (atoi_digits 0 bs)
          else if b = 0x2B then atoi_digits 0 bs
          else atoi_digits 0 s)"

definition onlp_file_vread_int :: "'w fs \<Rightarrow> int \<Rightarrow> u8 list \<Rightarrow> string \<Rightarrow> 'w \<Rightarrow> (int \<times> int \<times> 'w) option" where
  "onlp_file_vread_int F v junk path w =
     (let (rv, data, len, w1) = onlp_file_vread F junk 32 0 path w in
      if rv < 0 then Some (rv, v, w1)
      else map_option (\<lambda>v. (0, v, w1)) (atoi data))"

definition onlp_file_read_int :: "'w fs \<Rightarrow> int \<Rightarrow> u8 list \<Rightarrow> string \<Rightarrow> 'w \<Rightarrow> (int \<times> int \<times> 'w) option" where
  "onlp_file_read_int F v junk path w = onlp_file_vread_int F v junk path w"

text \<open>\<open>onlp_file_read_int_max\<close>: \<open>files\<close> is the list up to its \<open>NULL\<close>.\<close>

fun read_int_max_loop :: "'w fs \<Rightarrow> u8 list \<Rightarrow> int \<Rightarrow> string list \<Rightarrow> 'w \<Rightarrow> (int \<times> int \<times> 'w) option" where
  "read_int_max_loop F junk mx [] w = Some (0, mx, w)"
| "read_int_max_loop F junk mx (s # ss) w =
     do { (rv, v, w1) \<leftarrow> onlp_file_read_int F 0 junk s w;
          if rv < 0 then Some (rv, 0, w1)
          else read_int_max_loop F junk (if mx < v then v else mx) ss w1 }"

definition onlp_file_read_int_max ::
  "'w fs \<Rightarrow> u8 list \<Rightarrow> int option \<Rightarrow> string list option \<Rightarrow> 'w \<Rightarrow> (int \<times> int option \<times> 'w) option" where
  "onlp_file_read_int_max F junk v files w =
     (case (v, files) of
        (Some _, Some (f # fs)) \<Rightarrow>
          do { (rv, mx, w1) \<leftarrow> read_int_max_loop F junk 0 (f # fs) w;
               Some (rv, Some mx, w1) }
      | _ \<Rightarrow> Some (ONLP_STATUS_E_PARAM, v, w))"

section \<open>Writing\<close>

definition onlp_file_vwrite :: "'w fs \<Rightarrow> u8 list \<Rightarrow> string \<Rightarrow> 'w \<Rightarrow> int \<times> 'w" where
  "onlp_file_vwrite F data path w =
     (let (fd, fname, w1) = vopen F Null O_WRONLY path w in
      if fd < 0 then (fd, w1)
      else
        (let (wlen, w2) = fs_write F fd data w1 in
         (if wlen \<noteq> int (length data) then ONLP_STATUS_E_INTERNAL else ONLP_STATUS_OK, fs_close F fd w2)))"

definition onlp_file_write :: "'w fs \<Rightarrow> u8 list \<Rightarrow> string \<Rightarrow> 'w \<Rightarrow> int \<times> 'w" where
  "onlp_file_write F data path w = onlp_file_vwrite F data path w"

text \<open>A C string is written with its terminating zero.\<close>

definition onlp_file_vwrite_str :: "'w fs \<Rightarrow> u8 list \<Rightarrow> string \<Rightarrow> 'w \<Rightarrow> int \<times> 'w" where
  "onlp_file_vwrite_str F str path w = onlp_file_vwrite F (takeWhile (\<lambda>b. b \<noteq> 0) str @ [0]) path w"

definition onlp_file_write_str :: "'w fs \<Rightarrow> u8 list \<Rightarrow> string \<Rightarrow> 'w \<Rightarrow> int \<times> 'w" where
  "onlp_file_write_str F str path w = onlp_file_vwrite_str F str path w"

text \<open>\<open>printf("%d")\<close>.\<close>

fun dec_nat :: "nat \<Rightarrow> u8 list" where
  "dec_nat n = (if n < 10 then [word_of_nat (48 + n)] else dec_nat (n div 10) @ [word_of_nat (48 + n mod 10)])"

declare dec_nat.simps [simp del]

definition dec_int :: "int \<Rightarrow> u8 list" where
  "dec_int v = (if v < 0 then 0x2D # dec_nat (nat (- v)) else dec_nat (nat v))"

text \<open>\<open>%d\<close> in a name.\<close>

definition dec_string :: "int \<Rightarrow> string" where
  "dec_string v = map (\<lambda>b. char_of (unat b)) (dec_int v)"

definition onlp_file_vwrite_int :: "'w fs \<Rightarrow> int \<Rightarrow> string \<Rightarrow> 'w \<Rightarrow> int \<times> 'w" where
  "onlp_file_vwrite_int F v path w = onlp_file_vwrite_str F (dec_int v) path w"

definition onlp_file_write_int :: "'w fs \<Rightarrow> int \<Rightarrow> string \<Rightarrow> 'w \<Rightarrow> int \<times> 'w" where
  "onlp_file_write_int F v path w = onlp_file_vwrite_int F v path w"

end
