(* ===== verification/I2c.thy ===== *)
theory I2c
  imports File
begin

text \<open>
  \<open>i2c.c\<close>: byte, block and word accesses to a device on an I2C bus through \<open>/dev/i2c-N\<close>, and the
  multiplexers that have to be switched before a device behind them answers. The ioctls and the
  SMBus helpers of the system are a parameter. \<open>None\<close> is undefined behaviour: a store past the end
  of the caller's buffer.
\<close>

section \<open>The bus\<close>

datatype i2c_request = I2C_TENBIT | I2C_PEC | I2C_SLAVE | I2C_SLAVE_FORCE

text \<open>A block read gives its return value and the bytes it stored.\<close>

record 'w i2c_bus =
  bus_fs :: "'w fs"
  i2c_ioctl :: "int \<Rightarrow> i2c_request \<Rightarrow> int \<Rightarrow> 'w \<Rightarrow> int \<times> 'w"
  smbus_read_byte_data :: "int \<Rightarrow> u8 \<Rightarrow> 'w \<Rightarrow> int \<times> 'w"
  smbus_write_byte_data :: "int \<Rightarrow> u8 \<Rightarrow> u8 \<Rightarrow> 'w \<Rightarrow> int \<times> 'w"
  smbus_read_word_data :: "int \<Rightarrow> u8 \<Rightarrow> 'w \<Rightarrow> int \<times> 'w"
  smbus_write_word_data :: "int \<Rightarrow> u8 \<Rightarrow> u16 \<Rightarrow> 'w \<Rightarrow> int \<times> 'w"
  smbus_read_block_data :: "int \<Rightarrow> u8 \<Rightarrow> 'w \<Rightarrow> int \<times> u8 list \<times> 'w"
  smbus_read_i2c_block_data :: "int \<Rightarrow> u8 \<Rightarrow> nat \<Rightarrow> 'w \<Rightarrow> int \<times> u8 list \<times> 'w"

definition ONLP_I2C_F_TENBIT :: u32 where "ONLP_I2C_F_TENBIT = 0x1"
definition ONLP_I2C_F_FORCE :: u32 where "ONLP_I2C_F_FORCE = 0x2"
definition ONLP_I2C_F_PEC :: u32 where "ONLP_I2C_F_PEC = 0x4"
definition ONLP_I2C_F_NO_MUX_DESELECT :: u32 where "ONLP_I2C_F_NO_MUX_DESELECT = 0x8"
definition ONLP_I2C_F_NO_MUX_SELECT :: u32 where "ONLP_I2C_F_NO_MUX_SELECT = 0x10"
definition ONLP_I2C_F_USE_BLOCK_READ :: u32 where "ONLP_I2C_F_USE_BLOCK_READ = 0x20"
definition ONLP_I2C_F_USE_SMBUS_BLOCK_READ :: u32 where "ONLP_I2C_F_USE_SMBUS_BLOCK_READ = 0x40"
definition ONLP_I2C_F_DISABLE_READ_RETRIES :: u32 where "ONLP_I2C_F_DISABLE_READ_RETRIES = 0x80"

definition I2C_BLOCK_SIZE :: nat where [simp]: "I2C_BLOCK_SIZE = 32"
definition I2C_READ_RETRY_COUNT :: nat where [simp]: "I2C_READ_RETRY_COUNT = 16"

definition i2c_path :: "int \<Rightarrow> string" where
  "i2c_path bus = ''/dev/i2c-'' @ map (\<lambda>b. char_of (unat b)) (dec_int bus)"

definition i2c_close :: "'w i2c_bus \<Rightarrow> int \<Rightarrow> 'w \<Rightarrow> 'w" where
  "i2c_close B fd w = fs_close (bus_fs B) fd w"

definition onlp_i2c_open :: "'w i2c_bus \<Rightarrow> int \<Rightarrow> u8 \<Rightarrow> u32 \<Rightarrow> 'w \<Rightarrow> (int \<times> 'w) option" where
  "onlp_i2c_open B bus addr flags w =
     do { (fd, w1) \<leftarrow> onlp_file_open (bus_fs B) O_RDWR (i2c_path bus) w;
          Some
            (if fd < 0 then (fd, w1)
             else
               (let (rv, w2) = i2c_ioctl B fd I2C_TENBIT (if has flags ONLP_I2C_F_TENBIT then 1 else 0) w1 in
                if rv = -1 then (ONLP_STATUS_E_I2C, i2c_close B fd w2)
                else
                  (let (rv, w3) = i2c_ioctl B fd I2C_PEC (if has flags ONLP_I2C_F_PEC then 1 else 0) w2 in
                   if rv = -1 then (ONLP_STATUS_E_I2C, i2c_close B fd w3)
                   else
                     (let (rv, w4) = i2c_ioctl B fd
                            (if has flags ONLP_I2C_F_FORCE then I2C_SLAVE_FORCE else I2C_SLAVE) (uint addr) w3 in
                      if rv = -1 then (ONLP_STATUS_E_I2C, i2c_close B fd w4)
                      else (fd, w4))))) }"

section \<open>Reading and writing\<close>

text \<open>Store bytes into a buffer at a position.\<close>

definition poke :: "u8 list \<Rightarrow> nat \<Rightarrow> u8 list \<Rightarrow> u8 list option" where
  "poke buf pos bytes =
     (if pos + length bytes \<le> length buf
      then Some (take pos buf @ bytes @ drop (pos + length bytes) buf) else None)"

definition read_retries :: "u32 \<Rightarrow> nat" where
  "read_retries flags = (if has flags ONLP_I2C_F_DISABLE_READ_RETRIES then 1 else I2C_READ_RETRY_COUNT)"

text \<open>
  The retry loop of a block: the offset moves only after a successful attempt, but by the size asked
  for, whatever size came back. The bytes are stored at \<open>pos\<close>.
\<close>

fun block_retry ::
  "'w i2c_bus \<Rightarrow> int \<Rightarrow> u32 \<Rightarrow> nat \<Rightarrow> nat \<Rightarrow> nat \<Rightarrow> int \<Rightarrow> u8 \<Rightarrow> u8 list \<Rightarrow> 'w
   \<Rightarrow> (int \<times> u8 \<times> u8 list \<times> 'w) option" where
  "block_retry B fd flags rsize pos 0 rv offset rdata w = Some (rv, offset, rdata, w)"
| "block_retry B fd flags rsize pos (Suc retries) rv offset rdata w =
     (if rv < 0 then
        (let (rv, bytes, w1) =
           (if has flags ONLP_I2C_F_USE_SMBUS_BLOCK_READ then smbus_read_block_data B fd offset w
            else smbus_read_i2c_block_data B fd offset rsize w) in
         do { rdata \<leftarrow> poke rdata pos bytes;
              block_retry B fd flags rsize pos retries rv
                (if rv \<ge> 0 then offset + word_of_nat rsize else offset) rdata w1 })
      else Some (rv, offset, rdata, w))"

function block_loop ::
  "'w i2c_bus \<Rightarrow> int \<Rightarrow> u32 \<Rightarrow> nat \<Rightarrow> nat \<Rightarrow> u8 \<Rightarrow> u8 list \<Rightarrow> 'w \<Rightarrow> (int \<times> u8 list \<times> 'w) option" where
  "block_loop B fd flags count pos offset rdata w =
     (if count = 0 then Some (0, rdata, w)
      else
        (let rsize = (if count \<ge> I2C_BLOCK_SIZE then I2C_BLOCK_SIZE else count) in
         do { (rv, offset, rdata, w1) \<leftarrow>
                block_retry B fd flags rsize pos (read_retries flags) (-1) offset rdata w;
              if rv \<noteq> int rsize then Some (ONLP_STATUS_E_I2C, rdata, w1)
              else block_loop B fd flags (count - rsize) (pos + rsize) offset rdata w1 }))"
  by pat_completeness auto
termination by (relation "measure (\<lambda>(B, fd, flags, count, pos, offset, rdata, w). count)") auto

declare block_loop.simps [simp del]

text \<open>A negative size reads nothing.\<close>

definition onlp_i2c_block_read ::
  "'w i2c_bus \<Rightarrow> int \<Rightarrow> u8 \<Rightarrow> u8 \<Rightarrow> int \<Rightarrow> u8 list \<Rightarrow> u32 \<Rightarrow> 'w \<Rightarrow> (int \<times> u8 list \<times> 'w) option" where
  "onlp_i2c_block_read B bus addr offset sz rdata flags w =
     do { (fd, w1) \<leftarrow> onlp_i2c_open B bus addr flags w;
          if fd < 0 then Some (fd, rdata, w1)
          else
            do { (rv, rdata, w2) \<leftarrow> block_loop B fd flags (nat sz) 0 offset rdata w1;
                 Some (rv, rdata, i2c_close B fd w2) } }"

fun byte_retry :: "'w i2c_bus \<Rightarrow> int \<Rightarrow> u8 \<Rightarrow> nat \<Rightarrow> int \<Rightarrow> 'w \<Rightarrow> int \<times> 'w" where
  "byte_retry B fd command 0 rv w = (rv, w)"
| "byte_retry B fd command (Suc retries) rv w =
     (if rv < 0 then (let (rv, w1) = smbus_read_byte_data B fd command w in byte_retry B fd command retries rv w1)
      else (rv, w))"

fun read_loop ::
  "'w i2c_bus \<Rightarrow> int \<Rightarrow> u32 \<Rightarrow> u8 \<Rightarrow> nat \<Rightarrow> nat \<Rightarrow> u8 list \<Rightarrow> 'w \<Rightarrow> (int \<times> u8 list \<times> 'w) option" where
  "read_loop B fd flags offset i 0 rdata w = Some (0, rdata, w)"
| "read_loop B fd flags offset i (Suc n) rdata w =
     (let (rv, w1) = byte_retry B fd (offset + word_of_nat i) (read_retries flags) (-1) w in
      if rv < 0 then Some (ONLP_STATUS_E_I2C, rdata, w1)
      else
        do { rdata \<leftarrow> poke rdata i [word_of_int rv];
             read_loop B fd flags offset (Suc i) n rdata w1 })"

definition onlp_i2c_read ::
  "'w i2c_bus \<Rightarrow> int \<Rightarrow> u8 \<Rightarrow> u8 \<Rightarrow> int \<Rightarrow> u8 list \<Rightarrow> u32 \<Rightarrow> 'w \<Rightarrow> (int \<times> u8 list \<times> 'w) option" where
  "onlp_i2c_read B bus addr offset sz rdata flags w =
     do { (fd, w1) \<leftarrow> onlp_i2c_open B bus addr flags w;
          if fd < 0 then Some (fd, rdata, w1)
          else
            do { (rv, rdata, w2) \<leftarrow> read_loop B fd flags offset 0 (nat sz) rdata w1;
                 Some (rv, rdata, i2c_close B fd w2) } }"

fun write_loop :: "'w i2c_bus \<Rightarrow> int \<Rightarrow> u8 \<Rightarrow> nat \<Rightarrow> u8 list \<Rightarrow> nat \<Rightarrow> 'w \<Rightarrow> (int \<times> 'w) option" where
  "write_loop B fd offset i data 0 w = Some (0, w)"
| "write_loop B fd offset i data (Suc n) w =
     do { b \<leftarrow> rd data i;
          let (rv, w1) = smbus_write_byte_data B fd (offset + word_of_nat i) b w in
          if rv < 0 then Some (ONLP_STATUS_E_I2C, w1)
          else write_loop B fd offset (Suc i) data n w1 }"

definition onlp_i2c_write ::
  "'w i2c_bus \<Rightarrow> int \<Rightarrow> u8 \<Rightarrow> u8 \<Rightarrow> int \<Rightarrow> u8 list \<Rightarrow> u32 \<Rightarrow> 'w \<Rightarrow> (int \<times> 'w) option" where
  "onlp_i2c_write B bus addr offset sz data flags w =
     do { (fd, w1) \<leftarrow> onlp_i2c_open B bus addr flags w;
          if fd < 0 then Some (fd, w1)
          else
            do { (rv, w2) \<leftarrow> write_loop B fd offset 0 data (nat sz) w1;
                 Some (rv, i2c_close B fd w2) } }"

text \<open>One byte: the local variable starts without a value.\<close>

definition onlp_i2c_readb :: "'w i2c_bus \<Rightarrow> int \<Rightarrow> u8 \<Rightarrow> u8 \<Rightarrow> u32 \<Rightarrow> 'w \<Rightarrow> (int \<times> 'w) option" where
  "onlp_i2c_readb B bus addr offset flags w =
     do { (rv, buf, w1) \<leftarrow> onlp_i2c_read B bus addr offset 1 [0] flags w;
          Some (if rv < 0 then rv else uint (hd buf), w1) }"

definition onlp_i2c_writeb :: "'w i2c_bus \<Rightarrow> int \<Rightarrow> u8 \<Rightarrow> u8 \<Rightarrow> u8 \<Rightarrow> u32 \<Rightarrow> 'w \<Rightarrow> (int \<times> 'w) option" where
  "onlp_i2c_writeb B bus addr offset byte flags w = onlp_i2c_write B bus addr offset 1 [byte] flags w"

definition onlp_i2c_modifyb ::
  "'w i2c_bus \<Rightarrow> int \<Rightarrow> u8 \<Rightarrow> u8 \<Rightarrow> u8 \<Rightarrow> u8 \<Rightarrow> u32 \<Rightarrow> 'w \<Rightarrow> (int \<times> 'w) option" where
  "onlp_i2c_modifyb B bus addr offset andmask ormask flags w =
     do { (v, w1) \<leftarrow> onlp_i2c_readb B bus addr offset flags w;
          if ONLP_FAILURE v then Some (v, w1)
          else onlp_i2c_writeb B bus addr offset ((word_of_int v AND andmask) OR ormask) flags w1 }"

definition onlp_i2c_readw :: "'w i2c_bus \<Rightarrow> int \<Rightarrow> u8 \<Rightarrow> u8 \<Rightarrow> u32 \<Rightarrow> 'w \<Rightarrow> (int \<times> 'w) option" where
  "onlp_i2c_readw B bus addr offset flags w =
     do { (fd, w1) \<leftarrow> onlp_i2c_open B bus addr flags w;
          Some (if fd < 0 then (fd, w1)
                else (let (rv, w2) = smbus_read_word_data B fd offset w1 in (rv, i2c_close B fd w2))) }"

definition onlp_i2c_writew :: "'w i2c_bus \<Rightarrow> int \<Rightarrow> u8 \<Rightarrow> u8 \<Rightarrow> u16 \<Rightarrow> u32 \<Rightarrow> 'w \<Rightarrow> (int \<times> 'w) option" where
  "onlp_i2c_writew B bus addr offset word flags w =
     do { (fd, w1) \<leftarrow> onlp_i2c_open B bus addr flags w;
          Some (if fd < 0 then (fd, w1)
                else (let (rv, w2) = smbus_write_word_data B fd offset word w1 in (rv, i2c_close B fd w2))) }"

section \<open>Multiplexers\<close>

text \<open>A driver has sixteen channel entries; the ones not listed are zero.\<close>

record i2c_mux_driver =
  mux_control :: u8
  mux_channels :: "(int \<times> u8) list"

record i2c_mux_device =
  mux_bus :: int
  mux_devaddr :: u8
  mux_driver :: i2c_mux_driver

text \<open>A channel whose multiplexer is \<open>NULL\<close> is \<open>None\<close>.\<close>

type_synonym i2c_mux_channel = "i2c_mux_device option \<times> int"

record i2c_dev =
  dev_ichannels :: "i2c_mux_channel list"
  dev_pchannels :: "i2c_mux_channel list option"
  dev_bus :: int
  dev_addr :: u8

definition onlp_i2c_mux_driver_pca9547a :: i2c_mux_driver where
  "onlp_i2c_mux_driver_pca9547a =
     \<lparr> mux_control = 0,
       mux_channels = [(-1, 0), (0, 0x8), (1, 0x9), (2, 0xA), (3, 0xB), (4, 0xC), (5, 0xD), (6, 0xE), (7, 0xF)]
         @ replicate 7 (0, 0) \<rparr>"

definition onlp_i2c_mux_driver_pca9548 :: i2c_mux_driver where
  "onlp_i2c_mux_driver_pca9548 =
     \<lparr> mux_control = 0,
       mux_channels = [(-1, 0x00), (0, 0x01), (1, 0x02), (2, 0x04), (3, 0x08), (4, 0x10), (5, 0x20), (6, 0x40), (7, 0x80)]
         @ replicate 7 (0, 0) \<rparr>"

definition onlp_i2c_mux_select :: "'w i2c_bus \<Rightarrow> i2c_mux_device \<Rightarrow> int \<Rightarrow> 'w \<Rightarrow> (int \<times> 'w) option" where
  "onlp_i2c_mux_select B dev channel w =
     (case find (\<lambda>(c, v). c = channel) (mux_channels (mux_driver dev)) of
        Some (c, v) \<Rightarrow> onlp_i2c_writeb B (mux_bus dev) (mux_devaddr dev) (mux_control (mux_driver dev)) v 0 w
      | None \<Rightarrow> Some (ONLP_STATUS_E_PARAM, w))"

definition onlp_i2c_mux_deselect :: "'w i2c_bus \<Rightarrow> i2c_mux_device \<Rightarrow> 'w \<Rightarrow> (int \<times> 'w) option" where
  "onlp_i2c_mux_deselect B dev w = onlp_i2c_mux_select B dev (-1) w"

definition onlp_i2c_mux_channel_select :: "'w i2c_bus \<Rightarrow> i2c_mux_device \<Rightarrow> int \<Rightarrow> 'w \<Rightarrow> (int \<times> 'w) option" where
  "onlp_i2c_mux_channel_select B mux channel w = onlp_i2c_mux_select B mux channel w"

definition onlp_i2c_mux_channel_deselect :: "'w i2c_bus \<Rightarrow> i2c_mux_device \<Rightarrow> int \<Rightarrow> 'w \<Rightarrow> (int \<times> 'w) option" where
  "onlp_i2c_mux_channel_deselect B mux channel w = onlp_i2c_mux_deselect B mux w"

fun channels_loop ::
  "(i2c_mux_device \<Rightarrow> int \<Rightarrow> 'w \<Rightarrow> (int \<times> 'w) option) \<Rightarrow> i2c_mux_channel list \<Rightarrow> 'w \<Rightarrow> (int \<times> 'w) option" where
  "channels_loop f [] w = Some (0, w)"
| "channels_loop f ((None, c) # mcs) w = channels_loop f mcs w"
| "channels_loop f ((Some mux, c) # mcs) w =
     do { (rv, w1) \<leftarrow> f mux c w;
          if rv < 0 then Some (rv, w1) else channels_loop f mcs w1 }"

definition onlp_i2c_mux_channels_select :: "'w i2c_bus \<Rightarrow> i2c_mux_channel list \<Rightarrow> 'w \<Rightarrow> (int \<times> 'w) option" where
  "onlp_i2c_mux_channels_select B mcs w = channels_loop (onlp_i2c_mux_channel_select B) mcs w"

definition onlp_i2c_mux_channels_deselect :: "'w i2c_bus \<Rightarrow> i2c_mux_channel list \<Rightarrow> 'w \<Rightarrow> (int \<times> 'w) option" where
  "onlp_i2c_mux_channels_deselect B mcs w = channels_loop (onlp_i2c_mux_channel_deselect B) (rev mcs) w"

definition onlp_i2c_dev_mux_channels_select :: "'w i2c_bus \<Rightarrow> i2c_dev \<Rightarrow> 'w \<Rightarrow> (int \<times> 'w) option" where
  "onlp_i2c_dev_mux_channels_select B dev w =
     (case dev_pchannels dev of
        Some p \<Rightarrow> onlp_i2c_mux_channels_select B p w
      | None \<Rightarrow> onlp_i2c_mux_channels_select B (dev_ichannels dev) w)"

definition onlp_i2c_dev_mux_channels_deselect :: "'w i2c_bus \<Rightarrow> i2c_dev \<Rightarrow> 'w \<Rightarrow> (int \<times> 'w) option" where
  "onlp_i2c_dev_mux_channels_deselect B dev w =
     (case dev_pchannels dev of
        Some p \<Rightarrow> onlp_i2c_mux_channels_deselect B p w
      | None \<Rightarrow> onlp_i2c_mux_channels_deselect B (dev_ichannels dev) w)"

definition dev_mux_channels_select :: "'w i2c_bus \<Rightarrow> i2c_dev \<Rightarrow> u32 \<Rightarrow> 'w \<Rightarrow> (int \<times> 'w) option" where
  "dev_mux_channels_select B dev flags w =
     (if has flags ONLP_I2C_F_NO_MUX_SELECT then Some (0, w) else onlp_i2c_dev_mux_channels_select B dev w)"

definition dev_mux_channels_deselect :: "'w i2c_bus \<Rightarrow> i2c_dev \<Rightarrow> u32 \<Rightarrow> 'w \<Rightarrow> (int \<times> 'w) option" where
  "dev_mux_channels_deselect B dev flags w =
     (if has flags ONLP_I2C_F_NO_MUX_DESELECT then Some (0, w) else onlp_i2c_dev_mux_channels_deselect B dev w)"

section \<open>Devices behind multiplexers\<close>

definition onlp_i2c_dev_read ::
  "'w i2c_bus \<Rightarrow> i2c_dev \<Rightarrow> u8 \<Rightarrow> int \<Rightarrow> u8 list \<Rightarrow> u32 \<Rightarrow> 'w \<Rightarrow> (int \<times> u8 list \<times> 'w) option" where
  "onlp_i2c_dev_read B dev offset sz rdata flags w =
     do { (error, w1) \<leftarrow> dev_mux_channels_select B dev flags w;
          if error < 0 then Some (error, rdata, w1)
          else
            do { (rv, rdata, w2) \<leftarrow>
                   (if has flags ONLP_I2C_F_USE_BLOCK_READ
                    then onlp_i2c_block_read B (dev_bus dev) (dev_addr dev) offset sz rdata flags w1
                    else onlp_i2c_read B (dev_bus dev) (dev_addr dev) offset sz rdata flags w1);
                 if rv < 0 then Some (rv, rdata, w2)
                 else
                   do { (error, w3) \<leftarrow> dev_mux_channels_deselect B dev flags w2;
                        Some (if error < 0 then (error, rdata, w3) else (rv, rdata, w3)) } } }"

definition onlp_i2c_dev_write ::
  "'w i2c_bus \<Rightarrow> i2c_dev \<Rightarrow> u8 \<Rightarrow> int \<Rightarrow> u8 list \<Rightarrow> u32 \<Rightarrow> 'w \<Rightarrow> (int \<times> 'w) option" where
  "onlp_i2c_dev_write B dev offset sz data flags w =
     do { (error, w1) \<leftarrow> dev_mux_channels_select B dev flags w;
          if error < 0 then Some (error, w1)
          else
            do { (rv, w2) \<leftarrow> onlp_i2c_write B (dev_bus dev) (dev_addr dev) offset sz data flags w1;
                 if rv < 0 then Some (rv, w2)
                 else
                   do { (error, w3) \<leftarrow> dev_mux_channels_deselect B dev flags w2;
                        Some (if error < 0 then (error, w3) else (rv, w3)) } } }"

definition onlp_i2c_dev_readb :: "'w i2c_bus \<Rightarrow> i2c_dev \<Rightarrow> u8 \<Rightarrow> u32 \<Rightarrow> 'w \<Rightarrow> (int \<times> 'w) option" where
  "onlp_i2c_dev_readb B dev offset flags w =
     do { (error, w1) \<leftarrow> dev_mux_channels_select B dev flags w;
          if error < 0 then Some (error, w1)
          else
            do { (rv, w2) \<leftarrow> onlp_i2c_readb B (dev_bus dev) (dev_addr dev) offset flags w1;
                 if rv < 0 then Some (rv, w2)
                 else
                   do { (error, w3) \<leftarrow> dev_mux_channels_deselect B dev flags w2;
                        Some (if error < 0 then (error, w3) else (rv, w3)) } } }"

definition onlp_i2c_dev_writeb :: "'w i2c_bus \<Rightarrow> i2c_dev \<Rightarrow> u8 \<Rightarrow> u8 \<Rightarrow> u32 \<Rightarrow> 'w \<Rightarrow> (int \<times> 'w) option" where
  "onlp_i2c_dev_writeb B dev offset byte flags w =
     do { (error, w1) \<leftarrow> dev_mux_channels_select B dev flags w;
          if error < 0 then Some (error, w1)
          else
            do { (rv, w2) \<leftarrow> onlp_i2c_writeb B (dev_bus dev) (dev_addr dev) offset byte flags w1;
                 if rv < 0 then Some (rv, w2)
                 else
                   do { (error, w3) \<leftarrow> dev_mux_channels_deselect B dev flags w2;
                        Some (if error < 0 then (error, w3) else (rv, w3)) } } }"

definition onlp_i2c_dev_readw :: "'w i2c_bus \<Rightarrow> i2c_dev \<Rightarrow> u8 \<Rightarrow> u32 \<Rightarrow> 'w \<Rightarrow> (int \<times> 'w) option" where
  "onlp_i2c_dev_readw B dev offset flags w =
     do { (error, w1) \<leftarrow> dev_mux_channels_select B dev flags w;
          if error < 0 then Some (error, w1)
          else
            do { (rv, w2) \<leftarrow> onlp_i2c_readw B (dev_bus dev) (dev_addr dev) offset flags w1;
                 if rv < 0 then Some (rv, w2)
                 else
                   do { (error, w3) \<leftarrow> dev_mux_channels_deselect B dev flags w2;
                        Some (if error < 0 then (error, w3) else (rv, w3)) } } }"

definition onlp_i2c_dev_writew :: "'w i2c_bus \<Rightarrow> i2c_dev \<Rightarrow> u8 \<Rightarrow> u16 \<Rightarrow> u32 \<Rightarrow> 'w \<Rightarrow> (int \<times> 'w) option" where
  "onlp_i2c_dev_writew B dev offset word flags w =
     do { (error, w1) \<leftarrow> dev_mux_channels_select B dev flags w;
          if error < 0 then Some (error, w1)
          else
            do { (rv, w2) \<leftarrow> onlp_i2c_writew B (dev_bus dev) (dev_addr dev) offset word flags w1;
                 if rv < 0 then Some (rv, w2)
                 else
                   do { (error, w3) \<leftarrow> dev_mux_channels_deselect B dev flags w2;
                        Some (if error < 0 then (error, w3) else (rv, w3)) } } }"

end
