(* ===== verification/FileProps.thy ===== *)
theory FileProps
  imports File
begin

text \<open>
  What the file helpers guarantee on ordinary files: an integer that is written can be read back,
  the largest of several readings, and the searches after which the name of the file is unknown.
\<close>

section \<open>Decimal numbers\<close>

lemma digit_byte:
  assumes "d < 10"
  shows "is_digit (word_of_nat (48 + d))" "uint (word_of_nat (48 + d) :: u8) = 48 + int d"
proof -
  have "unat (word_of_nat (48 + d) :: u8) = 48 + d"
    using assms by (simp only: unsigned_of_nat) (simp add: take_bit_nat_eq_self)
  then show "uint (word_of_nat (48 + d) :: u8) = 48 + int d"
    by (metis of_nat_add of_nat_numeral uint_nat)
  show "is_digit (word_of_nat (48 + d))"
    using \<open>unat (word_of_nat (48 + d) :: u8) = 48 + d\<close> assms
    by (simp add: is_digit_def word_le_nat_alt)
qed

lemma atoi_digits_dec_nat:
  "atoi_digits acc (dec_nat n @ s) = atoi_digits (acc * 10 ^ length (dec_nat n) + int n) s"
proof (induction n arbitrary: acc s rule: dec_nat.induct)
  case (1 n)
  show ?case
  proof (cases "n < 10")
    case True
    then show ?thesis
      by (subst (1 2) dec_nat.simps) (simp add: digit_byte del: of_nat_add)
  next
    case False
    have "int n = int (n div 10) * 10 + int (n mod 10)"
      by (metis div_mult_mod_eq of_nat_add of_nat_mult of_nat_numeral)
    moreover have "n mod 10 < 10" by simp
    ultimately show ?thesis
      using False 1 [OF False]
      by (subst (1 2) dec_nat.simps) (simp add: digit_byte algebra_simps del: of_nat_add)
  qed
qed

lemma dec_nat_digits: "b \<in> set (dec_nat n) \<Longrightarrow> is_digit b"
proof (induction n rule: dec_nat.induct)
  case (1 n)
  show ?case
  proof (cases "n < 10")
    case True
    then show ?thesis using 1(2) by (subst (asm) dec_nat.simps) (simp add: digit_byte del: of_nat_add)
  next
    case False
    have "n mod 10 < 10" by simp
    then show ?thesis
      using 1(2) False 1(1) [OF False]
      by (subst (asm) dec_nat.simps) (auto simp: digit_byte simp del: of_nat_add)
  qed
qed

lemma dec_nat_nonempty: "dec_nat n \<noteq> []"
  by (subst dec_nat.simps) simp

lemma length_dec_nat: "n < 10 ^ Suc k \<Longrightarrow> length (dec_nat n) \<le> Suc k"
proof (induction k arbitrary: n)
  case 0
  then show ?case by (subst dec_nat.simps) simp
next
  case (Suc k)
  then have "n div 10 < 10 ^ Suc k" by (simp add: less_mult_imp_div_less)
  then have "length (dec_nat (n div 10)) \<le> Suc k" by (rule Suc.IH)
  then show ?case by (subst dec_nat.simps) simp
qed

lemma digit_not_space: "is_digit b \<Longrightarrow> \<not> is_space b \<and> b \<noteq> 0x2D \<and> b \<noteq> 0x2B \<and> b \<noteq> 0"
  by (auto simp: is_digit_def is_space_def word_le_nat_alt)

lemma atoi_dec_int:
  assumes "\<not> is_digit b"
  shows "atoi (dec_int v @ b # s) = Some v"
proof -
  have digits: "atoi_digits 0 (dec_nat n @ b # s) = Some (int n)" for n
    using assms by (simp add: atoi_digits_dec_nat)
  obtain d ds where nat: "dec_nat (nat v) = d # ds" and "is_digit d"
    using dec_nat_nonempty dec_nat_digits by (metis list.exhaust list.set_intros(1))
  then show ?thesis
    using digits [of "nat v"] digits [of "nat (- v)"] digit_not_space [of d]
    by (auto simp: atoi_def dec_int_def is_space_def)
qed

lemma dec_int_nonzero: "0 \<notin> set (dec_int v)"
  by (auto simp: dec_int_def is_digit_def dest!: dec_nat_digits)

lemma length_dec_int:
  assumes "- (2 ^ 31) \<le> v" and "v < 2 ^ 31"
  shows "length (dec_int v) \<le> 11"
proof -
  have "length (dec_nat n) \<le> 10" if "n \<le> 2147483648" for n
    using length_dec_nat [of n 9] that by simp
  moreover have "nat v \<le> 2147483648" "nat (- v) \<le> 2147483648" using assms by simp_all
  ultimately have "length (dec_nat (nat v)) \<le> 10" "length (dec_nat (nat (- v))) \<le> 10" by blast+
  then show ?thesis by (simp add: dec_int_def)
qed

section \<open>Ordinary files\<close>

text \<open>
  What POSIX promises for an ordinary file that exists: it opens with a positive descriptor, a read
  gives its first bytes, and a write without \<open>O_TRUNC\<close> replaces as many bytes as it has and keeps the
  rest. \<open>content\<close> gives the files of a state.
\<close>

definition file_laws :: "'w fs \<Rightarrow> ('w \<Rightarrow> string \<Rightarrow> u8 list option) \<Rightarrow> bool" where
  "file_laws F content \<longleftrightarrow>
     (\<forall>w p bs. content w p = Some bs \<longrightarrow>
        (\<exists>n. fs_stat F p w = Some (False, n)) \<and>
        (\<exists>fd w1. fs_open F p O_RDONLY w = (fd, w1) \<and> 0 < fd \<and>
           (\<forall>mx. \<exists>w2. fs_read F fd mx w1 = (int (length (take mx bs)), take mx bs, w2) \<and>
                 content (fs_close F fd w2) = content w)) \<and>
        (\<exists>fd w1. fs_open F p O_WRONLY w = (fd, w1) \<and> 0 < fd \<and>
           (\<forall>d. \<exists>w2. fs_write F fd d w1 = (int (length d), w2) \<and>
                content (fs_close F fd w2) = (content w)(p \<mapsto> d @ drop (length d) bs))))"

definition plain_path :: "string \<Rightarrow> bool" where
  "plain_path p \<longleftrightarrow> CHR ''*'' \<notin> set p \<and> length p \<le> 4094"

lemma vopen_file:
  assumes "file_laws F content" and "content w p = Some bs" and "plain_path p"
    and "fs_open F p fl w = (fd, w1)" and "0 < fd"
  shows "vopen F dst fl p w = (fd, Str p, w1)"
proof -
  obtain n where "fs_stat F p w = Some (False, n)"
    using assms(1, 2) unfolding file_laws_def by blast
  then show ?thesis
    using assms(3-5) by (simp add: vopen_def plain_path_def)
qed

lemma file_vread:
  assumes "file_laws F content" and "content w p = Some bs" and "plain_path p" and "bs \<noteq> []" and "0 < mx"
  obtains w2 where "onlp_file_vread F data mx len p w =
      (0, take mx bs @ replicate (mx - length bs) 0, int (length (take mx bs)), w2)"
    and "content w2 = content w"
proof -
  obtain fd w1 where opened: "fs_open F p O_RDONLY w = (fd, w1)" "0 < fd"
    and "\<forall>mx. \<exists>w2. fs_read F fd mx w1 = (int (length (take mx bs)), take mx bs, w2) \<and>
                 content (fs_close F fd w2) = content w"
    using assms(1, 2) unfolding file_laws_def by blast
  then obtain w2 where read: "fs_read F fd mx w1 = (int (length (take mx bs)), take mx bs, w2)"
    and content: "content (fs_close F fd w2) = content w" by blast
  have "mx - min (length bs) mx = mx - length bs" by simp
  then have "onlp_file_vread F data mx len p w =
      (0, take mx bs @ replicate (mx - length bs) 0, int (length (take mx bs)), fs_close F fd w2)"
    using vopen_file [OF assms(1-3) opened, of Null] read opened(2) assms(4, 5)
    by (simp add: onlp_file_vread_def)
  then show ?thesis using that content by blast
qed

lemma file_vwrite:
  assumes "file_laws F content" and "content w p = Some bs" and "plain_path p"
  obtains w2 where "onlp_file_vwrite F d p w = (0, w2)"
    and "content w2 = (content w)(p \<mapsto> d @ drop (length d) bs)"
proof -
  obtain fd w1 where opened: "fs_open F p O_WRONLY w = (fd, w1)" "0 < fd"
    and "\<forall>d. \<exists>w2. fs_write F fd d w1 = (int (length d), w2) \<and>
                content (fs_close F fd w2) = (content w)(p \<mapsto> d @ drop (length d) bs)"
    using assms(1, 2) unfolding file_laws_def by blast
  then obtain w2 where "fs_write F fd d w1 = (int (length d), w2)"
    and "content (fs_close F fd w2) = (content w)(p \<mapsto> d @ drop (length d) bs)" by blast
  then show ?thesis
    using that vopen_file [OF assms(1-3) opened, of Null] opened(2)
    by (simp add: onlp_file_vwrite_def)
qed

text \<open>A file that holds a number, up to the first byte that is no digit.\<close>

definition holds_number :: "u8 list \<Rightarrow> int \<Rightarrow> bool" where
  "holds_number bs v \<longleftrightarrow>
     - (2 ^ 31) \<le> v \<and> v < 2 ^ 31 \<and> (\<exists>b rest. bs = dec_int v @ b # rest \<and> \<not> is_digit b)"

lemma file_read_number:
  assumes "file_laws F content" and "content w p = Some bs" and "plain_path p" and "holds_number bs v"
  obtains w2 where "onlp_file_read_int F v0 junk p w = Some (0, v, w2)" and "content w2 = content w"
proof -
  obtain b rest where bs: "bs = dec_int v @ b # rest" and "\<not> is_digit b"
    and "length (dec_int v) \<le> 11"
    using assms(4) length_dec_int unfolding holds_number_def by blast
  then have "length (dec_int v) < 32" by simp
  then obtain k where "32 = Suc (length (dec_int v) + k)" using less_imp_Suc_add by blast
  then have k: "32 - length (dec_int v) = Suc k" by simp
  obtain w2 where "onlp_file_vread F junk 32 0 p w =
      (0, take 32 bs @ replicate (32 - length bs) 0, int (length (take 32 bs)), w2)"
    and content: "content w2 = content w"
    using file_vread [OF assms(1-3), of 32] bs by auto
  moreover have "take 32 bs = dec_int v @ b # take k rest"
    using bs \<open>length (dec_int v) \<le> 11\<close> k by simp
  ultimately have "onlp_file_read_int F v0 junk p w = Some (0, v, w2)"
    using atoi_dec_int [OF \<open>\<not> is_digit b\<close>]
    by (simp add: onlp_file_read_int_def onlp_file_vread_int_def)
  then show ?thesis using that content by blast
qed

text \<open>
  Integer round trip. On a system that treats ordinary files as POSIX says, an integer in the
  range of \<open>int\<close> that \<open>onlp_file_write_int\<close> writes to an existing file is the one
  \<open>onlp_file_read_int\<close> reads back, however long the old contents were: the file is not truncated, but
  the terminating zero that is written with the string ends the number. No other file changes.
\<close>

theorem file_int_roundtrip:
  assumes "file_laws F content" and "content w p = Some old" and "plain_path p"
    and "- (2 ^ 31) \<le> v" and "v < 2 ^ 31"
  shows "\<exists>w1 w2. onlp_file_write_int F v p w = (0, w1)
           \<and> onlp_file_read_int F v0 junk p w1 = Some (0, v, w2)
           \<and> content w2 = (content w)(p \<mapsto> dec_int v @ 0 # drop (length (dec_int v) + 1) old)"
proof -
  have "takeWhile (\<lambda>b. b \<noteq> 0) (dec_int v) = dec_int v"
    using dec_int_nonzero [of v] by (auto simp: takeWhile_eq_all_conv)
  then obtain w1 where w1: "onlp_file_write_int F v p w = (0, w1)"
    and content: "content w1 = (content w)(p \<mapsto> dec_int v @ 0 # drop (length (dec_int v) + 1) old)"
    using file_vwrite [OF assms(1-3), of "dec_int v @ [0]"]
    by (auto simp: onlp_file_write_int_def onlp_file_vwrite_int_def onlp_file_vwrite_str_def)
  have "holds_number (dec_int v @ 0 # drop (length (dec_int v) + 1) old) v"
    using assms(4, 5) by (auto simp: holds_number_def is_digit_def)
  moreover have "content w1 p = Some (dec_int v @ 0 # drop (length (dec_int v) + 1) old)"
    using content by simp
  ultimately obtain w2 where "onlp_file_read_int F v0 junk p w1 = Some (0, v, w2)" and "content w2 = content w1"
    using file_read_number [OF assms(1) _ assms(3)] by blast
  then show ?thesis using w1 content by simp
qed

text \<open>An in-memory system: the files, and the name opened last.\<close>

type_synonym mem = "(string \<Rightarrow> u8 list option) \<times> string"

definition mem_fs :: "mem fs" where
  "mem_fs =
     \<lparr> fs_stat = (\<lambda>p (fs, _). map_option (\<lambda>bs. (False, int (length bs))) (fs p)),
       fs_open = (\<lambda>p fl (fs, _). (if fs p = None then -1 else 3, (fs, p))),
       fs_socket = (\<lambda>w. (-1, w)),
       fs_connect = (\<lambda>fd p w. (-1, w)),
       fs_read = (\<lambda>fd mx (fs, p). case fs p of Some bs \<Rightarrow> (int (length (take mx bs)), take mx bs, (fs, p))
                                               | None \<Rightarrow> (-1, [], (fs, p))),
       fs_write = (\<lambda>fd d (fs, p). case fs p of Some bs \<Rightarrow> (int (length d), (fs(p \<mapsto> d @ drop (length d) bs), p))
                                               | None \<Rightarrow> (-1, (fs, p))),
       fs_close = (\<lambda>fd w. w),
       fs_walk = (\<lambda>root w. Some []) \<rparr>"

lemma mem_fs_laws: "file_laws mem_fs fst"
  by (auto simp: file_laws_def mem_fs_def)

theorem file_int_roundtrip_witness:
  "\<exists>w1 w2. onlp_file_write_int mem_fs (-42) ''/tmp/x'' ([''/tmp/x'' \<mapsto> [0x31, 0x32, 0x33, 0x34, 0x35, 0x36]], '''') = (0, w1)
     \<and> onlp_file_read_int mem_fs 0 [] ''/tmp/x'' w1 = Some (0, -42, w2)
     \<and> fst w2 = [''/tmp/x'' \<mapsto> [0x2D, 0x34, 0x32, 0, 0x35, 0x36]]"
proof -
  have "dec_int (-42) = [0x2D, 0x34, 0x32]"
    by (simp add: dec_int_def dec_nat.simps)
  then show ?thesis
    using file_int_roundtrip [OF mem_fs_laws, where p = "''/tmp/x''" and v = "-42" and ?v0.0 = 0 and junk = "[]"
        and w = "([''/tmp/x'' \<mapsto> [0x31, 0x32, 0x33, 0x34, 0x35, 0x36]], '''')"]
    by (simp add: plain_path_def)
qed

lemma read_int_max_loop_numbers:
  assumes "file_laws F content"
  shows "list_all2 (\<lambda>p v. plain_path p \<and> (\<exists>bs. content w p = Some bs \<and> holds_number bs v)) ps vs
      \<Longrightarrow> \<exists>w1. read_int_max_loop F junk mx ps w = Some (0, foldl max mx vs, w1) \<and> content w1 = content w"
proof (induction ps arbitrary: vs mx w)
  case Nil
  then show ?case by simp
next
  case (Cons p ps)
  then obtain v vs' bs where vs: "vs = v # vs'" and "content w p = Some bs" "plain_path p" "holds_number bs v"
    and rest: "list_all2 (\<lambda>p v. plain_path p \<and> (\<exists>bs. content w p = Some bs \<and> holds_number bs v)) ps vs'"
    by (auto simp: list_all2_Cons1)
  then obtain w1 where "onlp_file_read_int F 0 junk p w = Some (0, v, w1)" and same: "content w1 = content w"
    using file_read_number [OF assms] by metis
  moreover obtain w2 where "read_int_max_loop F junk (max mx v) ps w1 = Some (0, foldl max (max mx v) vs', w2)"
    and "content w2 = content w1"
    using Cons.IH [of w1 vs' "max mx v"] rest same by auto
  moreover have "(if mx < v then v else mx) = max mx v" by simp
  ultimately show ?case using vs by simp
qed

text \<open>
  The largest reading. When every file of a non-empty list holds a number,
  \<open>onlp_file_read_int_max\<close> succeeds and stores the largest of zero and the numbers: readings that are
  all negative are reported as zero.
\<close>

theorem file_read_int_max_of_numbers:
  assumes "file_laws F content" and "ps \<noteq> []"
    and "list_all2 (\<lambda>p v. plain_path p \<and> (\<exists>bs. content w p = Some bs \<and> holds_number bs v)) ps vs"
  shows "\<exists>w1. onlp_file_read_int_max F junk (Some v0) (Some ps) w = Some (0, Some (Max (set (0 # vs))), w1)
           \<and> content w1 = content w"
proof -
  have "foldl max 0 vs = Max (set (0 # vs))"
  proof -
    have "(\<lambda>x s. max s x) = (max :: int \<Rightarrow> int \<Rightarrow> int)" by (simp add: fun_eq_iff max.commute)
    then show ?thesis by (simp only: Max.set_eq_fold foldl_conv_fold)
  qed
  then show ?thesis
    using read_int_max_loop_numbers [OF assms(1, 3), of junk 0] assms(2)
    by (cases ps) (auto simp: onlp_file_read_int_max_def simp del: read_int_max_loop.simps)
qed

theorem file_read_int_max_of_numbers_witness:
  "\<exists>w1. onlp_file_read_int_max mem_fs [] (Some 7) (Some [''a'', ''b''])
          ([''a'' \<mapsto> [0x2D, 0x35, 0x0A], ''b'' \<mapsto> [0x2D, 0x33, 0x0A]], '''') = Some (0, Some 0, w1)
      \<and> fst w1 = [''a'' \<mapsto> [0x2D, 0x35, 0x0A], ''b'' \<mapsto> [0x2D, 0x33, 0x0A]]"
proof -
  have num: "holds_number [0x2D, 0x35, 0x0A] (-5)" "holds_number [0x2D, 0x33, 0x0A] (-3)"
    by (simp_all add: holds_number_def dec_int_def dec_nat.simps is_digit_def)
  then show ?thesis
    using file_read_int_max_of_numbers [OF mem_fs_laws, where ps = "[''a'', ''b'']" and vs = "[-5, -3]"
        and junk = "[]" and ?v0.0 = 7
        and w = "([''a'' \<mapsto> [0x2D, 0x35, 0x0A], ''b'' \<mapsto> [0x2D, 0x33, 0x0A]], '''')"]
    by (simp add: plain_path_def)
qed

text \<open>
  A failed search. Opening a file through \<open>onlp_file_vopen\<close> is undefined exactly when the path
  has an asterisk and the search below its first part finds no such file: the variable that should
  hold the name was never assigned, and the code prints and frees it. In every other case the call
  returns.
\<close>

theorem file_vopen_failed_search:
  "onlp_file_vopen F flags path w = None \<longleftrightarrow>
     CHR ''*'' \<in> set (take 4094 path) \<and>
     snd (onlp_file_find F (takeWhile (\<lambda>c. c \<noteq> CHR ''*'') (take 4094 path))
            (tl (dropWhile (\<lambda>c. c \<noteq> CHR ''*'') (take 4094 path))) w) = None"
  by (auto simp: onlp_file_vopen_def vopen_def Let_def split: option.splits prod.splits)

end
