(* ===== verification/I2cProps.thy ===== *)
theory I2cProps
  imports I2c FileProps
begin

text \<open>
  What the bus functions guarantee: the bytes of the device arrive over both kinds of read as long
  as fewer attempts fail than are retried, multiplexers are switched on the way in and back on the
  way out, and every descriptor is closed.
\<close>

section \<open>A bus\<close>

text \<open>
  \<open>at w fd\<close> is the bus and address a descriptor talks to, \<open>obs w\<close> the registers written so far,
  by bus, address and register, and \<open>bad w\<close> bounds the transfers that will still fail. What a read
  gives may depend on all registers: a device behind a multiplexer answers only while it is
  selected.
\<close>

type_synonym target = "string \<times> u8"
type_synonym regs = "target \<Rightarrow> u8 \<Rightarrow> u8"

definition quiet :: "('w \<Rightarrow> int \<Rightarrow> target) \<Rightarrow> ('w \<Rightarrow> regs) \<Rightarrow> ('w \<Rightarrow> nat) \<Rightarrow> 'w \<Rightarrow> 'w \<Rightarrow> bool" where
  "quiet at obs bad w w1 \<longleftrightarrow> at w1 = at w \<and> obs w1 = obs w \<and> bad w1 \<le> bad w"

definition i2c_laws ::
  "'w i2c_bus \<Rightarrow> ('w \<Rightarrow> int \<Rightarrow> target) \<Rightarrow> ('w \<Rightarrow> regs) \<Rightarrow> ('w \<Rightarrow> nat) \<Rightarrow> bool" where
  "i2c_laws B at obs bad \<longleftrightarrow>
     (\<forall>bus w. \<exists>n. fs_stat (bus_fs B) (i2c_path bus) w = Some (False, n)) \<and>
     (\<forall>bus fl w. \<exists>fd w1. fs_open (bus_fs B) (i2c_path bus) fl w = (fd, w1) \<and> 0 < fd \<and>
        fst (at w1 fd) = i2c_path bus \<and> obs w1 = obs w \<and> bad w1 \<le> bad w) \<and>
     (\<forall>fd a w. \<exists>w1. i2c_ioctl B fd I2C_TENBIT a w = (0, w1) \<and> quiet at obs bad w w1) \<and>
     (\<forall>fd a w. \<exists>w1. i2c_ioctl B fd I2C_PEC a w = (0, w1) \<and> quiet at obs bad w w1) \<and>
     (\<forall>fd r a w. r = I2C_SLAVE \<or> r = I2C_SLAVE_FORCE \<longrightarrow>
        (\<exists>w1. i2c_ioctl B fd r a w = (0, w1) \<and> at w1 fd = (fst (at w fd), word_of_int a) \<and>
              obs w1 = obs w \<and> bad w1 \<le> bad w)) \<and>
     (\<forall>fd r v w. \<exists>w1. smbus_write_byte_data B fd r v w = (0, w1) \<and> at w1 = at w \<and>
        obs w1 = (obs w)(at w fd := (obs w (at w fd))(r := v)) \<and> bad w1 \<le> bad w) \<and>
     (\<forall>fd w. obs (fs_close (bus_fs B) fd w) = obs w \<and> bad (fs_close (bus_fs B) fd w) \<le> bad w)"

lemma i2c_lawsD:
  assumes "i2c_laws B at obs bad"
  shows "\<forall>bus w. \<exists>n. fs_stat (bus_fs B) (i2c_path bus) w = Some (False, n)"
    and "\<forall>bus fl w. \<exists>fd w1. fs_open (bus_fs B) (i2c_path bus) fl w = (fd, w1) \<and> 0 < fd \<and>
        fst (at w1 fd) = i2c_path bus \<and> obs w1 = obs w \<and> bad w1 \<le> bad w"
    and "\<forall>fd a w. \<exists>w1. i2c_ioctl B fd I2C_TENBIT a w = (0, w1) \<and> quiet at obs bad w w1"
    and "\<forall>fd a w. \<exists>w1. i2c_ioctl B fd I2C_PEC a w = (0, w1) \<and> quiet at obs bad w w1"
    and "\<forall>fd r a w. r = I2C_SLAVE \<or> r = I2C_SLAVE_FORCE \<longrightarrow>
        (\<exists>w1. i2c_ioctl B fd r a w = (0, w1) \<and> at w1 fd = (fst (at w fd), word_of_int a) \<and>
              obs w1 = obs w \<and> bad w1 \<le> bad w)"
    and "\<forall>fd r v w. \<exists>w1. smbus_write_byte_data B fd r v w = (0, w1) \<and> at w1 = at w \<and>
        obs w1 = (obs w)(at w fd := (obs w (at w fd))(r := v)) \<and> bad w1 \<le> bad w"
    and "\<forall>fd w. obs (fs_close (bus_fs B) fd w) = obs w \<and> bad (fs_close (bus_fs B) fd w) \<le> bad w"
  using assms unfolding i2c_laws_def by - (elim conjE, assumption)+

lemmas i2c_law = i2c_lawsD [rule_format]

definition i2c_read_laws ::
  "'w i2c_bus \<Rightarrow> ('w \<Rightarrow> int \<Rightarrow> target) \<Rightarrow> ('w \<Rightarrow> regs) \<Rightarrow> ('w \<Rightarrow> nat) \<Rightarrow> (regs \<Rightarrow> target \<Rightarrow> u8 \<Rightarrow> u8) \<Rightarrow> bool" where
  "i2c_read_laws B at obs bad rdv \<longleftrightarrow>
     (\<forall>fd r w. \<exists>rv w1. smbus_read_byte_data B fd r w = (rv, w1) \<and> quiet at obs bad w w1 \<and>
        (rv < 0 \<and> bad w1 < bad w \<or> rv = uint (rdv (obs w) (at w fd) r))) \<and>
     (\<forall>fd r n w. n \<le> I2C_BLOCK_SIZE \<longrightarrow>
        (\<exists>rv bs w1. smbus_read_i2c_block_data B fd r n w = (rv, bs, w1) \<and> quiet at obs bad w w1 \<and>
           (rv < 0 \<and> bs = [] \<and> bad w1 < bad w \<or>
            rv = int n \<and> bs = map (\<lambda>i. rdv (obs w) (at w fd) (r + word_of_nat i)) [0..<n])))"

definition bus_number :: "int \<Rightarrow> bool" where
  "bus_number bus \<longleftrightarrow> 0 \<le> bus \<and> bus < 2 ^ 31"

lemma i2c_path_plain:
  assumes "bus_number bus"
  shows "plain_path (i2c_path bus)"
proof -
  have "char_of (unat b) \<noteq> CHR ''*''" if "b \<in> set (dec_int bus)" for b :: u8
  proof -
    have "is_digit b"
      using that assms dec_nat_digits by (auto simp: dec_int_def bus_number_def)
    moreover have "unat b < 256" using unat_u8 [of b] by simp
    ultimately have code: "of_char (char_of (unat b) :: char) = unat b" "48 \<le> unat b"
      by (simp_all add: is_digit_def word_le_nat_alt)
    show ?thesis
    proof
      assume "char_of (unat b) = CHR ''*''"
      then have "of_char (char_of (unat b) :: char) = (42 :: nat)" by simp
      then show False using code by simp
    qed
  qed
  then have "CHR ''*'' \<notin> set (map (\<lambda>b. char_of (unat b)) (dec_int bus))" by fastforce
  moreover have "length (dec_int bus) \<le> 11"
    using assms length_dec_int by (simp add: bus_number_def)
  ultimately show ?thesis by (simp add: plain_path_def i2c_path_def)
qed

lemma i2c_open:
  assumes "i2c_laws B at obs bad" and "bus_number bus"
  obtains fd w1 where "onlp_i2c_open B bus addr flags w = Some (fd, w1)" and "0 < fd"
    and "at w1 fd = (i2c_path bus, addr)" and "obs w1 = obs w" and "bad w1 \<le> bad w"
proof -
  note laws = i2c_law [OF assms(1)]
  obtain n where "fs_stat (bus_fs B) (i2c_path bus) w = Some (False, n)" using laws(1) by blast
  moreover obtain fd w1 where fd: "fs_open (bus_fs B) (i2c_path bus) O_RDWR w = (fd, w1)" "0 < fd"
    and w1: "fst (at w1 fd) = i2c_path bus" "obs w1 = obs w" "bad w1 \<le> bad w"
    using laws(2) by blast
  ultimately have opened: "onlp_file_open (bus_fs B) O_RDWR (i2c_path bus) w = Some (fd, w1)"
    using i2c_path_plain [OF assms(2)]
    by (simp add: onlp_file_open_def onlp_file_vopen_def vopen_def plain_path_def)
  obtain w2 where w2: "i2c_ioctl B fd I2C_TENBIT (if has flags ONLP_I2C_F_TENBIT then 1 else 0) w1 = (0, w2)"
    "quiet at obs bad w1 w2" using laws(3) by blast
  obtain w3 where w3: "i2c_ioctl B fd I2C_PEC (if has flags ONLP_I2C_F_PEC then 1 else 0) w2 = (0, w3)"
    "quiet at obs bad w2 w3" using laws(4) by blast
  obtain w4 where w4: "i2c_ioctl B fd (if has flags ONLP_I2C_F_FORCE then I2C_SLAVE_FORCE else I2C_SLAVE)
      (uint addr) w3 = (0, w4)"
    "at w4 fd = (fst (at w3 fd), word_of_int (uint addr))" "obs w4 = obs w3" "bad w4 \<le> bad w3"
    using laws(5) [of "if has flags ONLP_I2C_F_FORCE then I2C_SLAVE_FORCE else I2C_SLAVE" fd "uint addr" w3]
    by (cases "has flags ONLP_I2C_F_FORCE") auto
  show ?thesis
  proof (rule that)
    show "onlp_i2c_open B bus addr flags w = Some (fd, w4)"
      using opened fd(2) w2(1) w3(1) w4(1) by (simp add: onlp_i2c_open_def del: O_RDWR_def)
    show "0 < fd" by (rule fd(2))
    show "at w4 fd = (i2c_path bus, addr)" "obs w4 = obs w" "bad w4 \<le> bad w"
      using w1 w2(2) w3(2) w4(2-4) by (simp_all add: quiet_def)
  qed
qed

section \<open>Reading\<close>

lemma quiet_trans: "quiet at obs bad w w1 \<Longrightarrow> quiet at obs bad w1 w2 \<Longrightarrow> quiet at obs bad w w2"
  by (auto simp: quiet_def)

lemma byte_retry_reads:
  assumes "i2c_read_laws B at obs bad rdv"
  shows "rv < 0 \<Longrightarrow> bad w < n \<Longrightarrow>
    \<exists>w1. byte_retry B fd r n rv w = (uint (rdv (obs w) (at w fd) r), w1) \<and> quiet at obs bad w w1"
proof (induction n arbitrary: rv w)
  case 0
  then show ?case by simp
next
  case (Suc n)
  obtain rv1 w1 where read: "smbus_read_byte_data B fd r w = (rv1, w1)" and quiet: "quiet at obs bad w w1"
    and cases: "rv1 < 0 \<and> bad w1 < bad w \<or> rv1 = uint (rdv (obs w) (at w fd) r)"
    using assms unfolding i2c_read_laws_def by blast
  show ?case
  proof (cases "rv1 < 0")
    case True
    then have "bad w1 < n" using cases Suc.prems by auto
    then obtain w2 where "byte_retry B fd r n rv1 w1 = (uint (rdv (obs w1) (at w1 fd) r), w2)"
      and "quiet at obs bad w1 w2"
      using Suc.IH [of rv1 w1] True by blast
    then show ?thesis
      using read quiet Suc.prems quiet_trans [OF quiet] by (auto simp: quiet_def)
  next
    case False
    then show ?thesis using read quiet cases Suc.prems by (cases n) auto
  qed
qed

lemma poke_append:
  "length pre = pos \<Longrightarrow> length old = length bytes \<Longrightarrow> poke (pre @ old @ post) pos bytes = Some (pre @ bytes @ post)"
  by (simp add: poke_def)

lemma read_loop_reads:
  assumes "i2c_read_laws B at obs bad rdv" and "read_retries flags = 16"
  shows "bad w < 16 \<Longrightarrow> length pre = i \<Longrightarrow> length old = n \<Longrightarrow>
    \<exists>w1. read_loop B fd flags offset i n (pre @ old @ post) w =
           Some (0, pre @ map (\<lambda>k. rdv (obs w) (at w fd) (offset + word_of_nat k)) [i..<i + n] @ post, w1)
         \<and> quiet at obs bad w w1"
proof (induction n arbitrary: pre i old w)
  case 0
  then show ?case by (simp add: quiet_def)
next
  case (Suc n)
  then obtain b old' where old: "old = b # old'" "length old' = n" by (cases old) auto
  let ?v = "rdv (obs w) (at w fd) (offset + word_of_nat i)"
  obtain w1 where retry: "byte_retry B fd (offset + word_of_nat i) (read_retries flags) (-1) w = (uint ?v, w1)"
    and quiet: "quiet at obs bad w w1"
    using byte_retry_reads [OF assms(1), of "-1" w 16] assms(2) Suc.prems(1) by auto
  have "poke (pre @ old @ post) i [?v] = Some ((pre @ [?v]) @ old' @ post)"
    using poke_append [of pre i "[b]" "[?v]" "old' @ post"] Suc.prems(2) old by simp
  moreover obtain w2 where "read_loop B fd flags offset (Suc i) n ((pre @ [?v]) @ old' @ post) w1 =
      Some (0, (pre @ [?v]) @ map (\<lambda>k. rdv (obs w1) (at w1 fd) (offset + word_of_nat k)) [Suc i..<Suc i + n] @ post, w2)"
    and "quiet at obs bad w1 w2"
    using Suc.IH [of w1 "pre @ [?v]" "Suc i" old'] quiet Suc.prems old(2) by (auto simp: quiet_def)
  moreover have "[i..<i + Suc n] = i # [Suc i..<Suc i + n]"
    by (simp add: upt_conv_Cons del: upt_Suc)
  ultimately show ?case
    using retry quiet quiet_trans [OF quiet]
    by (simp add: quiet_def del: upt_Suc)
qed

lemma block_retry_reads:
  assumes "i2c_read_laws B at obs bad rdv" and "\<not> has flags ONLP_I2C_F_USE_SMBUS_BLOCK_READ" and "m \<le> 32"
  shows "rv < 0 \<Longrightarrow> bad w < n \<Longrightarrow> length pre = pos \<Longrightarrow> length old = m \<Longrightarrow>
    \<exists>w1. block_retry B fd flags m pos n rv offset (pre @ old @ post) w =
           Some (int m, offset + word_of_nat m,
             pre @ map (\<lambda>k. rdv (obs w) (at w fd) (offset + word_of_nat k)) [0..<m] @ post, w1)
         \<and> quiet at obs bad w w1"
proof (induction n arbitrary: rv w)
  case 0
  then show ?case by simp
next
  case (Suc n)
  let ?bs = "map (\<lambda>k. rdv (obs w) (at w fd) (offset + word_of_nat k)) [0..<m]"
  obtain rv1 bs w1 where read: "smbus_read_i2c_block_data B fd offset m w = (rv1, bs, w1)"
    and quiet: "quiet at obs bad w w1"
    and cases: "rv1 < 0 \<and> bs = [] \<and> bad w1 < bad w \<or> rv1 = int m \<and> bs = ?bs"
    using assms(1, 3) unfolding i2c_read_laws_def I2C_BLOCK_SIZE_def by blast
  show ?case
  proof (cases "rv1 < 0")
    case True
    then have "bad w1 < n" and "bs = []" using cases Suc.prems by auto
    moreover have "poke (pre @ old @ post) pos [] = Some (pre @ old @ post)"
      using poke_append [of pre pos "[]" "[]" "old @ post"] Suc.prems by simp
    moreover obtain w2 where "block_retry B fd flags m pos n rv1 offset (pre @ old @ post) w1 =
        Some (int m, offset + word_of_nat m,
          pre @ map (\<lambda>k. rdv (obs w1) (at w1 fd) (offset + word_of_nat k)) [0..<m] @ post, w2)"
      and "quiet at obs bad w1 w2"
      using Suc.IH [of rv1 w1] True \<open>bad w1 < n\<close> Suc.prems by blast
    ultimately show ?thesis
      using read quiet Suc.prems(1) True assms(2) quiet_trans [OF quiet] by (auto simp: quiet_def)
  next
    case False
    then have "rv1 = int m" "bs = ?bs" using cases by auto
    moreover have "poke (pre @ old @ post) pos ?bs = Some (pre @ ?bs @ post)"
      using poke_append [of pre pos old ?bs post] Suc.prems by simp
    ultimately show ?thesis using read quiet Suc.prems(1) assms(2) by (cases n) simp_all
  qed
qed

lemma block_loop_reads:
  assumes "i2c_read_laws B at obs bad rdv" and "\<not> has flags ONLP_I2C_F_USE_SMBUS_BLOCK_READ"
    and "read_retries flags = 16"
  shows "bad w < 16 \<Longrightarrow> length pre = pos \<Longrightarrow> length old = count \<Longrightarrow>
    \<exists>w1. block_loop B fd flags count pos (offset + word_of_nat pos) (pre @ old @ post) w =
           Some (0, pre @ map (\<lambda>k. rdv (obs w) (at w fd) (offset + word_of_nat k)) [pos..<pos + count] @ post, w1)
         \<and> quiet at obs bad w w1"
proof (induction count arbitrary: pre pos old w rule: less_induct)
  case (less count)
  show ?case
  proof (cases "count = 0")
    case True
    then show ?thesis using less.prems by (simp add: block_loop.simps quiet_def)
  next
    case False
    define m where "m = (if count \<ge> 32 then 32 else count)"
    then have m: "m \<le> 32" "0 < m" "m \<le> count" "count - m < count" using False by auto
    let ?f = "\<lambda>k. rdv (obs w) (at w fd) (offset + word_of_nat k)"
    have shift: "map (\<lambda>k. rdv (obs w) (at w fd) (offset + word_of_nat pos + word_of_nat k)) [0..<m] = map ?f [pos..<pos + m]"
      by (rule nth_equalityI) (simp_all add: algebra_simps)
    obtain w1 where retry: "block_retry B fd flags m pos 16 (-1) (offset + word_of_nat pos) (pre @ take m old @ drop m old @ post) w =
        Some (int m, offset + word_of_nat pos + word_of_nat m, pre @ map ?f [pos..<pos + m] @ drop m old @ post, w1)"
      and quiet: "quiet at obs bad w w1"
      using block_retry_reads [OF assms(1, 2) m(1), of "-1" w 16 pre pos "take m old" fd "offset + word_of_nat pos" "drop m old @ post",
          unfolded shift] less.prems m(3) by fastforce
    have "bad w1 < 16" using quiet less.prems(1) by (simp add: quiet_def)
    then obtain w2 where "block_loop B fd flags (count - m) (pos + m) (offset + word_of_nat (pos + m))
        ((pre @ map ?f [pos..<pos + m]) @ drop m old @ post) w1 =
        Some (0, (pre @ map ?f [pos..<pos + m]) @ map (\<lambda>k. rdv (obs w1) (at w1 fd) (offset + word_of_nat k)) [pos + m..<pos + m + (count - m)] @ post, w2)"
      and quiet1: "quiet at obs bad w1 w2"
      using less.IH [OF m(4), of w1 "pre @ map ?f [pos..<pos + m]" "pos + m" "drop m old"] less.prems
      by (fastforce simp del: upt_Suc)
    moreover have "[pos..<pos + count] = [pos..<pos + m] @ [pos + m..<pos + m + (count - m)]"
      using upt_add_eq_append [of pos "pos + m" "count - m"] m by simp
    moreover have "pre @ old @ post = pre @ take m old @ drop m old @ post" by simp
    moreover have "at w1 = at w" "obs w1 = obs w" using quiet by (simp_all add: quiet_def)
    moreover have "offset + word_of_nat pos + word_of_nat m = offset + word_of_nat (pos + m)" by simp
    ultimately have "block_loop B fd flags count pos (offset + word_of_nat pos) (pre @ old @ post) w =
        Some (0, pre @ map ?f [pos..<pos + count] @ post, w2)"
      using retry False
      by (simp only: block_loop.simps [of B fd flags count] I2C_BLOCK_SIZE_def m_def [symmetric] assms(3) Let_def
          bind.bind_lunit if_False split_conv append_assoc map_append not_True_eq_False simp_thms)
    then show ?thesis using quiet_trans [OF quiet quiet1] by blast
  qed
qed

lemma i2c_read_bytes:
  assumes "i2c_laws B at obs bad" and "i2c_read_laws B at obs bad rdv" and "bus_number bus"
    and "\<not> has flags ONLP_I2C_F_DISABLE_READ_RETRIES" and "bad w < 16" and "nat sz \<le> length buf"
  obtains w1 where "onlp_i2c_read B bus addr offset sz buf flags w =
      Some (0, map (\<lambda>k. rdv (obs w) (i2c_path bus, addr) (offset + word_of_nat k)) [0..<nat sz] @ drop (nat sz) buf, w1)"
    and "obs w1 = obs w" and "bad w1 \<le> bad w"
proof -
  obtain fd w1 where opened: "onlp_i2c_open B bus addr flags w = Some (fd, w1)" "0 < fd"
    and w1: "at w1 fd = (i2c_path bus, addr)" "obs w1 = obs w" "bad w1 \<le> bad w"
    using i2c_open [OF assms(1, 3)] by metis
  have "read_retries flags = 16" using assms(4) by (simp add: read_retries_def)
  then obtain w2 where "read_loop B fd flags offset 0 (nat sz) ([] @ take (nat sz) buf @ drop (nat sz) buf) w1 =
      Some (0, [] @ map (\<lambda>k. rdv (obs w1) (at w1 fd) (offset + word_of_nat k)) [0..<0 + nat sz] @ drop (nat sz) buf, w2)"
    and "quiet at obs bad w1 w2"
    using read_loop_reads [OF assms(2), of flags w1 "[]" 0 "take (nat sz) buf" "nat sz"] assms(5, 6) w1(3) by fastforce
  then show ?thesis
    using that [of "i2c_close B fd w2"] opened w1 i2c_law(7) [OF assms(1), of fd w2]
    by (simp add: onlp_i2c_read_def i2c_close_def quiet_def)
qed

lemma i2c_block_read_bytes:
  assumes "i2c_laws B at obs bad" and "i2c_read_laws B at obs bad rdv" and "bus_number bus"
    and "\<not> has flags ONLP_I2C_F_DISABLE_READ_RETRIES" and "\<not> has flags ONLP_I2C_F_USE_SMBUS_BLOCK_READ"
    and "bad w < 16" and "nat sz \<le> length buf"
  obtains w1 where "onlp_i2c_block_read B bus addr offset sz buf flags w =
      Some (0, map (\<lambda>k. rdv (obs w) (i2c_path bus, addr) (offset + word_of_nat k)) [0..<nat sz] @ drop (nat sz) buf, w1)"
    and "obs w1 = obs w" and "bad w1 \<le> bad w"
proof -
  obtain fd w1 where opened: "onlp_i2c_open B bus addr flags w = Some (fd, w1)" "0 < fd"
    and w1: "at w1 fd = (i2c_path bus, addr)" "obs w1 = obs w" "bad w1 \<le> bad w"
    using i2c_open [OF assms(1, 3)] by metis
  have "read_retries flags = 16" using assms(4) by (simp add: read_retries_def)
  then obtain w2 where "block_loop B fd flags (nat sz) 0 (offset + word_of_nat 0) ([] @ take (nat sz) buf @ drop (nat sz) buf) w1 =
      Some (0, [] @ map (\<lambda>k. rdv (obs w1) (at w1 fd) (offset + word_of_nat k)) [0..<0 + nat sz] @ drop (nat sz) buf, w2)"
    and "quiet at obs bad w1 w2"
    using block_loop_reads [OF assms(2, 5), of w1 "[]" 0 "take (nat sz) buf" "nat sz"] assms(6, 7) w1(3) by fastforce
  then show ?thesis
    using that [of "i2c_close B fd w2"] opened w1 i2c_law(7) [OF assms(1), of fd w2]
    by (simp add: onlp_i2c_block_read_def i2c_close_def quiet_def)
qed

text \<open>
  C26: Both ways to read agree. On a bus where fewer than sixteen transfers fail, reading \<open>sz\<close> bytes
  one at a time and reading them in blocks of thirty-two both succeed with the same buffer: the
  bytes of the device from \<open>offset\<close> on, with the register number wrapping at 256, and the rest of the
  buffer untouched. Neither changes a register.
\<close>

theorem i2c_reads_agree:
  assumes "i2c_laws B at obs bad" and "i2c_read_laws B at obs bad rdv" and "bus_number bus"
    and "\<not> has flags ONLP_I2C_F_DISABLE_READ_RETRIES" and "\<not> has flags ONLP_I2C_F_USE_SMBUS_BLOCK_READ"
    and "bad w < 16" and "nat sz \<le> length buf"
  shows "\<exists>w1 w2 data. data = map (\<lambda>k. rdv (obs w) (i2c_path bus, addr) (offset + word_of_nat k)) [0..<nat sz] @ drop (nat sz) buf
           \<and> onlp_i2c_read B bus addr offset sz buf flags w = Some (0, data, w1)
           \<and> onlp_i2c_block_read B bus addr offset sz buf flags w = Some (0, data, w2)
           \<and> obs w1 = obs w \<and> obs w2 = obs w"
  using i2c_read_bytes [OF assms(1-4, 6, 7)] i2c_block_read_bytes [OF assms] by metis

text \<open>A simulated bus: the registers, the target of the one descriptor, and the transfers still to fail.\<close>

type_synonym sim = "regs \<times> target \<times> nat"

definition sim_bus :: "(regs \<Rightarrow> target \<Rightarrow> u8 \<Rightarrow> u8) \<Rightarrow> sim i2c_bus" where
  "sim_bus rdv =
     \<lparr> bus_fs = \<lparr> fs_stat = (\<lambda>p w. Some (False, 0)), fs_open = (\<lambda>p fl (r, t, b). (3, (r, (p, snd t), b))),
         fs_socket = (\<lambda>w. (-1, w)), fs_connect = (\<lambda>fd p w. (-1, w)), fs_read = (\<lambda>fd mx w. (-1, [], w)),
         fs_write = (\<lambda>fd d w. (-1, w)), fs_close = (\<lambda>fd w. w), fs_walk = (\<lambda>root w. None) \<rparr>,
       i2c_ioctl = (\<lambda>fd q a (r, t, b).
         (0, (r, if q = I2C_SLAVE \<or> q = I2C_SLAVE_FORCE then (fst t, word_of_int a) else t, b))),
       smbus_read_byte_data = (\<lambda>fd k (r, t, b). if b > 0 then (-1, (r, t, b - 1)) else (uint (rdv r t k), (r, t, b))),
       smbus_write_byte_data = (\<lambda>fd k v (r, t, b). (0, (r(t := (r t)(k := v)), t, b))),
       smbus_read_word_data = (\<lambda>fd k w. (-1, w)),
       smbus_write_word_data = (\<lambda>fd k v w. (-1, w)),
       smbus_read_block_data = (\<lambda>fd k w. (32, replicate 32 0, w)),
       smbus_read_i2c_block_data = (\<lambda>fd k n (r, t, b).
         if b > 0 then (-1, [], (r, t, b - 1)) else (int n, map (\<lambda>i. rdv r t (k + word_of_nat i)) [0..<n], (r, t, b))) \<rparr>"

definition sim_at :: "sim \<Rightarrow> int \<Rightarrow> target" where "sim_at w = (\<lambda>fd. fst (snd w))"
definition sim_obs :: "sim \<Rightarrow> regs" where "sim_obs w = fst w"
definition sim_bad :: "sim \<Rightarrow> nat" where "sim_bad w = snd (snd w)"

lemma sim_laws: "i2c_laws (sim_bus rdv) sim_at sim_obs sim_bad" "i2c_read_laws (sim_bus rdv) sim_at sim_obs sim_bad rdv"
  by (auto simp: i2c_laws_def i2c_read_laws_def quiet_def sim_bus_def sim_at_def sim_obs_def sim_bad_def)

lemma flag_zero: "\<not> has (0 :: u32) f" by simp

theorem i2c_reads_agree_witness:
  "\<exists>w1 w2. onlp_i2c_read (sim_bus (\<lambda>r t k. k + 1)) 0 0x50 0xFE 3 [7, 7, 7, 7] 0 (\<lambda>t k. 0, ('''', 0), 15) = Some (0, [0xFF, 0, 1, 7], w1)
     \<and> onlp_i2c_block_read (sim_bus (\<lambda>r t k. k + 1)) 0 0x50 0xFE 3 [7, 7, 7, 7] 0 (\<lambda>t k. 0, ('''', 0), 15) = Some (0, [0xFF, 0, 1, 7], w2)
     \<and> sim_obs w1 = (\<lambda>t k. 0) \<and> sim_obs w2 = (\<lambda>t k. 0)"
proof -
  have wrap: "(256 :: u8) = 0" "(257 :: u8) = 1" by simp_all
  show ?thesis
    using i2c_reads_agree [OF sim_laws, where bus = 0 and flags = 0 and sz = 3 and buf = "[7, 7, 7, 7]" and offset = "0xFE"
      and w = "(\<lambda>t k. 0, ('''', 0), 15)" and rdv = "\<lambda>r t k. k + 1" and addr = "0x50"]
    by (simp add: bus_number_def sim_obs_def sim_bad_def upt_rec wrap)
qed

text \<open>
  The SMBus block read may overrun the buffer. With \<open>ONLP_I2C_F_USE_SMBUS_BLOCK_READ\<close> the size of
  the transfer is the device's choice: a device that answers the first request with more bytes than
  the caller's buffer holds makes \<open>onlp_i2c_block_read\<close> write past its end, whatever size the caller
  asked for.
\<close>

theorem i2c_smbus_block_overruns:
  assumes "i2c_laws B at obs bad" and "bus_number bus" and "has flags ONLP_I2C_F_USE_SMBUS_BLOCK_READ" and "0 < sz"
    and "\<And>fd w. \<exists>rv bs w1. smbus_read_block_data B fd offset w = (rv, bs, w1) \<and> length buf < length bs"
  shows "onlp_i2c_block_read B bus addr offset sz buf flags w = None"
proof -
  obtain fd w1 where opened: "onlp_i2c_open B bus addr flags w = Some (fd, w1)" "0 < fd"
    using i2c_open [OF assms(1, 2)] by metis
  obtain rv bs w2 where "smbus_read_block_data B fd offset w1 = (rv, bs, w2)" "length buf < length bs"
    using assms(5) by blast
  moreover obtain n where "read_retries flags = Suc n"
    by (metis One_nat_def numeral_eq_Suc read_retries_def I2C_READ_RETRY_COUNT_def)
  ultimately have "block_retry B fd flags m 0 (read_retries flags) (-1) offset buf w1 = None" for m
    using assms(3) by (simp add: poke_def)
  then show ?thesis
    using opened assms(4) by (simp add: onlp_i2c_block_read_def block_loop.simps [of B fd flags "nat sz"] Let_def)
qed

theorem i2c_smbus_block_overruns_witness:
  "onlp_i2c_block_read (sim_bus (\<lambda>r t k. 0)) 0 0x50 0 4 [0, 0, 0, 0] ONLP_I2C_F_USE_SMBUS_BLOCK_READ (\<lambda>t k. 0, ('''', 0), 0) = None"
proof (rule i2c_smbus_block_overruns [OF sim_laws(1)])
  show "has ONLP_I2C_F_USE_SMBUS_BLOCK_READ ONLP_I2C_F_USE_SMBUS_BLOCK_READ"
    by (simp add: has_def ONLP_I2C_F_USE_SMBUS_BLOCK_READ_def)
qed (auto simp: bus_number_def sim_bus_def)

section \<open>Multiplexers\<close>

lemma i2c_writeb:
  assumes "i2c_laws B at obs bad" and "bus_number bus"
  obtains w1 where "onlp_i2c_writeb B bus addr offset b flags w = Some (0, w1)"
    and "obs w1 = (obs w)((i2c_path bus, addr) := (obs w (i2c_path bus, addr))(offset := b))" and "bad w1 \<le> bad w"
proof -
  obtain fd w1 where opened: "onlp_i2c_open B bus addr flags w = Some (fd, w1)" "0 < fd"
    and w1: "at w1 fd = (i2c_path bus, addr)" "obs w1 = obs w" "bad w1 \<le> bad w"
    using i2c_open [OF assms] by metis
  obtain w2 where "smbus_write_byte_data B fd offset b w1 = (0, w2)"
    and "obs w2 = (obs w1)(at w1 fd := (obs w1 (at w1 fd))(offset := b))" "bad w2 \<le> bad w1"
    using i2c_law(6) [OF assms(1)] by blast
  then show ?thesis
    using that [of "i2c_close B fd w2"] opened w1 i2c_law(7) [OF assms(1), of fd w2]
    by (simp add: onlp_i2c_writeb_def onlp_i2c_write_def i2c_close_def)
qed

text \<open>What selecting a channel stores, and the effect of a list of channels on the registers.\<close>

definition mux_write :: "i2c_mux_device \<Rightarrow> int \<Rightarrow> regs \<Rightarrow> regs" where
  "mux_write mux c r =
     (let t = (i2c_path (mux_bus mux), mux_devaddr mux) in
      case find (\<lambda>(c', v). c' = c) (mux_channels (mux_driver mux)) of
        Some (_, v) \<Rightarrow> r(t := (r t)(mux_control (mux_driver mux) := v))
      | None \<Rightarrow> r)"

fun channels_write :: "(i2c_mux_device \<Rightarrow> int \<Rightarrow> regs \<Rightarrow> regs) \<Rightarrow> i2c_mux_channel list \<Rightarrow> regs \<Rightarrow> regs" where
  "channels_write f [] r = r"
| "channels_write f ((None, c) # mcs) r = channels_write f mcs r"
| "channels_write f ((Some mux, c) # mcs) r = channels_write f mcs (f mux c r)"

definition selected :: "i2c_mux_channel list \<Rightarrow> regs \<Rightarrow> regs" where
  "selected mcs = channels_write mux_write mcs"

definition deselected :: "i2c_mux_channel list \<Rightarrow> regs \<Rightarrow> regs" where
  "deselected mcs = channels_write (\<lambda>mux c. mux_write mux (-1)) (rev mcs)"

definition channel_ok :: "i2c_mux_channel \<Rightarrow> bool" where
  "channel_ok mc \<longleftrightarrow>
     (case mc of (Some mux, c) \<Rightarrow>
        bus_number (mux_bus mux) \<and> {c, -1} \<subseteq> fst ` set (mux_channels (mux_driver mux)) | _ \<Rightarrow> True)"

definition dev_channels :: "i2c_dev \<Rightarrow> i2c_mux_channel list" where
  "dev_channels dev = (case dev_pchannels dev of Some p \<Rightarrow> p | None \<Rightarrow> dev_ichannels dev)"

definition dev_ok :: "i2c_dev \<Rightarrow> bool" where
  "dev_ok dev \<longleftrightarrow> bus_number (dev_bus dev) \<and> (\<forall>mc \<in> set (dev_channels dev). channel_ok mc)"

lemma mux_select:
  assumes "i2c_laws B at obs bad" and "bus_number (mux_bus mux)"
    and "c \<in> fst ` set (mux_channels (mux_driver mux))"
  shows "\<exists>w1. onlp_i2c_mux_select B mux c w = Some (0, w1) \<and> obs w1 = mux_write mux c (obs w) \<and> bad w1 \<le> bad w"
proof -
  obtain v where "(c, v) \<in> set (mux_channels (mux_driver mux))" using assms(3) by auto
  then obtain v where found: "find (\<lambda>(c', v). c' = c) (mux_channels (mux_driver mux)) = Some (c, v)"
    by (cases "find (\<lambda>(c', v). c' = c) (mux_channels (mux_driver mux))")
       (auto simp: find_None_iff find_Some_iff)
  obtain w1 where "onlp_i2c_writeb B (mux_bus mux) (mux_devaddr mux) (mux_control (mux_driver mux)) v 0 w = Some (0, w1)"
    and "obs w1 = (obs w)((i2c_path (mux_bus mux), mux_devaddr mux) :=
           (obs w (i2c_path (mux_bus mux), mux_devaddr mux))(mux_control (mux_driver mux) := v))" "bad w1 \<le> bad w"
    using i2c_writeb [OF assms(1, 2)] by metis
  then show ?thesis
    using found by (simp add: onlp_i2c_mux_select_def mux_write_def Let_def)
qed

lemma channels_loop_writes:
  assumes "\<And>mux c w. (Some mux, c) \<in> set mcs \<Longrightarrow>
      \<exists>w1. f mux c w = Some (0, w1) \<and> obs w1 = g mux c (obs w) \<and> (bad w1 :: nat) \<le> bad w"
  shows "\<exists>w1. channels_loop f mcs w = Some (0, w1) \<and> obs w1 = channels_write g mcs (obs w) \<and> bad w1 \<le> bad w"
  using assms
proof (induction mcs arbitrary: w)
  case Nil
  then show ?case by simp
next
  case (Cons mc mcs)
  show ?case
  proof (cases mc)
    case (Pair m c)
    show ?thesis
    proof (cases m)
      case None
      then show ?thesis using Cons Pair by simp
    next
      case (Some mux)
      then obtain w1 where w1: "f mux c w = Some (0, w1)" "obs w1 = g mux c (obs w)" "bad w1 \<le> bad w"
        using Cons.prems [of mux c w] Pair by auto
      then obtain w2 where "channels_loop f mcs w1 = Some (0, w2)" "obs w2 = channels_write g mcs (obs w1)" "bad w2 \<le> bad w1"
        using Cons.IH [of w1] Cons.prems by auto
      then show ?thesis using w1 Some Pair by simp
    qed
  qed
qed

lemma dev_select:
  assumes "i2c_laws B at obs bad" and "dev_ok dev" and "\<not> has flags ONLP_I2C_F_NO_MUX_SELECT"
  shows "\<exists>w1. dev_mux_channels_select B dev flags w = Some (0, w1)
           \<and> obs w1 = selected (dev_channels dev) (obs w) \<and> bad w1 \<le> bad w"
proof -
  have "\<exists>w1. channels_loop (onlp_i2c_mux_channel_select B) (dev_channels dev) w = Some (0, w1)
      \<and> obs w1 = channels_write mux_write (dev_channels dev) (obs w) \<and> bad w1 \<le> bad w"
  proof (rule channels_loop_writes)
    fix mux c w
    assume "(Some mux, c) \<in> set (dev_channels dev)"
    then show "\<exists>w1. onlp_i2c_mux_channel_select B mux c w = Some (0, w1) \<and> obs w1 = mux_write mux c (obs w) \<and> bad w1 \<le> bad w"
      using assms(2) mux_select [OF assms(1)]
      by (fastforce simp: dev_ok_def channel_ok_def onlp_i2c_mux_channel_select_def)
  qed
  then show ?thesis
    using assms(3)
    by (simp add: dev_mux_channels_select_def onlp_i2c_dev_mux_channels_select_def selected_def
        onlp_i2c_mux_channels_select_def dev_channels_def split: option.splits)
qed

lemma dev_deselect:
  assumes "i2c_laws B at obs bad" and "dev_ok dev" and "\<not> has flags ONLP_I2C_F_NO_MUX_DESELECT"
  shows "\<exists>w1. dev_mux_channels_deselect B dev flags w = Some (0, w1)
           \<and> obs w1 = deselected (dev_channels dev) (obs w) \<and> bad w1 \<le> bad w"
proof -
  have "\<exists>w1. channels_loop (onlp_i2c_mux_channel_deselect B) (rev (dev_channels dev)) w = Some (0, w1)
      \<and> obs w1 = channels_write (\<lambda>mux c. mux_write mux (-1)) (rev (dev_channels dev)) (obs w) \<and> bad w1 \<le> bad w"
  proof (rule channels_loop_writes)
    fix mux c w
    assume "(Some mux, c) \<in> set (rev (dev_channels dev))"
    then show "\<exists>w1. onlp_i2c_mux_channel_deselect B mux c w = Some (0, w1) \<and> obs w1 = mux_write mux (-1) (obs w) \<and> bad w1 \<le> bad w"
      using assms(2) mux_select [OF assms(1), of mux "-1"]
      by (fastforce simp: dev_ok_def channel_ok_def onlp_i2c_mux_channel_deselect_def onlp_i2c_mux_deselect_def)
  qed
  then show ?thesis
    using assms(3)
    by (simp add: dev_mux_channels_deselect_def onlp_i2c_dev_mux_channels_deselect_def deselected_def
        onlp_i2c_mux_channels_deselect_def dev_channels_def split: option.splits)
qed

text \<open>
  C27: A device behind multiplexers. When every channel on the way to a device is one its multiplexer
  knows, and fewer than sixteen transfers fail, reading the device succeeds with the bytes the device
  has while all multiplexers on the way are selected, in order, and leaves every one of them
  deselected, in the reverse order.
\<close>

theorem i2c_dev_read_selects:
  assumes "i2c_laws B at obs bad" and "i2c_read_laws B at obs bad rdv" and "dev_ok dev"
    and "\<not> has flags ONLP_I2C_F_NO_MUX_SELECT" and "\<not> has flags ONLP_I2C_F_NO_MUX_DESELECT"
    and "\<not> has flags ONLP_I2C_F_DISABLE_READ_RETRIES" and "\<not> has flags ONLP_I2C_F_USE_SMBUS_BLOCK_READ"
    and "bad w < 16" and "nat sz \<le> length buf"
  shows "\<exists>w1. onlp_i2c_dev_read B dev offset sz buf flags w =
             Some (0, map (\<lambda>k. rdv (selected (dev_channels dev) (obs w)) (i2c_path (dev_bus dev), dev_addr dev)
                               (offset + word_of_nat k)) [0..<nat sz] @ drop (nat sz) buf, w1)
           \<and> obs w1 = deselected (dev_channels dev) (selected (dev_channels dev) (obs w))"
proof -
  obtain w1 where w1: "dev_mux_channels_select B dev flags w = Some (0, w1)"
    "obs w1 = selected (dev_channels dev) (obs w)" "bad w1 \<le> bad w"
    using dev_select [OF assms(1, 3, 4)] by blast
  then have bad: "bad w1 < 16" using assms(8) by simp
  have bus: "bus_number (dev_bus dev)" using assms(3) by (simp add: dev_ok_def)
  let ?data = "map (\<lambda>k. rdv (obs w1) (i2c_path (dev_bus dev), dev_addr dev) (offset + word_of_nat k)) [0..<nat sz] @ drop (nat sz) buf"
  obtain w2 where w2: "(if has flags ONLP_I2C_F_USE_BLOCK_READ
        then onlp_i2c_block_read B (dev_bus dev) (dev_addr dev) offset sz buf flags w1
        else onlp_i2c_read B (dev_bus dev) (dev_addr dev) offset sz buf flags w1) = Some (0, ?data, w2)" "obs w2 = obs w1"
  proof (cases "has flags ONLP_I2C_F_USE_BLOCK_READ")
    case True
    then show ?thesis
      using that i2c_block_read_bytes [OF assms(1, 2) bus assms(6, 7) bad assms(9), of "dev_addr dev" offset] by auto
  next
    case False
    then show ?thesis
      using that i2c_read_bytes [OF assms(1, 2) bus assms(6) bad assms(9), of "dev_addr dev" offset] by auto
  qed
  obtain w3 where "dev_mux_channels_deselect B dev flags w2 = Some (0, w3)"
    "obs w3 = deselected (dev_channels dev) (obs w2)"
    using dev_deselect [OF assms(1, 3, 5)] by blast
  then show ?thesis
    using w1(1, 2) w2 by (simp add: onlp_i2c_dev_read_def del: if_split)
qed

text \<open>An EEPROM that answers only while channel 2 of the multiplexer in front of it is selected.\<close>

definition sim_mux :: i2c_mux_device where
  "sim_mux = \<lparr> mux_bus = 0, mux_devaddr = 0x70, mux_driver = onlp_i2c_mux_driver_pca9548 \<rparr>"

definition sim_dev :: i2c_dev where
  "sim_dev = \<lparr> dev_ichannels = (Some sim_mux, 2) # replicate 7 (None, 0), dev_pchannels = None, dev_bus = 0, dev_addr = 0x50 \<rparr>"

definition sim_eeprom :: "regs \<Rightarrow> target \<Rightarrow> u8 \<Rightarrow> u8" where
  "sim_eeprom r t k = (if r (i2c_path 0, 0x70) 0 = 4 then k else 0xFF)"

lemma sim_dev_ok: "dev_ok sim_dev"
  by (auto simp: dev_ok_def dev_channels_def sim_dev_def sim_mux_def channel_ok_def bus_number_def
      onlp_i2c_mux_driver_pca9548_def)

lemma sim_selected:
  "selected (dev_channels sim_dev) r = r((i2c_path 0, 0x70) := (r (i2c_path 0, 0x70))(0 := 4))"
  "deselected (dev_channels sim_dev) r = r((i2c_path 0, 0x70) := (r (i2c_path 0, 0x70))(0 := 0))"
  by (simp_all add: selected_def deselected_def dev_channels_def sim_dev_def sim_mux_def mux_write_def
      onlp_i2c_mux_driver_pca9548_def eval_nat_numeral Let_def)

theorem i2c_dev_read_selects_witness:
  "\<exists>w1. onlp_i2c_dev_read (sim_bus sim_eeprom) sim_dev 0x10 2 [0, 0, 0] 0 (\<lambda>t k. 9, ('''', 0), 15) = Some (0, [0x10, 0x11, 0], w1)
     \<and> sim_obs w1 = (\<lambda>t k. 9)((i2c_path 0, 0x70) := (\<lambda>k. 9)(0 := 0))"
  using i2c_dev_read_selects [OF sim_laws sim_dev_ok, where flags = 0 and sz = 2 and buf = "[0, 0, 0]" and offset = "0x10"
      and w = "(\<lambda>t k. 9, ('''', 0), 15)" and rdv = sim_eeprom]
  by (simp add: sim_obs_def sim_bad_def upt_rec sim_selected sim_eeprom_def)

text \<open>
  A failed access leaves the multiplexers selected. When no byte can be read from a device behind
  multiplexers, \<open>onlp_i2c_dev_read\<close> reports the bus error and returns with every multiplexer on the
  way still selected: the error exit comes before the deselection.
\<close>

theorem i2c_dev_failure_keeps_selected:
  assumes "i2c_laws B at obs bad" and "dev_ok dev"
    and "\<not> has flags ONLP_I2C_F_NO_MUX_SELECT" and "\<not> has flags ONLP_I2C_F_USE_BLOCK_READ" and "0 < sz"
    and "\<And>fd r w. \<exists>rv w1. smbus_read_byte_data B fd r w = (rv, w1) \<and> rv < 0 \<and> quiet at obs bad w w1"
  shows "\<exists>w1. onlp_i2c_dev_read B dev offset sz buf flags w = Some (ONLP_STATUS_E_I2C, buf, w1)
           \<and> obs w1 = selected (dev_channels dev) (obs w)"
proof -
  obtain w1 where w1: "dev_mux_channels_select B dev flags w = Some (0, w1)"
    "obs w1 = selected (dev_channels dev) (obs w)"
    using dev_select [OF assms(1-3)] by blast
  obtain fd w2 where opened: "onlp_i2c_open B (dev_bus dev) (dev_addr dev) flags w1 = Some (fd, w2)" "0 < fd" "obs w2 = obs w1"
    using i2c_open [OF assms(1), of "dev_bus dev"] assms(2) unfolding dev_ok_def by metis
  have "rv < 0 \<Longrightarrow> \<exists>rv1 w1. byte_retry B fd r n rv w = (rv1, w1) \<and> rv1 < 0 \<and> quiet at obs bad w w1" for r n rv w
  proof (induction n arbitrary: rv w)
    case 0
    then show ?case by (simp add: quiet_def)
  next
    case (Suc n)
    obtain rv1 w1 where "smbus_read_byte_data B fd r w = (rv1, w1)" "rv1 < 0" "quiet at obs bad w w1"
      using assms(6) by blast
    then show ?case using Suc.IH [of rv1 w1] Suc.prems quiet_trans by fastforce
  qed
  then obtain rv1 w3 where "byte_retry B fd (offset + word_of_nat 0) (read_retries flags) (-1) w2 = (rv1, w3)" "rv1 < 0"
    "quiet at obs bad w2 w3" by (meson neg_less_0_iff_less zero_less_one)
  moreover obtain n where "nat sz = Suc n" using assms(5) by (metis gr0_implies_Suc zero_less_nat_eq)
  ultimately show ?thesis
    using w1 opened i2c_law(7) [OF assms(1), of fd w3] assms(4)
    by (simp add: onlp_i2c_dev_read_def onlp_i2c_read_def i2c_close_def quiet_def)
qed

text \<open>The same bus with the device gone.\<close>

definition dead_bus :: "sim i2c_bus" where
  "dead_bus = (sim_bus sim_eeprom)\<lparr> smbus_read_byte_data := (\<lambda>fd k w. (-6, w)) \<rparr>"

lemma dead_bus_laws: "i2c_laws dead_bus sim_at sim_obs sim_bad"
  using sim_laws(1) [of sim_eeprom] by (simp add: i2c_laws_def dead_bus_def)

theorem i2c_dev_failure_keeps_selected_witness:
  "\<exists>w1. onlp_i2c_dev_read dead_bus sim_dev 0x10 2 [0, 0] 0 (\<lambda>t k. 0, ('''', 0), 0) = Some (-15, [0, 0], w1)
     \<and> sim_obs w1 (i2c_path 0, 0x70) 0 = 4"
proof -
  have "\<exists>rv w1. smbus_read_byte_data dead_bus fd r w = (rv, w1) \<and> rv < 0 \<and> quiet sim_at sim_obs sim_bad w w1" for fd r w
    by (simp add: dead_bus_def quiet_def)
  then show ?thesis
    using i2c_dev_failure_keeps_selected [OF dead_bus_laws sim_dev_ok, where flags = 0 and sz = 2 and buf = "[0, 0]"
        and offset = "0x10" and w = "(\<lambda>t k. 0, ('''', 0), 0)"]
    by (auto simp: sim_selected sim_obs_def)
qed

section \<open>Descriptors\<close>

text \<open>
  \<open>fds w\<close>: the open descriptors. Opening adds a new one, closing takes it away, nothing else
  changes them. Descriptor zero belongs to the standard input.
\<close>

definition fd_laws :: "'w i2c_bus \<Rightarrow> ('w \<Rightarrow> int set) \<Rightarrow> bool" where
  "fd_laws B fds \<longleftrightarrow>
     (\<forall>p fl w fd w1. fs_open (bus_fs B) p fl w = (fd, w1) \<longrightarrow>
        fd \<noteq> 0 \<and> fd \<notin> fds w \<and> fds w1 = (if fd < 0 then fds w else insert fd (fds w))) \<and>
     (\<forall>p w n. fs_stat (bus_fs B) p w \<noteq> Some (True, n)) \<and>
     (\<forall>fd w. fds (fs_close (bus_fs B) fd w) = fds w - {fd}) \<and>
     (\<forall>fd mx w rv bs w1. fs_read (bus_fs B) fd mx w = (rv, bs, w1) \<longrightarrow> fds w1 = fds w) \<and>
     (\<forall>fd d w rv w1. fs_write (bus_fs B) fd d w = (rv, w1) \<longrightarrow> fds w1 = fds w) \<and>
     (\<forall>fd q a w rv w1. i2c_ioctl B fd q a w = (rv, w1) \<longrightarrow> fds w1 = fds w) \<and>
     (\<forall>fd r w rv w1. smbus_read_byte_data B fd r w = (rv, w1) \<longrightarrow> fds w1 = fds w) \<and>
     (\<forall>fd r v w rv w1. smbus_write_byte_data B fd r v w = (rv, w1) \<longrightarrow> fds w1 = fds w) \<and>
     (\<forall>fd r w rv w1. smbus_read_word_data B fd r w = (rv, w1) \<longrightarrow> fds w1 = fds w) \<and>
     (\<forall>fd r v w rv w1. smbus_write_word_data B fd r v w = (rv, w1) \<longrightarrow> fds w1 = fds w) \<and>
     (\<forall>fd r w rv bs w1. smbus_read_block_data B fd r w = (rv, bs, w1) \<longrightarrow> fds w1 = fds w) \<and>
     (\<forall>fd r n w rv bs w1. smbus_read_i2c_block_data B fd r n w = (rv, bs, w1) \<longrightarrow> fds w1 = fds w)"

lemma fd_lawsD:
  assumes "fd_laws B fds"
  shows "\<forall>p fl w fd w1. fs_open (bus_fs B) p fl w = (fd, w1) \<longrightarrow>
        fd \<noteq> 0 \<and> fd \<notin> fds w \<and> fds w1 = (if fd < 0 then fds w else insert fd (fds w))"
    and "\<forall>p w n. fs_stat (bus_fs B) p w \<noteq> Some (True, n)"
    and "\<forall>fd w. fds (fs_close (bus_fs B) fd w) = fds w - {fd}"
    and "\<forall>fd mx w rv bs w1. fs_read (bus_fs B) fd mx w = (rv, bs, w1) \<longrightarrow> fds w1 = fds w"
    and "\<forall>fd d w rv w1. fs_write (bus_fs B) fd d w = (rv, w1) \<longrightarrow> fds w1 = fds w"
    and "\<forall>fd q a w rv w1. i2c_ioctl B fd q a w = (rv, w1) \<longrightarrow> fds w1 = fds w"
    and "\<forall>fd r w rv w1. smbus_read_byte_data B fd r w = (rv, w1) \<longrightarrow> fds w1 = fds w"
    and "\<forall>fd r v w rv w1. smbus_write_byte_data B fd r v w = (rv, w1) \<longrightarrow> fds w1 = fds w"
    and "\<forall>fd r w rv w1. smbus_read_word_data B fd r w = (rv, w1) \<longrightarrow> fds w1 = fds w"
    and "\<forall>fd r v w rv w1. smbus_write_word_data B fd r v w = (rv, w1) \<longrightarrow> fds w1 = fds w"
    and "\<forall>fd r w rv bs w1. smbus_read_block_data B fd r w = (rv, bs, w1) \<longrightarrow> fds w1 = fds w"
    and "\<forall>fd r n w rv bs w1. smbus_read_i2c_block_data B fd r n w = (rv, bs, w1) \<longrightarrow> fds w1 = fds w"
  using assms unfolding fd_laws_def by - (elim conjE, assumption)+

lemmas fd_law = fd_lawsD [rule_format]

lemma vopen_fds:
  assumes "fd_laws B fds" and "vopen (bus_fs B) dst fl p w = (fd, name, w1)"
  shows "fd < 0 \<and> fds w1 = fds w \<or> 0 < fd \<and> fd \<notin> fds w \<and> fds w1 = insert fd (fds w)"
proof -
  note laws = fd_law [OF assms(1)]
  show ?thesis
    using assms(2) laws(2)
    by (auto simp: vopen_def Let_def split: option.splits prod.splits if_splits dest!: laws(1))
qed

lemma i2c_open_fds:
  assumes "fd_laws B fds" and "onlp_i2c_open B bus addr flags w = Some (fd, w1)"
  shows "fd < 0 \<and> fds w1 = fds w \<or> 0 < fd \<and> fd \<notin> fds w \<and> fds w1 = insert fd (fds w)"
proof -
  note laws = fd_law [OF assms(1)]
  obtain fd0 w0 where opened: "onlp_file_open (bus_fs B) O_RDWR (i2c_path bus) w = Some (fd0, w0)"
    using assms(2) by (auto simp: onlp_i2c_open_def bind_eq_Some_conv)
  then have fd0: "fd0 < 0 \<and> fds w0 = fds w \<or> 0 < fd0 \<and> fd0 \<notin> fds w \<and> fds w0 = insert fd0 (fds w)"
    using vopen_fds [OF assms(1)]
    by (auto simp: onlp_file_open_def onlp_file_vopen_def split: prod.splits if_splits)
  show ?thesis
    using assms(2) opened fd0
    by (auto simp: onlp_i2c_open_def i2c_close_def laws(3) split: prod.splits if_splits dest!: laws(6))
qed

lemma byte_retry_fds:
  assumes "fd_laws B fds"
  shows "byte_retry B fd r n rv w = (rv1, w1) \<Longrightarrow> fds w1 = fds w"
  by (induction n arbitrary: rv w) (auto split: if_splits prod.splits dest!: fd_law(7) [OF assms])

lemma read_loop_fds:
  assumes "fd_laws B fds"
  shows "read_loop B fd flags offset i n buf w = Some (rv, d, w1) \<Longrightarrow> fds w1 = fds w"
  by (induction n arbitrary: i buf w)
     (auto simp: bind_eq_Some_conv split: if_splits prod.splits dest!: byte_retry_fds [OF assms])

lemma write_loop_fds:
  assumes "fd_laws B fds"
  shows "write_loop B fd offset i d n w = Some (rv, w1) \<Longrightarrow> fds w1 = fds w"
proof (induction n arbitrary: i w)
  case 0
  then show ?case by simp
next
  case (Suc n)
  then obtain b where b: "rd d i = Some b" by (auto simp: bind_eq_Some_conv)
  obtain rv1 w2 where "smbus_write_byte_data B fd (offset + word_of_nat i) b w = (rv1, w2)" by fastforce
  with b show ?case
    using Suc fd_law(8) [OF assms] by (fastforce split: if_splits)
qed

lemma block_retry_fds:
  assumes "fd_laws B fds"
  shows "block_retry B fd flags m pos n rv offset buf w = Some (rv1, off1, d, w1) \<Longrightarrow> fds w1 = fds w"
  by (induction n arbitrary: rv offset buf w)
     (auto simp: bind_eq_Some_conv split: if_splits prod.splits dest!: fd_law(11, 12) [OF assms])

lemma block_loop_fds:
  assumes "fd_laws B fds"
  shows "block_loop B fd flags count pos offset buf w = Some (rv, d, w1) \<Longrightarrow> fds w1 = fds w"
proof (induction count arbitrary: pos offset buf w rule: less_induct)
  case (less count)
  show ?case
  proof (cases "count = 0")
    case True
    then show ?thesis using less.prems by (simp add: block_loop.simps)
  next
    case False
    then obtain m rv1 off1 d1 w2 where "block_retry B fd flags m pos (read_retries flags) (-1) offset buf w = Some (rv1, off1, d1, w2)"
      and "w1 = w2 \<or> block_loop B fd flags (count - m) (pos + m) off1 d1 w2 = Some (rv, d, w1)" and "0 < m"
      using less.prems unfolding block_loop.simps [of B fd flags count] Let_def I2C_BLOCK_SIZE_def
      by (auto simp: bind_eq_Some_conv split: if_splits)
    then show ?thesis
      using less.IH [of "count - m"] block_retry_fds [OF assms] False by (metis diff_less gr0I)
  qed
qed

text \<open>The frame all accesses share: open, leave on failure, work, close.\<close>

lemma bracket_fds:
  assumes "fd_laws B fds"
    and "do { (fd, w1) \<leftarrow> onlp_i2c_open B bus addr flags w;
              if fd < 0 then Some (f fd w1) else body fd w1 } = Some y"
    and "\<And>fd w1. world (f fd w1) = w1"
    and "\<And>fd w1. body fd w1 = Some y \<Longrightarrow> \<exists>w2. world y = i2c_close B fd w2 \<and> fds w2 = fds w1"
  shows "fds (world y) = fds w"
proof -
  obtain fd w1 where opened: "onlp_i2c_open B bus addr flags w = Some (fd, w1)"
    using assms(2) by (auto simp: bind_eq_Some_conv)
  show ?thesis
  proof (cases "fd < 0")
    case True
    then show ?thesis using assms(2, 3) opened i2c_open_fds [OF assms(1) opened] by auto
  next
    case False
    then have "body fd w1 = Some y" using assms(2) opened by simp
    then obtain w2 where "world y = i2c_close B fd w2" "fds w2 = fds w1"
      using assms(4) by blast
    then show ?thesis
      using i2c_open_fds [OF assms(1) opened] False fd_law(3) [OF assms(1)] by (simp add: i2c_close_def)
  qed
qed

lemma i2c_read_fds:
  assumes "fd_laws B fds" and "onlp_i2c_read B bus addr offset sz buf flags w = Some (rv, d, w1)"
  shows "fds w1 = fds w"
  using bracket_fds [OF assms(1) assms(2) [unfolded onlp_i2c_read_def], where world = "\<lambda>(_, _, w). w"] read_loop_fds [OF assms(1)]
  by (fastforce simp: bind_eq_Some_conv)

lemma i2c_block_read_fds:
  assumes "fd_laws B fds" and "onlp_i2c_block_read B bus addr offset sz buf flags w = Some (rv, d, w1)"
  shows "fds w1 = fds w"
  using bracket_fds [OF assms(1) assms(2) [unfolded onlp_i2c_block_read_def], where world = "\<lambda>(_, _, w). w"] block_loop_fds [OF assms(1)]
  by (fastforce simp: bind_eq_Some_conv)

lemma i2c_write_fds:
  assumes "fd_laws B fds" and "onlp_i2c_write B bus addr offset sz data flags w = Some (rv, w1)"
  shows "fds w1 = fds w"
  using bracket_fds [OF assms(1) assms(2) [unfolded onlp_i2c_write_def], where world = "snd"] write_loop_fds [OF assms(1)]
  by (fastforce simp: bind_eq_Some_conv)

lemma i2c_readb_fds:
  assumes "fd_laws B fds" and "onlp_i2c_readb B bus addr offset flags w = Some (rv, w1)"
  shows "fds w1 = fds w"
  using assms(2) by (auto simp: onlp_i2c_readb_def bind_eq_Some_conv dest: i2c_read_fds [OF assms(1)])

lemma i2c_writeb_fds:
  assumes "fd_laws B fds" and "onlp_i2c_writeb B bus addr offset b flags w = Some (rv, w1)"
  shows "fds w1 = fds w"
  using assms(2) by (simp add: onlp_i2c_writeb_def i2c_write_fds [OF assms(1)])

lemma i2c_modifyb_fds:
  assumes "fd_laws B fds" and "onlp_i2c_modifyb B bus addr offset a o' flags w = Some (rv, w1)"
  shows "fds w1 = fds w"
  using assms(2)
  by (auto simp: onlp_i2c_modifyb_def bind_eq_Some_conv split: if_splits
      dest!: i2c_readb_fds [OF assms(1)] i2c_writeb_fds [OF assms(1)])

lemma i2c_readw_fds:
  assumes "fd_laws B fds" and "onlp_i2c_readw B bus addr offset flags w = Some (rv, w1)"
  shows "fds w1 = fds w"
  using bracket_fds [OF assms(1) assms(2) [unfolded onlp_i2c_readw_def if_distrib [of Some]], where world = snd] fd_law(9) [OF assms(1)]
  by (fastforce split: prod.splits)

lemma i2c_writew_fds:
  assumes "fd_laws B fds" and "onlp_i2c_writew B bus addr offset x flags w = Some (rv, w1)"
  shows "fds w1 = fds w"
  using bracket_fds [OF assms(1) assms(2) [unfolded onlp_i2c_writew_def if_distrib [of Some]], where world = snd] fd_law(10) [OF assms(1)]
  by (fastforce split: prod.splits)

lemma mux_select_fds:
  assumes "fd_laws B fds" and "onlp_i2c_mux_select B mux c w = Some (rv, w1)"
  shows "fds w1 = fds w"
  using assms(2) by (auto simp: onlp_i2c_mux_select_def split: option.splits dest: i2c_writeb_fds [OF assms(1)])

lemma channels_loop_fds:
  assumes "\<And>mux c w rv w1. f mux c w = Some (rv, w1) \<Longrightarrow> (fds w1 :: int set) = fds w"
  shows "channels_loop f mcs w = Some (rv, w1) \<Longrightarrow> fds w1 = fds w"
proof (induction mcs arbitrary: w)
  case Nil
  then show ?case by simp
next
  case (Cons mc mcs)
  obtain m c where mc: "mc = (m, c)" by fastforce
  show ?case
  proof (cases m)
    case None
    then show ?thesis using Cons mc by simp
  next
    case (Some mux)
    then obtain rv1 w2 where step: "f mux c w = Some (rv1, w2)"
      and "w1 = w2 \<or> channels_loop f mcs w2 = Some (rv, w1)"
      using Cons.prems mc by (auto simp: bind_eq_Some_conv split: if_splits)
    then show ?thesis using Cons.IH [of w2] assms [OF step] by auto
  qed
qed

lemma dev_mux_fds:
  assumes "fd_laws B fds"
  shows "dev_mux_channels_select B dev flags w = Some (rv, w1) \<Longrightarrow> fds w1 = fds w"
    and "dev_mux_channels_deselect B dev flags w = Some (rv, w1) \<Longrightarrow> fds w1 = fds w"
proof -
  have sel: "channels_loop (onlp_i2c_mux_channel_select B) mcs w = Some (rv, w1) \<Longrightarrow> fds w1 = fds w" for mcs
    by (erule channels_loop_fds [rotated]) (simp add: onlp_i2c_mux_channel_select_def mux_select_fds [OF assms])
  have desel: "channels_loop (onlp_i2c_mux_channel_deselect B) mcs w = Some (rv, w1) \<Longrightarrow> fds w1 = fds w" for mcs
    by (erule channels_loop_fds [rotated])
       (simp add: onlp_i2c_mux_channel_deselect_def onlp_i2c_mux_deselect_def mux_select_fds [OF assms])
  show "dev_mux_channels_select B dev flags w = Some (rv, w1) \<Longrightarrow> fds w1 = fds w"
    by (auto simp: dev_mux_channels_select_def onlp_i2c_dev_mux_channels_select_def
        onlp_i2c_mux_channels_select_def split: if_split_asm option.split_asm intro!: sel)
  show "dev_mux_channels_deselect B dev flags w = Some (rv, w1) \<Longrightarrow> fds w1 = fds w"
    by (auto simp: dev_mux_channels_deselect_def onlp_i2c_dev_mux_channels_deselect_def
        onlp_i2c_mux_channels_deselect_def split: if_split_asm option.split_asm intro!: desel)
qed

text \<open>
  No descriptor is left behind. When opening and closing files do what the system promises and no
  path is a socket, reading and writing a file and every access to a device on a bus, with or without
  multiplexers on the way and whatever step of it fails, return with the descriptors open that were
  open before.
\<close>

theorem io_closes_descriptors:
  assumes "fd_laws B fds"
  shows "(onlp_file_vread (bus_fs B) data mx len p w = (rv, d, n, w1) \<longrightarrow> fds w1 = fds w)
    \<and> (onlp_file_vwrite (bus_fs B) data p w = (rv, w1) \<longrightarrow> fds w1 = fds w)
    \<and> (onlp_i2c_modifyb B bus addr offset a o' flags w = Some (rv, w1) \<longrightarrow> fds w1 = fds w)
    \<and> (onlp_i2c_dev_read B dev offset sz data flags w = Some (rv, d, w1) \<longrightarrow> fds w1 = fds w)
    \<and> (onlp_i2c_dev_write B dev offset sz data flags w = Some (rv, w1) \<longrightarrow> fds w1 = fds w)
    \<and> (onlp_i2c_dev_readb B dev offset flags w = Some (rv, w1) \<longrightarrow> fds w1 = fds w)
    \<and> (onlp_i2c_dev_writeb B dev offset b flags w = Some (rv, w1) \<longrightarrow> fds w1 = fds w)
    \<and> (onlp_i2c_dev_readw B dev offset flags w = Some (rv, w1) \<longrightarrow> fds w1 = fds w)
    \<and> (onlp_i2c_dev_writew B dev offset x flags w = Some (rv, w1) \<longrightarrow> fds w1 = fds w)"
proof (intro conjI impI)
  note laws = fd_law [OF assms]
  note mux = dev_mux_fds [OF assms]
  show "fds w1 = fds w" if "onlp_file_vread (bus_fs B) data mx len p w = (rv, d, n, w1)"
    using that
    by (auto simp: onlp_file_vread_def laws(3) split: prod.splits if_splits dest!: vopen_fds [OF assms] laws(4))
  show "fds w1 = fds w" if "onlp_file_vwrite (bus_fs B) data p w = (rv, w1)"
    using that
    by (auto simp: onlp_file_vwrite_def laws(3) split: prod.splits if_splits dest!: vopen_fds [OF assms] laws(5))
  show "fds w1 = fds w" if "onlp_i2c_modifyb B bus addr offset a o' flags w = Some (rv, w1)"
    using that by (rule i2c_modifyb_fds [OF assms])
  show "fds w1 = fds w" if "onlp_i2c_dev_read B dev offset sz data flags w = Some (rv, d, w1)"
    using that
    by (auto simp: onlp_i2c_dev_read_def bind_eq_Some_conv split: if_splits
        dest!: mux i2c_read_fds [OF assms] i2c_block_read_fds [OF assms])
  show "fds w1 = fds w" if "onlp_i2c_dev_write B dev offset sz data flags w = Some (rv, w1)"
    using that
    by (auto simp: onlp_i2c_dev_write_def bind_eq_Some_conv split: if_splits dest!: mux i2c_write_fds [OF assms])
  show "fds w1 = fds w" if "onlp_i2c_dev_readb B dev offset flags w = Some (rv, w1)"
    using that
    by (auto simp: onlp_i2c_dev_readb_def bind_eq_Some_conv split: if_splits dest!: mux i2c_readb_fds [OF assms])
  show "fds w1 = fds w" if "onlp_i2c_dev_writeb B dev offset b flags w = Some (rv, w1)"
    using that
    by (auto simp: onlp_i2c_dev_writeb_def bind_eq_Some_conv split: if_splits dest!: mux i2c_writeb_fds [OF assms])
  show "fds w1 = fds w" if "onlp_i2c_dev_readw B dev offset flags w = Some (rv, w1)"
    using that
    by (auto simp: onlp_i2c_dev_readw_def bind_eq_Some_conv split: if_splits dest!: mux i2c_readw_fds [OF assms])
  show "fds w1 = fds w" if "onlp_i2c_dev_writew B dev offset x flags w = Some (rv, w1)"
    using that
    by (auto simp: onlp_i2c_dev_writew_def bind_eq_Some_conv split: if_splits dest!: mux i2c_writew_fds [OF assms])
qed

text \<open>A system that keeps the list of open descriptors and where every transfer fails.\<close>

definition list_bus :: "int list i2c_bus" where
  "list_bus =
     \<lparr> bus_fs = \<lparr> fs_stat = (\<lambda>p w. Some (False, 0)),
         fs_open = (\<lambda>p fl w. let fd = 1 + sum_list (map abs w) in (fd, fd # w)),
         fs_socket = (\<lambda>w. (-1, w)), fs_connect = (\<lambda>fd p w. (-1, w)), fs_read = (\<lambda>fd mx w. (-1, [], w)),
         fs_write = (\<lambda>fd d w. (-1, w)), fs_close = (\<lambda>fd w. filter (\<lambda>x. x \<noteq> fd) w), fs_walk = (\<lambda>root w. None) \<rparr>,
       i2c_ioctl = (\<lambda>fd q a w. (0, w)),
       smbus_read_byte_data = (\<lambda>fd k w. (-1, w)),
       smbus_write_byte_data = (\<lambda>fd k v w. (-1, w)),
       smbus_read_word_data = (\<lambda>fd k w. (-1, w)),
       smbus_write_word_data = (\<lambda>fd k v w. (-1, w)),
       smbus_read_block_data = (\<lambda>fd k w. (-1, [], w)),
       smbus_read_i2c_block_data = (\<lambda>fd k n w. (-1, [], w)) \<rparr>"

lemma list_bus_laws: "fd_laws list_bus set"
proof -
  have nonneg: "0 \<le> sum_list (map abs w)" for w :: "int list" by (induction w) simp_all
  have bound: "x \<le> sum_list (map abs w)" if "x \<in> set w" for x :: int and w
    using that
  proof (induction w)
    case (Cons y w)
    then show ?case using nonneg [of w] by auto
  qed simp
  have fresh: "1 + sum_list (map abs w) \<notin> set w" "1 + sum_list (map abs w) \<noteq> 0" "\<not> 1 + sum_list (map abs w) < 0"
    for w :: "int list"
    using bound [of "1 + sum_list (map abs w)" w] nonneg [of w] by auto
  have "set (filter (\<lambda>x. x \<noteq> fd) w) = set w - {fd}" for fd :: int and w by auto
  then show ?thesis
    by (simp add: fd_laws_def list_bus_def Let_def fresh)
qed

theorem io_closes_descriptors_witness:
  "\<exists>d w1. onlp_i2c_dev_read list_bus \<lparr> dev_ichannels = [], dev_pchannels = None, dev_bus = 0, dev_addr = 0x50 \<rparr> 0 1 [9]
            ONLP_I2C_F_DISABLE_READ_RETRIES [7] = Some (-15, d, w1)
     \<and> set w1 = {7}"
proof -
  have flags: "has ONLP_I2C_F_DISABLE_READ_RETRIES ONLP_I2C_F_DISABLE_READ_RETRIES"
    "\<not> has ONLP_I2C_F_DISABLE_READ_RETRIES ONLP_I2C_F_USE_BLOCK_READ"
    "\<not> has ONLP_I2C_F_DISABLE_READ_RETRIES ONLP_I2C_F_NO_MUX_SELECT"
    by (simp_all add: has_def ONLP_I2C_F_DISABLE_READ_RETRIES_def ONLP_I2C_F_USE_BLOCK_READ_def ONLP_I2C_F_NO_MUX_SELECT_def)
  have "plain_path (i2c_path 0)" by (rule i2c_path_plain) (simp add: bus_number_def)
  then have path: "CHR ''*'' \<notin> set (i2c_path 0)" "take 4094 (i2c_path 0) = i2c_path 0"
    by (simp_all add: plain_path_def)
  have opened: "onlp_i2c_open list_bus 0 0x50 ONLP_I2C_F_DISABLE_READ_RETRIES [7] = Some (8, [8, 7])"
    by (simp add: onlp_i2c_open_def onlp_file_open_def onlp_file_vopen_def vopen_def list_bus_def path)
  have fail: "smbus_read_byte_data list_bus fd k w = (-1, w)" for fd k w by (simp add: list_bus_def)
  have "read_retries ONLP_I2C_F_DISABLE_READ_RETRIES = Suc 0" by (simp add: read_retries_def flags)
  then have "onlp_i2c_dev_read list_bus \<lparr> dev_ichannels = [], dev_pchannels = None, dev_bus = 0, dev_addr = 0x50 \<rparr> 0 1 [9]
            ONLP_I2C_F_DISABLE_READ_RETRIES [7] = Some (-15, [9], i2c_close list_bus 8 [8, 7])"
    by (simp add: onlp_i2c_dev_read_def onlp_i2c_read_def opened fail flags dev_mux_channels_select_def
        onlp_i2c_dev_mux_channels_select_def onlp_i2c_mux_channels_select_def)
  then show ?thesis
    using io_closes_descriptors [OF list_bus_laws, where w = "[7]"] by fastforce
qed

end
