(* ===== verification/Kernel.thy ===== *)
theory Kernel
  imports File
begin

text \<open>
  What the kernel drivers and the daemons share: the error numbers of the C library, the comparison of
  two readings of the clock that survives its wrap-around, byte arrays and the strings in them, and the
  printing of a number with a newline, as \<open>sprintf\<close> does it.
\<close>

definition EPERM :: int where [simp]: "EPERM = 1"
definition EINTR :: int where [simp]: "EINTR = 4"
definition EIO :: int where [simp]: "EIO = 5"
definition ENXIO :: int where [simp]: "ENXIO = 6"
definition ENOMEM :: int where [simp]: "ENOMEM = 12"
definition EBUSY :: int where [simp]: "EBUSY = 16"
definition EEXIST :: int where [simp]: "EEXIST = 17"
definition ENODEV :: int where [simp]: "ENODEV = 19"
definition EINVAL :: int where [simp]: "EINVAL = 22"
definition EPFNOSUPPORT :: int where [simp]: "EPFNOSUPPORT = 96"
definition EADDRINUSE :: int where [simp]: "EADDRINUSE = 98"
definition ETIMEDOUT :: int where [simp]: "ETIMEDOUT = 110"

definition time_after :: "u64 \<Rightarrow> u64 \<Rightarrow> bool" where
  "time_after a b \<longleftrightarrow> sint (b - a) < 0"

definition time_before :: "u64 \<Rightarrow> u64 \<Rightarrow> bool" where
  "time_before a b \<longleftrightarrow> sint (a - b) < 0"

definition print_d :: "int \<Rightarrow> u8 list" where
  "print_d v = dec_int v @ [0x0A]"

text \<open>A byte stored at an index of an array, the string at its start, and the bytes of a literal.\<close>

definition store_at :: "nat \<Rightarrow> u8 \<Rightarrow> u8 list \<Rightarrow> u8 list option" where
  "store_at i b arr = (if i < length arr then Some (arr[i := b]) else None)"

definition c_string :: "u8 list \<Rightarrow> u8 list option" where
  "c_string arr = (if 0 \<in> set arr then Some (takeWhile (\<lambda>b. b \<noteq> 0) arr) else None)"

definition bytes_of :: "string \<Rightarrow> u8 list" where
  "bytes_of s = map (\<lambda>c. word_of_nat (of_char c)) s"

end
