(* ===== verification/As4564Cpld.thy ===== *)
theory As4564Cpld
  imports Kernel
begin

text \<open>
  The kernel driver of the CPLD on the Accton AS4564-26P
  (\<open>arm64-accton-as4564-26p-cpld.c\<close>): register access with retries and a bus arbitration request,
  and the sysfs attributes of the transceiver ports and the watchdog. What the kernel supplies is a
  parameter. A handler that waits for ever on a mutex it cannot get is \<open>None\<close>.
\<close>

section \<open>The kernel\<close>

text \<open>A client on the bus: which object it is, and its address.\<close>

record client =
  cl_id :: nat
  cl_addr :: u16

text \<open>
  \<open>kstrtol\<close> and \<open>kstrtoint\<close> give an error or the value; \<open>scan_2x\<close> is \<open>sscanf(buf, "0x%x 0x%x")\<close>, with a value only
  when both numbers are there. Sleeping changes nothing the driver reads.
\<close>

record 'w kernel =
  smbus_read :: "client \<Rightarrow> u8 \<Rightarrow> 'w \<Rightarrow> int \<times> 'w"
  smbus_write :: "client \<Rightarrow> u8 \<Rightarrow> u8 \<Rightarrow> 'w \<Rightarrow> int \<times> 'w"
  gpio_direction_output :: "nat \<Rightarrow> nat \<Rightarrow> 'w \<Rightarrow> 'w"
  kstrtol :: "u8 list \<Rightarrow> int + int"
  kstrtoint :: "u8 list \<Rightarrow> int + int"
  scan_2x :: "u8 list \<Rightarrow> (u32 \<times> u32) option"
  jiffies :: "'w \<Rightarrow> u64"
  hz :: u64

text \<open>
  \<open>update_locks\<close>: the clients whose mutex is held; \<open>client_list\<close>: \<open>cpld_client_list\<close>, newest first.
\<close>

record 'w cpld =
  list_lock :: bool
  update_locks :: "nat set"
  client_list :: "client list"
  kw :: 'w

definition mutex_lock :: "client \<Rightarrow> 'w cpld \<Rightarrow> 'w cpld option" where
  "mutex_lock c s = (if cl_id c \<in> update_locks s then None else Some (s\<lparr>update_locks := insert (cl_id c) (update_locks s)\<rparr>))"

definition mutex_unlock :: "client \<Rightarrow> 'w cpld \<Rightarrow> 'w cpld" where
  "mutex_unlock c s = s\<lparr>update_locks := update_locks s - {cl_id c}\<rparr>"

text \<open>Run an access on the part of the state the kernel owns.\<close>

definition on_kw :: "('w \<Rightarrow> 'a \<times> 'w) \<Rightarrow> 'w cpld \<Rightarrow> 'a \<times> 'w cpld" where
  "on_kw f s = (let (a, w) = f (kw s) in (a, s\<lparr>kw := w\<rparr>))"

definition I2C_RW_RETRY_COUNT :: nat where [simp]: "I2C_RW_RETRY_COUNT = 10"
definition I2C_WRITE_REQUEST_REG :: u8 where "I2C_WRITE_REQUEST_REG = 0xE0"
definition I2C_LOCK_BY_7040_VAL :: int where "I2C_LOCK_BY_7040_VAL = 0x10"
definition I2C_WRITE_REQUEST_7040_VAL :: int where "I2C_WRITE_REQUEST_7040_VAL = 0x1"
definition I2C_WRITE_REQUEST_RETRY_TIMES :: nat where [simp]: "I2C_WRITE_REQUEST_RETRY_TIMES = 3"
definition WTD_RESET_GPIO_PIN_MPP3 :: nat where "WTD_RESET_GPIO_PIN_MPP3 = 35"

section \<open>Register access\<close>

fun rw_retry :: "nat \<Rightarrow> ('w \<Rightarrow> int \<times> 'w) \<Rightarrow> int \<Rightarrow> 'w \<Rightarrow> int \<times> 'w" where
  "rw_retry 0 f status w = (status, w)"
| "rw_retry (Suc retry) f status w =
     (let (status, w) = f w in if status < 0 then rw_retry retry f status w else (status, w))"

definition cpld_read_internal :: "'w kernel \<Rightarrow> client \<Rightarrow> u8 \<Rightarrow> 'w \<Rightarrow> int \<times> 'w" where
  "cpld_read_internal K c reg w = rw_retry I2C_RW_RETRY_COUNT (smbus_read K c reg) 0 w"

text \<open>
  \<open>i2c_write_request_begin\<close>: ask the arbiter for the bus until it grants it, at most four times.
\<close>

fun write_request_loop :: "'w kernel \<Rightarrow> client \<Rightarrow> nat \<Rightarrow> int \<Rightarrow> 'w \<Rightarrow> int \<times> 'w" where
  "write_request_loop K c 0 status w = (status, w)"
| "write_request_loop K c (Suc n) status w =
     (let (status, w) = smbus_read K c I2C_WRITE_REQUEST_REG w in
      if status < 0 then write_request_loop K c n status w
      else if status AND I2C_LOCK_BY_7040_VAL \<noteq> 0 then (0, w)
      else
        (let (status, w) = smbus_write K c I2C_WRITE_REQUEST_REG
               (word_of_int (status OR I2C_WRITE_REQUEST_7040_VAL)) w in
         if status < 0 then write_request_loop K c n status w
         else
           (let (status, w) = smbus_read K c I2C_WRITE_REQUEST_REG w in
            if status < 0 then write_request_loop K c n status w
            else if status AND I2C_LOCK_BY_7040_VAL \<noteq> 0 then (0, w)
            else write_request_loop K c n (- EBUSY) w)))"

definition i2c_write_request_begin :: "'w kernel \<Rightarrow> client \<Rightarrow> 'w \<Rightarrow> int \<times> 'w" where
  "i2c_write_request_begin K c w = write_request_loop K c (I2C_WRITE_REQUEST_RETRY_TIMES + 1) 0 w"

definition i2c_write_request_end :: "'w kernel \<Rightarrow> client \<Rightarrow> 'w \<Rightarrow> int \<times> 'w" where
  "i2c_write_request_end K c w =
     (let (status, w) = smbus_read K c I2C_WRITE_REQUEST_REG w in
      if status < 0 then (status, w)
      else
        (let (status, w) = smbus_write K c I2C_WRITE_REQUEST_REG
               (word_of_int (status AND NOT I2C_WRITE_REQUEST_7040_VAL)) w in
         (if status < 0 then status else 0, w)))"

text \<open>The status of the write itself is overwritten by that of handing the bus back.\<close>

definition cpld_write_internal :: "'w kernel \<Rightarrow> client \<Rightarrow> u8 \<Rightarrow> u8 \<Rightarrow> 'w \<Rightarrow> int \<times> 'w" where
  "cpld_write_internal K c reg v w =
     (let (status, w) = i2c_write_request_begin K c w in
      if status < 0 then (status, w)
      else
        (let (status, w) = rw_retry I2C_RW_RETRY_COUNT (smbus_write K c reg v) status w in
         i2c_write_request_end K c w))"

section \<open>The client list\<close>

text \<open>\<open>ok\<close>: whether the allocation succeeds.\<close>

definition as4564_26p_cpld_add_client :: "bool \<Rightarrow> client \<Rightarrow> 'w cpld \<Rightarrow> 'w cpld option" where
  "as4564_26p_cpld_add_client ok c s =
     (if \<not> ok then Some s
      else if list_lock s then None else Some (s\<lparr>client_list := c # client_list s\<rparr>))"

definition as4564_26p_cpld_remove_client :: "client \<Rightarrow> 'w cpld \<Rightarrow> 'w cpld option" where
  "as4564_26p_cpld_remove_client c s =
     (if list_lock s then None else Some (s\<lparr>client_list := remove1 c (client_list s)\<rparr>))"

definition as4564_26p_cpld_read :: "'w kernel \<Rightarrow> u16 \<Rightarrow> u8 \<Rightarrow> 'w cpld \<Rightarrow> (int \<times> 'w cpld) option" where
  "as4564_26p_cpld_read K cpld_addr reg s =
     (if list_lock s then None
      else
        (case find (\<lambda>c. cl_addr c = cpld_addr) (client_list s) of
           Some c \<Rightarrow> Some (on_kw (cpld_read_internal K c reg) s)
         | None \<Rightarrow> Some (- EPERM, s)))"

definition as4564_26p_cpld_write :: "'w kernel \<Rightarrow> u16 \<Rightarrow> u8 \<Rightarrow> u8 \<Rightarrow> 'w cpld \<Rightarrow> (int \<times> 'w cpld) option" where
  "as4564_26p_cpld_write K cpld_addr reg v s =
     (if list_lock s then None
      else
        (case find (\<lambda>c. cl_addr c = cpld_addr) (client_list s) of
           Some c \<Rightarrow> Some (on_kw (cpld_write_internal K c reg v) s)
         | None \<Rightarrow> Some (- EIO, s)))"

section \<open>Attributes\<close>

datatype cpld_attr =
    VERSION | SUB_VERSION | ACCESS | I2C_ACCESS_REQUEST_7040 | WTD_RESET_7040 | WTD_STATE_7040
  | WTD_ENABLE_7040 | WTD_CLOCK_7040 | WTD_COUNTER_7040 | MODULE_PRESENT_ALL | MODULE_RXLOS_ALL
  | MODULE_PRESENT_25 | MODULE_PRESENT_26 | MODULE_TXDISABLE_25 | MODULE_TXDISABLE_26
  | MODULE_RXLOS_25 | MODULE_RXLOS_26 | MODULE_TXFAULT_25 | MODULE_TXFAULT_26

text \<open>What a show handler gives: a negative error, or the bytes printed.\<close>

type_synonym shown = "int + u8 list"

definition hex_digit :: "u8 \<Rightarrow> u8" where
  "hex_digit d = (if d < 10 then 0x30 + d else 0x57 + d)"

definition print_02x :: "u8 \<Rightarrow> u8 list" where
  "print_02x v = [hex_digit (drop_bit 4 v), hex_digit (v AND 0xF), 0x0A]"

text \<open>Between the mutex operations: leave with the error, or go on with what \<open>k\<close> prints.\<close>

definition locked_show ::
  "client \<Rightarrow> ('w \<Rightarrow> int \<times> 'w) \<Rightarrow> (int \<Rightarrow> u8 list) \<Rightarrow> 'w cpld \<Rightarrow> (shown \<times> 'w cpld) option" where
  "locked_show c f k s =
     do { s \<leftarrow> mutex_lock c s;
          let (status, s) = on_kw f s;
          Some (if status < 0 then Inl status else Inr (k status), mutex_unlock c s) }"

definition show_present_all :: "'w kernel \<Rightarrow> client \<Rightarrow> 'w cpld \<Rightarrow> (shown \<times> 'w cpld) option" where
  "show_present_all K c s =
     locked_show c (cpld_read_internal K c 0x41)
       (\<lambda>status. print_02x (NOT (word_of_int (drop_bit 2 status)) AND 0x3)) s"

definition show_rxlos_all :: "'w kernel \<Rightarrow> client \<Rightarrow> 'w cpld \<Rightarrow> (shown \<times> 'w cpld) option" where
  "show_rxlos_all K c s =
     locked_show c
       (\<lambda>w. let (status, w) = cpld_write_internal K c 0x36 0 w in
            if status < 0 then (status, w) else cpld_read_internal K c 0x40 w)
       (\<lambda>status. print_02x (word_of_int (drop_bit 2 status) AND 0x3)) s"

text \<open>Whether the bit is inverted, the register and the mask; the mask is an \<open>u8\<close>.\<close>

fun module_field :: "cpld_attr \<Rightarrow> (bool \<times> u8 \<times> u8) option" where
  "module_field MODULE_PRESENT_25 = Some (True, 0x41, ucast (push_bit 2 0x1 :: u32))"
| "module_field MODULE_PRESENT_26 = Some (True, 0x41, ucast (push_bit 3 0x1 :: u32))"
| "module_field MODULE_RXLOS_25 = Some (False, 0x40, ucast (push_bit 2 0x1 :: u32))"
| "module_field MODULE_RXLOS_26 = Some (False, 0x40, ucast (push_bit 3 0x1 :: u32))"
| "module_field MODULE_TXFAULT_25 = Some (False, 0x40, ucast (push_bit 6 0x10 :: u32))"
| "module_field MODULE_TXFAULT_26 = Some (False, 0x40, ucast (push_bit 7 0x10 :: u32))"
| "module_field MODULE_TXDISABLE_25 = Some (False, 0x42, ucast (push_bit 2 0x1 :: u32))"
| "module_field MODULE_TXDISABLE_26 = Some (False, 0x42, ucast (push_bit 3 0x1 :: u32))"
| "module_field _ = None"

fun needs_interrupt :: "cpld_attr \<Rightarrow> bool" where
  "needs_interrupt attr \<longleftrightarrow>
     attr \<in> {MODULE_TXFAULT_25, MODULE_TXFAULT_26, MODULE_TXDISABLE_25, MODULE_TXDISABLE_26}"

definition show_module :: "'w kernel \<Rightarrow> client \<Rightarrow> cpld_attr \<Rightarrow> 'w cpld \<Rightarrow> (shown \<times> 'w cpld) option" where
  "show_module K c attr s =
     (case module_field attr of
        None \<Rightarrow> Some (Inr [], s)
      | Some (invert, reg, m) \<Rightarrow>
          locked_show c
            (\<lambda>w. if needs_interrupt attr then
                   (let (status, w) = cpld_read_internal K c 0x36 w in
                    if status < 0 then (status, w)
                    else
                      (let (status, w) = cpld_write_internal K c 0x36
                             (word_of_int (status AND NOT (uint m))) w in
                       if status < 0 then (status, w) else cpld_read_internal K c reg w))
                 else cpld_read_internal K c reg w)
            (\<lambda>status. print_d (of_bool ((status AND uint m \<noteq> 0) \<noteq> invert))) s)"

definition show_i2c_request :: "'w kernel \<Rightarrow> client \<Rightarrow> 'w cpld \<Rightarrow> shown \<times> 'w cpld" where
  "show_i2c_request K c s =
     (let (status, s) = on_kw (smbus_read K c I2C_WRITE_REQUEST_REG) s in
      (if status < 0 then Inl status else Inr (print_d (of_bool (status AND I2C_LOCK_BY_7040_VAL \<noteq> 0))), s))"

text \<open>A store handler gives a negative error or the number of bytes it took.\<close>

definition set_i2c_request :: "'w kernel \<Rightarrow> client \<Rightarrow> u8 list \<Rightarrow> 'w cpld \<Rightarrow> int \<times> 'w cpld" where
  "set_i2c_request K c buf s =
     (case kstrtol K buf of
        Inl e \<Rightarrow> (e, s)
      | Inr v \<Rightarrow>
          (let (status, s) = on_kw (if v \<noteq> 0 then i2c_write_request_begin K c else i2c_write_request_end K c) s in
           (if status \<noteq> 0 then status else int (length buf), s)))"

text \<open>Between the mutex operations: read, change and write a register.\<close>

definition locked_update ::
  "'w kernel \<Rightarrow> client \<Rightarrow> u8 \<Rightarrow> (int \<Rightarrow> int) \<Rightarrow> int \<Rightarrow> 'w cpld \<Rightarrow> (int \<times> 'w cpld) option" where
  "locked_update K c reg f count s =
     do { s \<leftarrow> mutex_lock c s;
          let (status, s) = on_kw (cpld_read_internal K c reg) s;
          if status < 0 then Some (status, mutex_unlock c s)
          else
            (let (status, s) = on_kw (cpld_write_internal K c reg (word_of_int (f status))) s in
             Some (if status < 0 then status else count, mutex_unlock c s)) }"

definition set_control :: "'w kernel \<Rightarrow> client \<Rightarrow> cpld_attr \<Rightarrow> u8 list \<Rightarrow> 'w cpld \<Rightarrow> (int \<times> 'w cpld) option" where
  "set_control K c attr buf s =
     (case kstrtol K buf of
        Inl e \<Rightarrow> Some (e, s)
      | Inr v \<Rightarrow>
          if attr \<in> {MODULE_TXDISABLE_25, MODULE_TXDISABLE_26} then
            (let m = (if attr = MODULE_TXDISABLE_25 then 0x4 else 0x8) in
             locked_update K c 0x42 (\<lambda>status. if v \<noteq> 0 then status OR m else status AND NOT m)
               (int (length buf)) s)
          else Some (0, s))"

section \<open>The watchdog\<close>

fun wtd_field :: "cpld_attr \<Rightarrow> (u8 \<times> u8) option" where
  "wtd_field WTD_STATE_7040 = Some (0x90, 0x2)"
| "wtd_field WTD_ENABLE_7040 = Some (0x91, 0x10)"
| "wtd_field WTD_CLOCK_7040 = Some (0x92, 0xC0)"
| "wtd_field WTD_COUNTER_7040 = Some (0x92, 0x3F)"
| "wtd_field _ = None"

text \<open>Shift the value right until the mask begins at bit zero; the mask is not zero.\<close>

function align_field :: "int \<Rightarrow> u8 \<Rightarrow> int \<times> u8" where
  "align_field status m =
     (if m = 0 \<or> bit m 0 then (status, m) else align_field (drop_bit 1 status) (drop_bit 1 m))"
  by pat_completeness auto
termination
proof (relation "measure (\<lambda>(status, m). unat m)")
  fix status :: int and m :: u8
  assume "\<not> (m = 0 \<or> bit m 0)"
  then have "unat (m div 2) < unat m" by (simp add: unat_div unat_gt_0)
  then show "((drop_bit 1 status, drop_bit 1 m), status, m) \<in> measure (\<lambda>(status, m). unat m)"
    by (simp add: drop_bit_Suc)
qed simp

declare align_field.simps [simp del]

definition cpld_show_wtd :: "'w kernel \<Rightarrow> client \<Rightarrow> cpld_attr \<Rightarrow> 'w cpld \<Rightarrow> (shown \<times> 'w cpld) option" where
  "cpld_show_wtd K c attr s =
     (case wtd_field attr of
        None \<Rightarrow> Some (Inr [], s)
      | Some (reg, m) \<Rightarrow>
          locked_show c (cpld_read_internal K c reg)
            (\<lambda>status. let (status, m) = align_field status m in print_d (status AND uint m)) s)"

text \<open>The register, the mask and the shifted value of a store, in a 64-bit \<open>long\<close>.\<close>

definition wtd_value :: "cpld_attr \<Rightarrow> int \<Rightarrow> (u8 \<times> u8 \<times> int) option" where
  "wtd_value attr v =
     (case attr of
        WTD_ENABLE_7040 \<Rightarrow> Some (0x91, 0xD0, push_bit 4 (of_bool (v \<noteq> 0) OR 0x8))
      | WTD_CLOCK_7040 \<Rightarrow> Some (0x92, 0xC0, signed_take_bit 63 (push_bit 6 v))
      | WTD_COUNTER_7040 \<Rightarrow> Some (0x92, 0x3F, v AND 0x3F)
      | _ \<Rightarrow> None)"

definition cpld_set_wtd :: "'w kernel \<Rightarrow> client \<Rightarrow> cpld_attr \<Rightarrow> u8 list \<Rightarrow> 'w cpld \<Rightarrow> (int \<times> 'w cpld) option" where
  "cpld_set_wtd K c attr buf s =
     (case kstrtol K buf of
        Inl e \<Rightarrow> Some (e, s)
      | Inr v \<Rightarrow>
          (case wtd_value attr v of
             None \<Rightarrow> Some (0, s)
           | Some (reg, m, v) \<Rightarrow>
               if v AND NOT (uint m) \<noteq> 0 then Some (- EINVAL, s)
               else locked_update K c reg (\<lambda>status. (v AND uint m) OR (status AND NOT (uint m)))
                      (int (length buf)) s))"

definition cpld_reset_wtd :: "'w kernel \<Rightarrow> client \<Rightarrow> u8 list \<Rightarrow> 'w cpld \<Rightarrow> (int \<times> 'w cpld) option" where
  "cpld_reset_wtd K c buf s =
     (case kstrtol K buf of
        Inl e \<Rightarrow> Some (e, s)
      | Inr v \<Rightarrow>
          if v = 0 then Some (int (length buf), s)
          else
            do { s \<leftarrow> mutex_lock c s;
                 let s = s\<lparr>kw := gpio_direction_output K WTD_RESET_GPIO_PIN_MPP3 1
                                  (gpio_direction_output K WTD_RESET_GPIO_PIN_MPP3 0 (kw s))\<rparr>;
                 Some (int (length buf), mutex_unlock c s) })"

definition cpld_access :: "'w kernel \<Rightarrow> client \<Rightarrow> u8 list \<Rightarrow> 'w cpld \<Rightarrow> (int \<times> 'w cpld) option" where
  "cpld_access K c buf s =
     (case scan_2x K buf of
        None \<Rightarrow> Some (- EINVAL, s)
      | Some (addr, val) \<Rightarrow>
          if addr > 0xFF \<or> val > 0xFF then Some (- EINVAL, s)
          else
            do { s \<leftarrow> mutex_lock c s;
                 let (status, s) = on_kw (cpld_write_internal K c (ucast addr) (ucast val)) s;
                 Some (if status < 0 then status else int (length buf), mutex_unlock c s) })"

definition show_version :: "'w kernel \<Rightarrow> client \<Rightarrow> cpld_attr \<Rightarrow> 'w cpld \<Rightarrow> shown \<times> 'w cpld" where
  "show_version K c attr s =
     (let (val, s) = on_kw (smbus_read K c (if attr = VERSION then 0x1 else 0xFF)) s in
      (Inr (print_d val), s))"

end
