(* ===== verification/As4564Fan.thy ===== *)
theory As4564Fan
  imports As4564Cpld
begin

text \<open>
  The kernel driver of the fans of the AS4564-26P (\<open>arm64-accton-as4564-26p-fan.c\<close>): duty cycle,
  speed and fault attributes over a cached copy of five CPLD registers, and the fan watchdog.
  \<open>None\<close> is a handler that waits for ever on a mutex or divides by zero.
\<close>

section \<open>State\<close>

definition MAX_FAN_SPEED_RPM :: int where [simp]: "MAX_FAN_SPEED_RPM = 10670"
definition FAN_STATUS_I2C_ADDR :: u16 where "FAN_STATUS_I2C_ADDR = 0x40"

text \<open>The registers in the order of \<open>enum sysfs_fan_attributes\<close>: two duty cycles, two speeds, the tachometer setting.\<close>

definition fan_reg :: "u8 list" where
  "fan_reg = [0x70, 0x71, 0x80, 0x81, 0x62]"

datatype fan_attr =
    FAN1_PWM | FAN2_PWM | FAN1_SPEED_RPM | FAN2_SPEED_RPM | FAN1_FAULT | FAN2_FAULT | FAN_MAX_RPM
  | WTD_CLOCK | WTD_COUNTER | WTD_ENABLE | WTD_RESET

record 'w as4564_fan_data =
  fan_update_lock :: bool
  fan_valid :: bool
  fan_last_updated :: u64
  fan_reg_val :: "u8 list"
  fan_cpld :: "'w cpld"

definition fan_lock :: "'w as4564_fan_data \<Rightarrow> 'w as4564_fan_data option" where
  "fan_lock s = (if fan_update_lock s then None else Some (s\<lparr>fan_update_lock := True\<rparr>))"

definition fan_unlock :: "'w as4564_fan_data \<Rightarrow> 'w as4564_fan_data" where
  "fan_unlock s = s\<lparr>fan_update_lock := False\<rparr>"

definition as4564_fan_read_value :: "'w kernel \<Rightarrow> u8 \<Rightarrow> 'w as4564_fan_data \<Rightarrow> (int \<times> 'w as4564_fan_data) option" where
  "as4564_fan_read_value K reg s =
     map_option (\<lambda>(rv, c). (rv, s\<lparr>fan_cpld := c\<rparr>)) (as4564_26p_cpld_read K FAN_STATUS_I2C_ADDR reg (fan_cpld s))"

definition as4564_fan_write_value ::
  "'w kernel \<Rightarrow> u8 \<Rightarrow> u8 \<Rightarrow> 'w as4564_fan_data \<Rightarrow> (int \<times> 'w as4564_fan_data) option" where
  "as4564_fan_write_value K reg v s =
     map_option (\<lambda>(rv, c). (rv, s\<lparr>fan_cpld := c\<rparr>)) (as4564_26p_cpld_write K FAN_STATUS_I2C_ADDR reg v (fan_cpld s))"

section \<open>Conversions\<close>

definition reg_val_to_duty_cycle :: "u8 \<Rightarrow> u32" where
  "reg_val_to_duty_cycle reg_val = ((ucast (reg_val AND 0xFF) * 10000) div 255 + 50) div 100"

definition duty_cycle_to_reg_val :: "u8 \<Rightarrow> u8" where
  "duty_cycle_to_reg_val duty_cycle = word_of_int (uint duty_cycle * 255 div 100)"

definition reg_val_to_speed_rpm :: "u8 \<Rightarrow> u8 \<Rightarrow> u32 option" where
  "reg_val_to_speed_rpm reg_val tech_reg_val =
     (let timer = [1048, 2097, 4194, 8389];
          counter = tech_reg_val AND 0x3F;
          clock = drop_bit 6 tech_reg_val AND 0x3;
          divisor = timer ! unat clock * ucast counter :: u32 in
      if divisor = 0 then None else Some ((ucast reg_val * 3000000) div divisor))"

text \<open>Fan \<open>id\<close> (0 or 1) is faulty when its speed is zero.\<close>

definition is_fan_fault :: "'w as4564_fan_data \<Rightarrow> nat \<Rightarrow> int option" where
  "is_fan_fault s i =
     map_option (\<lambda>rpm. of_bool (rpm = 0)) (reg_val_to_speed_rpm (fan_reg_val s ! (2 + i)) (fan_reg_val s ! 4))"

section \<open>The cache\<close>

text \<open>Read the registers one after the other; whether all of them could be read.\<close>

fun update_regs :: "'w kernel \<Rightarrow> nat \<Rightarrow> u8 list \<Rightarrow> 'w as4564_fan_data \<Rightarrow> (bool \<times> 'w as4564_fan_data) option" where
  "update_regs K i [] s = Some (True, s)"
| "update_regs K i (r # rs) s =
     do { (status, s) \<leftarrow> as4564_fan_read_value K r s;
          if status < 0 then Some (False, s)
          else update_regs K (Suc i) rs (s\<lparr>fan_reg_val := (fan_reg_val s)[i := word_of_int status]\<rparr>) }"

definition as4564_fan_update_device :: "'w kernel \<Rightarrow> 'w as4564_fan_data \<Rightarrow> 'w as4564_fan_data option" where
  "as4564_fan_update_device K s =
     do { s \<leftarrow> fan_lock s;
          if time_after (jiffies K (kw (fan_cpld s))) (fan_last_updated s + hz K + hz K div 2) \<or> \<not> fan_valid s then
            do { (ok, s) \<leftarrow> update_regs K 0 fan_reg (s\<lparr>fan_valid := False\<rparr>);
                 Some (fan_unlock
                   (if ok then s\<lparr>fan_last_updated := jiffies K (kw (fan_cpld s)), fan_valid := True\<rparr> else s)) }
          else Some (fan_unlock s) }"

section \<open>Attributes\<close>

text \<open>The value printed for an attribute; nothing when the registers could not be read.\<close>

definition fan_value :: "fan_attr \<Rightarrow> 'w as4564_fan_data \<Rightarrow> u8 list option" where
  "fan_value attr s =
     (case attr of
        FAN1_PWM \<Rightarrow> Some (print_d (uint (reg_val_to_duty_cycle (fan_reg_val s ! 0))))
      | FAN2_PWM \<Rightarrow> Some (print_d (uint (reg_val_to_duty_cycle (fan_reg_val s ! 1))))
      | FAN1_SPEED_RPM \<Rightarrow>
          map_option (\<lambda>r. print_d (uint r)) (reg_val_to_speed_rpm (fan_reg_val s ! 2) (fan_reg_val s ! 4))
      | FAN2_SPEED_RPM \<Rightarrow>
          map_option (\<lambda>r. print_d (uint r)) (reg_val_to_speed_rpm (fan_reg_val s ! 3) (fan_reg_val s ! 4))
      | FAN1_FAULT \<Rightarrow> map_option print_d (is_fan_fault s 0)
      | FAN2_FAULT \<Rightarrow> map_option print_d (is_fan_fault s 1)
      | FAN_MAX_RPM \<Rightarrow> Some (print_d MAX_FAN_SPEED_RPM)
      | _ \<Rightarrow> Some [])"

definition fan_show_value ::
  "'w kernel \<Rightarrow> fan_attr \<Rightarrow> 'w as4564_fan_data \<Rightarrow> (shown \<times> 'w as4564_fan_data) option" where
  "fan_show_value K attr s =
     do { s \<leftarrow> as4564_fan_update_device K s;
          if fan_valid s then do { out \<leftarrow> fan_value attr s; Some (Inr out, s) }
          else Some (Inr [], s) }"

definition reset_fan_wtd :: "'w kernel \<Rightarrow> 'w as4564_fan_data \<Rightarrow> (int \<times> 'w as4564_fan_data) option" where
  "reset_fan_wtd K s =
     do { (status, s) \<leftarrow> as4564_fan_write_value K 0x60 0 s;
          if status < 0 then Some (status, s) else as4564_fan_write_value K 0x60 1 s }"

text \<open>
  \<open>set_duty_cycle\<close>: the value is clamped to 10..100, the watchdog reset, and the register written.
  The status of that write is dropped.
\<close>

definition set_duty_cycle ::
  "'w kernel \<Rightarrow> fan_attr \<Rightarrow> u8 list \<Rightarrow> 'w as4564_fan_data \<Rightarrow> (int \<times> 'w as4564_fan_data) option" where
  "set_duty_cycle K attr buf s =
     (case kstrtoint K buf of
        Inl e \<Rightarrow> Some (e, s)
      | Inr v \<Rightarrow>
          (let v = (if v < 10 then 10 else if v > 100 then 100 else v) in
           do { (error, s) \<leftarrow> reset_fan_wtd K s;
                if error < 0 then Some (error, s)
                else
                  do { (_, s) \<leftarrow> as4564_fan_write_value K (fan_reg ! (if attr = FAN1_PWM then 0 else 1))
                                   (duty_cycle_to_reg_val (word_of_int v)) s;
                       Some (int (length buf), s\<lparr>fan_valid := False\<rparr>) } }))"

section \<open>The watchdog\<close>

definition fan_wtd_field :: "fan_attr \<Rightarrow> (u8 \<times> u8) option" where
  "fan_wtd_field attr =
     (case attr of WTD_ENABLE \<Rightarrow> Some (0x60, 0x01) | WTD_CLOCK \<Rightarrow> Some (0x61, 0xC0)
      | WTD_COUNTER \<Rightarrow> Some (0x61, 0x3F) | _ \<Rightarrow> None)"

definition fan_show_wtd ::
  "'w kernel \<Rightarrow> fan_attr \<Rightarrow> 'w as4564_fan_data \<Rightarrow> (shown \<times> 'w as4564_fan_data) option" where
  "fan_show_wtd K attr s =
     (case fan_wtd_field attr of
        None \<Rightarrow> Some (Inr [], s)
      | Some (reg, m) \<Rightarrow>
          do { s \<leftarrow> fan_lock s;
               (status, s) \<leftarrow> as4564_fan_read_value K reg s;
               if status < 0 then Some (Inl status, fan_unlock s)
               else
                 (let (status, m) = align_field status m in
                  Some (Inr (print_d (status AND uint m)), fan_unlock s)) })"

definition fan_wtd_value :: "fan_attr \<Rightarrow> int \<Rightarrow> int" where
  "fan_wtd_value attr v =
     (case attr of WTD_ENABLE \<Rightarrow> v AND 0x01 | WTD_CLOCK \<Rightarrow> signed_take_bit 63 (push_bit 6 v)
      | WTD_COUNTER \<Rightarrow> v AND 0x3F | _ \<Rightarrow> v)"

definition fan_set_wtd ::
  "'w kernel \<Rightarrow> fan_attr \<Rightarrow> u8 list \<Rightarrow> 'w as4564_fan_data \<Rightarrow> (int \<times> 'w as4564_fan_data) option" where
  "fan_set_wtd K attr buf s =
     (case kstrtol K buf of
        Inl e \<Rightarrow> Some (e, s)
      | Inr v \<Rightarrow>
          (case fan_wtd_field attr of
             None \<Rightarrow> Some (0, s)
           | Some (reg, m) \<Rightarrow>
               (let v = fan_wtd_value attr v in
                if v AND NOT (uint m) \<noteq> 0 then Some (- EINVAL, s)
                else
                  do { s \<leftarrow> fan_lock s;
                       (status, s) \<leftarrow> as4564_fan_read_value K reg s;
                       if status < 0 then Some (status, fan_unlock s)
                       else
                         do { (status, s) \<leftarrow> as4564_fan_write_value K reg
                                (word_of_int ((v AND uint m) OR (status AND NOT (uint m)))) s;
                              Some (if status < 0 then status else int (length buf), fan_unlock s) } })))"

text \<open>\<open>reset_wtd\<close>: the error exit leaves the mutex locked.\<close>

definition fan_reset_wtd ::
  "'w kernel \<Rightarrow> u8 list \<Rightarrow> 'w as4564_fan_data \<Rightarrow> (int \<times> 'w as4564_fan_data) option" where
  "fan_reset_wtd K buf s =
     (case kstrtol K buf of
        Inl e \<Rightarrow> Some (e, s)
      | Inr v \<Rightarrow>
          if v = 0 then Some (int (length buf), s)
          else
            do { s \<leftarrow> fan_lock s;
                 (status, s) \<leftarrow> reset_fan_wtd K s;
                 if status < 0 then Some (status, s) else Some (int (length buf), fan_unlock s) })"

end
