(* ===== verification/As4564Kernel.thy ===== *)
theory As4564Kernel
  imports As4564Fan
begin

text \<open>
  What the kernel drivers of the AS4564-26P guarantee on a CPLD that behaves like a bank of
  registers behind an arbiter, and where they do not do what they are meant to.
\<close>

section \<open>A bank of registers\<close>

text \<open>
  The arbiter answers a request (bit 0 of register 0xE0) by granting the bus (bit 4) and withdraws
  the grant with the request. Every other register holds what was written last.
\<close>

definition granted :: "u8 \<Rightarrow> u8" where
  "granted v = (if bit v 0 then v OR 0x10 else v AND NOT 0x10)"

definition register_bank :: "'w kernel \<Rightarrow> client \<Rightarrow> ('w \<Rightarrow> u8 \<Rightarrow> u8) \<Rightarrow> bool" where
  "register_bank K c regs \<longleftrightarrow>
     (\<forall>r w. smbus_read K c r w = (uint (regs w r), w)) \<and>
     (\<forall>r v w. \<exists>w'. smbus_write K c r v w = (0, w') \<and>
        regs w' = (regs w)(r := if r = I2C_WRITE_REQUEST_REG then granted v else v))"

lemma uint_and_numeral: "uint (x :: u8) AND uint (m :: u8) = uint (x AND m)"
  by (simp add: unsigned_and_eq)

lemma uint_and_zero: "uint (x :: u8) AND uint (m :: u8) = 0 \<longleftrightarrow> x AND m = 0"
  by (metis uint_and_numeral unsigned_0 unsigned_word_eqI)

lemma of_uint_and [simp]: "word_of_int (uint (x :: u8) AND i) = (x AND word_of_int i :: u8)"
  by (rule bit_word_eqI) (simp add: bit_and_iff bit_word_of_int_iff bit_unsigned_iff)

lemma of_uint_or [simp]: "word_of_int (uint (x :: u8) OR i) = (x OR word_of_int i :: u8)"
  by (rule bit_word_eqI) (auto simp: bit_or_iff bit_word_of_int_iff bit_unsigned_iff)

lemma of_int_not [simp]: "word_of_int (NOT i) = (NOT (word_of_int i) :: u8)"
  by (rule bit_word_eqI) (simp add: bit_not_iff bit_word_of_int_iff)

lemma bank_write:
  assumes "register_bank K c regs"
  obtains w' where "smbus_write K c r v w = (0, w')"
    and "regs w' = (regs w)(r := if r = I2C_WRITE_REQUEST_REG then granted v else v)"
  using assms unfolding register_bank_def by blast

lemma read_bank:
  assumes "register_bank K c regs"
  shows "cpld_read_internal K c reg w = (uint (regs w reg), w)"
  using assms by (simp add: cpld_read_internal_def register_bank_def eval_nat_numeral)

lemma granted_request: "granted (v OR 1) AND 0x10 \<noteq> 0"
proof -
  have "bit (v OR 1) 0" by (simp add: bit_or_iff)
  moreover have "(x OR 2 ^ 4) AND 2 ^ 4 \<noteq> (0 :: u8)" for x
    by (simp only: and_exp_eq_0_iff_not_bit not_not bit_or_iff bit_exp_iff) simp
  ultimately show ?thesis by (simp add: granted_def)
qed

lemma request_begin_bank:
  assumes "register_bank K c regs"
  obtains w' where "i2c_write_request_begin K c w = (0, w')"
    and "\<And>r. r \<noteq> I2C_WRITE_REQUEST_REG \<Longrightarrow> regs w' r = regs w r"
proof -
  let ?E = I2C_WRITE_REQUEST_REG
  have rd: "smbus_read K c r w = (uint (regs w r), w)" for r w
    using assms by (simp add: register_bank_def)
  have lock: "uint (regs w ?E) AND I2C_LOCK_BY_7040_VAL = 0 \<longleftrightarrow> regs w ?E AND 0x10 = 0" for w
    using uint_and_zero [of "regs w ?E" "0x10"] by (simp add: I2C_LOCK_BY_7040_VAL_def)
  show ?thesis
  proof (cases "regs w ?E AND 0x10 = 0")
    case False
    then show ?thesis
      using that [of w] rd lock
      by (simp add: i2c_write_request_begin_def eval_nat_numeral)
  next
    case True
    obtain w' where w': "smbus_write K c ?E (word_of_int (uint (regs w ?E) OR I2C_WRITE_REQUEST_7040_VAL)) w = (0, w')"
      and regs: "regs w' = (regs w)(?E := granted (regs w ?E OR 1))"
      using bank_write [OF assms, of ?E "regs w ?E OR 1" w] by (auto simp: I2C_WRITE_REQUEST_7040_VAL_def)
    have "granted (regs w ?E OR 1) AND 0x10 \<noteq> 0" by (rule granted_request)
    then have "uint (regs w' ?E) AND I2C_LOCK_BY_7040_VAL \<noteq> 0"
      using lock [of w'] regs by simp
    then show ?thesis
      using that [of w'] rd lock w' regs True
      by (simp add: i2c_write_request_begin_def eval_nat_numeral)
  qed
qed

lemma request_end_bank:
  assumes "register_bank K c regs"
  obtains w' where "i2c_write_request_end K c w = (0, w')"
    and "\<And>r. r \<noteq> I2C_WRITE_REQUEST_REG \<Longrightarrow> regs w' r = regs w r"
proof -
  obtain w' where "smbus_write K c I2C_WRITE_REQUEST_REG
        (word_of_int (uint (regs w I2C_WRITE_REQUEST_REG) AND NOT I2C_WRITE_REQUEST_7040_VAL)) w = (0, w')"
    and "\<And>r. r \<noteq> I2C_WRITE_REQUEST_REG \<Longrightarrow> regs w' r = regs w r"
    using bank_write [OF assms] by (metis fun_upd_other)
  moreover have "smbus_read K c I2C_WRITE_REQUEST_REG w = (uint (regs w I2C_WRITE_REQUEST_REG), w)"
    using assms by (simp add: register_bank_def)
  ultimately show ?thesis using that by (simp add: i2c_write_request_end_def)
qed

lemma write_bank:
  assumes "register_bank K c regs" and "reg \<noteq> I2C_WRITE_REQUEST_REG"
  obtains w' where "cpld_write_internal K c reg v w = (0, w')"
    and "\<And>r. r \<noteq> I2C_WRITE_REQUEST_REG \<Longrightarrow> regs w' r = ((regs w)(reg := v)) r"
proof -
  obtain w1 where w1: "i2c_write_request_begin K c w = (0, w1)"
    "\<And>r. r \<noteq> I2C_WRITE_REQUEST_REG \<Longrightarrow> regs w1 r = regs w r"
    using request_begin_bank [OF assms(1)] by blast
  obtain w2 where w2: "smbus_write K c reg v w1 = (0, w2)" "regs w2 = (regs w1)(reg := v)"
    using bank_write [OF assms(1), of reg v w1] assms(2) by auto
  obtain w3 where w3: "i2c_write_request_end K c w2 = (0, w3)"
    "\<And>r. r \<noteq> I2C_WRITE_REQUEST_REG \<Longrightarrow> regs w3 r = regs w2 r"
    using request_end_bank [OF assms(1)] by blast
  show ?thesis
    using that [of w3] w1 w2 w3 by (simp add: cpld_write_internal_def eval_nat_numeral)
qed

section \<open>The mutex\<close>

definition releases :: "'w cpld \<Rightarrow> ('a \<times> 'w cpld) option \<Rightarrow> bool" where
  "releases s r \<longleftrightarrow>
     (\<exists>a s'. r = Some (a, s') \<and> update_locks s' = update_locks s \<and> list_lock s' = list_lock s
        \<and> client_list s' = client_list s)"

lemma locked_show_releases: "cl_id c \<notin> update_locks s \<Longrightarrow> releases s (locked_show c f k s)"
  by (auto simp: releases_def locked_show_def mutex_lock_def mutex_unlock_def on_kw_def Let_def split: prod.splits)

lemma locked_update_releases: "cl_id c \<notin> update_locks s \<Longrightarrow> releases s (locked_update K c reg f n s)"
  by (auto simp: releases_def locked_update_def mutex_lock_def mutex_unlock_def on_kw_def Let_def split: prod.splits)

lemma Some_releases [simp]: "releases s (Some (a, s))"
  by (simp add: releases_def)

lemma mutex_cycle:
  "cl_id c \<notin> update_locks s \<Longrightarrow> mutex_lock c s = Some s1 \<Longrightarrow> mutex_unlock c (s1\<lparr>kw := w\<rparr>) = s\<lparr>kw := w\<rparr>"
  by (cases s) (auto simp: mutex_lock_def mutex_unlock_def)

lemma locked_show_eq:
  assumes "cl_id c \<notin> update_locks s" and "f (kw s) = (status, w)"
  shows "locked_show c f k s = Some (if status < 0 then Inl status else Inr (k status), s\<lparr>kw := w\<rparr>)"
proof -
  obtain s1 where s1: "mutex_lock c s = Some s1" "kw s1 = kw s"
    using assms(1) by (auto simp: mutex_lock_def)
  then show ?thesis
    using assms(2) mutex_cycle [OF assms(1) s1(1)] by (simp add: locked_show_def on_kw_def)
qed

lemma locked_update_eq:
  assumes "cl_id c \<notin> update_locks s" and "cpld_read_internal K c reg (kw s) = (status, w)" and "0 \<le> status"
    and "cpld_write_internal K c reg (word_of_int (f status)) w = (status1, w1)"
  shows "locked_update K c reg f n s = Some (if status1 < 0 then status1 else n, s\<lparr>kw := w1\<rparr>)"
proof -
  obtain s1 where s1: "mutex_lock c s = Some s1" "kw s1 = kw s"
    using assms(1) by (auto simp: mutex_lock_def)
  then show ?thesis
    using assms(2-4) mutex_cycle [OF assms(1) s1(1)] by (simp add: locked_update_def on_kw_def)
qed

text \<open>
  Every handler gives its mutex back. Whatever the bus answers, a sysfs handler of the CPLD
  driver that is entered while the mutex of its client is free returns and leaves the mutexes and
  the client list as they were.
\<close>

theorem cpld_handlers_release:
  assumes "cl_id c \<notin> update_locks s"
  shows "releases s (show_present_all K c s) \<and> releases s (show_rxlos_all K c s)
    \<and> releases s (show_module K c attr s) \<and> releases s (set_control K c attr buf s)
    \<and> releases s (cpld_show_wtd K c attr s) \<and> releases s (cpld_set_wtd K c attr buf s)
    \<and> releases s (cpld_reset_wtd K c buf s) \<and> releases s (cpld_access K c buf s)"
proof (intro conjI)
  note show_rel = locked_show_releases [OF assms] and update_rel = locked_update_releases [OF assms]
  show "releases s (show_present_all K c s)" "releases s (show_rxlos_all K c s)"
    by (simp_all add: show_present_all_def show_rxlos_all_def show_rel)
  show "releases s (show_module K c attr s)"
    by (auto simp: show_module_def show_rel split: option.splits)
  show "releases s (set_control K c attr buf s)"
    by (auto simp: set_control_def update_rel split: sum.splits)
  show "releases s (cpld_show_wtd K c attr s)"
    by (auto simp: cpld_show_wtd_def show_rel split: option.splits)
  show "releases s (cpld_set_wtd K c attr buf s)"
    by (auto simp: cpld_set_wtd_def update_rel split: sum.splits option.splits)
  show "releases s (cpld_reset_wtd K c buf s)"
    using assms
    by (auto simp: releases_def cpld_reset_wtd_def mutex_lock_def mutex_unlock_def Let_def split: sum.splits)
  show "releases s (cpld_access K c buf s)"
    using assms
    by (auto simp: releases_def cpld_access_def mutex_lock_def mutex_unlock_def on_kw_def Let_def
        split: option.splits prod.splits)
qed

section \<open>A simulated CPLD\<close>

text \<open>The registers themselves, and \<open>kstrtol\<close> as \<open>atoi\<close>.\<close>

definition bank_kernel :: "(u8 \<Rightarrow> u8) kernel" where
  "bank_kernel =
     \<lparr> smbus_read = (\<lambda>c r w. (uint (w r), w)),
       smbus_write = (\<lambda>c r v w. (0, w(r := if r = I2C_WRITE_REQUEST_REG then granted v else v))),
       gpio_direction_output = (\<lambda>p v w. w),
       kstrtol = (\<lambda>buf. case atoi buf of Some v \<Rightarrow> Inr v | None \<Rightarrow> Inl (- EINVAL)),
       kstrtoint = (\<lambda>buf. case atoi buf of Some v \<Rightarrow> Inr v | None \<Rightarrow> Inl (- EINVAL)),
       scan_2x = (\<lambda>buf. None), jiffies = (\<lambda>w. 0), hz = 250 \<rparr>"

definition cpld_client :: client where "cpld_client = \<lparr>cl_id = 0, cl_addr = 0x40\<rparr>"

definition bank_cpld :: "(u8 \<Rightarrow> u8) cpld" where
  "bank_cpld = \<lparr>list_lock = False, update_locks = {}, client_list = [cpld_client], kw = (\<lambda>r. 0)\<rparr>"

lemma bank_kernel_bank: "register_bank bank_kernel c id"
  by (simp add: register_bank_def bank_kernel_def)

theorem cpld_handlers_release_witness:
  "releases bank_cpld (show_module bank_kernel cpld_client MODULE_PRESENT_25 bank_cpld)"
  using cpld_handlers_release [of cpld_client bank_cpld bank_kernel MODULE_PRESENT_25 "[]"]
  by (simp add: bank_cpld_def)

section \<open>Transceivers\<close>

lemma txfault_mask: "ucast (push_bit 6 0x10 :: u32) = (0 :: u8)" "ucast (push_bit 7 0x10 :: u32) = (0 :: u8)"
  by (simp_all add: push_bit_eq_mult)

text \<open>
  A transmit fault is never reported. The mask of the transmit fault bits is shifted out of its
  eight bits, so \<open>module_tx_fault_25\<close> and \<open>module_tx_fault_26\<close> read as \<open>0\<close> whatever the CPLD
  holds; only an error of the bus shows.
\<close>

theorem cpld_txfault_never_reported:
  assumes "attr = MODULE_TXFAULT_25 \<or> attr = MODULE_TXFAULT_26"
    and "show_module K c attr s = Some (Inr out, s')"
  shows "out = print_d 0"
proof -
  have "\<exists>reg. module_field attr = Some (False, reg, 0)"
    using assms(1) txfault_mask by auto
  then obtain reg where field: "module_field attr = Some (False, reg, 0)" ..
  show ?thesis
  proof (cases "cl_id c \<in> update_locks s")
    case True
    then show ?thesis using assms(2) field by (simp add: show_module_def locked_show_def mutex_lock_def)
  next
    case False
    have "out = print_d 0"
      if shown: "locked_show c f (\<lambda>status. print_d (of_bool ((status AND uint (0 :: u8) \<noteq> 0) \<noteq> False))) s = Some (Inr out, s')" for f
    proof -
      obtain status w where "f (kw s) = (status, w)" by fastforce
      from locked_show_eq [OF False, of f, OF this] shown show ?thesis by (auto split: if_splits)
    qed
    then show ?thesis using assms(2) field unfolding show_module_def by (simp only: option.case prod.case)
  qed
qed

lemma show_module_bank:
  assumes "register_bank K c regs" and "cl_id c \<notin> update_locks s" and "module_field attr = Some (invert, reg, m)"
    and "reg \<noteq> I2C_WRITE_REQUEST_REG" and "reg \<noteq> 0x36"
  obtains w where "show_module K c attr s =
      Some (Inr (print_d (of_bool ((regs (kw s) reg AND m \<noteq> 0) \<noteq> invert))), s\<lparr>kw := w\<rparr>)"
    and "\<And>r. r \<noteq> I2C_WRITE_REQUEST_REG \<Longrightarrow> r \<noteq> 0x36 \<Longrightarrow> regs w r = regs (kw s) r"
proof -
  note read = read_bank [OF assms(1)]
  have ne: "0x36 \<noteq> I2C_WRITE_REQUEST_REG" by (simp add: I2C_WRITE_REQUEST_REG_def)
  let ?v = "word_of_int (uint (regs (kw s) 0x36) AND NOT (uint m))"
  obtain w1 where w1: "cpld_write_internal K c 0x36 ?v (kw s) = (0, w1)"
    and "\<And>r. r \<noteq> I2C_WRITE_REQUEST_REG \<Longrightarrow> regs w1 r = ((regs (kw s))(0x36 := ?v)) r"
    using write_bank [OF assms(1) ne, of ?v "kw s"] by blast
  then have same: "\<And>r. r \<noteq> I2C_WRITE_REQUEST_REG \<Longrightarrow> r \<noteq> 0x36 \<Longrightarrow> regs w1 r = regs (kw s) r"
    by simp
  obtain w where "(if needs_interrupt attr then
                   (let (status, w) = cpld_read_internal K c 0x36 (kw s) in
                    if status < 0 then (status, w)
                    else
                      (let (status, w) = cpld_write_internal K c 0x36
                             (word_of_int (status AND NOT (uint m))) w in
                       if status < 0 then (status, w) else cpld_read_internal K c reg w))
                 else cpld_read_internal K c reg (kw s)) = (uint (regs (kw s) reg), w)"
    and keep: "\<And>r. r \<noteq> I2C_WRITE_REQUEST_REG \<Longrightarrow> r \<noteq> 0x36 \<Longrightarrow> regs w r = regs (kw s) r"
    using read w1 same assms(4, 5) that by (cases "needs_interrupt attr") (auto simp: Let_def)
  from locked_show_eq [OF assms(2), of "\<lambda>w. if needs_interrupt attr then
                   (let (status, w) = cpld_read_internal K c 0x36 w in
                    if status < 0 then (status, w)
                    else
                      (let (status, w) = cpld_write_internal K c 0x36
                             (word_of_int (status AND NOT (uint m))) w in
                       if status < 0 then (status, w) else cpld_read_internal K c reg w))
                 else cpld_read_internal K c reg w", OF this(1)] keep assms(3)
  show ?thesis using that by (simp add: show_module_def uint_and_zero)
qed

theorem cpld_txfault_never_reported_witness:
  "\<exists>s'. show_module bank_kernel cpld_client MODULE_TXFAULT_25 (bank_cpld\<lparr>kw := \<lambda>r. 0xFF\<rparr>) = Some (Inr [0x30, 0x0A], s')"
proof -
  let ?s = "bank_cpld\<lparr>kw := \<lambda>r. 0xFF\<rparr>"
  have "module_field MODULE_TXFAULT_25 = Some (False, 0x40, 0)" by (simp add: txfault_mask)
  then obtain w where "show_module bank_kernel cpld_client MODULE_TXFAULT_25 ?s =
      Some (Inr (print_d (of_bool ((id (kw ?s) 0x40 AND 0 \<noteq> 0) \<noteq> False))), ?s\<lparr>kw := w\<rparr>)"
    using show_module_bank [OF bank_kernel_bank, where c = cpld_client and s = ?s and attr = MODULE_TXFAULT_25
        and invert = False and reg = "0x40" and m = 0]
    by (auto simp add: bank_cpld_def I2C_WRITE_REQUEST_REG_def)
  then show ?thesis
    using cpld_txfault_never_reported [of MODULE_TXFAULT_25] by (fastforce simp: print_d_def dec_int_def dec_nat.simps)
qed

section \<open>Transmit disable\<close>

lemma and_single_bit: "(x :: u8) AND 4 \<noteq> 0 \<longleftrightarrow> bit x 2" "x AND 8 \<noteq> 0 \<longleftrightarrow> bit x 3"
  using and_exp_eq_0_iff_not_bit [of x 2] and_exp_eq_0_iff_not_bit [of x 3] by simp_all

lemma bit_four_eight: "bit (4 :: u8) n \<longleftrightarrow> n = 2" "bit (8 :: u8) n \<longleftrightarrow> n = 3"
  using bit_exp_iff [where 'a = u8, of 2 n] bit_exp_iff [where 'a = u8, of 3 n] by (auto dest: bit_imp_le_length)

fun other_txdisable :: "cpld_attr \<Rightarrow> cpld_attr" where
  "other_txdisable MODULE_TXDISABLE_25 = MODULE_TXDISABLE_26"
| "other_txdisable _ = MODULE_TXDISABLE_25"

text \<open>Store to a bank: the register has the new bits and every other one is as it was.\<close>

lemma set_control_bank:
  assumes "register_bank K c regs" and "cl_id c \<notin> update_locks s" and "kstrtol K buf = Inr v"
    and "attr \<in> {MODULE_TXDISABLE_25, MODULE_TXDISABLE_26}"
  obtains w where "set_control K c attr buf s = Some (int (length buf), s\<lparr>kw := w\<rparr>)"
    and "\<And>r. r \<noteq> I2C_WRITE_REQUEST_REG \<Longrightarrow>
      regs w r = ((regs (kw s))(0x42 :=
        (let m = (if attr = MODULE_TXDISABLE_25 then 4 else 8) in
         if v \<noteq> 0 then regs (kw s) 0x42 OR m else regs (kw s) 0x42 AND NOT m))) r"
proof -
  let ?m = "if attr = MODULE_TXDISABLE_25 then 0x4 else 0x8 :: int"
  let ?f = "\<lambda>status. if v \<noteq> 0 then status OR ?m else status AND NOT ?m"
  let ?x = "regs (kw s) 0x42"
  have ne: "0x42 \<noteq> I2C_WRITE_REQUEST_REG" by (simp add: I2C_WRITE_REQUEST_REG_def)
  obtain w where w: "cpld_write_internal K c 0x42 (word_of_int (?f (uint ?x))) (kw s) = (0, w)"
    and r: "\<And>r. r \<noteq> I2C_WRITE_REQUEST_REG \<Longrightarrow> regs w r = ((regs (kw s))(0x42 := word_of_int (?f (uint ?x)))) r"
    using write_bank [OF assms(1) ne, of "word_of_int (?f (uint ?x))" "kw s"] by blast
  have "locked_update K c 0x42 ?f (int (length buf)) s = Some (int (length buf), s\<lparr>kw := w\<rparr>)"
    using locked_update_eq [OF assms(2) read_bank [OF assms(1)], where f = ?f and n = "int (length buf)" and ?w1.0 = w] w
    by simp
  then show ?thesis using that [of w] r assms(3, 4) by (auto simp: set_control_def Let_def)
qed

text \<open>
  What is written to a transmit disable attribute is what is read back. On a CPLD that is a bank
  of registers, storing a number into \<open>module_tx_disable_<port>\<close> succeeds, the attribute then reads
  \<open>1\<close> or \<open>0\<close> as the number is nonzero or not, and the attribute of the other port reads what it read
  before.
\<close>

theorem cpld_txdisable_roundtrip:
  assumes "register_bank K c regs" and "cl_id c \<notin> update_locks s" and "kstrtol K buf = Inr v"
    and "attr \<in> {MODULE_TXDISABLE_25, MODULE_TXDISABLE_26}"
  shows "\<exists>s' s1. set_control K c attr buf s = Some (int (length buf), s')
    \<and> show_module K c attr s' = Some (Inr (print_d (of_bool (v \<noteq> 0))), s1)
    \<and> map_option fst (show_module K c (other_txdisable attr) s') = map_option fst (show_module K c (other_txdisable attr) s)"
proof -
  have ne: "0x42 \<noteq> I2C_WRITE_REQUEST_REG" "(0x42 :: u8) \<noteq> 0x36" by (simp_all add: I2C_WRITE_REQUEST_REG_def)
  let ?b = "other_txdisable attr"
  let ?bit = "\<lambda>a. if a = MODULE_TXDISABLE_25 then 2 else 3 :: nat"
  have shown: "\<exists>w'. show_module K c a t = Some (Inr (print_d (of_bool (bit (regs (kw t) 0x42) (?bit a)))), t\<lparr>kw := w'\<rparr>)"
    if a: "a \<in> {MODULE_TXDISABLE_25, MODULE_TXDISABLE_26}" and free: "cl_id c \<notin> update_locks t" for a t
  proof -
    have "module_field a = Some (False, 0x42, if a = MODULE_TXDISABLE_25 then 4 else 8)"
      using a by auto
    then obtain w' where "show_module K c a t = Some (Inr (print_d (of_bool
        ((regs (kw t) 0x42 AND (if a = MODULE_TXDISABLE_25 then 4 else 8) \<noteq> 0) \<noteq> False))), t\<lparr>kw := w'\<rparr>)"
      using show_module_bank [OF assms(1) free _ ne] by blast
    then show ?thesis by (auto simp: and_single_bit split: if_splits)
  qed
  obtain w where w: "set_control K c attr buf s = Some (int (length buf), s\<lparr>kw := w\<rparr>)"
    and regs: "regs w 0x42 = (let m = (if attr = MODULE_TXDISABLE_25 then 4 else 8) in
         if v \<noteq> 0 then regs (kw s) 0x42 OR m else regs (kw s) 0x42 AND NOT m)"
    using set_control_bank [OF assms] ne(1) by (metis fun_upd_same)
  have other: "?b \<in> {MODULE_TXDISABLE_25, MODULE_TXDISABLE_26}" using assms(4) by auto
  have "bit (regs w 0x42) (?bit attr) = (v \<noteq> 0)"
    and "bit (regs w 0x42) (?bit ?b) = bit (regs (kw s) 0x42) (?bit ?b)"
    using assms(4) by (auto simp: regs Let_def bit_or_iff bit_and_iff bit_not_iff bit_four_eight)
  then show ?thesis
    using w shown [OF assms(4), of "s\<lparr>kw := w\<rparr>"] shown [OF other, of "s\<lparr>kw := w\<rparr>"] shown [OF other assms(2)] assms(2)
    by auto
qed

theorem cpld_txdisable_roundtrip_witness:
  "\<exists>s' s1. set_control bank_kernel cpld_client MODULE_TXDISABLE_26 [0x31, 0x0A] bank_cpld = Some (2, s')
    \<and> show_module bank_kernel cpld_client MODULE_TXDISABLE_26 s' = Some (Inr (print_d 1), s1)"
proof -
  have "kstrtol bank_kernel [0x31, 0x0A] = Inr 1"
    by (simp add: bank_kernel_def atoi_def is_digit_def is_space_def)
  then show ?thesis
    using cpld_txdisable_roundtrip [of bank_kernel cpld_client id bank_cpld "[0x31, 0x0A]" 1 MODULE_TXDISABLE_26]
      bank_kernel_bank by (fastforce simp: bank_cpld_def)
qed

section \<open>A write the bus refuses\<close>

text \<open>
  A write the device refuses is reported as done. When the arbiter answers but every write of
  the data register itself fails, storing into a transmit disable attribute gives the full count:
  the status of the write is overwritten by that of giving the bus back.
\<close>

theorem cpld_write_failure_lost:
  assumes "cl_id c \<notin> update_locks s" and "kstrtol K buf = Inr v"
    and "attr \<in> {MODULE_TXDISABLE_25, MODULE_TXDISABLE_26}"
    and "\<And>w. 0 \<le> fst (smbus_read K c 0x42 w)"
    and "\<And>w. \<exists>w'. i2c_write_request_begin K c w = (0, w')" and "\<And>w. \<exists>w'. i2c_write_request_end K c w = (0, w')"
    and "\<And>u w. smbus_write K c 0x42 u w = (- EIO, w)"
  shows "\<exists>s'. set_control K c attr buf s = Some (int (length buf), s')"
proof -
  obtain x w0 where x: "cpld_read_internal K c 0x42 (kw s) = (x, w0)" "0 \<le> x"
    using assms(4) [of "kw s"]
    by (cases "smbus_read K c 0x42 (kw s)") (simp add: cpld_read_internal_def eval_nat_numeral)
  have retry: "rw_retry n (smbus_write K c 0x42 u) st w = (if n = 0 then st else - EIO, w)" for n u st w
    by (induction n arbitrary: st w) (simp_all add: assms(7))
  have "\<exists>w'. cpld_write_internal K c 0x42 u w = (0, w')" for u w
  proof -
    obtain w1 where "i2c_write_request_begin K c w = (0, w1)" using assms(5) by blast
    moreover obtain w2 where "i2c_write_request_end K c w1 = (0, w2)" using assms(6) by blast
    ultimately show ?thesis by (simp add: cpld_write_internal_def retry)
  qed
  then have "\<exists>s'. locked_update K c 0x42 f n s = Some (n, s')" for f n
  proof -
    obtain w' where "cpld_write_internal K c 0x42 (word_of_int (f x)) w0 = (0, w')"
      using \<open>\<And>u w. \<exists>w'. cpld_write_internal K c 0x42 u w = (0, w')\<close> by blast
    then show ?thesis using locked_update_eq [OF assms(1) x] by auto
  qed
  then show ?thesis using assms(2, 3) by (auto simp: set_control_def Let_def)
qed

text \<open>The bank with a register that refuses writes.\<close>

definition refusing_kernel :: "(u8 \<Rightarrow> u8) kernel" where
  "refusing_kernel = bank_kernel
     \<lparr> smbus_write := (\<lambda>c r v w. if r = 0x42 then (- EIO, w)
          else (0, w(r := if r = I2C_WRITE_REQUEST_REG then granted v else v))) \<rparr>"

lemma refusing_request:
  "smbus_read refusing_kernel = smbus_read bank_kernel"
  "smbus_write refusing_kernel c I2C_WRITE_REQUEST_REG = smbus_write bank_kernel c I2C_WRITE_REQUEST_REG"
  by (auto simp: refusing_kernel_def bank_kernel_def I2C_WRITE_REQUEST_REG_def)

lemma refusing_loop: "write_request_loop refusing_kernel c n status w = write_request_loop bank_kernel c n status w"
  by (induction n arbitrary: status w) (simp_all add: refusing_request split: prod.splits)

lemma refusing_begin: "i2c_write_request_begin refusing_kernel c w = i2c_write_request_begin bank_kernel c w"
  by (simp add: i2c_write_request_begin_def refusing_loop)

lemma refusing_end: "i2c_write_request_end refusing_kernel c w = i2c_write_request_end bank_kernel c w"
  by (simp add: i2c_write_request_end_def refusing_request split: prod.splits)

theorem cpld_write_failure_lost_witness:
  "\<exists>s'. set_control refusing_kernel cpld_client MODULE_TXDISABLE_25 [0x31, 0x0A] bank_cpld = Some (2, s')"
proof -
  have "kstrtol refusing_kernel [0x31, 0x0A] = Inr 1"
    by (simp add: refusing_kernel_def bank_kernel_def atoi_def is_digit_def is_space_def)
  moreover have "\<exists>w'. i2c_write_request_begin refusing_kernel cpld_client w = (0, w')" for w
    using request_begin_bank [OF bank_kernel_bank] refusing_begin by metis
  moreover have "\<exists>w'. i2c_write_request_end refusing_kernel cpld_client w = (0, w')" for w
    using request_end_bank [OF bank_kernel_bank] refusing_end by metis
  ultimately show ?thesis
    using cpld_write_failure_lost [of cpld_client bank_cpld refusing_kernel "[0x31, 0x0A]" 1 MODULE_TXDISABLE_25]
    by (simp add: bank_cpld_def) (simp add: refusing_kernel_def bank_kernel_def)
qed

end
