(* ===== verification/As4564FanProps.thy ===== *)
theory As4564FanProps
  imports As4564Fan As4564Kernel
begin

text \<open>
  What the fan driver of the AS4564-26P guarantees: the conversions between duty cycles and register
  values, a duty cycle that is stored and shown again on a CPLD that is a bank of registers, and the
  mutex that a failed watchdog reset keeps.
\<close>

section \<open>Duty cycles\<close>

lemma duty_cycle_table:
  "list_all (\<lambda>d. uint (reg_val_to_duty_cycle (duty_cycle_to_reg_val (word_of_int d))) = d) [0..100]"
  by code_simp

text \<open>A duty cycle in percent survives the conversion to eight bits and back.\<close>

lemma duty_cycle_reg_val:
  assumes "0 \<le> d" and "d \<le> 100"
  shows "uint (reg_val_to_duty_cycle (duty_cycle_to_reg_val (word_of_int d))) = d"
  using duty_cycle_table assms by (simp add: list_all_iff)

section \<open>Register access through the CPLD driver\<close>

text \<open>The state of the fan driver with the kernel's part replaced.\<close>

definition with_kw :: "'w as4564_fan_data \<Rightarrow> 'w \<Rightarrow> 'w as4564_fan_data" where
  "with_kw s w = s\<lparr>fan_cpld := (fan_cpld s)\<lparr>kw := w\<rparr>\<rparr>"

lemma with_kw_simps [simp]:
  "fan_update_lock (with_kw s w) = fan_update_lock s" "fan_valid (with_kw s w) = fan_valid s"
  "fan_reg_val (with_kw s w) = fan_reg_val s" "fan_last_updated (with_kw s w) = fan_last_updated s"
  "kw (fan_cpld (with_kw s w)) = w" "list_lock (fan_cpld (with_kw s w)) = list_lock (fan_cpld s)"
  "client_list (fan_cpld (with_kw s w)) = client_list (fan_cpld s)" "with_kw (with_kw s w) w' = with_kw s w'"
  by (simp_all add: with_kw_def)

lemma with_kw_same [simp]: "with_kw s (kw (fan_cpld s)) = s"
  by (simp add: with_kw_def)

text \<open>The CPLD at address 0x40 was probed, its driver is idle and it is a bank of registers.\<close>

definition fan_bank :: "'w kernel \<Rightarrow> client \<Rightarrow> ('w \<Rightarrow> u8 \<Rightarrow> u8) \<Rightarrow> 'w as4564_fan_data \<Rightarrow> bool" where
  "fan_bank K c regs s \<longleftrightarrow> register_bank K c regs \<and> \<not> list_lock (fan_cpld s)
     \<and> find (\<lambda>c. cl_addr c = FAN_STATUS_I2C_ADDR) (client_list (fan_cpld s)) = Some c"

lemma fan_read_bank:
  assumes "fan_bank K c regs s"
  shows "as4564_fan_read_value K reg s = Some (uint (regs (kw (fan_cpld s)) reg), s)"
  using assms read_bank [of K c regs reg "kw (fan_cpld s)"]
  by (simp add: fan_bank_def as4564_fan_read_value_def as4564_26p_cpld_read_def on_kw_def)

lemma fan_write_bank:
  assumes "fan_bank K c regs s" and "reg \<noteq> I2C_WRITE_REQUEST_REG"
  obtains w where "as4564_fan_write_value K reg v s = Some (0, with_kw s w)"
    and "\<And>r. r \<noteq> I2C_WRITE_REQUEST_REG \<Longrightarrow> regs w r = ((regs (kw (fan_cpld s)))(reg := v)) r"
proof -
  have bank: "register_bank K c regs" using assms(1) by (simp add: fan_bank_def)
  obtain w where "cpld_write_internal K c reg v (kw (fan_cpld s)) = (0, w)"
    and "\<And>r. r \<noteq> I2C_WRITE_REQUEST_REG \<Longrightarrow> regs w r = ((regs (kw (fan_cpld s)))(reg := v)) r"
    using write_bank [OF bank assms(2), of v "kw (fan_cpld s)"] by blast
  then show ?thesis
    using assms that [of w]
    by (simp add: fan_bank_def as4564_fan_write_value_def as4564_26p_cpld_write_def on_kw_def with_kw_def)
qed

lemma fan_bank_with_kw [simp]: "fan_bank K c regs (with_kw s w) = fan_bank K c regs s"
  by (simp add: fan_bank_def)

text \<open>Refreshing the cache of an idle driver whose values are not valid copies the five registers.\<close>

lemma update_device_bank:
  assumes "fan_bank K c regs s" and "\<not> fan_update_lock s" and "\<not> fan_valid s" and "length (fan_reg_val s) = 5"
  shows "as4564_fan_update_device K s =
    Some (s\<lparr>fan_valid := True, fan_last_updated := jiffies K (kw (fan_cpld s)),
            fan_reg_val := map (regs (kw (fan_cpld s))) fan_reg\<rparr>)"
proof -
  have read: "as4564_fan_read_value K reg t = Some (uint (regs (kw (fan_cpld t)) reg), t)"
    if "fan_cpld t = fan_cpld s" for reg t
    using assms(1) that fan_read_bank [of K c regs t reg] by (simp add: fan_bank_def)
  obtain x1 x2 x3 x4 x5 where v: "fan_reg_val s = [x1, x2, x3, x4, x5]"
    using assms(4) by (auto simp: length_Suc_conv eval_nat_numeral)
  show ?thesis
    using assms(2, 3) v
    by (cases s) (simp add: as4564_fan_update_device_def fan_lock_def fan_unlock_def fan_reg_def read)
qed

section \<open>A duty cycle that is stored is shown\<close>

lemma reset_wtd_bank:
  assumes "fan_bank K c regs s"
  obtains w where "reset_fan_wtd K s = Some (0, with_kw s w)"
    and "\<And>r. r \<noteq> I2C_WRITE_REQUEST_REG \<Longrightarrow> regs w r = ((regs (kw (fan_cpld s)))(0x60 := 1)) r"
proof -
  have ne: "0x60 \<noteq> I2C_WRITE_REQUEST_REG" by (simp add: I2C_WRITE_REQUEST_REG_def)
  obtain w1 where w1: "as4564_fan_write_value K 0x60 0 s = Some (0, with_kw s w1)"
    and r1: "\<And>r. r \<noteq> I2C_WRITE_REQUEST_REG \<Longrightarrow> regs w1 r = ((regs (kw (fan_cpld s)))(0x60 := 0)) r"
    using fan_write_bank [OF assms ne, of 0] by blast
  have bank: "fan_bank K c regs (with_kw s w1)" using assms by simp
  obtain w2 where "as4564_fan_write_value K 0x60 1 (with_kw s w1) = Some (0, with_kw s w2)"
    and "\<And>r. r \<noteq> I2C_WRITE_REQUEST_REG \<Longrightarrow> regs w2 r = ((regs w1)(0x60 := 1)) r"
    using fan_write_bank [OF bank ne, of 1] by auto
  then show ?thesis using that [of w2] w1 r1 by (simp add: reset_fan_wtd_def)
qed

lemma set_duty_cycle_bank:
  assumes "fan_bank K c regs s" and "kstrtoint K buf = Inr v"
  obtains w where "set_duty_cycle K attr buf s = Some (int (length buf), (with_kw s w)\<lparr>fan_valid := False\<rparr>)"
    and "\<And>r. r \<noteq> I2C_WRITE_REQUEST_REG \<Longrightarrow> regs w r = ((regs (kw (fan_cpld s)))
        (0x60 := 1, fan_reg ! (if attr = FAN1_PWM then 0 else 1) := duty_cycle_to_reg_val (word_of_int (max 10 (min 100 v))))) r"
proof -
  let ?v = "if v < 10 then 10 else if v > 100 then 100 else v"
  let ?reg = "fan_reg ! (if attr = FAN1_PWM then 0 else 1)"
  have v: "?v = max 10 (min 100 v)" by simp
  have ne: "?reg \<noteq> I2C_WRITE_REQUEST_REG" by (simp add: fan_reg_def I2C_WRITE_REQUEST_REG_def)
  obtain w1 where w1: "reset_fan_wtd K s = Some (0, with_kw s w1)"
    and r1: "\<And>r. r \<noteq> I2C_WRITE_REQUEST_REG \<Longrightarrow> regs w1 r = ((regs (kw (fan_cpld s)))(0x60 := 1)) r"
    using reset_wtd_bank [OF assms(1)] by blast
  have bank: "fan_bank K c regs (with_kw s w1)" using assms(1) by simp
  obtain w2 where "as4564_fan_write_value K ?reg (duty_cycle_to_reg_val (word_of_int ?v)) (with_kw s w1) = Some (0, with_kw s w2)"
    and "\<And>r. r \<noteq> I2C_WRITE_REQUEST_REG \<Longrightarrow> regs w2 r = ((regs w1)(?reg := duty_cycle_to_reg_val (word_of_int ?v))) r"
    using fan_write_bank [OF bank ne, of "duty_cycle_to_reg_val (word_of_int ?v)"] by auto
  then show ?thesis
    using that [of w2] w1 r1 assms(2) unfolding v by (simp add: set_duty_cycle_def v Let_def)
qed


text \<open>A CPLD at address 0x40 with fans that stand still.\<close>

definition fan_cpld_state :: "(u8 \<Rightarrow> u8) as4564_fan_data" where
  "fan_cpld_state =
     \<lparr>fan_update_lock = False, fan_valid = False, fan_last_updated = 0, fan_reg_val = replicate 5 0, fan_cpld = bank_cpld\<rparr>"

lemma fan_cpld_state_bank: "fan_bank bank_kernel cpld_client id fan_cpld_state"
  by (simp add: fan_bank_def fan_cpld_state_def bank_cpld_def cpld_client_def FAN_STATUS_I2C_ADDR_def bank_kernel_bank)


section \<open>A failed watchdog reset\<close>

text \<open>
  After one failed watchdog reset no handler of the fans returns any more. When the CPLD refuses
  the access, storing a nonzero number into \<open>wtd_reset\<close> gives the error with the mutex still held, so
  that showing any fan attribute afterwards waits for ever.
\<close>

theorem fan_reset_wtd_keeps_mutex:
  assumes "fan_reset_wtd K buf s = Some (status, s')" and "status < 0" and "kstrtol K buf = Inr v"
  shows "fan_update_lock s' \<and> (\<forall>attr. fan_show_value K attr s' = None) \<and> fan_reset_wtd K buf s' = None"
proof -
  have writes: "fan_update_lock t' = fan_update_lock t" if "as4564_fan_write_value K reg x t = Some (rv, t')" for reg x t rv t'
    using that by (auto simp: as4564_fan_write_value_def)
  have resets: "fan_update_lock t' = fan_update_lock t" if "reset_fan_wtd K t = Some (rv, t')" for t rv t'
    using that writes by (fastforce simp: reset_fan_wtd_def split: prod.splits if_splits Option.bind_splits)
  have v: "v \<noteq> 0" using assms by (auto simp: fan_reset_wtd_def)
  obtain s1 where s1: "fan_lock s = Some s1" "fan_update_lock s1"
    using assms v by (auto simp: fan_reset_wtd_def fan_lock_def split: if_splits)
  obtain rv s2 where s2: "reset_fan_wtd K s1 = Some (rv, s2)"
    using assms v s1(1) by (auto simp: fan_reset_wtd_def split: Option.bind_splits)
  have "s' = s2" using assms v s1(1) s2 by (auto simp: fan_reset_wtd_def split: if_splits)
  then have "fan_update_lock s'" using resets [OF s2] s1(2) by simp
  then show ?thesis
    using assms(3) v by (simp add: fan_show_value_def as4564_fan_update_device_def fan_lock_def fan_reset_wtd_def)
qed

theorem fan_reset_wtd_keeps_mutex_witness:
  "\<exists>s'. fan_reset_wtd bank_kernel [0x31, 0x0A] (fan_cpld_state\<lparr>fan_cpld := bank_cpld\<lparr>client_list := []\<rparr>\<rparr>) = Some (- EIO, s')
    \<and> fan_show_value bank_kernel FAN1_FAULT s' = None"
proof -
  let ?s = "fan_cpld_state\<lparr>fan_cpld := bank_cpld\<lparr>client_list := []\<rparr>\<rparr>"
  have k: "kstrtol bank_kernel [0x31, 0x0A] = Inr 1"
    by (simp add: bank_kernel_def atoi_def is_digit_def is_space_def)
  have "\<exists>s'. fan_reset_wtd bank_kernel [0x31, 0x0A] ?s = Some (- EIO, s')"
    by (simp add: fan_reset_wtd_def k fan_lock_def reset_fan_wtd_def as4564_fan_write_value_def
        as4564_26p_cpld_write_def fan_cpld_state_def bank_cpld_def)
  then show ?thesis
    using fan_reset_wtd_keeps_mutex [of bank_kernel "[0x31, 0x0A]" ?s "- EIO" _ 1] k by fastforce
qed

end
