(* ===== verification/As4564Hwmon.thy ===== *)
theory As4564Hwmon
  imports As4564Fan
begin

text \<open>
  The two small kernel drivers of the AS4564-26P: the temperature of the processor
  (\<open>arm64-accton-as4564-26p-thermal.c\<close>), read from a memory-mapped register, and the power good bit
  of the power supply (\<open>arm64-accton-as4564-26p-psu.c\<close>), read from the CPLD. Both keep what they read
  for a while. \<open>None\<close> is a handler that waits for ever on its mutex.
\<close>

section \<open>Temperature\<close>

record as4564_26p_thermal_data =
  th_update_lock :: bool
  th_last_updated :: u64
  th_reg_value :: u32

text \<open>\<open>m\<close> is the mask, \<open>valid_bit\<close> is positive.\<close>

definition twos_complement_to_int :: "u16 \<Rightarrow> u8 \<Rightarrow> int \<Rightarrow> int" where
  "twos_complement_to_int data valid_bit m =
     (let valid_data = word_of_int (uint data AND m) :: u16;
          is_negative = drop_bit (unat valid_bit - 1) valid_data \<noteq> 0 in
      if is_negative then - ((NOT (uint valid_data) AND m) + 1) else uint valid_data)"

definition regval_to_temp :: "u32 \<Rightarrow> int" where
  "regval_to_temp reg_val = twos_complement_to_int (ucast reg_val) 10 0x3FF * 423 + 150000"

text \<open>\<open>ioread\<close> is \<open>ioread32\<close> of the mapped register.\<close>

definition show_temp ::
  "'w kernel \<Rightarrow> ('w \<Rightarrow> u32 \<times> 'w) \<Rightarrow> as4564_26p_thermal_data \<times> 'w
   \<Rightarrow> (u8 list \<times> as4564_26p_thermal_data \<times> 'w) option" where
  "show_temp K ioread s =
     (let (d, w) = s in
      if th_update_lock d then None
      else if time_after (jiffies K w) (th_last_updated d + hz K * 5) then
        (let (v, w) = ioread w in
         Some (print_d (regval_to_temp v), d\<lparr>th_reg_value := v, th_last_updated := jiffies K w\<rparr>, w))
      else Some (print_d (regval_to_temp (th_reg_value d)), d, w))"

section \<open>Power good\<close>

definition PSU_STATUS_I2C_ADDR :: u16 where "PSU_STATUS_I2C_ADDR = 0x40"
definition PSU_STATUS_I2C_REG_OFFSET :: u8 where "PSU_STATUS_I2C_REG_OFFSET = 0x03"

definition IS_POWER_GOOD :: "u8 \<Rightarrow> int" where
  "IS_POWER_GOOD v = of_bool (v AND 2 \<noteq> 0)"

record 'w as4564_psu_data =
  psu_update_lock :: bool
  psu_valid :: bool
  psu_last_updated :: u64
  psu_status :: u8
  psu_cpld :: "'w cpld"

definition as4564_psu_read_value :: "'w kernel \<Rightarrow> u8 \<Rightarrow> 'w as4564_psu_data \<Rightarrow> (int \<times> 'w as4564_psu_data) option" where
  "as4564_psu_read_value K reg s =
     map_option (\<lambda>(rv, c). (rv, s\<lparr>psu_cpld := c\<rparr>)) (as4564_26p_cpld_read K PSU_STATUS_I2C_ADDR reg (psu_cpld s))"

definition as4564_psu_update_device :: "'w kernel \<Rightarrow> 'w as4564_psu_data \<Rightarrow> 'w as4564_psu_data option" where
  "as4564_psu_update_device K s =
     (if time_after (jiffies K (kw (psu_cpld s))) (psu_last_updated s + hz K + hz K div 2) \<or> \<not> psu_valid s then
        do { (status, s) \<leftarrow> as4564_psu_read_value K PSU_STATUS_I2C_REG_OFFSET (s\<lparr>psu_valid := False\<rparr>);
             Some (if status < 0 then s
                   else s\<lparr>psu_status := word_of_int status,
                          psu_last_updated := jiffies K (kw (psu_cpld s)), psu_valid := True\<rparr>) }
      else Some s)"

definition psu_show_status :: "'w kernel \<Rightarrow> 'w as4564_psu_data \<Rightarrow> (u8 list \<times> 'w as4564_psu_data) option" where
  "psu_show_status K s =
     (if psu_update_lock s then None
      else
        do { s \<leftarrow> as4564_psu_update_device K (s\<lparr>psu_update_lock := True\<rparr>);
             Some (if psu_valid s then print_d (IS_POWER_GOOD (psu_status s)) else [0x30, 0x0A],
                   s\<lparr>psu_update_lock := False\<rparr>) })"

section \<open>What a temperature can be\<close>

lemma twos_complement_10: "twos_complement_to_int data 10 0x3FF = signed_take_bit 9 (uint data)"
proof -
  let ?v = "take_bit 10 (uint data)"
  have m: "uint data AND 0x3FF = ?v" by (simp add: take_bit_eq_mask mask_eq_exp_minus_1)
  have v: "0 \<le> ?v" "?v < 1024" using take_bit_int_less_exp [of 10 "uint data"] by simp_all
  then have u: "uint (word_of_int ?v :: u16) = ?v" by (simp add: unsigned_of_int take_bit_take_bit)
  have "uint (drop_bit 9 (word_of_int ?v :: u16)) = ?v div 512"
    unfolding unsigned_drop_bit_eq u by (simp add: drop_bit_eq_div take_bit_take_bit)
  then have "drop_bit 9 (word_of_int ?v :: u16) \<noteq> 0 \<longleftrightarrow> ?v div 512 \<noteq> 0"
    by (metis unsigned_0 unsigned_word_eqI)
  moreover have "?v div 512 \<noteq> 0 \<longleftrightarrow> bit ?v 9"
  proof -
    have "?v div 512 = 0 \<or> ?v div 512 = 1" using v by linarith
    then show ?thesis by (auto simp: bit_iff_odd)
  qed
  moreover have "bit ?v 9 \<longleftrightarrow> bit (uint data) 9" by (simp add: bit_take_bit_iff)
  moreover have "NOT ?v AND 0x3FF = 1023 - ?v"
  proof -
    have "NOT ?v AND 0x3FF = take_bit 10 (NOT ?v)" by (simp add: take_bit_eq_mask mask_eq_exp_minus_1)
    then show ?thesis by (simp add: take_bit_not_eq_mask_diff mask_eq_exp_minus_1)
  qed
  ultimately show ?thesis
    by (simp add: twos_complement_to_int_def m u signed_take_bit_eq_take_bit_minus Let_def)
qed

text \<open>
  The temperature is the register read as ten bits of two's complement. Whatever the register
  holds, the conversion is 423 thousandths of a degree per step around 150 degrees, and lies between
  -66.576 and 366.153 degrees.
\<close>

theorem regval_to_temp_signed:
  "regval_to_temp v = signed_take_bit 9 (uint v) * 423 + 150000
   \<and> -66576 \<le> regval_to_temp v \<and> regval_to_temp v \<le> 366153"
proof -
  let ?t = "signed_take_bit 9 (uint v)"
  have "signed_take_bit 9 (uint (ucast v :: u16)) = ?t"
    by (simp add: unsigned_ucast_eq signed_take_bit_take_bit)
  then have eq: "regval_to_temp v = ?t * 423 + 150000"
    by (simp add: regval_to_temp_def twos_complement_10)
  have "- 512 \<le> ?t" "?t < 512"
    using signed_take_bit_int_greater_eq_minus_exp [of 9 "uint v"] signed_take_bit_int_less_exp [of 9 "uint v"]
    by simp_all
  then show ?thesis unfolding eq by linarith
qed

end
