(* ===== verification/As4564.thy ===== *)
theory As4564
  imports Platform Sfp I2c
begin

text \<open>
  The ONLP drivers of the Accton AS4564-26P (\<open>fani.c\<close>, \<open>psui.c\<close>, \<open>thermali.c\<close>, \<open>ledi.c\<close>, \<open>sysi.c\<close>,
  \<open>sfpi.c\<close>, \<open>platform_lib.c\<close>), over the file and I2C layers, and the platform they make together. A
  call that reads outside a table, divides by zero or runs past a buffer is \<open>None\<close>.
\<close>

section \<open>Counts, paths and the CPLD attributes\<close>

definition CHASSIS_THERMAL_COUNT :: nat where [simp]: "CHASSIS_THERMAL_COUNT = 5"
definition CHASSIS_LED_COUNT :: nat where [simp]: "CHASSIS_LED_COUNT = 3"
definition CHASSIS_FAN_COUNT :: nat where [simp]: "CHASSIS_FAN_COUNT = 2"
definition CHASSIS_PSU_COUNT :: nat where [simp]: "CHASSIS_PSU_COUNT = 1"

definition FAN_SYSFS_PATH :: string where "FAN_SYSFS_PATH = ''/sys/devices/platform/as4564_fan/''"
definition IDPROM_PATH :: string where "IDPROM_PATH = ''/sys/class/i2c-adapter/i2c-1/1-0056/eeprom''"

text \<open>\<open>CPLD_SYSFS_ATTR_FMT\<close>.\<close>

definition cpld_path :: "string \<Rightarrow> string" where
  "cpld_path attr = ''/sys/bus/i2c/devices/0-0040/'' @ attr"

definition get_cpld_attr_int :: "'w fs \<Rightarrow> string \<Rightarrow> int \<Rightarrow> 'w \<Rightarrow> (int \<times> int \<times> 'w) option" where
  "get_cpld_attr_int F attr v w = onlp_file_read_int F v [] (cpld_path attr) w"

definition set_cpld_attr_int :: "'w fs \<Rightarrow> string \<Rightarrow> int \<Rightarrow> 'w \<Rightarrow> int \<times> 'w" where
  "set_cpld_attr_int F attr v w = onlp_file_write_int F v (cpld_path attr) w"

definition oid_int :: "onlp_oid_t \<Rightarrow> int" where
  "oid_int oid = uint (ONLP_OID_ID_GET oid)"

text \<open>The OIDs \<open>1\<dots>n\<close> of a class.\<close>

definition oids_of :: "oid_type \<Rightarrow> nat \<Rightarrow> onlp_oid_t list" where
  "oids_of ty n = map (\<lambda>i. ONLP_OID_TYPE_CREATE (ONLP_OID_TYPE ty) (word_of_nat i)) [1..<Suc n]"

section \<open>Fans (\<open>fani.c\<close>)\<close>

definition chassis_fan_info :: "u32 \<Rightarrow> string \<Rightarrow> fan_info" where
  "chassis_fan_info fid desc =
     \<lparr> fi_hdr = hdr_of FAN fid desc, fi_status = 0,
       fi_caps = ONLP_FAN_CAPS_SET_PERCENTAGE OR ONLP_FAN_CAPS_GET_RPM OR ONLP_FAN_CAPS_GET_PERCENTAGE,
       fi_rpm = 0, fi_percentage = 0, fi_mode = -1, fi_model = [], fi_serial = [] \<rparr>"

definition fan_zero :: fan_info where
  "fan_zero = \<lparr> fi_hdr = oid_hdr_zero, fi_status = 0, fi_caps = 0, fi_rpm = 0, fi_percentage = 0, fi_mode = 0,
                fi_model = [], fi_serial = [] \<rparr>"

definition finfo :: "fan_info list" where
  "finfo = [fan_zero, chassis_fan_info 1 ''Chassis Fan - 1'', chassis_fan_info 2 ''Chassis Fan - 2'']"

text \<open>The attribute name is the prefix, the number and the suffix the format has.\<close>

definition fan_attr_path :: "int \<Rightarrow> string \<Rightarrow> string" where
  "fan_attr_path fid suffix = FAN_SYSFS_PATH @ ''fan'' @ dec_string fid @ suffix"

definition onlp_fani_get_fan_attr_int :: "'w fs \<Rightarrow> int \<Rightarrow> string \<Rightarrow> int \<Rightarrow> 'w \<Rightarrow> (int \<times> int \<times> 'w) option" where
  "onlp_fani_get_fan_attr_int F fid suffix v w = onlp_file_read_int F v [] (fan_attr_path fid suffix) w"

definition onlp_fani_set_fan_attr_int :: "'w fs \<Rightarrow> int \<Rightarrow> string \<Rightarrow> int \<Rightarrow> 'w \<Rightarrow> int \<times> 'w" where
  "onlp_fani_set_fan_attr_int F fid suffix v w = onlp_file_write_int F v (fan_attr_path fid suffix) w"

definition onlp_fani_info_get_fan :: "'w fs \<Rightarrow> int \<Rightarrow> fan_info \<Rightarrow> 'w \<Rightarrow> (int \<times> fan_info \<times> 'w) option" where
  "onlp_fani_info_get_fan F fid info w =
     (let info = info\<lparr>fi_status := fi_status info OR ONLP_FAN_STATUS_PRESENT\<rparr> in
      do { (ret, v, w) \<leftarrow> onlp_fani_get_fan_attr_int F fid ''_fault'' 0 w;
           if ret < 0 then Some (ONLP_STATUS_E_INTERNAL, info, w)
           else
             (let info = (if v > 0 then info\<lparr>fi_status := fi_status info OR ONLP_FAN_STATUS_FAILED\<rparr> else info);
                  info = info\<lparr>fi_status := fi_status info OR ONLP_FAN_STATUS_F2B\<rparr> in
              do { (ret, v, w) \<leftarrow> onlp_fani_get_fan_attr_int F fid ''_input'' v w;
                   if ret < 0 then Some (ONLP_STATUS_E_INTERNAL, info, w)
                   else
                     (let info = info\<lparr>fi_rpm := v\<rparr> in
                      do { (ret, v, w) \<leftarrow> onlp_file_read_int F v [] (FAN_SYSFS_PATH @ ''fan_max_rpm'') w;
                           if ret < 0 then Some (ONLP_STATUS_E_INTERNAL, info, w)
                           else if v = 0 then None
                           else Some (ONLP_STATUS_OK, info\<lparr>fi_percentage := cdiv (fi_rpm info * 100) v\<rparr>, w) }) }) })"

text \<open>\<open>onlp_fani_info_get\<close>: the table is read before the identifier is looked at.\<close>

definition as4564_fani_info_get :: "'w fs \<Rightarrow> onlp_oid_t \<Rightarrow> fan_info \<Rightarrow> 'w \<Rightarrow> (int \<times> fan_info \<times> 'w) option" where
  "as4564_fani_info_get F oid info w =
     (if \<not> ONLP_OID_IS_TYPE (ONLP_OID_TYPE FAN) oid then Some (ONLP_STATUS_E_INVALID, info, w)
      else
        (let fid = oid_int oid in
         do { info \<leftarrow> rd finfo (nat fid);
              if fid \<in> {1, 2} then onlp_fani_info_get_fan F fid info w
              else Some (ONLP_STATUS_E_INVALID, info, w) }))"

definition as4564_fani_percentage_set :: "'w fs \<Rightarrow> onlp_oid_t \<Rightarrow> int \<Rightarrow> 'w \<Rightarrow> int \<times> 'w" where
  "as4564_fani_percentage_set F oid p w =
     (if \<not> ONLP_OID_IS_TYPE (ONLP_OID_TYPE FAN) oid then (ONLP_STATUS_E_INVALID, w)
      else if p = 0 then (ONLP_STATUS_E_INVALID, w)
      else
        (let (rv, w) = onlp_fani_set_fan_attr_int F (oid_int oid) ''_pwm'' p w in
         (if rv \<noteq> ONLP_STATUS_OK then ONLP_STATUS_E_INTERNAL else ONLP_STATUS_OK, w)))"

section \<open>Power supply (\<open>psui.c\<close>)\<close>

definition pinfo :: "psu_info list" where
  "pinfo = map (\<lambda>h. \<lparr> pi_hdr = h, pi_model = [], pi_serial = [], pi_status = 0, pi_caps = 0, pi_mvin = 0,
                      pi_mvout = 0, pi_miin = 0, pi_miout = 0, pi_mpin = 0, pi_mpout = 0 \<rparr>)
             [oid_hdr_zero, hdr_of PSU 1 ''PSU-1'']"

definition as4564_psui_info_get :: "onlp_oid_t \<Rightarrow> psu_info \<Rightarrow> 'w \<Rightarrow> (int \<times> psu_info \<times> 'w) option" where
  "as4564_psui_info_get oid info w =
     (if \<not> ONLP_OID_IS_TYPE (ONLP_OID_TYPE PSU) oid then Some (ONLP_STATUS_E_INVALID, info, w)
      else
        do { info \<leftarrow> rd pinfo (nat (oid_int oid));
             Some (ONLP_STATUS_OK, info\<lparr>pi_status := pi_status info OR ONLP_PSU_STATUS_PRESENT\<rparr>, w) })"

section \<open>Temperatures (\<open>thermali.c\<close>)\<close>

text \<open>\<open>None\<close> is \<open>NULL\<close>.\<close>

definition thermal_devfiles :: "string option list" where
  "thermal_devfiles =
     [None, Some ''/sys/bus/i2c/devices/1-0048*temp1_input'', Some ''/sys/bus/i2c/devices/1-0049*temp1_input'',
      Some ''/sys/bus/i2c/devices/1-004b*temp1_input'', Some ''/sys/bus/i2c/devices/1-004c*temp1_input'',
      Some ''/sys/devices/platform/as4564_thermal/temp1_input'']"

definition thermal_entry :: "oid_hdr \<Rightarrow> thermal_info" where
  "thermal_entry h =
     \<lparr> ti_hdr = h, ti_status = ONLP_THERMAL_STATUS_PRESENT, ti_caps = 0xF, ti_mcelsius = 0,
       ti_warning = 45000, ti_error = 55000, ti_shutdown = 60000 \<rparr>"

text \<open>The last entry carries the OID of the fourth sensor.\<close>

definition thermal_linfo :: "thermal_info list" where
  "thermal_linfo =
     \<lparr> ti_hdr = oid_hdr_zero, ti_status = 0, ti_caps = 0, ti_mcelsius = 0, ti_warning = 0, ti_error = 0,
       ti_shutdown = 0 \<rparr>
     # map thermal_entry
         [hdr_of THERMAL 1 ''Thermal 1 - U12_CPU_MAC (0x48)'', hdr_of THERMAL 2 ''Thermal 2 - U1_AIR_OUTLET (0x49)'',
          hdr_of THERMAL 3 ''Thermal 3 - U88_AIR_INLET (0x4B)'', hdr_of THERMAL 4 ''Thermal 4 - U29_PSU (0x4C)'',
          hdr_of THERMAL 4 ''CPU Core (A7K)'']"

definition as4564_thermali_info_get ::
  "'w fs \<Rightarrow> onlp_oid_t \<Rightarrow> thermal_info \<Rightarrow> 'w \<Rightarrow> (int \<times> thermal_info \<times> 'w) option" where
  "as4564_thermali_info_get F oid info w =
     (if \<not> ONLP_OID_IS_TYPE (ONLP_OID_TYPE THERMAL) oid then Some (ONLP_STATUS_E_INVALID, info, w)
      else
        do { info \<leftarrow> rd thermal_linfo (nat (oid_int oid));
             file \<leftarrow> rd thermal_devfiles (nat (oid_int oid));
             path \<leftarrow> file;
             (rv, v, w) \<leftarrow> onlp_file_read_int F (ti_mcelsius info) [] path w;
             Some (rv, info\<lparr>ti_mcelsius := v\<rparr>, w) })"

section \<open>LEDs (\<open>ledi.c\<close>)\<close>

definition ONLP_LED_STATUS_ON :: u32 where "ONLP_LED_STATUS_ON = 2 ^ 2"
definition ONLP_LED_CAPS_AUTO :: u32 where "ONLP_LED_CAPS_AUTO = 2 ^ 22"
definition ONLP_LED_MODE_AUTO :: int where [simp]: "ONLP_LED_MODE_AUTO = 22"

definition led_linfo :: "led_info list" where
  "led_linfo =
     \<lparr> li_hdr = oid_hdr_zero, li_status = 0, li_caps = 0, li_mode = 0, li_character = CHR 0x00 \<rparr>
     # map (\<lambda>h. \<lparr> li_hdr = h, li_status = ONLP_LED_STATUS_PRESENT, li_caps = ONLP_LED_CAPS_AUTO, li_mode = 0,
                   li_character = CHR 0x00 \<rparr>)
         [hdr_of LED 1 ''Chassis LED 1 (PSU LED)'', hdr_of LED 2 ''Chassis LED 2 (FAN1 LED)'',
          hdr_of LED 3 ''Chassis LED 3 (FAN2 LED)'']"

definition as4564_ledi_info_get :: "onlp_oid_t \<Rightarrow> led_info \<Rightarrow> 'w \<Rightarrow> (int \<times> led_info \<times> 'w) option" where
  "as4564_ledi_info_get oid info w =
     (if \<not> ONLP_OID_IS_TYPE (ONLP_OID_TYPE LED) oid then Some (ONLP_STATUS_E_INVALID, info, w)
      else
        do { info \<leftarrow> rd led_linfo (nat (oid_int oid));
             Some (ONLP_STATUS_OK,
                   info\<lparr>li_mode := ONLP_LED_MODE_AUTO, li_status := li_status info OR ONLP_LED_STATUS_ON\<rparr>, w) })"

section \<open>System (\<open>sysi.c\<close>)\<close>

text \<open>\<open>onlp_sysi_onie_data_get\<close>: the data on success; the second component is \<open>*size\<close>.\<close>

definition as4564_onie_data_get :: "'w fs \<Rightarrow> int \<Rightarrow> 'w \<Rightarrow> int \<times> u8 list option \<times> int \<times> 'w" where
  "as4564_onie_data_get F sz w =
     (let (rv, rdata, sz, w) = onlp_file_read F (replicate 256 0) 256 sz IDPROM_PATH w in
      if rv = ONLP_STATUS_OK \<and> sz = 256 then (ONLP_STATUS_OK, Some rdata, sz, w)
      else (ONLP_STATUS_E_INTERNAL, None, 0, w))"

definition as4564_oids :: "onlp_oid_t list" where
  "as4564_oids = oids_of THERMAL CHASSIS_THERMAL_COUNT @ oids_of LED CHASSIS_LED_COUNT
     @ oids_of PSU CHASSIS_PSU_COUNT @ oids_of FAN CHASSIS_FAN_COUNT"

definition as4564_oids_get :: "onlp_oid_t list \<Rightarrow> nat \<Rightarrow> 'w \<Rightarrow> (int \<times> onlp_oid_t list \<times> 'w) option" where
  "as4564_oids_get table mx w =
     (if mx \<le> length table \<and> length as4564_oids \<le> length table
      then Some (0, as4564_oids @ drop (length as4564_oids) (replicate mx 0 @ drop mx table), w)
      else None)"

text \<open>\<open>%x\<close> of an \<open>int\<close>.\<close>

fun hex_nat :: "nat \<Rightarrow> string" where
  "hex_nat n = (if n < 16 then [''0123456789abcdef'' ! n] else hex_nat (n div 16) @ [''0123456789abcdef'' ! (n mod 16)])"

declare hex_nat.simps [simp del]

definition hex_string :: "int \<Rightarrow> string" where
  "hex_string v = hex_nat (unat (word_of_int v :: u32))"

definition as4564_platform_info_get :: "'w fs \<Rightarrow> platform_info \<Rightarrow> 'w \<Rightarrow> (int \<times> platform_info \<times> 'w) option" where
  "as4564_platform_info_get F pinf w =
     do { (ret, version, w) \<leftarrow> get_cpld_attr_int F ''version'' 0 w;
          if ret < 0 then Some (ret, pinf, w)
          else
            do { (ret, sub_version, w) \<leftarrow> get_cpld_attr_int F ''sub_version'' 0 w;
                 if ret < 0 then Some (ret, pinf, w)
                 else Some (ONLP_STATUS_OK,
                        pinf\<lparr>cpld_versions := Some (hex_string version @ ''.'' @ hex_string sub_version)\<rparr>, w) } }"

section \<open>Fan control (\<open>sysi.c\<close>)\<close>

definition FAN_DUTY_ABSENT :: int where [simp]: "FAN_DUTY_ABSENT = 60"
definition FAN_DUTY_MAX :: int where [simp]: "FAN_DUTY_MAX = 50"
definition FAN_DUTY_MID :: int where [simp]: "FAN_DUTY_MID = 30"
definition FAN_DUTY_LOW :: int where [simp]: "FAN_DUTY_LOW = 15"
definition FAN_DUTY_DEFAULT :: int where [simp]: "FAN_DUTY_DEFAULT = FAN_DUTY_MID"

text \<open>All fans are set; the status is that of the last fan that failed.\<close>

fun set_duty_loop :: "'w fs \<Rightarrow> int \<Rightarrow> onlp_oid_t list \<Rightarrow> int \<Rightarrow> 'w \<Rightarrow> int \<times> 'w" where
  "set_duty_loop F p [] status w = (status, w)"
| "set_duty_loop F p (oid # oids) status w =
     (let (ret, w) = as4564_fani_percentage_set F oid p w in
      set_duty_loop F p oids (if ret < 0 then ret else status) w)"

definition sysi_fanctrl_fan_set_duty :: "'w fs \<Rightarrow> int \<Rightarrow> 'w \<Rightarrow> int \<times> 'w" where
  "sysi_fanctrl_fan_set_duty F p w = set_duty_loop F p (oids_of FAN CHASSIS_FAN_COUNT) 0 w"

text \<open>A policy gives \<open>adjusted\<close>, the status and the state.\<close>

definition sysi_fanctrl_fan_status_policy ::
  "'w fs \<Rightarrow> fan_info list \<Rightarrow> thermal_info list \<Rightarrow> 'w \<Rightarrow> (bool \<times> int \<times> 'w) option" where
  "sysi_fanctrl_fan_status_policy F fi ti w =
     Some (if \<exists>f \<in> set fi. has (fi_status f) ONLP_FAN_STATUS_FAILED
           then (True, sysi_fanctrl_fan_set_duty F FAN_DUTY_ABSENT w)
           else if \<exists>f \<in> set fi. \<not> has (fi_status f) ONLP_FAN_STATUS_PRESENT
           then (True, sysi_fanctrl_fan_set_duty F FAN_DUTY_ABSENT w)
           else (False, ONLP_STATUS_OK, w))"

definition sysi_fanctrl_thermal_sensor_policy ::
  "'w fs \<Rightarrow> fan_info list \<Rightarrow> thermal_info list \<Rightarrow> 'w \<Rightarrow> (bool \<times> int \<times> 'w) option" where
  "sysi_fanctrl_thermal_sensor_policy F fi ti w =
     (let sum_mcelsius = sum_list (map ti_mcelsius (take 4 ti)) in
      do { (rv, fanduty, w) \<leftarrow> onlp_file_read_int F 0 [] (FAN_SYSFS_PATH @ ''fan1_pwm'') w;
           if rv < 0 then Some (True, sysi_fanctrl_fan_set_duty F FAN_DUTY_MAX w)
           else if fanduty = FAN_DUTY_LOW then
             (if sum_mcelsius \<ge> 133500 then Some (True, sysi_fanctrl_fan_set_duty F FAN_DUTY_MID w)
              else Some (False, sysi_fanctrl_fan_set_duty F fanduty w))
           else if fanduty = FAN_DUTY_MID then
             (if sum_mcelsius \<ge> 215000 then Some (True, sysi_fanctrl_fan_set_duty F FAN_DUTY_MAX w)
              else if sum_mcelsius \<le> 131000 then Some (True, sysi_fanctrl_fan_set_duty F FAN_DUTY_LOW w)
              else Some (False, sysi_fanctrl_fan_set_duty F fanduty w))
           else if fanduty = FAN_DUTY_MAX then
             (if sum_mcelsius \<le> 131000 then Some (True, sysi_fanctrl_fan_set_duty F FAN_DUTY_LOW w)
              else Some (False, sysi_fanctrl_fan_set_duty F fanduty w))
           else Some (True, sysi_fanctrl_fan_set_duty F FAN_DUTY_DEFAULT w) })"

definition fan_control_policies ::
  "('w fs \<Rightarrow> fan_info list \<Rightarrow> thermal_info list \<Rightarrow> 'w \<Rightarrow> (bool \<times> int \<times> 'w) option) list" where
  "fan_control_policies = [sysi_fanctrl_fan_status_policy, sysi_fanctrl_thermal_sensor_policy]"

text \<open>Until one adjusts; the status of one that does not is dropped.\<close>

fun run_policies ::
  "(fan_info list \<Rightarrow> thermal_info list \<Rightarrow> 'w \<Rightarrow> (bool \<times> int \<times> 'w) option) list
   \<Rightarrow> fan_info list \<Rightarrow> thermal_info list \<Rightarrow> 'w \<Rightarrow> (int \<times> 'w) option" where
  "run_policies [] fi ti w = Some (ONLP_STATUS_OK, w)"
| "run_policies (p # ps) fi ti w =
     do { (adjusted, rc, w) \<leftarrow> p fi ti w;
          if adjusted then Some (rc, w) else run_policies ps fi ti w }"

text \<open>Read one item per OID into zeroed structures, up to the first that fails.\<close>

fun read_infos ::
  "(onlp_oid_t \<Rightarrow> 'i \<Rightarrow> 'w \<Rightarrow> (int \<times> 'i \<times> 'w) option) \<Rightarrow> 'i \<Rightarrow> onlp_oid_t list \<Rightarrow> 'w
   \<Rightarrow> (int \<times> 'i list \<times> 'w) option" where
  "read_infos get z [] w = Some (ONLP_STATUS_OK, [], w)"
| "read_infos get z (oid # oids) w =
     do { (rc, i, w) \<leftarrow> get oid z w;
          if rc \<noteq> ONLP_STATUS_OK then Some (rc, [i], w)
          else do { (rc, is, w) \<leftarrow> read_infos get z oids w; Some (rc, i # is, w) } }"

definition as4564_platform_manage_fans :: "'w fs \<Rightarrow> 'w \<Rightarrow> (int \<times> 'w) option" where
  "as4564_platform_manage_fans F w =
     do { (rc, fi, w) \<leftarrow> read_infos (as4564_fani_info_get F) (hd finfo) (oids_of FAN CHASSIS_FAN_COUNT) w;
          if rc \<noteq> ONLP_STATUS_OK
          then Some (ONLP_STATUS_E_INTERNAL, snd (sysi_fanctrl_fan_set_duty F FAN_DUTY_MAX w))
          else
            do { (rc, ti, w) \<leftarrow> read_infos (as4564_thermali_info_get F) (hd thermal_linfo)
                   (oids_of THERMAL CHASSIS_THERMAL_COUNT) w;
                 if rc \<noteq> ONLP_STATUS_OK
                 then Some (ONLP_STATUS_E_INTERNAL, snd (sysi_fanctrl_fan_set_duty F FAN_DUTY_MAX w))
                 else run_policies (map (\<lambda>p. p F) fan_control_policies) fi ti w } }"

section \<open>Transceivers (\<open>sfpi.c\<close>)\<close>

text \<open>
  The stream functions of the C library: \<open>fopen\<close> for reading, \<open>fscanf\<close> of one \<open>%x\<close> with the count and
  the destination, \<open>fseek\<close> from the current position, \<open>fread\<close> of single bytes, and \<open>fclose\<close>.
\<close>

record 'w stdio =
  io_fopen :: "string \<Rightarrow> 'w \<Rightarrow> nat option \<times> 'w"
  io_fscanf_x :: "nat \<Rightarrow> u32 \<Rightarrow> 'w \<Rightarrow> int \<times> u32 \<times> 'w"
  io_fseek_cur :: "nat \<Rightarrow> int \<Rightarrow> 'w \<Rightarrow> int \<times> 'w"
  io_fread :: "nat \<Rightarrow> nat \<Rightarrow> 'w \<Rightarrow> u8 list \<times> 'w"
  io_fclose :: "nat \<Rightarrow> 'w \<Rightarrow> 'w"

definition port_eeprom_path :: "int \<Rightarrow> string" where
  "port_eeprom_path port = ''/sys/bus/i2c/devices/'' @ dec_string (port - 20) @ ''-0050/eeprom''"

definition PORT_BUS_INDEX :: "int \<Rightarrow> int" where "PORT_BUS_INDEX port = port - 20"

definition onlp_sfpi_get_port_attr_int :: "'w fs \<Rightarrow> int \<Rightarrow> string \<Rightarrow> int \<Rightarrow> 'w \<Rightarrow> (int \<times> int \<times> 'w) option" where
  "onlp_sfpi_get_port_attr_int F port attr v w = get_cpld_attr_int F (attr @ dec_string port) v w"

definition onlp_sfpi_set_port_attr_int :: "'w fs \<Rightarrow> int \<Rightarrow> string \<Rightarrow> int \<Rightarrow> 'w \<Rightarrow> int \<times> 'w" where
  "onlp_sfpi_set_port_attr_int F port attr v w = set_cpld_attr_int F (attr @ dec_string port) v w"

definition as4564_sfpi_bitmap_get :: "'b bitmap_ops \<Rightarrow> 'b \<Rightarrow> 'w \<Rightarrow> int \<times> 'b \<times> 'w" where
  "as4564_sfpi_bitmap_get B bmap w = (ONLP_STATUS_OK, foldl (bm_set B) bmap [25..26], w)"

definition as4564_sfpi_is_present :: "'w fs \<Rightarrow> int \<Rightarrow> 'w \<Rightarrow> (int \<times> 'w) option" where
  "as4564_sfpi_is_present F port w =
     do { (ret, present, w) \<leftarrow> onlp_sfpi_get_port_attr_int F port ''module_present_'' 0 w;
          Some (if ret < 0 then ret else present, w) }"

text \<open>
  \<open>for(i = 0; all; i++)\<close>: set or clear one bit after the other until no bit is left; \<open>modify\<close> is
  \<open>AIM_BITMAP_MOD\<close>.
\<close>

function populate :: "('b \<Rightarrow> int \<Rightarrow> bool \<Rightarrow> 'b) \<Rightarrow> 'b \<Rightarrow> int \<Rightarrow> u32 \<Rightarrow> 'b" where
  "populate modify dst i all =
     (if all = 0 then dst else populate modify (modify dst (i + 1) (all AND 1 \<noteq> 0)) (i + 1) (drop_bit 1 all))"
  by pat_completeness auto
termination
proof (relation "measure (\<lambda>(modify, dst, i, all). unat all)")
  fix modify :: "'b \<Rightarrow> int \<Rightarrow> bool \<Rightarrow> 'b" and dst :: 'b and i :: int and all :: u32
  assume "all \<noteq> 0"
  then have "unat (all div 2) < unat all" by (simp add: unat_div unat_gt_0)
  then show "((modify, modify dst (i + 1) (all AND 1 \<noteq> 0), i + 1, drop_bit 1 all), modify, dst, i, all)
      \<in> measure (\<lambda>(modify, dst, i, all). unat all)"
    by (simp add: drop_bit_Suc)
qed simp

declare populate.simps [simp del]

text \<open>The attribute with the two bits of ports 25 and 26, which the bitmaps take.\<close>

definition bitmap_from_attr ::
  "'w stdio \<Rightarrow> 'b bitmap_ops \<Rightarrow> ('b \<Rightarrow> int \<Rightarrow> bool \<Rightarrow> 'b) \<Rightarrow> string \<Rightarrow> 'b \<Rightarrow> 'w \<Rightarrow> int \<times> 'b \<times> 'w" where
  "bitmap_from_attr S B modify path dst w =
     (case io_fopen S path w of
        (None, w) \<Rightarrow> (ONLP_STATUS_E_INTERNAL, dst, w)
      | (Some fp, w) \<Rightarrow>
          (let (count, byte, w) = io_fscanf_x S fp 0 w; w = io_fclose S fp w in
           if count \<noteq> 1 then (ONLP_STATUS_E_INTERNAL, dst, w)
           else (ONLP_STATUS_OK, populate modify (bm_clr_all B dst) 0 (push_bit 24 (byte AND 0x03)), w)))"

definition as4564_sfpi_presence_bitmap_get ::
  "'w stdio \<Rightarrow> 'b bitmap_ops \<Rightarrow> ('b \<Rightarrow> int \<Rightarrow> bool \<Rightarrow> 'b) \<Rightarrow> 'b \<Rightarrow> 'w \<Rightarrow> int \<times> 'b \<times> 'w" where
  "as4564_sfpi_presence_bitmap_get S B modify dst w =
     bitmap_from_attr S B modify (cpld_path ''module_present_all'') dst w"

definition as4564_sfpi_rx_los_bitmap_get ::
  "'w stdio \<Rightarrow> 'b bitmap_ops \<Rightarrow> ('b \<Rightarrow> int \<Rightarrow> bool \<Rightarrow> 'b) \<Rightarrow> 'b \<Rightarrow> 'w \<Rightarrow> int \<times> 'b \<times> 'w" where
  "as4564_sfpi_rx_los_bitmap_get S B modify dst w =
     bitmap_from_attr S B modify (cpld_path ''module_rx_los_all'') dst w"

definition as4564_sfpi_eeprom_read :: "'w fs \<Rightarrow> int \<Rightarrow> u8 list \<Rightarrow> 'w \<Rightarrow> int \<times> u8 list \<times> 'w" where
  "as4564_sfpi_eeprom_read F port data w =
     (let (rv, data, sz, w) = onlp_file_read F (replicate 256 0) 256 0 (port_eeprom_path port) w in
      (if rv \<noteq> ONLP_STATUS_OK \<or> sz \<noteq> 256 then ONLP_STATUS_E_INTERNAL else ONLP_STATUS_OK, data, w))"

definition as4564_sfpi_dom_read :: "'w stdio \<Rightarrow> int \<Rightarrow> u8 list \<Rightarrow> 'w \<Rightarrow> int \<times> u8 list \<times> 'w" where
  "as4564_sfpi_dom_read S port data w =
     (case io_fopen S (port_eeprom_path port) w of
        (None, w) \<Rightarrow> (ONLP_STATUS_E_INTERNAL, data, w)
      | (Some fp, w) \<Rightarrow>
          (let (rv, w) = io_fseek_cur S fp 256 w in
           if rv \<noteq> 0 then (ONLP_STATUS_E_INTERNAL, data, io_fclose S fp w)
           else
             (let (bytes, w) = io_fread S fp 256 w; w = io_fclose S fp w in
              (if length bytes \<noteq> 256 then ONLP_STATUS_E_INTERNAL else ONLP_STATUS_OK,
               bytes @ drop (length bytes) data, w))))"

definition as4564_sfpi_dev_readb :: "'w i2c_bus \<Rightarrow> int \<Rightarrow> u8 \<Rightarrow> u8 \<Rightarrow> 'w \<Rightarrow> (int \<times> 'w) option" where
  "as4564_sfpi_dev_readb B port devaddr addr w =
     onlp_i2c_readb B (PORT_BUS_INDEX port) devaddr addr ONLP_I2C_F_FORCE w"

definition as4564_sfpi_dev_writeb :: "'w i2c_bus \<Rightarrow> int \<Rightarrow> u8 \<Rightarrow> u8 \<Rightarrow> u8 \<Rightarrow> 'w \<Rightarrow> (int \<times> 'w) option" where
  "as4564_sfpi_dev_writeb B port devaddr addr v w =
     onlp_i2c_writeb B (PORT_BUS_INDEX port) devaddr addr v ONLP_I2C_F_FORCE w"

definition as4564_sfpi_dev_readw :: "'w i2c_bus \<Rightarrow> int \<Rightarrow> u8 \<Rightarrow> u8 \<Rightarrow> 'w \<Rightarrow> (int \<times> 'w) option" where
  "as4564_sfpi_dev_readw B port devaddr addr w =
     onlp_i2c_readw B (PORT_BUS_INDEX port) devaddr addr ONLP_I2C_F_FORCE w"

definition as4564_sfpi_dev_writew :: "'w i2c_bus \<Rightarrow> int \<Rightarrow> u8 \<Rightarrow> u8 \<Rightarrow> u16 \<Rightarrow> 'w \<Rightarrow> (int \<times> 'w) option" where
  "as4564_sfpi_dev_writew B port devaddr addr v w =
     onlp_i2c_writew B (PORT_BUS_INDEX port) devaddr addr v ONLP_I2C_F_FORCE w"

definition as4564_sfpi_control_set :: "'w fs \<Rightarrow> int \<Rightarrow> int \<Rightarrow> int \<Rightarrow> 'w \<Rightarrow> int \<times> 'w" where
  "as4564_sfpi_control_set F port control v w =
     (if port < 25 \<or> port > 26 then (ONLP_STATUS_E_UNSUPPORTED, w)
      else if control = ONLP_SFP_CONTROL_TX_DISABLE then
        (let (rv, w) = onlp_sfpi_set_port_attr_int F port ''module_tx_disable_'' v w in
         (if rv < 0 then ONLP_STATUS_E_INTERNAL else ONLP_STATUS_OK, w))
      else (ONLP_STATUS_E_UNSUPPORTED, w))"

definition as4564_sfpi_control_get :: "'w fs \<Rightarrow> int \<Rightarrow> int \<Rightarrow> int \<Rightarrow> 'w \<Rightarrow> (int \<times> int \<times> 'w) option" where
  "as4564_sfpi_control_get F port control v w =
     (let attr = (if control = ONLP_SFP_CONTROL_RX_LOS then Some ''module_rx_los_''
                  else if control = ONLP_SFP_CONTROL_TX_FAULT then Some ''module_tx_fault_''
                  else if control = ONLP_SFP_CONTROL_TX_DISABLE then Some ''module_tx_disable_'' else None) in
      if port < 25 \<or> port > 26 then Some (ONLP_STATUS_E_UNSUPPORTED, v, w)
      else
        (case attr of
           None \<Rightarrow> Some (ONLP_STATUS_E_UNSUPPORTED, v, w)
         | Some attr \<Rightarrow>
             do { (rv, v, w) \<leftarrow> onlp_sfpi_get_port_attr_int F port attr v w;
                  Some (if rv < 0 then ONLP_STATUS_E_INTERNAL else ONLP_STATUS_OK, v, w) }))"

section \<open>The platform\<close>

text \<open>
  The drivers together, as ONLP links them; what this platform does not define is the weak default.
  The state is \<open>None\<close> once something undefined has happened.
\<close>

definition as4564_fani :: "'w fs \<Rightarrow> 'w option fani" where
  "as4564_fani F = default_fani
     \<lparr> onlp_fani_init := (\<lambda>w. (ONLP_STATUS_OK, w)),
       onlp_fani_info_get := (\<lambda>oid. guarded (as4564_fani_info_get F oid)),
       onlp_fani_percentage_set := (\<lambda>oid p. guarded_op (\<lambda>w. Some (as4564_fani_percentage_set F oid p w))) \<rparr>"

definition as4564_psui :: "'w option psui" where
  "as4564_psui = default_psui
     \<lparr> onlp_psui_init := (\<lambda>w. (ONLP_STATUS_OK, w)),
       onlp_psui_info_get := (\<lambda>oid. guarded (as4564_psui_info_get oid)) \<rparr>"

definition as4564_thermali :: "'w fs \<Rightarrow> 'w option thermali" where
  "as4564_thermali F = default_thermali
     \<lparr> onlp_thermali_init := (\<lambda>w. (ONLP_STATUS_OK, w)),
       onlp_thermali_info_get := (\<lambda>oid. guarded (as4564_thermali_info_get F oid)) \<rparr>"

definition as4564_ledi :: "'w option ledi" where
  "as4564_ledi = default_ledi
     \<lparr> onlp_ledi_init := (\<lambda>w. (ONLP_STATUS_OK, w)),
       onlp_ledi_info_get := (\<lambda>oid. guarded (as4564_ledi_info_get oid)) \<rparr>"

definition as4564_sysi :: "'w fs \<Rightarrow> 'w option sysi" where
  "as4564_sysi F = default_sysi
     \<lparr> onlp_sysi_platform_get := Some ''arm64-accton-as4564-26p-r0'',
       onlp_sysi_onie_data_get := (\<lambda>w.
         case w of None \<Rightarrow> (ONLP_STATUS_E_INTERNAL, None, None)
         | Some w \<Rightarrow> (let (rv, data, sz, w) = as4564_onie_data_get F 0 w in (rv, data, Some w))),
       onlp_sysi_oids_get := (\<lambda>table mx. guarded (\<lambda>table. as4564_oids_get table mx) table),
       onlp_sysi_platform_info_get := guarded (as4564_platform_info_get F),
       onlp_sysi_platform_manage_fans := guarded_op (as4564_platform_manage_fans F) \<rparr>"

text \<open>The rest of ONLP's environment, which the drivers do not supply: \<open>J\<close>, \<open>C\<close> and \<open>push\<close>.\<close>

definition as4564_platform ::
  "'w fs \<Rightarrow> (onie_vx \<Rightarrow> onie_vx list \<Rightarrow> onie_vx list) \<Rightarrow> cjson \<Rightarrow> 'w option junk \<Rightarrow> 'w option platform" where
  "as4564_platform F push C J =
     \<lparr> fan_drv = as4564_fani F, psu_drv = as4564_psui, thermal_drv = as4564_thermali F, led_drv = as4564_ledi,
       sys_drv = as4564_sysi F, list_push = push, config = C, uninit = J \<rparr>"

lemmas as4564_drivers [drv_simps] =
  as4564_platform_def as4564_fani_def as4564_psui_def as4564_thermali_def as4564_ledi_def as4564_sysi_def

end
