(* ===== verification/As4564Props.thy ===== *)
theory As4564Props
  imports As4564 FileProps OidTree
begin

text \<open>
  What the ONLP drivers of the AS4564-26P guarantee: the decision table of the fan control and the
  loop it closes, the OIDs the platform reports and the information behind them, and the bitmaps of
  the transceivers.
\<close>

section \<open>OIDs\<close>

lemma oids_of_simps [oid_simps]:
  "oids_of FAN (Suc (Suc 0)) = [0x3000001, 0x3000002]" "oids_of PSU (Suc 0) = [0x4000001]"
  "oids_of LED 3 = [0x5000001, 0x5000002, 0x5000003]"
  "oids_of THERMAL 5 = [0x2000001, 0x2000002, 0x2000003, 0x2000004, 0x2000005]"
  by (simp_all add: oids_of_def ONLP_OID_TYPE_CREATE_def upt_rec)

lemma oids_of_counts [oid_simps]:
  "oids_of FAN 2 = [0x3000001, 0x3000002]" "oids_of PSU 1 = [0x4000001]"
  using oids_of_simps(1, 2) by (simp_all add: numeral_2_eq_2)

section \<open>Attributes\<close>

text \<open>
  The files under \<open>sysfs\<close> as ONLP sees them: reading one gives the number it shows, or an error when
  there is none, and changes no attribute. \<open>val\<close> gives the attributes of a state.
\<close>

definition answers :: "'w fs \<Rightarrow> ('w \<Rightarrow> string \<Rightarrow> int option) \<Rightarrow> bool" where
  "answers F val \<longleftrightarrow>
     (\<forall>p v w. \<exists>rv x w'. onlp_file_read_int F v [] p w = Some (rv, x, w') \<and> val w' = val w \<and>
        (case val w p of None \<Rightarrow> rv < 0 \<and> x = v | Some n \<Rightarrow> rv = 0 \<and> x = n))"

lemma answers_read:
  assumes "answers F val" and "val w = e"
  shows "\<exists>rv x w'. onlp_file_read_int F v [] p w = Some (rv, x, w') \<and> val w' = e
    \<and> (e p = None \<longrightarrow> rv < 0) \<and> (\<forall>n. e p = Some n \<longrightarrow> rv = 0 \<and> x = n)"
proof -
  obtain rv x w' where "onlp_file_read_int F v [] p w = Some (rv, x, w')" "val w' = val w"
    "case val w p of None \<Rightarrow> rv < 0 \<and> x = v | Some n \<Rightarrow> rv = 0 \<and> x = n"
    using assms(1) unfolding answers_def by blast
  then show ?thesis using assms(2) by (cases "e p") auto
qed

abbreviation fault_path :: "int \<Rightarrow> string" where "fault_path i \<equiv> fan_attr_path i ''_fault''"
abbreviation input_path :: "int \<Rightarrow> string" where "input_path i \<equiv> fan_attr_path i ''_input''"
abbreviation pwm_path :: "int \<Rightarrow> string" where "pwm_path i \<equiv> fan_attr_path i ''_pwm''"
abbreviation max_path :: string where "max_path \<equiv> FAN_SYSFS_PATH @ ''fan_max_rpm''"

text \<open>Whether a fan can be read, and a temperature.\<close>

definition fan_readable :: "(string \<Rightarrow> int option) \<Rightarrow> int \<Rightarrow> bool" where
  "fan_readable e i \<longleftrightarrow> e (fault_path i) \<noteq> None \<and> e (input_path i) \<noteq> None \<and> e max_path \<noteq> None"

definition thermal_path :: "int \<Rightarrow> string" where
  "thermal_path i = the (thermal_devfiles ! nat i)"

definition thermal_readable :: "(string \<Rightarrow> int option) \<Rightarrow> int \<Rightarrow> bool" where
  "thermal_readable e i \<longleftrightarrow> e (thermal_path i) \<noteq> None"

lemma fan_status_bits:
  "has ONLP_FAN_STATUS_PRESENT ONLP_FAN_STATUS_PRESENT" "\<not> has ONLP_FAN_STATUS_F2B ONLP_FAN_STATUS_FAILED"
  "\<not> has ONLP_FAN_STATUS_PRESENT ONLP_FAN_STATUS_FAILED" "has ONLP_FAN_STATUS_FAILED ONLP_FAN_STATUS_FAILED"
  by (simp_all add: flag_defs has_def)

lemma fan_info_get_fan_reads:
  assumes "answers F val" and "e max_path \<noteq> Some 0" and "val w = e"
  obtains rv info' w' where "onlp_fani_info_get_fan F i info w = Some (rv, info', w')" and "val w' = e"
    and "rv = 0 \<longleftrightarrow> fan_readable e i" and "fi_hdr info' = fi_hdr info"
    and "rv = 0 \<Longrightarrow> fi_status info = 0 \<Longrightarrow> has (fi_status info') ONLP_FAN_STATUS_PRESENT
      \<and> has (fi_status info') ONLP_FAN_STATUS_FAILED = (0 < the (e (fault_path i)))"
proof -
  obtain r1 v1 w1 where r1: "onlp_file_read_int F 0 [] (fault_path i) w = Some (r1, v1, w1)" "val w1 = e"
    "e (fault_path i) = None \<longrightarrow> r1 < 0" "\<forall>n. e (fault_path i) = Some n \<longrightarrow> r1 = 0 \<and> v1 = n"
    using answers_read [OF assms(1, 3), of 0 "fault_path i"] by (elim exE conjE)
  obtain r2 v2 w2 where r2: "onlp_file_read_int F v1 [] (input_path i) w1 = Some (r2, v2, w2)" "val w2 = e"
    "e (input_path i) = None \<longrightarrow> r2 < 0" "\<forall>n. e (input_path i) = Some n \<longrightarrow> r2 = 0 \<and> v2 = n"
    using answers_read [OF assms(1) r1(2), of v1 "input_path i"] by (elim exE conjE)
  obtain r3 v3 w3 where r3: "onlp_file_read_int F v2 [] max_path w2 = Some (r3, v3, w3)" "val w3 = e"
    "e max_path = None \<longrightarrow> r3 < 0" "\<forall>n. e max_path = Some n \<longrightarrow> r3 = 0 \<and> v3 = n"
    using answers_read [OF assms(1) r2(2), of v2 max_path] by (elim exE conjE)
  let ?i1 = "info\<lparr>fi_status := fi_status info OR ONLP_FAN_STATUS_PRESENT\<rparr>"
  let ?f1 = "if v1 > 0 then ?i1\<lparr>fi_status := fi_status ?i1 OR ONLP_FAN_STATUS_FAILED\<rparr> else ?i1"
  let ?i2 = "?f1\<lparr>fi_status := fi_status ?f1 OR ONLP_FAN_STATUS_F2B\<rparr>"
  let ?i3 = "?i2\<lparr>fi_rpm := v2\<rparr>"
  note unf = onlp_fani_info_get_fan_def onlp_fani_get_fan_attr_int_def r1(1) r2(1) r3(1) Let_def
  consider "r1 < 0" "e (fault_path i) = None" | "r1 = 0" "r2 < 0" "e (input_path i) = None"
    | "r1 = 0" "r2 = 0" "r3 < 0" "e max_path = None"
    | f n m where "e (fault_path i) = Some f" "e (input_path i) = Some n" "e max_path = Some m"
    using r1(3,4) r2(3,4) r3(3) by (cases "e (fault_path i)"; cases "e (input_path i)"; cases "e max_path") simp_all
  then show ?thesis
  proof cases
    case 1
    then show ?thesis by (intro that [of ONLP_STATUS_E_INTERNAL ?i1 w1]) (simp_all add: unf fan_readable_def r1(2))
  next
    case 2
    then show ?thesis by (intro that [of ONLP_STATUS_E_INTERNAL ?i2 w2]) (simp_all add: unf fan_readable_def r2(2))
  next
    case 3
    then show ?thesis by (intro that [of ONLP_STATUS_E_INTERNAL ?i3 w3]) (simp_all add: unf fan_readable_def r3(2))
  next
    case 4
    then have v: "r1 = 0" "e (fault_path i) = Some v1" "r2 = 0" "e (input_path i) = Some n" "r3 = 0"
      "e max_path = Some v3" "v3 \<noteq> 0"
      using r1(4) r2(4) r3(4) assms(2) by auto
    show ?thesis
      by (rule that [of 0 "?i3\<lparr>fi_percentage := cdiv (fi_rpm ?i3 * 100) v3\<rparr>" w3])
        (simp_all add: unf fan_readable_def r3(2) v fan_status_bits)
  qed
qed

lemma oid_ints [oid_simps]:
  "oid_int 0x3000001 = 1" "oid_int 0x3000002 = 2" "oid_int 0x4000001 = 1" "oid_int 0x5000001 = 1"
  "oid_int 0x5000002 = 2" "oid_int 0x5000003 = 3" "oid_int 0x2000001 = 1" "oid_int 0x2000002 = 2"
  "oid_int 0x2000003 = 3" "oid_int 0x2000004 = 4" "oid_int 0x2000005 = 5"
  by (simp_all add: oid_int_def ONLP_OID_ID_GET_def)

lemma fan_oids_type: "oid \<in> {0x3000001, 0x3000002} \<Longrightarrow> ONLP_OID_IS_TYPE (ONLP_OID_TYPE FAN) oid"
  by (auto simp: ONLP_OID_IS_TYPE_def ONLP_OID_TYPE_GET_def)

lemma thermal_oids_type:
  "oid \<in> {0x2000001, 0x2000002, 0x2000003, 0x2000004, 0x2000005} \<Longrightarrow> ONLP_OID_IS_TYPE (ONLP_OID_TYPE THERMAL) oid"
  by (auto simp: ONLP_OID_IS_TYPE_def ONLP_OID_TYPE_GET_def)

lemma finfo_rd: "rd finfo 1 = Some (finfo ! 1)" "rd finfo 2 = Some (finfo ! 2)"
  by (simp_all add: rd_def finfo_def)

lemma finfo_status: "i \<in> {1, 2} \<Longrightarrow> fi_status (finfo ! i) = 0"
  by (auto simp: finfo_def chassis_fan_info_def)

lemma fan_info_get_reads:
  assumes "answers F val" and "e max_path \<noteq> Some 0" and "val w = e" and "oid \<in> {0x3000001, 0x3000002}"
  shows "\<exists>rc i w'. as4564_fani_info_get F oid z w = Some (rc, i, w') \<and> val w' = e
    \<and> (rc = 0 \<longleftrightarrow> fan_readable e (oid_int oid))
    \<and> (rc = 0 \<longrightarrow> has (fi_status i) ONLP_FAN_STATUS_PRESENT
        \<and> has (fi_status i) ONLP_FAN_STATUS_FAILED = (0 < the (e (fault_path (oid_int oid)))))
    \<and> fi_hdr i = fi_hdr (finfo ! nat (oid_int oid))"
proof -
  have i: "oid_int oid \<in> {1, 2}" using assms(4) oid_ints by auto
  have info: "as4564_fani_info_get F oid z w = onlp_fani_info_get_fan F (oid_int oid) (finfo ! nat (oid_int oid)) w"
    using i fan_oids_type [OF assms(4)] finfo_rd by (auto simp: as4564_fani_info_get_def)
  have "fi_status (finfo ! nat (oid_int oid)) = 0" using i finfo_status [of "nat (oid_int oid)"] by auto
  then show ?thesis unfolding info
    using fan_info_get_fan_reads [OF assms(1-3), of "oid_int oid" "finfo ! nat (oid_int oid)"] by (smt (verit))
qed

lemma thermal_info_get_reads:
  assumes "answers F val" and "val w = e" and "oid \<in> {0x2000001, 0x2000002, 0x2000003, 0x2000004, 0x2000005}"
  shows "\<exists>rc i w'. as4564_thermali_info_get F oid z w = Some (rc, i, w') \<and> val w' = e
    \<and> (rc = 0 \<longleftrightarrow> thermal_readable e (oid_int oid))
    \<and> (rc = 0 \<longrightarrow> ti_mcelsius i = the (e (thermal_path (oid_int oid))))
    \<and> ti_hdr i = ti_hdr (thermal_linfo ! nat (oid_int oid))"
proof -
  let ?i = "oid_int oid"
  have i: "nat ?i \<in> {1, 2, 3, 4, 5}" using assms(3) oid_ints by auto
  then have "\<exists>l. rd thermal_linfo (nat ?i) = Some l \<and> thermal_linfo ! nat ?i = l"
    and path: "rd thermal_devfiles (nat ?i) = Some (Some (thermal_path ?i))"
    by (auto simp: rd_def thermal_linfo_def thermal_devfiles_def thermal_path_def)
  then obtain l where l: "rd thermal_linfo (nat ?i) = Some l" "thermal_linfo ! nat ?i = l" by blast
  obtain rv x w' where r: "onlp_file_read_int F (ti_mcelsius l) [] (thermal_path ?i) w = Some (rv, x, w')" "val w' = e"
    "e (thermal_path ?i) = None \<longrightarrow> rv < 0" "\<forall>n. e (thermal_path ?i) = Some n \<longrightarrow> rv = 0 \<and> x = n"
    using answers_read [OF assms(1, 2), of "ti_mcelsius l" "thermal_path ?i"] by (elim exE conjE)
  have "as4564_thermali_info_get F oid z w = Some (rv, l\<lparr>ti_mcelsius := x\<rparr>, w')"
    using thermal_oids_type [OF assms(3)] l(1) path r(1) by (simp add: as4564_thermali_info_get_def)
  then show ?thesis
    using r l(2) by (cases "e (thermal_path ?i)") (simp_all add: thermal_readable_def)
qed

section \<open>Fan control\<close>

lemma read_infos_law:
  assumes "\<forall>oid \<in> set oids. \<forall>w. I w \<longrightarrow>
      (\<exists>rc i w'. get oid z w = Some (rc, i, w') \<and> I w' \<and> (rc = 0 \<longleftrightarrow> ok oid) \<and> (rc = 0 \<longrightarrow> Q oid i))"
    and "I w"
  shows "\<exists>rc is w'. read_infos get z oids w = Some (rc, is, w') \<and> I w' \<and> (rc = 0 \<longleftrightarrow> (\<forall>oid \<in> set oids. ok oid))
    \<and> (rc = 0 \<longrightarrow> list_all2 Q oids is)"
  using assms
proof (induction oids arbitrary: w)
  case Nil
  then show ?case by simp
next
  case (Cons oid oids)
  obtain rc i w1 where g: "get oid z w = Some (rc, i, w1)" "I w1" "rc = 0 \<longleftrightarrow> ok oid" "rc = 0 \<longrightarrow> Q oid i"
    using Cons.prems by auto
  obtain rc2 "is" w2 where "read_infos get z oids w1 = Some (rc2, is, w2)" "I w2"
    "rc2 = 0 \<longleftrightarrow> (\<forall>oid \<in> set oids. ok oid)" "rc2 = 0 \<longrightarrow> list_all2 Q oids is"
    using Cons.IH [OF _ g(2)] Cons.prems(1) by auto
  then show ?case using g by (cases "rc = 0") simp_all
qed

text \<open>
  What the fan control is meant to do, on the attributes alone: half speed when something cannot be
  read, 60 when a fan has failed, and otherwise one step of a hysteresis between three speeds over
  the sum of the four board temperatures; \<open>duty\<close> is the current speed, if it can be read.
\<close>

definition sensors_ok :: "(string \<Rightarrow> int option) \<Rightarrow> bool" where
  "sensors_ok e \<longleftrightarrow> (\<forall>i \<in> {1, 2}. fan_readable e i) \<and> (\<forall>i \<in> {1, 2, 3, 4, 5}. thermal_readable e i)"

definition next_duty :: "bool \<Rightarrow> int \<Rightarrow> int option \<Rightarrow> int" where
  "next_duty failed sum4 duty =
     (if failed then 60
      else
        (case duty of
           None \<Rightarrow> 50
         | Some d \<Rightarrow>
             if d = 15 then (if sum4 \<ge> 133500 then 30 else 15)
             else if d = 30 then (if sum4 \<ge> 215000 then 50 else if sum4 \<le> 131000 then 15 else 30)
             else if d = 50 then (if sum4 \<le> 131000 then 15 else 50)
             else 30))"

definition duty_for :: "(string \<Rightarrow> int option) \<Rightarrow> int" where
  "duty_for e =
     (if \<not> sensors_ok e then 50
      else next_duty (\<exists>i \<in> {1, 2}. 0 < the (e (fault_path i)))
             (\<Sum>i \<leftarrow> [1, 2, 3, 4]. the (e (thermal_path i))) (e (pwm_path 1)))"

lemma pwm1_path: "FAN_SYSFS_PATH @ ''fan1_pwm'' = pwm_path 1"
proof -
  have "dec_string 1 = ''1''" by code_simp
  then show ?thesis by (simp add: fan_attr_path_def)
qed

lemma thermal_policy_duty:
  assumes "answers F val" and "val w = e" and "sum4 = sum_list (map ti_mcelsius (take 4 ti))"
  shows "\<exists>adjusted w1. sysi_fanctrl_thermal_sensor_policy F fi ti w =
      Some (adjusted, sysi_fanctrl_fan_set_duty F (next_duty False sum4 (e (pwm_path 1))) w1) \<and> val w1 = e"
proof -
  obtain rv d w1 where r: "onlp_file_read_int F 0 [] (pwm_path 1) w = Some (rv, d, w1)" "val w1 = e"
    "e (pwm_path 1) = None \<longrightarrow> rv < 0" "\<forall>n. e (pwm_path 1) = Some n \<longrightarrow> rv = 0 \<and> d = n"
    using answers_read [OF assms(1, 2), of 0 "pwm_path 1"] by (elim exE conjE)
  have "\<exists>adjusted. sysi_fanctrl_thermal_sensor_policy F fi ti w =
      Some (adjusted, sysi_fanctrl_fan_set_duty F (next_duty False sum4 (e (pwm_path 1))) w1)"
  proof (cases "e (pwm_path 1)")
    case None
    then show ?thesis using r(1, 3) by (auto simp: sysi_fanctrl_thermal_sensor_policy_def pwm1_path next_duty_def)
  next
    case (Some n)
    then have "rv = 0" "d = n" using r(4) by simp_all
    then show ?thesis
      using r(1) Some assms(3) by (auto simp: sysi_fanctrl_thermal_sensor_policy_def pwm1_path next_duty_def Let_def)
  qed
  then show ?thesis using r(2) by blast
qed

lemma fans_read:
  assumes "answers F val" and "e max_path \<noteq> Some 0" and "val w = e"
  shows "\<exists>rc fi w'. read_infos (as4564_fani_info_get F) z [0x3000001, 0x3000002] w = Some (rc, fi, w') \<and> val w' = e
    \<and> (rc = 0 \<longleftrightarrow> (\<forall>i \<in> {1, 2}. fan_readable e i))
    \<and> (rc = 0 \<longrightarrow> (\<forall>x \<in> set fi. has (fi_status x) ONLP_FAN_STATUS_PRESENT)
        \<and> (\<exists>x \<in> set fi. has (fi_status x) ONLP_FAN_STATUS_FAILED) = (\<exists>i \<in> {1, 2}. 0 < the (e (fault_path i))))"
proof -
  let ?oids = "[0x3000001, 0x3000002] :: onlp_oid_t list"
  let ?Q = "\<lambda>oid i. has (fi_status i) ONLP_FAN_STATUS_PRESENT
        \<and> has (fi_status i) ONLP_FAN_STATUS_FAILED = (0 < the (e (fault_path (oid_int oid))))"
  have step: "\<forall>oid \<in> set ?oids. \<forall>w. val w = e \<longrightarrow> (\<exists>rc i w'. as4564_fani_info_get F oid z w = Some (rc, i, w') \<and> val w' = e
      \<and> (rc = 0 \<longleftrightarrow> fan_readable e (oid_int oid)) \<and> (rc = 0 \<longrightarrow> ?Q oid i))"
  proof (intro ballI allI impI)
    fix oid w
    assume oid: "oid \<in> set ?oids" and start: "val w = e"
    have oid: "oid \<in> {0x3000001, 0x3000002}" using oid by simp
    obtain rc i w' where "as4564_fani_info_get F oid z w = Some (rc, i, w')" "val w' = e"
      "rc = 0 \<longleftrightarrow> fan_readable e (oid_int oid)" "rc = 0 \<longrightarrow> ?Q oid i"
      using fan_info_get_reads [where F = F and val = val and e = e and w = w and oid = oid and z = z, OF assms(1, 2) start oid] by (elim exE conjE)
    then show "\<exists>rc i w'. as4564_fani_info_get F oid z w = Some (rc, i, w') \<and> val w' = e
        \<and> (rc = 0 \<longleftrightarrow> fan_readable e (oid_int oid)) \<and> (rc = 0 \<longrightarrow> ?Q oid i)"
      by - (intro exI conjI, assumption+)
  qed
  obtain rc fi w' where r: "read_infos (as4564_fani_info_get F) z ?oids w = Some (rc, fi, w')" "val w' = e"
    "rc = 0 \<longleftrightarrow> (\<forall>oid \<in> set ?oids. fan_readable e (oid_int oid))" "rc = 0 \<longrightarrow> list_all2 ?Q ?oids fi"
    using read_infos_law [where I = "\<lambda>w. val w = e" and oids = ?oids and get = "as4564_fani_info_get F" and z = z
        and ok = "\<lambda>oid. fan_readable e (oid_int oid)" and Q = ?Q and w = w, OF step assms(3)]
    by (elim exE conjE)
  have "rc = 0 \<longleftrightarrow> (\<forall>i \<in> {1, 2}. fan_readable e i)" unfolding r(3) by (simp add: oid_simps)
  moreover have "(\<forall>x \<in> set fi. has (fi_status x) ONLP_FAN_STATUS_PRESENT)
        \<and> (\<exists>x \<in> set fi. has (fi_status x) ONLP_FAN_STATUS_FAILED) = (\<exists>i \<in> {1, 2}. 0 < the (e (fault_path i)))" if ok: "rc = 0"
  proof -
    obtain a b where "fi = [a, b]" "?Q 0x3000001 a" "?Q 0x3000002 b"
      using r(4) ok by (auto simp: list_all2_Cons1)
    then show ?thesis by (simp add: oid_simps)
  qed
  ultimately show ?thesis using r(1, 2) by simp
qed

lemma thermals_read:
  assumes "answers F val" and "val w = e"
  shows "\<exists>rc ti w'. read_infos (as4564_thermali_info_get F) z [0x2000001, 0x2000002, 0x2000003, 0x2000004, 0x2000005] w
      = Some (rc, ti, w') \<and> val w' = e
    \<and> (rc = 0 \<longleftrightarrow> (\<forall>i \<in> {1, 2, 3, 4, 5}. thermal_readable e i))
    \<and> (rc = 0 \<longrightarrow> sum_list (map ti_mcelsius (take 4 ti)) = (\<Sum>i \<leftarrow> [1, 2, 3, 4]. the (e (thermal_path i))))"
proof -
  let ?oids = "[0x2000001, 0x2000002, 0x2000003, 0x2000004, 0x2000005] :: onlp_oid_t list"
  let ?Q = "\<lambda>oid i. ti_mcelsius i = the (e (thermal_path (oid_int oid)))"
  have step: "\<forall>oid \<in> set ?oids. \<forall>w. val w = e \<longrightarrow> (\<exists>rc i w'. as4564_thermali_info_get F oid z w = Some (rc, i, w') \<and> val w' = e
      \<and> (rc = 0 \<longleftrightarrow> thermal_readable e (oid_int oid)) \<and> (rc = 0 \<longrightarrow> ?Q oid i))"
  proof (intro ballI allI impI)
    fix oid w
    assume oid: "oid \<in> set ?oids" and start: "val w = e"
    have oid: "oid \<in> {0x2000001, 0x2000002, 0x2000003, 0x2000004, 0x2000005}" using oid by simp
    obtain rc i w' where "as4564_thermali_info_get F oid z w = Some (rc, i, w')" "val w' = e"
      "rc = 0 \<longleftrightarrow> thermal_readable e (oid_int oid)" "rc = 0 \<longrightarrow> ?Q oid i"
      using thermal_info_get_reads [where F = F and val = val and e = e and w = w and oid = oid and z = z, OF assms(1) start oid] by (elim exE conjE)
    then show "\<exists>rc i w'. as4564_thermali_info_get F oid z w = Some (rc, i, w') \<and> val w' = e
        \<and> (rc = 0 \<longleftrightarrow> thermal_readable e (oid_int oid)) \<and> (rc = 0 \<longrightarrow> ?Q oid i)"
      by - (intro exI conjI, assumption+)
  qed
  obtain rc ti w' where r: "read_infos (as4564_thermali_info_get F) z ?oids w = Some (rc, ti, w')" "val w' = e"
    "rc = 0 \<longleftrightarrow> (\<forall>oid \<in> set ?oids. thermal_readable e (oid_int oid))" "rc = 0 \<longrightarrow> list_all2 ?Q ?oids ti"
    using read_infos_law [where I = "\<lambda>w. val w = e" and oids = ?oids and get = "as4564_thermali_info_get F" and z = z
        and ok = "\<lambda>oid. thermal_readable e (oid_int oid)" and Q = ?Q and w = w, OF step assms(2)]
    by (elim exE conjE)
  have "rc = 0 \<longleftrightarrow> (\<forall>i \<in> {1, 2, 3, 4, 5}. thermal_readable e i)" unfolding r(3) by (simp add: oid_simps)
  moreover have "sum_list (map ti_mcelsius (take 4 ti)) = (\<Sum>i \<leftarrow> [1, 2, 3, 4]. the (e (thermal_path i)))" if ok: "rc = 0"
  proof -
    obtain a b c d x where "ti = [a, b, c, d, x]" "?Q 0x2000001 a" "?Q 0x2000002 b" "?Q 0x2000003 c" "?Q 0x2000004 d"
      using r(4) ok by (auto simp: list_all2_Cons1)
    then show ?thesis by (simp add: oid_simps)
  qed
  ultimately show ?thesis using r(1, 2) by simp
qed

lemma manage_fans_follows_duty:
  assumes "answers F val" and "val w max_path \<noteq> Some 0"
  shows "\<exists>rv w1. as4564_platform_manage_fans F w = Some (rv, snd (sysi_fanctrl_fan_set_duty F (duty_for (val w)) w1))
    \<and> val w1 = val w \<and> (\<not> sensors_ok (val w) \<longrightarrow> rv = ONLP_STATUS_E_INTERNAL)"
proof -
  let ?e = "val w"
  obtain rc fi w1 where f: "read_infos (as4564_fani_info_get F) (hd finfo) [0x3000001, 0x3000002] w = Some (rc, fi, w1)"
    "val w1 = ?e" "rc = 0 \<longleftrightarrow> (\<forall>i \<in> {1, 2}. fan_readable ?e i)"
    "rc = 0 \<longrightarrow> (\<forall>x \<in> set fi. has (fi_status x) ONLP_FAN_STATUS_PRESENT)
        \<and> (\<exists>x \<in> set fi. has (fi_status x) ONLP_FAN_STATUS_FAILED) = (\<exists>i \<in> {1, 2}. 0 < the (?e (fault_path i)))"
    using fans_read [where F = F and val = val and e = ?e and w = w and z = "hd finfo", OF assms refl] by (elim exE conjE)
  obtain rc2 ti w2 where t: "read_infos (as4564_thermali_info_get F) (hd thermal_linfo)
      [0x2000001, 0x2000002, 0x2000003, 0x2000004, 0x2000005] w1 = Some (rc2, ti, w2)"
    "val w2 = ?e" "rc2 = 0 \<longleftrightarrow> (\<forall>i \<in> {1, 2, 3, 4, 5}. thermal_readable ?e i)"
    "rc2 = 0 \<longrightarrow> sum_list (map ti_mcelsius (take 4 ti)) = (\<Sum>i \<leftarrow> [1, 2, 3, 4]. the (?e (thermal_path i)))"
    using thermals_read [where F = F and val = val and e = ?e and w = w1 and z = "hd thermal_linfo", OF assms(1) f(2)] by (elim exE conjE)
  note unf = as4564_platform_manage_fans_def oid_simps f(1) t(1)
  show ?thesis
  proof (cases "rc = 0 \<and> rc2 = 0")
    case False
    then have "\<not> sensors_ok ?e" using f(3) t(3) by (auto simp: sensors_ok_def)
    then show ?thesis using False f(2) t(2) by (auto simp: unf duty_for_def simp del: read_infos.simps)
  next
    case True
    then have ok: "sensors_ok ?e" using f(3) t(3) by (auto simp: sensors_ok_def)
    let ?failed = "\<exists>i \<in> {1, 2}. 0 < the (?e (fault_path i))"
    have fl: "(\<exists>x \<in> set fi. has (fi_status x) ONLP_FAN_STATUS_FAILED) \<longleftrightarrow> ?failed"
      "\<forall>x \<in> set fi. has (fi_status x) ONLP_FAN_STATUS_PRESENT"
      using True f(4) by blast+
    have sum4: "(\<Sum>i \<leftarrow> [1, 2, 3, 4]. the (?e (thermal_path i))) = sum_list (map ti_mcelsius (take 4 ti))"
      using True t(4) by simp
    have "\<exists>rv w3. as4564_platform_manage_fans F w =
        Some (rv, snd (sysi_fanctrl_fan_set_duty F (duty_for ?e) w3)) \<and> val w3 = ?e"
    proof (cases ?failed)
      case failed: True
      then have "duty_for ?e = 60" "\<exists>x \<in> set fi. has (fi_status x) ONLP_FAN_STATUS_FAILED"
        using ok fl(1) by (simp_all add: duty_for_def next_duty_def)
      then have "as4564_platform_manage_fans F w = Some (sysi_fanctrl_fan_set_duty F (duty_for ?e) w2)"
        using True
        by (simp add: unf fan_control_policies_def sysi_fanctrl_fan_status_policy_def del: read_infos.simps)
      then show ?thesis using t(2) by (intro exI [of _ "fst (sysi_fanctrl_fan_set_duty F (duty_for ?e) w2)"] exI [of _ w2]) simp
    next
      case False
      then have d: "duty_for ?e = next_duty False (\<Sum>i \<leftarrow> [1, 2, 3, 4]. the (?e (thermal_path i))) (?e (pwm_path 1))"
        and ff: "\<not> (\<exists>x \<in> set fi. has (fi_status x) ONLP_FAN_STATUS_FAILED)"
        using ok fl(1) by (auto simp: duty_for_def)
      obtain adjusted w3 where p: "sysi_fanctrl_thermal_sensor_policy F fi ti w2 =
          Some (adjusted, sysi_fanctrl_fan_set_duty F (duty_for ?e) w3)" "val w3 = ?e"
        using thermal_policy_duty [where F = F and val = val and e = ?e and w = w2 and fi = fi, OF assms(1) t(2) sum4] d
        by auto
      obtain rv w4 where s: "sysi_fanctrl_fan_set_duty F (duty_for ?e) w3 = (rv, w4)" by fastforce
      have "as4564_platform_manage_fans F w = Some (if adjusted then rv else 0, w4)"
        using True ff fl(2) p(1) s
        by (simp add: unf fan_control_policies_def sysi_fanctrl_fan_status_policy_def del: read_infos.simps)
      then show ?thesis using p(2) s by (intro exI [of _ "if adjusted then rv else 0"] exI [of _ w3]) simp
    qed
    then show ?thesis using ok by auto
  qed
qed


text \<open>The duty that can be set is the one that is shown afterwards, and nothing else changes.\<close>

definition keeps_duty :: "'w fs \<Rightarrow> ('w \<Rightarrow> string \<Rightarrow> int option) \<Rightarrow> bool" where
  "keeps_duty F val \<longleftrightarrow>
     (\<forall>i d w. i \<in> {1, 2} \<longrightarrow> val w (pwm_path i) \<noteq> None \<longrightarrow> 10 \<le> d \<longrightarrow> d \<le> 100 \<longrightarrow>
        (\<exists>w'. onlp_file_write_int F d (pwm_path i) w = (0, w') \<and> val w' = (val w)(pwm_path i \<mapsto> d)))"

lemma set_duty_keeps:
  assumes "keeps_duty F val" and "10 \<le> d" and "d \<le> 100"
    and "val w (pwm_path 1) \<noteq> None" and "val w (pwm_path 2) \<noteq> None"
  shows "\<exists>w'. sysi_fanctrl_fan_set_duty F d w = (0, w') \<and> val w' = (val w)(pwm_path 1 \<mapsto> d, pwm_path 2 \<mapsto> d)"
proof -
  obtain w1 where w1: "onlp_file_write_int F d (pwm_path 1) w = (0, w1)" "val w1 = (val w)(pwm_path 1 \<mapsto> d)"
    using assms unfolding keeps_duty_def by (metis insertI1)
  have "val w1 (pwm_path 2) \<noteq> None" using w1(2) assms(5) by simp
  then obtain w2 where w2: "onlp_file_write_int F d (pwm_path 2) w1 = (0, w2)" "val w2 = (val w1)(pwm_path 2 \<mapsto> d)"
    using assms unfolding keeps_duty_def by (metis insertI1 insertI2)
  have "ONLP_OID_IS_TYPE (ONLP_OID_TYPE FAN) 0x3000001" "ONLP_OID_IS_TYPE (ONLP_OID_TYPE FAN) 0x3000002"
    using fan_oids_type [of "0x3000001"] fan_oids_type [of "0x3000002"] by simp_all
  then show ?thesis
    using w1 w2 assms(2)
    by (simp add: sysi_fanctrl_fan_set_duty_def oid_simps as4564_fani_percentage_set_def onlp_fani_set_fan_attr_int_def)
qed

lemma dec_string_12 [simp]: "dec_string 1 = ''1''" "dec_string 2 = ''2''"
  by code_simp+

lemma pwm_paths_apart:
  "i \<in> {1, 2} \<Longrightarrow> j \<in> {1, 2} \<Longrightarrow> fault_path i \<noteq> pwm_path j"
  "i \<in> {1, 2} \<Longrightarrow> j \<in> {1, 2} \<Longrightarrow> input_path i \<noteq> pwm_path j"
  "j \<in> {1, 2} \<Longrightarrow> max_path \<noteq> pwm_path j" "pwm_path 1 \<noteq> pwm_path 2"
  "i \<in> {1, 2, 3, 4, 5} \<Longrightarrow> j \<in> {1, 2} \<Longrightarrow> thermal_path i \<noteq> pwm_path j"
  by (auto simp: fan_attr_path_def FAN_SYSFS_PATH_def thermal_path_def thermal_devfiles_def)

lemma duty_for_set:
  "duty_for (e(pwm_path 1 := a, pwm_path 2 := b)) =
     (if \<not> sensors_ok e then 50
      else next_duty (\<exists>i \<in> {1, 2}. 0 < the (e (fault_path i))) (\<Sum>i \<leftarrow> [1, 2, 3, 4]. the (e (thermal_path i))) a)"
proof -
  let ?e = "e(pwm_path 1 := a, pwm_path 2 := b)"
  have apart: "?e (fault_path i) = e (fault_path i)" "?e (input_path i) = e (input_path i)" if "i \<in> {1, 2}" for i
    using pwm_paths_apart(1,2) [OF that] by simp_all
  have "?e max_path = e max_path" using pwm_paths_apart(3) by simp
  moreover have th: "?e (thermal_path i) = e (thermal_path i)" if "i \<in> {1, 2, 3, 4, 5}" for i
    using pwm_paths_apart(5) [OF that] by simp
  ultimately have "sensors_ok ?e = sensors_ok e"
    using apart by (simp add: sensors_ok_def fan_readable_def thermal_readable_def)
  moreover have "?e (pwm_path 1) = a" using pwm_paths_apart(4) by simp
  ultimately show ?thesis using apart th by (simp add: duty_for_def)
qed

lemma next_duty_range: "10 \<le> next_duty f s d \<and> next_duty f s d \<le> 100"
  by (auto simp: next_duty_def split: option.splits)

lemma next_duty_settles:
  "next_duty f s (Some (next_duty f s (Some (next_duty f s d)))) = next_duty f s (Some (next_duty f s d))"
  by (cases d) (simp_all add: next_duty_def)

lemma manage_fans_pass:
  assumes "answers F val" and "keeps_duty F val" and "val w max_path \<noteq> Some 0"
    and "val w (pwm_path 1) \<noteq> None" and "val w (pwm_path 2) \<noteq> None"
  shows "\<exists>rv w'. as4564_platform_manage_fans F w = Some (rv, w')
    \<and> val w' = (val w)(pwm_path 1 \<mapsto> duty_for (val w), pwm_path 2 \<mapsto> duty_for (val w))"
proof -
  have "10 \<le> duty_for (val w)" "duty_for (val w) \<le> 100"
    using next_duty_range by (simp_all add: duty_for_def)
  then show ?thesis
    using manage_fans_follows_duty [where F = F and val = val and w = w, OF assms(1, 3)]
      set_duty_keeps [where F = F and val = val and d = "duty_for (val w)", OF assms(2)] assms(4, 5)
    by (metis snd_conv)
qed

text \<open>
  C31: The fan control settles. When the fan driver keeps the duty it is given and the sensors go on
  showing the same, then from any state the second pass brings both fans to one speed that
  no later pass changes.
\<close>

theorem manage_fans_settles:
  assumes "answers F val" and "keeps_duty F val" and "val w max_path \<noteq> Some 0"
    and "val w (pwm_path 1) \<noteq> None" and "val w (pwm_path 2) \<noteq> None"
  shows "\<exists>r1 w1 r2 w2 r3 w3 d. as4564_platform_manage_fans F w = Some (r1, w1)
    \<and> as4564_platform_manage_fans F w1 = Some (r2, w2) \<and> as4564_platform_manage_fans F w2 = Some (r3, w3)
    \<and> val w2 (pwm_path 1) = Some d \<and> val w2 (pwm_path 2) = Some d \<and> val w3 = val w2"
proof -
  let ?e = "val w"
  let ?N = "\<lambda>d. if \<not> sensors_ok ?e then 50 else next_duty (\<exists>i \<in> {1, 2}. 0 < the (?e (fault_path i)))
      (\<Sum>i \<leftarrow> [1, 2, 3, 4]. the (?e (thermal_path i))) d"
  have pass: "\<exists>rv w'. as4564_platform_manage_fans F u = Some (rv, w')
      \<and> val w' = ?e(pwm_path 1 \<mapsto> ?N (Some x), pwm_path 2 \<mapsto> ?N (Some x))"
    if u: "val u = ?e(pwm_path 1 \<mapsto> x, pwm_path 2 \<mapsto> x)" for u x
  proof -
    have "val u max_path \<noteq> Some 0" using assms(3) pwm_paths_apart(3) by (simp add: u)
    moreover have "val u (pwm_path 1) \<noteq> None" "val u (pwm_path 2) \<noteq> None" by (simp_all add: u)
    ultimately show ?thesis
      using manage_fans_pass [where F = F and val = val and w = u, OF assms(1, 2)] duty_for_set [of ?e "Some x" "Some x"]
      unfolding u by (simp add: fun_upd_twist [OF pwm_paths_apart(4)])
  qed
  let ?d1 = "duty_for ?e"
  obtain r1 w1 where w1: "as4564_platform_manage_fans F w = Some (r1, w1)"
    "val w1 = ?e(pwm_path 1 \<mapsto> ?d1, pwm_path 2 \<mapsto> ?d1)"
    using manage_fans_pass [where F = F and val = val and w = w, OF assms] by blast
  let ?d2 = "?N (Some ?d1)"
  obtain r2 w2 where w2: "as4564_platform_manage_fans F w1 = Some (r2, w2)"
    "val w2 = ?e(pwm_path 1 \<mapsto> ?d2, pwm_path 2 \<mapsto> ?d2)"
    using pass [where u = w1 and x = ?d1, OF w1(2)] by blast
  obtain r3 w3 where w3: "as4564_platform_manage_fans F w2 = Some (r3, w3)"
    "val w3 = ?e(pwm_path 1 \<mapsto> ?N (Some ?d2), pwm_path 2 \<mapsto> ?N (Some ?d2))"
    using pass [where u = w2 and x = ?d2, OF w2(2)] by blast
  have "?N (Some ?d2) = ?d2"
    using next_duty_settles by (simp add: duty_for_def)
  then show ?thesis
    using w1(1) w2 w3 pwm_paths_apart(4) by simp
qed

section \<open>A simulated sysfs\<close>

text \<open>
  Attributes hold a 32-bit number, print it in decimal and take one; a directory that is searched has
  the file at once. The second component is the name opened last.
\<close>

definition print_num :: "int \<Rightarrow> u8 list" where
  "print_num v = dec_int v @ [0x0A]"

type_synonym sysfs = "(string \<Rightarrow> u32 option) \<times> string"

definition sysfs_fs :: "sysfs fs" where
  "sysfs_fs =
     \<lparr> fs_stat = (\<lambda>p (a, _). map_option (\<lambda>_. (False, 4096)) (a p)),
       fs_open = (\<lambda>p fl (a, _). (if a p = None then -1 else 3, (a, p))),
       fs_socket = (\<lambda>w. (-1, w)),
       fs_connect = (\<lambda>fd p w. (-1, w)),
       fs_read = (\<lambda>fd mx (a, p).
         case a p of None \<Rightarrow> (-1, [], (a, p))
         | Some v \<Rightarrow> (let bs = take mx (print_num (sint v)) in (int (length bs), bs, (a, p)))),
       fs_write = (\<lambda>fd d (a, p).
         case atoi d of Some v \<Rightarrow> (int (length d), (a(p \<mapsto> word_of_int v), p)) | None \<Rightarrow> (-1, (a, p))),
       fs_close = (\<lambda>fd w. w),
       fs_walk = (\<lambda>root w. Some [(''temp1_input'', root @ ''/temp1_input'')]) \<rparr>"

text \<open>The file behind a name with an asterisk, and the attributes a state shows.\<close>

definition resolve :: "string \<Rightarrow> string option" where
  "resolve p =
     (let p = take 4094 p in
      if CHR ''*'' \<in> set p then
        (if tl (dropWhile (\<lambda>c. c \<noteq> CHR ''*'') p) = ''temp1_input''
         then Some (takeWhile (\<lambda>c. c \<noteq> CHR ''*'') p @ ''/temp1_input'') else None)
      else Some p)"

definition sysfs_val :: "sysfs \<Rightarrow> string \<Rightarrow> int option" where
  "sysfs_val w p = (case resolve p of None \<Rightarrow> None | Some q \<Rightarrow> map_option sint (fst w q))"

lemma print_num_fits: "length (print_num (sint (v :: u32))) \<le> 12"
proof -
  have "- (2 ^ 31) \<le> sint v" "sint v < 2 ^ 31" using sint_ge [of v] sint_lt [of v] by simp_all
  from length_dec_int [OF this] show ?thesis by (simp add: print_num_def)
qed

lemma atoi_print_num: "atoi (print_num v @ r) = Some v"
  using atoi_dec_int [of "0x0A" v r] by (simp add: print_num_def is_digit_def)

lemma sysfs_vopen:
  "vopen sysfs_fs Null fl p w =
     (case resolve p of
        None \<Rightarrow> (ONLP_STATUS_E_MISSING, Null, w)
      | Some q \<Rightarrow> if fst w q = None then (ONLP_STATUS_E_MISSING, Str q, w) else (3, Str q, (fst w, q)))"
  by (cases w) (auto simp: vopen_def resolve_def onlp_file_find_def sysfs_fs_def Let_def split: if_splits)

lemma sysfs_answers: "answers sysfs_fs sysfs_val"
  unfolding answers_def
proof (intro allI)
  fix p v and w :: sysfs
  show "\<exists>rv x w'. onlp_file_read_int sysfs_fs v [] p w = Some (rv, x, w') \<and> sysfs_val w' = sysfs_val w \<and>
      (case sysfs_val w p of None \<Rightarrow> rv < 0 \<and> x = v | Some n \<Rightarrow> rv = 0 \<and> x = n)"
  proof (cases "sysfs_val w p")
    case None
    then have "fst (vopen sysfs_fs Null O_RDONLY p w) = ONLP_STATUS_E_MISSING"
      and "sysfs_val (snd (snd (vopen sysfs_fs Null O_RDONLY p w))) = sysfs_val w"
      by (auto simp: sysfs_vopen sysfs_val_def split: option.splits)
    then show ?thesis
      using None by (auto simp: onlp_file_read_int_def onlp_file_vread_int_def onlp_file_vread_def split: prod.splits)
  next
    case (Some n)
    then obtain q u where q: "resolve p = Some q" "fst w q = Some u" "n = sint u"
      by (auto simp: sysfs_val_def split: option.splits)
    have "take 32 (print_num (sint u)) = print_num (sint u)" using print_num_fits [of u] by simp
    then have "onlp_file_read_int sysfs_fs v [] p w = Some (0, n, (fst w, q))"
      using q atoi_print_num [of "sint u"]
      by (simp add: onlp_file_read_int_def onlp_file_vread_int_def onlp_file_vread_def sysfs_vopen)
        (simp add: sysfs_fs_def print_num_def)
    moreover have "sysfs_val (fst w, q) = sysfs_val w"
      by (rule ext) (simp add: sysfs_val_def split: option.split)
    ultimately show ?thesis using Some by simp
  qed
qed

lemma sysfs_write:
  assumes "resolve p = Some q" and "fst w q \<noteq> None" and "- (2 ^ 31) \<le> d" and "d < 2 ^ 31"
  shows "onlp_file_write_int sysfs_fs d p w = (0, ((fst w)(q \<mapsto> word_of_int d), q))"
proof -
  have str: "takeWhile (\<lambda>b. b \<noteq> 0) (dec_int d) = dec_int d"
    using dec_int_nonzero [of d] by (auto simp: takeWhile_eq_all_conv)
  have "atoi (dec_int d @ [0]) = Some d"
    using atoi_dec_int [of 0 d "[]"] by (simp add: is_digit_def)
  then show ?thesis
    unfolding onlp_file_write_int_def onlp_file_vwrite_int_def onlp_file_vwrite_str_def str
    using assms(1, 2) by (simp add: onlp_file_vwrite_def sysfs_vopen) (simp add: sysfs_fs_def)
qed

text \<open>A board at 21 degrees per sensor, the fans at half speed.\<close>

definition board :: sysfs where
  "board = ([pwm_path 1 \<mapsto> 50, pwm_path 2 \<mapsto> 50, fault_path 1 \<mapsto> 0, fault_path 2 \<mapsto> 0, input_path 1 \<mapsto> 5000,
      input_path 2 \<mapsto> 5100, max_path \<mapsto> 10670,
      ''/sys/bus/i2c/devices/1-0048/temp1_input'' \<mapsto> 21000, ''/sys/bus/i2c/devices/1-0049/temp1_input'' \<mapsto> 21000,
      ''/sys/bus/i2c/devices/1-004b/temp1_input'' \<mapsto> 21000, ''/sys/bus/i2c/devices/1-004c/temp1_input'' \<mapsto> 21000,
      ''/sys/devices/platform/as4564_thermal/temp1_input'' \<mapsto> 21000], [])"

lemma board_values:
  "sysfs_val board (pwm_path 1) = Some 50" "sysfs_val board (fault_path 1) = Some 0" "sysfs_val board (fault_path 2) = Some 0"
  "sysfs_val board (input_path 1) \<noteq> None" "sysfs_val board (input_path 2) \<noteq> None" "sysfs_val board max_path = Some 10670"
  "i \<in> {1, 2, 3, 4, 5} \<Longrightarrow> sysfs_val board (thermal_path i) = Some 21000"
  by (auto simp: sysfs_val_def resolve_def board_def fan_attr_path_def FAN_SYSFS_PATH_def thermal_path_def thermal_devfiles_def)

lemma board_duty: "duty_for (sysfs_val board) = 15"
  using board_values
  by (simp add: duty_for_def sensors_ok_def fan_readable_def thermal_readable_def next_duty_def)


lemma sysfs_keeps_duty: "keeps_duty sysfs_fs sysfs_val"
  unfolding keeps_duty_def
proof (intro allI impI)
  fix i d :: int and w :: sysfs
  assume i: "i \<in> {1, 2}" and v: "sysfs_val w (pwm_path i) \<noteq> None" and d: "10 \<le> d" "d \<le> 100"
  have r: "resolve (pwm_path i) = Some (pwm_path i)"
    using i by (auto simp: resolve_def fan_attr_path_def FAN_SYSFS_PATH_def)
  have "onlp_file_write_int sysfs_fs d (pwm_path i) w = (0, ((fst w)(pwm_path i \<mapsto> word_of_int d), pwm_path i))"
    using sysfs_write [OF r] v r d by (simp add: sysfs_val_def)
  moreover have "sysfs_val ((fst w)(pwm_path i \<mapsto> word_of_int d), pwm_path i) = (sysfs_val w)(pwm_path i \<mapsto> d)"
  proof (rule ext)
    fix p
    have "sint (word_of_int d :: u32) = d"
      using d by (simp add: sint_sbintrunc' signed_take_bit_int_eq_self)
    moreover have "p = pwm_path i" if res: "resolve p = Some (pwm_path i)"
    proof -
      have last: "last (pwm_path i) = CHR ''m''" "length (pwm_path i) < 4094"
        using i by (auto simp: fan_attr_path_def FAN_SYSFS_PATH_def)
      have "x @ ''/temp1_input'' \<noteq> pwm_path i" for x
      proof
        assume "x @ ''/temp1_input'' = pwm_path i"
        from arg_cong [OF this, of last] last(1) show False by simp
      qed
      have "CHR ''*'' \<notin> set (take 4094 p)"
      proof
        assume star: "CHR ''*'' \<in> set (take 4094 p)"
        let ?q = "takeWhile (\<lambda>c. c \<noteq> CHR ''*'') (take 4094 p) @ ''/temp1_input''"
        from star res have "?q = pwm_path i"
          unfolding resolve_def Let_def by (simp only: if_True option.distinct option.inject split: if_splits)
        then show False using \<open>\<And>x. x @ ''/temp1_input'' \<noteq> pwm_path i\<close> by blast
      qed
      then have "take 4094 p = pwm_path i" using res by (simp add: resolve_def Let_def)
      moreover have "length p < 4094" 
      proof (rule ccontr)
        assume "\<not> length p < 4094"
        then have "length (take 4094 p) = 4094" by simp
        then show False using last(2) unfolding \<open>take 4094 p = pwm_path i\<close> by simp
      qed
      ultimately show ?thesis by simp
    qed
    ultimately show "sysfs_val ((fst w)(pwm_path i \<mapsto> word_of_int d), pwm_path i) p = ((sysfs_val w)(pwm_path i \<mapsto> d)) p"
      using r by (auto simp: sysfs_val_def split: option.splits)
  qed
  ultimately show "\<exists>w'. onlp_file_write_int sysfs_fs d (pwm_path i) w = (0, w') \<and> sysfs_val w' = (sysfs_val w)(pwm_path i \<mapsto> d)"
    by blast
qed

theorem manage_fans_settles_witness:
  "\<exists>r1 w1 r2 w2 r3 w3 d. as4564_platform_manage_fans sysfs_fs board = Some (r1, w1)
    \<and> as4564_platform_manage_fans sysfs_fs w1 = Some (r2, w2) \<and> as4564_platform_manage_fans sysfs_fs w2 = Some (r3, w3)
    \<and> sysfs_val w2 (pwm_path 1) = Some d \<and> sysfs_val w2 (pwm_path 2) = Some d \<and> sysfs_val w3 = sysfs_val w2"
proof (rule manage_fans_settles [OF sysfs_answers sysfs_keeps_duty])
  show "sysfs_val board (pwm_path 2) \<noteq> None"
    by (simp add: sysfs_val_def resolve_def board_def fan_attr_path_def FAN_SYSFS_PATH_def)
qed (use board_values(1, 6) in simp_all)

end
