(* ===== verification/As4564System.thy ===== *)
theory As4564System
  imports As4564Props As4564Kernel SfpProps
begin

text \<open>
  The AS4564-26P as a whole: what ONLP's walk over the OIDs visits on it, what its information calls
  say about the OIDs it reports, and the presence of transceivers from the register of the CPLD
  to ONLP's bitmap.
\<close>

section \<open>The OIDs the platform reports\<close>

lemma as4564_oids_eq:
  "as4564_oids = [0x2000001, 0x2000002, 0x2000003, 0x2000004, 0x2000005, 0x5000001, 0x5000002, 0x5000003,
     0x4000001, 0x3000001, 0x3000002]"
  by (simp add: as4564_oids_def oid_simps)

lemma as4564_oids_table:
  "as4564_oids_get (replicate 128 0) 128 w = Some (0, as4564_oids @ replicate 117 0, w)"
  by (simp add: as4564_oids_get_def as4564_oids_eq)

lemma ITER_zeros [simp]: "ONLP_OID_TABLE_ITER (replicate n 0) = []"
  by (simp add: ONLP_OID_TABLE_ITER_def take_replicate filter_replicate)

lemma ITER_as4564: "ONLP_OID_TABLE_ITER (as4564_oids @ replicate 117 0) = as4564_oids"
proof -
  have "filter (\<lambda>oid. oid \<noteq> 0) as4564_oids = as4564_oids" by (simp add: as4564_oids_eq)
  moreover have "take 128 (as4564_oids @ replicate 117 0) = as4564_oids @ replicate 117 0"
    by (rule take_all) (simp add: as4564_oids_eq)
  ultimately show ?thesis by (simp add: ONLP_OID_TABLE_ITER_def filter_replicate)
qed

lemma hdr_of_coids [simp]: "oid_coids (hdr_of ty i d) = replicate 128 0"
  by (simp add: hdr_of_def oid_hdr_zero_def)

lemma table_coids:
  "i \<in> {1, 2, 3, 4, 5} \<Longrightarrow> oid_coids (ti_hdr (thermal_linfo ! nat i)) = replicate 128 0"
  "i \<in> {1, 2} \<Longrightarrow> oid_coids (fi_hdr (finfo ! nat i)) = replicate 128 0"
  by (auto simp: thermal_linfo_def thermal_entry_def finfo_def chassis_fan_info_def)

lemma oid_classes [oid_simps]:
  "oid_class 0x2000001 = Some THERMAL" "oid_class 0x2000002 = Some THERMAL" "oid_class 0x2000003 = Some THERMAL"
  "oid_class 0x2000004 = Some THERMAL" "oid_class 0x2000005 = Some THERMAL" "oid_class 0x3000001 = Some FAN"
  "oid_class 0x3000002 = Some FAN" "oid_class 0x4000001 = Some PSU" "oid_class 0x5000001 = Some LED"
  "oid_class 0x5000002 = Some LED" "oid_class 0x5000003 = Some LED"
  by (simp_all add: oid_class_def ONLP_OID_TYPE_GET_def)

text \<open>A state whose lock is free and whose attributes are \<open>e\<close>.\<close>

definition reads_as :: "('w \<Rightarrow> string \<Rightarrow> int option) \<Rightarrow> (string \<Rightarrow> int option) \<Rightarrow> shlock option \<times> 'w option \<Rightarrow> bool" where
  "reads_as val e s \<longleftrightarrow> sh_free (fst s) \<and> (\<exists>w. snd s = Some w \<and> val w = e)"

text \<open>The locked call succeeds and reports these children.\<close>

lemma locked_reports:
  assumes "reads_as val e s"
    and "\<And>w. val w = e \<Longrightarrow> \<exists>h' w'. f (Some w) = (0, h', Some w') \<and> val w' = e \<and> ONLP_OID_TABLE_ITER (oid_coids h') = kids"
  shows "\<exists>h' s'. locked_api (shared_alock me) api (total2 f) s = Some ((0, h'), s') \<and> reads_as val e s'
    \<and> ONLP_OID_TABLE_ITER (oid_coids h') = kids"
proof -
  obtain w where w: "snd s = Some w" "val w = e" and free: "sh_free (fst s)"
    using assms(1) by (auto simp: reads_as_def)
  then obtain h' w' where f: "f (Some w) = (0, h', Some w')" "val w' = e" "ONLP_OID_TABLE_ITER (oid_coids h') = kids"
    using assms(2) by blast
  have good: "shl.good s" using free by (simp add: shl.good_def)
  have "locked_api (shared_alock me) api (total2 f) s = Some ((0, h'), shl.after me api (fst s), Some w')"
    using shl.locked_total2 [OF good, of "shared_alock me" me api f] f(1) w(1) by (simp add: shared_alock_def)
  then show ?thesis
    using f(2,3) shl.after_good(2) [of "fst s" me api] free by (auto simp: reads_as_def)
qed

lemma as4564_hdrs:
  assumes "answers F val" and "sensors_ok e" and "e max_path \<noteq> Some 0" and "reads_as val e s"
    and "oid \<in> set as4564_oids"
  shows "\<exists>h' s'. onlp_oid_hdr_get (shared_alock me) (as4564_platform F push C J) oid h s = Some ((0, h'), s')
    \<and> reads_as val e s' \<and> ONLP_OID_TABLE_ITER (oid_coids h') = []"
proof -
  let ?P = "as4564_platform F push C J"
  consider "oid \<in> {0x2000001, 0x2000002, 0x2000003, 0x2000004, 0x2000005}" | "oid \<in> {0x5000001, 0x5000002, 0x5000003}"
    | "oid = 0x4000001" | "oid \<in> {0x3000001, 0x3000002}"
    using assms(5) by (auto simp: as4564_oids_eq)
  then show ?thesis
  proof cases
    case 1
    then have cls: "oid_class oid = Some THERMAL" and i: "oid_int oid \<in> {1, 2, 3, 4, 5}" by (auto simp: oid_simps)
    have ok: "thermal_readable e (oid_int oid)" using assms(2) i by (auto simp: sensors_ok_def)
    have "\<exists>h' w'. onlp_thermal_hdr_get_locked ?P oid h (Some w) = (0, h', Some w') \<and> val w' = e
        \<and> ONLP_OID_TABLE_ITER (oid_coids h') = []" if w: "val w = e" for w
    proof -
      obtain rc j w' where "as4564_thermali_info_get F oid (junk_thermal (uninit ?P) (Some w)) w = Some (rc, j, w')"
        "val w' = e" "rc = 0" "ti_hdr j = ti_hdr (thermal_linfo ! nat (oid_int oid))"
        using thermal_info_get_reads [where F = F and val = val and e = e and w = w and oid = oid
            and z = "junk_thermal (uninit ?P) (Some w)", OF assms(1) w 1] ok by auto
      then show ?thesis
        using table_coids(1) [OF i]
        by (simp add: onlp_thermal_hdr_get_locked_def drv_simps guarded_def)
    qed
    then have "\<exists>h' s'. locked_api (shared_alock me) ''onlp_thermal_hdr_get'' (total2 (onlp_thermal_hdr_get_locked ?P oid h)) s
        = Some ((0, h'), s') \<and> reads_as val e s' \<and> ONLP_OID_TABLE_ITER (oid_coids h') = []"
      by (rule locked_reports [OF assms(4)])
    then show ?thesis by (simp add: onlp_oid_hdr_get_def cls onlp_thermal_hdr_get_def)
  next
    case 2
    then have cls: "oid_class oid = Some LED" and i: "oid_int oid \<in> {1, 2, 3}" by (auto simp: oid_simps)
    have led: "\<exists>j. as4564_ledi_info_get oid z w = Some (0, j, w) \<and> oid_coids (li_hdr j) = replicate 128 0" for z and w :: 'a
      using cls i by (auto simp: as4564_ledi_info_get_def oid_class_Some rd_def led_linfo_def)
    have "\<exists>h' w'. onlp_led_hdr_get_locked ?P oid h (Some w) = (0, h', Some w') \<and> val w' = e
        \<and> ONLP_OID_TABLE_ITER (oid_coids h') = []" if w: "val w = e" for w
    proof -
      obtain j where "as4564_ledi_info_get oid (junk_led (uninit ?P) (Some w)) w = Some (0, j, w)"
        "oid_coids (li_hdr j) = replicate 128 0"
        using led [where z = "junk_led (uninit ?P) (Some w)" and w = w] by (elim exE conjE)
      then show ?thesis using w by (simp add: onlp_led_hdr_get_locked_def drv_simps guarded_def)
    qed
    then have "\<exists>h' s'. locked_api (shared_alock me) ''onlp_led_hdr_get'' (total2 (onlp_led_hdr_get_locked ?P oid h)) s
        = Some ((0, h'), s') \<and> reads_as val e s' \<and> ONLP_OID_TABLE_ITER (oid_coids h') = []"
      by (rule locked_reports [OF assms(4)])
    then show ?thesis by (simp add: onlp_oid_hdr_get_def cls onlp_led_hdr_get_def)
  next
    case 3
    then have cls: "oid_class oid = Some PSU" and i: "oid_int oid = 1" by (auto simp: oid_simps)
    have "\<exists>h' w'. onlp_psu_hdr_get_locked ?P oid h (Some w) = (0, h', Some w') \<and> val w' = e
        \<and> ONLP_OID_TABLE_ITER (oid_coids h') = []" if w: "val w = e" for w
      using w cls i
      by (simp add: onlp_psu_hdr_get_locked_def drv_simps guarded_def as4564_psui_info_get_def oid_class_Some rd_def pinfo_def)
    then have "\<exists>h' s'. locked_api (shared_alock me) ''onlp_psu_hdr_get'' (total2 (onlp_psu_hdr_get_locked ?P oid h)) s
        = Some ((0, h'), s') \<and> reads_as val e s' \<and> ONLP_OID_TABLE_ITER (oid_coids h') = []"
      by (rule locked_reports [OF assms(4)])
    then show ?thesis by (simp add: onlp_oid_hdr_get_def cls onlp_psu_hdr_get_def)
  next
    case 4
    then have cls: "oid_class oid = Some FAN" and i: "oid_int oid \<in> {1, 2}" by (auto simp: oid_simps)
    have ok: "fan_readable e (oid_int oid)" using assms(2) i by (auto simp: sensors_ok_def)
    have "\<exists>h' w'. onlp_fan_hdr_get_locked ?P oid h (Some w) = (0, h', Some w') \<and> val w' = e
        \<and> ONLP_OID_TABLE_ITER (oid_coids h') = []" if w: "val w = e" for w
    proof -
      obtain rc j w' where "as4564_fani_info_get F oid (junk_fan (uninit ?P) (Some w)) w = Some (rc, j, w')"
        "val w' = e" "rc = 0" "fi_hdr j = fi_hdr (finfo ! nat (oid_int oid))"
        using fan_info_get_reads [where F = F and val = val and e = e and w = w and oid = oid
            and z = "junk_fan (uninit ?P) (Some w)", OF assms(1,3) w 4] ok by auto
      then show ?thesis
        using table_coids(2) [OF i]
        by (simp add: onlp_fan_hdr_get_locked_def drv_simps guarded_def)
    qed
    then have "\<exists>h' s'. locked_api (shared_alock me) ''onlp_fan_hdr_get'' (total2 (onlp_fan_hdr_get_locked ?P oid h)) s
        = Some ((0, h'), s') \<and> reads_as val e s' \<and> ONLP_OID_TABLE_ITER (oid_coids h') = []"
      by (rule locked_reports [OF assms(4)])
    then show ?thesis by (simp add: onlp_oid_hdr_get_def cls onlp_fan_hdr_get_def)
  qed
qed

definition as4564_tree :: oid_tree where
  "as4564_tree = Node ONLP_OID_SYS (map (\<lambda>oid. Node oid []) as4564_oids)"

lemma walk_leaves: "walk 0 (Node oid (map (\<lambda>oid. Node oid []) oids)) = oids"
  by (induction oids) simp_all

lemma as4564_reports:
  assumes "answers F val" and "sensors_ok e" and "e max_path \<noteq> Some 0"
  shows "reports (reads_as val e) (onlp_oid_hdr_get (shared_alock me) (as4564_platform F push C J)) as4564_tree"
proof -
  let ?P = "as4564_platform F push C J"
  have sys: "\<exists>h' s'. onlp_oid_hdr_get (shared_alock me) ?P ONLP_OID_SYS h s = Some ((0, h'), s')
      \<and> reads_as val e s' \<and> ONLP_OID_TABLE_ITER (oid_coids h') = as4564_oids" if s: "reads_as val e s" for h s
  proof -
    have "\<exists>h' w'. onlp_sys_hdr_get_locked ?P h (Some w) = (0, h', Some w') \<and> val w' = e
        \<and> ONLP_OID_TABLE_ITER (oid_coids h') = as4564_oids" if w: "val w = e" for w
      using w
      by (simp add: onlp_sys_hdr_get_locked_def drv_simps guarded_def oid_hdr_zero_def as4564_oids_table ITER_as4564)
    then have "\<exists>h' s'. locked_api (shared_alock me) ''onlp_sys_hdr_get'' (total2 (onlp_sys_hdr_get_locked ?P h)) s
        = Some ((0, h'), s') \<and> reads_as val e s' \<and> ONLP_OID_TABLE_ITER (oid_coids h') = as4564_oids"
      by (rule locked_reports [OF s])
    then show ?thesis by (simp add: onlp_oid_hdr_get_def oid_simps onlp_sys_hdr_get_def)
  qed
  have leaf: "reports (reads_as val e) (onlp_oid_hdr_get (shared_alock me) ?P) (Node oid [])"
    if oid: "oid \<in> set as4564_oids" for oid
  proof -
    have "oid \<noteq> 0" using oid by (auto simp: as4564_oids_eq)
    then show ?thesis using as4564_hdrs [OF assms _ oid] by simp
  qed
  have "map root (map (\<lambda>oid. Node oid []) as4564_oids) = as4564_oids" by (simp add: comp_def)
  moreover have "ONLP_OID_SYS \<noteq> 0" by (simp add: oid_simps)
  ultimately show ?thesis
    using sys leaf by (simp add: as4564_tree_def list_all_iff)
qed

text \<open>
  C29: ONLP's walk on this platform. While every sensor of the AS4564-26P can be read,
  \<open>onlp_oid_iterate\<close> from the root under the shared lock visits the five thermal sensors, the three
  LEDs, the power supply and the two fans once each in this order, and returns what the callback
  returned last.
\<close>

theorem as4564_iterate:
  assumes "answers F val" and "sensors_ok (val w)" and "val w max_path \<noteq> Some 0" and "sh_free g" and "2 \<le> n"
  shows "\<exists>s'. onlp_oid_iterate n (shared_alock me) (as4564_platform F push C J) 0 itf 0 ((g, Some w), c) =
    Some (fst (run_callback itf as4564_oids c), s', snd (run_callback itf as4564_oids c))"
proof -
  have "reads_as val (val w) (g, Some w)" using assms(4) by (simp add: reads_as_def)
  moreover have "height as4564_tree \<le> n" using assms(5) by (simp add: as4564_tree_def as4564_oids_eq)
  ultimately have "\<exists>s'. reads_as val (val w) s' \<and> onlp_oid_iterate n (shared_alock me) (as4564_platform F push C J) 0 itf (root as4564_tree) ((g, Some w), c) =
    Some (fst (run_callback itf (walk 0 as4564_tree) c), s', snd (run_callback itf (walk 0 as4564_tree) c))"
    using onlp_oid_iterate_walk [OF as4564_reports [where F = F and val = val and e = "val w" and me = me
          and push = push and C = C and J = J, OF assms(1-3)], where s = "(g, Some w)" and n = n and c = c and ty = 0
        and itf = itf]
    by simp
  moreover have "onlp_oid_iterate n (shared_alock me) (as4564_platform F push C J) 0 itf (root as4564_tree) sc
      = onlp_oid_iterate n (shared_alock me) (as4564_platform F push C J) 0 itf 0 sc" for sc
    by (cases n) (simp_all add: as4564_tree_def oid_or_sys_def oid_simps)
  moreover have "walk 0 as4564_tree = as4564_oids" unfolding as4564_tree_def by (rule walk_leaves)
  ultimately show ?thesis by auto
qed

theorem as4564_iterate_witness:
  "\<forall>push C J. \<exists>s'. onlp_oid_iterate 2 (shared_alock 0) (as4564_platform sysfs_fs push C J) 0 (\<lambda>oid c. (0, c @ [oid])) 0
     ((demo_lock, Some board), []) = Some (0, s', as4564_oids)"
proof (intro allI)
  fix push C J
  have "sensors_ok (sysfs_val board)"
    using board_values by (simp add: sensors_ok_def fan_readable_def thermal_readable_def)
  moreover have "sysfs_val board max_path \<noteq> Some 0" using board_values(6) by simp
  moreover have "sh_free demo_lock" by (simp add: sh_free_def demo_lock_def)
  moreover have "run_callback (\<lambda>oid c. (0, c @ [oid])) xs c = (0, c @ xs)" for xs :: "onlp_oid_t list" and c
    by (induction xs arbitrary: c) simp_all
  ultimately show "\<exists>s'. onlp_oid_iterate 2 (shared_alock 0) (as4564_platform sysfs_fs push C J) 0 (\<lambda>oid c. (0, c @ [oid])) 0
     ((demo_lock, Some board), []) = Some (0, s', as4564_oids)"
    using as4564_iterate [where F = sysfs_fs and val = sysfs_val and w = board and g = demo_lock and n = 2 and me = 0
        and push = push and C = C and J = J and itf = "\<lambda>oid c. (0, c @ [oid])" and c = "[]", OF sysfs_answers]
    by simp
qed

section \<open>The presence of transceivers\<close>

text \<open>\<open>AIM_BITMAP_MOD\<close> sets or clears one bit.\<close>

definition mod_law :: "'b bitmap_ops \<Rightarrow> ('b \<Rightarrow> int \<Rightarrow> bool \<Rightarrow> 'b) \<Rightarrow> bool" where
  "mod_law B modify \<longleftrightarrow>
     (\<forall>b p v q. p \<in> {0..255} \<longrightarrow> bm_get B (modify b p v) q = (if q = p then v else bm_get B b q))"

lemma low_bit: "(x :: u32) AND 1 \<noteq> 0 \<longleftrightarrow> bit x 0"
  by (simp add: and_one_eq bit_0 odd_iff_mod_2_eq_one)

lemma populate_bits:
  assumes "mod_law B modify" and "0 \<le> i" and "\<forall>n. bit all n \<longrightarrow> nat i + n < 32" and "\<forall>q > i. \<not> bm_get B dst q"
  shows "bm_get B (populate modify dst i all) q = (if q \<le> i then bm_get B dst q else bit all (nat (q - i - 1)))"
  using assms
proof (induction modify dst i all rule: populate.induct)
  case (1 modify dst i all)
  show ?case
  proof (cases "all = 0")
    case True
    then show ?thesis using 1 by (simp add: populate.simps)
  next
    case False
    then obtain n where "bit all n" by (metis bit_eqI bit_0_eq bot_apply bot_bool_def)
    then have i: "i + 1 \<in> {0..255}" using 1(3, 4) by auto
    let ?dst = "modify dst (i + 1) (all AND 1 \<noteq> 0)"
    have get: "bm_get B ?dst q = (if q = i + 1 then bit all 0 else bm_get B dst q)" for q
      using 1(2) i unfolding mod_law_def by (simp only: low_bit)
    have "\<forall>n. bit (drop_bit 1 all) n \<longrightarrow> nat (i + 1) + n < 32"
      using 1(3, 4) by (auto simp: bit_drop_bit_eq nat_add_distrib)
    moreover have "\<forall>q > i + 1. \<not> bm_get B ?dst q" using 1(5) get by simp
    ultimately have "bm_get B (populate modify ?dst (i + 1) (drop_bit 1 all)) q =
        (if q \<le> i + 1 then bm_get B ?dst q else bit (drop_bit 1 all) (nat (q - (i + 1) - 1)))"
      using 1(1) [OF False 1(2)] 1(3) by simp
    moreover have "populate modify dst i all = populate modify ?dst (i + 1) (drop_bit 1 all)"
      using False by (subst populate.simps) simp
    moreover have "bit (drop_bit 1 all) (nat (q - (i + 1) - 1)) = bit all (nat (q - i - 1))" if "i + 1 < q"
    proof -
      have "Suc (nat (q - (i + 1) - 1)) = nat (q - i - 1)" using that by simp
      then show ?thesis by (simp add: bit_drop_bit_eq)
    qed
    ultimately show ?thesis using get by auto
  qed
qed

lemma bit_three: "bit (3 :: 'a::len word) n \<longleftrightarrow> n < 2 \<and> n < LENGTH('a)"
proof -
  have "(3 :: 'a word) = mask 2" by (simp add: mask_eq_exp_minus_1)
  show ?thesis unfolding \<open>3 = mask 2\<close> bit_mask_iff by auto
qed

lemma attr_bits: "bit (push_bit 24 (byte AND 0x03) :: u32) n \<longleftrightarrow> n = 24 \<and> bit byte 0 \<or> n = 25 \<and> bit byte 1"
proof -
  have "bit (push_bit 24 (byte AND 3) :: u32) n \<longleftrightarrow> 24 \<le> n \<and> n - 24 < 2 \<and> bit byte (n - 24)"
    unfolding bit_push_bit_iff bit_and_iff bit_three by (auto dest: bit_imp_le_length)
  moreover have "24 \<le> n \<and> n - 24 < 2 \<longleftrightarrow> n = 24 \<or> n = 25" by linarith
  ultimately show ?thesis by auto
qed

lemma presence_bitmap_bits:
  assumes "bitmap_laws B" and "mod_law B modify"
    and "io_fopen S (cpld_path ''module_present_all'') w = (Some fp, w1)" and "io_fscanf_x S fp 0 w1 = (1, byte, w2)"
  shows "\<exists>dst'. as4564_sfpi_presence_bitmap_get S B modify dst w = (0, dst', io_fclose S fp w2)
    \<and> (\<forall>q. bm_get B dst' q \<longleftrightarrow> q = 25 \<and> bit byte 0 \<or> q = 26 \<and> bit byte 1)"
proof -
  define all where "all = push_bit 24 (byte AND 0x03)"
  have bits: "bit all n \<longleftrightarrow> n = 24 \<and> bit byte 0 \<or> n = 25 \<and> bit byte 1" for n
    unfolding all_def by (rule attr_bits)
  have none: "\<not> bm_get B (bm_clr_all B dst) q" for q using assms(1) by (simp add: bitmap_laws_def)
  have "\<forall>n. bit all n \<longrightarrow> nat 0 + n < 32" unfolding bits by auto
  from populate_bits [OF assms(2) _ this, of "bm_clr_all B dst"] none
  have get: "bm_get B (populate modify (bm_clr_all B dst) 0 all) q \<longleftrightarrow> 0 < q \<and> bit all (nat (q - 1))" for q by auto
  have "bm_get B (populate modify (bm_clr_all B dst) 0 all) q \<longleftrightarrow> q = 25 \<and> bit byte 0 \<or> q = 26 \<and> bit byte 1" for q
  proof -
    have "0 < q \<and> nat (q - 1) = 24 \<longleftrightarrow> q = 25" "0 < q \<and> nat (q - 1) = 25 \<longleftrightarrow> q = 26" by linarith+
    then show ?thesis unfolding get bits by blast
  qed
  then show ?thesis
    using assms(3, 4) unfolding all_def by (simp add: as4564_sfpi_presence_bitmap_get_def bitmap_from_attr_def)
qed

text \<open>What the CPLD driver prints for both ports together.\<close>

lemma show_present_all_bank:
  assumes "register_bank K c regs" and "cl_id c \<notin> update_locks s"
  shows "show_present_all K c s =
    Some (Inr (print_02x (NOT (drop_bit 2 (regs (kw s) 0x41)) AND 3)), s)"
proof -
  have "word_of_int (drop_bit 2 (uint x)) = (drop_bit 2 x :: u8)" for x :: u8
    by (rule bit_word_eqI) (simp add: bit_word_of_int_iff bit_drop_bit_eq bit_unsigned_iff)
  then show ?thesis
    using locked_show_eq [OF assms(2), of "cpld_read_internal K c 0x41", OF read_bank [OF assms(1)]]
    by (simp add: show_present_all_def)
qed

lemma present_mask: "module_field MODULE_PRESENT_25 = Some (True, 0x41, 4)" "module_field MODULE_PRESENT_26 = Some (True, 0x41, 8)"
  by simp_all

lemma show_present_bank:
  assumes "register_bank K c regs" and "cl_id c \<notin> update_locks s"
  shows "\<exists>s'. show_module K c MODULE_PRESENT_25 s = Some (Inr (print_d (of_bool (\<not> bit (regs (kw s) 0x41) 2))), s')"
    and "\<exists>s'. show_module K c MODULE_PRESENT_26 s = Some (Inr (print_d (of_bool (\<not> bit (regs (kw s) 0x41) 3))), s')"
proof -
  have ne: "0x41 \<noteq> I2C_WRITE_REQUEST_REG" "(0x41 :: u8) \<noteq> 0x36" by (simp_all add: I2C_WRITE_REQUEST_REG_def)
  show "\<exists>s'. show_module K c MODULE_PRESENT_25 s = Some (Inr (print_d (of_bool (\<not> bit (regs (kw s) 0x41) 2))), s')"
    by (rule show_module_bank [OF assms present_mask(1) ne]) (simp add: and_single_bit)
  show "\<exists>s'. show_module K c MODULE_PRESENT_26 s = Some (Inr (print_d (of_bool (\<not> bit (regs (kw s) 0x41) 3))), s')"
    by (rule show_module_bank [OF assms present_mask(2) ne]) (simp add: and_single_bit)
qed

lemma bit_nibble: "bit (0xF :: u8) n \<longleftrightarrow> n < 4"
proof -
  have "(0xF :: u8) = mask 4" by (simp add: mask_eq_exp_minus_1)
  show ?thesis unfolding \<open>0xF = mask 4\<close> bit_mask_iff by auto
qed

lemma hex_digit_table:
  "list_all (\<lambda>x. list_all (\<lambda>y. hex_digit (word_of_nat x) = hex_digit (word_of_nat y) \<longrightarrow> x = y) [0..<16]) [0..<16]"
  by code_simp

lemma print_02x_low:
  assumes "print_02x b = print_02x b'"
  shows "b AND 0xF = b' AND 0xF"
proof -
  have small: "unat (x AND 0xF) < 16" for x :: u8
  proof -
    have "x AND 0xF = take_bit 4 x" by (simp add: take_bit_eq_mask mask_eq_exp_minus_1)
    then show ?thesis using take_bit_nat_less_exp [of 4 "unat x"] by (simp add: unsigned_take_bit_eq)
  qed
  have "hex_digit (b AND 0xF) = hex_digit (b' AND 0xF)" using assms by (simp add: print_02x_def)
  then have "hex_digit (word_of_nat (unat (b AND 0xF))) = hex_digit (word_of_nat (unat (b' AND 0xF)))" by simp
  then have "unat (b AND 0xF) = unat (b' AND 0xF)"
    using hex_digit_table small [of b] small [of b'] unfolding list_all_iff by (metis atLeast0LessThan lessThan_iff set_upt)
  then show ?thesis by (rule word_unat_eq_iff [THEN iffD2])
qed

text \<open>
  C28: Presence from the register to the bitmap. On a CPLD that is a bank of registers, when ONLP
  scans the two digits the CPLD driver prints for \<open>module_present_all\<close>, its presence bitmap has
  exactly the ports whose own attribute \<open>module_present_<port>\<close> prints \<open>1\<close>.
\<close>

theorem sfp_presence_register_to_bitmap:
  assumes "register_bank K c regs" and "cl_id c \<notin> update_locks s" and "bitmap_laws B" and "mod_law B modify"
    and "io_fopen S (cpld_path ''module_present_all'') w = (Some fp, w1)"
    and "show_present_all K c s = Some (Inr (print_02x byte), s1)" and "io_fscanf_x S fp 0 w1 = (1, ucast byte, w2)"
  shows "\<exists>dst' w' s2 s3. as4564_sfpi_presence_bitmap_get S B modify dst w = (0, dst', w')
    \<and> show_module K c MODULE_PRESENT_25 s = Some (Inr (print_d (of_bool (bm_get B dst' 25))), s2)
    \<and> show_module K c MODULE_PRESENT_26 s = Some (Inr (print_d (of_bool (bm_get B dst' 26))), s3)
    \<and> (\<forall>q. q \<notin> {25, 26} \<longrightarrow> \<not> bm_get B dst' q)"
proof -
  let ?v = "regs (kw s) 0x41"
  define b where "b = NOT (drop_bit 2 ?v) AND 3"
  have "print_02x b = print_02x byte"
    using assms(6) unfolding b_def show_present_all_bank [OF assms(1, 2)] option.inject prod.inject sum.inject
    by (rule conjunct1)
  from print_02x_low [OF this] have "bit (b AND 0xF) n = bit (byte AND 0xF) n" for n by simp
  then have "bit byte n = bit b n" if "n < 4" for n
    using that unfolding bit_and_iff bit_nibble by blast
  moreover have "bit b 0 = (\<not> bit ?v 2)"
    unfolding b_def bit_and_iff bit_three bit_not_iff bit_drop_bit_eq by simp
  moreover have "bit b 1 = (\<not> bit ?v 3)"
    unfolding b_def bit_and_iff bit_three bit_not_iff bit_drop_bit_eq by simp
  ultimately have "bit byte 0 = (\<not> bit ?v 2)" "bit byte 1 = (\<not> bit ?v 3)" by simp_all
  moreover obtain dst' where "as4564_sfpi_presence_bitmap_get S B modify dst w = (0, dst', io_fclose S fp w2)"
    "\<forall>q. bm_get B dst' q \<longleftrightarrow> q = 25 \<and> bit (ucast byte :: u32) 0 \<or> q = 26 \<and> bit (ucast byte :: u32) 1"
    using presence_bitmap_bits [OF assms(3-5,7), of dst] by blast
  ultimately show ?thesis
    using show_present_bank [OF assms(1, 2)] by (auto simp: bit_ucast_iff)
qed

text \<open>A stream over the CPLD: it gives the number \<open>b\<close>.\<close>

definition scan_stdio :: "u8 \<Rightarrow> unit stdio" where
  "scan_stdio b =
     \<lparr> io_fopen = (\<lambda>p w. (Some 1, w)), io_fscanf_x = (\<lambda>fp v w. (1, ucast b, w)), io_fseek_cur = (\<lambda>fp n w. (0, w)),
       io_fread = (\<lambda>fp n w. ([], w)), io_fclose = (\<lambda>fp w. w) \<rparr>"

definition list_mod :: "int list \<Rightarrow> int \<Rightarrow> bool \<Rightarrow> int list" where
  "list_mod b p v = (if v then List.insert p b else removeAll p b)"

lemma list_mod_law: "mod_law list_bitmap list_mod"
  by (auto simp: mod_law_def list_bitmap_def list_mod_def)

theorem sfp_presence_register_to_bitmap_witness:
  "\<exists>dst' w' s2. as4564_sfpi_presence_bitmap_get (scan_stdio 3) list_bitmap list_mod [] () = (0, dst', w')
    \<and> show_module bank_kernel cpld_client MODULE_PRESENT_25 bank_cpld = Some (Inr (print_d (of_bool (bm_get list_bitmap dst' 25))), s2)"
proof -
  have free: "cl_id cpld_client \<notin> update_locks bank_cpld" by (simp add: bank_cpld_def)
  have "show_present_all bank_kernel cpld_client bank_cpld = Some (Inr (print_02x 3), bank_cpld)"
    using show_present_all_bank [OF bank_kernel_bank free] by (simp add: bank_cpld_def)
  from sfp_presence_register_to_bitmap [OF bank_kernel_bank free list_bitmap_laws list_mod_law _ this,
      where S = "scan_stdio 3" and w = "()" and fp = 1 and dst = "[]"]
  show ?thesis by (auto simp: scan_stdio_def)
qed

section \<open>Information about the reported OIDs\<close>

lemma as4564_thermal_info_of_reported:
  assumes "answers F val" and "sensors_ok (val w)" and "oid \<in> set as4564_oids" and cls: "oid_class oid = Some THERMAL"
  shows "\<exists>i w'. as4564_thermali_info_get F oid zt w = Some (0, i, w')
        \<and> oid_id (ti_hdr i) = (if oid = 0x2000005 then 0x2000004 else oid)"
proof -
  let ?e = "val w"
  from cls have o: "oid \<in> {0x2000001, 0x2000002, 0x2000003, 0x2000004, 0x2000005}"
    using assms(3) by (auto simp: as4564_oids_eq oid_simps)
  then have i: "oid_int oid \<in> {1, 2, 3, 4, 5}" by (auto simp: oid_simps)
  then have ok: "thermal_readable ?e (oid_int oid)" using assms(2) by (auto simp: sensors_ok_def)
  have id: "oid_id (ti_hdr (thermal_linfo ! nat (oid_int oid))) = (if oid = 0x2000005 then 0x2000004 else oid)"
    using o by (auto simp: oid_simps thermal_linfo_def thermal_entry_def hdr_of_def ONLP_OID_TYPE_CREATE_def)
  obtain rc j w' where "as4564_thermali_info_get F oid zt w = Some (rc, j, w')" "rc = 0"
    "ti_hdr j = ti_hdr (thermal_linfo ! nat (oid_int oid))"
    using thermal_info_get_reads [where F = F and val = val and e = ?e and w = w and oid = oid and z = zt, OF assms(1) refl o] ok
    by auto
  then show ?thesis using id by simp
qed

lemma as4564_fan_info_of_reported:
  assumes "answers F val" and "sensors_ok (val w)" and "val w max_path \<noteq> Some 0" and "oid \<in> set as4564_oids"
    and cls: "oid_class oid = Some FAN"
  shows "\<exists>i w'. as4564_fani_info_get F oid zf w = Some (0, i, w') \<and> oid_id (fi_hdr i) = oid"
proof -
  let ?e = "val w"
  from cls have o: "oid \<in> {0x3000001, 0x3000002}"
    using assms(4) by (auto simp: as4564_oids_eq oid_simps)
  then have i: "oid_int oid \<in> {1, 2}" by (auto simp: oid_simps)
  then have ok: "fan_readable ?e (oid_int oid)" using assms(2) by (auto simp: sensors_ok_def)
  have id: "oid_id (fi_hdr (finfo ! nat (oid_int oid))) = oid"
    using o by (auto simp: oid_simps finfo_def chassis_fan_info_def hdr_of_def ONLP_OID_TYPE_CREATE_def)
  obtain rc j w' where "as4564_fani_info_get F oid zf w = Some (rc, j, w')" "rc = 0"
    "fi_hdr j = fi_hdr (finfo ! nat (oid_int oid))"
    using fan_info_get_reads [where F = F and val = val and e = ?e and w = w and oid = oid and z = zf, OF assms(1,3) refl o] ok
    by auto
  then show ?thesis using id by simp
qed

text \<open>
  C37: Every OID the platform reports leads to an entry of its driver's tables, and to its own but for
  one. When the sensors can be read, the information call of the right driver succeeds for each of
  the eleven OIDs, and the header it fills in carries the OID that was asked for, except that the
  fifth thermal sensor answers with the OID of the fourth.
\<close>

theorem as4564_info_of_reported:
  assumes "answers F val" and "sensors_ok (val w)" and "val w max_path \<noteq> Some 0" and "oid \<in> set as4564_oids"
  shows "(oid_class oid = Some THERMAL \<longrightarrow> (\<exists>i w'. as4564_thermali_info_get F oid zt w = Some (0, i, w')
        \<and> oid_id (ti_hdr i) = (if oid = 0x2000005 then 0x2000004 else oid)))
    \<and> (oid_class oid = Some FAN \<longrightarrow> (\<exists>i w'. as4564_fani_info_get F oid zf w = Some (0, i, w') \<and> oid_id (fi_hdr i) = oid))
    \<and> (oid_class oid = Some PSU \<longrightarrow> (\<exists>i. as4564_psui_info_get oid zp w = Some (0, i, w) \<and> oid_id (pi_hdr i) = oid))
    \<and> (oid_class oid = Some LED \<longrightarrow> (\<exists>i. as4564_ledi_info_get oid zl w = Some (0, i, w) \<and> oid_id (li_hdr i) = oid))
    \<and> oid_class oid \<in> {Some THERMAL, Some FAN, Some PSU, Some LED}"
proof (intro conjI impI)
  show "\<exists>i w'. as4564_thermali_info_get F oid zt w = Some (0, i, w')
        \<and> oid_id (ti_hdr i) = (if oid = 0x2000005 then 0x2000004 else oid)" if "oid_class oid = Some THERMAL"
    using as4564_thermal_info_of_reported [where val=val, OF assms(1,2,4) that] .
next
  show "\<exists>i w'. as4564_fani_info_get F oid zf w = Some (0, i, w') \<and> oid_id (fi_hdr i) = oid" if "oid_class oid = Some FAN"
    using as4564_fan_info_of_reported [where val=val, OF assms that] .
next
  assume cls: "oid_class oid = Some PSU"
  then have "oid = 0x4000001" using assms(4) by (auto simp: as4564_oids_eq oid_simps)
  then show "\<exists>i. as4564_psui_info_get oid zp w = Some (0, i, w) \<and> oid_id (pi_hdr i) = oid"
    using cls by (simp add: as4564_psui_info_get_def ONLP_OID_IS_TYPE_def ONLP_OID_TYPE_GET_def oid_simps rd_def pinfo_def hdr_of_def ONLP_OID_TYPE_CREATE_def)
next
  assume cls: "oid_class oid = Some LED"
  then have "oid \<in> {0x5000001, 0x5000002, 0x5000003}" using assms(4) by (auto simp: as4564_oids_eq oid_simps)
  then show "\<exists>i. as4564_ledi_info_get oid zl w = Some (0, i, w) \<and> oid_id (li_hdr i) = oid"
    using cls
    by (auto simp: as4564_ledi_info_get_def oid_class_Some oid_simps rd_def led_linfo_def hdr_of_def ONLP_OID_TYPE_CREATE_def)
next
  show "oid_class oid \<in> {Some THERMAL, Some FAN, Some PSU, Some LED}"
    using assms(4) by (auto simp: as4564_oids_eq oid_simps)
qed

theorem as4564_info_of_reported_witness:
  "\<exists>i w'. as4564_thermali_info_get sysfs_fs 0x2000005 (hd thermal_linfo) board = Some (0, i, w')
     \<and> oid_id (ti_hdr i) = 0x2000004"
proof -
  have "sensors_ok (sysfs_val board)"
    using board_values by (simp add: sensors_ok_def fan_readable_def thermal_readable_def)
  moreover have "sysfs_val board max_path \<noteq> Some 0" using board_values(6) by simp
  moreover have "0x2000005 \<in> set as4564_oids" by (simp add: as4564_oids_eq)
  ultimately show ?thesis
    using as4564_info_of_reported [where F = sysfs_fs and val = sysfs_val and w = board and oid = "0x2000005"
        and zt = "hd thermal_linfo", OF sysfs_answers]
    by (simp add: oid_simps)
qed

end
