(* ===== verification/Optoe.thy ===== *)
theory Optoe
  imports Kernel
begin

text \<open>
  \<open>optoe.c\<close>: the kernel driver that shows the paged memory of an optical transceiver (SFP and QSFP) as
  one linear file. An access is cut at 128-byte boundaries; every piece selects its page, transfers
  and selects page zero again. The I2C adapter and the clock are a parameter. \<open>None\<close> is a handler
  that waits for ever on the mutex or in a retry loop, or uses a client that is not there.
\<close>

section \<open>Constants\<close>

definition OPTOE_PAGE_SIZE :: int where [simp]: "OPTOE_PAGE_SIZE = 128"
definition OPTOE_ARCH_PAGES :: int where [simp]: "OPTOE_ARCH_PAGES = 256"
definition ONE_ADDR_EEPROM_SIZE :: int where [simp]: "ONE_ADDR_EEPROM_SIZE = (1 + OPTOE_ARCH_PAGES) * OPTOE_PAGE_SIZE"
definition ONE_ADDR_EEPROM_UNPAGED_SIZE :: int where [simp]: "ONE_ADDR_EEPROM_UNPAGED_SIZE = 2 * OPTOE_PAGE_SIZE"
definition TWO_ADDR_EEPROM_SIZE :: int where [simp]: "TWO_ADDR_EEPROM_SIZE = (3 + OPTOE_ARCH_PAGES) * OPTOE_PAGE_SIZE"
definition TWO_ADDR_EEPROM_UNPAGED_SIZE :: int where [simp]: "TWO_ADDR_EEPROM_UNPAGED_SIZE = 4 * OPTOE_PAGE_SIZE"
definition TWO_ADDR_NO_0X51_SIZE :: int where [simp]: "TWO_ADDR_NO_0X51_SIZE = 2 * OPTOE_PAGE_SIZE"

definition OPTOE_PAGE_SELECT_REG :: int where [simp]: "OPTOE_PAGE_SELECT_REG = 0x7F"
definition ONE_ADDR_PAGEABLE_REG :: int where [simp]: "ONE_ADDR_PAGEABLE_REG = 0x02"
definition ONE_ADDR_NOT_PAGEABLE :: u8 where "ONE_ADDR_NOT_PAGEABLE = 2 ^ 2"
definition TWO_ADDR_PAGEABLE_REG :: int where [simp]: "TWO_ADDR_PAGEABLE_REG = 0x40"
definition TWO_ADDR_PAGEABLE :: u8 where "TWO_ADDR_PAGEABLE = 2 ^ 4"
definition TWO_ADDR_0X51_REG :: int where [simp]: "TWO_ADDR_0X51_REG = 92"
definition TWO_ADDR_0X51_SUPP :: u8 where "TWO_ADDR_0X51_SUPP = 2 ^ 6"
definition OPTOE_EOF :: int where [simp]: "OPTOE_EOF = 0"

definition ONE_ADDR :: int where [simp]: "ONE_ADDR = 1"
definition TWO_ADDR :: int where [simp]: "TWO_ADDR = 2"

definition I2C_SMBUS_BLOCK_MAX :: nat where [simp]: "I2C_SMBUS_BLOCK_MAX = 32"


section \<open>The adapter and the state\<close>

text \<open>
  The transfers of the I2C core, each on the address of a client and an offset: status, the bytes
  that arrived, and the state. \<open>transfer_read\<close> is \<open>i2c_transfer\<close> of an offset written and a message read,
  \<open>transfer_write\<close> of one message.
\<close>

record 'w adapter =
  read_i2c_block :: "u16 \<Rightarrow> u8 \<Rightarrow> nat \<Rightarrow> 'w \<Rightarrow> int \<times> u8 list \<times> 'w"
  read_word :: "u16 \<Rightarrow> u8 \<Rightarrow> 'w \<Rightarrow> int \<times> 'w"
  read_byte :: "u16 \<Rightarrow> u8 \<Rightarrow> 'w \<Rightarrow> int \<times> 'w"
  transfer_read :: "u16 \<Rightarrow> u8 \<Rightarrow> nat \<Rightarrow> 'w \<Rightarrow> int \<times> u8 list \<times> 'w"
  write_i2c_block :: "u16 \<Rightarrow> u8 \<Rightarrow> u8 list \<Rightarrow> 'w \<Rightarrow> int \<times> 'w"
  write_word :: "u16 \<Rightarrow> u8 \<Rightarrow> u16 \<Rightarrow> 'w \<Rightarrow> int \<times> 'w"
  write_byte :: "u16 \<Rightarrow> u8 \<Rightarrow> u8 \<Rightarrow> 'w \<Rightarrow> int \<times> 'w"
  transfer_write :: "u16 \<Rightarrow> u8 list \<Rightarrow> 'w \<Rightarrow> int \<times> 'w"
  clock :: "'w \<Rightarrow> u64"
  write_timeout :: u64
  usleep :: "'w \<Rightarrow> 'w"

datatype smbus = Use_I2C | I2C_BLOCK_DATA | WORD_DATA | BYTE_DATA

text \<open>\<open>client1\<close>: the second client, \<open>NULL\<close> when none was made.\<close>

record optoe_data =
  use_smbus :: smbus
  port_name :: "u8 list"
  olock :: bool
  write_max :: nat
  num_addresses :: nat
  dev_class :: int
  client0 :: u16
  client1 :: "u16 option"

section \<open>Addressing\<close>

text \<open>The page, the offset in the client and the client.\<close>

definition optoe_translate_offset :: "optoe_data \<Rightarrow> int \<Rightarrow> u8 \<times> int \<times> u16 option" where
  "optoe_translate_offset d offset =
     (let (offset, client) =
        (if dev_class d = TWO_ADDR \<and> offset > 255 then (offset - 256, client1 d) else (offset, Some (client0 d))) in
      if offset < OPTOE_PAGE_SIZE then (0, offset, client)
      else (word_of_int (drop_bit 7 offset - 1), OPTOE_PAGE_SIZE + (offset AND 0x7f), client))"

section \<open>Transfers\<close>

text \<open>How many bytes one transfer of the mode moves.\<close>

definition clamp_count :: "smbus \<Rightarrow> nat \<Rightarrow> nat" where
  "clamp_count mode count =
     (case mode of
        I2C_BLOCK_DATA \<Rightarrow> if count > I2C_SMBUS_BLOCK_MAX then I2C_SMBUS_BLOCK_MAX else count
      | WORD_DATA \<Rightarrow> if count = 1 then 1 else 2
      | BYTE_DATA \<Rightarrow> 1
      | Use_I2C \<Rightarrow> count)"

text \<open>One attempt to read: the status as the loop compares it, and the buffer.\<close>

definition read_attempt :: "'w adapter \<Rightarrow> smbus \<Rightarrow> u16 \<Rightarrow> u8 \<Rightarrow> nat \<Rightarrow> 'w \<Rightarrow> int \<times> u8 list \<times> 'w" where
  "read_attempt A mode client offset count w =
     (case mode of
        I2C_BLOCK_DATA \<Rightarrow> read_i2c_block A client offset count w
      | WORD_DATA \<Rightarrow>
          (let (status, w) = read_word A client offset w in
           if status \<ge> 0 then
             (int count, word_of_int (status AND 0xff) # (if count = 2 then [word_of_int (drop_bit 8 status)] else []), w)
           else (status, [], w))
      | BYTE_DATA \<Rightarrow>
          (let (status, w) = read_byte A client offset w in
           if status \<ge> 0 then (int count, [word_of_int status], w) else (status, [], w))
      | Use_I2C \<Rightarrow>
          (let (status, bytes, w) = transfer_read A client offset count w in
           (if status = 2 then int count else status, bytes, w)))"

text \<open>The loop gives up when the attempt began after the timeout, or when there is no module.\<close>

partial_function (option) read_retry ::
  "'w adapter \<Rightarrow> ('w \<Rightarrow> int \<times> u8 list \<times> 'w) \<Rightarrow> u64 \<Rightarrow> nat \<Rightarrow> 'w \<Rightarrow> (int \<times> u8 list \<times> 'w) option" where
  "read_retry A f timeout count w =
     (let read_time = clock A w; (status, bytes, w) = f w in
      if status = int count then Some (int count, bytes, w)
      else if status = - ENXIO then Some (status, [], w)
      else
        (let w = usleep A w in
         if time_before read_time timeout then read_retry A f timeout count w
         else Some (- ETIMEDOUT, [], w)))"

definition optoe_eeprom_read ::
  "'w adapter \<Rightarrow> optoe_data \<Rightarrow> u16 option \<Rightarrow> int \<Rightarrow> nat \<Rightarrow> 'w \<Rightarrow> (int \<times> u8 list \<times> 'w) option" where
  "optoe_eeprom_read A d client offset count w =
     (case client of
        None \<Rightarrow> None
      | Some c \<Rightarrow>
          (let count = clamp_count (use_smbus d) count in
           read_retry A (read_attempt A (use_smbus d) c (word_of_int offset) count) (clock A w + write_timeout A) count w))"

definition write_attempt :: "'w adapter \<Rightarrow> smbus \<Rightarrow> u16 \<Rightarrow> u8 \<Rightarrow> u8 list \<Rightarrow> 'w \<Rightarrow> int \<times> 'w" where
  "write_attempt A mode client offset bytes w =
     (let (status, w) =
        (case mode of
           I2C_BLOCK_DATA \<Rightarrow> write_i2c_block A client offset bytes w
         | WORD_DATA \<Rightarrow>
             (if length bytes = 2
              then write_word A client offset (ucast (bytes ! 0) OR push_bit 8 (ucast (bytes ! 1))) w
              else write_byte A client offset (hd bytes) w)
         | BYTE_DATA \<Rightarrow> write_byte A client offset (hd bytes) w
         | Use_I2C \<Rightarrow> transfer_write A client (offset # bytes) w) in
      (if status = (if mode = Use_I2C then 1 else 0) then int (length bytes) else status, w))"

partial_function (option) write_retry ::
  "'w adapter \<Rightarrow> ('w \<Rightarrow> int \<times> 'w) \<Rightarrow> u64 \<Rightarrow> nat \<Rightarrow> 'w \<Rightarrow> (int \<times> 'w) option" where
  "write_retry A f timeout count w =
     (let write_time = clock A w; (status, w) = f w in
      if status = int count then Some (int count, w)
      else
        (let w = usleep A w in
         if time_before write_time timeout then write_retry A f timeout count w
         else Some (- ETIMEDOUT, w)))"

text \<open>\<open>roundup(offset + 1, OPTOE_PAGE_SIZE)\<close>; \<open>buf\<close> are the bytes from the current position on.\<close>

definition optoe_eeprom_write ::
  "'w adapter \<Rightarrow> optoe_data \<Rightarrow> u16 option \<Rightarrow> u8 list \<Rightarrow> int \<Rightarrow> nat \<Rightarrow> 'w \<Rightarrow> (int \<times> 'w) option" where
  "optoe_eeprom_write A d client buf offset count w =
     (case client of
        None \<Rightarrow> None
      | Some c \<Rightarrow>
          (let count = (if count > write_max d then write_max d else count);
               next_page_start = (offset + 1 + OPTOE_PAGE_SIZE - 1) div OPTOE_PAGE_SIZE * OPTOE_PAGE_SIZE;
               count = (if offset + int count > next_page_start then nat (next_page_start - offset) else count);
               count = clamp_count (use_smbus d) count in
           write_retry A (write_attempt A (use_smbus d) c (word_of_int offset) (take count buf))
             (clock A w + write_timeout A) count w))"

section \<open>One page\<close>

text \<open>
  The transfer loop, for reads and writes alike: \<open>step\<close> moves some bytes at an offset, given how many
  were moved already. The total, the bytes read, and the state.
\<close>

fun client_loop ::
  "(int \<Rightarrow> nat \<Rightarrow> int \<Rightarrow> 'w \<Rightarrow> (int \<times> u8 list \<times> 'w) option) \<Rightarrow> int \<Rightarrow> u8 list \<Rightarrow> int \<Rightarrow> nat \<Rightarrow> 'w
   \<Rightarrow> (int \<times> u8 list \<times> 'w) option" where
  "client_loop step retval out phy count w =
     (if count = 0 then Some (retval, out, w)
      else
        (case step phy count retval w of
           None \<Rightarrow> None
         | Some (status, bytes, w) \<Rightarrow>
             if status \<le> 0 then Some (if retval = 0 then status else retval, out, w)
             else client_loop step (retval + status) (out @ bytes) (phy + status) (count - nat status) w))"

declare client_loop.simps [simp del]

datatype opcode = OPTOE_READ_OP | OPTOE_WRITE_OP "u8 list"

definition transfer_step ::
  "'w adapter \<Rightarrow> optoe_data \<Rightarrow> u16 option \<Rightarrow> opcode \<Rightarrow> int \<Rightarrow> nat \<Rightarrow> int \<Rightarrow> 'w \<Rightarrow> (int \<times> u8 list \<times> 'w) option" where
  "transfer_step A d client opcode phy count moved w =
     (case opcode of
        OPTOE_READ_OP \<Rightarrow> optoe_eeprom_read A d client phy count w
      | OPTOE_WRITE_OP buf \<Rightarrow>
          map_option (\<lambda>(status, w). (status, [], w)) (optoe_eeprom_write A d client (drop (nat moved) buf) phy count w))"

definition optoe_eeprom_update_client ::
  "'w adapter \<Rightarrow> optoe_data \<Rightarrow> opcode \<Rightarrow> int \<Rightarrow> nat \<Rightarrow> 'w \<Rightarrow> (int \<times> u8 list \<times> 'w) option" where
  "optoe_eeprom_update_client A d opcode off count w =
     (let (page, phy_offset, client) = optoe_translate_offset d off in
      do { (ret, w) \<leftarrow> (if page > 0 then optoe_eeprom_write A d client [page] OPTOE_PAGE_SELECT_REG 1 w else Some (0, w));
           if ret < 0 then Some (ret, [], w)
           else
             do { (retval, out, w) \<leftarrow> client_loop (transfer_step A d client opcode) 0 [] phy_offset count w;
                  if page > 0 then
                    do { (ret, w) \<leftarrow> optoe_eeprom_write A d client [0] OPTOE_PAGE_SELECT_REG 1 w;
                         Some (if ret < 0 \<and> retval = 0 then ret else retval, out, w) }
                  else Some (retval, out, w) } })"

section \<open>The file\<close>

text \<open>How much of an access is inside the memory the module says it has.\<close>

definition optoe_page_legal :: "'w adapter \<Rightarrow> optoe_data \<Rightarrow> int \<Rightarrow> nat \<Rightarrow> 'w \<Rightarrow> (int \<times> 'w) option" where
  "optoe_page_legal A d off len w =
     (let trim = (\<lambda>maxlen. if int len > maxlen then maxlen else int len);
          reg = (\<lambda>r w. optoe_eeprom_read A d (Some (client0 d)) r 1 w) in
      if off < 0 then Some (- EINVAL, w)
      else if dev_class d = TWO_ADDR then
        (if off + int len \<le> TWO_ADDR_NO_0X51_SIZE then Some (int len, w)
         else if off \<ge> TWO_ADDR_EEPROM_SIZE then Some (OPTOE_EOF, w)
         else
           do { (status, bytes, w) \<leftarrow> reg TWO_ADDR_PAGEABLE_REG w;
                if status < 0 then Some (status, w)
                else if has (hd bytes) TWO_ADDR_PAGEABLE then Some (trim (TWO_ADDR_EEPROM_SIZE - off), w)
                else if off \<ge> TWO_ADDR_EEPROM_UNPAGED_SIZE then Some (OPTOE_EOF, w)
                else
                  do { (status, bytes, w) \<leftarrow> reg TWO_ADDR_0X51_REG w;
                       if status < 0 then Some (status, w)
                       else if has (hd bytes) TWO_ADDR_0X51_SUPP
                       then Some (trim (TWO_ADDR_EEPROM_UNPAGED_SIZE - off), w)
                       else if off \<ge> TWO_ADDR_NO_0X51_SIZE then Some (OPTOE_EOF, w)
                       else Some (trim (TWO_ADDR_NO_0X51_SIZE - off), w) } })
      else
        (if off + int len \<le> ONE_ADDR_EEPROM_UNPAGED_SIZE then Some (int len, w)
         else if off \<ge> ONE_ADDR_EEPROM_SIZE then Some (OPTOE_EOF, w)
         else
           do { (status, bytes, w) \<leftarrow> reg ONE_ADDR_PAGEABLE_REG w;
                if status < 0 then Some (status, w)
                else if has (hd bytes) ONE_ADDR_NOT_PAGEABLE then
                  (if off \<ge> ONE_ADDR_EEPROM_UNPAGED_SIZE then Some (OPTOE_EOF, w)
                   else Some (trim (ONE_ADDR_EEPROM_UNPAGED_SIZE - off), w))
                else Some (trim (ONE_ADDR_EEPROM_SIZE - off), w) }))"

text \<open>
  The loop over the 128-byte chunks from the one that holds \<open>off\<close> on: \<open>pending\<close> bytes are still to be
  moved. For a write the buffer has been advanced by what was moved.
\<close>

definition advance :: "opcode \<Rightarrow> nat \<Rightarrow> opcode" where
  "advance opcode n = (case opcode of OPTOE_READ_OP \<Rightarrow> OPTOE_READ_OP | OPTOE_WRITE_OP buf \<Rightarrow> OPTOE_WRITE_OP (drop n buf))"

fun chunk_loop ::
  "'w adapter \<Rightarrow> optoe_data \<Rightarrow> opcode \<Rightarrow> int \<Rightarrow> int list \<Rightarrow> nat \<Rightarrow> int \<Rightarrow> u8 list \<Rightarrow> 'w \<Rightarrow> (int \<times> u8 list \<times> 'w) option" where
  "chunk_loop A d opcode off [] pending retval out w = Some (retval, out, w)"
| "chunk_loop A d opcode off (chunk # chunks) pending retval out w =
     (let chunk_start_offset = chunk * OPTOE_PAGE_SIZE;
          chunk_end_offset = chunk_start_offset + OPTOE_PAGE_SIZE;
          (chunk_offset, chunk_len) =
            (if chunk_start_offset < off
             then (off, if off + int pending < chunk_end_offset then pending else nat (chunk_end_offset - off))
             else (chunk_start_offset, if int pending < OPTOE_PAGE_SIZE then pending else nat OPTOE_PAGE_SIZE)) in
      do { (status, bytes, w) \<leftarrow> optoe_eeprom_update_client A d opcode chunk_offset chunk_len w;
           if status \<noteq> int chunk_len then
             (let retval = (if status > 0 then retval + status else retval) in
              Some (if retval = 0 then status else retval, out @ bytes, w))
           else chunk_loop A d (advance opcode (nat status)) off chunks (pending - nat status) (retval + status)
                  (out @ bytes) w })"

definition optoe_read_write ::
  "'w adapter \<Rightarrow> opcode \<Rightarrow> int \<Rightarrow> nat \<Rightarrow> optoe_data \<times> 'w \<Rightarrow> (int \<times> u8 list \<times> optoe_data \<times> 'w) option" where
  "optoe_read_write A opcode off len s =
     (let (d, w) = s in
      if len = 0 then Some (0, [], d, w)
      else if olock d then None
      else
        do { (status, w) \<leftarrow> optoe_page_legal A d off len w;
             if status \<le> 0 then Some (status, [], d, w)
             else
               do { (retval, out, w) \<leftarrow> chunk_loop A d opcode off [drop_bit 7 off..drop_bit 7 (off + status - 1)]
                                          (nat status) 0 [] w;
                    Some (retval, out, d, w) } })"

definition optoe_bin_read ::
  "'w adapter \<Rightarrow> int \<Rightarrow> nat \<Rightarrow> optoe_data \<times> 'w \<Rightarrow> (int \<times> u8 list \<times> optoe_data \<times> 'w) option" where
  "optoe_bin_read A off count s = optoe_read_write A OPTOE_READ_OP off count s"

definition optoe_bin_write ::
  "'w adapter \<Rightarrow> u8 list \<Rightarrow> int \<Rightarrow> nat \<Rightarrow> optoe_data \<times> 'w \<Rightarrow> (int \<times> u8 list \<times> optoe_data \<times> 'w) option" where
  "optoe_bin_write A buf off count s = optoe_read_write A (OPTOE_WRITE_OP buf) off count s"

section \<open>Attributes\<close>

definition show_dev_class :: "optoe_data \<Rightarrow> u8 list option" where
  "show_dev_class d = (if olock d then None else Some (dec_int (dev_class d) @ [0x0A]))"

text \<open>\<open>parsed\<close> is what \<open>kstrtoint\<close> makes of the buffer of \<open>count\<close> bytes.\<close>

definition set_dev_class :: "int option \<Rightarrow> int \<Rightarrow> optoe_data \<Rightarrow> (int \<times> optoe_data) option" where
  "set_dev_class parsed count d =
     (case parsed of
        None \<Rightarrow> Some (- EINVAL, d)
      | Some c \<Rightarrow>
          if c < 1 \<or> c > 2 then Some (- EINVAL, d)
          else if olock d then None else Some (count, d\<lparr>dev_class := c\<rparr>))"

definition show_port_name :: "optoe_data \<Rightarrow> u8 list option" where
  "show_port_name d = (if olock d then None else Some (takeWhile (\<lambda>b. b \<noteq> 0) (port_name d) @ [0x0A]))"

text \<open>\<open>sscanf(buf, "%19s")\<close>.\<close>

definition set_port_name :: "u8 list \<Rightarrow> optoe_data \<Rightarrow> (int \<times> optoe_data) option" where
  "set_port_name buf d =
     (let name = take 19 (takeWhile (\<lambda>b. b \<noteq> 0 \<and> \<not> is_space b) (dropWhile is_space buf)) in
      if name = [] then Some (- EINVAL, d)
      else if olock d then None else Some (int (length buf), d\<lparr>port_name := name @ [0]\<rparr>))"

section \<open>Probe and removal\<close>

text \<open>What the functionality of an adapter is asked for.\<close>

record functionality =
  func_i2c :: bool
  func_read_block :: bool
  func_read_word :: bool
  func_read_byte :: bool
  func_write_block :: bool
  func_write_word :: bool
  func_write_byte :: bool

text \<open>
  What a probe finds: the client, its platform data (the port name), the entry of the table, and what
  the allocations and the registrations of the kernel answer.
\<close>

record probe_env =
  paddr :: u16
  platform_name :: "u8 list option"
  driver_data :: int
  cname :: string
  func :: functionality
  kzalloc_ok :: bool
  kmalloc_ok :: bool
  dummy_client :: "u16 option"
  bin_file_err :: int
  group_err :: int

datatype resource = R_optoe | R_writebuf | R_client1 | R_bin_file | R_attr_group

definition MAX_PORT_NAME_LEN :: nat where [simp]: "MAX_PORT_NAME_LEN = 20"

definition optoe_ids :: "(string \<times> int) list" where
  "optoe_ids = [(''optoe1'', ONE_ADDR), (''optoe2'', TWO_ADDR), (''sff8436'', ONE_ADDR), (''24c04'', TWO_ADDR)]"

text \<open>The module parameter after \<open>optoe_init\<close>; \<open>rounddown_pow_of_two\<close> is a function of the kernel.\<close>

definition optoe_init :: "(nat \<Rightarrow> nat) \<Rightarrow> nat \<Rightarrow> int + nat" where
  "optoe_init rounddown_pow_of_two io_limit =
     (if io_limit = 0 then Inl (- EINVAL) else Inr (rounddown_pow_of_two io_limit))"

definition probe_mode :: "functionality \<Rightarrow> smbus option" where
  "probe_mode f =
     (if \<not> func_i2c f then
        (if func_read_block f then Some I2C_BLOCK_DATA
         else if func_read_word f then Some WORD_DATA
         else if func_read_byte f then Some BYTE_DATA
         else None)
      else Some Use_I2C)"

definition probe_class :: "string \<Rightarrow> int option" where
  "probe_class name =
     (if name = ''optoe1'' \<or> name = ''sff8436'' then Some ONE_ADDR
      else if name = ''optoe2'' \<or> name = ''24c04'' then Some TWO_ADDR
      else None)"

definition probe_writable :: "smbus \<Rightarrow> functionality \<Rightarrow> bool" where
  "probe_writable mode f \<longleftrightarrow> mode = Use_I2C \<or> func_write_block f \<or> func_write_word f \<or> func_write_byte f"

definition probe_write_max :: "nat \<Rightarrow> smbus \<Rightarrow> nat" where
  "probe_write_max io_limit mode =
     (let write_max = 1;
          write_max = (if write_max > io_limit then io_limit else write_max) in
      if mode \<noteq> Use_I2C \<and> write_max > I2C_SMBUS_BLOCK_MAX then I2C_SMBUS_BLOCK_MAX else write_max)"

definition uninitialized_name :: "u8 list" where
  "uninitialized_name = map (word_of_nat \<circ> of_char) ''unitialized'' @ [0]"

text \<open>The status, what stays allocated or registered, and the data the client is given.\<close>

definition optoe_probe :: "nat \<Rightarrow> probe_env \<Rightarrow> int \<times> resource set \<times> optoe_data option" where
  "optoe_probe io_limit e =
     (if paddr e \<noteq> 0x50 then (- EINVAL, {}, None)
      else if platform_name e = None \<and> driver_data e = 0 then (- ENODEV, {}, None)
      else
        (let port = (case platform_name e of Some p \<Rightarrow> take MAX_PORT_NAME_LEN p | None \<Rightarrow> uninitialized_name) in
         case probe_mode (func e) of
           None \<Rightarrow> (- EPFNOSUPPORT, {}, None)
         | Some mode \<Rightarrow>
             if \<not> kzalloc_ok e then (- ENOMEM, {}, None)
             else
               (case probe_class (cname e) of
                  None \<Rightarrow> (- EINVAL, {R_optoe}, None)
                | Some cls \<Rightarrow>
                    let writable = probe_writable mode (func e);
                        buf = (if writable then {R_writebuf} else {});
                        num = (if cls = ONE_ADDR then 1 else 2) in
                    if writable \<and> \<not> kmalloc_ok e then (- ENOMEM, {}, None)
                    else if num = 2 \<and> dummy_client e = None then (- EADDRINUSE, {}, None)
                    else if bin_file_err e \<noteq> 0 then (bin_file_err e, {}, None)
                    else if group_err e \<noteq> 0 then (group_err e, {R_bin_file}, None)
                    else
                      (0, {R_optoe, R_bin_file, R_attr_group} \<union> buf \<union> (if num = 2 then {R_client1} else {}),
                       Some \<lparr>use_smbus = mode, port_name = port, olock = False,
                         write_max = (if writable then probe_write_max io_limit mode else 0),
                         num_addresses = num, dev_class = cls, client0 = paddr e,
                         client1 = (if num = 2 then dummy_client e else None)\<rparr>))))"

definition optoe_remove :: "optoe_data \<Rightarrow> resource set \<Rightarrow> resource set" where
  "optoe_remove d res =
     (let res = res - {R_attr_group} - {R_bin_file};
          res = (if 1 < num_addresses d then res - {R_client1} else res) in
      res - {R_writebuf} - {R_optoe})"

end
