(* ===== verification/OptoeProps.thy ===== *)
theory OptoeProps
  imports Optoe
begin

text \<open>
  What the paged driver promises: on a module that answers, the file is the linear image of its pages,
  reads and writes are trimmed to the memory the module says it has, page zero is selected again
  afterwards, and every access returns as long as the clock moves.
\<close>

section \<open>The module\<close>

text \<open>
  A transceiver has, at each address, a lower half and many upper halves; the register at 127 selects
  the upper half the offsets from 128 on reach.
\<close>

record mst =
  pages :: "u16 \<Rightarrow> u8"
  cells :: "u16 \<Rightarrow> u8 \<Rightarrow> nat \<Rightarrow> u8"

definition peek :: "mst \<Rightarrow> u16 \<Rightarrow> nat \<Rightarrow> u8" where
  "peek m c o' = (if o' = 127 then pages m c else cells m c (if o' < 128 then 0 else pages m c) o')"

definition set_cell :: "u16 \<Rightarrow> u8 \<Rightarrow> nat \<Rightarrow> u8 \<Rightarrow> mst \<Rightarrow> mst" where
  "set_cell c p o' b m = m\<lparr>cells := (cells m)(c := (cells m c)(p := (cells m c p)(o' := b)))\<rparr>"

definition set_page :: "u16 \<Rightarrow> u8 \<Rightarrow> mst \<Rightarrow> mst" where
  "set_page c p m = m\<lparr>pages := (pages m)(c := p)\<rparr>"

definition poke :: "mst \<Rightarrow> u16 \<Rightarrow> nat \<Rightarrow> u8 \<Rightarrow> mst" where
  "poke m c o' b = (if o' = 127 then set_page c b m else set_cell c (if o' < 128 then 0 else pages m c) o' b m)"

text \<open>What the adapter does for such a module, for the transfers a mode uses.\<close>

definition serves_read :: "'w adapter \<Rightarrow> smbus \<Rightarrow> ('w \<Rightarrow> bool) \<Rightarrow> ('w \<Rightarrow> mst) \<Rightarrow> bool" where
  "serves_read A mode I st \<longleftrightarrow>
     (\<forall>w c o' n. I w \<and> 1 \<le> n \<and> unat o' + n \<le> 256 \<longrightarrow>
        (\<exists>w'. I w' \<and> st w' = st w \<and>
           (case mode of
              I2C_BLOCK_DATA \<Rightarrow> read_i2c_block A c o' n w = (int n, map (peek (st w) c) [unat o'..<unat o' + n], w')
            | WORD_DATA \<Rightarrow>
                (\<exists>hi :: u8. read_word A c o' w = (uint (peek (st w) c (unat o')) + 256 * uint hi, w') \<and>
                   (2 \<le> n \<longrightarrow> hi = peek (st w) c (unat o' + 1)))
            | BYTE_DATA \<Rightarrow> read_byte A c o' w = (uint (peek (st w) c (unat o')), w')
            | Use_I2C \<Rightarrow> transfer_read A c o' n w = (2, map (peek (st w) c) [unat o'..<unat o' + n], w'))))"

definition serves_write :: "'w adapter \<Rightarrow> smbus \<Rightarrow> ('w \<Rightarrow> bool) \<Rightarrow> ('w \<Rightarrow> mst) \<Rightarrow> bool" where
  "serves_write A mode I st \<longleftrightarrow>
     (\<forall>w c o' b. I w \<longrightarrow>
        (\<exists>w'. I w' \<and> st w' = poke (st w) c (unat o') b \<and>
           (case mode of
              I2C_BLOCK_DATA \<Rightarrow> write_i2c_block A c o' [b] w = (0, w')
            | WORD_DATA \<Rightarrow> write_byte A c o' b w = (0, w')
            | BYTE_DATA \<Rightarrow> write_byte A c o' b w = (0, w')
            | Use_I2C \<Rightarrow> transfer_write A c [o', b] w = (1, w'))))"

section \<open>Single transfers\<close>

lemma clamp_count_bounds: "1 \<le> n \<Longrightarrow> 1 \<le> clamp_count mode n \<and> clamp_count mode n \<le> n"
  by (cases mode) (auto simp: clamp_count_def)

lemma clamp_count_one [simp]: "clamp_count mode (Suc 0) = Suc 0"
  by (cases mode) (auto simp: clamp_count_def)

lemma low_byte: "(word_of_int ((uint (lo :: u8) + 256 * uint (hi :: u8)) AND 255) :: u8) = lo"
proof -
  have m: "(255 :: int) = mask 8" by (simp add: mask_eq_exp_minus_1)
  have "(uint lo + 256 * uint hi) AND 255 = (uint lo + 256 * uint hi) mod 2 ^ 8"
    unfolding m by (simp only: take_bit_eq_mask [symmetric] take_bit_eq_mod)
  also have "\<dots> = uint lo" using uint_bounded [of lo] by simp
  finally show ?thesis by simp
qed

lemma high_byte: "(word_of_int (drop_bit 8 (uint (lo :: u8) + 256 * uint (hi :: u8))) :: u8) = hi"
proof -
  have "drop_bit 8 (uint lo + 256 * uint hi) = (uint lo + 256 * uint hi) div 256"
    by (simp add: drop_bit_eq_div)
  also have "\<dots> = uint hi" using uint_bounded [of lo] by simp
  finally show ?thesis by simp
qed

lemma word_status_nonneg: "0 \<le> uint (lo :: u8) + 256 * uint (hi :: u8)"
  by simp

text \<open>In every mode one attempt delivers the clamped number of bytes.\<close>

lemma read_attempt_serves:
  assumes s: "serves_read A mode I st" and I: "I w" and n: "1 \<le> n" "unat o' + n \<le> 256"
    and k: "k = clamp_count mode n"
  shows "\<exists>w'. read_attempt A mode c o' k w = (int k, map (peek (st w) c) [unat o'..<unat o' + k], w') \<and>
    I w' \<and> st w' = st w"
proof -
  have k1: "1 \<le> k" "unat o' + k \<le> 256" using clamp_count_bounds [OF n(1), of mode] n k by auto
  from s I k1 obtain w' where w': "I w'" "st w' = st w" and
    r: "case mode of
              I2C_BLOCK_DATA \<Rightarrow> read_i2c_block A c o' k w = (int k, map (peek (st w) c) [unat o'..<unat o' + k], w')
            | WORD_DATA \<Rightarrow>
                (\<exists>hi :: u8. read_word A c o' w = (uint (peek (st w) c (unat o')) + 256 * uint hi, w') \<and>
                   (2 \<le> k \<longrightarrow> hi = peek (st w) c (unat o' + 1)))
            | BYTE_DATA \<Rightarrow> read_byte A c o' w = (uint (peek (st w) c (unat o')), w')
            | Use_I2C \<Rightarrow> transfer_read A c o' k w = (2, map (peek (st w) c) [unat o'..<unat o' + k], w')"
    unfolding serves_read_def by blast
  have "read_attempt A mode c o' k w = (int k, map (peek (st w) c) [unat o'..<unat o' + k], w')"
  proof (cases mode)
    case WORD_DATA
    with r obtain hi :: u8 where hi: "read_word A c o' w = (uint (peek (st w) c (unat o')) + 256 * uint hi, w')"
      "2 \<le> k \<longrightarrow> hi = peek (st w) c (unat o' + 1)" by auto
    from WORD_DATA k have "k = 1 \<or> k = 2" by (auto simp: clamp_count_def)
    then show ?thesis
    proof
      assume "k = 1"
      then show ?thesis using WORD_DATA hi(1)
        by (simp add: read_attempt_def low_byte)
    next
      assume k: "k = 2"
      have u: "[unat o'..<unat o' + 2] = [unat o', unat o' + 1]" by (simp add: upt_rec)
      from hi(2) k have "hi = peek (st w) c (unat o' + 1)" by simp
      with hi(1) show ?thesis using WORD_DATA k
        by (simp add: read_attempt_def low_byte high_byte u)
    qed
  next
    case BYTE_DATA
    with k have "k = 1" by (simp add: clamp_count_def)
    with r BYTE_DATA show ?thesis by (simp add: read_attempt_def)
  qed (use r in \<open>simp_all add: read_attempt_def\<close>)
  with w' show ?thesis by blast
qed

lemma write_attempt_serves:
  assumes "serves_write A mode I st" "I w"
  shows "\<exists>w'. write_attempt A mode c o' [b] w = (1, w') \<and> I w' \<and> st w' = poke (st w) c (unat o') b"
proof -
  from assms obtain w' where w': "I w'" "st w' = poke (st w) c (unat o') b" and
    r: "case mode of
              I2C_BLOCK_DATA \<Rightarrow> write_i2c_block A c o' [b] w = (0, w')
            | WORD_DATA \<Rightarrow> write_byte A c o' b w = (0, w')
            | BYTE_DATA \<Rightarrow> write_byte A c o' b w = (0, w')
            | Use_I2C \<Rightarrow> transfer_write A c [o', b] w = (1, w')"
    unfolding serves_write_def by blast
  have "write_attempt A mode c o' [b] w = (1, w')"
    using r by (cases mode) (simp_all add: write_attempt_def)
  with w' show ?thesis by blast
qed

lemma eeprom_read_serves:
  assumes s: "serves_read A (use_smbus d) I st" and I: "I w" and n: "1 \<le> n" "0 \<le> phy" "phy + int n \<le> 256"
  shows "\<exists>k w'. optoe_eeprom_read A d (Some c) phy n w =
      Some (int k, map (peek (st w) c) [nat phy..<nat phy + k], w') \<and> 1 \<le> k \<and> k \<le> n \<and> I w' \<and> st w' = st w"
proof -
  let ?k = "clamp_count (use_smbus d) n" and ?o = "word_of_int phy :: u8"
  have u: "unat ?o = nat phy" using n by (simp add: unat_eq_nat_uint uint_word_of_int)
  have "unat ?o + n \<le> 256" using n u by simp
  from read_attempt_serves [OF s I n(1) this refl, of c] obtain w' where
    r: "read_attempt A (use_smbus d) c ?o ?k w = (int ?k, map (peek (st w) c) [nat phy..<nat phy + ?k], w')"
    and w': "I w'" "st w' = st w" by (auto simp: u)
  have "optoe_eeprom_read A d (Some c) phy n w = Some (int ?k, map (peek (st w) c) [nat phy..<nat phy + ?k], w')"
    unfolding optoe_eeprom_read_def by (simp add: read_retry.simps r Let_def)
  with w' clamp_count_bounds [OF n(1), of "use_smbus d"] show ?thesis by blast
qed

text \<open>A write moves one byte: the probe sets \<open>write_max\<close> to one.\<close>

lemma eeprom_write_serves:
  assumes s: "serves_write A (use_smbus d) I st" and I: "I w" and n: "1 \<le> n" "0 \<le> phy" "phy \<le> 255"
    and b: "buf \<noteq> []" and m: "write_max d = 1"
  shows "\<exists>w'. optoe_eeprom_write A d (Some c) buf phy n w = Some (1, w') \<and> I w' \<and>
    st w' = poke (st w) c (nat phy) (hd buf)"
proof -
  let ?o = "word_of_int phy :: u8"
  have u: "unat ?o = nat phy" using n by (simp add: unat_eq_nat_uint uint_word_of_int)
  from write_attempt_serves [OF s I, of c ?o "hd buf"] obtain w' where
    r: "write_attempt A (use_smbus d) c ?o [hd buf] w = (1, w')" and w': "I w'" "st w' = poke (st w) c (nat phy) (hd buf)"
    by (auto simp: u)
  have t: "take (Suc 0) buf = [hd buf]" using b by (cases buf) auto
  have n1: "(if write_max d < n then write_max d else n) = Suc 0" using n m by auto
  have np: "\<not> (phy + 128) div 128 * 128 \<le> phy" "\<not> (128 + phy) div 128 * 128 \<le> phy" by presburger+
  have "optoe_eeprom_write A d (Some c) buf phy n w = Some (1, w')"
    unfolding optoe_eeprom_write_def using np by (simp add: n1 Let_def write_retry.simps t r)
  with w' show ?thesis by blast
qed

section \<open>The loops\<close>

text \<open>Both loops move what they are asked, piece by piece, when every piece makes progress.\<close>

lemma client_loop_total:
  assumes step: "\<forall>i out w. i < n \<and> Q i out w \<longrightarrow>
      (\<exists>k bytes w'. step (phy + int i) (n - i) (int i) w = Some (int k, bytes, w') \<and> 1 \<le> k \<and> i + k \<le> n \<and>
         Q (i + k) (out @ bytes) w')"
    and q: "Q i out w" and i: "i \<le> n"
  shows "\<exists>out' w'. client_loop step (int i) out (phy + int i) (n - i) w = Some (int n, out', w') \<and> Q n out' w'"
  using q i
proof (induction "n - i" arbitrary: i out w rule: less_induct)
  case less
  show ?case
  proof (cases "i = n")
    case True
    with less.prems show ?thesis by (auto simp: client_loop.simps)
  next
    case False
    with less.prems have "i < n" by simp
    with step less.prems(1) obtain k bytes w' where
      s: "step (phy + int i) (n - i) (int i) w = Some (int k, bytes, w')" and k: "1 \<le> k" "i + k \<le> n"
      and q': "Q (i + k) (out @ bytes) w'" by blast
    have "n - (i + k) < n - i" using k \<open>i < n\<close> by simp
    from less.hyps [OF this q' k(2)] show ?thesis
      using s k \<open>i < n\<close> by (subst client_loop.simps) (simp add: algebra_simps)
  qed
qed

text \<open>How much of \<open>n\<close> bytes from \<open>off\<close> is left in the chunk that holds position \<open>off + i\<close>.\<close>

definition piece :: "int \<Rightarrow> nat \<Rightarrow> nat \<Rightarrow> nat" where
  "piece off n i = min (n - i) (nat (128 - (off + int i) mod 128))"

lemma piece_cases:
  assumes off: "0 \<le> off" and i: "i < n" and c: "c = (off + int i) div 128"
  shows "1 \<le> piece off n i" "i + piece off n i \<le> n"
    "i + piece off n i = n \<and> (off + int n - 1) div 128 = c \<or>
     i + piece off n i < n \<and> off + int (i + piece off n i) = (c + 1) * 128"
proof -
  define r where "r = (off + int i) mod 128"
  have r: "0 \<le> r" "r < 128" "off + int i = 128 * c + r" by (simp_all add: r_def c)
  have p: "piece off n i = min (n - i) (nat (128 - r))" by (simp add: piece_def r_def)
  show "1 \<le> piece off n i" "i + piece off n i \<le> n" using i r by (auto simp: p)
  show "i + piece off n i = n \<and> (off + int n - 1) div 128 = c \<or>
     i + piece off n i < n \<and> off + int (i + piece off n i) = (c + 1) * 128"
  proof (cases "int (n - i) \<le> 128 - r")
    case True
    have "off + int n - 1 = 128 * c + (r + int (n - i) - 1)" using r(3) i by simp
    moreover have "0 \<le> r + int (n - i) - 1" "r + int (n - i) - 1 < 128" using True r i by simp_all
    ultimately have "(off + int n - 1) div 128 = c" by (simp add: div_pos_pos_trivial)
    moreover have "i + piece off n i = n" using True i r by (simp add: p min_def)
    ultimately show ?thesis by simp
  next
    case False
    then have "piece off n i = nat (128 - r)" by (simp add: p min_def)
    moreover have "i + nat (128 - r) < n" using False r i by linarith
    ultimately show ?thesis using r by simp
  qed
qed

lemma advance_advance: "advance (advance opcode i) j = advance opcode (i + j)"
  by (cases opcode) (simp_all add: advance_def add.commute)

lemma advance_0 [simp]: "advance opcode 0 = opcode"
  by (cases opcode) (simp_all add: advance_def)

lemma chunk_loop_total:
  assumes step: "\<forall>i out w. i < n \<and> Q i out w \<longrightarrow>
      (\<exists>bytes w'. optoe_eeprom_update_client A d (advance opcode i) (off + int i) (piece off n i) w =
           Some (int (piece off n i), bytes, w') \<and> Q (i + piece off n i) (out @ bytes) w')"
    and q: "Q i out w" and i: "i \<le> n" and off: "0 \<le> off"
    and c: "i < n \<longrightarrow> c = (off + int i) div 128 \<and> (i = 0 \<or> (off + int i) mod 128 = 0)"
      "i = n \<longrightarrow> (off + int n - 1) div 128 < c"
  shows "\<exists>out' w'. chunk_loop A d (advance opcode i) off [c..(off + int n - 1) div 128] (n - i) (int i) out w =
      Some (int n, out', w') \<and> Q n out' w'"
  using q i c
proof (induction "n - i" arbitrary: i out w c rule: less_induct)
  case less
  define last where "last = (off + int n - 1) div 128"
  show ?case
  proof (cases "i = n")
    case True
    with less.prems have "[c..last] = []" by (simp add: last_def)
    with True less.prems show ?thesis by (auto simp: last_def)
  next
    case False
    with less.prems have i: "i < n" and c: "c = (off + int i) div 128" "i = 0 \<or> (off + int i) mod 128 = 0" by auto
    define p where "p = piece off n i"
    note pc = piece_cases [OF off i c(1), folded p_def last_def]
    from step i less.prems(1) obtain bytes w' where
      s: "optoe_eeprom_update_client A d (advance opcode i) (off + int i) p w = Some (int p, bytes, w')"
      and q': "Q (i + p) (out @ bytes) w'" unfolding p_def by blast
    have le: "c \<le> last" using i by (auto simp: c last_def intro!: zdiv_mono1)
    have l: "[c..last] = c # [c + 1..last]" using le by (simp add: upto_rec1)
    have r: "(off + int i) mod 128 = off + int i - 128 * c" by (simp add: c minus_mult_div_eq_mod)
    have b: "128 * c \<le> off + int i" "off + int i < 128 * c + 128" using c(1) by presburger+
    have ends: "c * 128 < off \<longrightarrow> i = 0" "c * 128 < off \<or> off + int i = 128 * c" using c(2) b r by auto
    have pn: "p = min (n - i) (nat (128 * c + 128 - (off + int i)))" using r by (simp add: p_def piece_def algebra_simps)
    have len: "(if c * 128 < off then (off, if off + int (n - i) < c * 128 + 128 then n - i else nat (c * 128 + 128 - off))
      else (c * 128, if int (n - i) < 128 then n - i else nat 128)) = (off + int i, p)"
    proof (cases "c * 128 < off")
      case True
      with ends have "i = 0" by simp
      with True show ?thesis by (auto simp: pn min_def)
    next
      case False
      with ends have "off + int i = 128 * c" by simp
      with False show ?thesis by (auto simp: pn min_def)
    qed
    have less: "n - (i + p) < n - i" using pc i by simp
    have next_c: "i + p < n \<longrightarrow> c + 1 = (off + int (i + p)) div 128 \<and> (i + p = 0 \<or> (off + int (i + p)) mod 128 = 0)"
      "i + p = n \<longrightarrow> last < c + 1" using pc(3) by auto
    from less.hyps [OF less q' pc(2) next_c(1) next_c(2) [unfolded last_def]] obtain out' w'' where
      h: "chunk_loop A d (advance opcode (i + p)) off [c + 1..last] (n - (i + p)) (int (i + p)) (out @ bytes) w' =
        Some (int n, out', w'')" and q'': "Q n out' w''" by (auto simp: last_def)
    have "chunk_loop A d (advance opcode i) off [c..last] (n - i) (int i) out w = Some (int n, out', w'')"
      unfolding l chunk_loop.simps Let_def OPTOE_PAGE_SIZE_def len
      using h by (simp add: s advance_advance algebra_simps)
    with q'' show ?thesis unfolding last_def by blast
  qed
qed

section \<open>The linear image\<close>

text \<open>The address, the page and the offset of a byte of the file, as the comment of the driver describes them.\<close>

definition cell_of :: "optoe_data \<Rightarrow> int \<Rightarrow> u16 \<times> u8 \<times> nat" where
  "cell_of d off =
     (let (c, x) = (if dev_class d = 2 \<and> off \<ge> 256 then (the (client1 d), off - 256) else (client0 d, off)) in
      if x < 128 then (c, 0, nat x) else (c, word_of_int (x div 128 - 1), nat (128 + x mod 128)))"

definition linear :: "optoe_data \<Rightarrow> mst \<Rightarrow> int \<Rightarrow> u8" where
  "linear d m off = (case cell_of d off of (c, p, x) \<Rightarrow> if x = 127 then pages m c else cells m c p x)"

definition plugged :: "optoe_data \<Rightarrow> bool" where
  "plugged d \<longleftrightarrow> \<not> olock d \<and> write_max d = 1 \<and>
     (dev_class d = 1 \<or> dev_class d = 2 \<and> client1 d \<noteq> None \<and> client1 d \<noteq> Some (client0 d))"

text \<open>Page zero is selected at both addresses.\<close>

definition home :: "optoe_data \<Rightarrow> mst \<Rightarrow> bool" where
  "home d m \<longleftrightarrow> pages m (client0 d) = 0 \<and> (\<forall>c. client1 d = Some c \<longrightarrow> pages m c = 0)"

lemma translate_cell:
  assumes d: "plugged d" and c: "cell_of d off = (c, p, x)" and off: "0 \<le> off"
  shows "optoe_translate_offset d off = (p, int x, Some c)"
proof -
  have m: "y AND 127 = y mod 128" for y :: int
    using take_bit_eq_mask [of 7 y] by (simp add: mask_eq_exp_minus_1 take_bit_eq_mod)
  show ?thesis
    using c off d unfolding cell_of_def optoe_translate_offset_def plugged_def
    by (auto simp: m drop_bit_eq_div Let_def split: if_splits)
qed

lemma cell_of_home:
  assumes "plugged d" "home d m" "cell_of d off = (c, p, x)" "0 \<le> off"
  shows "pages m c = 0" "x \<le> 255" "x < 128 \<Longrightarrow> p = 0"
  using assms unfolding cell_of_def plugged_def home_def
  by (auto simp: Let_def nat_le_iff split: if_splits)

text \<open>Neighbours in a chunk are neighbours in a page.\<close>

lemma chunk_next:
  assumes "(y :: int) mod 128 + int j < 128"
  shows "(y + int j) div 128 = y div 128" "(y + int j) mod 128 = y mod 128 + int j" "y + int j < 128 \<longleftrightarrow> y < 128"
    "y + int j < 256 \<longleftrightarrow> y < 256"
proof -
  define q r where "q = y div 128" and "r = y mod 128"
  have y: "y = r + 128 * q" "0 \<le> r" "r < 128" by (simp_all add: q_def r_def)
  have rj: "r + int j < 128" using assms by (simp only: r_def)
  have e: "y + int j = (r + int j) + 128 * q" "0 \<le> r + int j" "r + int j < 128" using y rj by linarith+
  have "(r + int j) div 128 = 0" "(r + int j) mod 128 = r + int j"
    using e(2,3) by (simp_all add: div_pos_pos_trivial mod_pos_pos_trivial)
  then have "(y + int j) div 128 = q" "(y + int j) mod 128 = r + int j"
    unfolding e(1) by simp_all
  then show "(y + int j) div 128 = y div 128" "(y + int j) mod 128 = y mod 128 + int j"
    by (simp_all only: q_def r_def)
  show "y + int j < 128 \<longleftrightarrow> y < 128" "y + int j < 256 \<longleftrightarrow> y < 256"
    using y e by (cases "q \<le> 0"; cases "q \<le> 1"; linarith)+
qed

lemma cell_of_next:
  assumes c: "cell_of d off = (c, p, x)" and off: "0 \<le> off" and j: "off mod 128 + int j < 128"
  shows "cell_of d (off + int j) = (c, p, x + j)"
proof -
  define two where "two = (dev_class d = 2 \<and> off \<ge> 256)"
  define y where "y = (if two then off - 256 else off)"
  define c' where "c' = (if two then the (client1 d) else client0 d)"
  have m: "(off - 256) mod 128 = off mod 128" using mod_mult_self1 [of off "- 2" 128] by simp
  then have j': "y mod 128 + int j < 128" using j by (simp add: y_def)
  have y: "0 \<le> y" using off by (simp add: y_def two_def)
  have two': "(dev_class d = 2 \<and> off + int j \<ge> 256) = two" using chunk_next(4) [OF j] by (auto simp: two_def)
  have "cell_of d (off + int j) = (if y + int j < 128 then (c', 0, nat (y + int j))
      else (c', word_of_int ((y + int j) div 128 - 1), nat (128 + (y + int j) mod 128)))"
    unfolding cell_of_def two' by (simp add: y_def c'_def Let_def algebra_simps)
  moreover have "(c, p, x) = (if y < 128 then (c', 0, nat y) else (c', word_of_int (y div 128 - 1), nat (128 + y mod 128)))"
    unfolding c [symmetric] cell_of_def two_def [symmetric] by (simp add: y_def c'_def Let_def)
  ultimately show ?thesis
    using y by (auto simp: chunk_next [OF j'] nat_add_distrib split: if_splits)
qed

lemma set_page_home [simp]: "pages m c = 0 \<Longrightarrow> set_page c 0 (set_page c p m) = m" "pages m c = 0 \<Longrightarrow> set_page c 0 m = m"
  by (simp_all add: set_page_def fun_upd_idem)

lemma set_page_pages [simp]: "pages (set_page c p m) c = p" "cells (set_page c p m) = cells m"
  by (simp_all add: set_page_def)

section \<open>One piece\<close>

lemma select_page:
  assumes s: "serves_write A (use_smbus d) I st" and I: "I w" and m: "write_max d = 1"
  shows "\<exists>w'. (if p > 0 then optoe_eeprom_write A d (Some c) [p] OPTOE_PAGE_SELECT_REG 1 w else Some (0, w)) =
      Some (if p > 0 then 1 else 0, w') \<and> I w' \<and> st w' = (if p > 0 then set_page c p (st w) else st w)"
proof (cases "p > 0")
  case True
  from eeprom_write_serves [OF s I, of 1 127 "[p]" c] m obtain w' where
    "optoe_eeprom_write A d (Some c) [p] 127 1 w = Some (1, w')" "I w'" "st w' = poke (st w) c 127 p" by auto
  with True show ?thesis by (auto simp: poke_def)
qed (use I in auto)

text \<open>
  The piece at one page: with the page selected, the transfer loop carries \<open>Q\<close> from \<open>0\<close> to \<open>n\<close>; what holds
  afterwards survives the selection of page zero.
\<close>

lemma update_client_total:
  assumes d: "plugged d" and c: "cell_of d off = (c, p, x)" and off: "0 \<le> off"
    and s: "serves_write A (use_smbus d) I st" and I: "I w" and n: "1 \<le> n"
    and sel: "\<forall>w. I w \<and> st w = (if p > 0 then set_page c p m0 else m0) \<longrightarrow> Q 0 [] w"
    and step: "\<forall>i out w. i < n \<and> Q i out w \<longrightarrow>
      (\<exists>k bytes w'. transfer_step A d (Some c) opcode (int x + int i) (n - i) (int i) w = Some (int k, bytes, w') \<and>
         1 \<le> k \<and> i + k \<le> n \<and> Q (i + k) (out @ bytes) w')"
    and keep: "\<forall>out w. Q n out w \<longrightarrow> I w"
    and m0: "st w = m0"
  shows "\<exists>out w' w2. optoe_eeprom_update_client A d opcode off n w = Some (int n, out, w') \<and> Q n out w2 \<and> I w' \<and>
    st w' = (if p > 0 then set_page c 0 (st w2) else st w2)"
proof -
  have wm: "write_max d = 1" using d by (simp add: plugged_def)
  from select_page [OF s I wm, of p c] obtain w1 where
    w1: "(if p > 0 then optoe_eeprom_write A d (Some c) [p] OPTOE_PAGE_SELECT_REG 1 w else Some (0, w)) =
      Some (if p > 0 then 1 else 0, w1)" and i1: "I w1" "st w1 = (if p > 0 then set_page c p (st w) else st w)" by blast
  have q0: "Q 0 [] w1" using sel i1 m0 by blast
  from client_loop_total [where Q = Q and i = 0 and out = "[]" and w = w1 and phy = "int x" and n = n
      and step = "transfer_step A d (Some c) opcode", OF step q0] obtain out w2 where
    w2: "client_loop (transfer_step A d (Some c) opcode) 0 [] (int x) n w1 = Some (int n, out, w2)" and q2: "Q n out w2"
    by auto
  have I2: "I w2" using keep q2 by blast
  have t: "optoe_translate_offset d off = (p, int x, Some c)" by (rule translate_cell [OF d c off])
  show ?thesis
  proof (cases "p > 0")
    case True
    from eeprom_write_serves [OF s I2, of 1 127 "[0]" c] wm obtain w3 where
      w3: "optoe_eeprom_write A d (Some c) [0] 127 1 w2 = Some (1, w3)" "I w3" "st w3 = poke (st w2) c 127 0" by auto
    with True w1 w2 q2 show ?thesis
      unfolding optoe_eeprom_update_client_def t by (auto simp: poke_def)
  next
    case False
    with w1 w2 q2 I2 show ?thesis
      unfolding optoe_eeprom_update_client_def t by auto
  qed
qed

lemma update_client_read:
  assumes d: "plugged d" and off: "0 \<le> off" and n: "1 \<le> n" "off mod 128 + int n \<le> 128"
    and r: "serves_read A (use_smbus d) I st" and s: "serves_write A (use_smbus d) I st"
    and I: "I w" and h: "home d (st w)"
  shows "\<exists>w'. optoe_eeprom_update_client A d OPTOE_READ_OP off n w =
      Some (int n, map (\<lambda>j. linear d (st w) (off + int j)) [0..<n], w') \<and> I w' \<and> st w' = st w"
proof -
  obtain c p x where c: "cell_of d off = (c, p, x)" by (metis prod_cases3)
  define m where "m = (if p > 0 then set_page c p (st w) else st w)"
  define Q where "Q i out w' \<longleftrightarrow> I w' \<and> st w' = m \<and> out = map (\<lambda>j. linear d (st w) (off + int j)) [0..<i]" for i out w'
  note hx = cell_of_home [OF d h c off]
  have next_cell: "cell_of d (off + int j) = (c, p, x + j)" if "j < n" for j
    using cell_of_next [OF c off] n that by simp
  have x256: "x + n \<le> 256"
  proof -
    have "off mod 128 + int (n - 1) < 128" "n - 1 < n" using n by linarith+
    with next_cell have e: "cell_of d (off + int (n - 1)) = (c, p, x + (n - 1))" by blast
    from cell_of_home(2) [OF d h e] off n show ?thesis by simp
  qed
  have val: "peek m c (x + j) = linear d (st w) (off + int j)" if "j < n" for j
    using next_cell [OF that] hx word_gt_0 [of p] by (auto simp: linear_def peek_def m_def)
  have step: "\<forall>i out w'. i < n \<and> Q i out w' \<longrightarrow>
      (\<exists>k bytes w2. transfer_step A d (Some c) OPTOE_READ_OP (int x + int i) (n - i) (int i) w' = Some (int k, bytes, w2) \<and>
         1 \<le> k \<and> i + k \<le> n \<and> Q (i + k) (out @ bytes) w2)"
  proof (intro allI impI, elim conjE)
    fix i out w' assume i: "i < n" and q: "Q i out w'"
    have I': "I w'" and m': "st w' = m" and o': "out = map (\<lambda>j. linear d (st w) (off + int j)) [0..<i]"
      using q by (simp_all add: Q_def)
    have "1 \<le> n - i" "0 \<le> int x + int i" "int x + int i + int (n - i) \<le> 256" using i x256 by linarith+
    from eeprom_read_serves [OF r I' this, of c] obtain k w2 where
      e: "optoe_eeprom_read A d (Some c) (int x + int i) (n - i) w' =
        Some (int k, map (peek m c) [nat (int x + int i)..<nat (int x + int i) + k], w2)"
      and k: "1 \<le> k" "k \<le> n - i" and w2: "I w2" "st w2 = m" using m' by auto
    have "map (peek m c) [nat (int x + int i)..<nat (int x + int i) + k] =
      map (\<lambda>j. linear d (st w) (off + int j)) [i..<i + k]"
      using k i by (intro nth_equalityI) (simp_all add: nat_add_distrib val add.assoc)
    then have q2: "Q (i + k) (out @ map (peek m c) [nat (int x + int i)..<nat (int x + int i) + k]) w2"
      using w2 o' by (simp only: Q_def upt_add_eq_append [of 0] map_append)
    have t: "transfer_step A d (Some c) OPTOE_READ_OP (int x + int i) (n - i) (int i) w' =
        Some (int k, map (peek m c) [nat (int x + int i)..<nat (int x + int i) + k], w2)"
      by (simp only: transfer_step_def opcode.case e)
    have ik: "i + k \<le> n" using k i by linarith
    from t k(1) ik q2 show "\<exists>k bytes w2. transfer_step A d (Some c) OPTOE_READ_OP (int x + int i) (n - i) (int i) w' =
        Some (int k, bytes, w2) \<and> 1 \<le> k \<and> i + k \<le> n \<and> Q (i + k) (out @ bytes) w2"
      by blast
  qed
  have sel: "\<forall>w'. I w' \<and> st w' = (if p > 0 then set_page c p (st w) else st w) \<longrightarrow> Q 0 [] w'"
    by (simp add: Q_def m_def)
  have keep: "\<forall>out w'. Q n out w' \<longrightarrow> I w'" by (simp add: Q_def)
  from update_client_total [where Q = Q, OF d c off s I n(1) sel step keep refl] obtain out w' w2 where
    u: "optoe_eeprom_update_client A d OPTOE_READ_OP off n w = Some (int n, out, w')" "Q n out w2" "I w'"
       "st w' = (if p > 0 then set_page c 0 (st w2) else st w2)" by blast
  have "st w' = st w" using u(2,4) hx(1) by (simp add: Q_def m_def)
  with u show ?thesis by (auto simp: Q_def)
qed

text \<open>What writing bytes from a position of the file on makes of the module.\<close>

definition put :: "optoe_data \<Rightarrow> mst \<Rightarrow> int \<Rightarrow> u8 \<Rightarrow> mst" where
  "put d m off b = (case cell_of d off of (c, p, x) \<Rightarrow> set_cell c p x b m)"

fun overwrite :: "optoe_data \<Rightarrow> mst \<Rightarrow> int \<Rightarrow> u8 list \<Rightarrow> mst" where
  "overwrite d m off [] = m"
| "overwrite d m off (b # bs) = overwrite d (put d m off b) (off + 1) bs"

text \<open>The offsets of the file that are the page select registers.\<close>

definition selector :: "optoe_data \<Rightarrow> int \<Rightarrow> bool" where
  "selector d off \<longleftrightarrow> off = 127 \<or> dev_class d = 2 \<and> off = 383"

lemma overwrite_append: "overwrite d m off (bs @ cs) = overwrite d (overwrite d m off bs) (off + int (length bs)) cs"
  by (induction bs arbitrary: m off) (simp_all add: algebra_simps)

lemma set_cell_pages [simp]: "pages (set_cell c p x b m) = pages m"
  by (simp add: set_cell_def)

lemma put_pages [simp]: "pages (put d m off b) = pages m"
  by (simp add: put_def split: prod.splits)

lemma overwrite_pages [simp]: "pages (overwrite d m off bs) = pages m"
  by (induction bs arbitrary: m off) simp_all

lemma set_cell_set_page: "set_cell c p x b (set_page c' p' m) = set_page c' p' (set_cell c p x b m)"
  by (simp add: set_cell_def set_page_def)

lemma not_selector_cell:
  assumes "plugged d" "cell_of d off = (c, p, x)" "\<not> selector d off" "0 \<le> off"
  shows "x \<noteq> 127"
  using assms unfolding cell_of_def selector_def plugged_def
  by (auto simp: Let_def split: if_splits)

lemma update_client_write:
  assumes d: "plugged d" and off: "0 \<le> off" and n: "1 \<le> n" "off mod 128 + int n \<le> 128" "n \<le> length buf"
    and s: "serves_write A (use_smbus d) I st" and I: "I w" and h: "home d (st w)"
    and ns: "\<forall>j<n. \<not> selector d (off + int j)"
  shows "\<exists>w'. optoe_eeprom_update_client A d (OPTOE_WRITE_OP buf) off n w = Some (int n, [], w') \<and> I w' \<and>
    st w' = overwrite d (st w) off (take n buf)"
proof -
  obtain c p x where c: "cell_of d off = (c, p, x)" by (metis prod_cases3)
  define sel where "sel m = (if p > 0 then set_page c p m else m)" for m
  define mm where "mm i = overwrite d (st w) off (take i buf)" for i
  define Q where "Q i out w' \<longleftrightarrow> I w' \<and> st w' = sel (mm i) \<and> out = []" for i and out :: "u8 list" and w'
  note hx = cell_of_home [OF d h c off]
  have next_cell: "cell_of d (off + int j) = (c, p, x + j)" if "j < n" for j
    using cell_of_next [OF c off] n that by simp
  have mm_pages: "pages (mm i) c = 0" for i using hx by (simp add: mm_def)
  have mm_Suc: "mm (Suc i) = set_cell c p (x + i) (buf ! i) (mm i)" if "i < n" for i
    using that n next_cell [OF that] by (simp add: mm_def take_Suc_conv_app_nth overwrite_append put_def)
  have wm: "write_max d = 1" using d by (simp add: plugged_def)
  have poke: "poke (sel (mm i)) c (x + i) (buf ! i) = sel (mm (Suc i))" if i: "i < n" for i
  proof -
    have "x + i \<noteq> 127" using not_selector_cell [OF d next_cell [OF i]] ns i off by simp
    then show ?thesis
      using hx mm_pages [of i] word_gt_0 [of p] by (auto simp: poke_def sel_def mm_Suc [OF i] set_cell_set_page)
  qed
  have step: "\<forall>i out w'. i < n \<and> Q i out w' \<longrightarrow>
      (\<exists>k bytes w2. transfer_step A d (Some c) (OPTOE_WRITE_OP buf) (int x + int i) (n - i) (int i) w' =
         Some (int k, bytes, w2) \<and> 1 \<le> k \<and> i + k \<le> n \<and> Q (i + k) (out @ bytes) w2)"
  proof (intro allI impI, elim conjE)
    fix i out w' assume i: "i < n" and q: "Q i out w'"
    have I': "I w'" and m': "st w' = sel (mm i)" and o': "out = []" using q by (simp_all add: Q_def)
    have "x + i \<le> 255" using cell_of_home(2) [OF d h next_cell [OF i]] off by simp
    then have le: "1 \<le> n - i" "0 \<le> int x + int i" "int x + int i \<le> 255" "drop i buf \<noteq> []" using i n by auto
    from eeprom_write_serves [OF s I' le wm, of c] obtain w2 where
      e: "optoe_eeprom_write A d (Some c) (drop i buf) (int x + int i) (n - i) w' = Some (1, w2)" and w2: "I w2"
      "st w2 = poke (st w') c (nat (int x + int i)) (hd (drop i buf))" by blast
    have "st w2 = sel (mm (i + 1))"
      using w2(2) m' poke [OF i] i n by (simp add: nat_add_distrib hd_drop_conv_nth)
    then have q2: "Q (i + 1) (out @ []) w2" using w2(1) o' by (simp add: Q_def)
    have t: "transfer_step A d (Some c) (OPTOE_WRITE_OP buf) (int x + int i) (n - i) (int i) w' = Some (int 1, [], w2)"
      by (simp add: transfer_step_def e)
    have i1: "i + 1 \<le> n" using i by simp
    show "\<exists>k bytes w2. transfer_step A d (Some c) (OPTOE_WRITE_OP buf) (int x + int i) (n - i) (int i) w' =
        Some (int k, bytes, w2) \<and> 1 \<le> k \<and> i + k \<le> n \<and> Q (i + k) (out @ bytes) w2"
      by (rule exI [of _ 1], rule exI [of _ "[]"], rule exI [of _ w2], intro conjI, rule t, rule le_refl, rule i1, rule q2)
  qed
  have q0: "\<forall>w'. I w' \<and> st w' = (if p > 0 then set_page c p (st w) else st w) \<longrightarrow> Q 0 [] w'"
    by (simp add: Q_def sel_def mm_def)
  have keep: "\<forall>out w'. Q n out w' \<longrightarrow> I w'" by (simp add: Q_def)
  from update_client_total [where Q = Q, OF d c off s I n(1) q0 step keep refl] obtain out w' w2 where
    u: "optoe_eeprom_update_client A d (OPTOE_WRITE_OP buf) off n w = Some (int n, out, w')" "Q n out w2" "I w'"
       "st w' = (if p > 0 then set_page c 0 (st w2) else st w2)" by blast
  have "st w' = mm n" using u(2,4) mm_pages [of n] by (simp add: Q_def sel_def)
  then have e: "st w' = overwrite d (st w) off (take n buf)" by (simp only: mm_def)
  have o': "out = []" using u(2) by (simp only: Q_def)
  from u(1) [unfolded o'] u(3) e show ?thesis by (intro exI [of _ w'] conjI)
qed

section \<open>The access\<close>

text \<open>How much memory the module says it has, and how much of an access is inside it.\<close>

definition extent :: "optoe_data \<Rightarrow> mst \<Rightarrow> int" where
  "extent d m =
     (if dev_class d = 2
      then (if has (linear d m 0x40) TWO_ADDR_PAGEABLE then 259 * 128
            else if has (linear d m 92) TWO_ADDR_0X51_SUPP then 512 else 256)
      else if has (linear d m 2) ONE_ADDR_NOT_PAGEABLE then 256 else 257 * 128)"

definition legal :: "optoe_data \<Rightarrow> mst \<Rightarrow> int \<Rightarrow> nat \<Rightarrow> nat" where
  "legal d m off len = nat (min (int len) (extent d m - off))"

lemma linear_low: "0 \<le> r \<Longrightarrow> r < 127 \<Longrightarrow> linear d m r = peek m (client0 d) (nat r)"
  by (auto simp: linear_def cell_of_def peek_def Let_def)

lemma page_legal:
  assumes r: "serves_read A (use_smbus d) I st" and I: "I w" and off: "0 \<le> off"
  shows "\<exists>w'. optoe_page_legal A d off len w = Some (int (legal d (st w) off len), w') \<and> I w' \<and> st w' = st w"
proof -
  have reg: "\<exists>w'. optoe_eeprom_read A d (Some (client0 d)) x 1 v = Some (1, [linear d (st v) x], w') \<and> I w' \<and> st w' = st v"
    if "I v" "0 \<le> x" "x < 127" for v x
  proof -
    from that have "x + int 1 \<le> 256" by simp
    from eeprom_read_serves [OF r that(1) le_refl that(2) this, of "client0 d"] obtain k w' where
      k: "optoe_eeprom_read A d (Some (client0 d)) x 1 v = Some (int k, map (peek (st v) (client0 d)) [nat x..<nat x + k], w')"
      "1 \<le> k" "k \<le> 1" "I w'" "st w' = st v" by blast
    then have "k = 1" by simp
    with k show ?thesis by (auto simp: linear_low that)
  qed
  from reg [where v = w and x = "0x40"] I obtain w1 where
    w1: "optoe_eeprom_read A d (Some (client0 d)) 0x40 (Suc 0) w = Some (1, [linear d (st w) 0x40], w1)" "I w1" "st w1 = st w" by auto
  from reg [where v = w1 and x = 92] w1(2,3) obtain w2 where
    w2: "optoe_eeprom_read A d (Some (client0 d)) 92 (Suc 0) w1 = Some (1, [linear d (st w) 92], w2)" "I w2" "st w2 = st w" by auto
  from reg [where v = w and x = 2] I obtain w3 where
    w3: "optoe_eeprom_read A d (Some (client0 d)) 2 (Suc 0) w = Some (1, [linear d (st w) 2], w3)" "I w3" "st w3 = st w" by auto
  show ?thesis
  proof (cases "dev_class d = 2")
    case True
    have "\<exists>w'. optoe_page_legal A d off len w = Some (int (legal d (st w) off len), w') \<and> w' \<in> {w, w1, w2}"
      using True off by (simp add: optoe_page_legal_def legal_def extent_def w1 w2 Let_def)
    with w1 w2 I show ?thesis by auto
  next
    case False
    have "\<exists>w'. optoe_page_legal A d off len w = Some (int (legal d (st w) off len), w') \<and> w' \<in> {w, w3}"
      using False off by (simp add: optoe_page_legal_def legal_def extent_def w3 Let_def)
    with w3 I show ?thesis by auto
  qed
qed

lemma read_write_total:
  assumes d: "plugged d" and r: "serves_read A (use_smbus d) I st" and I: "I w" and off: "0 \<le> off"
    and n: "n = legal d (st w) off len"
    and q0: "\<forall>v. I v \<and> st v = st w \<longrightarrow> Q 0 [] v"
    and step: "\<forall>i out v. i < n \<and> Q i out v \<longrightarrow>
      (\<exists>bytes w'. optoe_eeprom_update_client A d (advance opcode i) (off + int i) (piece off n i) v =
           Some (int (piece off n i), bytes, w') \<and> Q (i + piece off n i) (out @ bytes) w')"
  shows "\<exists>out w'. optoe_read_write A opcode off len (d, w) = Some (int n, out, d, w') \<and> Q n out w'"
proof (cases "len = 0")
  case True
  then have "n = 0" by (simp add: n legal_def)
  with True q0 I show ?thesis by (auto simp: optoe_read_write_def)
next
  case False
  from page_legal [OF r I off, of len] obtain w1 where
    p: "optoe_page_legal A d off len w = Some (int n, w1)" and w1: "I w1" "st w1 = st w" by (auto simp: n)
  have q1: "Q 0 [] w1" using q0 w1 by blast
  have ol: "\<not> olock d" using d by (simp add: plugged_def)
  show ?thesis
  proof (cases "n = 0")
    case True
    with p q1 False ol show ?thesis by (auto simp: optoe_read_write_def)
  next
    case n0: False
    have c: "0 < n \<longrightarrow> off div 128 = (off + int 0) div 128 \<and> (0 = (0::nat) \<or> (off + int 0) mod 128 = 0)"
      "0 = n \<longrightarrow> (off + int n - 1) div 128 < off div 128" using n0 by auto
    from chunk_loop_total [where Q = Q and A = A and d = d and opcode = opcode and w = w1 and out = "[]" and i = 0,
        OF step q1 le0 off c] obtain out w' where
      "chunk_loop A d opcode off [off div 128..(off + int n - 1) div 128] n 0 [] w1 = Some (int n, out, w')" "Q n out w'"
      by auto
    with p False n0 ol show ?thesis by (auto simp: optoe_read_write_def drop_bit_eq_div)
  qed
qed

lemma piece_in_chunk: "i < n \<Longrightarrow> 1 \<le> piece off n i \<and> (off + int i) mod 128 + int (piece off n i) \<le> 128 \<and> i + piece off n i \<le> n"
  by (auto simp: piece_def)


text \<open>Different bytes of the file are different cells, so a write changes what it names.\<close>

definition file_size :: "optoe_data \<Rightarrow> int" where
  "file_size d = (if dev_class d = 2 then TWO_ADDR_EEPROM_SIZE else ONE_ADDR_EEPROM_SIZE)"

lemma page_inject:
  assumes "0 \<le> a" "a < 256" "0 \<le> b" "b < 256" "(word_of_int a :: u8) = word_of_int b"
  shows "a = b"
proof -
  have "uint (word_of_int a :: u8) = a" "uint (word_of_int b :: u8) = b" using assms(1-4) by (simp_all add: uint_word_of_int)
  with arg_cong [OF assms(5), of uint] show ?thesis by (simp only:)
qed

lemma cell_of_inject:
  assumes d: "plugged d" and e: "cell_of d i = cell_of d j"
    and i: "0 \<le> i" "i < file_size d" and j: "0 \<le> j" "j < file_size d"
  shows "i = j"
proof -
  define two where "two k \<longleftrightarrow> dev_class d = 2 \<and> k \<ge> 256" for k :: int
  define y where "y k = (if two k then k - 256 else k)" for k
  define c where "c k = (if two k then the (client1 d) else client0 d)" for k
  define lo where "lo k = (if y k < 128 then (0, nat (y k)) else (word_of_int (y k div 128 - 1) :: u8, nat (128 + y k mod 128)))" for k
  have cell: "cell_of d k = (c k, lo k)" for k
    unfolding cell_of_def two_def [symmetric] by (simp add: y_def c_def lo_def Let_def)
  have t: "two i = two j" using e d unfolding cell by (auto simp: c_def two_def plugged_def split: if_splits)
  have y: "0 \<le> y k" "y k < 257 * 128" if "0 \<le> k" "k < file_size d" for k
    using that by (auto simp: y_def two_def file_size_def split: if_splits)
  have "y i = y j"
  proof (cases "y i < 128")
    case True
    with e y [OF i] y [OF j] show ?thesis unfolding cell by (auto simp: lo_def nat_eq_iff split: if_splits)
  next
    case False
    have nj: "\<not> y j < 128" and m: "y i mod 128 = y j mod 128"
      and w: "(word_of_int (y i div 128 - 1) :: u8) = word_of_int (y j div 128 - 1)"
      using e False y [OF j] unfolding cell by (auto simp: lo_def split: if_splits)
    have "y i div 128 - 1 = y j div 128 - 1"
      by (rule page_inject [OF _ _ _ _ w]) (use False nj y [OF i] y [OF j] in linarith)+
    with m show ?thesis by (metis add_diff_cancel_left' diff_add_cancel div_mult_mod_eq)
  qed
  with t show ?thesis by (auto simp: y_def split: if_splits)
qed

lemma linear_put:
  assumes d: "plugged d" and i: "0 \<le> i" "i < file_size d" "\<not> selector d i" and j: "0 \<le> j" "j < file_size d"
  shows "linear d (put d m i b) j = (if i = j then b else linear d m j)"
proof -
  obtain c p x c' p' x' where c: "cell_of d i = (c, p, x)" "cell_of d j = (c', p', x')" by (metis prod_cases3)
  have x: "x \<noteq> 127" by (rule not_selector_cell [OF d c(1) i(3,1)])
  have "i = j \<longleftrightarrow> c = c' \<and> p = p' \<and> x = x'" using cell_of_inject [OF d _ i(1,2) j] c by auto
  with x show ?thesis by (auto simp: linear_def put_def c set_cell_def)
qed

lemma linear_overwrite:
  assumes d: "plugged d" and "0 \<le> off" "off + int (length bs) \<le> file_size d"
    and "\<forall>k < length bs. \<not> selector d (off + int k)" and j: "0 \<le> j" "j < file_size d"
  shows "linear d (overwrite d m off bs) j =
    (if off \<le> j \<and> j < off + int (length bs) then bs ! nat (j - off) else linear d m j)"
  using assms(2-4)
proof (induction bs arbitrary: m off)
  case Nil
  show ?case by auto
next
  case (Cons b bs)
  have ns: "\<not> selector d off" using Cons.prems(3) [rule_format, of 0] by simp
  have nx: "\<forall>k < length bs. \<not> selector d (off + 1 + int k)"
  proof (intro allI impI)
    fix k assume "k < length bs"
    then show "\<not> selector d (off + 1 + int k)" using Cons.prems(3) [rule_format, of "Suc k"] by (simp add: add.assoc)
  qed
  from Cons.IH [of "off + 1" "put d m off b"] Cons.prems nx
  have "linear d (overwrite d m off (b # bs)) j =
    (if off + 1 \<le> j \<and> j < off + 1 + int (length bs) then bs ! nat (j - (off + 1)) else linear d (put d m off b) j)"
    by simp
  moreover have "linear d (put d m off b) j = (if off = j then b else linear d m j)"
    by (rule linear_put [OF d _ _ ns j]) (use Cons.prems in auto)
  moreover have "nat (j - off) - Suc 0 = nat (j - (off + 1))" by arith
  ultimately show ?case by (auto simp: nth_Cons')
qed

lemma extent_le: "plugged d \<Longrightarrow> extent d m \<le> file_size d"
  by (auto simp: extent_def file_size_def plugged_def)

lemma home_pages: "pages m' = pages m \<Longrightarrow> home d m' = home d m"
  by (simp add: home_def)

lemma linear_written:
  assumes d: "plugged d" and off: "0 \<le> off" and n: "n = legal d m off (length buf)"
    and ns: "\<forall>k<n. \<not> selector d (off + int k)" and j: "0 \<le> j" "j < file_size d"
  shows "linear d (overwrite d m off (take n buf)) j = (if off \<le> j \<and> j < off + int n then buf ! nat (j - off) else linear d m j)"
proof (cases "n = 0")
  case True
  then show ?thesis by auto
next
  case False
  have len: "length (take n buf) = n" by (simp add: n legal_def)
  have "off + int n \<le> file_size d \<or> n = 0" using extent_le [OF d, of m] by (auto simp: n legal_def)
  with False have "off + int (length (take n buf)) \<le> file_size d" unfolding len by blast
  from linear_overwrite [OF d off this _ j, of m] ns have
    "linear d (overwrite d m off (take n buf)) j = (if off \<le> j \<and> j < off + int n then take n buf ! nat (j - off) else linear d m j)"
    unfolding len by blast
  then show ?thesis using off by auto
qed

text \<open>One piece of a write, after the first \<open>i\<close> bytes.\<close>

lemma write_piece:
  assumes d: "plugged d" and s: "serves_write A (use_smbus d) I st" and h: "home d m" and off: "0 \<le> off"
    and nb: "n \<le> length buf" and ns: "\<forall>k<n. \<not> selector d (off + int k)"
    and i: "i < n" and v: "I v" "st v = overwrite d m off (take i buf)"
  shows "\<exists>w'. optoe_eeprom_update_client A d (advance (OPTOE_WRITE_OP buf) i) (off + int i) (piece off n i) v =
      Some (int (piece off n i), [], w') \<and> I w' \<and> st w' = overwrite d m off (take (i + piece off n i) buf)"
proof -
  define k where "k = piece off n i"
  have k: "1 \<le> k" "(off + int i) mod 128 + int k \<le> 128" "i + k \<le> n"
    using piece_in_chunk [OF i, of off] by (simp_all add: k_def)
  from off have oi: "0 \<le> off + int i" by simp
  have kb: "k \<le> length (drop i buf)" using k nb by simp
  have nsk: "\<forall>j<k. \<not> selector d (off + int i + int j)"
  proof (intro allI impI)
    fix j assume "j < k"
    then have "i + j < n" using k(3) by simp
    with ns show "\<not> selector d (off + int i + int j)" by (metis add.assoc of_nat_add)
  qed
  have hv: "home d (st v)" unfolding v(2) using h home_pages [of "overwrite d m off (take i buf)" m d] by simp
  from update_client_write [OF d oi k(1,2) kb s v(1) hv nsk] obtain w' where
    u: "optoe_eeprom_update_client A d (OPTOE_WRITE_OP (drop i buf)) (off + int i) k v = Some (int k, [], w')" "I w'"
      "st w' = overwrite d (st v) (off + int i) (take k (drop i buf))" by blast
  have "st w' = overwrite d m off (take (i + k) buf)"
    unfolding u(3) v(2) take_add overwrite_append using i nb by simp
  with u(1,2) show ?thesis unfolding k_def [symmetric] advance_def opcode.case by blast
qed

text \<open>
  C6: a write that touches no page select register stores exactly its bytes, as many as lie inside the
  memory of the module: each of them is read back from its place in the linear image, and every other
  byte of the image is as before.
\<close>

theorem optoe_write_updates_linear:
  assumes d: "plugged d" and r: "serves_read A (use_smbus d) I st" and s: "serves_write A (use_smbus d) I st"
    and I: "I w" and h: "home d (st w)" and off: "0 \<le> off" and n: "n = legal d (st w) off (length buf)"
    and ns: "\<forall>k<n. \<not> selector d (off + int k)"
  shows "\<exists>w'. optoe_bin_write A buf off (length buf) (d, w) = Some (int n, [], d, w') \<and> I w' \<and> home d (st w') \<and>
    (\<forall>j. 0 \<le> j \<and> j < file_size d \<longrightarrow>
       linear d (st w') j = (if off \<le> j \<and> j < off + int n then buf ! nat (j - off) else linear d (st w) j))"
proof -
  define mm where "mm i = overwrite d (st w) off (take i buf)" for i
  define Q where "Q i out v \<longleftrightarrow> I v \<and> st v = mm i \<and> out = []" for i and out :: "u8 list" and v
  have nb: "n \<le> length buf" by (simp add: n legal_def)
  have step: "\<forall>i out v. i < n \<and> Q i out v \<longrightarrow>
      (\<exists>bytes w'. optoe_eeprom_update_client A d (advance (OPTOE_WRITE_OP buf) i) (off + int i) (piece off n i) v =
           Some (int (piece off n i), bytes, w') \<and> Q (i + piece off n i) (out @ bytes) w')"
  proof (intro allI impI, elim conjE)
    fix i out v assume i: "i < n" and q: "Q i out v"
    then have v: "I v" "st v = overwrite d (st w) off (take i buf)" and o': "out = []" by (simp_all add: Q_def mm_def)
    from write_piece [OF d s h off nb ns i v] obtain w1 where
      "optoe_eeprom_update_client A d (advance (OPTOE_WRITE_OP buf) i) (off + int i) (piece off n i) v =
         Some (int (piece off n i), [], w1)" "I w1" "st w1 = mm (i + piece off n i)" unfolding mm_def by blast
    then show "\<exists>bytes w'. optoe_eeprom_update_client A d (advance (OPTOE_WRITE_OP buf) i) (off + int i) (piece off n i) v =
           Some (int (piece off n i), bytes, w') \<and> Q (i + piece off n i) (out @ bytes) w'"
      unfolding Q_def o' append_Nil by blast
  qed
  have q0: "\<forall>v. I v \<and> st v = st w \<longrightarrow> Q 0 [] v" by (simp add: Q_def mm_def)
  from read_write_total [where Q = Q, OF d r I off n q0 step] obtain out w' where
    u: "optoe_read_write A (OPTOE_WRITE_OP buf) off (length buf) (d, w) = Some (int n, out, d, w')" "Q n out w'" by blast
  from u(2) have q: "I w'" "st w' = mm n" "out = []" by (simp_all only: Q_def)
  have hm: "home d (st w')" unfolding q(2) using h home_pages [of "mm n" "st w" d] by (simp add: mm_def)
  have lin: "linear d (st w') j = (if off \<le> j \<and> j < off + int n then buf ! nat (j - off) else linear d (st w) j)"
    if j: "0 \<le> j" "j < file_size d" for j
    unfolding q(2) mm_def by (rule linear_written [OF d off n ns j])
  from u(1) [unfolded q(3)] q(1) hm lin show ?thesis unfolding optoe_bin_write_def by blast
qed

section \<open>Returning\<close>

text \<open>Between an attempt and the next the clock moves, by less than a quarter of its range.\<close>

definition tick :: "'w adapter \<Rightarrow> 'w \<Rightarrow> 'w \<Rightarrow> bool" where
  "tick A w w1 \<longleftrightarrow> (\<exists>k. 1 \<le> k \<and> k \<le> 2 ^ 62 \<and> clock A (usleep A w1) = clock A w + word_of_nat k)"

definition ticks :: "'w adapter \<Rightarrow> smbus \<Rightarrow> bool" where
  "ticks A mode \<longleftrightarrow>
     (\<forall>c x n w. tick A w (snd (snd (read_attempt A mode c x n w)))) \<and>
     (\<forall>c x bytes w. tick A w (snd (write_attempt A mode c x bytes w)))"

lemma late_word:
  assumes "unat u < k" "k \<le> 2 ^ 62"
  shows "\<not> sint (word_of_nat k - u :: u64) < 0"
proof -
  define m where "m = k - unat u"
  have m: "m < 2 ^ 63" using assms by (simp add: m_def)
  have "word_of_nat k - u = (word_of_nat m :: u64)" using assms by (simp add: m_def of_nat_diff)
  moreover have "sint (word_of_nat m :: u64) = int m"
    using m by (simp only: signed_of_nat) (simp add: signed_take_bit_int_eq_self)
  ultimately show ?thesis by simp
qed

lemma early_word:
  assumes "k \<le> unat (u :: u64)"
  shows "unat (u - word_of_nat k) = unat u - k"
proof -
  have "k < 2 ^ 64" using assms unsigned_less [of u, where 'a = nat] by simp
  then have k: "unat (word_of_nat k :: u64) = k" by (simp add: unat_of_nat)
  have "(word_of_nat k :: u64) \<le> u" using assms k by (simp add: word_le_nat_alt)
  then show ?thesis by (simp add: unat_sub k)
qed

text \<open>After a tick the loop is late, or has less time left.\<close>

lemma tick_cases:
  assumes "tick A w w1"
  shows "\<not> time_before (clock A (usleep A w1)) timeout \<or>
    unat (timeout - clock A (usleep A w1)) < unat (timeout - clock A w)"
proof -
  from assms obtain k where k: "1 \<le> k" "k \<le> 2 ^ 62" and c: "clock A (usleep A w1) = clock A w + word_of_nat k"
    by (auto simp: tick_def)
  define u where "u = timeout - clock A w"
  have e: "timeout - clock A (usleep A w1) = u - word_of_nat k" "clock A (usleep A w1) - timeout = word_of_nat k - u"
    by (simp_all add: c u_def)
  show ?thesis
  proof (cases "k \<le> unat u")
    case True
    from early_word [OF True] have "unat (u - word_of_nat k) < unat u" using k(1) True by linarith
    then show ?thesis unfolding e u_def [symmetric] by blast
  next
    case False
    then show ?thesis unfolding time_before_def e using late_word [of u k] k by simp
  qed
qed

lemma read_retry_returns:
  assumes t: "\<forall>w. tick A w (snd (snd (f w)))"
  shows "read_retry A f timeout n w \<noteq> None"
proof (induction "unat (timeout - clock A w)" arbitrary: w rule: less_induct)
  case less
  obtain s bytes w1 where f: "f w = (s, bytes, w1)" by (metis prod_cases3)
  have "tick A w w1" using t [rule_format, of w] by (simp add: f)
  from tick_cases [OF this, of timeout] show ?case
  proof
    assume late: "\<not> time_before (clock A (usleep A w1)) timeout"
    obtain s2 bytes2 w2 where f2: "f (usleep A w1) = (s2, bytes2, w2)" by (metis prod_cases3)
    show ?thesis
      by (subst read_retry.simps) (simp add: f Let_def, subst read_retry.simps, simp add: f2 late Let_def)
  next
    assume "unat (timeout - clock A (usleep A w1)) < unat (timeout - clock A w)"
    from less.hyps [OF this] show ?thesis by (subst read_retry.simps) (simp add: f Let_def)
  qed
qed

lemma write_retry_returns:
  assumes t: "\<forall>w. tick A w (snd (f w))"
  shows "write_retry A f timeout n w \<noteq> None"
proof (induction "unat (timeout - clock A w)" arbitrary: w rule: less_induct)
  case less
  obtain s w1 where f: "f w = (s, w1)" by fastforce
  have "tick A w w1" using t [rule_format, of w] by (simp add: f)
  from tick_cases [OF this, of timeout] show ?case
  proof
    assume late: "\<not> time_before (clock A (usleep A w1)) timeout"
    obtain s2 w2 where f2: "f (usleep A w1) = (s2, w2)" by fastforce
    show ?thesis
      by (subst write_retry.simps) (simp add: f Let_def, subst write_retry.simps, simp add: f2 late Let_def)
  next
    assume "unat (timeout - clock A (usleep A w1)) < unat (timeout - clock A w)"
    from less.hyps [OF this] show ?thesis by (subst write_retry.simps) (simp add: f Let_def)
  qed
qed

lemma eeprom_read_returns: "ticks A (use_smbus d) \<Longrightarrow> optoe_eeprom_read A d (Some c) x n w \<noteq> None"
  unfolding optoe_eeprom_read_def option.case Let_def ticks_def by (rule read_retry_returns) blast

lemma eeprom_write_returns: "ticks A (use_smbus d) \<Longrightarrow> optoe_eeprom_write A d (Some c) buf x n w \<noteq> None"
  unfolding optoe_eeprom_write_def option.case Let_def ticks_def by (rule write_retry_returns) blast

lemma client_loop_returns: "\<forall>x n r w. step x n r w \<noteq> None \<Longrightarrow> client_loop step r out x n w \<noteq> None"
proof (induction n arbitrary: r out x w rule: less_induct)
  case (less n)
  obtain s bytes w1 where s: "step x n r w = Some (s, bytes, w1)" using less.prems by fast
  show ?case
    by (subst client_loop.simps) (use less in \<open>auto simp: s\<close>)
qed

lemma update_client_returns:
  assumes t: "ticks A (use_smbus d)" and c: "dev_class d = 2 \<longrightarrow> client1 d \<noteq> None"
  shows "optoe_eeprom_update_client A d opcode off n w \<noteq> None"
proof -
  obtain p x cl where tr: "optoe_translate_offset d off = (p, x, cl)" by (metis prod_cases3)
  have "cl \<noteq> None"
  proof (cases "dev_class d = 2 \<and> off > 255")
    case True
    with tr have "cl = client1 d" unfolding optoe_translate_offset_def by (simp add: Let_def split: if_splits)
    with True c show ?thesis by simp
  next
    case False
    with tr show ?thesis unfolding optoe_translate_offset_def by (auto simp: Let_def split: if_splits)
  qed
  then obtain c' where cl: "cl = Some c'" by blast
  have step: "\<forall>x n r w. transfer_step A d (Some c') opcode x n r w \<noteq> None"
    using eeprom_read_returns [OF t] eeprom_write_returns [OF t] by (auto simp: transfer_step_def split: opcode.split)
  have wr: "\<exists>r w'. optoe_eeprom_write A d (Some c') buf y m v = Some (r, w')" for buf y m v
    using eeprom_write_returns [OF t, of c' buf y m v] by auto
  from wr [of "[p]" OPTOE_PAGE_SELECT_REG 1 w] obtain r1 w1 where
    1: "(if p > 0 then optoe_eeprom_write A d (Some c') [p] OPTOE_PAGE_SELECT_REG 1 w else Some (0, w)) = Some (r1, w1)"
    by (cases "p > 0") auto
  obtain r2 out w2 where 2: "client_loop (transfer_step A d (Some c') opcode) 0 [] x n w1 = Some (r2, out, w2)"
    using client_loop_returns [OF step, of 0 "[]" x n w1] by auto
  obtain r3 w3 where 3: "optoe_eeprom_write A d (Some c') [0] OPTOE_PAGE_SELECT_REG 1 w2 = Some (r3, w3)"
    using wr by blast
  show ?thesis unfolding optoe_eeprom_update_client_def tr cl using 1 2 3 by simp
qed

lemma chunk_loop_returns:
  assumes "\<forall>opcode off n w. optoe_eeprom_update_client A d opcode off n w \<noteq> None"
  shows "chunk_loop A d opcode off cs n r out w \<noteq> None"
proof (induction cs arbitrary: opcode n r out w)
  case (Cons c cs)
  have u: "\<exists>s bytes w'. optoe_eeprom_update_client A d opcode y k w = Some (s, bytes, w')" for y k
    using assms by (metis option.exhaust prod_cases3)
  obtain y k where yk: "(if c * 128 < off then (off, if off + int n < c * 128 + 128 then n else nat (c * 128 + 128 - off))
      else (c * 128, if int n < 128 then n else nat 128)) = (y, k)" by fastforce
  from u [of y k] Cons.IH show ?case
    unfolding chunk_loop.simps Let_def OPTOE_PAGE_SIZE_def yk by auto
qed simp

lemma page_legal_returns:
  assumes t: "ticks A (use_smbus d)"
  shows "optoe_page_legal A d off len w \<noteq> None"
proof -
  have r: "\<exists>s bytes w'. optoe_eeprom_read A d (Some (client0 d)) x (Suc 0) v = Some (s, bytes, w')" for x v
    using eeprom_read_returns [OF t, of "client0 d" x "Suc 0" v] by auto
  obtain s1 b1 w1 where 1: "optoe_eeprom_read A d (Some (client0 d)) 64 (Suc 0) w = Some (s1, b1, w1)" using r by blast
  obtain s2 b2 w2 where 2: "optoe_eeprom_read A d (Some (client0 d)) 92 (Suc 0) w1 = Some (s2, b2, w2)" using r by blast
  obtain s3 b3 w3 where 3: "optoe_eeprom_read A d (Some (client0 d)) 2 (Suc 0) w = Some (s3, b3, w3)" using r by blast
  show ?thesis by (simp add: optoe_page_legal_def Let_def 1 2 3)
qed


section \<open>The class changed by hand\<close>

lemma update_client_null:
  assumes "dev_class d = 2" "client1 d = None" "255 < off" "n \<noteq> 0"
  shows "optoe_eeprom_update_client A d opcode off n w = None"
proof -
  obtain p x where t: "optoe_translate_offset d off = (p, x, None)"
    using assms unfolding optoe_translate_offset_def by (cases "off < 384") (auto simp: Let_def)
  have s: "transfer_step A d None opcode x n 0 w' = None" for w'
    by (simp add: transfer_step_def optoe_eeprom_read_def optoe_eeprom_write_def split: opcode.split)
  show ?thesis
    unfolding optoe_eeprom_update_client_def t using assms(4) s
    by (cases "p > 0") (simp_all add: optoe_eeprom_write_def client_loop.simps)
qed

text \<open>
  The attribute \<open>dev_class\<close> accepts class two for a device that was probed with one address and
  has no second client: reading the file past 256 then uses the missing client, on a module whose byte
  0x40 says it has pages.
\<close>

theorem optoe_class_two_null_client:
  assumes r: "serves_read A (use_smbus d) I st" and I: "I w"
    and one: "dev_class d = 1" "client1 d = None" and free: "\<not> olock d"
    and pg: "has (linear d (st w) 0x40) TWO_ADDR_PAGEABLE"
    and off: "256 \<le> off" "off < TWO_ADDR_EEPROM_SIZE" and len: "0 < len"
  shows "\<exists>d'. set_dev_class (Some 2) count d = Some (count, d') \<and> optoe_bin_read A off len (d', w) = None"
proof -
  define d' where "d' = d\<lparr>dev_class := 2\<rparr>"
  have d': "dev_class d' = 2" "client1 d' = None" "use_smbus d' = use_smbus d" "\<not> olock d'" "client0 d' = client0 d"
    using one free by (simp_all add: d'_def)
  have off0: "0 \<le> off" using off by simp
  define n where "n = legal d' (st w) off len"
  have "linear d' (st w) 0x40 = linear d (st w) 0x40" using d' by (simp add: linear_low)
  with pg d' have "extent d' (st w) = 259 * 128" by (simp add: extent_def)
  with off len have n: "n \<noteq> 0" by (simp add: n_def legal_def)
  from page_legal [of A d' I st w off len] r I off0 d'(3) obtain w1 where
    p: "optoe_page_legal A d' off len w = Some (int n, w1)" by (auto simp: n_def)
  have l: "[off div 128..(off + int n - 1) div 128] = (off div 128) # [off div 128 + 1..(off + int n - 1) div 128]"
    using n by (intro upto_rec1) (auto intro: zdiv_mono1)
  have "chunk_loop A d' OPTOE_READ_OP off [off div 128..(off + int n - 1) div 128] n 0 [] w1 = None"
  proof -
    let ?s = "off div 128 * 128"
    have b: "?s \<le> off" "off < ?s + 128" by (simp_all add: div_mult_mod_eq minus_mod_eq_div_mult [symmetric])
    define yk where "yk = (if ?s < off then (off, if off + int n < ?s + 128 then n else nat (?s + 128 - off))
        else (?s, if int n < 128 then n else nat 128))"
    have big: "255 < fst yk \<and> snd yk \<noteq> 0" using b n off by (auto simp: yk_def)
    obtain y k where e: "yk = (y, k)" by fastforce
    note yk = e [unfolded yk_def] big [unfolded e fst_conv snd_conv, THEN conjunct1] big [unfolded e fst_conv snd_conv, THEN conjunct2]
    then show ?thesis
      unfolding l chunk_loop.simps Let_def OPTOE_PAGE_SIZE_def yk(1)
      by (simp add: update_client_null d')
  qed
  with p n d' len have "optoe_bin_read A off len (d', w) = None"
    by (simp add: optoe_bin_read_def optoe_read_write_def drop_bit_eq_div)
  moreover have "set_dev_class (Some 2) count d = Some (count, d')"
    using free by (simp add: set_dev_class_def d'_def)
  ultimately show ?thesis by blast
qed

section \<open>A module on the bench\<close>

text \<open>A module that answers at once, behind an adapter with the block and byte transfers of SMBus.\<close>

definition bench :: "mst adapter" where
  "bench =
     \<lparr>read_i2c_block = (\<lambda>c x n m. (int n, map (peek m c) [unat x..<unat x + n], m)),
      read_word = (\<lambda>c x m. (uint (peek m c (unat x)) + 256 * uint (peek m c (unat x + 1)), m)),
      read_byte = (\<lambda>c x m. (uint (peek m c (unat x)), m)),
      transfer_read = (\<lambda>c x n m. (2, map (peek m c) [unat x..<unat x + n], m)),
      write_i2c_block = (\<lambda>c x bytes m. (0, poke m c (unat x) (hd bytes))),
      write_word = (\<lambda>c x v m. (0, m)),
      write_byte = (\<lambda>c x b m. (0, poke m c (unat x) b)),
      transfer_write = (\<lambda>c bytes m. (1, poke m c (unat (hd bytes)) (bytes ! 1))),
      clock = (\<lambda>_. 0), write_timeout = 25, usleep = (\<lambda>m. m)\<rparr>"

definition bench_module :: mst where
  "bench_module = \<lparr>pages = (\<lambda>_. 0), cells = (\<lambda>c p x. if x = 64 then 16 else ucast c + p + word_of_nat x)\<rparr>"

definition bench_sfp :: "smbus \<Rightarrow> optoe_data" where
  "bench_sfp mode = \<lparr>use_smbus = mode, port_name = [0], olock = False, write_max = 1, num_addresses = 2,
     dev_class = 2, client0 = 0x50, client1 = Some 0x51\<rparr>"

lemma bench_serves: "serves_read bench mode (\<lambda>_. True) (\<lambda>m. m)" "serves_write bench mode (\<lambda>_. True) (\<lambda>m. m)"
  unfolding serves_read_def serves_write_def by (cases mode; fastforce simp: bench_def)+

lemma bench_plugged: "plugged (bench_sfp mode)" "use_smbus (bench_sfp mode) = mode" "home (bench_sfp mode) bench_module"
  by (simp_all add: plugged_def home_def bench_sfp_def bench_module_def)

lemma bench_legal: "10 = legal (bench_sfp mode) bench_module 250 10"
  by (simp add: legal_def extent_def linear_def cell_of_def bench_sfp_def bench_module_def TWO_ADDR_PAGEABLE_def has_def)

lemma bench_write_legal: "4 = legal (bench_sfp mode) bench_module 254 (length [1, 2, 3, 4 :: u8])"
  by (simp add: legal_def extent_def linear_def cell_of_def bench_sfp_def bench_module_def TWO_ADDR_PAGEABLE_def has_def)


theorem optoe_write_updates_linear_witness:
  "\<exists>m'. optoe_bin_write bench [1, 2, 3, 4] 254 4 (bench_sfp Use_I2C, bench_module) =
      Some (4, [], bench_sfp Use_I2C, m') \<and> linear (bench_sfp Use_I2C) m' 257 = 4"
proof -
  have ns: "\<forall>k<4. \<not> selector (bench_sfp Use_I2C) (254 + int k)" by (simp add: selector_def)
  from optoe_write_updates_linear [where A = bench and I = "\<lambda>_. True" and st = "\<lambda>m. m" and d = "bench_sfp Use_I2C"
      and w = bench_module and off = 254 and buf = "[1, 2, 3, 4]", unfolded bench_plugged(2),
      OF bench_plugged(1) bench_serves TrueI bench_plugged(3) _ bench_write_legal ns]
  obtain m' where m: "optoe_bin_write bench [1, 2, 3, 4] 254 (length [1, 2, 3, 4 :: u8]) (bench_sfp Use_I2C, bench_module) =
      Some (int 4, [], bench_sfp Use_I2C, m')"
    and l: "\<forall>j. 0 \<le> j \<and> j < file_size (bench_sfp Use_I2C) \<longrightarrow> linear (bench_sfp Use_I2C) m' j =
      (if 254 \<le> j \<and> j < 254 + int 4 then [1, 2, 3, 4] ! nat (j - 254) else linear (bench_sfp Use_I2C) bench_module j)"
    by auto
  have "linear (bench_sfp Use_I2C) m' 257 = 4" using l [rule_format, of 257] by (simp add: file_size_def bench_sfp_def)
  moreover have "length [1, 2, 3, 4 :: u8] = 4" "int 4 = 4" by simp_all
  ultimately show ?thesis using m [unfolded \<open>length [1, 2, 3, 4 :: u8] = 4\<close> \<open>int 4 = 4\<close>] by blast
qed

text \<open>An adapter that never answers, and whose state is the clock.\<close>

definition dead_bus :: "u64 adapter" where
  "dead_bus =
     \<lparr>read_i2c_block = (\<lambda>c x n t. (- 5, [], t)), read_word = (\<lambda>c x t. (- 5, t)), read_byte = (\<lambda>c x t. (- 5, t)),
      transfer_read = (\<lambda>c x n t. (- 5, [], t)), write_i2c_block = (\<lambda>c x bytes t. (- 5, t)),
      write_word = (\<lambda>c x v t. (- 5, t)), write_byte = (\<lambda>c x b t. (- 5, t)), transfer_write = (\<lambda>c bytes t. (- 5, t)),
      clock = (\<lambda>t. t), write_timeout = 25, usleep = (\<lambda>t. t + 1)\<rparr>"

lemma dead_ticks: "ticks dead_bus mode"
  unfolding ticks_def tick_def
  by (cases mode) (auto simp: dead_bus_def read_attempt_def write_attempt_def intro!: exI [of _ 1])


theorem optoe_class_two_null_client_witness:
  "\<exists>d'. set_dev_class (Some 2) 2 ((bench_sfp Use_I2C)\<lparr>dev_class := 1, client1 := None\<rparr>) = Some (2, d') \<and>
     optoe_bin_read bench 300 1 (d', bench_module) = None"
  by (rule optoe_class_two_null_client [where I = "\<lambda>_. True" and st = "\<lambda>m. m"])
    (simp_all add: bench_serves bench_sfp_def linear_def cell_of_def bench_module_def TWO_ADDR_PAGEABLE_def has_def)

section \<open>Probe and removal\<close>

lemma probe_write_max_one: "0 < l \<Longrightarrow> probe_write_max l mode = 1"
  by (simp add: probe_write_max_def)

text \<open>
  What a probe leaves behind. One that succeeds gives a free device that moves one byte at a time
  and has the second client its class needs, and the removal releases all it took. One that fails keeps
  something in exactly two cases: the device structure of a client with an unknown name, and the file
  when the group of attributes cannot be made.
\<close>

theorem optoe_probe_resources:
  assumes rnd: "\<forall>n. 0 < n \<longrightarrow> 0 < rounddown n" and l: "optoe_init rounddown limit = Inr l" and p: "optoe_probe l e = (err, res, data)"
    and dummy: "dummy_client e \<noteq> Some 0x50" and errs: "bin_file_err e \<le> 0" "group_err e \<le> 0"
  shows "(case data of
      Some d \<Rightarrow> err = 0 \<and> optoe_remove d res = {} \<and> (R_writebuf \<in> res \<longrightarrow> plugged d)
    | None \<Rightarrow> err < 0 \<and> res \<subseteq> {R_optoe, R_bin_file} \<and>
        (R_optoe \<in> res \<longleftrightarrow> err = - EINVAL \<and> probe_class (cname e) = None \<and> paddr e = 0x50 \<and> kzalloc_ok e \<and>
           probe_mode (func e) \<noteq> None \<and> (platform_name e \<noteq> None \<or> driver_data e \<noteq> 0)) \<and>
        (R_bin_file \<in> res \<longrightarrow> err = group_err e))"
proof -
  have l0: "0 < l" using l rnd by (auto simp: optoe_init_def split: if_splits)
  note [simp] = probe_write_max_one [OF l0]
  show ?thesis
    using p dummy errs unfolding optoe_probe_def Let_def
    by (auto simp: optoe_remove_def plugged_def probe_class_def split: if_splits option.splits)
qed

definition bench_slot :: probe_env where
  "bench_slot = \<lparr>paddr = 0x50, platform_name = None, driver_data = 2, cname = ''optoe2'',
     func = \<lparr>func_i2c = False, func_read_block = True, func_read_word = True, func_read_byte = True,
       func_write_block = True, func_write_word = True, func_write_byte = True\<rparr>,
     kzalloc_ok = True, kmalloc_ok = True, dummy_client = Some 0x51, bin_file_err = 0, group_err = - 17\<rparr>"

theorem optoe_probe_resources_witness:
  "fst (optoe_probe 128 bench_slot) = - 17 \<and> fst (snd (optoe_probe 128 bench_slot)) = {R_bin_file}"
proof -
  have i: "optoe_init (\<lambda>n. n) 128 = Inr 128" by (simp add: optoe_init_def)
  have p: "optoe_probe 128 bench_slot = (- 17, {R_bin_file}, None)"
    by (simp add: optoe_probe_def bench_slot_def probe_mode_def probe_class_def probe_writable_def Let_def)
  have "(case None of Some d \<Rightarrow> - 17 = (0 :: int) \<and> optoe_remove d {R_bin_file} = {} \<and> (R_writebuf \<in> {R_bin_file} \<longrightarrow> plugged d)
    | None \<Rightarrow> - 17 < (0 :: int) \<and> {R_bin_file} \<subseteq> {R_optoe, R_bin_file} \<and> - 17 = group_err bench_slot)"
    using optoe_probe_resources [OF _ i p] by (simp add: bench_slot_def)
  with p show ?thesis by simp
qed

end
