(* ===== verification/Pmbus.thy ===== *)
theory Pmbus
  imports Kernel "HOL-Library.Signed_Division"
begin

text \<open>
  What the drivers of the PMBus power supplies share: the bus, the accesses with retries, the two
  number formats of PMBus, the tables that say which register goes to which field, and the byte arrays
  of fixed size the strings of the supply are stored in. \<open>None\<close> is an access outside an array, or a
  handler that waits for ever on its mutex.
\<close>

section \<open>The bus\<close>

text \<open>
  The SMBus transfers of the kernel on the client of the driver: a negative error or what was read, and
  for a block the bytes delivered.
\<close>

record 'w pmbus =
  pb_read_byte :: "u8 \<Rightarrow> 'w \<Rightarrow> int \<times> 'w"
  pb_read_word :: "u8 \<Rightarrow> 'w \<Rightarrow> int \<times> 'w"
  pb_write_word :: "u8 \<Rightarrow> u16 \<Rightarrow> 'w \<Rightarrow> int \<times> 'w"
  pb_read_block :: "u8 \<Rightarrow> u8 \<Rightarrow> 'w \<Rightarrow> int \<times> u8 list \<times> 'w"
  pb_kstrtol :: "u8 list \<Rightarrow> int + int"
  pb_jiffies :: "'w \<Rightarrow> u64"
  pb_hz :: u64

definition I2C_RW_RETRY_COUNT_psu :: nat where [simp]: "I2C_RW_RETRY_COUNT_psu = 10"
definition MAX_FAN_DUTY_CYCLE :: int where [simp]: "MAX_FAN_DUTY_CYCLE = 100"

text \<open>The loop that repeats a transfer until it succeeds or the retries are used up.\<close>

fun i2c_retry :: "nat \<Rightarrow> ('w \<Rightarrow> int \<times> 'r \<times> 'w) \<Rightarrow> int \<times> 'r \<Rightarrow> 'w \<Rightarrow> int \<times> 'r \<times> 'w" where
  "i2c_retry 0 f prev w = (fst prev, snd prev, w)"
| "i2c_retry (Suc retry) f prev w =
     (let (status, r, w) = f w in if status < 0 then i2c_retry retry f (status, r) w else (status, r, w))"

text \<open>The attributes of the drivers, in one type.\<close>

datatype psu_attr =
    PSU_POWER_ON | PSU_TEMP_FAULT | PSU_POWER_GOOD | PSU_FAN1_FAULT | PSU_FAN_DIRECTION | PSU_OVER_TEMP
  | PSU_V_IN | PSU_I_IN | PSU_P_IN | PSU_V_OUT | PSU_I_OUT | PSU_P_OUT
  | PSU_TEMP1_INPUT | PSU_TEMP2_INPUT | PSU_TEMP3_INPUT | PSU_FAN1_SPEED | PSU_FAN1_DUTY_CYCLE
  | PSU_PMBUS_REVISION | PSU_MFR_ID | PSU_MFR_MODEL | PSU_MFR_REVISION | PSU_MFR_SERIAL
  | PSU_MFR_VIN_MIN | PSU_MFR_VIN_MAX | PSU_MFR_VOUT_MIN | PSU_MFR_VOUT_MAX
  | PSU_MFR_IIN_MAX | PSU_MFR_IOUT_MAX | PSU_MFR_PIN_MAX | PSU_MFR_POUT_MAX | PSU_MFR_MODEL_OPTION

section \<open>Numbers\<close>

text \<open>A value of C's \<open>int\<close> on the machine: overflow wraps.\<close>

definition int32 :: "int \<Rightarrow> int" where
  "int32 x = sint (word_of_int x :: u32)"

definition two_complement_to_int :: "u16 \<Rightarrow> nat \<Rightarrow> int \<Rightarrow> int" where
  "two_complement_to_int data valid_bit m =
     (let valid_data = word_of_int (uint data AND m) :: u16;
          is_negative = drop_bit (valid_bit - 1) valid_data \<noteq> 0 in
      if is_negative then - ((NOT (uint valid_data) AND m) + 1) else uint valid_data)"

text \<open>The value of a register in the linear format, scaled.\<close>

definition linear_value :: "u16 \<Rightarrow> int \<Rightarrow> int" where
  "linear_value value multiplier =
     (let exponent = two_complement_to_int (drop_bit 11 value) 5 0x1f;
          mantissa = two_complement_to_int (value AND 0x7ff) 11 0x7ff in
      if exponent \<ge> 0 then int32 (int32 (mantissa * 2 ^ nat exponent) * multiplier)
      else int32 (mantissa * multiplier) sdiv 2 ^ nat (- exponent))"

text \<open>The value of an output voltage, whose exponent is in another register.\<close>

definition vout_value :: "u8 \<Rightarrow> u16 \<Rightarrow> int" where
  "vout_value vout_mode v =
     (let exponent = two_complement_to_int (ucast vout_mode) 5 0x1f;
          mantissa = uint v;
          multiplier = 1000 in
      if exponent > 0 then int32 (int32 (mantissa * 2 ^ nat exponent) * multiplier)
      else int32 (mantissa * multiplier) sdiv 2 ^ nat (- exponent))"

section \<open>Register tables\<close>

text \<open>
  The loops over a table of registers and the fields they are stored in: one stops at the first error,
  the other leaves the field as it was.
\<close>

fun read_table :: "(u8 \<Rightarrow> 'w \<Rightarrow> int \<times> 'w) \<Rightarrow> (u8 \<times> (int \<Rightarrow> 'd \<Rightarrow> 'd)) list \<Rightarrow> 'd \<times> 'w \<Rightarrow> bool \<times> 'd \<times> 'w" where
  "read_table reader [] s = (True, s)"
| "read_table reader ((reg, put) # regs) s =
     (let (d, w) = s; (status, w) = reader reg w in
      if status < 0 then (False, d, w) else read_table reader regs (put status d, w))"

fun read_table_skip :: "(u8 \<Rightarrow> 'w \<Rightarrow> int \<times> 'w) \<Rightarrow> (u8 \<times> (int \<Rightarrow> 'd \<Rightarrow> 'd)) list \<Rightarrow> 'd \<times> 'w \<Rightarrow> 'd \<times> 'w" where
  "read_table_skip reader [] s = s"
| "read_table_skip reader ((reg, put) # regs) s =
     (let (d, w) = s; (status, w) = reader reg w in
      read_table_skip reader regs (if status < 0 then d else put status d, w))"

section \<open>Arrays\<close>

text \<open>Bytes stored from the start of an array.\<close>

definition store_block :: "u8 list \<Rightarrow> u8 list \<Rightarrow> u8 list option" where
  "store_block bytes arr = (if length bytes \<le> length arr then Some (bytes @ drop (length bytes) arr) else None)"

text \<open>\<open>strncmp(p, s, strlen(s)) == 0\<close>.\<close>

definition starts_with :: "string \<Rightarrow> u8 list \<Rightarrow> bool" where
  "starts_with s p \<longleftrightarrow> take (length s) p = bytes_of s"

section \<open>Probe\<close>

text \<open>What is registered or allocated by a probe, and the answers of the kernel to it.\<close>

datatype hwmon_resource = H_data | H_attr_group | H_hwmon

record hwmon_env =
  func_ok :: bool
  alloc_ok :: bool
  create_group :: int
  register_hwmon :: int

text \<open>The probe of the four drivers: the status and what stays registered.\<close>

definition hwmon_probe :: "hwmon_env \<Rightarrow> int \<times> hwmon_resource set" where
  "hwmon_probe e =
     (if \<not> func_ok e then (- EIO, {})
      else if \<not> alloc_ok e then (- ENOMEM, {})
      else if create_group e \<noteq> 0 then (create_group e, {})
      else if register_hwmon e < 0 then (register_hwmon e, {})
      else (0, {H_data, H_attr_group, H_hwmon}))"

definition hwmon_remove :: "hwmon_resource set \<Rightarrow> hwmon_resource set" where
  "hwmon_remove res = res - {H_hwmon} - {H_attr_group} - {H_data}"

end
