(* ===== verification/Ym2651y.thy ===== *)
theory Ym2651y
  imports Pmbus
begin

text \<open>
  \<open>ym2651y.c\<close>: the power supplies 3Y YM-2651Y and its relatives. All registers and strings are read
  into a cache that is valid for a second and a half; the attributes print from it.
\<close>

section \<open>State\<close>

datatype chips = YM2651 | YM2401 | YM2851 | YM1921 | YPEB1200AM

record ym2651y_data =
  ym_lock :: bool
  ym_valid :: bool
  ym_last_updated :: u64
  ym_chip :: chips
  ym_capability :: u8
  ym_status_word :: u16
  ym_fan_fault :: u8
  ym_over_temp :: u8
  ym_v_in :: u16
  ym_i_in :: u16
  ym_p_in :: u16
  ym_v_out :: u16
  ym_i_out :: u16
  ym_p_out :: u16
  ym_vout_mode :: u8
  ym_temp :: u16
  ym_fan_speed :: u16
  ym_fan_duty_cycle0 :: u16
  ym_fan_duty_cycle1 :: u16
  ym_fan_dir :: "u8 list"
  ym_pmbus_revision :: u8
  ym_mfr_id :: "u8 list"
  ym_mfr_model :: "u8 list"
  ym_mfr_model_opt :: "u8 list"
  ym_mfr_revsion :: "u8 list"
  ym_mfr_serial :: "u8 list"
  ym_mfr_vin_min :: u16
  ym_mfr_vin_max :: u16
  ym_mfr_iin_max :: u16
  ym_mfr_iout_max :: u16
  ym_mfr_pin_max :: u16
  ym_mfr_pout_max :: u16
  ym_mfr_vout_min :: u16
  ym_mfr_vout_max :: u16

text \<open>The sizes of the arrays.\<close>

definition ym_arrays_ok :: "ym2651y_data \<Rightarrow> bool" where
  "ym_arrays_ok d \<longleftrightarrow>
     length (ym_fan_dir d) = 5 \<and> length (ym_mfr_id d) = 10 \<and> length (ym_mfr_model d) = 16 \<and>
     length (ym_mfr_model_opt d) = 8 \<and> length (ym_mfr_revsion d) = 3 \<and> length (ym_mfr_serial d) = 21"

section \<open>Transfers\<close>

definition ym2651y_read_byte :: "'w pmbus \<Rightarrow> u8 \<Rightarrow> 'w \<Rightarrow> int \<times> 'w" where
  "ym2651y_read_byte K reg w =
     (let (status, _, w) = i2c_retry I2C_RW_RETRY_COUNT_psu (\<lambda>w. let (s, w) = pb_read_byte K reg w in (s, (), w)) (0, ()) w in
      (status, w))"

definition ym2651y_read_word :: "'w pmbus \<Rightarrow> u8 \<Rightarrow> 'w \<Rightarrow> int \<times> 'w" where
  "ym2651y_read_word K reg w =
     (let (status, _, w) = i2c_retry I2C_RW_RETRY_COUNT_psu (\<lambda>w. let (s, w) = pb_read_word K reg w in (s, (), w)) (0, ()) w in
      (status, w))"

definition ym2651y_write_word :: "'w pmbus \<Rightarrow> u8 \<Rightarrow> u16 \<Rightarrow> 'w \<Rightarrow> int \<times> 'w" where
  "ym2651y_write_word K reg value w =
     (let (status, _, w) =
        i2c_retry I2C_RW_RETRY_COUNT_psu (\<lambda>w. let (s, w) = pb_write_word K reg value w in (s, (), w)) (0, ()) w in
      (status, w))"

definition ym2651y_read_block :: "'w pmbus \<Rightarrow> u8 \<Rightarrow> nat \<Rightarrow> 'w \<Rightarrow> int \<times> u8 list \<times> 'w" where
  "ym2651y_read_block K command data_len w =
     (let (status, bytes, w) =
        i2c_retry I2C_RW_RETRY_COUNT_psu (pb_read_block K command (word_of_nat data_len)) (0, []) w in
      (status, if status < 0 then [] else bytes, w))"

section \<open>The cache\<close>

definition ym_regs_byte :: "(u8 \<times> (int \<Rightarrow> ym2651y_data \<Rightarrow> ym2651y_data)) list" where
  "ym_regs_byte =
     [(0x19, \<lambda>v. ym_capability_update (\<lambda>_. word_of_int v)),
      (0x20, \<lambda>v. ym_vout_mode_update (\<lambda>_. word_of_int v)),
      (0x7d, \<lambda>v. ym_over_temp_update (\<lambda>_. word_of_int v)),
      (0x81, \<lambda>v. ym_fan_fault_update (\<lambda>_. word_of_int v)),
      (0x98, \<lambda>v. ym_pmbus_revision_update (\<lambda>_. word_of_int v))]"

definition ym_regs_word :: "(u8 \<times> (int \<Rightarrow> ym2651y_data \<Rightarrow> ym2651y_data)) list" where
  "ym_regs_word =
     [(0x79, \<lambda>v. ym_status_word_update (\<lambda>_. word_of_int v)),
      (0x88, \<lambda>v. ym_v_in_update (\<lambda>_. word_of_int v)),
      (0x8b, \<lambda>v. ym_v_out_update (\<lambda>_. word_of_int v)),
      (0x89, \<lambda>v. ym_i_in_update (\<lambda>_. word_of_int v)),
      (0x8c, \<lambda>v. ym_i_out_update (\<lambda>_. word_of_int v)),
      (0x97, \<lambda>v. ym_p_in_update (\<lambda>_. word_of_int v)),
      (0x96, \<lambda>v. ym_p_out_update (\<lambda>_. word_of_int v)),
      (0x8d, \<lambda>v. ym_temp_update (\<lambda>_. word_of_int v)),
      (0x3b, \<lambda>v. ym_fan_duty_cycle0_update (\<lambda>_. word_of_int v)),
      (0x3c, \<lambda>v. ym_fan_duty_cycle1_update (\<lambda>_. word_of_int v)),
      (0x90, \<lambda>v. ym_fan_speed_update (\<lambda>_. word_of_int v)),
      (0xa0, \<lambda>v. ym_mfr_vin_min_update (\<lambda>_. word_of_int v)),
      (0xa1, \<lambda>v. ym_mfr_vin_max_update (\<lambda>_. word_of_int v)),
      (0xa2, \<lambda>v. ym_mfr_iin_max_update (\<lambda>_. word_of_int v)),
      (0xa3, \<lambda>v. ym_mfr_pin_max_update (\<lambda>_. word_of_int v)),
      (0xa4, \<lambda>v. ym_mfr_vout_min_update (\<lambda>_. word_of_int v)),
      (0xa5, \<lambda>v. ym_mfr_vout_max_update (\<lambda>_. word_of_int v)),
      (0xa6, \<lambda>v. ym_mfr_iout_max_update (\<lambda>_. word_of_int v)),
      (0xa7, \<lambda>v. ym_mfr_pout_max_update (\<lambda>_. word_of_int v))]"

text \<open>A string of fixed size: the block and the terminating zero, whatever the status is.\<close>

definition ym_read_fixed :: "'w pmbus \<Rightarrow> u8 \<Rightarrow> u8 list \<Rightarrow> 'w \<Rightarrow> (int \<times> u8 list \<times> 'w) option" where
  "ym_read_fixed K command arr w =
     (let (status, bytes, w) = ym2651y_read_block K command (length arr - 1) w in
      do { arr \<leftarrow> store_block bytes arr;
           arr \<leftarrow> store_at (length arr - 1) 0 arr;
           Some (status, arr, w) })"

text \<open>
  A string with its length: the first byte is read into \<open>buf\<close>, then that many bytes and one more.
  \<open>buf\<close> is \<open>None\<close> while it is uninitialised.
\<close>

definition ym_read_sized :: "'w pmbus \<Rightarrow> u8 \<Rightarrow> u8 list \<Rightarrow> u8 option \<Rightarrow> 'w \<Rightarrow> (int \<times> u8 list \<times> u8 option \<times> 'w) option" where
  "ym_read_sized K command arr buf w =
     (let (status, bytes, w) = ym2651y_read_block K command 1 w;
          buf = (case bytes of [] \<Rightarrow> buf | b # _ \<Rightarrow> Some b) in
      if length bytes > 1 then None
      else if status < 0 then Some (status, arr, buf, w)
      else
        do { b \<leftarrow> buf;
             let (status, bytes, w) = ym2651y_read_block K command (unat b + 1) w in
             do { arr \<leftarrow> store_block bytes arr;
                  arr \<leftarrow> store_at (unat b + 1) 0 arr;
                  Some (status, arr, buf, w) } })"

text \<open>The strings, each after the one before succeeded; whether all were read.\<close>

definition ym_read_strings :: "'w pmbus \<Rightarrow> ym2651y_data \<times> 'w \<Rightarrow> (bool \<times> ym2651y_data \<times> 'w) option" where
  "ym_read_strings K s =
     (let (d, w) = s in
      do { (status, arr, w) \<leftarrow> ym_read_fixed K 0xC3 (ym_fan_dir d) w;
           let d = d\<lparr>ym_fan_dir := arr\<rparr> in
           if status < 0 then Some (False, d, w)
           else
      do { (status, arr, w) \<leftarrow> ym_read_fixed K 0x99 (ym_mfr_id d) w;
           let d = d\<lparr>ym_mfr_id := arr\<rparr> in
           if status < 0 then Some (False, d, w)
           else
      do { (status, arr, buf, w) \<leftarrow> ym_read_sized K 0x9a (ym_mfr_model d) None w;
           let d = d\<lparr>ym_mfr_model := arr\<rparr> in
           if status < 0 then Some (False, d, w)
           else
      do { (status, arr, buf, w) \<leftarrow> ym_read_sized K 0xd0 (ym_mfr_model_opt d) buf w;
           let d = d\<lparr>ym_mfr_model_opt := arr\<rparr> in
           if status < 0 then Some (False, d, w)
           else
      do { (status, arr, w) \<leftarrow> ym_read_fixed K 0x9b (ym_mfr_revsion d) w;
           let d = d\<lparr>ym_mfr_revsion := arr\<rparr> in
           if status < 0 then Some (False, d, w)
           else
      do { (status, arr, buf, w) \<leftarrow> ym_read_sized K 0x9e (ym_mfr_serial d) buf w;
           let d = d\<lparr>ym_mfr_serial := arr\<rparr> in
           Some (status \<ge> 0, d, w) } } } } } })"

text \<open>\<open>block\<close> is the module variable \<open>support_i2c_block\<close>.\<close>

definition ym2651y_update_device :: "'w pmbus \<Rightarrow> bool \<Rightarrow> ym2651y_data \<times> 'w \<Rightarrow> (ym2651y_data \<times> 'w) option" where
  "ym2651y_update_device K block s =
     (let (d, w) = s in
      if ym_lock d then None
      else if time_after (pb_jiffies K w) (ym_last_updated d + pb_hz K + pb_hz K div 2) \<or> \<not> ym_valid d then
        (let (ok, d, w) = read_table (ym2651y_read_byte K) ym_regs_byte (d\<lparr>ym_valid := False\<rparr>, w) in
         if \<not> ok then Some (d, w)
         else
           (let (ok, d, w) = read_table (ym2651y_read_word K) ym_regs_word (d, w) in
            if \<not> ok then Some (d, w)
            else
              do { (ok, d, w) \<leftarrow> (if block then ym_read_strings K (d, w) else Some (True, d, w));
                   Some (if ok then (d\<lparr>ym_last_updated := pb_jiffies K w, ym_valid := True\<rparr>, w) else (d, w)) }))
      else Some (d, w))"

section \<open>Attributes\<close>

text \<open>Refresh the cache and print from it; nothing is printed when it is not valid.\<close>

definition ym_show ::
  "'w pmbus \<Rightarrow> bool \<Rightarrow> (ym2651y_data \<Rightarrow> (u8 list \<times> ym2651y_data) option) \<Rightarrow> ym2651y_data \<times> 'w
   \<Rightarrow> (u8 list \<times> ym2651y_data \<times> 'w) option" where
  "ym_show K block out s =
     do { (d, w) \<leftarrow> ym2651y_update_device K block s;
          if \<not> ym_valid d then Some ([], d, w)
          else do { (bytes, d) \<leftarrow> out d; Some (bytes, d, w) } }"

definition ym_show_byte where
  "ym_show_byte K block attr s =
     ym_show K block (\<lambda>d. Some (print_d (if attr = PSU_PMBUS_REVISION then uint (ym_pmbus_revision d) else 0), d)) s"

definition ym_show_word where
  "ym_show_word K block attr s =
     ym_show K block
       (\<lambda>d. Some
          (case attr of
             PSU_POWER_ON \<Rightarrow> print_d (if has (ym_status_word d) 0x40 then 0 else 1)
           | PSU_TEMP_FAULT \<Rightarrow> print_d (uint (drop_bit 2 (ym_status_word d AND 0x4)))
           | PSU_POWER_GOOD \<Rightarrow> print_d (if has (ym_status_word d) 0x800 then 0 else 1)
           | _ \<Rightarrow> [], d)) s"

text \<open>The register a linear attribute prints, and its scale.\<close>

definition ym_reads_input :: "ym2651y_data \<Rightarrow> bool" where
  "ym_reads_input d \<longleftrightarrow> starts_with ''DPS-850A'' (drop 1 (ym_mfr_model d)) \<or> starts_with ''YM-2851J'' (drop 1 (ym_mfr_model d))"

definition ym_linear :: "psu_attr \<Rightarrow> ym2651y_data \<Rightarrow> (u16 \<times> int) option" where
  "ym_linear attr d =
     (case attr of
        PSU_V_IN \<Rightarrow> Some (if ym_reads_input d then ym_v_in d else 0, 1000)
      | PSU_I_IN \<Rightarrow> Some (if ym_reads_input d then ym_i_in d else 0, 1000)
      | PSU_P_IN \<Rightarrow> Some (if ym_reads_input d then ym_p_in d else 0, 1000)
      | PSU_V_OUT \<Rightarrow> Some (ym_v_out d, 1000)
      | PSU_I_OUT \<Rightarrow> Some (ym_i_out d, 1000)
      | PSU_P_OUT \<Rightarrow> Some (ym_p_out d, 1000)
      | PSU_TEMP1_INPUT \<Rightarrow> Some (ym_temp d, 1000)
      | PSU_FAN1_SPEED \<Rightarrow> Some (ym_fan_speed d, 1)
      | PSU_FAN1_DUTY_CYCLE \<Rightarrow> Some (ym_fan_duty_cycle0 d, 1)
      | PSU_MFR_VIN_MIN \<Rightarrow> Some (ym_mfr_vin_min d, 1000)
      | PSU_MFR_VIN_MAX \<Rightarrow> Some (ym_mfr_vin_max d, 1000)
      | PSU_MFR_VOUT_MIN \<Rightarrow> Some (ym_mfr_vout_min d, 1000)
      | PSU_MFR_VOUT_MAX \<Rightarrow> Some (ym_mfr_vout_max d, 1000)
      | PSU_MFR_PIN_MAX \<Rightarrow> Some (ym_mfr_pin_max d, 1000)
      | PSU_MFR_POUT_MAX \<Rightarrow> Some (ym_mfr_pout_max d, 1000)
      | PSU_MFR_IOUT_MAX \<Rightarrow> Some (ym_mfr_iout_max d, 1000)
      | PSU_MFR_IIN_MAX \<Rightarrow> Some (ym_mfr_iin_max d, 1000)
      | _ \<Rightarrow> None)"

definition ym_show_linear where
  "ym_show_linear K block attr s =
     ym_show K block
       (\<lambda>d. Some (case ym_linear attr d of None \<Rightarrow> [] | Some (value, mult) \<Rightarrow> print_d (linear_value value mult), d)) s"

definition ym_show_fan_fault where
  "ym_show_fan_fault K block attr s =
     ym_show K block (\<lambda>d. Some (print_d (uint (drop_bit (if attr = PSU_FAN1_FAULT then 7 else 6) (ym_fan_fault d))), d)) s"

definition ym_show_over_temp where
  "ym_show_over_temp K block s = ym_show K block (\<lambda>d. Some (print_d (uint (drop_bit 7 (ym_over_temp d))), d)) s"

text \<open>The direction of the fan of a PTT1600 is written over the string; \<open>strcpy\<close> stores four bytes.\<close>

definition ym_fan_dir_fixup :: "ym2651y_data \<Rightarrow> ym2651y_data" where
  "ym_fan_dir_fixup d =
     (let b = ym_fan_dir d ! 0;
          put = (\<lambda>s. d\<lparr>ym_fan_dir := take 1 (ym_fan_dir d) @ bytes_of s @ [0] @ drop 5 (ym_fan_dir d)\<rparr>) in
      if starts_with ''PTT1600'' (drop 1 (ym_mfr_model d)) then
        (if \<not> bit b 3 \<and> bit b 4 then put ''AFO''
         else if bit b 3 \<and> \<not> bit b 4 then put ''AFI''
         else d)
      else d)"

definition ym_show_ascii where
  "ym_show_ascii K block attr s =
     ym_show K block
       (\<lambda>d. let d = (if attr = PSU_FAN_DIRECTION then ym_fan_dir_fixup d else d);
                print = (\<lambda>arr. map_option (\<lambda>str. (str @ [0x0A], d)) (c_string (drop 1 arr))) in
            case attr of
              PSU_FAN_DIRECTION \<Rightarrow> print (ym_fan_dir d)
            | PSU_MFR_ID \<Rightarrow> print (ym_mfr_id d)
            | PSU_MFR_MODEL \<Rightarrow> print (ym_mfr_model d)
            | PSU_MFR_MODEL_OPTION \<Rightarrow> print (ym_mfr_model_opt d)
            | PSU_MFR_REVISION \<Rightarrow> print (ym_mfr_revsion d)
            | PSU_MFR_SERIAL \<Rightarrow> print (ym_mfr_serial d)
            | _ \<Rightarrow> Some ([], d)) s"

definition ym_show_vout_by_mode where
  "ym_show_vout_by_mode K block attr s =
     ym_show K block
       (\<lambda>d. Some
          (case attr of
             PSU_MFR_VOUT_MIN \<Rightarrow> print_d (vout_value (ym_vout_mode d) (ym_mfr_vout_min d))
           | PSU_MFR_VOUT_MAX \<Rightarrow> print_d (vout_value (ym_vout_mode d) (ym_mfr_vout_max d))
           | PSU_V_OUT \<Rightarrow> print_d (vout_value (ym_vout_mode d) (ym_v_out d))
           | _ \<Rightarrow> [], d)) s"

text \<open>The format is chosen from the cache before it is refreshed.\<close>

definition ym_show_vout where
  "ym_show_vout K block attr s =
     (if ym_chip (fst s) = YM2401 \<or> ym_reads_input (fst s)
      then ym_show_vout_by_mode K block attr s
      else ym_show_linear K block attr s)"

definition ym_set_fan_duty_cycle ::
  "'w pmbus \<Rightarrow> psu_attr \<Rightarrow> u8 list \<Rightarrow> ym2651y_data \<times> 'w \<Rightarrow> (int \<times> ym2651y_data \<times> 'w) option" where
  "ym_set_fan_duty_cycle K attr buf s =
     (let (d, w) = s in
      case pb_kstrtol K buf of
        Inl e \<Rightarrow> Some (e, d, w)
      | Inr speed \<Rightarrow>
          if speed < 0 \<or> speed > MAX_FAN_DUTY_CYCLE then Some (- EINVAL, d, w)
          else if ym_lock d then None
          else
            (let duty = word_of_int speed :: u16;
                 first = (attr = PSU_FAN1_DUTY_CYCLE);
                 d = (if first then d\<lparr>ym_fan_duty_cycle0 := duty\<rparr> else d\<lparr>ym_fan_duty_cycle1 := duty\<rparr>);
                 (_, w) = ym2651y_write_word K (if first then 0x3B else 0x3C) duty w in
             Some (int (length buf), d, w)))"

section \<open>Probe\<close>

text \<open>The data \<open>kzalloc\<close> gives, with the chip of the table.\<close>

definition ym2651y_new :: "chips \<Rightarrow> ym2651y_data" where
  "ym2651y_new chip =
     \<lparr>ym_lock = False, ym_valid = False, ym_last_updated = 0, ym_chip = chip, ym_capability = 0,
      ym_status_word = 0, ym_fan_fault = 0, ym_over_temp = 0, ym_v_in = 0, ym_i_in = 0, ym_p_in = 0,
      ym_v_out = 0, ym_i_out = 0, ym_p_out = 0, ym_vout_mode = 0, ym_temp = 0, ym_fan_speed = 0,
      ym_fan_duty_cycle0 = 0, ym_fan_duty_cycle1 = 0, ym_fan_dir = replicate 5 0, ym_pmbus_revision = 0,
      ym_mfr_id = replicate 10 0, ym_mfr_model = replicate 16 0, ym_mfr_model_opt = replicate 8 0,
      ym_mfr_revsion = replicate 3 0, ym_mfr_serial = replicate 21 0, ym_mfr_vin_min = 0, ym_mfr_vin_max = 0,
      ym_mfr_iin_max = 0, ym_mfr_iout_max = 0, ym_mfr_pin_max = 0, ym_mfr_pout_max = 0, ym_mfr_vout_min = 0,
      ym_mfr_vout_max = 0\<rparr>"

text \<open>\<open>i2c_block\<close>: whether the adapter has block transfers, which the module variable remembers as not.\<close>

definition ym2651y_probe ::
  "chips \<Rightarrow> bool \<Rightarrow> hwmon_env \<Rightarrow> bool \<Rightarrow> int \<times> hwmon_resource set \<times> ym2651y_data option \<times> bool" where
  "ym2651y_probe chip i2c_block e support_i2c_block =
     (let (status, res) = hwmon_probe e in
      (status, res, if status = 0 then Some (ym2651y_new chip) else None,
       if func_ok e \<and> \<not> i2c_block then False else support_i2c_block))"

end
