(* ===== verification/AcctonPsu.thy ===== *)
theory AcctonPsu
  imports Pmbus
begin

text \<open>
  \<open>accton_i2c_psu.c\<close> and \<open>cpr_4011_4mxx.c\<close>: two drivers that keep the old value of a register they
  cannot read. The first also reads the strings of the supply, through a buffer and with their length.
\<close>

section \<open>\<open>accton_i2c_psu.c\<close>\<close>

definition PMBUS_LITERAL_DATA_MULTIPLIER :: int where [simp]: "PMBUS_LITERAL_DATA_MULTIPLIER = 1000"
definition PMBUS_REGISTER_VOUT_MODE :: u8 where "PMBUS_REGISTER_VOUT_MODE = 0x20"
definition PMBUS_REGISTER_STATUS_FAN :: u8 where "PMBUS_REGISTER_STATUS_FAN = 0x81"
definition PMBUS_REGISTER_READ_VIN :: u8 where "PMBUS_REGISTER_READ_VIN = 0x88"
definition PMBUS_REGISTER_READ_IIN :: u8 where "PMBUS_REGISTER_READ_IIN = 0x89"
definition PMBUS_REGISTER_READ_VOUT :: u8 where "PMBUS_REGISTER_READ_VOUT = 0x8B"
definition PMBUS_REGISTER_READ_IOUT :: u8 where "PMBUS_REGISTER_READ_IOUT = 0x8C"
definition PMBUS_REGISTER_READ_TEMPERATURE_1 :: u8 where "PMBUS_REGISTER_READ_TEMPERATURE_1 = 0x8D"
definition PMBUS_REGISTER_READ_TEMPERATURE_2 :: u8 where "PMBUS_REGISTER_READ_TEMPERATURE_2 = 0x8E"
definition PMBUS_REGISTER_READ_FAN_SPEED_1 :: u8 where "PMBUS_REGISTER_READ_FAN_SPEED_1 = 0x90"
definition PMBUS_REGISTER_READ_FAN_SPEED_2 :: u8 where "PMBUS_REGISTER_READ_FAN_SPEED_2 = 0x91"
definition PMBUS_REGISTER_FAN_COMMAND_1 :: u8 where "PMBUS_REGISTER_FAN_COMMAND_1 = 0x3B"
definition PMBUS_REGISTER_READ_POUT :: u8 where "PMBUS_REGISTER_READ_POUT = 0x96"
definition PMBUS_REGISTER_READ_PIN :: u8 where "PMBUS_REGISTER_READ_PIN = 0x97"
definition PMBUS_REGISTER_MFR_ID :: u8 where "PMBUS_REGISTER_MFR_ID = 0x99"
definition PMBUS_REGISTER_MFR_MODEL :: u8 where "PMBUS_REGISTER_MFR_MODEL = 0x9A"
definition PMBUS_REGISTER_MFR_REVISION :: u8 where "PMBUS_REGISTER_MFR_REVISION = 0x9B"
definition PMBUS_REGISTER_MFR_SERIAL :: u8 where "PMBUS_REGISTER_MFR_SERIAL = 0x9E"


record accton_i2c_psu_data =
  acc_lock :: bool
  acc_valid :: bool
  acc_last_updated :: u64
  acc_vout_mode :: u8
  acc_v_in :: u16
  acc_v_out :: u16
  acc_i_in :: u16
  acc_i_out :: u16
  acc_p_in :: u16
  acc_p_out :: u16
  acc_temp_input0 :: u16
  acc_temp_input1 :: u16
  acc_fan_fault :: u8
  acc_fan_duty_cycle0 :: u16
  acc_fan_duty_cycle1 :: u16
  acc_fan_speed0 :: u16
  acc_fan_speed1 :: u16
  acc_pmbus_revision :: u8
  acc_mfr_id :: "u8 list"
  acc_mfr_model :: "u8 list"
  acc_mfr_revsion :: "u8 list"
  acc_mfr_serial :: "u8 list"

definition accton_i2c_psu_read_byte :: "'w pmbus \<Rightarrow> u8 \<Rightarrow> 'w \<Rightarrow> int \<times> 'w" where
  "accton_i2c_psu_read_byte K reg w = pb_read_byte K reg w"

definition accton_i2c_psu_read_word :: "'w pmbus \<Rightarrow> u8 \<Rightarrow> 'w \<Rightarrow> int \<times> 'w" where
  "accton_i2c_psu_read_word K reg w = pb_read_word K reg w"

definition accton_i2c_psu_write_word :: "'w pmbus \<Rightarrow> u8 \<Rightarrow> u16 \<Rightarrow> 'w \<Rightarrow> int \<times> 'w" where
  "accton_i2c_psu_write_word K reg value w = pb_write_word K reg value w"

definition accton_i2c_psu_read_block :: "'w pmbus \<Rightarrow> u8 \<Rightarrow> nat \<Rightarrow> 'w \<Rightarrow> int \<times> u8 list \<times> 'w" where
  "accton_i2c_psu_read_block K command data_len w =
     (let (status, bytes, w) =
        i2c_retry I2C_RW_RETRY_COUNT_psu (pb_read_block K command (word_of_nat data_len)) (0, []) w in
      (status, if status < 0 then [] else bytes, w))"

text \<open>
  The string with its length. The last store is at \<open>length - 1\<close>; with \<open>length\<close> zero it is before the
  array.
\<close>

definition accton_i2c_psu_read_block_data ::
  "'w pmbus \<Rightarrow> u8 \<Rightarrow> u8 list \<Rightarrow> 'w \<Rightarrow> (int \<times> u8 list \<times> 'w) option" where
  "accton_i2c_psu_read_block_data K command arr w =
     (let (status, w) = accton_i2c_psu_read_byte K command w in
      if status < 0 then Some (- EIO, arr, w)
      else
        (let size = uint (word_of_int status :: u8) + 1 in
         if size > 128 then Some (- EINVAL, arr, w)
         else
           (let (status, bytes, w) = accton_i2c_psu_read_block K command (nat size) w in
            do { buffer \<leftarrow> store_block bytes (replicate 128 0);
                 if status < 0 then Some (status, arr, w)
                 else if status \<noteq> size then Some (- EIO, arr, w)
                 else
                   (let status = status - 1;
                        len = (if status > int (length arr) - 1 then length arr - 1 else nat status) in
                    if len = 0 then None
                    else Some (status, (take len (drop 1 buffer) @ drop len arr)[len - 1 := 0], w)) })))"

definition acc_regs_byte :: "(u8 \<times> (int \<Rightarrow> accton_i2c_psu_data \<Rightarrow> accton_i2c_psu_data)) list" where
  "acc_regs_byte =
     [(PMBUS_REGISTER_VOUT_MODE, \<lambda>v. acc_vout_mode_update (\<lambda>_. word_of_int v)),
      (PMBUS_REGISTER_STATUS_FAN, \<lambda>v. acc_fan_fault_update (\<lambda>_. word_of_int v))]"

definition acc_regs_word :: "(u8 \<times> (int \<Rightarrow> accton_i2c_psu_data \<Rightarrow> accton_i2c_psu_data)) list" where
  "acc_regs_word =
     [(PMBUS_REGISTER_READ_VIN, \<lambda>v. acc_v_in_update (\<lambda>_. word_of_int v)),
      (PMBUS_REGISTER_READ_VOUT, \<lambda>v. acc_v_out_update (\<lambda>_. word_of_int v)),
      (PMBUS_REGISTER_READ_IIN, \<lambda>v. acc_i_in_update (\<lambda>_. word_of_int v)),
      (PMBUS_REGISTER_READ_IOUT, \<lambda>v. acc_i_out_update (\<lambda>_. word_of_int v)),
      (PMBUS_REGISTER_READ_POUT, \<lambda>v. acc_p_out_update (\<lambda>_. word_of_int v)),
      (PMBUS_REGISTER_READ_PIN, \<lambda>v. acc_p_in_update (\<lambda>_. word_of_int v)),
      (PMBUS_REGISTER_READ_TEMPERATURE_1, \<lambda>v. acc_temp_input0_update (\<lambda>_. word_of_int v)),
      (PMBUS_REGISTER_READ_TEMPERATURE_2, \<lambda>v. acc_temp_input1_update (\<lambda>_. word_of_int v)),
      (PMBUS_REGISTER_FAN_COMMAND_1, \<lambda>v. acc_fan_duty_cycle0_update (\<lambda>_. word_of_int v)),
      (PMBUS_REGISTER_READ_FAN_SPEED_1, \<lambda>v. acc_fan_speed0_update (\<lambda>_. word_of_int v)),
      (PMBUS_REGISTER_READ_FAN_SPEED_2, \<lambda>v. acc_fan_speed1_update (\<lambda>_. word_of_int v))]"

definition acc_read_strings :: "'w pmbus \<Rightarrow> accton_i2c_psu_data \<times> 'w \<Rightarrow> (bool \<times> accton_i2c_psu_data \<times> 'w) option" where
  "acc_read_strings K s =
     (let (d, w) = s in
      do { (status, arr, w) \<leftarrow> accton_i2c_psu_read_block_data K PMBUS_REGISTER_MFR_ID (acc_mfr_id d) w;
           let d = d\<lparr>acc_mfr_id := arr\<rparr> in
           if status < 0 then Some (False, d, w)
           else
      do { (status, arr, w) \<leftarrow> accton_i2c_psu_read_block_data K PMBUS_REGISTER_MFR_MODEL (acc_mfr_model d) w;
           let d = d\<lparr>acc_mfr_model := arr\<rparr> in
           if status < 0 then Some (False, d, w)
           else
      do { (status, arr, w) \<leftarrow> accton_i2c_psu_read_block_data K PMBUS_REGISTER_MFR_REVISION (acc_mfr_revsion d) w;
           let d = d\<lparr>acc_mfr_revsion := arr\<rparr> in
           if status < 0 then Some (False, d, w)
           else
      do { (status, arr, w) \<leftarrow> accton_i2c_psu_read_block_data K PMBUS_REGISTER_MFR_SERIAL (acc_mfr_serial d) w;
           Some (status \<ge> 0, d\<lparr>acc_mfr_serial := arr\<rparr>, w) } } } })"

definition accton_i2c_psu_update_device :: "'w pmbus \<Rightarrow> accton_i2c_psu_data \<times> 'w \<Rightarrow> (accton_i2c_psu_data \<times> 'w) option" where
  "accton_i2c_psu_update_device K s =
     (let (d, w) = s in
      if acc_lock d then None
      else if time_after (pb_jiffies K w) (acc_last_updated d + pb_hz K + pb_hz K div 2) \<or> \<not> acc_valid d then
        (let s = read_table_skip (accton_i2c_psu_read_byte K) acc_regs_byte (d, w);
             s = read_table_skip (accton_i2c_psu_read_word K) acc_regs_word s in
         do { (ok, d, w) \<leftarrow> acc_read_strings K s;
              Some (if ok then (d\<lparr>acc_last_updated := pb_jiffies K w, acc_valid := True\<rparr>, w) else (d, w)) })
      else Some (d, w))"

definition acc_linear :: "psu_attr \<Rightarrow> accton_i2c_psu_data \<Rightarrow> u16 \<times> int" where
  "acc_linear attr d =
     (let (value, multiplier) =
        (case attr of
           PSU_V_IN \<Rightarrow> (acc_v_in d, 0)
         | PSU_I_IN \<Rightarrow> (acc_i_in d, 0)
         | PSU_I_OUT \<Rightarrow> (acc_i_out d, 0)
         | PSU_P_IN \<Rightarrow> (acc_p_in d, 0)
         | PSU_P_OUT \<Rightarrow> (acc_p_out d, 0)
         | PSU_TEMP1_INPUT \<Rightarrow> (acc_temp_input0 d, 0)
         | PSU_FAN1_DUTY_CYCLE \<Rightarrow> (acc_fan_duty_cycle0 d, 1)
         | PSU_FAN1_SPEED \<Rightarrow> (acc_fan_speed0 d, 1)
         | _ \<Rightarrow> (0, 0)) in
      (value, if multiplier = 0 then PMBUS_LITERAL_DATA_MULTIPLIER else multiplier))"

definition acc_show_linear where
  "acc_show_linear K attr s =
     do { (d, w) \<leftarrow> accton_i2c_psu_update_device K s;
          Some (let (value, multiplier) = acc_linear attr d in print_d (linear_value value multiplier), d, w) }"

definition acc_show_fan_fault where
  "acc_show_fan_fault K attr s =
     do { (d, w) \<leftarrow> accton_i2c_psu_update_device K s;
          Some (print_d (uint (drop_bit (if attr = PSU_FAN1_FAULT then 7 else 6) (acc_fan_fault d))), d, w) }"

definition acc_show_vout where
  "acc_show_vout K s =
     do { (d, w) \<leftarrow> accton_i2c_psu_update_device K s;
          Some (print_d (vout_value (acc_vout_mode d) (acc_v_out d)), d, w) }"

definition acc_show_byte where
  "acc_show_byte K attr s =
     do { (d, w) \<leftarrow> accton_i2c_psu_update_device K s;
          Some (if \<not> acc_valid d then []
                else print_d (if attr = PSU_PMBUS_REVISION then uint (acc_pmbus_revision d) else 0), d, w) }"

definition acc_show_ascii where
  "acc_show_ascii K attr s =
     do { (d, w) \<leftarrow> accton_i2c_psu_update_device K s;
          let print = (\<lambda>arr. map_option (\<lambda>str. (str @ [0x0A], d, w)) (c_string arr)) in
          if \<not> acc_valid d then Some ([], d, w)
          else
            (case attr of
               PSU_MFR_ID \<Rightarrow> print (acc_mfr_id d)
             | PSU_MFR_MODEL \<Rightarrow> print (acc_mfr_model d)
             | PSU_MFR_REVISION \<Rightarrow> print (acc_mfr_revsion d)
             | PSU_MFR_SERIAL \<Rightarrow> print (acc_mfr_serial d)
             | _ \<Rightarrow> Some ([], d, w)) }"

definition acc_set_fan_duty_cycle where
  "acc_set_fan_duty_cycle K attr buf s =
     (let (d, w) = s in
      case pb_kstrtol K buf of
        Inl e \<Rightarrow> Some (e, d, w)
      | Inr speed \<Rightarrow>
          if speed < 0 \<or> speed > MAX_FAN_DUTY_CYCLE then Some (- EINVAL, d, w)
          else if acc_lock d then None
          else
            (let duty = word_of_int speed :: u16;
                 first = (attr = PSU_FAN1_DUTY_CYCLE);
                 d = (if first then d\<lparr>acc_fan_duty_cycle0 := duty\<rparr> else d\<lparr>acc_fan_duty_cycle1 := duty\<rparr>);
                 (_, w) = accton_i2c_psu_write_word K
                   (if first then PMBUS_REGISTER_FAN_COMMAND_1 else PMBUS_REGISTER_FAN_COMMAND_1 + 1) duty w in
             Some (int (length buf), d, w)))"

text \<open>The data \<open>kzalloc\<close> gives.\<close>

definition accton_i2c_psu_new :: accton_i2c_psu_data where
  "accton_i2c_psu_new =
     \<lparr>acc_lock = False, acc_valid = False, acc_last_updated = 0, acc_vout_mode = 0, acc_v_in = 0,
      acc_v_out = 0, acc_i_in = 0, acc_i_out = 0, acc_p_in = 0, acc_p_out = 0, acc_temp_input0 = 0,
      acc_temp_input1 = 0, acc_fan_fault = 0, acc_fan_duty_cycle0 = 0, acc_fan_duty_cycle1 = 0,
      acc_fan_speed0 = 0, acc_fan_speed1 = 0, acc_pmbus_revision = 0, acc_mfr_id = replicate 10 0,
      acc_mfr_model = replicate 16 0, acc_mfr_revsion = replicate 3 0, acc_mfr_serial = replicate 26 0\<rparr>"

definition accton_i2c_psu_probe :: "hwmon_env \<Rightarrow> int \<times> hwmon_resource set \<times> accton_i2c_psu_data option" where
  "accton_i2c_psu_probe e = (let (status, res) = hwmon_probe e in (status, res, if status = 0 then Some accton_i2c_psu_new else None))"

section \<open>\<open>cpr_4011_4mxx.c\<close>\<close>

record cpr_4011_4mxx_data =
  cpr_lock :: bool
  cpr_valid :: bool
  cpr_last_updated :: u64
  cpr_vout_mode :: u8
  cpr_v_in :: u16
  cpr_v_out :: u16
  cpr_i_in :: u16
  cpr_i_out :: u16
  cpr_p_in :: u16
  cpr_p_out :: u16
  cpr_temp_input0 :: u16
  cpr_temp_input1 :: u16
  cpr_fan_fault :: u8
  cpr_fan_duty_cycle0 :: u16
  cpr_fan_duty_cycle1 :: u16
  cpr_fan_speed0 :: u16
  cpr_fan_speed1 :: u16

definition cpr_4011_4mxx_read_byte :: "'w pmbus \<Rightarrow> u8 \<Rightarrow> 'w \<Rightarrow> int \<times> 'w" where
  "cpr_4011_4mxx_read_byte K reg w = pb_read_byte K reg w"

definition cpr_4011_4mxx_read_word :: "'w pmbus \<Rightarrow> u8 \<Rightarrow> 'w \<Rightarrow> int \<times> 'w" where
  "cpr_4011_4mxx_read_word K reg w = pb_read_word K reg w"

definition cpr_4011_4mxx_write_word :: "'w pmbus \<Rightarrow> u8 \<Rightarrow> u16 \<Rightarrow> 'w \<Rightarrow> int \<times> 'w" where
  "cpr_4011_4mxx_write_word K reg value w = pb_write_word K reg value w"

definition cpr_regs_byte :: "(u8 \<times> (int \<Rightarrow> cpr_4011_4mxx_data \<Rightarrow> cpr_4011_4mxx_data)) list" where
  "cpr_regs_byte =
     [(0x20, \<lambda>v. cpr_vout_mode_update (\<lambda>_. word_of_int v)),
      (0x81, \<lambda>v. cpr_fan_fault_update (\<lambda>_. word_of_int v))]"

definition cpr_regs_word :: "(u8 \<times> (int \<Rightarrow> cpr_4011_4mxx_data \<Rightarrow> cpr_4011_4mxx_data)) list" where
  "cpr_regs_word =
     [(0x88, \<lambda>v. cpr_v_in_update (\<lambda>_. word_of_int v)),
      (0x8b, \<lambda>v. cpr_v_out_update (\<lambda>_. word_of_int v)),
      (0x89, \<lambda>v. cpr_i_in_update (\<lambda>_. word_of_int v)),
      (0x8c, \<lambda>v. cpr_i_out_update (\<lambda>_. word_of_int v)),
      (0x96, \<lambda>v. cpr_p_out_update (\<lambda>_. word_of_int v)),
      (0x97, \<lambda>v. cpr_p_in_update (\<lambda>_. word_of_int v)),
      (0x8d, \<lambda>v. cpr_temp_input0_update (\<lambda>_. word_of_int v)),
      (0x8e, \<lambda>v. cpr_temp_input1_update (\<lambda>_. word_of_int v)),
      (0x3b, \<lambda>v. cpr_fan_duty_cycle0_update (\<lambda>_. word_of_int v)),
      (0x3c, \<lambda>v. cpr_fan_duty_cycle1_update (\<lambda>_. word_of_int v)),
      (0x90, \<lambda>v. cpr_fan_speed0_update (\<lambda>_. word_of_int v)),
      (0x91, \<lambda>v. cpr_fan_speed1_update (\<lambda>_. word_of_int v))]"

definition cpr_4011_4mxx_update_device :: "'w pmbus \<Rightarrow> cpr_4011_4mxx_data \<times> 'w \<Rightarrow> (cpr_4011_4mxx_data \<times> 'w) option" where
  "cpr_4011_4mxx_update_device K s =
     (let (d, w) = s in
      if cpr_lock d then None
      else if time_after (pb_jiffies K w) (cpr_last_updated d + pb_hz K + pb_hz K div 2) \<or> \<not> cpr_valid d then
        (let s = read_table_skip (cpr_4011_4mxx_read_byte K) cpr_regs_byte (d, w);
             (d, w) = read_table_skip (cpr_4011_4mxx_read_word K) cpr_regs_word s in
         Some (d\<lparr>cpr_last_updated := pb_jiffies K w, cpr_valid := True\<rparr>, w))
      else Some (d, w))"

definition cpr_linear :: "psu_attr \<Rightarrow> cpr_4011_4mxx_data \<Rightarrow> u16 \<times> int" where
  "cpr_linear attr d =
     (case attr of
        PSU_V_IN \<Rightarrow> (cpr_v_in d, 1000)
      | PSU_I_IN \<Rightarrow> (cpr_i_in d, 1000)
      | PSU_I_OUT \<Rightarrow> (cpr_i_out d, 1000)
      | PSU_P_IN \<Rightarrow> (cpr_p_in d, 1000)
      | PSU_P_OUT \<Rightarrow> (cpr_p_out d, 1000)
      | PSU_TEMP1_INPUT \<Rightarrow> (cpr_temp_input0 d, 1000)
      | PSU_FAN1_DUTY_CYCLE \<Rightarrow> (cpr_fan_duty_cycle0 d, 1)
      | PSU_FAN1_SPEED \<Rightarrow> (cpr_fan_speed0 d, 1)
      | _ \<Rightarrow> (0, 1000))"

definition cpr_show_linear where
  "cpr_show_linear K attr s =
     do { (d, w) \<leftarrow> cpr_4011_4mxx_update_device K s;
          Some (let (value, multiplier) = cpr_linear attr d in print_d (linear_value value multiplier), d, w) }"

definition cpr_show_fan_fault where
  "cpr_show_fan_fault K attr s =
     do { (d, w) \<leftarrow> cpr_4011_4mxx_update_device K s;
          Some (print_d (uint (drop_bit (if attr = PSU_FAN1_FAULT then 7 else 6) (cpr_fan_fault d))), d, w) }"

definition cpr_show_vout where
  "cpr_show_vout K s =
     do { (d, w) \<leftarrow> cpr_4011_4mxx_update_device K s;
          Some (print_d (vout_value (cpr_vout_mode d) (cpr_v_out d)), d, w) }"

definition cpr_set_fan_duty_cycle where
  "cpr_set_fan_duty_cycle K attr buf s =
     (let (d, w) = s in
      case pb_kstrtol K buf of
        Inl e \<Rightarrow> Some (e, d, w)
      | Inr speed \<Rightarrow>
          if speed < 0 \<or> speed > MAX_FAN_DUTY_CYCLE then Some (- EINVAL, d, w)
          else if cpr_lock d then None
          else
            (let duty = word_of_int speed :: u16;
                 first = (attr = PSU_FAN1_DUTY_CYCLE);
                 d = (if first then d\<lparr>cpr_fan_duty_cycle0 := duty\<rparr> else d\<lparr>cpr_fan_duty_cycle1 := duty\<rparr>);
                 (_, w) = cpr_4011_4mxx_write_word K (if first then 0x3B else 0x3C) duty w in
             Some (int (length buf), d, w)))"

definition cpr_4011_4mxx_new :: cpr_4011_4mxx_data where
  "cpr_4011_4mxx_new =
     \<lparr>cpr_lock = False, cpr_valid = False, cpr_last_updated = 0, cpr_vout_mode = 0, cpr_v_in = 0,
      cpr_v_out = 0, cpr_i_in = 0, cpr_i_out = 0, cpr_p_in = 0, cpr_p_out = 0, cpr_temp_input0 = 0,
      cpr_temp_input1 = 0, cpr_fan_fault = 0, cpr_fan_duty_cycle0 = 0, cpr_fan_duty_cycle1 = 0,
      cpr_fan_speed0 = 0, cpr_fan_speed1 = 0\<rparr>"

definition cpr_4011_4mxx_probe :: "hwmon_env \<Rightarrow> int \<times> hwmon_resource set \<times> cpr_4011_4mxx_data option" where
  "cpr_4011_4mxx_probe e = (let (status, res) = hwmon_probe e in (status, res, if status = 0 then Some cpr_4011_4mxx_new else None))"

end
