(* ===== verification/Dps850.thy ===== *)
theory Dps850
  imports Pmbus
begin

text \<open>
  \<open>dps850.c\<close>, the driver of the Delta DPS-850, and \<open>emerson700.c\<close>, which finds out what a supply offers
  and leaves the attributes to the PMBus core of the kernel.
\<close>

section \<open>\<open>dps850.c\<close>\<close>

record dps850_data =
  dps_lock :: bool
  dps_valid :: bool
  dps_last_updated :: u64
  dps_vout_mode :: u8
  dps_v_in :: u16
  dps_v_out :: u16
  dps_i_in :: u16
  dps_i_out :: u16
  dps_p_in :: u16
  dps_p_out :: u16
  dps_temp_input0 :: u16
  dps_temp_input1 :: u16
  dps_temp_input2 :: u16
  dps_fan_speed :: u16
  dps_mfr_model :: "u8 list"
  dps_mfr_serial :: "u8 list"

definition dps850_read_byte :: "'w pmbus \<Rightarrow> u8 \<Rightarrow> 'w \<Rightarrow> int \<times> 'w" where
  "dps850_read_byte K reg w =
     (let (status, _, w) = i2c_retry I2C_RW_RETRY_COUNT_psu (\<lambda>w. let (s, w) = pb_read_byte K reg w in (s, (), w)) (0, ()) w in
      (status, w))"

definition dps850_read_word :: "'w pmbus \<Rightarrow> u8 \<Rightarrow> 'w \<Rightarrow> int \<times> 'w" where
  "dps850_read_word K reg w =
     (let (status, _, w) = i2c_retry I2C_RW_RETRY_COUNT_psu (\<lambda>w. let (s, w) = pb_read_word K reg w in (s, (), w)) (0, ()) w in
      (status, w))"

definition dps850_write_word :: "'w pmbus \<Rightarrow> u8 \<Rightarrow> u16 \<Rightarrow> 'w \<Rightarrow> int \<times> 'w" where
  "dps850_write_word K reg value w =
     (let (status, _, w) =
        i2c_retry I2C_RW_RETRY_COUNT_psu (\<lambda>w. let (s, w) = pb_write_word K reg value w in (s, (), w)) (0, ()) w in
      (status, w))"

definition dps850_read_block :: "'w pmbus \<Rightarrow> u8 \<Rightarrow> nat \<Rightarrow> 'w \<Rightarrow> int \<times> u8 list \<times> 'w" where
  "dps850_read_block K command data_len w =
     (let (status, bytes, w) =
        i2c_retry I2C_RW_RETRY_COUNT_psu (pb_read_block K command (word_of_nat data_len)) (0, []) w in
      (status, if status < 0 then [] else bytes, w))"

definition dps_regs_byte :: "(u8 \<times> (int \<Rightarrow> dps850_data \<Rightarrow> dps850_data)) list" where
  "dps_regs_byte = [(0x20, \<lambda>v. dps_vout_mode_update (\<lambda>_. word_of_int v))]"

definition dps_regs_word :: "(u8 \<times> (int \<Rightarrow> dps850_data \<Rightarrow> dps850_data)) list" where
  "dps_regs_word =
     [(0x88, \<lambda>v. dps_v_in_update (\<lambda>_. word_of_int v)),
      (0x8b, \<lambda>v. dps_v_out_update (\<lambda>_. word_of_int v)),
      (0x89, \<lambda>v. dps_i_in_update (\<lambda>_. word_of_int v)),
      (0x8c, \<lambda>v. dps_i_out_update (\<lambda>_. word_of_int v)),
      (0x96, \<lambda>v. dps_p_out_update (\<lambda>_. word_of_int v)),
      (0x97, \<lambda>v. dps_p_in_update (\<lambda>_. word_of_int v)),
      (0x8d, \<lambda>v. dps_temp_input0_update (\<lambda>_. word_of_int v)),
      (0x8e, \<lambda>v. dps_temp_input1_update (\<lambda>_. word_of_int v)),
      (0x8f, \<lambda>v. dps_temp_input2_update (\<lambda>_. word_of_int v)),
      (0x90, \<lambda>v. dps_fan_speed_update (\<lambda>_. word_of_int v))]"

text \<open>
  A string with its length: the array is cleared, the first byte read into \<open>buf\<close>, then that many
  bytes and one more. \<open>buf\<close> is \<open>None\<close> while it is uninitialised.
\<close>

definition dps_read_sized :: "'w pmbus \<Rightarrow> u8 \<Rightarrow> u8 list \<Rightarrow> u8 option \<Rightarrow> 'w \<Rightarrow> (int \<times> u8 list \<times> u8 option \<times> 'w) option" where
  "dps_read_sized K command arr buf w =
     (let arr = replicate (length arr) 0;
          (status, bytes, w) = dps850_read_block K command 1 w;
          buf = (case bytes of [] \<Rightarrow> buf | b # _ \<Rightarrow> Some b) in
      if length bytes > 1 then None
      else if status < 0 then Some (status, arr, buf, w)
      else
        do { b \<leftarrow> buf;
             let (status, bytes, w) = dps850_read_block K command (unat b + 1) w in
             do { arr \<leftarrow> store_block bytes arr;
                  arr \<leftarrow> store_at (unat b + 1) 0 arr;
                  Some (status, arr, buf, w) } })"

definition dps_read_strings :: "'w pmbus \<Rightarrow> dps850_data \<times> 'w \<Rightarrow> (bool \<times> dps850_data \<times> 'w) option" where
  "dps_read_strings K s =
     (let (d, w) = s in
      do { (status, arr, buf, w) \<leftarrow> dps_read_sized K 0x9a (dps_mfr_model d) None w;
           let d = d\<lparr>dps_mfr_model := arr\<rparr> in
           if status < 0 then Some (False, d, w)
           else
      do { (status, arr, buf, w) \<leftarrow> dps_read_sized K 0x9e (dps_mfr_serial d) buf w;
           Some (status \<ge> 0, d\<lparr>dps_mfr_serial := arr\<rparr>, w) } })"

definition dps850_update_device :: "'w pmbus \<Rightarrow> dps850_data \<times> 'w \<Rightarrow> (dps850_data \<times> 'w) option" where
  "dps850_update_device K s =
     (let (d, w) = s in
      if dps_lock d then None
      else if time_after (pb_jiffies K w) (dps_last_updated d + pb_hz K + pb_hz K div 2) \<or> \<not> dps_valid d then
        (let (ok, d, w) = read_table (dps850_read_byte K) dps_regs_byte (d\<lparr>dps_valid := False\<rparr>, w) in
         if \<not> ok then Some (d, w)
         else
           (let (ok, d, w) = read_table (dps850_read_word K) dps_regs_word (d, w) in
            if \<not> ok then Some (d, w)
            else
              do { (ok, d, w) \<leftarrow> dps_read_strings K (d, w);
                   Some (if ok then (d\<lparr>dps_last_updated := pb_jiffies K w, dps_valid := True\<rparr>, w) else (d, w)) }))
      else Some (d, w))"

definition dps_linear :: "psu_attr \<Rightarrow> dps850_data \<Rightarrow> u16 \<times> int" where
  "dps_linear attr d =
     (case attr of
        PSU_V_IN \<Rightarrow> (dps_v_in d, 1000)
      | PSU_I_IN \<Rightarrow> (dps_i_in d, 1000)
      | PSU_I_OUT \<Rightarrow> (dps_i_out d, 1000)
      | PSU_P_IN \<Rightarrow> (dps_p_in d, 1000)
      | PSU_P_OUT \<Rightarrow> (dps_p_out d, 1000)
      | PSU_TEMP1_INPUT \<Rightarrow> (dps_temp_input0 d, 1000)
      | PSU_TEMP2_INPUT \<Rightarrow> (dps_temp_input1 d, 1000)
      | PSU_TEMP3_INPUT \<Rightarrow> (dps_temp_input2 d, 1000)
      | PSU_FAN1_SPEED \<Rightarrow> (dps_fan_speed d, 1)
      | _ \<Rightarrow> (0, 1000))"

definition dps_show_linear where
  "dps_show_linear K attr s =
     do { (d, w) \<leftarrow> dps850_update_device K s;
          Some (if \<not> dps_valid d then []
                else let (value, multiplier) = dps_linear attr d in print_d (linear_value value multiplier), d, w) }"

definition dps_show_ascii where
  "dps_show_ascii K attr s =
     do { (d, w) \<leftarrow> dps850_update_device K s;
          let print = (\<lambda>arr. map_option (\<lambda>str. (str @ [0x0A], d, w)) (c_string (drop 1 arr))) in
          if \<not> dps_valid d then Some ([], d, w)
          else
            (case attr of
               PSU_MFR_MODEL \<Rightarrow> print (dps_mfr_model d)
             | PSU_MFR_SERIAL \<Rightarrow> print (dps_mfr_serial d)
             | _ \<Rightarrow> Some ([], d, w)) }"

definition dps_show_vout_by_mode where
  "dps_show_vout_by_mode K s =
     do { (d, w) \<leftarrow> dps850_update_device K s;
          Some (if \<not> dps_valid d then [] else print_d (vout_value (dps_vout_mode d) (dps_v_out d)), d, w) }"

text \<open>The data \<open>kzalloc\<close> gives.\<close>

definition dps850_new :: dps850_data where
  "dps850_new =
     \<lparr>dps_lock = False, dps_valid = False, dps_last_updated = 0, dps_vout_mode = 0, dps_v_in = 0,
      dps_v_out = 0, dps_i_in = 0, dps_i_out = 0, dps_p_in = 0, dps_p_out = 0, dps_temp_input0 = 0,
      dps_temp_input1 = 0, dps_temp_input2 = 0, dps_fan_speed = 0, dps_mfr_model = replicate 16 0,
      dps_mfr_serial = replicate 16 0\<rparr>"

definition dps850_probe :: "hwmon_env \<Rightarrow> int \<times> hwmon_resource set \<times> dps850_data option" where
  "dps850_probe e = (let (status, res) = hwmon_probe e in (status, res, if status = 0 then Some dps850_new else None))"

section \<open>\<open>emerson700.c\<close>\<close>

text \<open>
  The functions and the register numbers of the PMBus core of the kernel: whether a register answers
  on a page, the selection of a page, and reading a byte. The feature bits are the names of the core.
\<close>

datatype pmbus_reg =
    PMBUS_PAGE | PMBUS_VOUT_MODE | PMBUS_READ_VIN | PMBUS_READ_VCAP | PMBUS_READ_IIN | PMBUS_READ_PIN | PMBUS_STATUS_INPUT
  | PMBUS_FAN_CONFIG_12 | PMBUS_READ_FAN_SPEED_1 | PMBUS_STATUS_FAN_12
  | PMBUS_FAN_CONFIG_34 | PMBUS_READ_FAN_SPEED_3 | PMBUS_STATUS_FAN_34
  | PMBUS_READ_TEMPERATURE_1 | PMBUS_READ_TEMPERATURE_2 | PMBUS_READ_TEMPERATURE_3 | PMBUS_STATUS_TEMPERATURE
  | PMBUS_READ_VOUT | PMBUS_STATUS_VOUT | PMBUS_READ_IOUT | PMBUS_STATUS_IOUT | PMBUS_READ_POUT

datatype pmbus_have =
    HAVE_VIN | HAVE_VCAP | HAVE_IIN | HAVE_PIN | HAVE_STATUS_INPUT | HAVE_FAN12 | HAVE_STATUS_FAN12
  | HAVE_FAN34 | HAVE_STATUS_FAN34 | HAVE_TEMP | HAVE_TEMP2 | HAVE_TEMP3 | HAVE_STATUS_TEMP
  | HAVE_VOUT | HAVE_STATUS_VOUT | HAVE_IOUT | HAVE_STATUS_IOUT | HAVE_POUT

datatype pmbus_format = Linear | Vid | Direct

record 'w pmbus_core =
  check_word :: "nat \<Rightarrow> pmbus_reg \<Rightarrow> 'w \<Rightarrow> bool \<times> 'w"
  check_byte :: "nat \<Rightarrow> pmbus_reg \<Rightarrow> 'w \<Rightarrow> bool \<times> 'w"
  set_page :: "nat \<Rightarrow> 'w \<Rightarrow> int \<times> 'w"
  core_read_byte :: "nat \<Rightarrow> pmbus_reg \<Rightarrow> 'w \<Rightarrow> int \<times> 'w"
  PMBUS_PAGES :: nat

record pmbus_driver_info =
  info_pages :: nat
  info_format_vout :: pmbus_format
  info_func :: "nat \<Rightarrow> pmbus_have set"

definition have_func :: "nat \<Rightarrow> pmbus_have \<Rightarrow> pmbus_driver_info \<Rightarrow> pmbus_driver_info" where
  "have_func page h i = i\<lparr>info_func := (info_func i)(page := insert h (info_func i page))\<rparr>"

text \<open>One test and the bit it sets.\<close>

definition find_word where
  "find_word C page reg h s = (let (i, w) = s; (ok, w) = check_word C page reg w in (if ok then have_func page h i else i, w))"

definition find_byte where
  "find_byte C page reg at h s = (let (i, w) = s; (ok, w) = check_byte C page reg w in (if ok then have_func at h i else i, w))"

definition find_fans where
  "find_fans C config speed status h hs s =
     (let (i, w) = s; (ok, w) = check_byte C 0 config w in
      if \<not> ok then (i, w)
      else
        (let (ok, w) = check_word C 0 speed w in
         if \<not> ok then (i, w) else find_byte C 0 status 0 hs (have_func 0 h i, w)))"

text \<open>The sensors of one page. The status of the current is asked for on page zero.\<close>

definition find_page where
  "find_page C page s =
     (let (i, w) = s;
          (ok, w) = check_word C page PMBUS_READ_VOUT w;
          s = (if ok then find_byte C page PMBUS_STATUS_VOUT page HAVE_STATUS_VOUT (have_func page HAVE_VOUT i, w) else (i, w));
          (i, w) = s;
          (ok, w) = check_word C page PMBUS_READ_IOUT w;
          s = (if ok then find_byte C 0 PMBUS_STATUS_IOUT page HAVE_STATUS_IOUT (have_func page HAVE_IOUT i, w) else (i, w)) in
      find_word C page PMBUS_READ_POUT HAVE_POUT s)"

definition pmbus_find_sensor_groups :: "'w pmbus_core \<Rightarrow> pmbus_driver_info \<times> 'w \<Rightarrow> pmbus_driver_info \<times> 'w" where
  "pmbus_find_sensor_groups C s =
     (let s = find_word C 0 PMBUS_READ_VIN HAVE_VIN s;
          s = find_word C 0 PMBUS_READ_VCAP HAVE_VCAP s;
          s = find_word C 0 PMBUS_READ_IIN HAVE_IIN s;
          s = find_word C 0 PMBUS_READ_PIN HAVE_PIN s;
          s = (if info_func (fst s) 0 \<noteq> {} then find_byte C 0 PMBUS_STATUS_INPUT 0 HAVE_STATUS_INPUT s else s);
          s = find_fans C PMBUS_FAN_CONFIG_12 PMBUS_READ_FAN_SPEED_1 PMBUS_STATUS_FAN_12 HAVE_FAN12 HAVE_STATUS_FAN12 s;
          s = find_fans C PMBUS_FAN_CONFIG_34 PMBUS_READ_FAN_SPEED_3 PMBUS_STATUS_FAN_34 HAVE_FAN34 HAVE_STATUS_FAN34 s;
          s = find_word C 0 PMBUS_READ_TEMPERATURE_1 HAVE_TEMP s;
          s = find_word C 0 PMBUS_READ_TEMPERATURE_2 HAVE_TEMP2 s;
          s = find_word C 0 PMBUS_READ_TEMPERATURE_3 HAVE_TEMP3 s;
          s = (if info_func (fst s) 0 \<inter> {HAVE_TEMP, HAVE_TEMP2, HAVE_TEMP3} \<noteq> {}
               then find_byte C 0 PMBUS_STATUS_TEMPERATURE 0 HAVE_STATUS_TEMP s else s) in
      fold (find_page C) [0..<info_pages (fst s)] s)"

text \<open>The pages are counted from one until a selection fails.\<close>

fun count_pages :: "'w pmbus_core \<Rightarrow> nat list \<Rightarrow> nat \<Rightarrow> 'w \<Rightarrow> nat \<times> 'w" where
  "count_pages C [] page w = (page, w)"
| "count_pages C (p # ps) page w =
     (let (rv, w) = set_page C p w in if rv < 0 then (p, w) else count_pages C ps (Suc p) w)"

definition identify_pages :: "'w pmbus_core \<Rightarrow> pmbus_driver_info \<times> 'w \<Rightarrow> pmbus_driver_info \<times> 'w" where
  "identify_pages C s =
     (let (i, w) = s in
      if info_pages i = 0 then
        (let (ok, w) = check_byte C 0 PMBUS_PAGE w in
         if ok then
           (let (page, w) = count_pages C [1..<PMBUS_PAGES C] 1 w;
                (_, w) = set_page C 0 w in
            (i\<lparr>info_pages := page\<rparr>, w))
         else (i\<lparr>info_pages := 1\<rparr>, w))
      else (i, w))"

definition pmbus_identify :: "'w pmbus_core \<Rightarrow> pmbus_driver_info \<times> 'w \<Rightarrow> int \<times> pmbus_driver_info \<times> 'w" where
  "pmbus_identify C s =
     (let (i, w) = identify_pages C s;
          (ok, w) = check_byte C 0 PMBUS_VOUT_MODE w;
          (vout_mode, w) = (if ok then core_read_byte C 0 PMBUS_VOUT_MODE w else (-1, w));
          known = vout_mode \<ge> 0 \<and> vout_mode \<noteq> 0xff;
          mode = drop_bit 5 vout_mode in
      if known \<and> mode \<noteq> 0 \<and> mode \<noteq> 1 \<and> mode \<noteq> 2 then (- ENODEV, i, w)
      else
        (let i = (if known \<and> mode = 1 then i\<lparr>info_format_vout := Vid\<rparr>
                  else if known \<and> mode = 2 then i\<lparr>info_format_vout := Direct\<rparr> else i) in
         if info_format_vout i = Direct then (- ENODEV, i, w)
         else (let (i, w) = pmbus_find_sensor_groups C (i, w) in (0, i, w))))"

text \<open>The two reads of the driver take all ones as an error. The SMBus transfers are those of the kernel.\<close>

definition pmbus_read_byte_data_emerson700 ::
  "'w pmbus_core \<Rightarrow> 'w pmbus \<Rightarrow> int \<Rightarrow> u8 \<Rightarrow> 'w \<Rightarrow> int \<times> 'w" where
  "pmbus_read_byte_data_emerson700 C K page reg w =
     (let (rv, w) = (if page \<ge> 0 then set_page C (nat page) w else (0, w)) in
      if rv < 0 then (rv, w)
      else (let (value, w) = pb_read_byte K reg w in (if value = 0xff then - EIO else value, w)))"

definition pmbus_read_word_data_emerson700 ::
  "'w pmbus_core \<Rightarrow> 'w pmbus \<Rightarrow> nat \<Rightarrow> u8 \<Rightarrow> 'w \<Rightarrow> int \<times> 'w" where
  "pmbus_read_word_data_emerson700 C K page reg w =
     (let (rv, w) = set_page C page w in
      if rv < 0 then (rv, w)
      else (let (value, w) = pb_read_word K reg w in (if value = 0xffff then - EIO else value, w)))"

text \<open>The probe, before the one of the PMBus core runs on what it set up.\<close>

definition emerson700_pmbus_probe :: "bool \<Rightarrow> nat \<Rightarrow> (pmbus_driver_info \<Rightarrow> int) \<Rightarrow> int" where
  "emerson700_pmbus_probe allocated driver_data pmbus_do_probe =
     (if \<not> allocated then - ENOMEM
      else pmbus_do_probe \<lparr>info_pages = driver_data, info_format_vout = Linear, info_func = (\<lambda>_. {})\<rparr>)"

end
