(* ===== verification/PmbusProps.thy ===== *)
theory PmbusProps
  imports Ym2651y AcctonPsu Dps850
begin

text \<open>
  What the PMBus drivers compute from the registers, what they do with a supply that does not answer,
  and where the strings of a supply break out of their arrays.
\<close>

section \<open>Numbers\<close>

text \<open>The conversion reads the low bits of a word as a signed number.\<close>

lemma two_complement_signed:
  assumes k: "k < 15"
  shows "two_complement_to_int x (Suc k) (mask (Suc k)) = signed_take_bit k (uint x)"
proof -
  define t where "t = take_bit (Suc k) (uint x)"
  have u: "uint x AND mask (Suc k) = t" by (simp add: t_def take_bit_eq_mask)
  have t: "0 \<le> t" "t < 2 ^ Suc k" using take_bit_int_less_exp [of "Suc k" "uint x"] by (simp_all add: t_def)
  have "(2 :: int) ^ Suc k \<le> 2 ^ 16" using k by (intro power_increasing) auto
  then have tw: "uint (word_of_int t :: u16) = t" using t by (simp add: unsigned_of_int take_bit_int_eq_self)
  have "uint (drop_bit k (word_of_int t :: u16)) = t div 2 ^ k"
    unfolding unsigned_drop_bit_eq tw using t \<open>2 ^ Suc k \<le> 2 ^ 16\<close>
    by (subst take_bit_int_eq_self) (auto simp: drop_bit_eq_div)
  then have "drop_bit k (word_of_int t :: u16) \<noteq> 0 \<longleftrightarrow> t div 2 ^ k \<noteq> 0"
    by (metis unsigned_0 unsigned_word_eqI)
  moreover have "t div 2 ^ k \<noteq> 0 \<longleftrightarrow> bit t k"
  proof -
    have "t div 2 ^ k < 2"
    proof (rule ccontr)
      assume "\<not> t div 2 ^ k < 2"
      then have "2 * 2 ^ k \<le> t div 2 ^ k * 2 ^ k" by (intro mult_right_mono) auto
      also have "\<dots> \<le> t" using div_mult_mod_eq [of t "2 ^ k"] by (simp add: minus_mod_eq_div_mult [symmetric])
      finally show False using t by simp
    qed
    moreover have "0 \<le> t div 2 ^ k" using t by (simp add: pos_imp_zdiv_nonneg_iff)
    ultimately have "t div 2 ^ k = 0 \<or> t div 2 ^ k = 1" by linarith
    then show ?thesis by (auto simp: bit_iff_odd)
  qed
  moreover have "bit t k \<longleftrightarrow> bit (uint x) k" by (simp add: t_def bit_take_bit_iff)
  moreover have "NOT t AND mask (Suc k) = mask (Suc k) - t"
  proof -
    have "NOT t AND mask (Suc k) = take_bit (Suc k) (NOT t)" by (simp only: take_bit_eq_mask)
    then show ?thesis by (simp add: take_bit_not_eq_mask_diff t_def)
  qed
  ultimately show ?thesis
    by (simp add: two_complement_to_int_def u tw signed_take_bit_eq_take_bit_minus Let_def flip: t_def)
      (simp add: mask_eq_exp_minus_1)
qed

text \<open>The fields of a register in the linear format: eleven bits of mantissa, five bits of exponent.\<close>

definition mantissa_of :: "u16 \<Rightarrow> int" where
  "mantissa_of v = signed_take_bit 10 (uint v)"

definition exponent_of :: "u16 \<Rightarrow> int" where
  "exponent_of v = signed_take_bit 4 (uint (drop_bit 11 v))"

lemma field_bounds: "- 1024 \<le> mantissa_of v" "mantissa_of v < 1024" "- 16 \<le> exponent_of v" "exponent_of v < 16"
  using signed_take_bit_int_greater_eq_minus_exp [of 10 "uint v"] signed_take_bit_int_less_exp [of 10 "uint v"]
    signed_take_bit_int_greater_eq_minus_exp [of 4 "uint (drop_bit 11 v)"]
    signed_take_bit_int_less_exp [of 4 "uint (drop_bit 11 v)"]
  by (simp_all add: mantissa_of_def exponent_of_def)

lemma linear_value_fields:
  "linear_value v mult =
     (if exponent_of v \<ge> 0 then int32 (int32 (mantissa_of v * 2 ^ nat (exponent_of v)) * mult)
      else int32 (mantissa_of v * mult) sdiv 2 ^ nat (- exponent_of v))"
proof -
  have m11: "0x7ff = (mask (Suc 10) :: int)" "0x1f = (mask (Suc 4) :: int)" "(0x7ff :: u16) = mask 11"
    by (simp_all add: mask_eq_exp_minus_1)
  have "two_complement_to_int (v AND 0x7ff) 11 0x7ff = mantissa_of v"
  proof -
    have "signed_take_bit 10 (uint (v AND 0x7ff)) = signed_take_bit 10 (uint v)"
      unfolding m11(3) by (simp add: signed_take_bit_take_bit unsigned_take_bit_eq flip: take_bit_eq_mask)
    then show ?thesis using two_complement_signed [of 10 "v AND 0x7ff"] by (simp add: mantissa_of_def m11(1))
  qed
  moreover have "two_complement_to_int (drop_bit 11 v) 5 0x1f = exponent_of v"
    using two_complement_signed [of 4 "drop_bit 11 v"] by (simp add: exponent_of_def m11(2))
  ultimately show ?thesis by (simp add: linear_value_def Let_def)
qed

lemma int32_id: "- (2 ^ 31) \<le> x \<Longrightarrow> x < 2 ^ 31 \<Longrightarrow> int32 x = x"
  unfolding int32_def by (simp only: signed_of_int) (simp add: signed_take_bit_int_eq_self)

lemma sdiv_error:
  fixes a b :: int
  assumes "0 < b"
  shows "\<bar>a sdiv b * b - a\<bar> < b" "\<bar>a sdiv b * b\<bar> \<le> \<bar>a\<bar>"
proof -
  have m: "\<bar>a\<bar> div b * b = \<bar>a\<bar> - \<bar>a\<bar> mod b" by (simp add: minus_mod_eq_div_mult)
  have r: "0 \<le> \<bar>a\<bar> mod b" "\<bar>a\<bar> mod b < b" using assms by simp_all
  have "a sdiv b = sgn a * (\<bar>a\<bar> div b)" using assms by (simp add: signed_divide_int_def)
  then have s: "a sdiv b * b = sgn a * (\<bar>a\<bar> - \<bar>a\<bar> mod b)" by (simp add: m [symmetric] mult.assoc)
  have d: "\<bar>a\<bar> mod b \<le> \<bar>a\<bar>" using assms by (simp add: zmod_le_nonneg_dividend)
  consider "a = 0" | "0 < a" | "a < 0" by linarith
  then have "\<bar>a sdiv b * b - a\<bar> < b \<and> \<bar>a sdiv b * b\<bar> \<le> \<bar>a\<bar>"
    by cases (use s r d assms in auto)
  then show "\<bar>a sdiv b * b - a\<bar> < b" "\<bar>a sdiv b * b\<bar> \<le> \<bar>a\<bar>" by simp_all
qed



text \<open>Out of range: the scaled value of a large exponent wraps to a negative number.\<close>

lemma linear_value_wraps: "linear_value 0x63FF 1000 = - 104759296 \<and> mantissa_of 0x63FF = 1023 \<and> exponent_of 0x63FF = 12"
  by (simp add: linear_value_def two_complement_to_int_def int32_def mantissa_of_def exponent_of_def)

section \<open>A supply that does not answer\<close>

definition dead_supply :: "'w pmbus \<Rightarrow> bool" where
  "dead_supply K \<longleftrightarrow>
     (\<forall>r w. fst (pb_read_byte K r w) < 0) \<and> (\<forall>r w. fst (pb_read_word K r w) < 0) \<and>
     (\<forall>c n w. fst (pb_read_block K c n w) < 0)"

lemma i2c_retry_fails:
  assumes "\<forall>w. fst (f w) < 0" "0 < n \<or> fst prev < 0"
  shows "fst (i2c_retry n f prev w) < 0"
  using assms(2)
proof (induction n arbitrary: prev w)
  case (Suc n)
  obtain s r w' where f: "f w = (s, r, w')" by (metis prod_cases3)
  with assms(1) have "s < 0" by (metis fst_conv)
  with Suc.IH [of "(s, r)" w'] show ?case by (simp add: f)
qed simp

lemma read_table_fails:
  assumes "\<forall>r w. fst (reader r w) < 0" "regs \<noteq> []"
  shows "\<exists>w'. read_table reader regs (d, w) = (False, d, w')"
proof -
  obtain reg put es where e: "regs = (reg, put) # es" using assms(2) by (metis list.exhaust surj_pair)
  obtain st w' where r: "reader reg w = (st, w')" by fastforce
  with assms(1) have "st < 0" by (metis fst_conv)
  with r show ?thesis by (simp add: e)
qed

lemma read_table_skip_fails:
  assumes "\<forall>r w. fst (reader r w) < 0"
  shows "fst (read_table_skip reader es (d, w)) = d"
proof (induction es arbitrary: w)
  case (Cons e es)
  obtain reg put where e: "e = (reg, put)" by fastforce
  obtain st w' where r: "reader reg w = (st, w')" by fastforce
  with assms have "st < 0" by (metis fst_conv)
  with r Cons show ?case by (simp add: e)
qed simp

lemma ym_read_byte_dead: "dead_supply K \<Longrightarrow> fst (ym2651y_read_byte K r w) < 0"
  unfolding ym2651y_read_byte_def dead_supply_def
  using i2c_retry_fails [of "\<lambda>w. let (s, w) = pb_read_byte K r w in (s, (), w)" I2C_RW_RETRY_COUNT_psu "(0, ())" w]
  by (auto simp: case_prod_unfold Let_def)

lemma dps_read_byte_dead: "dead_supply K \<Longrightarrow> fst (dps850_read_byte K r w) < 0"
  unfolding dps850_read_byte_def dead_supply_def
  using i2c_retry_fails [of "\<lambda>w. let (s, w) = pb_read_byte K r w in (s, (), w)" I2C_RW_RETRY_COUNT_psu "(0, ())" w]
  by (auto simp: case_prod_unfold Let_def)

text \<open>
  Once their caches are stale, the drivers disagree about a supply that stopped answering. Those of
  the YM-2651 and the DPS-850 print nothing; that of the CPR-4011 goes on printing the last value, and
  marks its cache as valid and new.
\<close>

theorem dead_supply_shown:
  assumes dead: "dead_supply K"
    and ym: "\<not> ym_lock y" "time_after (pb_jiffies K w) (ym_last_updated y + pb_hz K + pb_hz K div 2)"
    and dps: "\<not> dps_lock p" "time_after (pb_jiffies K w) (dps_last_updated p + pb_hz K + pb_hz K div 2)"
    and cpr: "\<not> cpr_lock c" "time_after (pb_jiffies K w) (cpr_last_updated c + pb_hz K + pb_hz K div 2)"
  shows "(\<exists>y' w'. ym_show_linear K block attr (y, w) = Some ([], y', w') \<and> \<not> ym_valid y') \<and>
    (\<exists>p' w'. dps_show_linear K attr (p, w) = Some ([], p', w') \<and> \<not> dps_valid p') \<and>
    (\<exists>c' w'. cpr_show_linear K attr (c, w) =
         Some (print_d (linear_value (fst (cpr_linear attr c)) (snd (cpr_linear attr c))), c', w') \<and>
       cpr_valid c' \<and> cpr_last_updated c' = pb_jiffies K w')"
proof (intro conjI)
  have "\<forall>r w. fst (ym2651y_read_byte K r w) < 0" using ym_read_byte_dead [OF dead] by blast
  from read_table_fails [OF this, of ym_regs_byte "y\<lparr>ym_valid := False\<rparr>" w] obtain w1 where
    "read_table (ym2651y_read_byte K) ym_regs_byte (y\<lparr>ym_valid := False\<rparr>, w) = (False, y\<lparr>ym_valid := False\<rparr>, w1)"
    by (auto simp: ym_regs_byte_def)
  then show "\<exists>y' w'. ym_show_linear K block attr (y, w) = Some ([], y', w') \<and> \<not> ym_valid y'"
    using ym by (simp add: ym_show_linear_def ym_show_def ym2651y_update_device_def)
  have "\<forall>r w. fst (dps850_read_byte K r w) < 0" using dps_read_byte_dead [OF dead] by blast
  from read_table_fails [OF this, of dps_regs_byte "p\<lparr>dps_valid := False\<rparr>" w] obtain w1 where
    "read_table (dps850_read_byte K) dps_regs_byte (p\<lparr>dps_valid := False\<rparr>, w) = (False, p\<lparr>dps_valid := False\<rparr>, w1)"
    by (auto simp: dps_regs_byte_def)
  then show "\<exists>p' w'. dps_show_linear K attr (p, w) = Some ([], p', w') \<and> \<not> dps_valid p'"
    using dps by (simp add: dps_show_linear_def dps850_update_device_def)
  have r: "\<forall>r w. fst (cpr_4011_4mxx_read_byte K r w) < 0" "\<forall>r w. fst (cpr_4011_4mxx_read_word K r w) < 0"
    using dead by (simp_all add: dead_supply_def cpr_4011_4mxx_read_byte_def cpr_4011_4mxx_read_word_def)
  obtain w1 where 1: "read_table_skip (cpr_4011_4mxx_read_byte K) cpr_regs_byte (c, w) = (c, w1)"
    using read_table_skip_fails [OF r(1)] by (metis prod.collapse)
  obtain w2 where 2: "read_table_skip (cpr_4011_4mxx_read_word K) cpr_regs_word (c, w1) = (c, w2)"
    using read_table_skip_fails [OF r(2)] by (metis prod.collapse)
  have "cpr_4011_4mxx_update_device K (c, w) = Some (c\<lparr>cpr_last_updated := pb_jiffies K w2, cpr_valid := True\<rparr>, w2)"
    using cpr by (simp add: cpr_4011_4mxx_update_device_def 1 2)
  moreover have "cpr_linear attr (c\<lparr>cpr_last_updated := t, cpr_valid := True\<rparr>) = cpr_linear attr c" for t
    by (cases attr) (simp_all add: cpr_linear_def)
  ultimately show "\<exists>c' w'. cpr_show_linear K attr (c, w) =
         Some (print_d (linear_value (fst (cpr_linear attr c)) (snd (cpr_linear attr c))), c', w') \<and>
       cpr_valid c' \<and> cpr_last_updated c' = pb_jiffies K w'"
    by (simp add: cpr_show_linear_def case_prod_unfold Let_def)
qed

definition silent_bus :: "u64 pmbus" where
  "silent_bus = \<lparr>pb_read_byte = (\<lambda>r t. (- 6, t)), pb_read_word = (\<lambda>r t. (- 6, t)), pb_write_word = (\<lambda>r v t. (- 6, t)),
     pb_read_block = (\<lambda>c n t. (- 6, [], t)), pb_kstrtol = (\<lambda>_. Inl (- 22)), pb_jiffies = (\<lambda>t. t), pb_hz = 100\<rparr>"

theorem dead_supply_shown_witness:
  "\<exists>c' w'. cpr_show_linear silent_bus PSU_V_IN (cpr_4011_4mxx_new\<lparr>cpr_valid := True, cpr_v_in := 12\<rparr>, 1000) =
     Some (print_d 12000, c', w') \<and> cpr_valid c'"
proof -
  let ?c = "cpr_4011_4mxx_new\<lparr>cpr_valid := True, cpr_v_in := 12\<rparr>"
  have dead: "dead_supply silent_bus" by (simp add: dead_supply_def silent_bus_def)
  have late: "time_after (pb_jiffies silent_bus 1000) (0 + pb_hz silent_bus + pb_hz silent_bus div 2)"
    by (simp add: silent_bus_def time_after_def)
  have v: "linear_value 12 1000 = 12000" by (simp add: linear_value_def two_complement_to_int_def int32_def)
  show ?thesis
    using dead_supply_shown [OF dead, of "ym2651y_new YM2651" 1000 dps850_new ?c True PSU_V_IN] late
    by (simp add: ym2651y_new_def dps850_new_def cpr_4011_4mxx_new_def cpr_linear_def v) blast
qed

section \<open>Strings\<close>

text \<open>
  A supply that answers: registers can be read, and a block read delivers the bytes of the command, as
  many as were asked for but not more than 32, which is what the SMBus core allows.
\<close>

definition answering :: "'w pmbus \<Rightarrow> (u8 \<Rightarrow> nat \<Rightarrow> u8) \<Rightarrow> bool" where
  "answering K str \<longleftrightarrow>
     (\<forall>r w. \<exists>v w'. pb_read_byte K r w = (v, w') \<and> 0 \<le> v) \<and>
     (\<forall>r w. \<exists>v w'. pb_read_word K r w = (v, w') \<and> 0 \<le> v) \<and>
     (\<forall>c n w. \<exists>w'. pb_read_block K c n w =
        (int (min 32 (unat n)), map (str c) [0..<min 32 (unat n)], w'))"

lemma i2c_retry_first:
  assumes "f w = (s, r, w')" "0 \<le> s"
  shows "i2c_retry I2C_RW_RETRY_COUNT_psu f prev w = (s, r, w')"
proof -
  have e: "I2C_RW_RETRY_COUNT_psu = Suc 9" by simp
  show ?thesis unfolding e i2c_retry.simps using assms by simp
qed

lemma ym_block_answers:
  assumes "answering K str"
  shows "\<exists>w'. ym2651y_read_block K c n w =
    (int (min 32 (n mod 256)), map (str c) [0..<min 32 (n mod 256)], w')"
proof -
  have u: "unat (word_of_nat n :: u8) = n mod 256" by (simp add: unat_of_nat)
  from assms obtain w' where "pb_read_block K c (word_of_nat n) w =
      (int (min 32 (n mod 256)), map (str c) [0..<min 32 (n mod 256)], w')"
    unfolding answering_def u [symmetric] by blast
  from i2c_retry_first [where f = "pb_read_block K c (word_of_nat n)" and prev = "(0, [])", OF this] have
    "ym2651y_read_block K c n w = (int (min 32 (n mod 256)), map (str c) [0..<min 32 (n mod 256)], w')"
    by (simp only: ym2651y_read_block_def) simp
  then show ?thesis by blast
qed

lemma ym_fixed_answers:
  assumes "answering K str" "0 < length arr" "length arr \<le> 32"
  shows "\<exists>st arr' w'. ym_read_fixed K c arr w = Some (st, arr', w') \<and> 0 \<le> st \<and> length arr' = length arr"
proof -
  obtain n where n: "length arr = Suc n" using assms(2) by (cases "length arr") auto
  with assms(3) have "min 32 (n mod 256) = n" by simp
  with ym_block_answers [OF assms(1), of c n w] obtain w' where
    "ym2651y_read_block K c n w = (int n, map (str c) [0..<n], w')" by auto
  then show ?thesis
    using n by (simp add: ym_read_fixed_def store_block_def store_at_def)
qed

lemma ym_sized_answers:
  assumes a: "answering K str" and l: "length arr \<le> 32"
  shows "unat (str c 0) + 1 < length arr \<Longrightarrow>
      \<exists>st w'. ym_read_sized K c arr buf w =
        Some (st, map (str c) [0..<unat (str c 0) + 1] @ 0 # drop (unat (str c 0) + 2) arr, Some (str c 0), w') \<and> 0 \<le> st"
    and "\<not> unat (str c 0) + 1 < length arr \<Longrightarrow> ym_read_sized K c arr buf w = None"
proof -
  define b where "b = unat (str c 0)"
  obtain w1 where 1: "ym2651y_read_block K c (Suc 0) w = (1, [str c 0], w1)"
    using ym_block_answers [OF a, of c 1 w] by auto
  obtain w2 where 2: "ym2651y_read_block K c (b + 1) w1 =
      (int (min 32 ((b + 1) mod 256)), map (str c) [0..<min 32 ((b + 1) mod 256)], w2)"
    using ym_block_answers [OF a, of c "b + 1" w1] by blast
  have s: "ym_read_sized K c arr buf w =
      do { arr \<leftarrow> store_block (map (str c) [0..<min 32 ((b + 1) mod 256)]) arr;
           arr \<leftarrow> store_at (b + 1) 0 arr;
           Some (int (min 32 ((b + 1) mod 256)), arr, Some (str c 0), w2) }"
    using 2 by (simp add: ym_read_sized_def 1 b_def)
  show "\<exists>st w'. ym_read_sized K c arr buf w =
        Some (st, map (str c) [0..<unat (str c 0) + 1] @ 0 # drop (unat (str c 0) + 2) arr, Some (str c 0), w') \<and> 0 \<le> st"
    if fit: "unat (str c 0) + 1 < length arr"
  proof -
    have m: "min 32 ((b + 1) mod 256) = b + 1" using fit l by (simp add: b_def)
    have e: "(map (str c) [0..<b + 1] @ drop (b + 1) arr)[b + 1 := 0] = map (str c) [0..<b + 1] @ 0 # drop (b + 2) arr"
      using fit by (simp add: list_update_append b_def) (metis Cons_nth_drop_Suc list_update_code(2))
    show ?thesis unfolding s m b_def [symmetric] using fit e
      by (simp add: store_block_def store_at_def b_def)
  qed
  show "ym_read_sized K c arr buf w = None" if "\<not> unat (str c 0) + 1 < length arr"
    unfolding s using that by (auto simp: store_block_def store_at_def b_def)
qed

lemma read_table_answers:
  assumes "\<forall>r w. \<exists>v w'. reader r w = (v, w') \<and> (0 :: int) \<le> v" "\<forall>(r, put) \<in> set regs. \<forall>v d. P d \<longrightarrow> P (put v d)" "P d"
  shows "\<exists>d' w'. read_table reader regs (d, w) = (True, d', w') \<and> P d'"
  using assms(2,3)
proof (induction regs arbitrary: d w)
  case (Cons e regs)
  obtain reg put where e: "e = (reg, put)" by fastforce
  obtain v w' where "reader reg w = (v, w')" "0 \<le> v" using assms(1) by blast
  with Cons show ?case by (simp add: e)
qed simp

lemma ym_byte_answers:
  assumes "answering K str"
  shows "\<exists>v w'. ym2651y_read_byte K r w = (v, w') \<and> 0 \<le> v" "\<exists>v w'. ym2651y_read_word K r w = (v, w') \<and> 0 \<le> v"
proof -
  from assms obtain v w' where "pb_read_byte K r w = (v, w')" "0 \<le> v" unfolding answering_def by blast
  then have "ym2651y_read_byte K r w = (v, w')"
    using i2c_retry_first [where f = "\<lambda>w. let (s, w) = pb_read_byte K r w in (s, (), w)" and w = w]
    by (simp add: ym2651y_read_byte_def)
  with \<open>0 \<le> v\<close> show "\<exists>v w'. ym2651y_read_byte K r w = (v, w') \<and> 0 \<le> v" by blast
  from assms obtain v w' where "pb_read_word K r w = (v, w')" "0 \<le> v" unfolding answering_def by blast
  then have "ym2651y_read_word K r w = (v, w')"
    using i2c_retry_first [where f = "\<lambda>w. let (s, w) = pb_read_word K r w in (s, (), w)" and w = w]
    by (simp add: ym2651y_read_word_def)
  with \<open>0 \<le> v\<close> show "\<exists>v w'. ym2651y_read_word K r w = (v, w') \<and> 0 \<le> v" by blast
qed

text \<open>The lengths the supply announces for its model, its model option and its serial number fit their arrays.\<close>

definition announced_fit :: "(u8 \<Rightarrow> nat \<Rightarrow> u8) \<Rightarrow> bool" where
  "announced_fit str \<longleftrightarrow> unat (str 0x9a 0) < 15 \<and> unat (str 0xd0 0) < 7 \<and> unat (str 0x9e 0) < 20"

lemma ym_strings:
  assumes a: "answering K str" and ok: "ym_arrays_ok d"
  shows "announced_fit str \<Longrightarrow> \<exists>d' w'. ym_read_strings K (d, w) = Some (True, d', w') \<and> ym_arrays_ok d' \<and>
      ym_mfr_model d' = map (str 0x9a) [0..<unat (str 0x9a 0) + 1] @ 0 # drop (unat (str 0x9a 0) + 2) (ym_mfr_model d)"
    and "\<not> announced_fit str \<Longrightarrow> ym_read_strings K (d, w) = None"
proof -
  have len: "length (ym_fan_dir d) = 5" "length (ym_mfr_id d) = 10" "length (ym_mfr_model d) = 16"
    "length (ym_mfr_model_opt d) = 8" "length (ym_mfr_revsion d) = 3" "length (ym_mfr_serial d) = 21"
    using ok by (simp_all add: ym_arrays_ok_def)
  have fixed: "\<exists>st arr' w'. ym_read_fixed K c arr v = Some (st, arr', w') \<and> 0 \<le> st \<and> length arr' = length arr"
    if "length arr = 5 \<or> length arr = 10 \<or> length arr = 3" for c arr v
    by (rule ym_fixed_answers [OF a]) (use that in auto)
  note good = ym_sized_answers(1) [OF a] and bad = ym_sized_answers(2) [OF a]
  obtain st1 a1 w1 where 1: "ym_read_fixed K 0xC3 (ym_fan_dir d) w = Some (st1, a1, w1)" "0 \<le> st1" "length a1 = 5"
    using fixed [of "ym_fan_dir d"] len by metis
  obtain st2 a2 w2 where 2: "ym_read_fixed K 0x99 (ym_mfr_id d) w1 = Some (st2, a2, w2)" "0 \<le> st2" "length a2 = 10"
    using fixed [of "ym_mfr_id d"] len by metis
  have rev: "\<exists>st a' w'. ym_read_fixed K 0x9b (ym_mfr_revsion d) v = Some (st, a', w') \<and> 0 \<le> st \<and> length a' = 3" for v
    using fixed [of "ym_mfr_revsion d" "0x9b" v] len by simp
  show "\<exists>d' w'. ym_read_strings K (d, w) = Some (True, d', w') \<and> ym_arrays_ok d' \<and>
      ym_mfr_model d' = map (str 0x9a) [0..<unat (str 0x9a 0) + 1] @ 0 # drop (unat (str 0x9a 0) + 2) (ym_mfr_model d)"
    if f: "announced_fit str"
  proof -
    have f1: "unat (str 0x9a 0) + 1 < length (ym_mfr_model d)" "length (ym_mfr_model d) \<le> 32"
      and f2: "unat (str 0xd0 0) + 1 < length (ym_mfr_model_opt d)" "length (ym_mfr_model_opt d) \<le> 32"
      and f3: "unat (str 0x9e 0) + 1 < length (ym_mfr_serial d)" "length (ym_mfr_serial d) \<le> 32"
      using f len by (simp_all add: announced_fit_def)
    from good [OF f1(2,1), of None w2] obtain st3 w3 where
      3: "ym_read_sized K 0x9a (ym_mfr_model d) None w2 = Some (st3, map (str 0x9a) [0..<unat (str 0x9a 0) + 1] @
          0 # drop (unat (str 0x9a 0) + 2) (ym_mfr_model d), Some (str 0x9a 0), w3)" "0 \<le> st3" by blast
    from good [OF f2(2,1), of "Some (str 0x9a 0)" w3] obtain st4 w4 where
      4: "ym_read_sized K 0xd0 (ym_mfr_model_opt d) (Some (str 0x9a 0)) w3 = Some (st4, map (str 0xd0) [0..<unat (str 0xd0 0) + 1] @
          0 # drop (unat (str 0xd0 0) + 2) (ym_mfr_model_opt d), Some (str 0xd0 0), w4)" "0 \<le> st4" by blast
    obtain st5 a5 w5 where 5: "ym_read_fixed K 0x9b (ym_mfr_revsion d) w4 = Some (st5, a5, w5)" "0 \<le> st5" "length a5 = 3"
      using rev by blast
    from good [OF f3(2,1), of "Some (str 0xd0 0)" w5] obtain st6 w6 where
      6: "ym_read_sized K 0x9e (ym_mfr_serial d) (Some (str 0xd0 0)) w5 = Some (st6, map (str 0x9e) [0..<unat (str 0x9e 0) + 1] @
          0 # drop (unat (str 0x9e 0) + 2) (ym_mfr_serial d), Some (str 0x9e 0), w6)" "0 \<le> st6" by blast
    show ?thesis
      unfolding ym_read_strings_def using 1 2 3 4 5 6 f1 f2 f3 len by (simp add: ym_arrays_ok_def del: upt_Suc)
  qed
  show "ym_read_strings K (d, w) = None" if f: "\<not> announced_fit str"
  proof (cases "unat (str 0x9a 0) + 1 < length (ym_mfr_model d)")
    case False
    have "ym_read_sized K 0x9a (ym_mfr_model d) None w2 = None" by (rule bad [OF _ False]) (simp add: len)
    with 1 2 show ?thesis by (simp add: ym_read_strings_def)
  next
    case f1: True
    from good [OF _ f1, of None w2] len obtain st3 a3 w3 where
      3: "ym_read_sized K 0x9a (ym_mfr_model d) None w2 = Some (st3, a3, Some (str 0x9a 0), w3)" "0 \<le> st3" by auto
    show ?thesis
    proof (cases "unat (str 0xd0 0) + 1 < length (ym_mfr_model_opt d)")
      case False
      have "ym_read_sized K 0xd0 (ym_mfr_model_opt d) (Some (str 0x9a 0)) w3 = None" by (rule bad [OF _ False]) (simp add: len)
      with 1 2 3 show ?thesis by (simp add: ym_read_strings_def)
    next
      case f2: True
      from good [OF _ f2, of "Some (str 0x9a 0)" w3] len obtain st4 a4 w4 where
        4: "ym_read_sized K 0xd0 (ym_mfr_model_opt d) (Some (str 0x9a 0)) w3 = Some (st4, a4, Some (str 0xd0 0), w4)" "0 \<le> st4"
        by auto
      obtain st5 a5 w5 where 5: "ym_read_fixed K 0x9b (ym_mfr_revsion d) w4 = Some (st5, a5, w5)" "0 \<le> st5" using rev by blast
      have "\<not> unat (str 0x9e 0) + 1 < length (ym_mfr_serial d)" using f f1 f2 len by (auto simp: announced_fit_def)
      then have "ym_read_sized K 0x9e (ym_mfr_serial d) (Some (str 0xd0 0)) w5 = None" by (intro bad) (simp_all add: len)
      with 1 2 3 4 5 show ?thesis by (simp add: ym_read_strings_def)
    qed
  qed
qed

text \<open>
  C16: the lengths of three strings come from the supply and are not checked. The update of the cache
  stays inside the arrays of the driver exactly when these lengths fit; then the cache is valid and the
  model is the string the supply sent. Otherwise bytes are stored past the end of an array.
\<close>

theorem ym2651y_update_in_bounds:
  assumes a: "answering K str" and d: "\<not> ym_lock d" "\<not> ym_valid d" "ym_arrays_ok d"
  shows "if announced_fit str
    then \<exists>d' w'. ym2651y_update_device K True (d, w) = Some (d', w') \<and> ym_valid d' \<and> ym_arrays_ok d' \<and>
      take (unat (str 0x9a 0) + 2) (ym_mfr_model d') = map (str 0x9a) [0..<unat (str 0x9a 0) + 1] @ [0]
    else ym2651y_update_device K True (d, w) = None"
proof -
  have tb: "\<exists>d' w'. read_table (ym2651y_read_byte K) ym_regs_byte (d, w) = (True, d', w') \<and> ym_arrays_ok d'"
    if "ym_arrays_ok d" for d w
    by (rule read_table_answers [where P = ym_arrays_ok, OF _ _ that]) (use ym_byte_answers(1) [OF a] in \<open>auto simp: ym_regs_byte_def ym_arrays_ok_def\<close>)
  have tw: "\<exists>d' w'. read_table (ym2651y_read_word K) ym_regs_word (d, w) = (True, d', w') \<and> ym_arrays_ok d'"
    if "ym_arrays_ok d" for d w
    by (rule read_table_answers [where P = ym_arrays_ok, OF _ _ that]) (use ym_byte_answers(2) [OF a] in \<open>auto simp: ym_regs_word_def ym_arrays_ok_def\<close>)
  have "ym_arrays_ok (d\<lparr>ym_valid := False\<rparr>)" using d(3) by (simp add: ym_arrays_ok_def)
  then obtain d1 w1 where 1: "read_table (ym2651y_read_byte K) ym_regs_byte (d\<lparr>ym_valid := False\<rparr>, w) = (True, d1, w1)"
    "ym_arrays_ok d1" using tb by blast
  obtain d2 w2 where 2: "read_table (ym2651y_read_word K) ym_regs_word (d1, w1) = (True, d2, w2)" "ym_arrays_ok d2"
    using tw [OF 1(2)] by blast
  have u: "ym2651y_update_device K True (d, w) =
      do { (ok, d, w) \<leftarrow> ym_read_strings K (d2, w2);
           Some (if ok then (d\<lparr>ym_last_updated := pb_jiffies K w, ym_valid := True\<rparr>, w) else (d, w)) }"
    using d(1,2) by (simp add: ym2651y_update_device_def 1(1) 2(1))
  show ?thesis
  proof (cases "announced_fit str")
    case True
    then have b: "unat (str 0x9a 0) + 1 < 16" by (simp add: announced_fit_def)
    from ym_strings(1) [OF a 2(2) True, of w2] obtain d3 w3 where
      3: "ym_read_strings K (d2, w2) = Some (True, d3, w3)" "ym_arrays_ok d3"
        "ym_mfr_model d3 = map (str 0x9a) [0..<unat (str 0x9a 0) + 1] @ 0 # drop (unat (str 0x9a 0) + 2) (ym_mfr_model d2)"
      by blast
    have "take (unat (str 0x9a 0) + 2) (ym_mfr_model d3) = map (str 0x9a) [0..<unat (str 0x9a 0) + 1] @ [0]"
      unfolding 3(3) by (simp del: upt_Suc)
    with 3 True u show ?thesis by (simp add: ym_arrays_ok_def del: upt_Suc)
  next
    case False
    with u ym_strings(2) [OF a 2(2) False, of w2] show ?thesis by simp
  qed
qed

definition talking_bus :: "(u8 \<Rightarrow> nat \<Rightarrow> u8) \<Rightarrow> u64 pmbus" where
  "talking_bus str = \<lparr>pb_read_byte = (\<lambda>r t. (uint (str r 0), t)), pb_read_word = (\<lambda>r t. (0, t)), pb_write_word = (\<lambda>r v t. (0, t)),
     pb_read_block = (\<lambda>c n t. (int (min 32 (unat n)), map (str c) [0..<min 32 (unat n)], t)),
     pb_kstrtol = (\<lambda>_. Inr 40), pb_jiffies = (\<lambda>t. t), pb_hz = 100\<rparr>"

lemma talking_answers: "answering (talking_bus str) str"
  by (simp add: answering_def talking_bus_def)

theorem ym2651y_update_in_bounds_witness:
  "ym2651y_update_device (talking_bus (\<lambda>c i. if i = 0 then 15 else 65)) True (ym2651y_new YM2851, 0) = None"
  using ym2651y_update_in_bounds [OF talking_answers, of "ym2651y_new YM2851" "\<lambda>c i. if i = 0 then 15 else 65" 0]
  by (simp add: ym2651y_new_def ym_arrays_ok_def announced_fit_def)

lemma accton_block_answers:
  assumes "answering K str"
  shows "\<exists>w'. accton_i2c_psu_read_block K c n w =
    (int (min 32 (n mod 256)), map (str c) [0..<min 32 (n mod 256)], w')"
proof -
  have u: "unat (word_of_nat n :: u8) = n mod 256" by (simp add: unat_of_nat)
  from assms obtain w' where "pb_read_block K c (word_of_nat n) w =
      (int (min 32 (n mod 256)), map (str c) [0..<min 32 (n mod 256)], w')"
    unfolding answering_def u [symmetric] by blast
  from i2c_retry_first [where f = "pb_read_block K c (word_of_nat n)" and prev = "(0, [])", OF this] have
    "accton_i2c_psu_read_block K c n w = (int (min 32 (n mod 256)), map (str c) [0..<min 32 (n mod 256)], w')"
    by (simp only: accton_i2c_psu_read_block_def) simp
  then show ?thesis by blast
qed

text \<open>
  The driver of the Accton supplies always loses the last character of a string: of the \<open>n\<close>
  characters the supply sends, \<open>n - 1\<close> are kept. Of an empty string it loses the byte before the array.
\<close>

theorem accton_string_truncated:
  assumes a: "answering K str" and len: "\<forall>w. \<exists>w'. pb_read_byte K c w = (uint (str c 0), w')"
    and n: "n = unat (str c 0)" "n < length arr" "n < 32"
  shows "if n = 0 then accton_i2c_psu_read_block_data K c arr w = None
    else \<exists>w'. accton_i2c_psu_read_block_data K c arr w =
      Some (int n, map (str c) [1..<n] @ 0 # drop n arr, w')"
proof -
  obtain w1 where 1: "pb_read_byte K c w = (uint (str c 0), w1)" using len by blast
  then have b: "accton_i2c_psu_read_byte K c w = (int n, w1)" by (simp add: accton_i2c_psu_read_byte_def n(1))
  have un: "uint (word_of_int (int n) :: u8) = int n" using n(3) by (simp add: unsigned_of_nat take_bit_nat_eq_self)
  have "min 32 ((n + 1) mod 256) = n + 1" using n by simp
  with accton_block_answers [OF a, of c "n + 1" w1] obtain w2 where
    2: "accton_i2c_psu_read_block K c (n + 1) w1 = (int (n + 1), map (str c) [0..<n + 1], w2)" by metis
  have st: "store_block (map (str c) [0..<n + 1]) (replicate 128 0) = Some (map (str c) [0..<n + 1] @ replicate (127 - n) 0)"
    using n by (simp add: store_block_def del: upt_Suc)
  have l: "(if int n > int (length arr) - 1 then length arr - 1 else nat (int n)) = n" using n(2) by auto
  have buf: "take n (drop 1 (map (str c) [0..<n + 1] @ replicate (127 - n) 0)) = map (str c) [1..<n + 1]"
    by (simp add: drop_map del: upt_Suc)
  have size: "nat (int n + 1) = n + 1" "int (n + 1) = int n + 1" "int n + 1 - 1 = int n" "(int n + 1 > 128) = False"
    "(int n < 0) = False" "(int n + 1 < 0) = False" "(int n + 1 \<noteq> int n + 1) = False" using n(3) by simp_all
  have e: "accton_i2c_psu_read_block_data K c arr w =
      (if n = 0 then None else Some (int n, (map (str c) [1..<n + 1] @ drop n arr)[n - 1 := 0], w2))"
    unfolding accton_i2c_psu_read_block_data_def b Let_def prod.case un size if_False 2 st Option.bind.simps l buf ..
  show ?thesis
  proof (cases "n = 0")
    case False
    then have "[1..<n + 1] = [1..<n] @ [n]" by simp
    then have "(map (str c) [1..<n + 1] @ drop n arr)[n - 1 := 0] = map (str c) [1..<n] @ 0 # drop n arr"
      using False by (simp add: list_update_append)
    with False e show ?thesis by simp
  qed (simp add: e)
qed

theorem accton_string_truncated_witness:
  "\<exists>w'. accton_i2c_psu_read_block_data (talking_bus (\<lambda>c i. [3, 65, 66, 67] ! i)) 0x99 (replicate 10 0) 0 =
     Some (3, [65, 66, 0, 0, 0, 0, 0, 0, 0, 0], w')"
proof -
  have t: "\<forall>w. \<exists>w'. pb_read_byte (talking_bus (\<lambda>c i. [3, 65, 66, 67] ! i)) 0x99 w = (uint ([3, 65, 66, 67] ! 0 :: u8), w')"
    by (simp add: talking_bus_def)
  have "(if (3 :: nat) = 0
      then accton_i2c_psu_read_block_data (talking_bus (\<lambda>c i. [3, 65, 66, 67] ! i)) 0x99 (replicate 10 0) 0 = None
      else \<exists>w'. accton_i2c_psu_read_block_data (talking_bus (\<lambda>c i. [3, 65, 66, 67] ! i)) 0x99 (replicate 10 0) 0 =
        Some (int 3, map ((\<lambda>c i. [3, 65, 66, 67] ! i) (0x99 :: u8)) [1..<3] @ 0 # drop 3 (replicate 10 0), w'))"
    by (rule accton_string_truncated [OF talking_answers t]) simp_all
  moreover have "map ((\<lambda>c i. [3, 65, 66, 67] ! i) (0x99 :: u8)) [1..<3] @ 0 # drop 3 (replicate 10 0) =
      [65, 66, 0, 0, 0, 0, 0, 0, 0, 0 :: u8]"
    by (simp add: upt_rec numeral_eq_Suc)
  ultimately show ?thesis by simp
qed

section \<open>The duty cycle\<close>

text \<open>A supply whose word registers hold what was written last.\<close>

definition word_bank :: "'w pmbus \<Rightarrow> ('w \<Rightarrow> u8 \<Rightarrow> u16) \<Rightarrow> bool" where
  "word_bank K regs \<longleftrightarrow>
     (\<forall>r w. \<exists>v w'. pb_read_byte K r w = (v, w') \<and> regs w' = regs w) \<and>
     (\<forall>r w. \<exists>w'. pb_read_word K r w = (uint (regs w r), w') \<and> regs w' = regs w) \<and>
     (\<forall>r v w. \<exists>st w'. pb_write_word K r v w = (st, w') \<and> regs w' = (regs w)(r := v))"

lemma read_table_skip_append: "read_table_skip reader (xs @ ys) s = read_table_skip reader ys (read_table_skip reader xs s)"
proof (induction xs arbitrary: s)
  case (Cons e xs)
  obtain reg put where e: "e = (reg, put)" by fastforce
  obtain d w where s: "s = (d, w)" by fastforce
  obtain v w' where "reader reg w = (v, w')" by fastforce
  with Cons show ?case by (simp add: e s)
qed simp

lemma read_table_skip_keeps:
  assumes "\<forall>r w. regs (snd (reader r w)) = regs w" "\<forall>(r, put) \<in> set es. \<forall>v d. P d \<longrightarrow> P (put v d)" "P d"
  shows "\<exists>d' w'. read_table_skip reader es (d, w) = (d', w') \<and> regs w' = regs w \<and> P d'"
  using assms(2,3)
proof (induction es arbitrary: d w)
  case (Cons e es)
  obtain reg put where e: "e = (reg, put)" by fastforce
  obtain v w1 where r: "reader reg w = (v, w1)" by fastforce
  with assms(1) have w1: "regs w1 = regs w" by (metis snd_conv)
  from Cons.prems e have "P (if v < 0 then d else put v d)" by auto
  with Cons.IH [of "if v < 0 then d else put v d" w1] Cons.prems w1 r show ?case by (auto simp: e)
qed simp

lemma linear_value_small: "0 \<le> n \<Longrightarrow> n \<le> 100 \<Longrightarrow> linear_value (word_of_int n) 1 = n"
proof -
  have "list_all (\<lambda>n. linear_value (word_of_int n) 1 = n) [0..100]" by code_simp
  then show "0 \<le> n \<Longrightarrow> n \<le> 100 \<Longrightarrow> linear_value (word_of_int n) 1 = n" by (auto simp: list_all_iff)
qed

lemma bank_readers:
  assumes "word_bank K regs"
  shows "\<forall>r w. regs (snd (cpr_4011_4mxx_read_byte K r w)) = regs w" "\<forall>r w. regs (snd (cpr_4011_4mxx_read_word K r w)) = regs w"
    "\<exists>w'. cpr_4011_4mxx_read_word K r w = (uint (regs w r), w') \<and> regs w' = regs w"
  using assms by (auto simp: word_bank_def cpr_4011_4mxx_read_byte_def cpr_4011_4mxx_read_word_def; metis snd_conv)+

lemma cpr_words_split:
  "cpr_regs_word = take 8 cpr_regs_word @ (0x3b, \<lambda>v. cpr_fan_duty_cycle0_update (\<lambda>_. word_of_int v)) # drop 9 cpr_regs_word"
  by (simp add: cpr_regs_word_def)

text \<open>An update of a supply that answers leaves in the cache the duty cycle the supply holds.\<close>

lemma cpr_update_duty:
  assumes b: "word_bank K regs" and l: "\<not> cpr_lock d" and same: "cpr_fan_duty_cycle0 d = regs w 0x3b"
  shows "\<exists>d' w'. cpr_4011_4mxx_update_device K (d, w) = Some (d', w') \<and> cpr_fan_duty_cycle0 d' = regs w 0x3b \<and>
    regs w' = regs w"
proof -
  note r = bank_readers [OF b]
  obtain d1 w1 where 1: "read_table_skip (cpr_4011_4mxx_read_byte K) cpr_regs_byte (d, w) = (d1, w1)" "regs w1 = regs w"
    using read_table_skip_keeps [where regs = regs and P = "\<lambda>_. True" and d = d and w = w and es = cpr_regs_byte, OF r(1)] by auto
  obtain d2 w2 where 2: "read_table_skip (cpr_4011_4mxx_read_word K) (take 8 cpr_regs_word) (d1, w1) = (d2, w2)" "regs w2 = regs w"
    using read_table_skip_keeps [where regs = regs and P = "\<lambda>_. True" and d = d1 and w = w1 and es = "take 8 cpr_regs_word", OF r(2)]
    by (auto simp: 1)
  obtain w3 where 3: "cpr_4011_4mxx_read_word K 0x3b w2 = (uint (regs w 0x3b), w3)" "regs w3 = regs w"
    using r(3) [of "0x3b" w2] by (auto simp: 2)
  have "\<forall>(reg, put) \<in> set (drop 9 cpr_regs_word). \<forall>v d. cpr_fan_duty_cycle0 d = regs w 0x3b \<longrightarrow>
      cpr_fan_duty_cycle0 (put v d) = regs w 0x3b"
    by (simp add: cpr_regs_word_def)
  from read_table_skip_keeps [where regs = regs and w = w3 and d = "d2\<lparr>cpr_fan_duty_cycle0 := regs w 0x3b\<rparr>", OF r(2) this]
  obtain d4 w4 where 4: "read_table_skip (cpr_4011_4mxx_read_word K) (drop 9 cpr_regs_word)
      (d2\<lparr>cpr_fan_duty_cycle0 := regs w 0x3b\<rparr>, w3) = (d4, w4)" "regs w4 = regs w" "cpr_fan_duty_cycle0 d4 = regs w 0x3b"
    by (auto simp: 3)
  have "read_table_skip (cpr_4011_4mxx_read_word K) cpr_regs_word (d1, w1) = (d4, w4)"
    by (subst cpr_words_split) (simp add: read_table_skip_append 2 3 4 not_less)
  with 1 4 l same show ?thesis by (simp add: cpr_4011_4mxx_update_device_def)
qed

text \<open>
  The duty cycle of the fan of a CPR-4011, set through sysfs and read back, is the one that was set,
  for each of the 101 values the driver accepts, whether the cache is stale or not.
\<close>

theorem cpr_duty_cycle_roundtrip:
  assumes b: "word_bank K regs" and l: "\<not> cpr_lock d" and n: "pb_kstrtol K buf = Inr n" "0 \<le> n" "n \<le> 100"
  shows "\<exists>d1 w1 d2 w2. cpr_set_fan_duty_cycle K PSU_FAN1_DUTY_CYCLE buf (d, w) = Some (int (length buf), d1, w1) \<and>
    cpr_show_linear K PSU_FAN1_DUTY_CYCLE (d1, w1) = Some (print_d n, d2, w2)"
proof -
  let ?d = "d\<lparr>cpr_fan_duty_cycle0 := word_of_int n\<rparr>"
  from b obtain st w1 where w: "cpr_4011_4mxx_write_word K 0x3B (word_of_int n) w = (st, w1)" "regs w1 0x3b = word_of_int n"
    by (fastforce simp: word_bank_def cpr_4011_4mxx_write_word_def)
  have s: "cpr_set_fan_duty_cycle K PSU_FAN1_DUTY_CYCLE buf (d, w) = Some (int (length buf), ?d, w1)"
    using n l w(1) by (simp add: cpr_set_fan_duty_cycle_def)
  obtain d2 w2 where u: "cpr_4011_4mxx_update_device K (?d, w1) = Some (d2, w2)" "cpr_fan_duty_cycle0 d2 = word_of_int n"
    using cpr_update_duty [OF b, of ?d w1] l w(2) by auto
  have "cpr_show_linear K PSU_FAN1_DUTY_CYCLE (?d, w1) = Some (print_d n, d2, w2)"
    using u n by (simp add: cpr_show_linear_def cpr_linear_def linear_value_small)
  with s show ?thesis by blast
qed

definition memory_bus :: "(u64 \<times> (u8 \<Rightarrow> u16)) pmbus" where
  "memory_bus = \<lparr>pb_read_byte = (\<lambda>r s. (uint (snd s r), s)), pb_read_word = (\<lambda>r s. (uint (snd s r), s)),
     pb_write_word = (\<lambda>r v s. (0, fst s, (snd s)(r := v))), pb_read_block = (\<lambda>c n s. (- 5, [], s)),
     pb_kstrtol = (\<lambda>b. Inr (int (length b))), pb_jiffies = fst, pb_hz = 100\<rparr>"

theorem cpr_duty_cycle_roundtrip_witness:
  "\<exists>d1 w1 d2 w2. cpr_set_fan_duty_cycle memory_bus PSU_FAN1_DUTY_CYCLE (replicate 40 0) (cpr_4011_4mxx_new, 0, \<lambda>_. 0) = Some (40, d1, w1) \<and>
    cpr_show_linear memory_bus PSU_FAN1_DUTY_CYCLE (d1, w1) = Some (print_d 40, d2, w2)"
proof -
  have b: "word_bank memory_bus snd" by (simp add: word_bank_def memory_bus_def)
  from cpr_duty_cycle_roundtrip [OF b, of cpr_4011_4mxx_new "replicate 40 0" 40 "(0, \<lambda>_. 0)"] show ?thesis
    by (simp add: memory_bus_def cpr_4011_4mxx_new_def)
qed

end
