(* ===== verification/EmersonProps.thy ===== *)
theory EmersonProps
  imports Dps850
begin

text \<open>
  The sensors the driver of the Emerson 700 finds on a supply whose registers answer always or never:
  the sensors of the first page and of the other pages, in closed form.
\<close>

definition chip :: "'w pmbus_core \<Rightarrow> (nat \<Rightarrow> pmbus_reg \<Rightarrow> bool) \<Rightarrow> bool" where
  "chip C ans \<longleftrightarrow> (\<forall>p r w. fst (check_word C p r w) = ans p r) \<and> (\<forall>p r w. fst (check_byte C p r w) = ans p r)"

definition keep_if :: "bool \<Rightarrow> 'a \<Rightarrow> 'a set" where
  "keep_if b x = (if b then {x} else {})"

lemma mem_keep_if [simp]: "y \<in> keep_if b x \<longleftrightarrow> b \<and> y = x"
  by (simp add: keep_if_def)

text \<open>The input, the fans and the temperatures, which are looked for on the first page only.\<close>

definition first_page_sensors :: "(nat \<Rightarrow> pmbus_reg \<Rightarrow> bool) \<Rightarrow> pmbus_have set" where
  "first_page_sensors ans =
     (let input = keep_if (ans 0 PMBUS_READ_VIN) HAVE_VIN \<union> keep_if (ans 0 PMBUS_READ_VCAP) HAVE_VCAP \<union>
            keep_if (ans 0 PMBUS_READ_IIN) HAVE_IIN \<union> keep_if (ans 0 PMBUS_READ_PIN) HAVE_PIN;
          fan12 = ans 0 PMBUS_FAN_CONFIG_12 \<and> ans 0 PMBUS_READ_FAN_SPEED_1;
          fan34 = ans 0 PMBUS_FAN_CONFIG_34 \<and> ans 0 PMBUS_READ_FAN_SPEED_3;
          temp = keep_if (ans 0 PMBUS_READ_TEMPERATURE_1) HAVE_TEMP \<union> keep_if (ans 0 PMBUS_READ_TEMPERATURE_2) HAVE_TEMP2 \<union>
            keep_if (ans 0 PMBUS_READ_TEMPERATURE_3) HAVE_TEMP3 in
      input \<union> keep_if (input \<noteq> {} \<and> ans 0 PMBUS_STATUS_INPUT) HAVE_STATUS_INPUT \<union>
      keep_if fan12 HAVE_FAN12 \<union> keep_if (fan12 \<and> ans 0 PMBUS_STATUS_FAN_12) HAVE_STATUS_FAN12 \<union>
      keep_if fan34 HAVE_FAN34 \<union> keep_if (fan34 \<and> ans 0 PMBUS_STATUS_FAN_34) HAVE_STATUS_FAN34 \<union>
      temp \<union> keep_if (temp \<noteq> {} \<and> ans 0 PMBUS_STATUS_TEMPERATURE) HAVE_STATUS_TEMP)"

text \<open>The outputs, on every page. The status of the current comes from the first page.\<close>

definition page_sensors :: "(nat \<Rightarrow> pmbus_reg \<Rightarrow> bool) \<Rightarrow> nat \<Rightarrow> pmbus_have set" where
  "page_sensors ans p =
     keep_if (ans p PMBUS_READ_VOUT) HAVE_VOUT \<union> keep_if (ans p PMBUS_READ_VOUT \<and> ans p PMBUS_STATUS_VOUT) HAVE_STATUS_VOUT \<union>
     keep_if (ans p PMBUS_READ_IOUT) HAVE_IOUT \<union> keep_if (ans p PMBUS_READ_IOUT \<and> ans 0 PMBUS_STATUS_IOUT) HAVE_STATUS_IOUT \<union>
     keep_if (ans p PMBUS_READ_POUT) HAVE_POUT"

text \<open>Each step as what it adds to a page.\<close>

definition have_all :: "nat \<Rightarrow> pmbus_have set \<Rightarrow> pmbus_driver_info \<Rightarrow> pmbus_driver_info" where
  "have_all page hs i = i\<lparr>info_func := (info_func i)(page := info_func i page \<union> hs)\<rparr>"

lemma have_all_simps [simp]:
  "have_func page h i = have_all page {h} i"
  "have_all page hs (have_all page hs' i) = have_all page (hs' \<union> hs) i"
  "have_all page {} i = i"
  "info_pages (have_all page hs i) = info_pages i"
  "info_func (have_all page hs i) page = info_func i page \<union> hs"
  by (simp_all add: have_func_def have_all_def Un_assoc)

lemma chip_ans:
  assumes "chip C ans"
  shows "\<exists>w'. check_word C p r w = (ans p r, w')" "\<exists>w'. check_byte C p r w = (ans p r, w')"
  using assms by (intro exI [of _ "snd (check_word C p r w)"] exI [of _ "snd (check_byte C p r w)"]; simp add: chip_def prod_eq_iff)+

lemma find_word_chip:
  assumes c: "chip C ans"
  shows "fst (find_word C p r h s) = have_all p (keep_if (ans p r) h) (fst s)"
proof -
  obtain w' where "check_word C p r (snd s) = (ans p r, w')" using chip_ans(1) [OF c] by blast
  then show ?thesis by (cases s) (simp add: find_word_def keep_if_def)
qed

lemma find_byte_chip:
  assumes c: "chip C ans"
  shows "fst (find_byte C p r at h s) = have_all at (keep_if (ans p r) h) (fst s)"
proof -
  obtain w' where "check_byte C p r (snd s) = (ans p r, w')" using chip_ans(2) [OF c] by blast
  then show ?thesis by (cases s) (simp add: find_byte_def keep_if_def)
qed

lemma find_fans_chip:
  assumes c: "chip C ans"
  shows "fst (find_fans C config speed status h hs s) =
     have_all 0 (keep_if (ans 0 config \<and> ans 0 speed) h \<union> keep_if (ans 0 config \<and> ans 0 speed \<and> ans 0 status) hs) (fst s)"
proof -
  obtain w1 where 1: "check_byte C 0 config (snd s) = (ans 0 config, w1)" using chip_ans(2) [OF c] by blast
  obtain w2 where 2: "check_word C 0 speed w1 = (ans 0 speed, w2)" using chip_ans(1) [OF c] by blast
  show ?thesis
    by (cases s) (use 1 2 find_byte_chip [OF c, of 0 status 0 hs "(have_func 0 h (fst s), w2)"] in \<open>auto simp: find_fans_def keep_if_def\<close>)
qed

lemma find_page_chip:
  assumes c: "chip C ans"
  shows "fst (find_page C p s) = have_all p (page_sensors ans p) (fst s)"
proof -
  obtain i w where s: "s = (i, w)" by fastforce
  obtain w1 where 1: "check_word C p PMBUS_READ_VOUT w = (ans p PMBUS_READ_VOUT, w1)" using chip_ans(1) [OF c] by blast
  define s1 where "s1 = (if ans p PMBUS_READ_VOUT then find_byte C p PMBUS_STATUS_VOUT p HAVE_STATUS_VOUT (have_func p HAVE_VOUT i, w1) else (i, w1))"
  have f1: "fst s1 = have_all p (keep_if (ans p PMBUS_READ_VOUT) HAVE_VOUT \<union> keep_if (ans p PMBUS_READ_VOUT \<and> ans p PMBUS_STATUS_VOUT) HAVE_STATUS_VOUT) i"
    by (simp add: s1_def find_byte_chip [OF c] keep_if_def)
  obtain w2 where 2: "check_word C p PMBUS_READ_IOUT (snd s1) = (ans p PMBUS_READ_IOUT, w2)" using chip_ans(1) [OF c] by blast
  have "find_page C p s = find_word C p PMBUS_READ_POUT HAVE_POUT
     (if ans p PMBUS_READ_IOUT then find_byte C 0 PMBUS_STATUS_IOUT p HAVE_STATUS_IOUT (have_func p HAVE_IOUT (fst s1), w2) else (fst s1, w2))"
    unfolding find_page_def s Let_def prod.case 1
    by (cases s1, cases "check_word C p PMBUS_READ_IOUT (snd s1)") (use 2 in \<open>simp flip: s1_def\<close>)
  then show ?thesis
    by (auto simp: find_word_chip [OF c] find_byte_chip [OF c] f1 s page_sensors_def keep_if_def Un_assoc)
qed

lemma fold_pages_chip:
  assumes c: "chip C ans"
  shows "info_func (fst (fold (find_page C) [0..<n] s)) p = info_func (fst s) p \<union> (if p < n then page_sensors ans p else {})"
  by (induction n) (auto simp: find_page_chip [OF c] have_all_def)

lemma find_sensor_groups_chip:
  assumes c: "chip C ans" and e: "info_func (fst s) = (\<lambda>_. {})"
  shows "info_func (fst (pmbus_find_sensor_groups C s)) p =
    (if p = 0 then first_page_sensors ans else {}) \<union> (if p < info_pages (fst s) then page_sensors ans p else {})"
proof -
  let ?input = "keep_if (ans 0 PMBUS_READ_VIN) HAVE_VIN \<union> keep_if (ans 0 PMBUS_READ_VCAP) HAVE_VCAP \<union>
    keep_if (ans 0 PMBUS_READ_IIN) HAVE_IIN \<union> keep_if (ans 0 PMBUS_READ_PIN) HAVE_PIN"
  define s4 where "s4 = find_word C 0 PMBUS_READ_PIN HAVE_PIN (find_word C 0 PMBUS_READ_IIN HAVE_IIN
    (find_word C 0 PMBUS_READ_VCAP HAVE_VCAP (find_word C 0 PMBUS_READ_VIN HAVE_VIN s)))"
  have f4: "fst s4 = have_all 0 ?input (fst s)" by (simp add: s4_def find_word_chip [OF c] Un_assoc)
  define s5 where "s5 = (if info_func (fst s4) 0 \<noteq> {} then find_byte C 0 PMBUS_STATUS_INPUT 0 HAVE_STATUS_INPUT s4 else s4)"
  have f5: "fst s5 = have_all 0 (?input \<union> keep_if (?input \<noteq> {} \<and> ans 0 PMBUS_STATUS_INPUT) HAVE_STATUS_INPUT) (fst s)"
    using e by (auto simp: s5_def f4 find_byte_chip [OF c] keep_if_def)
  define s10 where "s10 = find_word C 0 PMBUS_READ_TEMPERATURE_3 HAVE_TEMP3 (find_word C 0 PMBUS_READ_TEMPERATURE_2 HAVE_TEMP2
    (find_word C 0 PMBUS_READ_TEMPERATURE_1 HAVE_TEMP
      (find_fans C PMBUS_FAN_CONFIG_34 PMBUS_READ_FAN_SPEED_3 PMBUS_STATUS_FAN_34 HAVE_FAN34 HAVE_STATUS_FAN34
        (find_fans C PMBUS_FAN_CONFIG_12 PMBUS_READ_FAN_SPEED_1 PMBUS_STATUS_FAN_12 HAVE_FAN12 HAVE_STATUS_FAN12 s5))))"
  note f10 = s10_def find_word_chip [OF c] find_fans_chip [OF c] f5
  define s11 where "s11 = (if info_func (fst s10) 0 \<inter> {HAVE_TEMP, HAVE_TEMP2, HAVE_TEMP3} \<noteq> {}
    then find_byte C 0 PMBUS_STATUS_TEMPERATURE 0 HAVE_STATUS_TEMP s10 else s10)"
  have c': "info_func (fst s10) 0 \<inter> {HAVE_TEMP, HAVE_TEMP2, HAVE_TEMP3} \<noteq> {} \<longleftrightarrow>
    ans 0 PMBUS_READ_TEMPERATURE_1 \<or> ans 0 PMBUS_READ_TEMPERATURE_2 \<or> ans 0 PMBUS_READ_TEMPERATURE_3"
    using e by (auto simp: f10)
  have f11: "fst s11 = have_all 0 (first_page_sensors ans) (fst s)"
    unfolding s11_def c' by (auto simp: f10 find_byte_chip [OF c] first_page_sensors_def Let_def Un_assoc keep_if_def)
  have "pmbus_find_sensor_groups C s = fold (find_page C) [0..<info_pages (fst s11)] s11"
    by (simp only: pmbus_find_sensor_groups_def Let_def s11_def s10_def s5_def s4_def)
  then show ?thesis
    using e by (simp add: fold_pages_chip [OF c] f11) (simp add: have_all_def)
qed

lemma find_page_pages: "chip C ans \<Longrightarrow> info_pages (fst (find_page C p s)) = info_pages (fst s)"
  by (simp add: find_page_chip)

lemma fold_pages_pages: "chip C ans \<Longrightarrow> info_pages (fst (fold (find_page C) ps s)) = info_pages (fst s)"
  by (induction ps arbitrary: s) (simp_all add: find_page_pages)

lemma find_sensor_groups_pages:
  assumes c: "chip C ans"
  shows "info_pages (fst (pmbus_find_sensor_groups C s)) = info_pages (fst s)"
  by (simp add: pmbus_find_sensor_groups_def Let_def fold_pages_pages [OF c] find_word_chip [OF c] find_byte_chip [OF c] find_fans_chip [OF c])

lemma count_pages_pos: "0 < page \<Longrightarrow> \<forall>p \<in> set ps. 0 < p \<Longrightarrow> 0 < fst (count_pages C ps page w)"
proof (induction ps arbitrary: page w)
  case (Cons p ps)
  then show ?case by (cases "set_page C p w") simp
qed simp

text \<open>The pages are counted, or were known; there is at least one.\<close>

lemma identify_pages_simps:
  "info_func (fst (identify_pages C (i, w))) = info_func i" "0 < info_pages (fst (identify_pages C (i, w)))"
  using count_pages_pos [of 1 "[1..<PMBUS_PAGES C]" C] by (simp_all add: identify_pages_def case_prod_unfold Let_def)


text \<open>A chip with two pages, whose second page has a current without a status register of its own.\<close>

definition two_output_answers :: "nat \<Rightarrow> pmbus_reg \<Rightarrow> bool" where
  "two_output_answers p r \<longleftrightarrow> r \<in> {PMBUS_READ_VOUT, PMBUS_READ_IOUT, PMBUS_PAGE} \<or> p = 0 \<and> r = PMBUS_STATUS_IOUT"

definition two_output_chip :: "unit pmbus_core" where
  "two_output_chip =
     \<lparr>check_word = (\<lambda>p r w. (two_output_answers p r, w)), check_byte = (\<lambda>p r w. (two_output_answers p r, w)),
      set_page = (\<lambda>p w. (if p < 2 then 0 else -5, w)), core_read_byte = (\<lambda>p r w. (0, w)), PMBUS_PAGES = 32\<rparr>"


end
