(* ===== verification/Faultd.thy ===== *)
theory Faultd
  imports Kernel "HOL-Library.Monad_Syntax"
begin

text \<open>
  \<open>faultd.c\<close> and \<open>faultd_handler.c\<close>: processes that crash send a report through a named pipe to a
  server, which waits on up to eight pipes and reads one report at a time. \<open>None\<close> is undefined
  behaviour, such as an access outside an array, or a call that never returns.
\<close>

section \<open>The system\<close>

text \<open>
  The calls on descriptors: the number of the error on the left. A read delivers the bytes it got, a
  write the number of bytes it took, \<open>select\<close> the descriptors that are ready.
\<close>

datatype pipe_mode = RDONLY_NONBLOCK | WRONLY_NONBLOCK

record 'w pipe_os =
  p_mkfifo :: "string \<Rightarrow> 'w \<Rightarrow> (int + unit) \<times> 'w"
  p_open :: "string \<Rightarrow> pipe_mode \<Rightarrow> 'w \<Rightarrow> (int + int) \<times> 'w"
  p_close :: "int \<Rightarrow> 'w \<Rightarrow> 'w"
  p_getfl :: "int \<Rightarrow> 'w \<Rightarrow> (int + u32) \<times> 'w"
  p_setfl :: "int \<Rightarrow> u32 \<Rightarrow> 'w \<Rightarrow> (int + unit) \<times> 'w"
  p_read :: "int \<Rightarrow> nat \<Rightarrow> 'w \<Rightarrow> (int + u8 list) \<times> 'w"
  p_write :: "int \<Rightarrow> u8 list \<Rightarrow> 'w \<Rightarrow> (int + nat) \<times> 'w"
  p_select :: "int \<Rightarrow> int set \<Rightarrow> 'w \<Rightarrow> (int + int set) \<times> 'w"
  p_backtrace_symbols_fd :: "u64 list \<Rightarrow> int \<Rightarrow> int \<Rightarrow> 'w \<Rightarrow> 'w"

definition O_NONBLOCK :: u32 where "O_NONBLOCK = 0x800"

definition FAULTD_CONFIG_PIPE_NAME_DEFAULT :: string where
  "FAULTD_CONFIG_PIPE_NAME_DEFAULT = ''/var/run/faultd.pipe''"
definition FAULTD_CONFIG_BINARY_SIZE :: nat where [simp]: "FAULTD_CONFIG_BINARY_SIZE = 255"
definition FAULTD_CONFIG_BACKTRACE_SIZE_MAX :: nat where [simp]: "FAULTD_CONFIG_BACKTRACE_SIZE_MAX = 32"
definition FAULTD_CONFIG_SERVICE_PIPES_MAX :: nat where [simp]: "FAULTD_CONFIG_SERVICE_PIPES_MAX = 8"
definition FAULTD_CONFIG_BACKTRACE_SYMBOLS_SIZE :: nat where [simp]: "FAULTD_CONFIG_BACKTRACE_SYMBOLS_SIZE = 4096"

section \<open>The report\<close>

record faultd_info =
  i_pipename :: u64
  i_binary :: "u8 list"
  i_pid :: u32
  i_tid :: u32
  i_signal :: u32
  i_signal_code :: u32
  i_fault_address :: u64
  i_last_errno :: u32
  i_backtrace_size :: u32
  i_backtrace :: "u64 list"
  i_backtrace_symbols :: u64

definition info_ok :: "faultd_info \<Rightarrow> bool" where
  "info_ok i \<longleftrightarrow> length (i_binary i) = 255 \<and> length (i_backtrace i) = 32"

definition info_zero :: faultd_info where
  "info_zero = \<lparr>i_pipename = 0, i_binary = replicate 255 0, i_pid = 0, i_tid = 0, i_signal = 0, i_signal_code = 0,
     i_fault_address = 0, i_last_errno = 0, i_backtrace_size = 0, i_backtrace = replicate 32 0, i_backtrace_symbols = 0\<rparr>"

text \<open>The structure in memory: little endian, 64-bit pointers, one byte of padding before \<open>pid\<close>.\<close>

definition le_bytes :: "nat \<Rightarrow> 'a::len word \<Rightarrow> u8 list" where
  "le_bytes n w = map (\<lambda>k. ucast (drop_bit (8 * k) w)) [0..<n]"

fun le_word :: "u8 list \<Rightarrow> 'a::len word" where
  "le_word [] = 0"
| "le_word (b # bs) = ucast b OR push_bit 8 (le_word bs)"

definition INFO_SIZE :: nat where [simp]: "INFO_SIZE = 560"

definition info_bytes :: "faultd_info \<Rightarrow> u8 list" where
  "info_bytes i =
     le_bytes 8 (i_pipename i) @ i_binary i @ [0] @ le_bytes 4 (i_pid i) @ le_bytes 4 (i_tid i) @
     le_bytes 4 (i_signal i) @ le_bytes 4 (i_signal_code i) @ le_bytes 8 (i_fault_address i) @
     le_bytes 4 (i_last_errno i) @ le_bytes 4 (i_backtrace_size i) @
     concat (map (le_bytes 8) (i_backtrace i)) @ le_bytes 8 (i_backtrace_symbols i)"

definition field_at :: "nat \<Rightarrow> nat \<Rightarrow> u8 list \<Rightarrow> u8 list" where
  "field_at off n bs = take n (drop off bs)"

definition bytes_info :: "u8 list \<Rightarrow> faultd_info" where
  "bytes_info bs =
     \<lparr>i_pipename = le_word (field_at 0 8 bs), i_binary = field_at 8 255 bs, i_pid = le_word (field_at 264 4 bs),
      i_tid = le_word (field_at 268 4 bs), i_signal = le_word (field_at 272 4 bs), i_signal_code = le_word (field_at 276 4 bs),
      i_fault_address = le_word (field_at 280 8 bs), i_last_errno = le_word (field_at 288 4 bs),
      i_backtrace_size = le_word (field_at 292 4 bs),
      i_backtrace = map (\<lambda>k. le_word (field_at (296 + 8 * k) 8 bs)) [0..<32],
      i_backtrace_symbols = le_word (field_at 552 8 bs)\<rparr>"

text \<open>
  The report at the server: the structure as it came, and the two pointers the server replaces. Until
  it does, they are the numbers the client sent.
\<close>

record faultd_received =
  r_info :: faultd_info
  r_pipename :: "string option"
  r_symbols :: "u8 list option"

definition received_zero :: faultd_received where
  "received_zero = \<lparr>r_info = info_zero, r_pipename = None, r_symbols = None\<rparr>"

section \<open>The services\<close>

record faultd_service =
  pipename :: "string option"
  pipefd :: int
  writefd :: int

definition service_zero :: faultd_service where
  "service_zero = \<lparr>pipename = None, pipefd = 0, writefd = 0\<rparr>"

record faultd_server =
  services :: "faultd_service list"
  sid_last :: nat

definition faultd_server_create :: faultd_server where
  "faultd_server_create = \<lparr>services = replicate FAULTD_CONFIG_SERVICE_PIPES_MAX service_zero, sid_last = 0\<rparr>"

definition faultd_service_destroy :: "'w pipe_os \<Rightarrow> faultd_service \<Rightarrow> 'w \<Rightarrow> faultd_service \<times> 'w" where
  "faultd_service_destroy K sp w =
     (let w = (if pipefd sp \<noteq> 0 then p_close K (pipefd sp) w else w);
          w = (if writefd sp \<noteq> 0 then p_close K (writefd sp) w else w) in
      (service_zero, w))"

text \<open>The name of the pipe is not looked at.\<close>

definition faultd_server_remove :: "'w pipe_os \<Rightarrow> faultd_server option \<Rightarrow> int \<Rightarrow> 'w \<Rightarrow> int \<times> faultd_server option \<times> 'w" where
  "faultd_server_remove K fso sid w =
     (case fso of
        None \<Rightarrow> (-1, None, w)
      | Some s \<Rightarrow>
          if sid < 0 \<or> sid \<ge> int (length (services s)) then (-1, Some s, w)
          else (let (sp, w) = faultd_service_destroy K (services s ! nat sid) w in
                (0, Some (s\<lparr>services := (services s)[nat sid := sp]\<rparr>), w)))"

fun remove_all :: "'w pipe_os \<Rightarrow> nat list \<Rightarrow> faultd_server option \<Rightarrow> 'w \<Rightarrow> faultd_server option \<times> 'w" where
  "remove_all K [] fso w = (fso, w)"
| "remove_all K (i # is) fso w = (let (_, fso, w) = faultd_server_remove K fso (int i) w in remove_all K is fso w)"

definition faultd_server_destroy :: "'w pipe_os \<Rightarrow> faultd_server option \<Rightarrow> 'w \<Rightarrow> 'w" where
  "faultd_server_destroy K fso w =
     (case fso of None \<Rightarrow> w | Some s \<Rightarrow> snd (remove_all K [0..<length (services s)] fso w))"

text \<open>What \<open>faultd_server_add\<close> does to a free slot; \<open>False\<close> is the jump to \<open>server_add_failed\<close>.\<close>

definition service_open :: "'w pipe_os \<Rightarrow> string \<Rightarrow> faultd_service \<Rightarrow> 'w \<Rightarrow> bool \<times> faultd_service \<times> 'w" where
  "service_open K name sp w =
     (let sp = sp\<lparr>pipename := Some name\<rparr>;
          (rv, w) = p_mkfifo K name w in
      if (case rv of Inl e \<Rightarrow> e \<noteq> EEXIST | Inr _ \<Rightarrow> False) then (False, sp, w)
      else
        (case p_open K name RDONLY_NONBLOCK w of
           (Inl e, w) \<Rightarrow> (False, sp, w)
         | (Inr fd, w) \<Rightarrow>
             let sp = sp\<lparr>pipefd := fd\<rparr> in
             (case p_open K name WRONLY_NONBLOCK w of
                (Inl e, w) \<Rightarrow> (False, sp, w)
              | (Inr fd, w) \<Rightarrow>
                  let sp = sp\<lparr>writefd := fd\<rparr> in
                  (case p_getfl K (pipefd sp) w of
                     (Inl e, w) \<Rightarrow> (False, sp, w)
                   | (Inr fl, w) \<Rightarrow>
                       (case p_setfl K (pipefd sp) (fl AND NOT O_NONBLOCK) w of
                          (Inl e, w) \<Rightarrow> (False, sp, w)
                        | (Inr _, w) \<Rightarrow> (True, sp, w))))))"

definition faultd_server_add ::
  "'w pipe_os \<Rightarrow> faultd_server option \<Rightarrow> string option \<Rightarrow> 'w \<Rightarrow> int \<times> faultd_server option \<times> 'w" where
  "faultd_server_add K fso name w =
     (case fso of
        None \<Rightarrow> (-1, None, w)
      | Some s \<Rightarrow>
          let name = (case name of None \<Rightarrow> FAULTD_CONFIG_PIPE_NAME_DEFAULT | Some n \<Rightarrow> n) in
          (case List.find (\<lambda>i. pipename (services s ! i) = None) [0..<length (services s)] of
             None \<Rightarrow> (-1, Some s, w)
           | Some i \<Rightarrow>
               let (ok, sp, w) = service_open K name (services s ! i) w;
                   s = s\<lparr>services := (services s)[i := sp]\<rparr> in
               if ok then (int i, Some s, w)
               else (let (_, fso, w) = faultd_server_remove K (Some s) (int i) w in (-1, fso, w))))"

section \<open>Reading and writing\<close>

text \<open>
  Read up to a terminator. What is past the end of the buffer is read and dropped. At the end of the
  file the byte before is taken again: \<open>c\<close> keeps its value, at first what was on the stack.
\<close>

partial_function (option) read_until ::
  "'w pipe_os \<Rightarrow> int \<Rightarrow> u8 \<Rightarrow> nat \<Rightarrow> nat \<Rightarrow> u8 \<Rightarrow> u8 list \<Rightarrow> 'w \<Rightarrow> (int \<times> u8 list \<times> 'w) option" where
  "read_until K fd terminator sz count c dst w =
     (case p_read K fd 1 w of
        (Inl e, w') \<Rightarrow> if e = EINTR then read_until K fd terminator sz count c dst w' else Some (-1, dst, w')
      | (Inr bs, w') \<Rightarrow>
          let c' = (case bs of [] \<Rightarrow> c | b # _ \<Rightarrow> b) in
          do { dst' \<leftarrow> (if count < sz then store_at count c' dst else Some dst);
               if c' = terminator then Some (int count, dst', w')
               else read_until K fd terminator sz (Suc count) c' dst' w' })"

partial_function (option) read_size ::
  "'w pipe_os \<Rightarrow> int \<Rightarrow> nat \<Rightarrow> nat \<Rightarrow> nat \<Rightarrow> u8 list \<Rightarrow> 'w \<Rightarrow> (int \<times> u8 list \<times> 'w) option" where
  "read_size K fd sz pos remaining dst w =
     (case p_read K fd remaining w of
        (Inl e, w') \<Rightarrow>
          if e = EINTR
          then (if remaining \<noteq> 0 then read_size K fd sz pos remaining dst w' else Some (int sz, dst, w'))
          else Some (-1, dst, w')
      | (Inr bs, w') \<Rightarrow>
          if bs = [] \<and> remaining \<noteq> 0 then Some (-1, dst, w')
          else
            let dst' = take pos dst @ bs @ drop (pos + length bs) dst;
                remaining' = remaining - length bs in
            if remaining' \<noteq> 0 then read_size K fd sz (pos + length bs) remaining' dst' w'
            else Some (int sz, dst', w'))"

partial_function (option) write_size ::
  "'w pipe_os \<Rightarrow> int \<Rightarrow> nat \<Rightarrow> u8 list \<Rightarrow> 'w \<Rightarrow> (int \<times> 'w) option" where
  "write_size K fd sz src w =
     (case p_write K fd src w of
        (Inl e, w') \<Rightarrow>
          if e = EINTR then (if src \<noteq> [] then write_size K fd sz src w' else Some (int sz, w'))
          else Some (-1, w')
      | (Inr n, w') \<Rightarrow>
          let src' = drop n src in
          if src' \<noteq> [] then write_size K fd sz src' w' else Some (int sz, w'))"

section \<open>The server\<close>

text \<open>
  The descriptors that are waited on. The test of the service number never refuses one: a number that
  is no service, other than -1, is an access outside the array.
\<close>

definition wait_set :: "faultd_server \<Rightarrow> int \<Rightarrow> (int \<times> int set) option option" where
  "wait_set fso sid =
     (if sid < 0 \<and> sid \<ge> int (length (services fso)) \<and> sid \<noteq> -1 then Some None
      else if sid = -1 then
        (let fds = filter (\<lambda>fd. fd \<noteq> 0) (map pipefd (services fso)) in Some (Some (fold max fds 0, set fds)))
      else if sid < 0 \<or> sid \<ge> int (length (services fso)) then None
      else
        (let fd = pipefd (services fso ! nat sid) in
         Some (if fd = 0 then None else Some (fd, {fd}))))"

partial_function (option) select_retry ::
  "'w pipe_os \<Rightarrow> int \<Rightarrow> int set \<Rightarrow> 'w \<Rightarrow> ((int + int set) \<times> 'w) option" where
  "select_retry K n fds w =
     (case p_select K n fds w of
        (Inl e, w') \<Rightarrow> if e = EINTR then select_retry K n fds w' else Some (Inl e, w')
      | (Inr ready, w') \<Rightarrow> Some (Inr ready, w'))"

definition faultd_wait_services :: "'w pipe_os \<Rightarrow> faultd_server \<Rightarrow> int \<Rightarrow> 'w \<Rightarrow> ((int + int set) \<times> 'w) option" where
  "faultd_wait_services K fso sid w =
     do { ws \<leftarrow> wait_set fso sid;
          case ws of None \<Rightarrow> Some (Inl (-1), w) | Some (maxfd, fds) \<Rightarrow> select_retry K (maxfd + 1) fds w }"

text \<open>The strings after the structure: only when its last field is not zero. \<open>junk\<close> is what \<open>c\<close> is at first.\<close>

definition read_symbols ::
  "'w pipe_os \<Rightarrow> int \<Rightarrow> u8 \<Rightarrow> faultd_received \<Rightarrow> 'w \<Rightarrow> (faultd_received \<times> 'w) option" where
  "read_symbols K fd junk info w =
     (if i_backtrace_symbols (r_info info) \<noteq> 0 then
        do { (_, buf, w) \<leftarrow> read_until K fd 0 FAULTD_CONFIG_BACKTRACE_SYMBOLS_SIZE 0 junk
               (replicate FAULTD_CONFIG_BACKTRACE_SYMBOLS_SIZE 0) w;
             Some (info\<lparr>r_symbols := Some buf\<rparr>, w) }
      else Some (info, w))"

fun service_loop ::
  "'w pipe_os \<Rightarrow> int set \<Rightarrow> u8 \<Rightarrow> nat \<Rightarrow> nat \<Rightarrow> faultd_received \<Rightarrow> faultd_server \<Rightarrow> 'w
   \<Rightarrow> (int \<times> faultd_received \<times> faultd_server \<times> 'w) option" where
  "service_loop K ready junk i 0 info fso w = Some (-1, info, fso, w)"
| "service_loop K ready junk i (Suc count) info fso w =
     (let s = i mod length (services fso); sp = services fso ! s in
      if pipefd sp \<in> ready then
        do { (rv, bytes, w) \<leftarrow> read_size K (pipefd sp) INFO_SIZE 0 INFO_SIZE (info_bytes (r_info info)) w;
             let info = info\<lparr>r_info := bytes_info bytes\<rparr> in
             if rv < 0 then service_loop K ready junk (Suc i) count info fso w
             else
               do { (info, w) \<leftarrow> read_symbols K (pipefd sp) junk info w;
                    Some (int s, info\<lparr>r_pipename := pipename sp\<rparr>, fso\<lparr>sid_last := s\<rparr>, w) } }
      else service_loop K ready junk (Suc i) count info fso w)"

definition faultd_server_read ::
  "'w pipe_os \<Rightarrow> u8 \<Rightarrow> faultd_server \<Rightarrow> faultd_received \<Rightarrow> int \<Rightarrow> 'w
   \<Rightarrow> (int \<times> faultd_received \<times> faultd_server \<times> 'w) option" where
  "faultd_server_read K junk fso info sid w =
     do { (rv, w) \<leftarrow> faultd_wait_services K fso sid w;
          case rv of
            Inl _ \<Rightarrow> Some (-1, info, fso, w)
          | Inr ready \<Rightarrow> service_loop K ready junk (sid_last fso + 1) (length (services fso)) info fso w }"

section \<open>Showing a report\<close>

text \<open>
  The output of \<open>strsignal\<close> and of \<open>%p\<close> is a parameter. A pointer the server did not set is printed as
  a string only if it is null; anything else is the address of another process.
\<close>

definition string_ptr :: "u8 list option \<Rightarrow> u64 \<Rightarrow> u8 list option" where
  "string_ptr s raw = (case s of Some b \<Rightarrow> Some b | None \<Rightarrow> if raw = 0 then Some (bytes_of ''(null)'') else None)"

fun show_addrs :: "(u64 \<Rightarrow> u8 list) \<Rightarrow> u64 list \<Rightarrow> nat list \<Rightarrow> u8 list option" where
  "show_addrs ptr bt [] = Some []"
| "show_addrs ptr bt (i # is) =
     do { a \<leftarrow> rd bt i; rest \<leftarrow> show_addrs ptr bt is; Some (bytes_of ''    '' @ ptr a @ [0x0A] @ rest) }"

definition show_int :: "string \<Rightarrow> u32 \<Rightarrow> u8 list" where
  "show_int label v = bytes_of label @ print_d (sint v)"

definition faultd_info_show :: "(int \<Rightarrow> u8 list) \<Rightarrow> (u64 \<Rightarrow> u8 list) \<Rightarrow> faultd_received \<Rightarrow> u8 list option" where
  "faultd_info_show sig ptr info =
     (let i = r_info info in
      do { name \<leftarrow> string_ptr (map_option bytes_of (r_pipename info)) (i_pipename i);
           binary \<leftarrow> c_string (i_binary i);
           addrs \<leftarrow> show_addrs ptr (i_backtrace i) [0..<nat (sint (i_backtrace_size i))];
           symbols \<leftarrow> (case r_symbols info of
                         Some buf \<Rightarrow> map_option (\<lambda>s. s @ [0x0A]) (c_string buf)
                       | None \<Rightarrow> if i_backtrace_symbols i = 0 then Some [] else None);
           Some (bytes_of ''service = '' @ name @ [0x0A] @ bytes_of ''binary = '' @ binary @ [0x0A] @
                 show_int ''pid = '' (i_pid i) @ show_int ''tid = '' (i_tid i) @
                 bytes_of ''signal = '' @ dec_int (sint (i_signal i)) @ bytes_of '' ('' @ sig (sint (i_signal i)) @
                 bytes_of '')'' @ [0x0A] @ show_int ''code = '' (i_signal_code i) @
                 bytes_of ''fa = '' @ ptr (i_fault_address i) @ [0x0A] @ show_int ''errno = '' (i_last_errno i) @
                 show_int ''backtrace_size='' (i_backtrace_size i) @ addrs @
                 bytes_of ''backtrace_symbols: '' @ ptr (i_backtrace_symbols i) @ [0x0A] @ symbols) })"

text \<open>
  The server reads and shows a number of reports, or, for -1, goes on for ever. Whether the read
  succeeded is not looked at.
\<close>

partial_function (option) process_loop ::
  "'w pipe_os \<Rightarrow> u8 \<Rightarrow> (faultd_received \<Rightarrow> u8 list option) \<Rightarrow> int \<Rightarrow> int \<Rightarrow> int \<Rightarrow> faultd_server \<Rightarrow> u8 list \<Rightarrow> 'w
   \<Rightarrow> (int \<times> u8 list \<times> faultd_server \<times> 'w) option" where
  "process_loop K junk show sid count c fdo out w =
     (if c < count \<or> count = -1 then
        do { (rv, info, fdo', w') \<leftarrow> faultd_server_read K junk fdo received_zero sid w;
             text \<leftarrow> show info;
             process_loop K junk show sid count (c + 1) fdo' (out @ text) w' }
      else Some (0, out, fdo, w))"

definition faultd_server_process ::
  "'w pipe_os \<Rightarrow> u8 \<Rightarrow> (faultd_received \<Rightarrow> u8 list option) \<Rightarrow> faultd_server \<Rightarrow> int \<Rightarrow> int \<Rightarrow> 'w
   \<Rightarrow> (int \<times> u8 list \<times> faultd_server \<times> 'w) option" where
  "faultd_server_process K junk show fdo sid count w = process_loop K junk show sid count 0 fdo [] w"

section \<open>The client\<close>

record faultd_client = cl_s :: faultd_service

definition faultd_client_destroy :: "'w pipe_os \<Rightarrow> faultd_client option \<Rightarrow> 'w \<Rightarrow> 'w" where
  "faultd_client_destroy K fco w = (case fco of None \<Rightarrow> w | Some c \<Rightarrow> snd (faultd_service_destroy K (cl_s c) w))"

text \<open>\<open>old\<close> is what \<open>*rfco\<close> was; the pointer itself may be null.\<close>

definition faultd_client_create ::
  "'w pipe_os \<Rightarrow> bool \<Rightarrow> string option \<Rightarrow> faultd_client option \<Rightarrow> 'w \<Rightarrow> int \<times> faultd_client option \<times> 'w" where
  "faultd_client_create K rfco_null name old w =
     (if rfco_null then (-1, old, w)
      else
        (let name = (case name of None \<Rightarrow> FAULTD_CONFIG_PIPE_NAME_DEFAULT | Some n \<Rightarrow> n);
             fco = \<lparr>cl_s = service_zero\<lparr>pipename := Some name\<rparr>\<rparr> in
         case p_open K name WRONLY_NONBLOCK w of
           (Inl e, w) \<Rightarrow> (-1, old, faultd_client_destroy K (Some fco) w)
         | (Inr fd, w) \<Rightarrow> (0, Some (fco\<lparr>cl_s := (cl_s fco)\<lparr>pipefd := fd\<rparr>\<rparr>), w)))"

definition faultd_client_write :: "'w pipe_os \<Rightarrow> faultd_client \<Rightarrow> faultd_info \<Rightarrow> 'w \<Rightarrow> (int \<times> 'w) option" where
  "faultd_client_write K fco info w =
     (let fd = pipefd (cl_s fco) in
      do { (rv, w) \<leftarrow> write_size K fd INFO_SIZE (info_bytes info) w;
           if rv < 0 then Some (rv, w)
           else if i_backtrace_symbols info \<noteq> 0 then
             (let w = p_backtrace_symbols_fd K (i_backtrace info) (sint (i_backtrace_size info)) fd w in
              do { (_, w) \<leftarrow> write_size K fd 1 [0] w; Some (0, w) })
           else Some (0, w) })"

section \<open>The handler of a crash (\<open>faultd_handler.c\<close>)\<close>

text \<open>
  The system as the handler sees it. Waiting for a signal may never return. \<open>backtrace\<close> gives the
  addresses it stored, at most as many as it was asked for.
\<close>

record 'w signal_os =
  s_pipe :: "'w pipe_os"
  s_getpid :: "'w \<Rightarrow> u32"
  s_errno :: "'w \<Rightarrow> u32"
  s_backtrace :: "nat \<Rightarrow> 'w \<Rightarrow> u64 list"
  s_pselect :: "'w \<Rightarrow> 'w option"
  s_strsignal :: "int \<Rightarrow> u8 list"
  s_spin_init :: "'w \<Rightarrow> int \<times> 'w"
  s_open_null :: "'w \<Rightarrow> int \<times> 'w"
  s_sigaction :: "string \<Rightarrow> bool \<Rightarrow> 'w \<Rightarrow> int \<times> 'w"

record handler_statics =
  h_locked :: bool
  h_client :: "faultd_client option"
  h_info :: faultd_info
  h_localfd :: int

definition signal_backtrace :: "'w signal_os \<Rightarrow> u64 list \<Rightarrow> 'w \<Rightarrow> int \<times> u64 list" where
  "signal_backtrace S buffer w =
     (let bt = s_backtrace S (length buffer) w in (int (length bt), bt @ drop (length bt) buffer))"

definition faultd_signal_handler ::
  "'w signal_os \<Rightarrow> int \<Rightarrow> u32 \<Rightarrow> u64 \<Rightarrow> handler_statics \<times> 'w \<Rightarrow> (handler_statics \<times> 'w) option" where
  "faultd_signal_handler S sig code addr st =
     (let (h, w) = st; K = s_pipe S in
      do { (h, w) \<leftarrow> (if h_locked h then map_option (\<lambda>w. (h, w)) (s_pselect S w) else Some (h\<lparr>h_locked := True\<rparr>, w));
           let (n, bt) = signal_backtrace S (i_backtrace (h_info h)) w;
               info = (h_info h)\<lparr>i_pid := s_getpid S w, i_tid := 0, i_signal := word_of_int sig, i_signal_code := code,
                 i_fault_address := addr, i_last_errno := s_errno S w, i_backtrace_size := word_of_int n,
                 i_backtrace := bt, i_backtrace_symbols := 1\<rparr>;
               h = h\<lparr>h_info := info\<rparr> in
           do { w \<leftarrow> (case h_client h of None \<Rightarrow> Some w | Some c \<Rightarrow> map_option snd (faultd_client_write K c info w));
                let w = (if h_localfd h \<ge> 0 then
                           (let (_, w) = p_write K (h_localfd h) (s_strsignal S sig @ [0]) w;
                                (_, w) = p_write K (h_localfd h) [0x0A, 0] w in
                            p_backtrace_symbols_fd K bt n (h_localfd h) w)
                         else w) in
                Some (h\<lparr>h_locked := False\<rparr>, w) } })"

definition strlcpy :: "nat \<Rightarrow> u8 list \<Rightarrow> u8 list \<Rightarrow> u8 list" where
  "strlcpy n src dst = (let s = take (n - 1) src @ [0] in s @ drop (length s) dst)"

fun sigactions :: "'w signal_os \<Rightarrow> bool \<Rightarrow> string list \<Rightarrow> int \<Rightarrow> 'w \<Rightarrow> int \<times> 'w" where
  "sigactions S resethand [] rv w = (rv, w)"
| "sigactions S resethand (s # ss) rv w = (let (r, w) = s_sigaction S s resethand w in sigactions S resethand ss (rv OR r) w)"

definition faultd_handler_register ::
  "'w signal_os \<Rightarrow> int \<Rightarrow> string option \<Rightarrow> u8 list option \<Rightarrow> handler_statics \<times> 'w \<Rightarrow> int \<times> handler_statics \<times> 'w" where
  "faultd_handler_register S localfd name binaryname st =
     (let (h, w) = st; K = s_pipe S; (rv, w) = s_spin_init S w in
      if rv \<noteq> 0 then (rv, h, w)
      else
        (let bt = s_backtrace S 1 w;
             (fd, w) = s_open_null S w;
             w = p_backtrace_symbols_fd K bt (int (length bt)) fd w;
             w = p_close K fd w;
             binary = (case binaryname of None \<Rightarrow> bytes_of ''Not specified.'' | Some b \<Rightarrow> b);
             h = h\<lparr>h_locked := False, h_info := info_zero\<lparr>i_binary := strlcpy FAULTD_CONFIG_BINARY_SIZE binary (i_binary info_zero)\<rparr>\<rparr>;
             (client, w) = (case name of
                              None \<Rightarrow> (h_client h, w)
                            | Some n \<Rightarrow> (let (_, c, w) = faultd_client_create K False (Some n) (h_client h) w in (c, w)));
             h = h\<lparr>h_client := client\<rparr>;
             (rv, w) = sigactions S True [''SIGSEGV'', ''SIGILL'', ''SIGFPE'', ''SIGBUS'', ''SIGQUIT'', ''SIGALRM''] 0 w;
             (rv, w) = sigactions S False [''SIGUSR2''] rv w in
         (rv, h\<lparr>h_localfd := localfd\<rparr>, w)))"

section \<open>The program (\<open>faultd_main.c\<close>)\<close>

record faultd_options =
  o_pidfile :: "string option"
  o_daemonize :: bool
  o_restart :: bool
  o_test :: bool
  o_pipename :: string

definition options_default :: faultd_options where
  "options_default = \<lparr>o_pidfile = None, o_daemonize = False, o_restart = False, o_test = False, o_pipename = ''/var/run/faultd.fifo''\<rparr>"

text \<open>The options, or the status of an early exit.\<close>

fun parse_args :: "string list \<Rightarrow> faultd_options \<Rightarrow> int + faultd_options" where
  "parse_args [] opts = Inr opts"
| "parse_args (arg # args) opts =
     (if arg = ''-dr'' then parse_args args (opts\<lparr>o_daemonize := True, o_restart := True\<rparr>)
      else if arg = ''-d'' then parse_args args (opts\<lparr>o_daemonize := True, o_restart := False\<rparr>)
      else if arg = ''-pid'' then (case args of [] \<Rightarrow> Inl 1 | a # as \<Rightarrow> parse_args as (opts\<lparr>o_pidfile := Some a\<rparr>))
      else if arg = ''-p'' then (case args of [] \<Rightarrow> Inl 1 | a # as \<Rightarrow> parse_args as (opts\<lparr>o_pipename := a\<rparr>))
      else if arg = ''-t'' then parse_args args (opts\<lparr>o_test := True\<rparr>)
      else if arg = ''-h'' \<or> arg = ''--help'' then Inl 0
      else parse_args args opts)"

text \<open>
  The first rounds of the loop that has no end: the reports are shown when the read succeeded. The
  strings of a report are not given back.
\<close>

fun faultd_serve ::
  "'w pipe_os \<Rightarrow> u8 \<Rightarrow> (faultd_received \<Rightarrow> u8 list option) \<Rightarrow> bool \<Rightarrow> int \<Rightarrow> nat \<Rightarrow> faultd_server \<Rightarrow> 'w
   \<Rightarrow> (int list \<times> u8 list \<times> faultd_server \<times> 'w) option" where
  "faultd_serve K junk show isatty sid 0 fso w = Some ([], [], fso, w)"
| "faultd_serve K junk show isatty sid (Suc n) fso w =
     do { (rv, info, fso, w) \<leftarrow> faultd_server_read K junk fso received_zero sid w;
          text \<leftarrow> (if rv \<ge> 0 then show info else Some []);
          (rvs, out, fso, w) \<leftarrow> faultd_serve K junk show isatty sid n fso w;
          Some (rv # rvs, text @ (if isatty then text else []) @ out, fso, w) }"

text \<open>
  The server of the program has one service. What is modelled is the result of the command line and
  of opening the service, up to the loop: \<open>Inl\<close> is the status of an exit, the end of the test or, as
  134, \<open>abort\<close>.
\<close>

definition faultd_start ::
  "'w signal_os \<Rightarrow> (handler_statics \<times> 'w \<Rightarrow> handler_statics \<times> 'w) \<Rightarrow> u8 list \<Rightarrow> string list \<Rightarrow> handler_statics \<times> 'w
   \<Rightarrow> (int + faultd_server \<times> int \<times> faultd_options) \<times> handler_statics \<times> 'w" where
  "faultd_start S raise_usr2 binary args st =
     (case parse_args args options_default of
        Inl status \<Rightarrow> (Inl status, st)
      | Inr opts \<Rightarrow>
          if o_test opts then
            (let (_, st) = faultd_handler_register S 0 (Some (o_pipename opts)) (Some binary) st in (Inl 0, raise_usr2 st))
          else
            (let (h, w) = st;
                 (sid, fso, w) = faultd_server_add (s_pipe S) (Some faultd_server_create) (Some (o_pipename opts)) w in
             (if sid < 0 then Inl 134 else Inr (the fso, sid, opts), h, w)))"

end
