(* ===== verification/FaultdProps.thy ===== *)
theory FaultdProps
  imports Faultd
begin

text \<open>
  The fault server: a report goes through the pipe unchanged however the transfers are cut into pieces,
  no descriptor is lost over the life of a server, and no service waits for more than eight reports.
\<close>

section \<open>The bytes of a report\<close>

lemma le_bytes_Suc: "le_bytes (Suc n) w = ucast w # le_bytes n (drop_bit 8 w)"
  by (simp add: le_bytes_def map_upt_Suc ac_simps del: upt_Suc)

lemma length_le_bytes [simp]: "length (le_bytes n w) = n"
  by (simp add: le_bytes_def)

lemma le_word_le_bytes: "le_word (le_bytes n w) = take_bit (8 * n) (w :: 'a::len word)"
proof (induction n arbitrary: w)
  case 0
  then show ?case by (simp add: le_bytes_def)
next
  case (Suc n)
  have "le_word (le_bytes (Suc n) w) = ucast (ucast w :: u8) OR push_bit 8 (take_bit (8 * n) (drop_bit 8 w))"
    by (simp add: le_bytes_Suc Suc)
  also have "\<dots> = take_bit (8 * Suc n) w"
    by (rule bit_word_eqI) (auto simp: bit_simps)
  finally show ?case .
qed

lemma le_word_4 [simp]: "le_word (le_bytes 4 w) = (w :: u32)"
  by (simp add: le_word_le_bytes take_bit_word_eq_self)

lemma le_word_8 [simp]: "le_word (le_bytes 8 w) = (w :: u64)"
  by (simp add: le_word_le_bytes take_bit_word_eq_self)

lemma length_concat_le: "length (concat (map (le_bytes n) xs)) = n * length xs"
  by (induction xs) simp_all

lemma field_of_concat:
  "k < length xs \<Longrightarrow> take n (drop (n * k) (concat (map (le_bytes n) xs) @ ys)) = le_bytes n (xs ! k)"
proof (induction xs arbitrary: k)
  case (Cons x xs)
  then show ?case by (cases k) (simp_all add: add.commute drop_drop [symmetric] del: drop_drop)
qed simp

lemma length_info_bytes [simp]: "info_ok i \<Longrightarrow> length (info_bytes i) = 560"
  by (simp add: info_ok_def info_bytes_def length_concat_le)

lemma field_at_append:
  "length xs \<le> off \<Longrightarrow> field_at off n (xs @ ys) = field_at (off - length xs) n ys"
  "length xs = n \<Longrightarrow> field_at 0 n (xs @ ys) = xs"
  "0 < off \<Longrightarrow> field_at off n (x # ys) = field_at (off - 1) n ys"
  by (simp_all add: field_at_def drop_Cons')

lemma bytes_info_inverse': "info_ok i \<Longrightarrow> bytes_info (info_bytes i) = i"
proof -
  assume ok: "info_ok i"
  have b: "field_at (296 + 8 * k) 8 (info_bytes i) = le_bytes 8 (i_backtrace i ! k)" if "k < 32" for k
  proof -
    let ?pre = "le_bytes 8 (i_pipename i) @ i_binary i @ [0] @ le_bytes 4 (i_pid i) @ le_bytes 4 (i_tid i) @
      le_bytes 4 (i_signal i) @ le_bytes 4 (i_signal_code i) @ le_bytes 8 (i_fault_address i) @
      le_bytes 4 (i_last_errno i) @ le_bytes 4 (i_backtrace_size i)"
    have "info_bytes i = ?pre @ concat (map (le_bytes 8) (i_backtrace i)) @ le_bytes 8 (i_backtrace_symbols i)"
      by (simp add: info_bytes_def)
    moreover have "length ?pre = 296" using ok by (simp add: info_ok_def)
    ultimately have "field_at (296 + 8 * k) 8 (info_bytes i) =
        field_at (8 * k) 8 (concat (map (le_bytes 8) (i_backtrace i)) @ le_bytes 8 (i_backtrace_symbols i))"
      by (simp only: field_at_append(1) le_add1 add_diff_cancel_left')
    moreover have "field_at (8 * k) 8 (concat (map (le_bytes 8) (i_backtrace i)) @ le_bytes 8 (i_backtrace_symbols i)) =
        le_bytes 8 (i_backtrace i ! k)"
      unfolding field_at_def by (rule field_of_concat) (use ok that in \<open>simp add: info_ok_def\<close>)
    ultimately show ?thesis by simp
  qed
  have "map (\<lambda>k. le_word (field_at (296 + 8 * k) 8 (info_bytes i))) [0..<32] = i_backtrace i"
    using ok by (intro nth_equalityI) (simp_all add: b info_ok_def)
  moreover have "field_at 552 8 (info_bytes i) = le_bytes 8 (i_backtrace_symbols i)"
    using ok by (simp add: info_bytes_def field_at_append info_ok_def) (simp add: field_at_def length_concat_le)
  moreover have "field_at 0 8 (info_bytes i) = le_bytes 8 (i_pipename i)" "field_at 8 255 (info_bytes i) = i_binary i"
    "field_at 264 4 (info_bytes i) = le_bytes 4 (i_pid i)" "field_at 268 4 (info_bytes i) = le_bytes 4 (i_tid i)"
    "field_at 272 4 (info_bytes i) = le_bytes 4 (i_signal i)" "field_at 276 4 (info_bytes i) = le_bytes 4 (i_signal_code i)"
    "field_at 280 8 (info_bytes i) = le_bytes 8 (i_fault_address i)" "field_at 288 4 (info_bytes i) = le_bytes 4 (i_last_errno i)"
    "field_at 292 4 (info_bytes i) = le_bytes 4 (i_backtrace_size i)"
    using ok by (simp_all add: info_bytes_def field_at_append info_ok_def)
  ultimately show ?thesis by (simp add: bytes_info_def)
qed

section \<open>Pipes\<close>

text \<open>
  A pipe with an end to read and one to write: what is read leaves its front, what is written is
  appended, in pieces of any size but not empty. A call can be interrupted, but not for ever. Nothing is
  said of reading from an empty pipe, nor of writing to one without room.
\<close>

definition fifo ::
  "'w pipe_os \<Rightarrow> int \<Rightarrow> int \<Rightarrow> ('w \<Rightarrow> u8 list) \<Rightarrow> ('w \<Rightarrow> nat) \<Rightarrow> nat \<Rightarrow> (u64 list \<Rightarrow> int \<Rightarrow> u8 list) \<Rightarrow> bool" where
  "fifo K rfd wfd content intr cap symbols \<longleftrightarrow>
     (\<forall>n w. content w \<noteq> [] \<and> 0 < n \<longrightarrow>
        (case p_read K rfd n w of
           (Inl e, w') \<Rightarrow> e = EINTR \<and> content w' = content w \<and> intr w' < intr w
         | (Inr bs, w') \<Rightarrow> content w = bs @ content w' \<and> bs \<noteq> [] \<and> length bs \<le> n)) \<and>
     (\<forall>src w. src \<noteq> [] \<and> length (content w) + length src \<le> cap \<longrightarrow>
        (case p_write K wfd src w of
           (Inl e, w') \<Rightarrow> e = EINTR \<and> content w' = content w \<and> intr w' < intr w
         | (Inr n, w') \<Rightarrow> content w' = content w @ take n src \<and> 0 < n \<and> n \<le> length src)) \<and>
     (\<forall>bt n w. length (content w) + length (symbols bt n) \<le> cap \<longrightarrow>
        content (p_backtrace_symbols_fd K bt n wfd w) = content w @ symbols bt n) \<and>
     (\<forall>m fds w. content w \<noteq> [] \<and> rfd \<in> fds \<longrightarrow>
        (case p_select K m fds w of
           (Inl e, w') \<Rightarrow> e = EINTR \<and> content w' = content w \<and> intr w' < intr w
         | (Inr ready, w') \<Rightarrow> content w' = content w \<and> rfd \<in> ready \<and> ready \<subseteq> fds))"

lemma fifo_read:
  assumes "fifo K rfd wfd content intr cap symbols" "content w \<noteq> []" "0 < n"
  obtains w' where "p_read K rfd n w = (Inl EINTR, w')" "content w' = content w" "intr w' < intr w"
  | bs w' where "p_read K rfd n w = (Inr bs, w')" "content w = bs @ content w'" "bs \<noteq> []" "length bs \<le> n"
proof (cases "p_read K rfd n w")
  case (Pair r w')
  with assms have "(case r of Inl e \<Rightarrow> e = EINTR \<and> content w' = content w \<and> intr w' < intr w
      | Inr bs \<Rightarrow> content w = bs @ content w' \<and> bs \<noteq> [] \<and> length bs \<le> n)"
    unfolding fifo_def by (metis (no_types, lifting) case_prod_conv)
  with Pair that show ?thesis by (cases r) auto
qed

lemma fifo_write:
  assumes "fifo K rfd wfd content intr cap symbols" "src \<noteq> []" "length (content w) + length src \<le> cap"
  obtains w' where "p_write K wfd src w = (Inl EINTR, w')" "content w' = content w" "intr w' < intr w"
  | n w' where "p_write K wfd src w = (Inr n, w')" "content w' = content w @ take n src" "0 < n" "n \<le> length src"
proof (cases "p_write K wfd src w")
  case (Pair r w')
  with assms have "(case r of Inl e \<Rightarrow> e = EINTR \<and> content w' = content w \<and> intr w' < intr w
      | Inr n \<Rightarrow> content w' = content w @ take n src \<and> 0 < n \<and> n \<le> length src)"
    unfolding fifo_def by (metis (no_types, lifting) case_prod_conv)
  with Pair that show ?thesis by (cases r) auto
qed

lemma fifo_select:
  assumes "fifo K rfd wfd content intr cap symbols" "content w \<noteq> []" "rfd \<in> fds"
  obtains w' where "p_select K m fds w = (Inl EINTR, w')" "content w' = content w" "intr w' < intr w"
  | ready w' where "p_select K m fds w = (Inr ready, w')" "content w' = content w" "rfd \<in> ready" "ready \<subseteq> fds"
proof (cases "p_select K m fds w")
  case (Pair r w')
  with assms have "(case r of Inl e \<Rightarrow> e = EINTR \<and> content w' = content w \<and> intr w' < intr w
      | Inr ready \<Rightarrow> content w' = content w \<and> rfd \<in> ready \<and> ready \<subseteq> fds)"
    unfolding fifo_def by (metis (no_types, lifting) case_prod_conv)
  with Pair that show ?thesis by (cases r) auto
qed

text \<open>The loops put the pieces together.\<close>

lemma write_size_fifo:
  assumes F: "fifo K rfd wfd content intr cap symbols"
  shows "src \<noteq> [] \<Longrightarrow> length (content w) + length src \<le> cap \<Longrightarrow>
    \<exists>w'. write_size K wfd n src w = Some (int n, w') \<and> content w' = content w @ src"
proof (induction "(length src, intr w)" arbitrary: src w rule: wf_induct_rule [OF wf_lex_prod [OF wf_less wf_less]])
  case (1 src w)
  from F "1.prems" show ?case
  proof (cases rule: fifo_write)
    case (1 w')
    with "1.hyps" [of src w'] "1.prems" show ?thesis by (subst write_size.simps) auto
  next
    case (2 k w')
    show ?thesis
    proof (cases "drop k src = []")
      case True
      with 2 show ?thesis by (subst write_size.simps) auto
    next
      case False
      with 2 "1.hyps" [of "drop k src" w'] "1.prems" show ?thesis by (subst write_size.simps) auto
    qed
  qed
qed

lemma read_size_fifo:
  assumes F: "fifo K rfd wfd content intr cap symbols"
  shows "0 < remaining \<Longrightarrow> remaining \<le> length (content w) \<Longrightarrow> pos + remaining \<le> length dst \<Longrightarrow>
    \<exists>w'. read_size K rfd n pos remaining dst w =
        Some (int n, take pos dst @ take remaining (content w) @ drop (pos + remaining) dst, w') \<and>
      content w' = drop remaining (content w)"
proof (induction "(remaining, intr w)" arbitrary: remaining pos dst w rule: wf_induct_rule [OF wf_lex_prod [OF wf_less wf_less]])
  case (1 remaining w pos dst)
  from "1.prems" have ne: "content w \<noteq> []" by auto
  from F ne "1.prems"(1) show ?case
  proof (cases rule: fifo_read)
    case (1 w')
    with "1.hyps" [of remaining w' pos dst] "1.prems" show ?thesis by (subst read_size.simps) auto
  next
    case (2 bs w')
    let ?dst = "take pos dst @ bs @ drop (pos + length bs) dst"
    show ?thesis
    proof (cases "length bs = remaining")
      case True
      with 2 "1.prems" show ?thesis by (subst read_size.simps) auto
    next
      case False
      with 2 have l: "length bs < remaining" by simp
      have "\<exists>w''. read_size K rfd n (pos + length bs) (remaining - length bs) ?dst w' =
          Some (int n, take (pos + length bs) ?dst @ take (remaining - length bs) (content w') @
            drop (pos + length bs + (remaining - length bs)) ?dst, w'') \<and>
          content w'' = drop (remaining - length bs) (content w')"
        using 2 l "1.prems" by (intro "1.hyps") auto
      moreover have "take (pos + length bs) ?dst = take pos dst @ bs" using "1.prems" l by simp
      moreover have "drop (pos + length bs + (remaining - length bs)) ?dst = drop (pos + remaining) dst"
        using "1.prems" l by (simp add: ac_simps)
      ultimately show ?thesis
        using 2 l "1.prems" by (subst read_size.simps) (auto simp: ac_simps)
    qed
  qed
qed

text \<open>What is past the end of the buffer is dropped, the terminator with it.\<close>

lemma read_until_fifo:
  assumes F: "fifo K rfd wfd content intr cap symbols"
  shows "content w = str @ 0 # rest \<Longrightarrow> 0 \<notin> set str \<Longrightarrow> length dst = n \<Longrightarrow>
    \<exists>w'. read_until K rfd 0 n count c dst w =
        Some (int (count + length str), take n (take count dst @ str @ 0 # drop (count + length str + 1) dst), w') \<and>
      content w' = rest"
proof (induction "(length str, intr w)" arbitrary: str count c dst w rule: wf_induct_rule [OF wf_lex_prod [OF wf_less wf_less]])
  case (1 str w count c dst)
  from "1.prems" have ne: "content w \<noteq> []" by auto
  from fifo_read [OF F ne zero_less_one] show ?case
  proof cases
    case (1 w')
    with "1.hyps" [of str w' dst count c] "1.prems" show ?thesis by (subst read_until.simps) auto
  next
    case (2 bs w')
    then obtain b where bs: "bs = [b]" by (cases bs) auto
    define dst' where "dst' = (if count < n then dst[count := b] else dst)"
    have d: "(if count < n then store_at count b dst else Some dst) = Some dst'" "length dst' = n"
      using "1.prems"(3) by (simp_all add: dst'_def store_at_def)
    have u: "take (Suc count) dst' = take n (take count dst @ [b])" "drop (Suc count) dst' = drop (Suc count) dst"
      using "1.prems"(3) by (simp_all add: dst'_def upd_conv_take_nth_drop take_Suc_conv_app_nth)
    have step: "read_until K rfd 0 n count c dst w =
        (if b = 0 then Some (int count, dst', w') else read_until K rfd 0 n (Suc count) b dst' w')"
      using 2(1) unfolding One_nat_def by (subst read_until.simps) (simp add: bs d(1))
    show ?thesis
    proof (cases str)
      case Nil
      with 2 bs "1.prems" have "b = 0" "content w' = rest" by simp_all
      moreover have "dst' = take n (take count dst @ 0 # drop (count + 1) dst)" if "b = 0"
        using that "1.prems"(3) by (simp add: dst'_def upd_conv_take_nth_drop min_def)
      ultimately show ?thesis using Nil step by simp
    next
      case (Cons x xs)
      with 2 bs "1.prems" have b: "b = x" "content w' = xs @ 0 # rest" "x \<noteq> 0" "0 \<notin> set xs" by auto
      from "1.hyps" [of xs w' dst' "Suc count" b] b d(2) Cons obtain w'' where
        r: "read_until K rfd 0 n (Suc count) b dst' w' =
          Some (int (Suc count + length xs), take n (take (Suc count) dst' @ xs @ 0 # drop (Suc count + length xs + 1) dst'), w'')"
        "content w'' = rest" by auto
      have "drop (Suc count + length xs + 1) dst' = drop (Suc count + length xs + 1) dst"
        using u(2) by (metis add.commute add.left_commute drop_drop)
      then have "take n (take (Suc count) dst' @ xs @ 0 # drop (Suc count + length xs + 1) dst') =
          take n (take n (take count dst @ [b]) @ xs @ 0 # drop (Suc count + length xs + 1) dst)" by (simp only: u(1))
      also have "\<dots> = take n (take count dst @ b # xs @ 0 # drop (Suc count + length xs + 1) dst)"
        using "1.prems"(3) by (cases "count < n") simp_all
      finally have "take n (take (Suc count) dst' @ xs @ 0 # drop (Suc count + length xs + 1) dst') =
          take n (take count dst @ str @ 0 # drop (count + length str + 1) dst)" by (simp add: b Cons)
      moreover have "int (Suc count + length xs) = int (count + length str)" by (simp add: Cons)
      ultimately show ?thesis using step r b(1,3) by (simp only: if_False) blast
    qed
  qed
qed

section \<open>From the client to the server\<close>

text \<open>The services the loop passes over are those that are not ready.\<close>

lemma service_loop_skip:
  assumes "\<forall>k < d. pipefd (services fso ! ((i + k) mod length (services fso))) \<notin> ready"
  shows "service_loop K ready junk i (d + n) info fso w = service_loop K ready junk (i + d) n info fso w"
  using assms
proof (induction d arbitrary: i)
  case (Suc d)
  then have "pipefd (services fso ! (i mod length (services fso))) \<notin> ready" by (metis add.right_neutral zero_less_Suc)
  moreover have "\<forall>k < d. pipefd (services fso ! ((Suc i + k) mod length (services fso))) \<notin> ready"
    using Suc.prems by (metis Suc_less_eq add_Suc_shift)
  ultimately show ?case using Suc.IH [of "Suc i"] by (simp add: Let_def)
qed simp

lemma cyclic_distance:
  assumes "s < (n :: nat)"
  obtains d where "d < n" "(i + d) mod n = s" "\<forall>k < d. (i + k) mod n \<noteq> s"
proof -
  have "\<exists>d. (i + d) mod n = s"
    by (rule exI [of _ "s + (n - i mod n)"])
      (use assms in \<open>metis add.left_commute add_diff_inverse_nat less_nat_zero_code mod_add_left_eq mod_add_self2 mod_less mod_less_divisor nless_le not_less_iff_gr_or_eq\<close>)
  then obtain d where d: "(i + d) mod n = s" "\<forall>k < d. (i + k) mod n \<noteq> s"
    using exists_least_iff [of "\<lambda>d. (i + d) mod n = s"] by blast
  have "d < n"
  proof (rule ccontr)
    assume "\<not> d < n"
    then have "(i + (d - n)) mod n = s" using d(1) by (metis add_diff_assoc2 le_mod_geq add.commute not_less trans_le_add2 add_diff_assoc)
    moreover have "d - n < d" using assms \<open>\<not> d < n\<close> by simp
    ultimately show False using d(2) by blast
  qed
  with d that show thesis by blast
qed

lemma select_retry_fifo:
  assumes F: "fifo K rfd wfd content intr cap symbols" and "rfd \<in> fds"
  shows "content w \<noteq> [] \<Longrightarrow>
    \<exists>ready w'. select_retry K m fds w = Some (Inr ready, w') \<and> content w' = content w \<and> rfd \<in> ready \<and> ready \<subseteq> fds"
proof (induction "intr w" arbitrary: w rule: less_induct)
  case less
  from fifo_select [OF F less.prems assms(2), where m = m] show ?case
  proof cases
    case (1 w')
    with less.hyps [of w'] less.prems show ?thesis by (subst select_retry.simps) auto
  next
    case (2 ready w')
    then show ?thesis by (subst select_retry.simps) auto
  qed
qed

lemma symbols_buffer:
  "take 4096 (take 0 (replicate 4096 0) @ str @ 0 # drop (0 + length str + 1) (replicate 4096 0)) =
     take 4096 (str @ replicate 4096 (0 :: u8))"
proof (cases "length str < 4096")
  case True
  then have "0 # replicate (4096 - (length str + 1)) (0 :: u8) = replicate (4096 - length str) 0"
    by (metis Suc_diff_Suc Suc_eq_plus1 replicate_Suc)
  with True show ?thesis by (simp add: min_def)
qed simp

lemma symbols_string:
  assumes "0 \<notin> set str"
  shows "c_string (take 4096 (str @ replicate 4096 (0 :: u8))) = (if length str < 4096 then Some str else None)"
proof (cases "length str < 4096")
  case True
  then obtain k where "4096 - length str = Suc k" by (metis Suc_diff_Suc)
  with True have "take 4096 (str @ replicate 4096 (0 :: u8)) = str @ 0 # replicate k 0" by simp
  then show ?thesis using assms True by (simp add: c_string_def takeWhile_append)
next
  case False
  then show ?thesis using assms by (auto simp: c_string_def dest: in_set_takeD)
qed

text \<open>The report with its strings is written, and read.\<close>

lemma client_write_fifo:
  assumes F: "fifo K rfd wfd content intr cap symbols" and ok: "info_ok info" "pipefd (cl_s c) = wfd"
    and room: "length (content w) + 561 + length (symbols (i_backtrace info) (sint (i_backtrace_size info))) \<le> cap"
  shows "\<exists>w'. faultd_client_write K c info w = Some (0, w') \<and>
    content w' = content w @ info_bytes info @
      (if i_backtrace_symbols info \<noteq> 0 then symbols (i_backtrace info) (sint (i_backtrace_size info)) @ [0] else [])"
proof -
  let ?t = "symbols (i_backtrace info) (sint (i_backtrace_size info))"
  have "info_bytes info \<noteq> []" using length_info_bytes [OF ok(1)] by auto
  with write_size_fifo [OF F, of "info_bytes info" w INFO_SIZE] room ok(1) obtain w1 where
    1: "write_size K wfd INFO_SIZE (info_bytes info) w = Some (560, w1)" "content w1 = content w @ info_bytes info" by auto
  have 2: "content (p_backtrace_symbols_fd K (i_backtrace info) (sint (i_backtrace_size info)) wfd w1) = content w1 @ ?t"
    using F room ok(1) by (simp add: fifo_def 1(2))
  from write_size_fifo [OF F, of "[0]" "p_backtrace_symbols_fd K (i_backtrace info) (sint (i_backtrace_size info)) wfd w1" 1] room ok(1)
  obtain w3 where 3: "write_size K wfd 1 [0] (p_backtrace_symbols_fd K (i_backtrace info) (sint (i_backtrace_size info)) wfd w1) = Some (1, w3)"
    "content w3 = content w1 @ ?t @ [0]" by (auto simp: 1(2) 2)
  show ?thesis
    using 1 3 ok(2) by (auto simp: faultd_client_write_def Let_def)
qed

lemma server_read_fifo:
  assumes F: "fifo K rfd wfd content intr cap symbols"
    and srv: "s < length (services fso)" "pipefd (services fso ! s) = rfd" "rfd \<noteq> 0"
    and info: "info_ok info" "content w = info_bytes info @ (if i_backtrace_symbols info \<noteq> 0 then str @ [0] else [])" "0 \<notin> set str"
    and only: "\<forall>j < length (services fso). j \<noteq> s \<longrightarrow> pipefd (services fso ! j) \<noteq> rfd"
  shows "\<exists>w'. faultd_server_read K junk fso received_zero (int s) w =
    Some (int s, \<lparr>r_info = info, r_pipename = pipename (services fso ! s),
      r_symbols = (if i_backtrace_symbols info \<noteq> 0 then Some (take 4096 (str @ replicate 4096 0)) else None)\<rparr>,
      fso\<lparr>sid_last := s\<rparr>, w') \<and> content w' = []"
proof -
  have ne: "content w \<noteq> []" using length_info_bytes [OF info(1)] info(2) by auto
  obtain ready w1 where "select_retry K (rfd + 1) {rfd} w = Some (Inr ready, w1)" "content w1 = content w" "rfd \<in> ready" "ready \<subseteq> {rfd}"
    using select_retry_fifo [OF F _ ne, of "{rfd}" "rfd + 1"] by blast
  then have sel: "select_retry K (rfd + 1) {rfd} w = Some (Inr ready, w1)" "content w1 = content w" "ready = {rfd}" by auto
  have wait: "faultd_wait_services K fso (int s) w = Some (Inr ready, w1)"
    using srv sel(1) by (simp add: faultd_wait_services_def wait_set_def)
  let ?n = "length (services fso)"
  obtain d where d: "d < ?n" "(sid_last fso + 1 + d) mod ?n = s" "\<forall>k < d. (sid_last fso + 1 + k) mod ?n \<noteq> s"
    using cyclic_distance [OF srv(1)] by blast
  have "\<forall>k < d. pipefd (services fso ! ((sid_last fso + 1 + k) mod ?n)) \<notin> ready"
    using d(1,3) only sel(3) by (metis mod_less_divisor not_less_zero singletonD gr_zeroI)
  then have skip: "service_loop K ready junk (sid_last fso + 1) ?n received_zero fso w1 =
      service_loop K ready junk (sid_last fso + 1 + d) (Suc (?n - Suc d)) received_zero fso w1"
    using service_loop_skip [of d fso "sid_last fso + 1" ready K junk "Suc (?n - Suc d)" received_zero w1] d(1)
    by (simp only: Suc_diff_Suc le_add_diff_inverse less_imp_le Suc_leI add_Suc_right add_Suc [symmetric])
  have z: "info_ok info_zero" by (simp add: info_ok_def info_zero_def)
  have "560 \<le> length (content w1)" using info sel(2) by simp
  with read_size_fifo [OF F, of 560 w1 0 "info_bytes info_zero" 560] z obtain w2 where
    2: "read_size K rfd 560 0 560 (info_bytes info_zero) w1 = Some (560, info_bytes info, w2)"
      "content w2 = (if i_backtrace_symbols info \<noteq> 0 then str @ [0] else [])"
    using info sel(2) by auto
  have "\<exists>w3. read_symbols K rfd junk (received_zero\<lparr>r_info := info\<rparr>) w2 =
      Some (\<lparr>r_info = info, r_pipename = None,
        r_symbols = (if i_backtrace_symbols info \<noteq> 0 then Some (take 4096 (str @ replicate 4096 0)) else None)\<rparr>, w3) \<and> content w3 = []"
  proof (cases "i_backtrace_symbols info = 0")
    case True
    with 2 show ?thesis by (simp add: read_symbols_def received_zero_def)
  next
    case False
    with read_until_fifo [OF F, of w2 str "[]" "replicate 4096 0" 4096 0 junk] 2(2) info(3) obtain w3 where
      "read_until K rfd 0 4096 0 junk (replicate 4096 0) w2 = Some (int (length str), take 4096 (str @ replicate 4096 0), w3)"
      "content w3 = []"
      unfolding symbols_buffer by auto
    with False show ?thesis by (simp add: read_symbols_def received_zero_def)
  qed
  then obtain w3 where 3: "read_symbols K rfd junk (received_zero\<lparr>r_info := info\<rparr>) w2 =
      Some (\<lparr>r_info = info, r_pipename = None,
        r_symbols = (if i_backtrace_symbols info \<noteq> 0 then Some (take 4096 (str @ replicate 4096 0)) else None)\<rparr>, w3)"
    "content w3 = []" by blast
  have r0: "r_info received_zero = info_zero" by (simp add: received_zero_def)
  have "service_loop K ready junk (sid_last fso + 1 + d) (Suc (?n - Suc d)) received_zero fso w1 =
    Some (int s, \<lparr>r_info = info, r_pipename = pipename (services fso ! s),
      r_symbols = (if i_backtrace_symbols info \<noteq> 0 then Some (take 4096 (str @ replicate 4096 0)) else None)\<rparr>,
      fso\<lparr>sid_last := s\<rparr>, w3)"
    unfolding service_loop.simps Let_def d(2) srv(2) sel(3) r0 INFO_SIZE_def 2(1)
    by (simp add: bytes_info_inverse' [OF info(1)] 3(1) del: service_loop.simps)
  with wait skip 3(2) show ?thesis by (simp add: faultd_server_read_def)
qed


text \<open>A pipe that moves at most seven bytes at a time, with ends 3 and 4.\<close>

definition slow_pipe :: "u8 list pipe_os" where
  "slow_pipe =
     \<lparr>p_mkfifo = (\<lambda>name w. (Inr (), w)), p_open = (\<lambda>name mode w. (Inr 3, w)), p_close = (\<lambda>fd w. w),
      p_getfl = (\<lambda>fd w. (Inr 0, w)), p_setfl = (\<lambda>fd fl w. (Inr (), w)),
      p_read = (\<lambda>fd n w. (Inr (take (min 7 n) w), drop (min 7 n) w)),
      p_write = (\<lambda>fd src w. (Inr (min 7 (length src)), w @ take 7 src)),
      p_select = (\<lambda>m fds w. (Inr (if w = [] then {} else fds), w)),
      p_backtrace_symbols_fd = (\<lambda>bt n fd w. w @ [66, 84])\<rparr>"

lemma slow_pipe_fifo: "fifo slow_pipe r d (\<lambda>w. w) (\<lambda>_. 0) 65536 (\<lambda>_ _. [66, 84])"
  by (auto simp: fifo_def slow_pipe_def min_def)

definition one_service :: faultd_server where
  "one_service = faultd_server_create\<lparr>services := (services faultd_server_create)[0 := \<lparr>pipename = Some ''p'', pipefd = 3, writefd = 5\<rparr>]\<rparr>"


section \<open>The life of a server\<close>

text \<open>The descriptors that are open, as the calls of the system change them.\<close>

definition fd_table :: "'w pipe_os \<Rightarrow> ('w \<Rightarrow> int set) \<Rightarrow> bool" where
  "fd_table K opened \<longleftrightarrow>
     (\<forall>name w. opened (snd (p_mkfifo K name w)) = opened w) \<and>
     (\<forall>name mode w. case p_open K name mode w of
        (Inl e, w') \<Rightarrow> opened w' = opened w
      | (Inr fd, w') \<Rightarrow> 0 < fd \<and> fd \<notin> opened w \<and> opened w' = insert fd (opened w)) \<and>
     (\<forall>fd w. opened (p_close K fd w) = opened w - {fd}) \<and>
     (\<forall>fd w. opened (snd (p_getfl K fd w)) = opened w) \<and>
     (\<forall>fd fl w. opened (snd (p_setfl K fd fl w)) = opened w)"

definition slot_fds :: "faultd_service \<Rightarrow> int set" where
  "slot_fds sp = {pipefd sp, writefd sp} - {0}"

text \<open>
  The server owns what is in its slots and nothing else was opened: beside \<open>base\<close>, what was open before.
\<close>

definition owns :: "('w \<Rightarrow> int set) \<Rightarrow> int set \<Rightarrow> faultd_server \<Rightarrow> 'w \<Rightarrow> bool" where
  "owns opened base s w \<longleftrightarrow>
     opened w = base \<union> (\<Union>i < length (services s). slot_fds (services s ! i)) \<and>
     (\<forall>i < length (services s). base \<inter> slot_fds (services s ! i) = {} \<and>
        (\<forall>j < length (services s). i \<noteq> j \<longrightarrow> slot_fds (services s ! i) \<inter> slot_fds (services s ! j) = {}) \<and>
        (pipename (services s ! i) = None \<longrightarrow> services s ! i = service_zero))"

lemma slot_fds_zero [simp]: "slot_fds service_zero = {}"
  by (simp add: slot_fds_def service_zero_def)

lemma service_destroy_closes:
  assumes "fd_table K opened"
  shows "fst (faultd_service_destroy K sp w) = service_zero"
    "opened (snd (faultd_service_destroy K sp w)) = opened w - slot_fds sp"
  using assms by (auto simp: faultd_service_destroy_def fd_table_def slot_fds_def Let_def)

lemma service_open_opens:
  assumes T: "fd_table K opened" and o: "service_open K name service_zero w = (ok, sp, w')"
  shows "opened w' = opened w \<union> slot_fds sp" "slot_fds sp \<inter> opened w = {}" "pipename sp = Some name"
proof -
  obtain rv w1 where 1: "p_mkfifo K name w = (rv, w1)" by fastforce
  have w1: "opened w1 = opened w" using T 1 by (metis fd_table_def snd_conv)
  have op: "(case r of Inl e \<Rightarrow> opened v' = opened v | Inr fd \<Rightarrow> 0 < fd \<and> fd \<notin> opened v \<and> opened v' = insert fd (opened v))"
    if "p_open K name mode v = (r, v')" for mode v r v'
    using T that unfolding fd_table_def by (metis (no_types, lifting) case_prod_conv)
  have fl: "p_getfl K fd v = (r, v') \<Longrightarrow> opened v' = opened v" for fd v r v'
    using T unfolding fd_table_def by (metis snd_conv)
  have sf: "p_setfl K fd x v = (r, v') \<Longrightarrow> opened v' = opened v" for fd x v r v'
    using T unfolding fd_table_def by (metis snd_conv)
  obtain r2 w2 where 2: "p_open K name RDONLY_NONBLOCK w1 = (r2, w2)" by fastforce
  obtain r3 w3 where 3: "p_open K name WRONLY_NONBLOCK w2 = (r3, w3)" by fastforce
  obtain r4 w4 where 4: "p_getfl K (projr r2) w3 = (r4, w4)" by fastforce
  obtain r5 w5 where 5: "p_setfl K (projr r2) (projr r4 AND NOT O_NONBLOCK) w4 = (r5, w5)" by fastforce
  note facts = op [OF 2] op [OF 3] fl [OF 4] sf [OF 5]
  have "opened w' = opened w \<union> slot_fds sp \<and> slot_fds sp \<inter> opened w = {} \<and> pipename sp = Some name"
  proof (cases "case rv of Inl e \<Rightarrow> e \<noteq> EEXIST | Inr _ \<Rightarrow> False")
    case True
    with o w1 show ?thesis by (auto simp: service_open_def 1 slot_fds_def service_zero_def)
  next
    case c: False
    show ?thesis
    proof (cases r2)
      case (Inl e)
      with o c facts w1 show ?thesis by (auto simp: service_open_def 1 2 slot_fds_def service_zero_def)
    next
      case r2: (Inr fd)
      show ?thesis
      proof (cases r3)
        case (Inl e)
        with o c r2 facts w1 show ?thesis by (auto simp: service_open_def 1 2 3 slot_fds_def service_zero_def)
      next
        case r3: (Inr fd')
        have s: "sp = \<lparr>pipename = Some name, pipefd = fd, writefd = fd'\<rparr>" "opened w' = opened w3"
          using o c r2 r3 3 4 5 facts(3,4) by (cases r4; cases r5; simp add: service_open_def 1 2 service_zero_def)+
        with r2 r3 facts(1,2) w1 show ?thesis by (auto simp: slot_fds_def)
      qed
    qed
  qed
  then show "opened w' = opened w \<union> slot_fds sp" "slot_fds sp \<inter> opened w = {}" "pipename sp = Some name" by auto
qed

lemma owns_update:
  assumes own: "owns opened base s w" and i: "i < length (services s)"
    and w': "opened w' = (opened w - slot_fds (services s ! i)) \<union> slot_fds sp" "slot_fds sp \<inter> (opened w - slot_fds (services s ! i)) = {}"
    and clean: "pipename sp = None \<longrightarrow> sp = service_zero"
  shows "owns opened base (s\<lparr>services := (services s)[i := sp]\<rparr>) w'"
proof -
  let ?f = "\<lambda>j. slot_fds (services s ! j)"
  have o: "opened w = base \<union> (\<Union>j < length (services s). ?f j)" using own by (simp add: owns_def)
  have b: "base \<inter> ?f j = {}" if "j < length (services s)" for j using own that by (simp add: owns_def)
  have d: "?f j \<inter> ?f k = {}" if "j < length (services s)" "k < length (services s)" "j \<noteq> k" for j k
    using own that by (simp add: owns_def)
  have rest: "opened w - ?f i = base \<union> (\<Union>j \<in> {..<length (services s)} - {i}. ?f j)"
    using o b [OF i] d [OF i] i by auto
  have "(\<Union>j < length (services s). slot_fds ((services s)[i := sp] ! j)) =
      slot_fds sp \<union> (\<Union>j \<in> {..<length (services s)} - {i}. ?f j)"
    using i by (auto simp: nth_list_update split: if_splits)
  moreover have "slot_fds sp \<inter> base = {}" "\<forall>j < length (services s). j \<noteq> i \<longrightarrow> slot_fds sp \<inter> ?f j = {}"
    using w'(2) unfolding rest by auto
  ultimately show ?thesis
    using own w'(1) clean i unfolding rest owns_def by (auto simp: nth_list_update)
qed

lemma server_remove_owns:
  assumes T: "fd_table K opened" and own: "owns opened base s w"
  shows "\<exists>rv s' w'. faultd_server_remove K (Some s) sid w = (rv, Some s', w') \<and> owns opened base s' w' \<and>
    length (services s') = length (services s) \<and>
    (0 \<le> sid \<and> sid < int (length (services s)) \<longrightarrow> rv = 0 \<and> services s' = (services s)[nat sid := service_zero])"
proof (cases "sid < 0 \<or> sid \<ge> int (length (services s))")
  case True
  with own show ?thesis by (auto simp: faultd_server_remove_def)
next
  case False
  then have i: "nat sid < length (services s)" by linarith
  have "owns opened base (s\<lparr>services := (services s)[nat sid := service_zero]\<rparr>) (snd (faultd_service_destroy K (services s ! nat sid) w))"
    by (rule owns_update [OF own i]) (simp_all add: service_destroy_closes(2) [OF T])
  with False show ?thesis
    using service_destroy_closes(1) [OF T, of "services s ! nat sid" w]
    by (simp add: faultd_server_remove_def case_prod_unfold)
qed

lemma server_add_owns:
  assumes T: "fd_table K opened" and own: "owns opened base s w"
  shows "\<exists>rv s' w'. faultd_server_add K (Some s) name w = (rv, Some s', w') \<and> owns opened base s' w' \<and>
    length (services s') = length (services s) \<and>
    (rv \<noteq> -1 \<longrightarrow> 0 \<le> rv \<and> rv < int (length (services s)) \<and> pipename (services s' ! nat rv) \<noteq> None \<and> services s ! nat rv = service_zero) \<and>
    (rv = -1 \<longrightarrow> opened w' = opened w)"
proof -
  let ?name = "case name of None \<Rightarrow> FAULTD_CONFIG_PIPE_NAME_DEFAULT | Some n \<Rightarrow> n"
  show ?thesis
  proof (cases "List.find (\<lambda>i. pipename (services s ! i) = None) [0..<length (services s)]")
    case None
    with own show ?thesis by (simp add: faultd_server_add_def)
  next
    case (Some i)
    then have i: "i < length (services s)" "pipename (services s ! i) = None" by (auto simp: find_Some_iff)
    then have z: "services s ! i = service_zero" using own by (simp add: owns_def)
    obtain ok sp w1 where 1: "service_open K ?name service_zero w = (ok, sp, w1)" by (metis prod_cases3)
    let ?s = "s\<lparr>services := (services s)[i := sp]\<rparr>"
    note so = service_open_opens [OF T 1]
    have own1: "owns opened base ?s w1"
      by (rule owns_update [OF own i(1)]) (use so in \<open>auto simp: z\<close>)
    show ?thesis
    proof (cases ok)
      case True
      with Some 1 own1 i so(3) z show ?thesis by (simp add: faultd_server_add_def)
    next
      case False
      have "opened (snd (faultd_service_destroy K sp w1)) = opened w"
        using service_destroy_closes(2) [OF T, of sp w1] so(1,2) by auto
      moreover obtain s2 w2 where 2: "faultd_server_remove K (Some ?s) (int i) w1 = (0, Some s2, w2)" "owns opened base s2 w2"
        "length (services s2) = length (services s)"
        using server_remove_owns [OF T own1, of "int i"] i(1) by auto
      moreover have "w2 = snd (faultd_service_destroy K sp w1)"
        using 2(1) i(1) by (simp add: faultd_server_remove_def case_prod_unfold Let_def)
      ultimately show ?thesis using False Some 1 z by (simp add: faultd_server_add_def)
    qed
  qed
qed

text \<open>What a program can do to a server: add and remove services, in any order.\<close>

datatype server_op = Add "string option" | Remove int

fun run_op :: "'w pipe_os \<Rightarrow> server_op \<Rightarrow> faultd_server option \<times> 'w \<Rightarrow> faultd_server option \<times> 'w" where
  "run_op K (Add name) (fso, w) = snd (faultd_server_add K fso name w)"
| "run_op K (Remove sid) (fso, w) = snd (faultd_server_remove K fso sid w)"

lemma run_ops_owns:
  assumes T: "fd_table K opened"
  shows "owns opened base s w \<Longrightarrow> \<exists>s' w'. fold (run_op K) ops (Some s, w) = (Some s', w') \<and> owns opened base s' w'"
proof (induction ops arbitrary: s w)
  case (Cons op ops)
  have "\<exists>s' w'. run_op K op (Some s, w) = (Some s', w') \<and> owns opened base s' w'"
  proof (cases op)
    case (Add name)
    then show ?thesis using server_add_owns [OF T Cons.prems, of name] by auto
  next
    case (Remove sid)
    then show ?thesis using server_remove_owns [OF T Cons.prems, of sid] by auto
  qed
  with Cons.IH show ?case by auto
qed simp

lemma remove_all_owns:
  assumes T: "fd_table K opened"
  shows "owns opened base s w \<Longrightarrow> \<forall>i \<in> set is. i < length (services s) \<Longrightarrow>
    \<exists>s' w'. remove_all K is (Some s) w = (Some s', w') \<and> owns opened base s' w' \<and>
      length (services s') = length (services s) \<and>
      (\<forall>i < length (services s). i \<in> set is \<or> services s ! i = service_zero \<longrightarrow> services s' ! i = service_zero)"
proof (induction "is" arbitrary: s w)
  case (Cons i "is")
  then have i: "i < length (services s)" by simp
  obtain s1 w1 where 1: "faultd_server_remove K (Some s) (int i) w = (0, Some s1, w1)" "owns opened base s1 w1"
    "services s1 = (services s)[i := service_zero]"
    using server_remove_owns [OF T Cons.prems(1), of "int i"] i by auto
  obtain s2 w2 where 2: "remove_all K is (Some s1) w1 = (Some s2, w2)" "owns opened base s2 w2"
    "length (services s2) = length (services s1)"
    "\<forall>j < length (services s1). j \<in> set is \<or> services s1 ! j = service_zero \<longrightarrow> services s2 ! j = service_zero"
    using Cons.IH [OF 1(2)] Cons.prems(2) 1(3) by auto
  have "\<forall>j < length (services s). j \<in> set (i # is) \<or> services s ! j = service_zero \<longrightarrow> services s2 ! j = service_zero"
    using 2(4) unfolding 1(3) by (metis length_list_update nth_list_update_eq nth_list_update_neq set_ConsD)
  with 1 2 show ?case by simp
qed auto


text \<open>A system that gives out the number after the largest one and refuses the pipe named ``bad''.\<close>

definition counting_os :: "int set pipe_os" where
  "counting_os = 
     \<lparr>p_mkfifo = (\<lambda>name w. (Inr (), w)),
      p_open = (\<lambda>name mode w. if name = ''bad'' \<and> mode = WRONLY_NONBLOCK then (Inl 6, w)
         else (let fd = Max (insert 0 w) + 1 in if finite w then (Inr fd, insert fd w) else (Inl 24, w))),
      p_close = (\<lambda>fd w. w - {fd}), p_getfl = (\<lambda>fd w. (Inr 0, w)), p_setfl = (\<lambda>fd fl w. (Inr (), w)),
      p_read = (\<lambda>fd n w. (Inr [], w)), p_write = (\<lambda>fd src w. (Inr 0, w)), p_select = (\<lambda>m fds w. (Inr {}, w)),
      p_backtrace_symbols_fd = (\<lambda>bt n fd w. w)\<rparr>"

lemma counting_os_table: "fd_table counting_os (\<lambda>w. w)"
proof -
  have "0 < Max (insert 0 w) + 1 \<and> Max (insert 0 w) + 1 \<notin> w" if "finite w" for w :: "int set"
  proof -
    have "0 \<le> Max (insert 0 w)" "\<forall>x \<in> w. x \<le> Max (insert 0 w)" using that by simp_all
    then show ?thesis by force
  qed
  then show ?thesis by (simp add: fd_table_def counting_os_def Let_def)
qed


section \<open>No service starves\<close>

text \<open>
  Calls are interrupted finitely often and the strings of every report end; the service \<open>t\<close> always has a
  report. The others may fail as they like.
\<close>

definition always_ready :: "'w pipe_os \<Rightarrow> int \<Rightarrow> ('w \<Rightarrow> nat) \<Rightarrow> bool" where
  "always_ready K fd m \<longleftrightarrow>
     (\<forall>n fds w. fd \<in> fds \<longrightarrow> (case p_select K n fds w of
        (Inl e, w') \<Rightarrow> e = EINTR \<and> m w' < m w | (Inr ready, w') \<Rightarrow> fd \<in> ready \<and> ready \<subseteq> fds)) \<and>
     (\<forall>f n w w'. p_read K f n w = (Inl EINTR, w') \<longrightarrow> m w' < m w) \<and>
     (\<forall>f w bs w'. p_read K f 1 w = (Inr bs, w') \<longrightarrow> bs \<noteq> [0] \<longrightarrow> m w' < m w) \<and>
     (\<forall>n w. 0 < n \<longrightarrow> (case p_read K fd n w of (Inl e, w') \<Rightarrow> e = EINTR | (Inr bs, w') \<Rightarrow> bs \<noteq> []))"

lemma read_size_returns:
  assumes A: "always_ready K fd m"
  shows "\<exists>rv dst' w'. read_size K f n pos remaining dst w = Some (rv, dst', w') \<and> (f = fd \<and> 0 < remaining \<longrightarrow> rv = int n)"
proof (induction "(remaining, m w)" arbitrary: remaining pos dst w rule: wf_induct_rule [OF wf_lex_prod [OF wf_less wf_less]])
  case (1 remaining w pos dst)
  obtain r w' where p: "p_read K f remaining w = (r, w')" by fastforce
  show ?case
  proof (cases r)
    case (Inl e)
    have f: "e = EINTR" if "f = fd" "0 < remaining" using A p Inl that unfolding always_ready_def by (metis (mono_tags, lifting) case_prod_conv old.sum.simps(5))
    have "m w' < m w" if "e = EINTR" using A p Inl that unfolding always_ready_def by blast
    with "1.hyps" [of remaining w' pos dst] f show ?thesis
      by (subst read_size.simps) (auto simp: p Inl)
  next
    case (Inr bs)
    have f: "bs \<noteq> []" if "f = fd" "0 < remaining" using A p Inr that unfolding always_ready_def by (metis (mono_tags, lifting) case_prod_conv old.sum.simps(6))
    show ?thesis
    proof (cases "bs = [] \<or> remaining - length bs = 0")
      case True
      with f show ?thesis by (subst read_size.simps) (auto simp: p Inr)
    next
      case False
      with "1.hyps" [of "remaining - length bs" w' "pos + length bs" "take pos dst @ bs @ drop (pos + length bs) dst"] f
      show ?thesis by (subst read_size.simps) (auto simp: p Inr Let_def)
    qed
  qed
qed

lemma read_until_returns:
  assumes A: "always_ready K fd m"
  shows "length dst = n \<Longrightarrow> \<exists>r. read_until K f 0 n count c dst w = Some r"
proof (induction "m w" arbitrary: count c dst w rule: less_induct)
  case less
  obtain r w' where p: "p_read K f 1 w = (r, w')" by fastforce
  show ?case
  proof (cases r)
    case (Inl e)
    have "m w' < m w" if "e = EINTR" using A p Inl that unfolding always_ready_def by blast
    with less show ?thesis using p Inl by (subst read_until.simps) auto
  next
    case (Inr bs)
    define b where "b = (case bs of [] \<Rightarrow> c | b # _ \<Rightarrow> b)"
    obtain dst' where d: "(if count < n then store_at count b dst else Some dst) = Some dst'" "length dst' = n"
      using less.prems by (cases "count < n") (auto simp: store_at_def)
    have step: "read_until K f 0 n count c dst w = (if b = 0 then Some (int count, dst', w') else read_until K f 0 n (Suc count) b dst' w')"
      using p unfolding One_nat_def by (subst read_until.simps) (simp add: Inr b_def [symmetric] d(1) Let_def)
    show ?thesis
    proof (cases "b = 0")
      case True
      with step show ?thesis by simp
    next
      case False
      then have "bs \<noteq> [0]" by (auto simp: b_def)
      with A p Inr have "m w' < m w" unfolding always_ready_def by blast
      with less.hyps [of w' dst' "Suc count" b] d(2) step False show ?thesis by simp
    qed
  qed
qed

lemma read_symbols_returns:
  assumes A: "always_ready K fd m"
  shows "\<exists>info' w'. read_symbols K f junk info w = Some (info', w')"
proof -
  obtain rv buf w' where "read_until K f 0 4096 0 junk (replicate 4096 0) w = Some (rv, buf, w')"
    using read_until_returns [OF A, of "replicate 4096 0" 4096 f 0 junk w] by auto
  then show ?thesis by (simp add: read_symbols_def)
qed

text \<open>One round of the loop serves a service that is not further than \<open>t\<close>.\<close>

lemma service_loop_serves:
  assumes A: "always_ready K fd m" and t: "t < length (services fso)" "pipefd (services fso ! t) = fd" "fd \<in> ready"
  shows "(i + d) mod length (services fso) = t \<Longrightarrow> d < count \<Longrightarrow>
    \<exists>k \<le> d. \<exists>info' w'. service_loop K ready junk i count info fso w =
      Some (int ((i + k) mod length (services fso)), info', fso\<lparr>sid_last := (i + k) mod length (services fso)\<rparr>, w')"
proof (induction d arbitrary: i count info w)
  case 0
  then obtain c where c: "count = Suc c" by (cases count) auto
  from read_size_returns [OF A, of fd 560 0 560 "info_bytes (r_info info)" w] obtain dst w1 where
    1: "read_size K fd 560 0 560 (info_bytes (r_info info)) w = Some (560, dst, w1)" by auto
  obtain info2 w2 where 2: "read_symbols K fd junk (info\<lparr>r_info := bytes_info dst\<rparr>) w1 = Some (info2, w2)"
    using read_symbols_returns [OF A] by blast
  show ?case using 0 t 1 2 by (simp add: c Let_def)
next
  case (Suc d)
  then obtain c where c: "count = Suc c" "d < c" by (cases count) auto
  let ?n = "length (services fso)"
  let ?f = "pipefd (services fso ! (i mod ?n))"
  have later: "\<exists>k \<le> Suc d. \<exists>info' w'. service_loop K ready junk (Suc i) c info1 fso w1 =
      Some (int ((i + k) mod ?n), info', fso\<lparr>sid_last := (i + k) mod ?n\<rparr>, w')" for info1 w1
  proof -
    have "(Suc i + d) mod ?n = t" using Suc.prems(1) by simp
    from Suc.IH [OF this c(2), of info1 w1] obtain k info' w' where "k \<le> d" "service_loop K ready junk (Suc i) c info1 fso w1 =
      Some (int ((Suc i + k) mod ?n), info', fso\<lparr>sid_last := (Suc i + k) mod ?n\<rparr>, w')" by blast
    then show ?thesis by (intro exI [of _ "Suc k"]) simp
  qed
  show ?case
  proof (cases "?f \<in> ready")
    case False
    with later [of info w] show ?thesis by (simp add: c Let_def)
  next
    case True
    from read_size_returns [OF A, of ?f 560 0 560 "info_bytes (r_info info)" w] obtain rv dst w1 where
      1: "read_size K ?f 560 0 560 (info_bytes (r_info info)) w = Some (rv, dst, w1)" by blast
    show ?thesis
    proof (cases "rv < 0")
      case neg: True
      with True 1 later [of "info\<lparr>r_info := bytes_info dst\<rparr>" w1] show ?thesis by (simp add: c Let_def)
    next
      case False
      obtain info2 w2 where 2: "read_symbols K ?f junk (info\<lparr>r_info := bytes_info dst\<rparr>) w1 = Some (info2, w2)"
        using read_symbols_returns [OF A] by blast
      show ?thesis by (rule exI [of _ 0]) (use True False 1 2 in \<open>simp add: c Let_def\<close>)
    qed
  qed
qed

lemma select_retry_ready:
  assumes A: "always_ready K fd m" and f: "fd \<in> fds"
  shows "\<exists>ready w'. select_retry K n fds w = Some (Inr ready, w') \<and> fd \<in> ready"
proof (induction "m w" arbitrary: w rule: less_induct)
  case less
  obtain r w' where p: "p_select K n fds w = (r, w')" by fastforce
  with A f have "case r of Inl e \<Rightarrow> e = EINTR \<and> m w' < m w | Inr ready \<Rightarrow> fd \<in> ready \<and> ready \<subseteq> fds"
    unfolding always_ready_def by (metis (no_types, lifting) case_prod_conv)
  with less [of w'] p show ?case by (subst select_retry.simps) (auto split: sum.splits)
qed

lemma server_read_serves:
  assumes A: "always_ready K fd m" and t: "t < length (services fso)" "pipefd (services fso ! t) = fd" "fd \<noteq> 0"
    and d: "(sid_last fso + 1 + d) mod length (services fso) = t" "d < length (services fso)"
  shows "\<exists>k \<le> d. \<exists>info' w'. faultd_server_read K junk fso info (-1) w =
    Some (int ((sid_last fso + 1 + k) mod length (services fso)), info',
      fso\<lparr>sid_last := (sid_last fso + 1 + k) mod length (services fso)\<rparr>, w')"
proof -
  let ?fds = "filter (\<lambda>fd. fd \<noteq> 0) (map pipefd (services fso))"
  have "fd \<in> set ?fds" using t by auto
  from select_retry_ready [OF A this, of "fold max ?fds 0 + 1" w] obtain ready w1 where
    1: "faultd_wait_services K fso (-1) w = Some (Inr ready, w1)" "fd \<in> ready"
    by (auto simp: faultd_wait_services_def wait_set_def Let_def)
  from service_loop_serves [OF A t(1,2) 1(2) d, of junk info w1] 1(1) show ?thesis
    by (simp add: faultd_server_read_def)
qed


text \<open>Every descriptor is ready and delivers zeros.\<close>

definition zeros_os :: "unit pipe_os" where
  "zeros_os =
     \<lparr>p_mkfifo = (\<lambda>name w. (Inr (), w)), p_open = (\<lambda>name mode w. (Inr 3, w)), p_close = (\<lambda>fd w. w),
      p_getfl = (\<lambda>fd w. (Inr 0, w)), p_setfl = (\<lambda>fd fl w. (Inr (), w)),
      p_read = (\<lambda>fd n w. (if fd = 5 \<and> n > 1 then Inl 5 else Inr (replicate n 0), w)), p_write = (\<lambda>fd src w. (Inr 0, w)),
      p_select = (\<lambda>m fds w. (Inr fds, w)), p_backtrace_symbols_fd = (\<lambda>bt n fd w. w)\<rparr>"

definition eight_services :: faultd_server where
  "eight_services = \<lparr>services = map (\<lambda>i. \<lparr>pipename = Some ''p'', pipefd = i, writefd = 20 + i\<rparr>) [3, 4, 5, 6, 7, 8, 9, 10], sid_last = 6\<rparr>"


end
