(* ===== verification/Snmp.thy ===== *)
theory Snmp
  imports Platform File Kernel
begin

text \<open>
  \<open>onlp_snmp_sensors.c\<close> and \<open>onlp_snmp_platform.c\<close>: a thread collects the sensors into
  the back half of every sensor object and swaps the halves; the agent answers requests from the front
  half, and adds and removes the rows of its tables in an alarm of its own. \<open>None\<close> is undefined
  behaviour: a failed assertion, or the use of a sensor that was freed.
\<close>

section \<open>Configuration\<close>

definition ONLP_SNMP_CONFIG_MAX_NAME_LENGTH :: nat where [simp]: "ONLP_SNMP_CONFIG_MAX_NAME_LENGTH = 32"
definition ONLP_SNMP_CONFIG_MAX_DESC_LENGTH :: nat where [simp]: "ONLP_SNMP_CONFIG_MAX_DESC_LENGTH = 128"
definition ONLP_SNMP_CONFIG_UPDATE_PERIOD :: u64 where [simp]: "ONLP_SNMP_CONFIG_UPDATE_PERIOD = 5"
definition ONLP_SNMP_CONFIG_RESOURCE_UPDATE_SECONDS :: u64 where [simp]: "ONLP_SNMP_CONFIG_RESOURCE_UPDATE_SECONDS = 5"
definition NUM_SENSOR_INFO :: nat where [simp]: "NUM_SENSOR_INFO = 2"

datatype sensor_type = ST_TEMP | ST_FAN | ST_PSU | ST_LED | ST_MISC

text \<open>The loops from \<open>ONLP_SNMP_SENSOR_TYPE_TEMP\<close> to \<open>ONLP_SNMP_SENSOR_TYPE_MAX\<close>.\<close>

definition sensor_types :: "sensor_type list" where
  "sensor_types = [ST_TEMP, ST_FAN, ST_PSU, ST_LED, ST_MISC]"

definition ONLP_SNMP_SENSOR_STATUS_MISSING :: int where [simp]: "ONLP_SNMP_SENSOR_STATUS_MISSING = 0"
definition ONLP_SNMP_SENSOR_STATUS_GOOD :: int where [simp]: "ONLP_SNMP_SENSOR_STATUS_GOOD = 1"
definition ONLP_SNMP_SENSOR_STATUS_FAILED :: int where [simp]: "ONLP_SNMP_SENSOR_STATUS_FAILED = 2"

section \<open>The state\<close>

text \<open>The three members of the union are kept apart: each sensor uses the one of its type.\<close>

record sensor_info =
  valid :: bool
  data_ti :: thermal_info
  data_fi :: fan_info
  data_pi :: psu_info

text \<open>\<open>ss_addr\<close> is the address of the object; the rows of a table hold such addresses.\<close>

record snmp_sensor =
  ss_addr :: nat
  sensor_id :: onlp_oid_t
  ss_name :: string
  ss_desc :: string
  ss_type :: sensor_type
  ss_index :: u32
  sensor_info :: "nat \<Rightarrow> sensor_info"

record snmp =
  curr_info :: nat
  last_sensor_update_time :: u64
  restructure_trigger :: bool
  sensor_ctrls :: "sensor_type \<Rightarrow> snmp_sensor list"
  sensor_table :: "sensor_type \<Rightarrow> u32 \<Rightarrow> nat option"
  fresh_addr :: nat

definition next_info :: "snmp \<Rightarrow> nat" where
  "next_info st = (curr_info st + 1) mod NUM_SENSOR_INFO"

definition get_curr_info :: "snmp \<Rightarrow> snmp_sensor \<Rightarrow> sensor_info" where
  "get_curr_info st ss = sensor_info ss (curr_info st)"

definition get_next_info :: "snmp \<Rightarrow> snmp_sensor \<Rightarrow> sensor_info" where
  "get_next_info st ss = sensor_info ss (next_info st)"

definition swap_curr_next_info :: "snmp \<Rightarrow> snmp" where
  "swap_curr_next_info st = st\<lparr>curr_info := next_info st\<rparr>"

text \<open>An assignment to the back half of a sensor.\<close>

definition put_next :: "nat \<Rightarrow> (sensor_info \<Rightarrow> sensor_info) \<Rightarrow> snmp_sensor \<Rightarrow> snmp_sensor" where
  "put_next nxt f ss = ss\<lparr>sensor_info := (sensor_info ss)(nxt := f (sensor_info ss nxt))\<rparr>"

section \<open>Answering requests\<close>

text \<open>
  What a handler puts into a request; \<open>NoValue\<close> when it returns without doing so. A gauge has no sign:
  the bytes of an \<open>int\<close> are taken as an unsigned number.
\<close>

datatype snmp_reply = NoSuchInstance | NoValue | AsnInteger int | AsnGauge u32 | AsnOctets string

definition sensor_index :: "snmp \<Rightarrow> snmp_sensor \<Rightarrow> snmp_reply" where
  "sensor_index st ss = AsnInteger (uint (ss_index ss))"

definition sensor_devname :: "string \<Rightarrow> snmp \<Rightarrow> snmp_sensor \<Rightarrow> snmp_reply" where
  "sensor_devname kind st ss =
     AsnOctets (take (ONLP_SNMP_CONFIG_MAX_NAME_LENGTH + ONLP_SNMP_CONFIG_MAX_DESC_LENGTH + 32 - 1)
       (kind @ '' '' @ ss_name ss @ ss_desc ss))"

text \<open>The status of a present object, failed or not.\<close>

definition status_value :: "bool \<Rightarrow> bool \<Rightarrow> int" where
  "status_value present failed =
     (if present then (if failed then ONLP_SNMP_SENSOR_STATUS_FAILED else ONLP_SNMP_SENSOR_STATUS_GOOD)
      else ONLP_SNMP_SENSOR_STATUS_MISSING)"

definition from_valid :: "snmp \<Rightarrow> snmp_sensor \<Rightarrow> (sensor_info \<Rightarrow> snmp_reply) \<Rightarrow> snmp_reply" where
  "from_valid st ss h = (let si = get_curr_info st ss in if \<not> valid si then NoValue else h si)"

definition temp_status_handler :: "snmp \<Rightarrow> snmp_sensor \<Rightarrow> snmp_reply" where
  "temp_status_handler st ss = from_valid st ss (\<lambda>si. let ti = data_ti si in
     AsnInteger (status_value (has (ti_status ti) ONLP_THERMAL_STATUS_PRESENT) (has (ti_status ti) ONLP_THERMAL_STATUS_FAILED)))"

definition temp_value_handler :: "snmp \<Rightarrow> snmp_sensor \<Rightarrow> snmp_reply" where
  "temp_value_handler st ss = from_valid st ss (\<lambda>si. let ti = data_ti si in
     AsnGauge (word_of_int (if has (ti_status ti) ONLP_THERMAL_STATUS_PRESENT then ti_mcelsius ti else 0)))"

definition temp_handler_fn :: "(snmp \<Rightarrow> snmp_sensor \<Rightarrow> snmp_reply) option list" where
  "temp_handler_fn = [None, Some sensor_index, Some (sensor_devname ''Thermal''), Some temp_status_handler, Some temp_value_handler]"

definition fan_status_handler :: "snmp \<Rightarrow> snmp_sensor \<Rightarrow> snmp_reply" where
  "fan_status_handler st ss = from_valid st ss (\<lambda>si. let fi = data_fi si in
     AsnInteger (status_value (has (fi_status fi) ONLP_FAN_STATUS_PRESENT) (has (fi_status fi) ONLP_FAN_STATUS_FAILED)))"

definition fan_flow_type_handler :: "snmp \<Rightarrow> snmp_sensor \<Rightarrow> snmp_reply" where
  "fan_flow_type_handler st ss = from_valid st ss (\<lambda>si. let fi = data_fi si in
     AsnOctets (if has (fi_status fi) ONLP_FAN_STATUS_PRESENT \<and> has (fi_status fi) ONLP_FAN_STATUS_B2F then ''b2f''
       else if has (fi_status fi) ONLP_FAN_STATUS_PRESENT \<and> has (fi_status fi) ONLP_FAN_STATUS_F2B then ''f2b''
       else ''unknown''))"

definition fan_gauge_handler :: "(fan_info \<Rightarrow> int) \<Rightarrow> snmp \<Rightarrow> snmp_sensor \<Rightarrow> snmp_reply" where
  "fan_gauge_handler field st ss = from_valid st ss (\<lambda>si. let fi = data_fi si in
     AsnGauge (word_of_int (if has (fi_status fi) ONLP_FAN_STATUS_PRESENT then field fi else 0)))"

definition fan_string_handler :: "(fan_info \<Rightarrow> string) \<Rightarrow> snmp \<Rightarrow> snmp_sensor \<Rightarrow> snmp_reply" where
  "fan_string_handler field st ss = from_valid st ss (\<lambda>si. let fi = data_fi si in
     AsnOctets (if has (fi_status fi) ONLP_FAN_STATUS_PRESENT then field fi else ''''))"

definition fan_handler_fn :: "(snmp \<Rightarrow> snmp_sensor \<Rightarrow> snmp_reply) option list" where
  "fan_handler_fn = [None, Some sensor_index, Some (sensor_devname ''Fan''), Some fan_status_handler, Some fan_flow_type_handler,
     Some (fan_gauge_handler fi_rpm), Some (fan_gauge_handler fi_percentage), Some (fan_string_handler fi_model),
     Some (fan_string_handler fi_serial)]"

definition psu_status_handler :: "snmp \<Rightarrow> snmp_sensor \<Rightarrow> snmp_reply" where
  "psu_status_handler st ss = from_valid st ss (\<lambda>si. let pi = data_pi si in
     AsnInteger (status_value (has (pi_status pi) ONLP_PSU_STATUS_PRESENT)
       (has (pi_status pi) ONLP_PSU_STATUS_FAILED \<or> has (pi_status pi) ONLP_PSU_STATUS_UNPLUGGED)))"

definition psu_current_type_handler :: "snmp \<Rightarrow> snmp_sensor \<Rightarrow> snmp_reply" where
  "psu_current_type_handler st ss = from_valid st ss (\<lambda>si. let pi = data_pi si in
     AsnOctets (if has (pi_caps pi) ONLP_PSU_CAPS_AC then ''ac'' else if has (pi_caps pi) ONLP_PSU_CAPS_DC12 then ''dc12''
       else if has (pi_caps pi) ONLP_PSU_CAPS_DC48 then ''dc48'' else ''unknown''))"

definition psu_gauge_handler :: "(psu_info \<Rightarrow> int) \<Rightarrow> snmp \<Rightarrow> snmp_sensor \<Rightarrow> snmp_reply" where
  "psu_gauge_handler field st ss = from_valid st ss (\<lambda>si. let pi = data_pi si in
     AsnGauge (word_of_int (if has (pi_status pi) ONLP_PSU_STATUS_PRESENT then field pi else 0)))"

definition psu_string_handler :: "(psu_info \<Rightarrow> string) \<Rightarrow> snmp \<Rightarrow> snmp_sensor \<Rightarrow> snmp_reply" where
  "psu_string_handler field st ss = from_valid st ss (\<lambda>si. let pi = data_pi si in
     AsnOctets (if has (pi_status pi) ONLP_PSU_STATUS_PRESENT then field pi else ''''))"

definition psu_handler_fn :: "(snmp \<Rightarrow> snmp_sensor \<Rightarrow> snmp_reply) option list" where
  "psu_handler_fn = [None, Some sensor_index, Some (sensor_devname ''PSU''), Some psu_status_handler, Some psu_current_type_handler,
     Some (psu_string_handler pi_model), Some (psu_gauge_handler pi_mvin), Some (psu_gauge_handler pi_mvout),
     Some (psu_gauge_handler pi_miin), Some (psu_gauge_handler pi_miout), Some (psu_gauge_handler pi_mpin),
     Some (psu_gauge_handler pi_mpout), Some (psu_string_handler pi_serial)]"

definition handler_fns :: "sensor_type \<Rightarrow> (snmp \<Rightarrow> snmp_sensor \<Rightarrow> snmp_reply) option list" where
  "handler_fns t = (case t of ST_TEMP \<Rightarrow> temp_handler_fn | ST_FAN \<Rightarrow> fan_handler_fn | ST_PSU \<Rightarrow> psu_handler_fn | _ \<Rightarrow> [])"

text \<open>
  One request: the row gives the address of a sensor, which has to be one that is still there. The
  column is one the table was registered with.
\<close>

definition table_handler :: "snmp \<Rightarrow> sensor_type \<Rightarrow> nat \<Rightarrow> u32 \<Rightarrow> snmp_reply option" where
  "table_handler st t colnum index =
     (case sensor_table st t index of
        None \<Rightarrow> Some NoSuchInstance
      | Some a \<Rightarrow>
          do { ss \<leftarrow> List.find (\<lambda>ss. ss_addr ss = a) (sensor_ctrls st t);
               h \<leftarrow> rd (handler_fns t) colnum;
               Some (case h of None \<Rightarrow> NoSuchInstance | Some f \<Rightarrow> f st ss) })"

section \<open>Collecting the sensors\<close>

text \<open>
  The calls of ONLP on its state. The iteration hands every OID to a callback that may call ONLP
  again; the status of the header call is not looked at, so only the header is given.
\<close>

record 's onlp_api =
  ap_hdr :: "onlp_oid_t \<Rightarrow> 's \<Rightarrow> (oid_hdr \<times> 's) option"
  ap_iterate :: "(onlp_oid_t \<Rightarrow> 's \<times> snmp \<Rightarrow> (int \<times> 's \<times> snmp) option) \<Rightarrow> 's \<times> snmp \<Rightarrow> (int \<times> 's \<times> snmp) option"
  ap_thermal :: "onlp_oid_t \<Rightarrow> thermal_info \<Rightarrow> 's \<Rightarrow> ((int \<times> thermal_info) \<times> 's) option"
  ap_fan :: "onlp_oid_t \<Rightarrow> fan_info \<Rightarrow> 's \<Rightarrow> ((int \<times> fan_info) \<times> 's) option"
  ap_psu :: "onlp_oid_t \<Rightarrow> psu_info \<Rightarrow> 's \<Rightarrow> ((int \<times> psu_info) \<times> 's) option"
  ap_monotonic :: "'s \<Rightarrow> u64"

definition sensor_info_zero :: sensor_info where
  "sensor_info_zero =
     \<lparr>valid = False,
      data_ti = \<lparr>ti_hdr = oid_hdr_zero, ti_status = 0, ti_caps = 0, ti_mcelsius = 0, ti_warning = 0, ti_error = 0, ti_shutdown = 0\<rparr>,
      data_fi = \<lparr>fi_hdr = oid_hdr_zero, fi_status = 0, fi_caps = 0, fi_rpm = 0, fi_percentage = 0, fi_mode = 0,
        fi_model = '''', fi_serial = ''''\<rparr>,
      data_pi = \<lparr>pi_hdr = oid_hdr_zero, pi_model = '''', pi_serial = '''', pi_status = 0, pi_caps = 0, pi_mvin = 0, pi_mvout = 0,
        pi_miin = 0, pi_miout = 0, pi_mpin = 0, pi_mpout = 0\<rparr>\<rparr>"

text \<open>Find the first sensor with the OID and make its back half valid.\<close>

fun revalidate :: "nat \<Rightarrow> onlp_oid_t \<Rightarrow> snmp_sensor list \<Rightarrow> snmp_sensor list option" where
  "revalidate nxt i [] = None"
| "revalidate nxt i (ss # sss) =
     (if i = sensor_id ss then Some (put_next nxt (valid_update (\<lambda>_. True)) ss # sss)
      else map_option (\<lambda>r. ss # r) (revalidate nxt i sss))"

definition add_sensor :: "sensor_type \<Rightarrow> snmp_sensor \<Rightarrow> snmp \<Rightarrow> snmp" where
  "add_sensor t new_sensor st =
     (case revalidate (next_info st) (sensor_id new_sensor) (sensor_ctrls st t) of
        Some sss \<Rightarrow> st\<lparr>sensor_ctrls := (sensor_ctrls st)(t := sss)\<rparr>
      | None \<Rightarrow>
          let ss = put_next (next_info st) (valid_update (\<lambda>_. True)) (new_sensor\<lparr>ss_addr := fresh_addr st, ss_type := t\<rparr>) in
          st\<lparr>sensor_ctrls := (sensor_ctrls st)(t := sensor_ctrls st t @ [ss]), fresh_addr := fresh_addr st + 1\<rparr>)"

definition new_sensor :: "onlp_oid_t \<Rightarrow> oid_hdr \<Rightarrow> snmp_sensor" where
  "new_sensor oid hdr =
     \<lparr>ss_addr = 0, sensor_id = oid, ss_name = dec_string (uint (ONLP_OID_ID_GET oid)) @ '' - '',
      ss_desc = take (ONLP_SNMP_CONFIG_MAX_DESC_LENGTH - 1) (oid_desc hdr), ss_type = ST_TEMP,
      ss_index = ONLP_OID_ID_GET oid, sensor_info = (\<lambda>_. sensor_info_zero)\<rparr>"

definition type_of_oid :: "onlp_oid_t \<Rightarrow> sensor_type option" where
  "type_of_oid oid =
     (if ONLP_OID_TYPE_GET oid = ONLP_OID_TYPE THERMAL then Some ST_TEMP
      else if ONLP_OID_TYPE_GET oid = ONLP_OID_TYPE FAN then Some ST_FAN
      else if ONLP_OID_TYPE_GET oid = ONLP_OID_TYPE PSU then Some ST_PSU else None)"

definition collect_sensors :: "'s onlp_api \<Rightarrow> onlp_oid_t \<Rightarrow> 's \<times> snmp \<Rightarrow> (int \<times> 's \<times> snmp) option" where
  "collect_sensors A oid sc =
     (let (s, st) = sc in
      do { (hdr, s) \<leftarrow> ap_hdr A oid s;
           Some (0, s, case type_of_oid oid of None \<Rightarrow> st | Some t \<Rightarrow> add_sensor t (new_sensor oid hdr) st) })"

section \<open>The update\<close>

definition temp_update_handler where
  "temp_update_handler A nxt ss s =
     do { ((rv, ti), s) \<leftarrow> ap_thermal A (sensor_id ss) (data_ti (sensor_info ss nxt)) s;
          Some (rv, put_next nxt (data_ti_update (\<lambda>_. ti)) ss, s) }"

definition fan_update_handler where
  "fan_update_handler A nxt ss s =
     do { ((rv, fi), s) \<leftarrow> ap_fan A (sensor_id ss) (data_fi (sensor_info ss nxt)) s;
          Some (rv, put_next nxt (data_fi_update (\<lambda>_. fi)) ss, s) }"

definition psu_update_handler where
  "psu_update_handler A nxt ss s =
     do { ((rv, pi), s) \<leftarrow> ap_psu A (sensor_id ss) (data_pi (sensor_info ss nxt)) s;
          Some (rv, put_next nxt (data_pi_update (\<lambda>_. pi)) ss, s) }"

text \<open>The table of the handlers ends with the power supplies.\<close>

definition update_handler_fn :: "'s onlp_api \<Rightarrow> sensor_type \<Rightarrow> nat \<Rightarrow> snmp_sensor \<Rightarrow> 's \<Rightarrow> (int \<times> snmp_sensor \<times> 's) option" where
  "update_handler_fn A t =
     (case t of ST_TEMP \<Rightarrow> temp_update_handler A | ST_FAN \<Rightarrow> fan_update_handler A | ST_PSU \<Rightarrow> psu_update_handler A
      | _ \<Rightarrow> (\<lambda>_ _ _. None))"

fun update_list :: "'s onlp_api \<Rightarrow> sensor_type \<Rightarrow> nat \<Rightarrow> snmp_sensor list \<Rightarrow> 's \<Rightarrow> (snmp_sensor list \<times> 's) option" where
  "update_list A t nxt [] s = Some ([], s)"
| "update_list A t nxt (ss # sss) s =
     do { (ss, s) \<leftarrow>
            (if valid (sensor_info ss nxt) then
               do { (rv, ss, s) \<leftarrow> update_handler_fn A t nxt ss s;
                    Some (if rv \<noteq> ONLP_STATUS_OK then put_next nxt (valid_update (\<lambda>_. False)) ss else ss, s) }
             else Some (ss, s));
          (sss, s) \<leftarrow> update_list A t nxt sss s;
          Some (ss # sss, s) }"

fun update_types :: "'s onlp_api \<Rightarrow> sensor_type list \<Rightarrow> 's \<times> snmp \<Rightarrow> ('s \<times> snmp) option" where
  "update_types A [] sc = Some sc"
| "update_types A (t # ts) sc =
     (let (s, st) = sc in
      do { (sss, s) \<leftarrow> update_list A t (next_info st) (sensor_ctrls st t) s;
           update_types A ts (s, st\<lparr>sensor_ctrls := (sensor_ctrls st)(t := sss)\<rparr>) })"

definition mark_next_invalid :: "snmp \<Rightarrow> snmp" where
  "mark_next_invalid st =
     st\<lparr>sensor_ctrls := (\<lambda>t. map (put_next (next_info st) (valid_update (\<lambda>_. False))) (sensor_ctrls st t))\<rparr>"

definition update_due :: "'s onlp_api \<Rightarrow> 's \<times> snmp \<Rightarrow> bool" where
  "update_due A sc \<longleftrightarrow>
     \<not> (ap_monotonic A (fst sc) - last_sensor_update_time (snd sc) < ONLP_SNMP_CONFIG_UPDATE_PERIOD * 1000 * 1000) \<and>
     \<not> restructure_trigger (snd sc)"

definition update_tables :: "'s onlp_api \<Rightarrow> 's \<times> snmp \<Rightarrow> ('s \<times> snmp) option" where
  "update_tables A sc =
     (if \<not> update_due A sc then Some sc
      else
        (let (s, st) = sc;
             st = mark_next_invalid (st\<lparr>last_sensor_update_time := ap_monotonic A s\<rparr>) in
         do { (_, s, st) \<leftarrow> ap_iterate A (collect_sensors A) (s, st);
              (s, st) \<leftarrow> update_types A sensor_types (s, st);
              Some (s, (swap_curr_next_info st)\<lparr>restructure_trigger := True\<rparr>) }))"

section \<open>The tables\<close>

text \<open>Adding a row fails when its index is taken, which an assertion excludes.\<close>

definition add_table_row :: "(u32 \<Rightarrow> nat option) \<Rightarrow> snmp_sensor \<Rightarrow> (u32 \<Rightarrow> nat option) option" where
  "add_table_row table ss = (if table (ss_index ss) = None then Some (table(ss_index ss := Some (ss_addr ss))) else None)"

definition delete_table_row :: "(u32 \<Rightarrow> nat option) \<Rightarrow> u32 \<Rightarrow> (u32 \<Rightarrow> nat option)" where
  "delete_table_row table index = table(index := None)"

text \<open>The sensors that stay, and the rows.\<close>

fun restructure_list ::
  "snmp \<Rightarrow> snmp_sensor list \<Rightarrow> (u32 \<Rightarrow> nat option) \<Rightarrow> (snmp_sensor list \<times> (u32 \<Rightarrow> nat option)) option" where
  "restructure_list st [] table = Some ([], table)"
| "restructure_list st (ss # sss) table =
     (let previously_valid = valid (get_next_info st ss); now_valid = valid (get_curr_info st ss) in
      if \<not> previously_valid \<and> now_valid then
        do { table \<leftarrow> add_table_row table ss;
             (sss, table) \<leftarrow> restructure_list st sss table;
             Some (ss # sss, table) }
      else if previously_valid \<and> \<not> now_valid then restructure_list st sss (delete_table_row table (ss_index ss))
      else map_option (\<lambda>(sss, table). (ss # sss, table)) (restructure_list st sss table))"

fun restructure_types :: "sensor_type list \<Rightarrow> snmp \<Rightarrow> snmp option" where
  "restructure_types [] st = Some st"
| "restructure_types (t # ts) st =
     do { (sss, table) \<leftarrow> restructure_list st (sensor_ctrls st t) (sensor_table st t);
          restructure_types ts (st\<lparr>sensor_ctrls := (sensor_ctrls st)(t := sss), sensor_table := (sensor_table st)(t := table)\<rparr>) }"

definition restructure_tables :: "snmp \<Rightarrow> snmp option" where
  "restructure_tables st =
     (if \<not> restructure_trigger st then Some st
      else map_option (\<lambda>st. st\<lparr>restructure_trigger := False\<rparr>) (restructure_types sensor_types st))"

definition init_all_tables :: snmp where
  "init_all_tables =
     \<lparr>curr_info = 0, last_sensor_update_time = 0, restructure_trigger = False, sensor_ctrls = (\<lambda>_. []),
      sensor_table = (\<lambda>_ _. None), fresh_addr = 0\<rparr>"

definition onlp_snmp_sensors_init :: "'s onlp_api \<Rightarrow> 's \<Rightarrow> ('s \<times> snmp) option" where
  "onlp_snmp_sensors_init A s =
     do { (s, st) \<leftarrow> update_tables A (s, init_all_tables);
          st \<leftarrow> restructure_tables st;
          Some (s, st) }"

text \<open>How long the thread sleeps: an \<open>unsigned int\<close> of microseconds.\<close>

definition us_to_next_update :: "u64 \<Rightarrow> u64 \<Rightarrow> u64 \<Rightarrow> u32" where
  "us_to_next_update seconds now last_time =
     (let deltat = now - last_time; period = seconds * 1000 * 1000 in
      ucast (if period - deltat < period then period - deltat else period))"

section \<open>The load of the processor (\<open>onlp_snmp_platform.c\<close>)\<close>

record resources =
  utilization_percent :: u32
  idle_percent :: u32

record resource_state =
  resource_buffers :: "nat \<Rightarrow> resources"
  curr_resource :: nat
  last_resource_update_time :: u64

definition next_resource :: "resource_state \<Rightarrow> nat" where
  "next_resource st = (curr_resource st + 1) mod 2"

definition get_curr_resources :: "resource_state \<Rightarrow> resources" where
  "get_curr_resources st = resource_buffers st (curr_resource st)"

text \<open>A line of the script: the number under \<open>all.%idle\<close>, when it is there.\<close>

definition resource_line :: "int option \<Rightarrow> resource_state \<Rightarrow> resource_state" where
  "resource_line result st =
     (case result of
        None \<Rightarrow> st
      | Some r \<Rightarrow>
          st\<lparr>resource_buffers := (resource_buffers st)(next_resource st :=
               \<lparr>utilization_percent = word_of_int (100 * 100 - r), idle_percent = word_of_int r\<rparr>),
             curr_resource := next_resource st\<rparr>)"

text \<open>\<open>popen\<close> gives the lines, or fails.\<close>

definition resource_update :: "u64 \<Rightarrow> int option list option \<Rightarrow> resource_state \<Rightarrow> resource_state" where
  "resource_update now lines st =
     (if now - last_resource_update_time st > ONLP_SNMP_CONFIG_RESOURCE_UPDATE_SECONDS * 1000 * 1000 then
        (let st = st\<lparr>last_resource_update_time := now\<rparr> in
         case lines of None \<Rightarrow> st | Some ls \<Rightarrow> fold resource_line ls st)
      else st)"

definition utilization_handler :: "resource_state \<Rightarrow> bool \<Rightarrow> snmp_reply" where
  "utilization_handler st mode_get = (if mode_get then AsnGauge (utilization_percent (get_curr_resources st)) else NoValue)"

definition idle_handler :: "resource_state \<Rightarrow> bool \<Rightarrow> snmp_reply" where
  "idle_handler st mode_get = (if mode_get then AsnGauge (idle_percent (get_curr_resources st)) else NoValue)"

definition cpu_utilization_handler :: "resource_state \<Rightarrow> u8 list" where
  "cpu_utilization_handler st = dec_int (sint (utilization_percent (get_curr_resources st)))"

section \<open>The scalars of the platform (\<open>onlp_snmp_platform.c\<close>)\<close>

text \<open>What is registered at an OID: a watched string, an integer, or one of the two handlers.\<close>

datatype snmp_scalar = WatchedString "u8 list" | IntInstance int | UtilizationHandler | IdleHandler

type_synonym registration = "nat list \<times> string \<times> snmp_scalar"

text \<open>A string ends at its first zero.\<close>

definition platform_string_register :: "nat \<Rightarrow> string \<Rightarrow> u8 list option \<Rightarrow> registration list" where
  "platform_string_register index desc value =
     (case value of
        None \<Rightarrow> []
      | Some v \<Rightarrow>
          let s = takeWhile (\<lambda>b. b \<noteq> 0) v in
          if s = [] then [] else [([1, 3, 6, 1, 4, 1, 42623, 1, 1, 1, 1, index], desc, WatchedString s)])"

definition platform_int_register :: "nat \<Rightarrow> string \<Rightarrow> int \<Rightarrow> registration list" where
  "platform_int_register index desc value = [([1, 3, 6, 1, 4, 1, 42623, 1, 1, 1, 1, index], desc, IntInstance value)]"

definition resource_int_register :: "nat \<Rightarrow> string \<Rightarrow> snmp_scalar \<Rightarrow> registration list" where
  "resource_int_register index desc handler = [([1, 3, 6, 1, 4, 1, 42623, 1, 3, 1, index], desc, handler)]"

text \<open>\<open>%.2x\<close>, joined by colons.\<close>

definition hex_digit :: "u8 \<Rightarrow> u8" where
  "hex_digit d = (if d < 10 then 0x30 + d else 0x57 + d)"

definition mac_string :: "u8 list \<Rightarrow> u8 list" where
  "mac_string bs = tl (concat (map (\<lambda>b. [0x3A, hex_digit (b div 16), hex_digit (b mod 16)]) (take 6 bs)))"

definition onlp_snmp_platform_init :: "int \<times> onie_info \<Rightarrow> registration list" where
  "onlp_snmp_platform_init r =
     (let (rv, oi) = r in
      (if rv \<ge> 0 then
         platform_string_register 1 ''product_name'' (product_name oi) @
         platform_string_register 2 ''part_number'' (part_number oi) @
         platform_string_register 3 ''serial_number'' (serial_number oi) @
         platform_string_register 4 ''mac'' (Some (mac_string (mac oi))) @
         platform_int_register 5 ''mac_range'' (uint (mac_range oi)) @
         platform_string_register 6 ''manufacturer'' (manufacturer oi) @
         platform_string_register 7 ''manufacture_date'' (manufacture_date oi) @
         platform_string_register 8 ''vendor'' (vendor oi) @
         platform_string_register 9 ''platform_name'' (platform_name oi) @
         platform_int_register 10 ''device_version'' (uint (device_version oi)) @
         platform_string_register 11 ''label_revision'' (label_revision oi) @
         platform_string_register 12 ''country_code'' (country_code oi) @
         platform_string_register 13 ''diag_version'' (diag_version oi) @
         platform_string_register 14 ''service_tag'' (service_tag oi) @
         platform_string_register 15 ''onie_version'' (onie_version oi)
       else []) @
      resource_int_register 1 ''CpuAllPercentUtilization'' UtilizationHandler @
      resource_int_register 2 ''CpuAllPercentIdle'' IdleHandler)"

end
