(* ===== verification/SnmpProps.thy ===== *)
theory SnmpProps
  imports Snmp
begin

text \<open>
  The two threads of the SNMP agent: no request and no alarm touches a sensor that was freed or a row
  twice, whatever way the update is interleaved with them; an update in progress cannot be seen in any
  reply; and after it the tables are exactly the sensors that answered.
\<close>

section \<open>The interleaving\<close>

datatype phase = Idle | Marked | Collected | Updated | Swapped

text \<open>The update in its five parts, with the alarm and changes of the world at any time between.\<close>

inductive snmp_step :: "'s onlp_api \<Rightarrow> phase \<times> 's \<times> snmp \<Rightarrow> phase \<times> 's \<times> snmp \<Rightarrow> bool" for A where
  start: "update_due A (s, st) \<Longrightarrow>
    snmp_step A (Idle, s, st) (Marked, s, mark_next_invalid (st\<lparr>last_sensor_update_time := ap_monotonic A s\<rparr>))"
| collect: "ap_iterate A (collect_sensors A) (s, st) = Some (rv, s', st') \<Longrightarrow> snmp_step A (Marked, s, st) (Collected, s', st')"
| refresh: "update_types A sensor_types (s, st) = Some (s', st') \<Longrightarrow> snmp_step A (Collected, s, st) (Updated, s', st')"
| swap: "snmp_step A (Updated, s, st) (Swapped, s, swap_curr_next_info st)"
| publish: "snmp_step A (Swapped, s, st) (Idle, s, st\<lparr>restructure_trigger := True\<rparr>)"
| alarm: "restructure_tables st = Some st' \<Longrightarrow> snmp_step A (p, s, st) (p, s, st')"
| world: "snmp_step A (p, s, st) (p, s', st)"

inductive snmp_reach :: "'s onlp_api \<Rightarrow> phase \<times> 's \<times> snmp \<Rightarrow> bool" for A where
  init: "snmp_reach A (Idle, s, init_all_tables)"
| step: "snmp_reach A x \<Longrightarrow> snmp_step A x y \<Longrightarrow> snmp_reach A y"

text \<open>Run one after the other, the parts are the update of the code.\<close>

lemma update_tables_steps:
  assumes "update_tables A (s, st) = Some (s', st')" "snmp_reach A (Idle, s, st)"
  shows "snmp_reach A (Idle, s', st')"
proof (cases "update_due A (s, st)")
  case False
  with assms show ?thesis by (simp add: update_tables_def)
next
  case True
  with assms(1) obtain rv s1 st1 s2 st2 where
    1: "ap_iterate A (collect_sensors A) (s, mark_next_invalid (st\<lparr>last_sensor_update_time := ap_monotonic A s\<rparr>)) = Some (rv, s1, st1)"
      "update_types A sensor_types (s1, st1) = Some (s2, st2)"
      "s' = s2" "st' = (swap_curr_next_info st2)\<lparr>restructure_trigger := True\<rparr>"
    by (auto simp: update_tables_def Let_def split: Option.bind_splits)
  have "snmp_reach A (Marked, s, mark_next_invalid (st\<lparr>last_sensor_update_time := ap_monotonic A s\<rparr>))"
    using assms(2) snmp_step.start [OF True] by (rule snmp_reach.step)
  then have "snmp_reach A (Collected, s1, st1)" by (rule snmp_reach.step) (rule snmp_step.collect [OF 1(1)])
  then have "snmp_reach A (Updated, s2, st2)" by (rule snmp_reach.step) (rule snmp_step.refresh [OF 1(2)])
  then have "snmp_reach A (Swapped, s2, swap_curr_next_info st2)" by (rule snmp_reach.step) (rule snmp_step.swap)
  then have "snmp_reach A (Idle, s2, (swap_curr_next_info st2)\<lparr>restructure_trigger := True\<rparr>)"
    by (rule snmp_reach.step) (rule snmp_step.publish)
  then show ?thesis by (simp add: 1)
qed

section \<open>The invariant\<close>

definition sensors_ok :: "nat \<Rightarrow> sensor_type \<Rightarrow> snmp_sensor list \<Rightarrow> bool" where
  "sensors_ok fresh t sss \<longleftrightarrow>
     distinct (map sensor_id sss) \<and> distinct (map ss_addr sss) \<and>
     (\<forall>ss \<in> set sss. type_of_oid (sensor_id ss) = Some t \<and> ss_index ss = ONLP_OID_ID_GET (sensor_id ss) \<and> ss_addr ss < fresh)"

text \<open>The rows are the sensors whose half \<open>k\<close> is valid.\<close>

definition rows_match :: "nat \<Rightarrow> snmp_sensor list \<Rightarrow> (u32 \<Rightarrow> nat option) \<Rightarrow> bool" where
  "rows_match k sss table \<longleftrightarrow>
     (\<forall>i a. table i = Some a \<longleftrightarrow> (\<exists>ss \<in> set sss. ss_index ss = i \<and> ss_addr ss = a \<and> valid (sensor_info ss k)))"

text \<open>Between the swap and the alarm the rows are those of the half that is now in the back.\<close>

definition shown :: "phase \<Rightarrow> snmp \<Rightarrow> nat" where
  "shown p st = (if restructure_trigger st \<or> p = Swapped then next_info st else curr_info st)"

definition snmp_inv :: "phase \<Rightarrow> snmp \<Rightarrow> bool" where
  "snmp_inv p st \<longleftrightarrow>
     curr_info st < 2 \<and> (p \<noteq> Idle \<longrightarrow> \<not> restructure_trigger st) \<and>
     (\<forall>t. sensors_ok (fresh_addr st) t (sensor_ctrls st t) \<and> rows_match (shown p st) (sensor_ctrls st t) (sensor_table st t))"

lemma halves:
  assumes "curr_info st < 2"
  shows "next_info st \<noteq> curr_info st" "(next_info st + 1) mod 2 = curr_info st"
proof -
  have "(c + 1) mod 2 \<noteq> c \<and> ((c + 1) mod 2 + 1) mod 2 = c" if "c < 2" for c :: nat
    using that by (cases "c = 0") (simp_all add: less_2_cases_iff)
  from this [OF assms] show "next_info st \<noteq> curr_info st" "(next_info st + 1) mod 2 = curr_info st"
    by (simp_all add: next_info_def)
qed

lemma next_small: "next_info st < 2"
  by (simp add: next_info_def)

lemma same_index:
  assumes "type_of_oid x = Some t" "type_of_oid y = Some t" "ONLP_OID_ID_GET x = ONLP_OID_ID_GET y"
  shows "x = y"
proof -
  have "ONLP_OID_TYPE_GET x = ONLP_OID_TYPE_GET y" using assms(1,2) by (auto simp: type_of_oid_def split: if_splits)
  with assms(3) show ?thesis by (metis oid_split)
qed

lemma sensors_ok_index:
  assumes ok: "sensors_ok fresh t sss" "x \<in> set sss" "y \<in> set sss" "ss_index x = ss_index y"
  shows "x = y"
proof -
  have "sensor_id x = sensor_id y" using ok same_index [of "sensor_id x" t "sensor_id y"] by (simp add: sensors_ok_def)
  then show ?thesis using ok by (simp add: sensors_ok_def distinct_map inj_on_def)
qed

text \<open>What an update may do to a sensor: change the half \<open>k\<close> does not name.\<close>

definition same_at :: "nat \<Rightarrow> snmp_sensor \<Rightarrow> snmp_sensor \<Rightarrow> bool" where
  "same_at k a b \<longleftrightarrow> sensor_id a = sensor_id b \<and> ss_index a = ss_index b \<and> ss_addr a = ss_addr b \<and>
     ss_name a = ss_name b \<and> ss_desc a = ss_desc b \<and> sensor_info a k = sensor_info b k"

lemma same_at_refl [simp]: "same_at k ss ss"
  by (simp add: same_at_def)

lemma same_at_put_next [simp]: "k \<noteq> nxt \<Longrightarrow> same_at k ss (put_next nxt f ss)"
  by (simp add: same_at_def put_next_def)

lemma same_at_trans: "same_at k a b \<Longrightarrow> same_at k b c \<Longrightarrow> same_at k a c"
  by (simp add: same_at_def)

abbreviation same_list :: "nat \<Rightarrow> snmp_sensor list \<Rightarrow> snmp_sensor list \<Rightarrow> bool" where
  "same_list k \<equiv> list_all2 (same_at k)"

lemma same_list_maps:
  "same_list k xs ys \<Longrightarrow> map sensor_id ys = map sensor_id xs \<and> map ss_addr ys = map ss_addr xs \<and> map ss_index ys = map ss_index xs"
  by (induction rule: list_all2_induct) (simp_all add: same_at_def)

lemma same_list_sensors_ok:
  assumes "same_list k xs ys" "sensors_ok fresh t xs"
  shows "sensors_ok fresh t ys"
proof -
  note m = same_list_maps [OF assms(1)]
  have "\<exists>x \<in> set xs. sensor_id y = sensor_id x \<and> ss_index y = ss_index x \<and> ss_addr y = ss_addr x" if "y \<in> set ys" for y
  proof -
    from that obtain i where i: "i < length ys" "y = ys ! i" by (auto simp: in_set_conv_nth)
    with assms(1) have "same_at k (xs ! i) y" "xs ! i \<in> set xs" by (auto simp: list_all2_conv_all_nth)
    then show ?thesis by (intro bexI [of _ "xs ! i"]) (simp_all add: same_at_def)
  qed
  then show ?thesis using assms(2) m by (fastforce simp: sensors_ok_def)
qed

lemma same_list_rows:
  assumes "same_list k xs ys"
  shows "rows_match k ys table \<longleftrightarrow> rows_match k xs table"
proof -
  have "(\<exists>ss \<in> set ys. ss_index ss = i \<and> ss_addr ss = a \<and> valid (sensor_info ss k)) \<longleftrightarrow>
      (\<exists>ss \<in> set xs. ss_index ss = i \<and> ss_addr ss = a \<and> valid (sensor_info ss k))" for i a
    using assms by (induction rule: list_all2_induct) (simp_all add: same_at_def)
  then show ?thesis by (simp add: rows_match_def)
qed

section \<open>The parts of the update keep it\<close>

lemma revalidate_same: "k \<noteq> nxt \<Longrightarrow> revalidate nxt i sss = Some sss' \<Longrightarrow> same_list k sss sss'"
  by (induction sss arbitrary: sss') (auto split: if_splits intro: list_all2_refl)

lemma revalidate_None: "revalidate nxt i sss = None \<longleftrightarrow> i \<notin> sensor_id ` set sss"
  by (induction sss) auto

lemma add_sensor_keeps:
  assumes inv: "snmp_inv p st" and p: "p \<noteq> Swapped" "p \<noteq> Idle" and t: "type_of_oid oid = Some t"
  shows "snmp_inv p (add_sensor t (new_sensor oid hdr) st)"
proof -
  have c: "curr_info st < 2" "\<not> restructure_trigger st" "shown p st = curr_info st"
    using inv p by (auto simp: snmp_inv_def shown_def)
  have ok: "sensors_ok (fresh_addr st) u (sensor_ctrls st u)" "rows_match (curr_info st) (sensor_ctrls st u) (sensor_table st u)" for u
    using inv c(3) by (auto simp: snmp_inv_def)
  note n = halves(1) [OF c(1)]
  show ?thesis
  proof (cases "revalidate (next_info st) (sensor_id (new_sensor oid hdr)) (sensor_ctrls st t)")
    case (Some sss)
    from revalidate_same [OF n [symmetric] this] have s: "same_list (curr_info st) (sensor_ctrls st t) sss" .
    show ?thesis
      using c p same_list_sensors_ok [OF s ok(1)] same_list_rows [OF s] ok
      by (simp add: add_sensor_def Some snmp_inv_def shown_def)
  next
    case None
    define ss where "ss = put_next (next_info st) (valid_update (\<lambda>_. True)) ((new_sensor oid hdr)\<lparr>ss_addr := fresh_addr st, ss_type := t\<rparr>)"
    have f: "sensor_id ss = oid" "ss_index ss = ONLP_OID_ID_GET oid" "ss_addr ss = fresh_addr st" "\<not> valid (sensor_info ss (curr_info st))"
      using n by (simp_all add: ss_def put_next_def new_sensor_def sensor_info_zero_def)
    have "oid \<notin> sensor_id ` set (sensor_ctrls st t)" using None by (simp add: revalidate_None new_sensor_def)
    then have "sensors_ok (fresh_addr st + 1) t (sensor_ctrls st t @ [ss])"
      using ok(1) [of t] f t by (fastforce simp: sensors_ok_def)
    moreover have "sensors_ok (fresh_addr st + 1) u (sensor_ctrls st u)" for u
      using ok(1) [of u] by (fastforce simp: sensors_ok_def)
    moreover have "rows_match (curr_info st) (sensor_ctrls st t @ [ss]) (sensor_table st t)"
      using ok(2) [of t] f by (auto simp: rows_match_def)
    ultimately show ?thesis
      using c p ok(2) by (simp add: add_sensor_def None ss_def [symmetric] snmp_inv_def shown_def)
  qed
qed

lemma collect_keeps:
  assumes "snmp_inv Marked st" "collect_sensors A oid (s, st) = Some (rv, s', st')"
  shows "snmp_inv Marked st'"
  using assms add_sensor_keeps [OF assms(1), of oid]
  by (auto simp: collect_sensors_def split: Option.bind_splits option.splits)

lemma update_handler_same:
  assumes "k \<noteq> nxt" "update_handler_fn A t nxt ss s = Some (rv, ss', s')"
  shows "same_at k ss ss'"
  using assms
  by (cases t)
    (auto simp: update_handler_fn_def temp_update_handler_def fan_update_handler_def psu_update_handler_def split: Option.bind_splits)

lemma update_list_same:
  assumes k: "k \<noteq> nxt"
  shows "update_list A t nxt sss s = Some (sss', s') \<Longrightarrow> same_list k sss sss'"
proof (induction sss arbitrary: s sss' s')
  case (Cons ss sss)
  from Cons.prems obtain ss1 s1 sss1 where
    1: "(if valid (sensor_info ss nxt) then
           do { (rv, ss, s) \<leftarrow> update_handler_fn A t nxt ss s;
                Some (if rv \<noteq> ONLP_STATUS_OK then put_next nxt (valid_update (\<lambda>_. False)) ss else ss, s) }
         else Some (ss, s)) = Some (ss1, s1)"
      "update_list A t nxt sss s1 = Some (sss1, s')" "sss' = ss1 # sss1"
    by (auto split: Option.bind_splits)
  have "same_at k ss ss1"
    using 1(1) k by (auto split: if_splits Option.bind_splits dest!: update_handler_same [OF k] intro: same_at_trans)
  with Cons.IH [OF 1(2)] 1(3) show ?case by simp
qed simp

lemma update_types_keeps:
  "update_types A ts (s, st) = Some (s', st') \<Longrightarrow> snmp_inv p st \<Longrightarrow> p \<noteq> Swapped \<Longrightarrow> p \<noteq> Idle \<Longrightarrow> snmp_inv p st'"
proof (induction ts arbitrary: s st)
  case (Cons t ts)
  from Cons.prems(1) obtain sss s1 where
    1: "update_list A t (next_info st) (sensor_ctrls st t) s = Some (sss, s1)"
      "update_types A ts (s1, st\<lparr>sensor_ctrls := (sensor_ctrls st)(t := sss)\<rparr>) = Some (s', st')"
    by (auto split: Option.bind_splits)
  have c: "curr_info st < 2" "\<not> restructure_trigger st" "shown p st = curr_info st"
    using Cons.prems by (auto simp: snmp_inv_def shown_def)
  have s: "same_list (curr_info st) (sensor_ctrls st t) sss"
    using update_list_same [OF halves(1) [OF c(1), symmetric] 1(1)] .
  have "snmp_inv p (st\<lparr>sensor_ctrls := (sensor_ctrls st)(t := sss)\<rparr>)"
    using Cons.prems(2-) c same_list_sensors_ok [OF s] same_list_rows [OF s]
    by (auto simp: snmp_inv_def shown_def)
  with Cons.IH [OF 1(2)] Cons.prems(3,4) show ?case by blast
qed simp

lemma mark_keeps:
  assumes inv: "snmp_inv Idle st" and "\<not> restructure_trigger st"
  shows "snmp_inv Marked (mark_next_invalid (st\<lparr>last_sensor_update_time := n\<rparr>))"
proof -
  have c: "curr_info st < 2" using inv by (simp add: snmp_inv_def)
  have s: "same_list (curr_info st) (sensor_ctrls st t)
      (map (put_next (next_info st) (valid_update (\<lambda>_. False))) (sensor_ctrls st t))" for t
    using halves(1) [OF c] by (simp add: list_all2_map2 list.rel_refl)
  have nx: "next_info (st\<lparr>last_sensor_update_time := n\<rparr>) = next_info st" by (simp add: next_info_def)
  show ?thesis
    using assms same_list_sensors_ok [OF s] same_list_rows [OF s]
    by (simp add: snmp_inv_def mark_next_invalid_def shown_def nx)
qed

lemma swap_keeps: "snmp_inv Updated st \<Longrightarrow> snmp_inv Swapped (swap_curr_next_info st)"
  using halves [of st] next_small [of st]
  by (auto simp: snmp_inv_def swap_curr_next_info_def shown_def next_info_def [of "st\<lparr>curr_info := next_info st\<rparr>"])

section \<open>The alarm\<close>

definition keeps_row :: "snmp \<Rightarrow> snmp_sensor \<Rightarrow> bool" where
  "keeps_row st ss \<longleftrightarrow> \<not> (valid (get_next_info st ss) \<and> \<not> valid (get_curr_info st ss))"

text \<open>
  The tables are rebuilt in one pass: the rows of the sensors before are those of the front half, of
  the sensors still to come those of the back half.
\<close>

lemma restructure_list_ok:
  assumes ok: "sensors_ok fresh t (done @ sss)"
  shows "(\<forall>i a. table i = Some a \<longleftrightarrow>
      (\<exists>ss \<in> set done. ss_index ss = i \<and> ss_addr ss = a \<and> valid (get_curr_info st ss)) \<or>
      (\<exists>ss \<in> set sss. ss_index ss = i \<and> ss_addr ss = a \<and> valid (get_next_info st ss))) \<Longrightarrow>
    \<exists>table'. restructure_list st sss table = Some (filter (keeps_row st) sss, table') \<and>
      (\<forall>i a. table' i = Some a \<longleftrightarrow>
        (\<exists>ss \<in> set (done @ sss). ss_index ss = i \<and> ss_addr ss = a \<and> valid (get_curr_info st ss)))"
  using ok
proof (induction sss arbitrary: "done" table)
  case (Cons ss sss)
  have ok': "sensors_ok fresh t ((done @ [ss]) @ sss)" using Cons.prems(2) by simp
  have inj: "x = ss" if "x \<in> set done \<or> x \<in> set sss" "ss_index x = ss_index ss" for x
    using sensors_ok_index [OF Cons.prems(2), of x ss] that by auto
  have new: "ss \<notin> set done" "ss \<notin> set sss"
    using Cons.prems(2) by (auto simp: sensors_ok_def)
  let ?prev = "valid (get_next_info st ss)" and ?now = "valid (get_curr_info st ss)"
  have row: "table (ss_index ss) = (if ?prev then Some (ss_addr ss) else None)"
  proof (cases ?prev)
    case True
    then show ?thesis using Cons.prems(1) by auto
  next
    case False
    have "table (ss_index ss) \<noteq> Some a" for a
      using Cons.prems(1) False inj new by auto
    then show ?thesis using False by (cases "table (ss_index ss)") auto
  qed
  define table1 where "table1 = table(ss_index ss := (if ?now then Some (ss_addr ss) else None))"
  have "\<forall>i a. table1 i = Some a \<longleftrightarrow>
      (\<exists>x \<in> set (done @ [ss]). ss_index x = i \<and> ss_addr x = a \<and> valid (get_curr_info st x)) \<or>
      (\<exists>x \<in> set sss. ss_index x = i \<and> ss_addr x = a \<and> valid (get_next_info st x))"
  proof (intro allI)
    fix i a
    show "table1 i = Some a \<longleftrightarrow>
      (\<exists>x \<in> set (done @ [ss]). ss_index x = i \<and> ss_addr x = a \<and> valid (get_curr_info st x)) \<or>
      (\<exists>x \<in> set sss. ss_index x = i \<and> ss_addr x = a \<and> valid (get_next_info st x))"
    proof (cases "i = ss_index ss")
      case True
      then have "\<not> (\<exists>x \<in> set done. ss_index x = i)" "\<not> (\<exists>x \<in> set sss. ss_index x = i)" using inj new by blast+
      with True show ?thesis by (auto simp: table1_def)
    next
      case False
      with Cons.prems(1) show ?thesis by (auto simp: table1_def)
    qed
  qed
  from Cons.IH [OF this ok'] obtain table' where
    2: "restructure_list st sss table1 = Some (filter (keeps_row st) sss, table')"
      "\<forall>i a. table' i = Some a \<longleftrightarrow> (\<exists>x \<in> set (done @ ss # sss). ss_index x = i \<and> ss_addr x = a \<and> valid (get_curr_info st x))"
    by auto
  have "restructure_list st (ss # sss) table = Some (filter (keeps_row st) (ss # sss), table')"
  proof (cases ?prev)
    case True
    have "?now \<Longrightarrow> table1 = table" using row True by (auto simp: table1_def)
    with 2(1) True show ?thesis by (cases ?now) (auto simp: keeps_row_def table1_def delete_table_row_def)
  next
    case False
    have "\<not> ?now \<Longrightarrow> table1 = table" using row False by (auto simp: table1_def)
    with 2(1) False row show ?thesis by (cases ?now) (auto simp: keeps_row_def table1_def add_table_row_def)
  qed
  with 2(2) show ?case by auto
qed simp

lemma restructure_types_ok:
  assumes "\<forall>t \<in> set ts. sensors_ok (fresh_addr st) t (sensor_ctrls st t) \<and> rows_match (next_info st) (sensor_ctrls st t) (sensor_table st t)"
    and "distinct ts"
  shows "\<exists>tables. restructure_types ts st = Some (st\<lparr>
      sensor_ctrls := (\<lambda>t. if t \<in> set ts then filter (keeps_row st) (sensor_ctrls st t) else sensor_ctrls st t),
      sensor_table := (\<lambda>t. if t \<in> set ts then tables t else sensor_table st t)\<rparr>) \<and>
    (\<forall>t \<in> set ts. rows_match (curr_info st) (sensor_ctrls st t) (tables t))"
  using assms
proof (induction ts arbitrary: st)
  case (Cons t ts)
  from Cons.prems(1) have "sensors_ok (fresh_addr st) t ([] @ sensor_ctrls st t)" by simp
  from restructure_list_ok [OF this, of "sensor_table st t" st] Cons.prems(1) obtain table where
    1: "restructure_list st (sensor_ctrls st t) (sensor_table st t) = Some (filter (keeps_row st) (sensor_ctrls st t), table)"
      "rows_match (curr_info st) (sensor_ctrls st t) table"
    by (auto simp: rows_match_def get_next_info_def get_curr_info_def)
  let ?st = "st\<lparr>sensor_ctrls := (sensor_ctrls st)(t := filter (keeps_row st) (sensor_ctrls st t)), sensor_table := (sensor_table st)(t := table)\<rparr>"
  have k: "keeps_row ?st = keeps_row st" "next_info ?st = next_info st"
    by (simp_all add: fun_eq_iff keeps_row_def get_next_info_def get_curr_info_def next_info_def)
  have "\<forall>u \<in> set ts. sensors_ok (fresh_addr ?st) u (sensor_ctrls ?st u) \<and> rows_match (next_info ?st) (sensor_ctrls ?st u) (sensor_table ?st u)"
    using Cons.prems k(2) by auto
  from Cons.IH [OF this] Cons.prems(2) obtain tables where
    2: "restructure_types ts ?st = Some (?st\<lparr>
      sensor_ctrls := (\<lambda>u. if u \<in> set ts then filter (keeps_row st) (sensor_ctrls ?st u) else sensor_ctrls ?st u),
      sensor_table := (\<lambda>u. if u \<in> set ts then tables u else sensor_table ?st u)\<rparr>)"
      "\<forall>u \<in> set ts. rows_match (curr_info st) (sensor_ctrls ?st u) (tables u)"
    unfolding k by auto
  have "?st\<lparr>sensor_ctrls := (\<lambda>u. if u \<in> set ts then filter (keeps_row st) (sensor_ctrls ?st u) else sensor_ctrls ?st u),
      sensor_table := (\<lambda>u. if u \<in> set ts then tables u else sensor_table ?st u)\<rparr> =
    st\<lparr>sensor_ctrls := (\<lambda>u. if u \<in> set (t # ts) then filter (keeps_row st) (sensor_ctrls st u) else sensor_ctrls st u),
      sensor_table := (\<lambda>u. if u \<in> set (t # ts) then (tables(t := table)) u else sensor_table st u)\<rparr>"
    using Cons.prems(2) by (auto simp: fun_eq_iff)
  moreover have "\<forall>u \<in> set (t # ts). rows_match (curr_info st) (sensor_ctrls st u) ((tables(t := table)) u)"
    using 1(2) 2(2) Cons.prems(2) by auto
  ultimately show ?case using 1(1) 2(1) by (intro exI [of _ "tables(t := table)"]) simp
qed simp

lemma all_types: "t \<in> set sensor_types" "distinct sensor_types"
  by (cases t) (simp_all add: sensor_types_def)

lemma restructure_ok:
  assumes inv: "snmp_inv p st" and tr: "restructure_trigger st"
  shows "\<exists>tables. restructure_tables st = Some (st\<lparr>sensor_ctrls := (\<lambda>t. filter (keeps_row st) (sensor_ctrls st t)),
      sensor_table := tables, restructure_trigger := False\<rparr>) \<and>
    (\<forall>t. rows_match (curr_info st) (sensor_ctrls st t) (tables t))"
proof -
  have "\<forall>t \<in> set sensor_types. sensors_ok (fresh_addr st) t (sensor_ctrls st t) \<and>
      rows_match (next_info st) (sensor_ctrls st t) (sensor_table st t)"
    using inv tr by (simp add: snmp_inv_def shown_def)
  from restructure_types_ok [OF this all_types(2)] show ?thesis
    using tr all_types(1) by (auto simp: restructure_tables_def fun_upd_def)
qed

lemma alarm_keeps:
  assumes inv: "snmp_inv p st" and r: "restructure_tables st = Some st'"
  shows "snmp_inv p st'"
proof (cases "restructure_trigger st")
  case False
  with assms show ?thesis by (simp add: restructure_tables_def)
next
  case True
  then have p: "p = Idle" using inv by (auto simp: snmp_inv_def)
  from restructure_ok [OF inv True] r obtain tables where
    st': "st' = st\<lparr>sensor_ctrls := (\<lambda>t. filter (keeps_row st) (sensor_ctrls st t)), sensor_table := tables, restructure_trigger := False\<rparr>"
    and rows: "\<forall>t. rows_match (curr_info st) (sensor_ctrls st t) (tables t)" by auto
  have "sensors_ok (fresh_addr st) t (filter (keeps_row st) (sensor_ctrls st t))" for t
    using inv by (auto simp: snmp_inv_def sensors_ok_def distinct_map_filter)
  moreover have "rows_match (curr_info st) (filter (keeps_row st) (sensor_ctrls st t)) (tables t)" for t
    using rows by (auto simp: rows_match_def keeps_row_def get_curr_info_def)
  ultimately show ?thesis
    using inv p by (simp add: snmp_inv_def st' shown_def)
qed

section \<open>Every reachable state\<close>

text \<open>
  The iteration changes the sensors only through its callback: what every call of the callback keeps is
  kept by the iteration.
\<close>

definition only_calls_back :: "'s onlp_api \<Rightarrow> bool" where
  "only_calls_back A \<longleftrightarrow>
     (\<forall>cb I s st rv s' st'. (\<forall>oid s st rv s' st'. I st \<and> cb oid (s, st) = Some (rv, s', st') \<longrightarrow> I st') \<longrightarrow>
        I st \<longrightarrow> ap_iterate A cb (s, st) = Some (rv, s', st') \<longrightarrow> I st')"

lemma iterate_keeps:
  assumes "only_calls_back A" "ap_iterate A cb (s, st) = Some (rv, s', st')" "I st"
    and "\<And>oid s st rv s' st'. I st \<Longrightarrow> cb oid (s, st) = Some (rv, s', st') \<Longrightarrow> I st'"
  shows "I st'"
proof -
  have "\<forall>oid s st rv s' st'. I st \<and> cb oid (s, st) = Some (rv, s', st') \<longrightarrow> I st'" using assms(4) by metis
  with assms(1) [unfolded only_calls_back_def, THEN spec [of _ cb], THEN spec [of _ I], THEN spec [of _ s], THEN spec [of _ st],
      THEN spec [of _ rv], THEN spec [of _ s'], THEN spec [of _ st']] assms(2,3)
  show ?thesis by (simp only: simp_thms)
qed

lemma snmp_step_inv:
  assumes "only_calls_back A"
  shows "snmp_step A x y \<Longrightarrow> snmp_inv (fst x) (snd (snd x)) \<Longrightarrow> snmp_inv (fst y) (snd (snd y))"
proof (induction rule: snmp_step.induct)
  case (start s st)
  then show ?case using mark_keeps [of st] by (simp add: update_due_def)
next
  case (collect s st rv s' st')
  then have "snmp_inv Marked st'"
    using iterate_keeps [OF assms, where I = "snmp_inv Marked"] collect_keeps by (metis fst_conv snd_conv)
  then show ?case by (auto simp: snmp_inv_def shown_def)
next
  case (refresh s st s' st')
  then have "snmp_inv Collected st'" using update_types_keeps by fastforce
  then show ?case by (auto simp: snmp_inv_def shown_def)
next
  case (publish s st)
  have "next_info (st\<lparr>restructure_trigger := True\<rparr>) = next_info st" by (simp add: next_info_def)
  with publish show ?case by (auto simp: snmp_inv_def shown_def)
qed (use swap_keeps alarm_keeps in auto)

lemma snmp_reach_inv:
  assumes A: "only_calls_back A"
  shows "snmp_reach A x \<Longrightarrow> snmp_inv (fst x) (snd (snd x))"
proof (induction rule: snmp_reach.induct)
  case (init s)
  then show ?case by (simp add: snmp_inv_def init_all_tables_def sensors_ok_def rows_match_def)
next
  case (step x y)
  then show ?case using snmp_step_inv [OF A] by blast
qed

lemma find_row:
  assumes ok: "sensors_ok fresh t sss" and rows: "rows_match k sss table" and a: "table i = Some a"
  shows "\<exists>ss \<in> set sss. List.find (\<lambda>ss. ss_addr ss = a) sss = Some ss \<and> ss_index ss = i \<and> ss_addr ss = a \<and> valid (sensor_info ss k)"
proof -
  from rows a obtain ss where ss: "ss \<in> set sss" "ss_index ss = i" "ss_addr ss = a" "valid (sensor_info ss k)"
    by (auto simp: rows_match_def)
  obtain x where x: "List.find (\<lambda>ss. ss_addr ss = a) sss = Some x"
    using ss(1,3) by (cases "List.find (\<lambda>ss. ss_addr ss = a) sss") (auto simp: find_None_iff)
  then have "x \<in> set sss" "ss_addr x = a" by (auto simp: find_Some_iff)
  with ss ok have "x = ss" by (auto simp: sensors_ok_def distinct_map inj_on_def)
  with x ss show ?thesis by blast
qed

text \<open>
  C12: in every state the two threads can reach, a request for any column finds the sensor of its row
  still allocated, and the alarm can run: it never adds an index twice.
\<close>

theorem snmp_no_dangling_rows:
  assumes A: "only_calls_back A" and r: "snmp_reach A (p, s, st)"
    and t: "t \<in> {ST_TEMP, ST_FAN, ST_PSU}" "col < length (handler_fns t)"
  shows "table_handler st t col i \<noteq> None \<and> restructure_tables st \<noteq> None"
proof
  from snmp_reach_inv [OF A r] have inv: "snmp_inv p st" by simp
  then have ok: "sensors_ok (fresh_addr st) t (sensor_ctrls st t)" "rows_match (shown p st) (sensor_ctrls st t) (sensor_table st t)"
    by (simp_all add: snmp_inv_def)
  show "table_handler st t col i \<noteq> None"
  proof (cases "sensor_table st t i")
    case (Some a)
    from find_row [OF ok Some] t(2) show ?thesis by (auto simp: table_handler_def Some rd_def)
  qed (simp add: table_handler_def)
  show "restructure_tables st \<noteq> None"
    using restructure_ok [OF inv] by (cases "restructure_trigger st") (auto simp: restructure_tables_def)
qed

section \<open>The update is invisible\<close>

text \<open>The same rows and front halves; what is new has a new address.\<close>

definition same_view :: "snmp \<Rightarrow> snmp \<Rightarrow> bool" where
  "same_view st st' \<longleftrightarrow> curr_info st' = curr_info st \<and> sensor_table st' = sensor_table st \<and> fresh_addr st \<le> fresh_addr st' \<and>
     (\<forall>t. \<exists>old new. sensor_ctrls st' t = old @ new \<and> same_list (curr_info st) (sensor_ctrls st t) old \<and>
        (\<forall>ss \<in> set new. fresh_addr st \<le> ss_addr ss))"

lemma same_list_trans: "same_list k xs ys \<Longrightarrow> same_list k ys zs \<Longrightarrow> same_list k xs zs"
  by (rule list_all2_trans [OF same_at_trans])

lemma same_view_update:
  assumes v: "same_view st st'" and s: "same_list (curr_info st) (sensor_ctrls st' t) sss"
  shows "same_view st (st'\<lparr>sensor_ctrls := (sensor_ctrls st')(t := sss)\<rparr>)"
proof -
  from v obtain old new where o: "sensor_ctrls st' t = old @ new" "same_list (curr_info st) (sensor_ctrls st t) old"
    "\<forall>ss \<in> set new. fresh_addr st \<le> ss_addr ss"
    unfolding same_view_def by blast
  from s o(1) obtain old' new' where o': "sss = old' @ new'" "same_list (curr_info st) old old'" "same_list (curr_info st) new new'"
    by (auto simp: list_all2_append1)
  have "ss_addr ` set new' = ss_addr ` set new"
    using same_list_maps [OF o'(3)] by (metis list.set_map)
  then have "\<forall>ss \<in> set new'. fresh_addr st \<le> ss_addr ss" using o(3) by (metis image_eqI imageE)
  with o(2) o' have "\<exists>old new. sss = old @ new \<and> same_list (curr_info st) (sensor_ctrls st t) old \<and>
      (\<forall>ss \<in> set new. fresh_addr st \<le> ss_addr ss)" using same_list_trans by blast
  with v show ?thesis by (auto simp: same_view_def)
qed

lemma add_sensor_view:
  assumes v: "same_view st st'" and c: "curr_info st < 2"
  shows "same_view st (add_sensor t ns st')"
proof (cases "revalidate (next_info st') (sensor_id ns) (sensor_ctrls st' t)")
  case (Some sss)
  have "curr_info st \<noteq> next_info st'" using v c halves(1) [of st'] by (auto simp: same_view_def)
  from same_view_update [OF v revalidate_same [OF this Some]] show ?thesis by (simp add: add_sensor_def Some)
next
  case None
  define ss where "ss = put_next (next_info st') (valid_update (\<lambda>_. True)) (ns\<lparr>ss_addr := fresh_addr st', ss_type := t\<rparr>)"
  have a: "ss_addr ss = fresh_addr st'" by (simp add: ss_def put_next_def)
  have "\<exists>old new. ((sensor_ctrls st')(t := sensor_ctrls st' t @ [ss])) u = old @ new \<and>
      same_list (curr_info st) (sensor_ctrls st u) old \<and> (\<forall>ss \<in> set new. fresh_addr st \<le> ss_addr ss)" for u
  proof -
    from v obtain old new where o: "sensor_ctrls st' u = old @ new" "same_list (curr_info st) (sensor_ctrls st u) old"
      "\<forall>ss \<in> set new. fresh_addr st \<le> ss_addr ss"
      unfolding same_view_def by blast
    have "fresh_addr st \<le> fresh_addr st'" using v by (simp add: same_view_def)
    with o a show ?thesis
      by (intro exI [of _ old] exI [of _ "if u = t then new @ [ss] else new"]) auto
  qed
  with v show ?thesis by (simp add: add_sensor_def None ss_def [symmetric] same_view_def)
qed

lemma handler_same:
  assumes h: "rd (handler_fns t) col = Some (Some f)" and c: "curr_info st' = curr_info st" and s: "same_at (curr_info st) ss ss'"
  shows "f st' ss' = f st ss"
proof -
  have i: "get_curr_info st' ss' = get_curr_info st ss" using c s by (simp add: get_curr_info_def same_at_def)
  have "ss_index ss' = ss_index ss" "ss_name ss' = ss_name ss" "ss_desc ss' = ss_desc ss" using s by (simp_all add: same_at_def)
  note eqs = this i
  from h have "Some f \<in> set (handler_fns t)" by (metis nth_mem rd_Some)
  then show ?thesis
    by (cases t) (auto simp: handler_fns_def temp_handler_fn_def fan_handler_fn_def psu_handler_fn_def sensor_index_def sensor_devname_def
      temp_status_handler_def temp_value_handler_def fan_status_handler_def fan_flow_type_handler_def fan_gauge_handler_def
      fan_string_handler_def psu_status_handler_def psu_current_type_handler_def psu_gauge_handler_def psu_string_handler_def
      from_valid_def eqs)
qed

lemma same_list_find:
  "same_list k xs ys \<Longrightarrow> List.find (\<lambda>ss. ss_addr ss = a) xs = Some x \<Longrightarrow>
    \<exists>y. List.find (\<lambda>ss. ss_addr ss = a) (ys @ zs) = Some y \<and> same_at k x y"
  by (induction rule: list_all2_induct) (auto simp: same_at_def split: if_splits)

lemma same_view_reply:
  assumes inv: "snmp_inv p st" and v: "same_view st st'"
  shows "table_handler st' t col i = table_handler st t col i"
proof (cases "sensor_table st t i")
  case None
  with v show ?thesis by (simp add: same_view_def table_handler_def)
next
  case (Some a)
  from inv have ok: "sensors_ok (fresh_addr st) t (sensor_ctrls st t)" "rows_match (shown p st) (sensor_ctrls st t) (sensor_table st t)"
    by (simp_all add: snmp_inv_def)
  from find_row [OF ok Some] obtain x where x: "List.find (\<lambda>ss. ss_addr ss = a) (sensor_ctrls st t) = Some x" by blast
  from v obtain old new where "sensor_ctrls st' t = old @ new" "same_list (curr_info st) (sensor_ctrls st t) old"
    unfolding same_view_def by blast
  with same_list_find [OF _ x] obtain y where y: "List.find (\<lambda>ss. ss_addr ss = a) (sensor_ctrls st' t) = Some y" "same_at (curr_info st) x y"
    by metis
  have "sensor_table st' t i = Some a" "curr_info st' = curr_info st" using v Some by (simp_all add: same_view_def)
  with x y Some handler_same [OF _ _ y(2), of t col _ st'] show ?thesis
    by (auto simp: table_handler_def split: option.splits Option.bind_splits)
qed

inductive_cases start_elim: "snmp_step A (Idle, s, st) (q, s', st')"
inductive_cases collect_elim: "snmp_step A (Marked, s, st) (q, s', st')"
inductive_cases refresh_elim: "snmp_step A (Collected, s, st) (q, s', st')"
inductive_cases publish_elim: "snmp_step A (Swapped, s, st) (q, s', st')"

lemma same_viewI:
  assumes "curr_info st' = curr_info st" "sensor_table st' = sensor_table st" "fresh_addr st \<le> fresh_addr st'"
    and s: "\<And>t. same_list (curr_info st) (sensor_ctrls st t) (sensor_ctrls st' t)"
  shows "same_view st st'"
proof -
  have "\<exists>old new. sensor_ctrls st' t = old @ new \<and> same_list (curr_info st) (sensor_ctrls st t) old \<and>
      (\<forall>ss \<in> set new. fresh_addr st \<le> ss_addr ss)" for t
    by (rule exI [of _ "sensor_ctrls st' t"], rule exI [of _ "[]"]) (simp add: s)
  with assms(1-3) show ?thesis by (simp add: same_view_def)
qed

lemma same_view_refl [simp]: "same_view st st"
  by (rule same_viewI) (simp_all add: list.rel_refl)

lemma mark_view:
  assumes "snmp_inv Idle st"
  shows "same_view st (mark_next_invalid (st\<lparr>last_sensor_update_time := n\<rparr>))"
proof -
  have "curr_info st \<noteq> next_info st" using assms halves(1) [of st] by (simp add: snmp_inv_def)
  moreover have "next_info (st\<lparr>last_sensor_update_time := n\<rparr>) = next_info st" by (simp add: next_info_def)
  ultimately show ?thesis
    by (intro same_viewI) (simp_all add: mark_next_invalid_def list_all2_map2 list.rel_refl)
qed

lemma collect_view:
  assumes A: "only_calls_back A" and inv: "snmp_inv Marked st"
    and c: "ap_iterate A (collect_sensors A) (s, st) = Some (rv, s', st')"
  shows "same_view st st'"
proof (rule iterate_keeps [OF A c, where I = "same_view st"])
  fix oid s1 st1 rv1 s2 st2
  assume v: "same_view st st1" and "collect_sensors A oid (s1, st1) = Some (rv1, s2, st2)"
  moreover have "curr_info st < 2" using inv by (simp add: snmp_inv_def)
  ultimately show "same_view st st2"
    using add_sensor_view [OF v] by (auto simp: collect_sensors_def split: Option.bind_splits option.splits)
qed simp

lemma update_types_view:
  "update_types A ts (s, st') = Some (s2, st2) \<Longrightarrow> same_view st st' \<Longrightarrow> curr_info st < 2 \<Longrightarrow> same_view st st2"
proof (induction ts arbitrary: s st')
  case (Cons t ts)
  from Cons.prems(1) obtain sss s1 where
    1: "update_list A t (next_info st') (sensor_ctrls st' t) s = Some (sss, s1)"
      "update_types A ts (s1, st'\<lparr>sensor_ctrls := (sensor_ctrls st')(t := sss)\<rparr>) = Some (s2, st2)"
    by (auto split: Option.bind_splits)
  have "curr_info st \<noteq> next_info st'" using Cons.prems(2,3) halves(1) [of st'] by (auto simp: same_view_def)
  from same_view_update [OF Cons.prems(2) update_list_same [OF this 1(1)]] Cons.IH [OF 1(2)] Cons.prems(3) show ?case by blast
qed simp

text \<open>
  C21: an update that is in progress cannot be seen: of its parts only the swap of the halves changes
  what a request is answered.
\<close>

theorem snmp_update_invisible:
  assumes A: "only_calls_back A" and r: "snmp_reach A (p, s, st)" and x: "snmp_step A (p, s, st) (q, s', st')"
    and q: "q \<noteq> p" "p \<noteq> Updated"
  shows "table_handler st' t col i = table_handler st t col i"
proof -
  from snmp_reach_inv [OF A r] have inv: "snmp_inv p st" by simp
  have "same_view st st'"
  proof (cases p)
    case Idle
    with x q inv show ?thesis by (auto elim!: start_elim intro: mark_view)
  next
    case Marked
    with x q inv show ?thesis by (auto elim!: collect_elim intro: collect_view [OF A])
  next
    case Collected
    have "curr_info st < 2" using inv by (simp add: snmp_inv_def)
    with Collected x q show ?thesis by (auto elim!: refresh_elim intro: update_types_view [OF _ same_view_refl])
  next
    case Swapped
    have "same_view st (st\<lparr>restructure_trigger := True\<rparr>)"
      by (intro same_viewI) (simp_all add: list.rel_refl)
    with Swapped x q show ?thesis by (auto elim!: publish_elim)
  qed (use q in simp)
  from same_view_reply [OF inv this] show ?thesis .
qed

section \<open>What an update achieves\<close>

text \<open>The iteration runs the callback over the OIDs, until it fails.\<close>

fun run_cb :: "(onlp_oid_t \<Rightarrow> 's \<times> 'c \<Rightarrow> (int \<times> 's \<times> 'c) option) \<Rightarrow> onlp_oid_t list \<Rightarrow> 's \<times> 'c \<Rightarrow> (int \<times> 's \<times> 'c) option" where
  "run_cb cb [] sc = Some (0, sc)"
| "run_cb cb (oid # oids) sc = do { (rv, sc) \<leftarrow> cb oid sc; if rv < 0 then Some (rv, sc) else run_cb cb oids sc }"

lemma run_cb_keeps:
  "run_cb cb oids (s, st) = Some (rv, s', st') \<Longrightarrow> I st \<Longrightarrow>
   \<forall>oid s st rv s' st'. I st \<and> cb oid (s, st) = Some (rv, s', st') \<longrightarrow> I st' \<Longrightarrow> I st'"
proof (induction oids arbitrary: s st)
  case (Cons oid oids)
  from Cons.prems(1) obtain rv1 s1 st1 where 1: "cb oid (s, st) = Some (rv1, s1, st1)"
    "(if rv1 < 0 then Some (rv1, s1, st1) else run_cb cb oids (s1, st1)) = Some (rv, s', st')"
    by (auto split: Option.bind_splits)
  then have "I st1" using Cons.prems(2,3) by blast
  with 1(2) Cons.IH [of s1 st1] Cons.prems(3) show ?case by (auto split: if_splits)
qed simp

text \<open>An ONLP whose answers do not change.\<close>

record answers =
  an_oids :: "onlp_oid_t list"
  an_hdr :: "onlp_oid_t \<Rightarrow> oid_hdr"
  an_thermal :: "onlp_oid_t \<Rightarrow> int \<times> thermal_info"
  an_fan :: "onlp_oid_t \<Rightarrow> int \<times> fan_info"
  an_psu :: "onlp_oid_t \<Rightarrow> int \<times> psu_info"

definition steady :: "'s onlp_api \<Rightarrow> 's \<Rightarrow> answers \<Rightarrow> bool" where
  "steady A s an \<longleftrightarrow>
     (\<forall>cb c. ap_iterate A cb (s, c) = run_cb cb (an_oids an) (s, c)) \<and> (\<forall>oid. ap_hdr A oid s = Some (an_hdr an oid, s)) \<and>
     (\<forall>oid x. ap_thermal A oid x s = Some (an_thermal an oid, s)) \<and> (\<forall>oid x. ap_fan A oid x s = Some (an_fan an oid, s)) \<and>
     (\<forall>oid x. ap_psu A oid x s = Some (an_psu an oid, s))"

definition answered :: "answers \<Rightarrow> sensor_type \<Rightarrow> onlp_oid_t \<Rightarrow> bool" where
  "answered an t oid \<longleftrightarrow> (case t of ST_TEMP \<Rightarrow> fst (an_thermal an oid) | ST_FAN \<Rightarrow> fst (an_fan an oid) | ST_PSU \<Rightarrow> fst (an_psu an oid)
     | _ \<Rightarrow> -1) = 0"

definition refill :: "answers \<Rightarrow> sensor_type \<Rightarrow> onlp_oid_t \<Rightarrow> sensor_info \<Rightarrow> sensor_info" where
  "refill an t oid = (case t of ST_TEMP \<Rightarrow> data_ti_update (\<lambda>_. snd (an_thermal an oid))
     | ST_FAN \<Rightarrow> data_fi_update (\<lambda>_. snd (an_fan an oid)) | ST_PSU \<Rightarrow> data_pi_update (\<lambda>_. snd (an_psu an oid)) | _ \<Rightarrow> id)"

definition refreshed :: "answers \<Rightarrow> sensor_type \<Rightarrow> nat \<Rightarrow> snmp_sensor \<Rightarrow> snmp_sensor" where
  "refreshed an t nxt ss =
     (if valid (sensor_info ss nxt) then
        put_next nxt (\<lambda>si. (refill an t (sensor_id ss) si)\<lparr>valid := answered an t (sensor_id ss)\<rparr>) ss
      else ss)"

lemma put_next_put_next [simp]: "put_next nxt f (put_next nxt g ss) = put_next nxt (\<lambda>x. f (g x)) ss"
  by (simp add: put_next_def)

lemma valid_True [simp]: "valid si \<Longrightarrow> si\<lparr>valid := True\<rparr> = si"
  by (cases si) simp

lemma refreshed_fields [simp]: "sensor_id (refreshed an t nxt ss) = sensor_id ss"
  by (simp add: refreshed_def put_next_def)

lemma update_list_steady:
  assumes A: "steady A s an" and t: "t \<in> {ST_TEMP, ST_FAN, ST_PSU} \<or> sss = []"
  shows "update_list A t nxt sss s = Some (map (refreshed an t nxt) sss, s)"
proof (cases "t \<in> {ST_TEMP, ST_FAN, ST_PSU}")
  case True
  show ?thesis
  proof (induction sss)
    case (Cons ss sss)
    have "(if valid (sensor_info ss nxt) then
           do { (rv, ss, s) \<leftarrow> update_handler_fn A t nxt ss s;
                Some (if rv \<noteq> ONLP_STATUS_OK then put_next nxt (valid_update (\<lambda>_. False)) ss else ss, s) }
         else Some (ss, s)) = Some (refreshed an t nxt ss, s)"
      using True A
      by (auto simp: update_handler_fn_def steady_def temp_update_handler_def fan_update_handler_def psu_update_handler_def
          refreshed_def refill_def answered_def case_prod_unfold put_next_def)
    with Cons show ?case by simp
  qed simp
qed (use t in simp)

text \<open>The OIDs of the sensors whose half \<open>k\<close> is valid.\<close>

definition valid_ids :: "nat \<Rightarrow> snmp_sensor list \<Rightarrow> onlp_oid_t set" where
  "valid_ids k sss = {sensor_id ss | ss. ss \<in> set sss \<and> valid (sensor_info ss k)}"

lemma valid_ids_simps [simp]:
  "valid_ids k [] = {}"
  "valid_ids k (ss # sss) = (if valid (sensor_info ss k) then {sensor_id ss} else {}) \<union> valid_ids k sss"
  "valid_ids k (xs @ ys) = valid_ids k xs \<union> valid_ids k ys"
  by (auto simp: valid_ids_def)

lemma put_next_fields [simp]:
  "sensor_id (put_next nxt f ss) = sensor_id ss" "ss_index (put_next nxt f ss) = ss_index ss"
  "ss_addr (put_next nxt f ss) = ss_addr ss" "sensor_info (put_next nxt f ss) nxt = f (sensor_info ss nxt)"
  by (simp_all add: put_next_def)

lemma revalidate_ids: "revalidate nxt i sss = Some sss' \<Longrightarrow> valid_ids nxt sss' = insert i (valid_ids nxt sss)"
  by (induction sss arbitrary: sss') (auto split: if_splits)

lemma mark_ids: "valid_ids nxt (map (put_next nxt (valid_update (\<lambda>_. False))) sss) = {}"
  by (induction sss) simp_all

lemma add_sensor_curr [simp]: "curr_info (add_sensor t ns st) = curr_info st" "next_info (add_sensor t ns st) = next_info st"
  by (simp_all add: add_sensor_def next_info_def Let_def split: option.splits)

lemma add_sensor_ids:
  "valid_ids (next_info st) (sensor_ctrls (add_sensor t ns st) u) =
     (if u = t then {sensor_id ns} else {}) \<union> valid_ids (next_info st) (sensor_ctrls st u)"
  by (cases "revalidate (next_info st) (sensor_id ns) (sensor_ctrls st t)")
    (auto simp: add_sensor_def dest: revalidate_ids)

lemma collect_steady:
  assumes A: "steady A s an"
  shows "\<exists>st'. run_cb (collect_sensors A) oids (s, st) = Some (0, s, st') \<and> curr_info st' = curr_info st \<and>
    (\<forall>t. valid_ids (next_info st) (sensor_ctrls st' t) =
       {oid \<in> set oids. type_of_oid oid = Some t} \<union> valid_ids (next_info st) (sensor_ctrls st t))"
proof (induction oids arbitrary: st)
  case (Cons oid oids)
  define st1 where "st1 = (case type_of_oid oid of None \<Rightarrow> st | Some t \<Rightarrow> add_sensor t (new_sensor oid (an_hdr an oid)) st)"
  have 1: "collect_sensors A oid (s, st) = Some (0, s, st1)" using A by (simp add: collect_sensors_def steady_def st1_def)
  have 2: "curr_info st1 = curr_info st" "next_info st1 = next_info st" by (simp_all add: st1_def split: option.splits)
  have 3: "valid_ids (next_info st) (sensor_ctrls st1 t) =
      (if type_of_oid oid = Some t then {oid} else {}) \<union> valid_ids (next_info st) (sensor_ctrls st t)" for t
    by (cases "type_of_oid oid") (auto simp: st1_def add_sensor_ids new_sensor_def)
  from Cons.IH [of st1] obtain st' where
    4: "run_cb (collect_sensors A) oids (s, st1) = Some (0, s, st')" "curr_info st' = curr_info st"
      "\<forall>t. valid_ids (next_info st) (sensor_ctrls st' t) =
         {oid \<in> set oids. type_of_oid oid = Some t} \<union> valid_ids (next_info st) (sensor_ctrls st1 t)"
    unfolding 2 by blast
  have "valid_ids (next_info st) (sensor_ctrls st' t) =
      {x \<in> set (oid # oids). type_of_oid x = Some t} \<union> valid_ids (next_info st) (sensor_ctrls st t)" for t
    using 4(3) 3 [of t] by auto
  with 1 4(1,2) show ?case by (intro exI [of _ st']) simp
qed simp

lemma update_types_steady:
  assumes A: "steady A s an" and t: "\<forall>t \<in> set ts. t \<in> {ST_TEMP, ST_FAN, ST_PSU} \<or> sensor_ctrls st t = []" and d: "distinct ts"
  shows "update_types A ts (s, st) = Some (s, st\<lparr>sensor_ctrls :=
    (\<lambda>t. if t \<in> set ts then map (refreshed an t (next_info st)) (sensor_ctrls st t) else sensor_ctrls st t)\<rparr>)"
  using t d
proof (induction ts arbitrary: st)
  case (Cons t ts)
  let ?st = "st\<lparr>sensor_ctrls := (sensor_ctrls st)(t := map (refreshed an t (next_info st)) (sensor_ctrls st t))\<rparr>"
  have nx: "next_info ?st = next_info st" by (simp add: next_info_def)
  have 1: "update_list A t (next_info st) (sensor_ctrls st t) s = Some (map (refreshed an t (next_info st)) (sensor_ctrls st t), s)"
    using update_list_steady [OF A] Cons.prems(1) by simp
  have "\<forall>u \<in> set ts. u \<in> {ST_TEMP, ST_FAN, ST_PSU} \<or> sensor_ctrls ?st u = []" using Cons.prems by auto
  from Cons.IH [OF this] Cons.prems(2) have
    2: "update_types A ts (s, ?st) = Some (s, ?st\<lparr>sensor_ctrls :=
      (\<lambda>u. if u \<in> set ts then map (refreshed an u (next_info st)) (sensor_ctrls ?st u) else sensor_ctrls ?st u)\<rparr>)"
    unfolding nx by simp
  have "?st\<lparr>sensor_ctrls := (\<lambda>u. if u \<in> set ts then map (refreshed an u (next_info st)) (sensor_ctrls ?st u) else sensor_ctrls ?st u)\<rparr> =
      st\<lparr>sensor_ctrls := (\<lambda>u. if u \<in> set (t # ts) then map (refreshed an u (next_info st)) (sensor_ctrls st u) else sensor_ctrls st u)\<rparr>"
    using Cons.prems(2) by (auto simp: fun_eq_iff)
  with 1 2 show ?case by simp
qed simp

lemma no_other_sensors:
  assumes "sensors_ok fresh t sss" "t \<notin> {ST_TEMP, ST_FAN, ST_PSU}"
  shows "sss = []"
  using assms by (cases sss) (auto simp: sensors_ok_def type_of_oid_def split: if_splits)

lemma refreshed_ids:
  "valid_ids nxt (map (refreshed an t nxt) sss) = {oid \<in> valid_ids nxt sss. answered an t oid}"
  by (induction sss) (auto simp: refreshed_def)

lemma update_steady:
  assumes A: "only_calls_back A" "steady A s an" and inv: "snmp_inv Idle st" and due: "update_due A (s, st)"
  shows "\<exists>st1. update_tables A (s, st) = Some (s, st1) \<and> snmp_inv Idle st1 \<and> restructure_trigger st1 \<and>
    curr_info st1 = next_info st \<and>
    (\<forall>t. \<exists>sss. sensor_ctrls st1 t = map (refreshed an t (next_info st)) sss \<and>
       valid_ids (next_info st) sss = {oid \<in> set (an_oids an). type_of_oid oid = Some t})"
proof -
  let ?n = "next_info st"
  define m where "m = mark_next_invalid (st\<lparr>last_sensor_update_time := ap_monotonic A s\<rparr>)"
  have nx: "next_info (st\<lparr>last_sensor_update_time := x\<rparr>) = ?n" for x by (simp add: next_info_def)
  have m: "curr_info m = curr_info st" "next_info m = ?n" "valid_ids ?n (sensor_ctrls m t) = {}" for t
    by (simp_all add: m_def mark_next_invalid_def nx mark_ids) (simp add: next_info_def)
  have mi: "snmp_inv Marked m" using mark_keeps [OF inv] due by (simp add: m_def update_due_def)
  from collect_steady [OF A(2), of "an_oids an" m] obtain c where
    c: "run_cb (collect_sensors A) (an_oids an) (s, m) = Some (0, s, c)" "curr_info c = curr_info st"
      "\<And>t. valid_ids ?n (sensor_ctrls c t) = {oid \<in> set (an_oids an). type_of_oid oid = Some t}"
    unfolding m by auto
  have it: "ap_iterate A (collect_sensors A) (s, m) = Some (0, s, c)" using A(2) c(1) by (simp add: steady_def)
  have ci: "snmp_inv Marked c" using iterate_keeps [OF A(1) it, where I = "snmp_inv Marked"] collect_keeps mi by metis
  have cn: "next_info c = ?n" using c(2) by (simp add: next_info_def)
  have "t \<in> {ST_TEMP, ST_FAN, ST_PSU} \<or> sensor_ctrls c t = []" for t
    using no_other_sensors [of "fresh_addr c" t "sensor_ctrls c t"] ci by (auto simp: snmp_inv_def)
  then have "update_types A sensor_types (s, c) =
      Some (s, c\<lparr>sensor_ctrls := (\<lambda>t. map (refreshed an t ?n) (sensor_ctrls c t))\<rparr>)"
    using update_types_steady [OF A(2) _ all_types(2), of c] all_types(1) cn by simp
  with it have 1: "update_tables A (s, st) = Some (s, (swap_curr_next_info
      (c\<lparr>sensor_ctrls := (\<lambda>t. map (refreshed an t ?n) (sensor_ctrls c t))\<rparr>))\<lparr>restructure_trigger := True\<rparr>)"
    (is "_ = Some (s, ?st1)")
    using due by (simp add: update_tables_def m_def)
  have k: "snmp_inv Collected c" using ci by (auto simp: snmp_inv_def shown_def)
  have "snmp_inv Collected (c\<lparr>sensor_ctrls := (\<lambda>t. map (refreshed an t ?n) (sensor_ctrls c t))\<rparr>)"
    by (rule update_types_keeps [OF \<open>update_types A sensor_types (s, c) = _\<close> k]) simp_all
  then have "snmp_inv Updated (c\<lparr>sensor_ctrls := (\<lambda>t. map (refreshed an t ?n) (sensor_ctrls c t))\<rparr>)"
    by (auto simp: snmp_inv_def shown_def)
  from swap_keeps [OF this] have 2: "snmp_inv Idle ?st1"
    by (auto simp: snmp_inv_def shown_def next_info_def)
  have 3: "restructure_trigger ?st1" "curr_info ?st1 = ?n"
    using cn by (simp_all add: swap_curr_next_info_def next_info_def)
  have 4: "\<exists>sss. sensor_ctrls ?st1 t = map (refreshed an t ?n) sss \<and>
      valid_ids ?n sss = {oid \<in> set (an_oids an). type_of_oid oid = Some t}" for t
    by (rule exI [of _ "sensor_ctrls c t"]) (simp add: swap_curr_next_info_def c(3))
  show ?thesis by (intro exI [of _ ?st1] conjI 1 2 3 allI 4)
qed

text \<open>A sensor with nothing but the answer for its OID.\<close>

definition filled :: "answers \<Rightarrow> sensor_type \<Rightarrow> onlp_oid_t \<Rightarrow> snmp_sensor" where
  "filled an t oid =
     \<lparr>ss_addr = 0, sensor_id = oid, ss_name = '''', ss_desc = '''', ss_type = t, ss_index = ONLP_OID_ID_GET oid,
      sensor_info = (\<lambda>_. (refill an t oid sensor_info_zero)\<lparr>valid := True\<rparr>)\<rparr>"

lemma handler_fns_lengths:
  "length (handler_fns ST_TEMP) = 5" "length (handler_fns ST_FAN) = 9" "length (handler_fns ST_PSU) = 13"
  "length (handler_fns ST_LED) = 0" "length (handler_fns ST_MISC) = 0"
  by (simp_all add: handler_fns_def temp_handler_fn_def fan_handler_fn_def psu_handler_fn_def)

lemma filled_reply:
  assumes h: "rd (handler_fns t) col = Some (Some f)" "col \<noteq> 2"
    and i: "get_curr_info st ss = (refill an t oid si)\<lparr>valid := True\<rparr>" "ss_index ss = ONLP_OID_ID_GET oid"
  shows "f st ss = f init_all_tables (filled an t oid)"
proof -
  from h(1) have col: "col < length (handler_fns t)" "handler_fns t ! col = Some f" by (auto simp: rd_def split: if_splits)
  have "t = ST_TEMP \<and> col \<in> {0, 1, 3, 4} \<or> t = ST_FAN \<and> col \<in> {0, 1, 3, 4, 5, 6, 7, 8} \<or>
      t = ST_PSU \<and> col \<in> {0, 1, 3, 4, 5, 6, 7, 8, 9, 10, 11, 12}"
    using col(1) h(2) by (cases t) (simp_all add: handler_fns_lengths, arith+)
  with col(2) i show ?thesis
    by (elim disjE conjE insertE)
      (auto simp: handler_fns_def temp_handler_fn_def fan_handler_fn_def psu_handler_fn_def sensor_index_def
        temp_status_handler_def temp_value_handler_def fan_status_handler_def fan_flow_type_handler_def fan_gauge_handler_def
        fan_string_handler_def psu_status_handler_def psu_current_type_handler_def psu_gauge_handler_def psu_string_handler_def
        from_valid_def filled_def refill_def get_curr_info_def init_all_tables_def)
qed

lemma find_None_row:
  assumes "rows_match k sss table" "\<not> (\<exists>ss \<in> set sss. ss_index ss = i \<and> valid (sensor_info ss k))"
  shows "table i = None"
  using assms by (cases "table i") (auto simp: rows_match_def)

text \<open>
  A request for a column, when the rows of a table show exactly the sensors of a list that a predicate holds for, and
  every handler gives its reply.
\<close>

lemma handler_of_listed:
  assumes ok: "sensors_ok (fresh_addr s2) t (sensor_ctrls s2 t)" "rows_match n (sensor_ctrls s2 t) (sensor_table s2 t)"
    and ids: "valid_ids n (sensor_ctrls s2 t) = {oid \<in> set oids. type_of_oid oid = Some t \<and> P oid}"
    and rep: "\<And>x f. x \<in> set (sensor_ctrls s2 t) \<Longrightarrow> valid (sensor_info x n) \<Longrightarrow>
      rd (handler_fns t) col = Some (Some f) \<Longrightarrow> f s2 x = reply f (sensor_id x)"
    and col: "col < length (handler_fns t)"
  shows "table_handler s2 t col i =
    Some (case List.find (\<lambda>oid. type_of_oid oid = Some t \<and> ONLP_OID_ID_GET oid = i \<and> P oid) oids of
            None \<Rightarrow> NoSuchInstance
          | Some oid \<Rightarrow> (case handler_fns t ! col of None \<Rightarrow> NoSuchInstance | Some f \<Rightarrow> reply f oid))"
    (is "_ = Some (case ?find of None \<Rightarrow> _ | Some oid \<Rightarrow> ?reply oid)")
proof -
  have sid: "ss_index ss = ONLP_OID_ID_GET (sensor_id ss)" "type_of_oid (sensor_id ss) = Some t"
    if "ss \<in> set (sensor_ctrls s2 t)" for ss
    using ok(1) that unfolding sensors_ok_def by blast+
  show ?thesis
  proof (cases ?find)
    case None
    then have "\<not> (\<exists>ss \<in> set (sensor_ctrls s2 t). ss_index ss = i \<and> valid (sensor_info ss n))"
      using ids sid by (fastforce simp: find_None_iff valid_ids_def)
    from find_None_row [OF ok(2) this] None show ?thesis by (simp add: table_handler_def)
  next
    case (Some oid)
    then have oid: "oid \<in> set oids" "type_of_oid oid = Some t" "ONLP_OID_ID_GET oid = i" "P oid"
      by (auto simp: find_Some_iff)
    then have "oid \<in> valid_ids n (sensor_ctrls s2 t)" using ids by blast
    then obtain x where x: "x \<in> set (sensor_ctrls s2 t)" "sensor_id x = oid" "valid (sensor_info x n)"
      by (auto simp: valid_ids_def)
    then have "ss_index x = i" using sid oid(3) by blast
    then have a: "sensor_table s2 t i = Some (ss_addr x)" using ok(2) x unfolding rows_match_def by blast
    from find_row [OF ok a] obtain y where
      y: "List.find (\<lambda>ss. ss_addr ss = ss_addr x) (sensor_ctrls s2 t) = Some y" "y \<in> set (sensor_ctrls s2 t)" "ss_addr y = ss_addr x"
      by blast
    have "y = x" using ok(1) x(1) y(2,3) by (auto simp: sensors_ok_def distinct_map inj_on_def)
    with rep [OF x(1,3)] x(2) a y(1) Some col show ?thesis
      unfolding table_handler_def by (auto simp: rd_def split: option.splits)
  qed
qed


section \<open>A small system\<close>

text \<open>A thermal sensor that answers and a power supply that does not, asked after a minute.\<close>

definition small_answers :: answers where
  "small_answers =
     \<lparr>an_oids = [0x02000001, 0x04000001], an_hdr = (\<lambda>_. oid_hdr_zero),
      an_thermal = (\<lambda>_. (0, (data_ti sensor_info_zero)\<lparr>ti_status := 1, ti_mcelsius := 30500\<rparr>)),
      an_fan = (\<lambda>_. (-1, data_fi sensor_info_zero)), an_psu = (\<lambda>_. (-1, data_pi sensor_info_zero))\<rparr>"

definition small_api :: "unit onlp_api" where
  "small_api =
     \<lparr>ap_hdr = (\<lambda>oid s. Some (an_hdr small_answers oid, s)), ap_iterate = (\<lambda>cb. run_cb cb (an_oids small_answers)),
      ap_thermal = (\<lambda>oid _ s. Some (an_thermal small_answers oid, s)), ap_fan = (\<lambda>oid _ s. Some (an_fan small_answers oid, s)),
      ap_psu = (\<lambda>oid _ s. Some (an_psu small_answers oid, s)), ap_monotonic = (\<lambda>_. 60000000)\<rparr>"

lemma small_api_hyps: "only_calls_back small_api" "steady small_api () small_answers" "update_due small_api ((), init_all_tables)"
proof -
  show "only_calls_back small_api"
    unfolding only_calls_back_def small_api_def onlp_api.simps by (intro allI impI) (rule run_cb_keeps)
  show "steady small_api () small_answers" by (simp add: steady_def small_api_def)
  show "update_due small_api ((), init_all_tables)" by (simp add: update_due_def small_api_def init_all_tables_def)
qed

theorem snmp_no_dangling_rows_witness:
  "\<exists>st. snmp_reach small_api (Idle, (), st) \<and> restructure_trigger st \<and> table_handler st ST_PSU 3 1 \<noteq> None \<and> restructure_tables st \<noteq> None"
proof -
  have r0: "snmp_reach small_api (Idle, (), init_all_tables)" by (rule snmp_reach.init)
  then have "snmp_inv Idle init_all_tables" using snmp_reach_inv [OF small_api_hyps(1)] by fastforce
  from update_steady [OF small_api_hyps(1,2) this small_api_hyps(3)] obtain st where
    st: "update_tables small_api ((), init_all_tables) = Some ((), st)" "restructure_trigger st" by blast
  from update_tables_steps [OF st(1) r0] have r: "snmp_reach small_api (Idle, (), st)" .
  have "3 < length (handler_fns ST_PSU)" by (simp add: handler_fns_lengths)
  with snmp_no_dangling_rows [OF small_api_hyps(1) r, of ST_PSU 3 1] r st(2) show ?thesis by blast
qed

theorem snmp_update_invisible_witness:
  "table_handler (mark_next_invalid (init_all_tables\<lparr>last_sensor_update_time := 60000000\<rparr>)) ST_TEMP 3 1 =
   table_handler init_all_tables ST_TEMP 3 1"
proof -
  have "snmp_step small_api (Idle, (), init_all_tables)
      (Marked, (), mark_next_invalid (init_all_tables\<lparr>last_sensor_update_time := ap_monotonic small_api ()\<rparr>))"
    by (rule snmp_step.start [OF small_api_hyps(3)])
  then have "snmp_step small_api (Idle, (), init_all_tables)
      (Marked, (), mark_next_invalid (init_all_tables\<lparr>last_sensor_update_time := 60000000\<rparr>))"
    by (simp add: small_api_def)
  from snmp_update_invisible [OF small_api_hyps(1) snmp_reach.init this] show ?thesis by simp
qed


section \<open>The load of the processor\<close>

text \<open>The threads sleep at most one period.\<close>

lemma us_to_next_update_bound: "us_to_next_update 5 now last_time \<le> 5000000"
proof -
  have "ucast (if p - d < p then p - d else p) \<le> (5000000 :: u32)" if "p = 5000000" for p d :: u64
  proof -
    have "(if p - d < p then p - d else p) \<le> 5000000" using that by (simp add: less_imp_le)
    then have "unat (if p - d < p then p - d else p) \<le> 5000000" by (simp add: word_le_nat_alt)
    then show ?thesis by (simp add: word_le_nat_alt unsigned_ucast_eq take_bit_nat_eq_self)
  qed
  then show ?thesis by (simp add: us_to_next_update_def Let_def)
qed

definition resources_ok :: "resource_state \<Rightarrow> bool" where
  "resources_ok st \<longleftrightarrow> curr_resource st < 2 \<and>
     (let r = get_curr_resources st in
      r = \<lparr>utilization_percent = 0, idle_percent = 0\<rparr> \<or> utilization_percent r + idle_percent r = 10000)"

lemma resource_update_keeps: "resources_ok st \<Longrightarrow> resources_ok (resource_update now lines st)"
proof -
  have line: "resources_ok st \<Longrightarrow> resources_ok (resource_line x st)" for x st
    by (simp add: resource_line_def resources_ok_def get_curr_resources_def next_resource_def split: option.splits)
  have "resources_ok st \<Longrightarrow> resources_ok (fold resource_line ls st)" for ls st
    by (induction ls arbitrary: st) (use line in auto)
  moreover assume "resources_ok st"
  then have "resources_ok (st\<lparr>last_resource_update_time := now\<rparr>)"
    by (simp add: resources_ok_def get_curr_resources_def)
  ultimately show ?thesis
    using \<open>resources_ok st\<close> by (simp add: resource_update_def Let_def split: option.splits)
qed

end
