(* ===== verification/Onlpie.thy ===== *)
theory Onlpie
  imports OidTree Sfp
begin

text \<open>
  \<open>onlpie\<close>, the example platform: drivers whose answers are tables, and ONIE data whose length is filled
  in on the first call. What it does not define is the weak default. The state is the array of the ONIE
  data, \<open>None\<close> after a read outside a table.
\<close>

section \<open>The tables\<close>

definition onlpie_finfo_zero :: fan_info where
  "onlpie_finfo_zero =
     \<lparr>fi_hdr = oid_hdr_zero, fi_status = 0, fi_caps = 0, fi_rpm = 0, fi_percentage = 0, fi_mode = 0, fi_model = '''', fi_serial = ''''\<rparr>"

definition onlpie_finfo :: "fan_info list" where
  "onlpie_finfo =
     [onlpie_finfo_zero,
      onlpie_finfo_zero\<lparr>fi_hdr := hdr_of FAN 1 ''Chassis Fan 1'', fi_status := 1, fi_caps := ONLP_FAN_CAPS_B2F, fi_rpm := 9000,
        fi_percentage := 100, fi_mode := 4, fi_model := ''FAN1Model'', fi_serial := ''FAN1SerialNumber''\<rparr>,
      onlpie_finfo_zero\<lparr>fi_hdr := hdr_of FAN 2 ''Chassis Fan 2'', fi_status := 0\<rparr>,
      onlpie_finfo_zero\<lparr>fi_hdr := hdr_of FAN 3 ''PSU-1 Fan 1'', fi_status := 1, fi_caps := ONLP_FAN_CAPS_B2F, fi_rpm := 5004,
        fi_percentage := 50, fi_mode := 2\<rparr>,
      onlpie_finfo_zero\<lparr>fi_hdr := hdr_of FAN 3 ''PSU-1 Fan 2'', fi_status := 1, fi_caps := ONLP_FAN_CAPS_B2F, fi_rpm := 5020,
        fi_percentage := 50, fi_mode := 2\<rparr>]"

definition onlpie_pinfo_zero :: psu_info where
  "onlpie_pinfo_zero =
     \<lparr>pi_hdr = oid_hdr_zero, pi_model = '''', pi_serial = '''', pi_status = 0, pi_caps = 0, pi_mvin = 0, pi_mvout = 0,
      pi_miin = 0, pi_miout = 0, pi_mpin = 0, pi_mpout = 0\<rparr>"

definition onlpie_pinfo :: "psu_info list" where
  "onlpie_pinfo =
     [onlpie_pinfo_zero,
      onlpie_pinfo_zero\<lparr>pi_hdr := (hdr_of PSU 1 ''PSU-1'')\<lparr>oid_coids :=
          [ONLP_OID_TYPE_CREATE (ONLP_OID_TYPE FAN) 3, ONLP_OID_TYPE_CREATE (ONLP_OID_TYPE FAN) 4] @ replicate (ONLP_OID_TABLE_SIZE - 2) 0\<rparr>,
        pi_model := ''ONLPIE PSU MODEL (AC)'', pi_serial := ''ONLPIE PSU SN'', pi_status := 1,
        pi_caps := ONLP_PSU_CAPS_AC OR ONLP_PSU_CAPS_VIN OR ONLP_PSU_CAPS_VOUT OR ONLP_PSU_CAPS_IIN,
        pi_mvin := 241100, pi_mvout := 122200, pi_miin := 23300, pi_miout := 3440, pi_mpin := 0, pi_mpout := 0\<rparr>,
      onlpie_pinfo_zero\<lparr>pi_hdr := hdr_of PSU 2 ''PSU-2''\<rparr>,
      onlpie_pinfo_zero\<lparr>pi_hdr := hdr_of PSU 3 ''PSU-3'', pi_model := ''ONLPIE PSU MODEL (DC)'', pi_serial := ''ONLPIE PSU SN'',
        pi_status := 1, pi_caps := ONLP_PSU_CAPS_DC48, pi_mvin := 48100, pi_mvout := 12200, pi_miin := 2300\<rparr>]"

definition onlpie_linfo_zero :: led_info where
  "onlpie_linfo_zero = \<lparr>li_hdr = oid_hdr_zero, li_status = 0, li_caps = 0, li_mode = 0, li_character = CHR 0x00\<rparr>"

definition onlpie_linfo :: "led_info list" where
  "onlpie_linfo =
     [onlpie_linfo_zero,
      onlpie_linfo_zero\<lparr>li_hdr := hdr_of LED 1 ''Chassis LED 1'', li_status := 1,
        li_caps := ONLP_LED_CAPS_ON_OFF OR 2 ^ 10 OR 2 ^ 11, li_mode := 10\<rparr>,
      onlpie_linfo_zero\<lparr>li_hdr := hdr_of LED 2 ''Chassis LED 2'', li_status := 0\<rparr>]"

definition onlpie_thermal_zero :: thermal_info where
  "onlpie_thermal_zero =
     \<lparr>ti_hdr = oid_hdr_zero, ti_status = 0, ti_caps = 0, ti_mcelsius = 0, ti_warning = 0, ti_error = 0, ti_shutdown = 0\<rparr>"

definition onlpie_thermal_info :: "thermal_info list" where
  "onlpie_thermal_info =
     [onlpie_thermal_zero,
      \<lparr>ti_hdr = hdr_of THERMAL 1 ''Chassis Thermal Sensor 1'', ti_status = 1, ti_caps = 0xF, ti_mcelsius = 23100,
       ti_warning = 35000, ti_error = 50000, ti_shutdown = 60000\<rparr>,
      onlpie_thermal_zero\<lparr>ti_hdr := hdr_of THERMAL 2 ''Chassis Thermal Sensor 2''\<rparr>]"

section \<open>The drivers\<close>

text \<open>\<open>*info = table[ONLP_OID_ID_GET(id)]\<close>.\<close>

definition onlpie_get :: "'a list \<Rightarrow> onlp_oid_t \<Rightarrow> 'a \<Rightarrow> u8 list \<Rightarrow> (int \<times> 'a \<times> u8 list) option" where
  "onlpie_get table oid info w = do { e \<leftarrow> rd table (unat (ONLP_OID_ID_GET oid)); Some (ONLP_STATUS_OK, e, w) }"

definition onlpie_fani :: "u8 list option fani" where
  "onlpie_fani = default_fani
     \<lparr> onlp_fani_init := (\<lambda>w. (ONLP_STATUS_OK, w)),
       onlp_fani_info_get := (\<lambda>oid. guarded (onlpie_get onlpie_finfo oid)) \<rparr>"

definition onlpie_psui :: "u8 list option psui" where
  "onlpie_psui = default_psui
     \<lparr> onlp_psui_init := (\<lambda>w. (ONLP_STATUS_OK, w)),
       onlp_psui_info_get := (\<lambda>oid. guarded (onlpie_get onlpie_pinfo oid)) \<rparr>"

definition onlpie_ledi :: "u8 list option ledi" where
  "onlpie_ledi = default_ledi
     \<lparr> onlp_ledi_init := (\<lambda>w. (ONLP_STATUS_OK, w)),
       onlp_ledi_info_get := (\<lambda>oid. guarded (onlpie_get onlpie_linfo oid)) \<rparr>"

definition onlpie_thermali :: "u8 list option thermali" where
  "onlpie_thermali = default_thermali
     \<lparr> onlp_thermali_init := (\<lambda>w. (ONLP_STATUS_OK, w)),
       onlp_thermali_info_get := (\<lambda>oid. guarded (onlpie_get onlpie_thermal_info oid)) \<rparr>"

definition onie_data :: "u8 list" where
  "onie_data =
     [0x54, 0x6C, 0x76, 0x49, 0x6E, 0x66, 0x6F, 0,
      0x1, 0x0, 0x0,
      0x21, 0x8, 0x4F, 0x4E, 0x4C, 0x50, 0x49, 0x45, 0, 0,
      0x22, 0x3, 0x4F, 0x4E, 0x4C,
      0xFE, 0x4, 0x4b, 0x1b, 0x1d, 0xde]"

definition onlpie_onie_data_get :: "u8 list \<Rightarrow> int \<times> u8 list option \<times> u8 list" where
  "onlpie_onie_data_get w =
     (let w = (if w ! 9 = 0 \<and> w ! 10 = 0 then
                 (let len = length w - 11 in w[9 := word_of_nat (len div 256), 10 := word_of_nat len])
               else w) in
      (0, Some w, w))"

definition onlpie_oids_get :: "onlp_oid_t list \<Rightarrow> nat \<Rightarrow> u8 list option \<Rightarrow> int \<times> onlp_oid_t list \<times> u8 list option" where
  "onlpie_oids_get table mx w =
     (let oids = [ONLP_OID_TYPE_CREATE (ONLP_OID_TYPE THERMAL) 1, ONLP_OID_TYPE_CREATE (ONLP_OID_TYPE THERMAL) 2,
                  ONLP_OID_TYPE_CREATE (ONLP_OID_TYPE PSU) 1, ONLP_OID_TYPE_CREATE (ONLP_OID_TYPE PSU) 2,
                  ONLP_OID_TYPE_CREATE (ONLP_OID_TYPE PSU) 3,
                  ONLP_OID_TYPE_CREATE (ONLP_OID_TYPE FAN) 1, ONLP_OID_TYPE_CREATE (ONLP_OID_TYPE FAN) 2,
                  ONLP_OID_TYPE_CREATE (ONLP_OID_TYPE LED) 1, ONLP_OID_TYPE_CREATE (ONLP_OID_TYPE LED) 2] in
      if mx < length oids \<or> length table < mx then (0, table, None)
      else (0, oids @ replicate (mx - length oids) 0 @ drop mx table, w))"

definition onlpie_sysi :: "u8 list option sysi" where
  "onlpie_sysi = default_sysi
     \<lparr> onlp_sysi_platform_get := Some ''onlp-example-platform-driver'',
       onlp_sysi_platform_set := (\<lambda>_ w. (ONLP_STATUS_OK, w)),
       onlp_sysi_init := (\<lambda>w. (ONLP_STATUS_OK, w)),
       onlp_sysi_onie_data_phys_addr_get := (\<lambda>w. (ONLP_STATUS_E_UNSUPPORTED, 0, w)),
       onlp_sysi_onie_data_get := (\<lambda>w.
         case w of None \<Rightarrow> (ONLP_STATUS_E_INTERNAL, None, None)
         | Some w \<Rightarrow> (let (rv, data, w) = onlpie_onie_data_get w in (rv, data, Some w))),
       onlp_sysi_onie_data_free := (\<lambda>_ w. w),
       onlp_sysi_oids_get := onlpie_oids_get \<rparr>"

text \<open>Four ports, of which two hold a module; what the module says is not filled in.\<close>

definition onlpie_sfpi :: "'b bitmap_ops \<Rightarrow> ('b, 'i, 'w) sfpi" where
  "onlpie_sfpi B = default_sfpi
     \<lparr> onlp_sfpi_init := (\<lambda>w. (ONLP_STATUS_OK, w)),
       onlp_sfpi_bitmap_get := (\<lambda>b w. (ONLP_STATUS_OK, bm_set B (bm_set B (bm_set B (bm_set B b 17) 18) 19) 20, w)),
       onlp_sfpi_is_present := (\<lambda>port w. (if port = 17 \<or> port = 19 then 1 else 0, w)),
       onlp_sfpi_presence_bitmap_get := (\<lambda>b w. (ONLP_STATUS_OK, bm_set B (bm_set B (bm_clr_all B b) 17) 19, w)),
       onlp_sfpi_rx_los_bitmap_get := (\<lambda>b w. (ONLP_STATUS_OK, bm_set B (bm_clr_all B b) 19, w)),
       onlp_sfpi_eeprom_read := (\<lambda>port data w.
         (if port = 17 \<or> port = 19 then ONLP_STATUS_OK else ONLP_STATUS_E_MISSING, data, w)),
       onlp_sfpi_denit := (\<lambda>w. (ONLP_STATUS_OK, w)) \<rparr>"

definition onlpie_platform ::
  "(onie_vx \<Rightarrow> onie_vx list \<Rightarrow> onie_vx list) \<Rightarrow> cjson \<Rightarrow> u8 list option junk \<Rightarrow> u8 list option platform" where
  "onlpie_platform push C J =
     \<lparr> fan_drv = onlpie_fani, psu_drv = onlpie_psui, thermal_drv = onlpie_thermali, led_drv = onlpie_ledi,
       sys_drv = onlpie_sysi, list_push = push, config = C, uninit = J \<rparr>"

lemmas onlpie_drivers [drv_simps] =
  onlpie_platform_def onlpie_fani_def onlpie_psui_def onlpie_thermali_def onlpie_ledi_def onlpie_sysi_def

end
