(* ===== verification/OnlpieProps.thy ===== *)
theory OnlpieProps
  imports Onlpie Snmp As4564System
begin

text \<open>
  The example platform under ONLP and under the SNMP agent: its ONIE data is a TlvInfo image that
  decodes, and ONLP finds all its objects.
\<close>

section \<open>The ONIE data\<close>

definition onlpie_tlvs :: "tlv list" where
  "onlpie_tlvs = [(0x21, [0x4F, 0x4E, 0x4C, 0x50, 0x49, 0x45, 0, 0]), (0x22, [0x4F, 0x4E, 0x4C])]"

lemma onlpie_image: "onlpie_onie_data_get onie_data = (0, Some (onie_image onlpie_tlvs), onie_image onlpie_tlvs)"
proof -
  have "onie_image onlpie_tlvs = onie_data[9 := 0, 10 := 21]" by code_simp
  then show ?thesis by (simp add: onlpie_onie_data_get_def onie_data_def Let_def)
qed

lemma onlpie_onie_info:
  "\<exists>info. sys_onie_info (onlpie_platform push C J) (Some onie_data) = Some (info, Some (onie_image onlpie_tlvs)) \<and>
     product_name info = Some [0x4F, 0x4E, 0x4C, 0x50, 0x49, 0x45, 0, 0, 0] \<and>
     part_number info = Some [0x4F, 0x4E, 0x4C, 0] \<and> serial_number info = None"
proof -
  have "list_all wf_tlv onlpie_tlvs" "length (body_bytes onlpie_tlvs) + 6 \<le> TLV_TOTAL_LEN_MAX"
    by (simp_all add: onlpie_tlvs_def is_valid_tlv_def body_bytes_def)
  from decode_of_image [OF this, of "-1" push onie_zero "[]"] show ?thesis
    by (simp add: sys_onie_info_def onie_data_get_def onlpie_drivers onlpie_image default_sysi_def
      onie_spec_def onlpie_tlvs_def crc_tlv_def tlv_str_def last_tlv_def)
qed

section \<open>The objects\<close>

lemma onlpie_classes:
  "oid_class 0x2000001 = Some THERMAL" "oid_class 0x2000002 = Some THERMAL" "oid_class 0x4000001 = Some PSU"
  "oid_class 0x4000002 = Some PSU" "oid_class 0x4000003 = Some PSU" "oid_class 0x3000001 = Some FAN"
  "oid_class 0x3000002 = Some FAN" "oid_class 0x3000003 = Some FAN" "oid_class 0x3000004 = Some FAN"
  "oid_class 0x5000001 = Some LED" "oid_class 0x5000002 = Some LED"
  by (simp_all add: oid_class_def ONLP_OID_TYPE_GET_def)

lemma onlpie_ids:
  "ONLP_OID_ID_GET 0x2000001 = 1" "ONLP_OID_ID_GET 0x2000002 = 2" "ONLP_OID_ID_GET 0x4000001 = 1" "ONLP_OID_ID_GET 0x4000002 = 2"
  "ONLP_OID_ID_GET 0x4000003 = 3" "ONLP_OID_ID_GET 0x3000001 = 1" "ONLP_OID_ID_GET 0x3000002 = 2" "ONLP_OID_ID_GET 0x3000003 = 3"
  "ONLP_OID_ID_GET 0x3000004 = 4" "ONLP_OID_ID_GET 0x5000001 = 1" "ONLP_OID_ID_GET 0x5000002 = 2"
  by (simp_all add: ONLP_OID_ID_GET_def)

abbreviation ready :: "shlock option \<times> 'w option \<Rightarrow> bool" where
  "ready \<equiv> reads_as (\<lambda>_. Map.empty) Map.empty"

text \<open>The header call of an object, and the children it reports.\<close>

definition kids_of :: "'w option platform \<Rightarrow> nat \<Rightarrow> onlp_oid_t \<Rightarrow> onlp_oid_t list \<Rightarrow> bool" where
  "kids_of P me oid kids \<longleftrightarrow> (\<forall>h s. ready s \<longrightarrow> (\<exists>h' s'. onlp_oid_hdr_get (shared_alock me) P oid h s = Some ((0, h'), s') \<and> ready s' \<and>
     ONLP_OID_TABLE_ITER (oid_coids h') = kids))"

lemma kids_ofI:
  fixes P :: "'w option platform"
  assumes "\<And>h s. onlp_oid_hdr_get (shared_alock me) P oid h s = locked_api (shared_alock me) api (total2 (f h)) s"
    and "\<And>h w. \<exists>h' w'. f h (Some w) = (0, h', Some w') \<and> ONLP_OID_TABLE_ITER (oid_coids h') = kids"
  shows "kids_of P me oid kids"
  unfolding kids_of_def
proof (intro allI impI)
  fix h and s :: "shlock option \<times> 'w option" assume s: "ready s"
  have "\<exists>h' s'. locked_api (shared_alock me) api (total2 (f h)) s = Some ((0, h'), s') \<and> ready s' \<and>
      ONLP_OID_TABLE_ITER (oid_coids h') = kids"
    by (rule locked_reports [OF s]) (use assms(2) in simp)
  then show "\<exists>h' s'. onlp_oid_hdr_get (shared_alock me) P oid h s = Some ((0, h'), s') \<and> ready s' \<and>
      ONLP_OID_TABLE_ITER (oid_coids h') = kids"
    by (simp add: assms(1))
qed

lemma kids_thermal:
  assumes "oid_class oid = Some THERMAL" "rd onlpie_thermal_info (unat (ONLP_OID_ID_GET oid)) = Some e"
  shows "kids_of (onlpie_platform push C J) me oid (ONLP_OID_TABLE_ITER (oid_coids (ti_hdr e)))"
  by (rule kids_ofI [where f = "\<lambda>h. onlp_thermal_hdr_get_locked (onlpie_platform push C J) oid h" and api = "''onlp_thermal_hdr_get''"])
    (simp_all add: onlp_oid_hdr_get_def assms onlp_thermal_hdr_get_def onlp_thermal_hdr_get_locked_def drv_simps guarded_def onlpie_get_def)

lemma kids_fan:
  assumes "oid_class oid = Some FAN" "rd onlpie_finfo (unat (ONLP_OID_ID_GET oid)) = Some e"
  shows "kids_of (onlpie_platform push C J) me oid (ONLP_OID_TABLE_ITER (oid_coids (fi_hdr e)))"
  by (rule kids_ofI [where f = "\<lambda>h. onlp_fan_hdr_get_locked (onlpie_platform push C J) oid h" and api = "''onlp_fan_hdr_get''"])
    (simp_all add: onlp_oid_hdr_get_def assms onlp_fan_hdr_get_def onlp_fan_hdr_get_locked_def drv_simps guarded_def onlpie_get_def)

lemma kids_psu:
  assumes "oid_class oid = Some PSU" "rd onlpie_pinfo (unat (ONLP_OID_ID_GET oid)) = Some e"
  shows "kids_of (onlpie_platform push C J) me oid (ONLP_OID_TABLE_ITER (oid_coids (pi_hdr e)))"
  by (rule kids_ofI [where f = "\<lambda>h. onlp_psu_hdr_get_locked (onlpie_platform push C J) oid h" and api = "''onlp_psu_hdr_get''"])
    (simp_all add: onlp_oid_hdr_get_def assms onlp_psu_hdr_get_def onlp_psu_hdr_get_locked_def drv_simps guarded_def onlpie_get_def)

lemma kids_led:
  assumes "oid_class oid = Some LED" "rd onlpie_linfo (unat (ONLP_OID_ID_GET oid)) = Some e"
  shows "kids_of (onlpie_platform push C J) me oid (ONLP_OID_TABLE_ITER (oid_coids (li_hdr e)))"
  by (rule kids_ofI [where f = "\<lambda>h. onlp_led_hdr_get_locked (onlpie_platform push C J) oid h" and api = "''onlp_led_hdr_get''"])
    (simp_all add: onlp_oid_hdr_get_def assms onlp_led_hdr_get_def onlp_led_hdr_get_locked_def drv_simps guarded_def onlpie_get_def)

definition onlpie_tree :: oid_tree where
  "onlpie_tree = Node ONLP_OID_SYS
     [Node 0x2000001 [], Node 0x2000002 [], Node 0x4000001 [Node 0x3000003 [], Node 0x3000004 []], Node 0x4000002 [],
      Node 0x4000003 [], Node 0x3000001 [], Node 0x3000002 [], Node 0x5000001 [], Node 0x5000002 []]"

lemma kids_sys: "kids_of (onlpie_platform push C J) me 0x1000001 (map root (subs onlpie_tree))"
proof -
  have "onlpie_oids_get (replicate 128 0) 128 w = (0, map root (subs onlpie_tree) @ replicate 119 0, w)" for w
    by (simp add: onlpie_oids_get_def onlpie_tree_def oid_simps ONLP_OID_TYPE_CREATE_def)
  moreover have "ONLP_OID_TABLE_ITER (map root (subs onlpie_tree) @ replicate 119 0) = map root (subs onlpie_tree)"
    by (simp add: onlpie_tree_def ONLP_OID_TABLE_ITER_def filter_replicate)
  ultimately show ?thesis
    by (intro kids_ofI [where f = "onlp_sys_hdr_get_locked (onlpie_platform push C J)" and api = "''onlp_sys_hdr_get''"])
      (simp_all add: onlp_oid_hdr_get_def oid_simps onlp_sys_hdr_get_def onlp_sys_hdr_get_locked_def drv_simps oid_hdr_zero_def)
qed

lemma rd_Cons: "rd (x # xs) (Suc i) = rd xs i" "rd (x # xs) 0 = Some x" "rd [] i = None"
  by (simp_all add: rd_def)

lemma onlpie_tables:
  "rd onlpie_thermal_info 1 \<noteq> None" "rd onlpie_thermal_info 2 \<noteq> None"
  "i \<in> {1, 2} \<Longrightarrow> rd onlpie_thermal_info i = Some e1 \<Longrightarrow> oid_coids (ti_hdr e1) = replicate 128 0"
  "i \<in> {1, 2, 3, 4} \<Longrightarrow> rd onlpie_finfo i = Some e2 \<Longrightarrow> oid_coids (fi_hdr e2) = replicate 128 0"
  "i \<in> {2, 3} \<Longrightarrow> rd onlpie_pinfo i = Some e3 \<Longrightarrow> oid_coids (pi_hdr e3) = replicate 128 0"
  "i \<in> {1, 2} \<Longrightarrow> rd onlpie_linfo i = Some e4 \<Longrightarrow> oid_coids (li_hdr e4) = replicate 128 0"
  by (auto simp: onlpie_thermal_info_def onlpie_thermal_zero_def onlpie_finfo_def onlpie_finfo_zero_def onlpie_pinfo_def
      onlpie_pinfo_zero_def onlpie_linfo_def onlpie_linfo_zero_def rd_def nth_Cons numeral_eq_Suc)

lemma reports_Node:
  "kids_of P me oid (map root ts) \<Longrightarrow> oid \<noteq> 0 \<Longrightarrow> list_all (reports ready (onlp_oid_hdr_get (shared_alock me) P)) ts \<Longrightarrow>
   reports ready (onlp_oid_hdr_get (shared_alock me) P) (Node oid ts)"
  by (simp add: kids_of_def)

lemma onlpie_leaves:
  assumes "oid \<in> {0x2000001, 0x2000002, 0x4000002, 0x4000003, 0x3000001, 0x3000002, 0x3000003, 0x3000004, 0x5000001, 0x5000002}"
  shows "kids_of (onlpie_platform push C J) me oid []"
proof -
  let ?P = "onlpie_platform push C J"
  have z: "ONLP_OID_TABLE_ITER (replicate 128 0) = []" by simp
  have l: "length onlpie_thermal_info = 3" "length onlpie_finfo = 5" "length onlpie_pinfo = 4" "length onlpie_linfo = 3"
    by (simp_all add: onlpie_thermal_info_def onlpie_finfo_def onlpie_pinfo_def onlpie_linfo_def)
  have t: "kids_of ?P me oid []" if "oid_class oid = Some THERMAL" "unat (ONLP_OID_ID_GET oid) \<in> {1, 2}" for oid
    using kids_thermal [OF that(1), of _ push C J me] onlpie_tables(3) [OF that(2)] l that(2) z by (auto simp: rd_def)
  have f: "kids_of ?P me oid []" if "oid_class oid = Some FAN" "unat (ONLP_OID_ID_GET oid) \<in> {1, 2, 3, 4}" for oid
    using kids_fan [OF that(1), of _ push C J me] onlpie_tables(4) [OF that(2)] l that(2) z by (auto simp: rd_def)
  have p: "kids_of ?P me oid []" if "oid_class oid = Some PSU" "unat (ONLP_OID_ID_GET oid) \<in> {2, 3}" for oid
    using kids_psu [OF that(1), of _ push C J me] onlpie_tables(5) [OF that(2)] l that(2) z by (auto simp: rd_def)
  have d: "kids_of ?P me oid []" if "oid_class oid = Some LED" "unat (ONLP_OID_ID_GET oid) \<in> {1, 2}" for oid
    using kids_led [OF that(1), of _ push C J me] onlpie_tables(6) [OF that(2)] l that(2) z by (auto simp: rd_def)
  from assms show ?thesis
    by (elim insertE emptyE) (simp_all add: t f p d onlpie_classes onlpie_ids)
qed

lemma onlpie_psu1: "kids_of (onlpie_platform push C J) me 0x4000001 [0x3000003, 0x3000004]"
proof -
  have e: "rd onlpie_pinfo 1 = Some (onlpie_pinfo ! 1)" by (simp add: rd_def onlpie_pinfo_def)
  have "ONLP_OID_TABLE_ITER (oid_coids (pi_hdr (onlpie_pinfo ! 1))) = [0x3000003, 0x3000004]"
    by (simp add: onlpie_pinfo_def onlpie_pinfo_zero_def hdr_of_def oid_simps ONLP_OID_TYPE_CREATE_def ONLP_OID_TABLE_ITER_def filter_replicate)
  with kids_psu [OF onlpie_classes(3), of "onlpie_pinfo ! 1" push C J me] e show ?thesis by (simp add: onlpie_ids)
qed

lemma onlpie_reports: "reports ready (onlp_oid_hdr_get (shared_alock me) (onlpie_platform push C J)) onlpie_tree"
proof -
  let ?r = "reports ready (onlp_oid_hdr_get (shared_alock me) (onlpie_platform push C J))"
  have leaf: "?r (Node oid [])"
    if "oid \<in> {0x2000001, 0x2000002, 0x4000002, 0x4000003, 0x3000001, 0x3000002, 0x3000003, 0x3000004, 0x5000001, 0x5000002}" for oid
    using onlpie_leaves [OF that, of push C J me] that by (intro reports_Node) auto
  have psu: "?r (Node 0x4000001 [Node 0x3000003 [], Node 0x3000004 []])"
    using onlpie_psu1 leaf by (intro reports_Node) simp_all
  show ?thesis
    using kids_sys [of push C J me] psu leaf unfolding onlpie_tree_def oid_simps
    by (intro reports_Node) simp_all
qed

text \<open>
  On the example platform the iteration over all OIDs runs the callback on the eleven objects in
  order, the fans of the first power supply right after it, until one of the calls fails.
\<close>

theorem onlpie_iterate:
  assumes "sh_free g" and "3 \<le> n"
  shows "\<exists>s'. onlp_oid_iterate n (shared_alock me) (onlpie_platform push C J) 0 itf ONLP_OID_SYS ((g, Some w), c) =
    (let r = run_callback itf [0x2000001, 0x2000002, 0x4000001, 0x3000003, 0x3000004, 0x4000002, 0x4000003,
                               0x3000001, 0x3000002, 0x5000001, 0x5000002] c in Some (fst r, s', snd r))"
proof -
  have "ready (g, Some w')" for w' :: "u8 list"
    using assms(1) by (simp add: reads_as_def)
  moreover have "height onlpie_tree \<le> n" using assms(2) by (simp add: onlpie_tree_def)
  moreover have "walk 0 onlpie_tree = [0x2000001, 0x2000002, 0x4000001, 0x3000003, 0x3000004, 0x4000002, 0x4000003,
      0x3000001, 0x3000002, 0x5000001, 0x5000002]" by (simp add: onlpie_tree_def)
  moreover have "root onlpie_tree = ONLP_OID_SYS" by (simp add: onlpie_tree_def)
  ultimately show ?thesis
    using onlp_oid_iterate_walk [OF onlpie_reports [of me push C J], of n "(g, Some w)" 0 itf c] by (auto simp: Let_def)
qed

theorem onlpie_iterate_witness:
  "\<forall>push C J. \<exists>s'. onlp_oid_iterate 3 (shared_alock 0) (onlpie_platform push C J) 0 (\<lambda>oid c. (0, c @ [oid])) ONLP_OID_SYS
     ((demo_lock, Some onie_data), []) = Some (0, s', [0x2000001, 0x2000002, 0x4000001, 0x3000003, 0x3000004, 0x4000002,
       0x4000003, 0x3000001, 0x3000002, 0x5000001, 0x5000002])"
proof (intro allI)
  fix push C J
  have "sh_free demo_lock" by (simp add: sh_free_def demo_lock_def)
  from onlpie_iterate [OF this, of 3 0 push C J "\<lambda>oid c. (0, c @ [oid])" onie_data "[]"]
  show "\<exists>s'. onlp_oid_iterate 3 (shared_alock 0) (onlpie_platform push C J) 0 (\<lambda>oid c. (0, c @ [oid])) ONLP_OID_SYS
     ((demo_lock, Some onie_data), []) = Some (0, s', [0x2000001, 0x2000002, 0x4000001, 0x3000003, 0x3000004, 0x4000002,
       0x4000003, 0x3000001, 0x3000002, 0x5000001, 0x5000002])"
    by (simp add: Let_def)
qed

text \<open>
  The ONIE data of the example platform is completed on the first call to an image with a right
  checksum; ONLP reads its two strings from it, and the SNMP agent registers them without their padding.
\<close>

theorem onlpie_onie:
  "\<exists>info. sys_onie_info (onlpie_platform push C J) (Some onie_data) = Some (info, Some (onie_image onlpie_tlvs)) \<and>
     ([1, 3, 6, 1, 4, 1, 42623, 1, 1, 1, 1, 1], ''product_name'', WatchedString (bytes_of ''ONLPIE'')) \<in> set (onlp_snmp_platform_init (0, info)) \<and>
     ([1, 3, 6, 1, 4, 1, 42623, 1, 1, 1, 1, 2], ''part_number'', WatchedString (bytes_of ''ONL'')) \<in> set (onlp_snmp_platform_init (0, info))"
proof -
  have "takeWhile (\<lambda>b. b \<noteq> 0) [0x4F, 0x4E, 0x4C, 0x50, 0x49, 0x45, 0, 0, 0] = bytes_of ''ONLPIE''"
    "takeWhile (\<lambda>b. b \<noteq> 0) [0x4F, 0x4E, 0x4C, 0] = bytes_of ''ONL''" by code_simp+
  then have r: "v = Some [0x4F, 0x4E, 0x4C, 0x50, 0x49, 0x45, 0, 0, 0] \<Longrightarrow>
      platform_string_register i d v = [([1, 3, 6, 1, 4, 1, 42623, 1, 1, 1, 1, i], d, WatchedString (bytes_of ''ONLPIE''))]"
    "v = Some [0x4F, 0x4E, 0x4C, 0] \<Longrightarrow>
      platform_string_register i d v = [([1, 3, 6, 1, 4, 1, 42623, 1, 1, 1, 1, i], d, WatchedString (bytes_of ''ONL''))]" for i d v
    unfolding platform_string_register_def by (simp_all add: Let_def bytes_of_def)
  obtain info where info: "sys_onie_info (onlpie_platform push C J) (Some onie_data) = Some (info, Some (onie_image onlpie_tlvs))"
    "product_name info = Some [0x4F, 0x4E, 0x4C, 0x50, 0x49, 0x45, 0, 0, 0]" "part_number info = Some [0x4F, 0x4E, 0x4C, 0]"
    using onlpie_onie_info [of push C J] by blast
  show ?thesis
    by (rule exI [of _ info]) (simp add: info(1) onlp_snmp_platform_init_def r(1) [OF info(2)] r(2) [OF info(3)])
qed

end
