(* ===== verification/OnlplibMisc.thy ===== *)
theory OnlplibMisc
  imports FileProps Platform Kernel
begin

text \<open>
  The small files of \<open>onlplib\<close> on top of \<open>file.c\<close> and the system calls: \<open>gpio.c\<close>, \<open>mmap.c\<close>, \<open>thermal.c\<close> and
  \<open>sfp.c\<close>. \<open>None\<close> is undefined behaviour: the length of the string \<open>NULL\<close>, or a number that runs past its
  buffer.
\<close>

section \<open>\<open>gpio.c\<close>\<close>

definition ONLP_GPIO_DIRECTION_NONE :: int where [simp]: "ONLP_GPIO_DIRECTION_NONE = 0"
definition ONLP_GPIO_DIRECTION_IN :: int where [simp]: "ONLP_GPIO_DIRECTION_IN = 1"
definition ONLP_GPIO_DIRECTION_OUT :: int where [simp]: "ONLP_GPIO_DIRECTION_OUT = 2"
definition ONLP_GPIO_DIRECTION_LOW :: int where [simp]: "ONLP_GPIO_DIRECTION_LOW = 3"
definition ONLP_GPIO_DIRECTION_HIGH :: int where [simp]: "ONLP_GPIO_DIRECTION_HIGH = 4"

definition SYS_CLASS_GPIO_PATH :: "int \<Rightarrow> string" where
  "SYS_CLASS_GPIO_PATH gpio = ''/sys/class/gpio/gpio'' @ dec_string gpio"

text \<open>The descriptor is closed in any case, also the one that is not there.\<close>

definition gpio_direction_string :: "int \<Rightarrow> u8 list option option" where
  "gpio_direction_string direction =
     (if direction = ONLP_GPIO_DIRECTION_NONE then Some None
      else if direction = ONLP_GPIO_DIRECTION_IN then Some (Some (bytes_of ''in'' @ [0x0A]))
      else if direction = ONLP_GPIO_DIRECTION_OUT then Some (Some (bytes_of ''out'' @ [0x0A]))
      else if direction = ONLP_GPIO_DIRECTION_LOW then Some (Some (bytes_of ''low'' @ [0x0A]))
      else if direction = ONLP_GPIO_DIRECTION_HIGH then Some (Some (bytes_of ''high'' @ [0x0A]))
      else None)"

definition onlp_gpio_export :: "'w fs \<Rightarrow> int \<Rightarrow> int \<Rightarrow> 'w \<Rightarrow> (int \<times> 'w) option" where
  "onlp_gpio_export F gpio direction w =
     do { (fd, w) \<leftarrow> onlp_file_open F O_RDONLY (SYS_CLASS_GPIO_PATH gpio) w;
          let (rv, w) = (if fd < 0 then onlp_file_write_str F (take 30 (print_d gpio)) ''/sys/class/gpio/export'' w else (0, w));
          if fd < 0 \<and> rv < 0 then Some (-1, w)
          else
            (let w = fs_close F fd w in
             case gpio_direction_string direction of
               None \<Rightarrow> Some (ONLP_STATUS_E_PARAM, w)
             | Some None \<Rightarrow> Some (0, w)
             | Some (Some s) \<Rightarrow>
                 (let (rv, w) = onlp_file_write_str F s (SYS_CLASS_GPIO_PATH gpio @ ''/direction'') w in
                  Some (if rv < 0 then -1 else 0, w))) }"

definition onlp_gpio_set :: "'w fs \<Rightarrow> int \<Rightarrow> int \<Rightarrow> 'w \<Rightarrow> int \<times> 'w" where
  "onlp_gpio_set F gpio v w =
     onlp_file_write F (if v \<noteq> 0 then [0x31, 0x0A] else [0x30, 0x0A]) (SYS_CLASS_GPIO_PATH gpio @ ''/value'') w"

definition onlp_gpio_get :: "'w fs \<Rightarrow> u8 list \<Rightarrow> int \<Rightarrow> int \<Rightarrow> 'w \<Rightarrow> (int \<times> int \<times> 'w) option" where
  "onlp_gpio_get F junk gpio v w = onlp_file_read_int F v junk (SYS_CLASS_GPIO_PATH gpio @ ''/value'') w"

section \<open>\<open>mmap.c\<close>\<close>

text \<open>The mapped length is an \<open>int\<close> made of unsigned numbers; \<open>None\<close> is \<open>NULL\<close>.\<close>

record 'w mm =
  mm_psize :: u32
  mm_open :: "'w \<Rightarrow> int \<times> 'w"
  mm_mmap :: "u64 \<Rightarrow> int \<Rightarrow> int \<Rightarrow> 'w \<Rightarrow> u64 option \<times> 'w"
  mm_close :: "int \<Rightarrow> 'w \<Rightarrow> 'w"

definition mmap_size :: "u32 \<Rightarrow> u32 \<Rightarrow> int" where
  "mmap_size psize sz = sint ((sz div psize + 1) * psize)"

definition onlp_mmap :: "'w mm \<Rightarrow> u64 \<Rightarrow> u32 \<Rightarrow> 'w \<Rightarrow> u64 option \<times> 'w" where
  "onlp_mmap M pa sz w =
     (let msize = mmap_size (mm_psize M) sz; (fd, w) = mm_open M w in
      if fd \<le> 0 then (None, w)
      else
        (let (memory, w) = mm_mmap M pa msize fd w in
         (memory, mm_close M fd w)))"

section \<open>\<open>thermal.c\<close>\<close>

definition onlplib_thermal_read_file :: "'w fs \<Rightarrow> u8 list \<Rightarrow> string \<Rightarrow> thermal_info \<Rightarrow> 'w \<Rightarrow> (int \<times> thermal_info \<times> 'w) option" where
  "onlplib_thermal_read_file F junk fname info w =
     do { (rv, v, w) \<leftarrow> onlp_file_read_int F (ti_mcelsius info) junk fname w;
          let info = info\<lparr>ti_mcelsius := v\<rparr>;
          Some (if rv = ONLP_STATUS_E_MISSING then (0, info\<lparr>ti_status := 0\<rparr>, w)
                else if rv \<ge> 0 then (0, info\<lparr>ti_status := ti_status info OR 1\<rparr>, w)
                else (ONLP_STATUS_E_INTERNAL, info, w)) }"

section \<open>\<open>sfp.c\<close>\<close>

text \<open>The file is opened directly; the buffer of 64 bytes was cleared before.\<close>

definition onlplib_sfp_is_present_file :: "'w fs \<Rightarrow> string \<Rightarrow> u8 list \<Rightarrow> u8 list \<Rightarrow> 'w \<Rightarrow> int \<times> 'w" where
  "onlplib_sfp_is_present_file F fname present notpresent w =
     (let (fd, w) = fs_open F fname O_RDONLY w in
      if fd < 0 then (ONLP_STATUS_E_MISSING, w)
      else
        (let (nrd, bytes, w) = fs_read F fd 63 w; w = fs_close F fd w; buf = takeWhile (\<lambda>b. b \<noteq> 0) bytes in
         if nrd \<le> 0 then (ONLP_STATUS_E_INTERNAL, w)
         else if buf = present then (1, w)
         else if buf = notpresent then (0, w)
         else (ONLP_STATUS_E_INTERNAL, w)))"

definition onlplib_sfp_eeprom_read_file :: "'w fs \<Rightarrow> string \<Rightarrow> u8 list \<Rightarrow> 'w \<Rightarrow> int \<times> u8 list \<times> 'w" where
  "onlplib_sfp_eeprom_read_file F fname data w =
     (let (fd, w) = fs_open F fname O_RDONLY w in
      if fd < 0 then (ONLP_STATUS_E_MISSING, data, w)
      else
        (let (nrd, bytes, w) = fs_read F fd 256 w; w = fs_close F fd w in
         (if nrd \<noteq> 256 then ONLP_STATUS_E_INTERNAL else ONLP_STATUS_OK, bytes @ drop (length bytes) data, w)))"

text \<open>The second write happens also without a second string, and then to the closed descriptor.\<close>

definition onlplib_sfp_reset_file ::
  "'w fs \<Rightarrow> (int \<Rightarrow> 'w \<Rightarrow> 'w) \<Rightarrow> string \<Rightarrow> u8 list \<Rightarrow> int \<Rightarrow> u8 list option \<Rightarrow> 'w \<Rightarrow> (int \<times> 'w) option" where
  "onlplib_sfp_reset_file F nanosleep fname fst_string delay_ms snd_string w =
     (let (fd, w) = fs_open F fname O_WRONLY w in
      if fd < 0 then Some (ONLP_STATUS_E_MISSING, w)
      else
        (let (nwr, w) = fs_write F fd fst_string w; w = fs_close F fd w in
         if nwr \<noteq> int (length fst_string) then Some (ONLP_STATUS_E_INTERNAL, w)
         else
           (case snd_string of
              None \<Rightarrow> None
            | Some s \<Rightarrow>
                (let w = nanosleep delay_ms w; (fd, w) = fs_open F fname O_WRONLY w in
                 if fd < 0 then Some (ONLP_STATUS_E_INTERNAL, w)
                 else
                   (let (nwr, w) = fs_write F fd s w; w = fs_close F fd w in
                    Some (if nwr \<noteq> int (length s) then ONLP_STATUS_E_INTERNAL else ONLP_STATUS_OK, w))))))"

section \<open>What they do on ordinary files\<close>

lemma dec_01: "dec_int 0 = [0x30]" "dec_int 1 = [0x31]"
  by (simp_all add: dec_int_def dec_nat.simps)

text \<open>A pin that is set reads as one or zero, also where its file held more than the two bytes.\<close>

lemma gpio_roundtrip:
  assumes laws: "file_laws F content" and p: "p = SYS_CLASS_GPIO_PATH gpio @ ''/value''"
    and old: "content w p = Some old" "plain_path p"
  shows "\<exists>w1 w2. onlp_gpio_set F gpio v w = (0, w1) \<and> onlp_gpio_get F junk gpio v0 w1 = Some (0, if v \<noteq> 0 then 1 else 0, w2)"
proof -
  define d :: "u8 list" where "d = (if v \<noteq> 0 then [0x31, 0x0A] else [0x30, 0x0A])"
  obtain w1 where w1: "onlp_file_vwrite F d p w = (0, w1)" "content w1 = (content w)(p \<mapsto> d @ drop (length d) old)"
    by (rule file_vwrite [OF laws old, of d])
  have "holds_number (d @ drop (length d) old) (if v \<noteq> 0 then 1 else 0)"
    by (cases "v = 0") (simp_all add: d_def holds_number_def dec_01 is_digit_def)
  moreover have "content w1 p = Some (d @ drop (length d) old)" using w1(2) by simp
  ultimately obtain w2 where "onlp_file_read_int F v0 junk p w1 = Some (0, if v \<noteq> 0 then 1 else 0, w2)"
    using file_read_number [OF laws _ old(2)] by metis
  with w1(1) have "onlp_gpio_set F gpio v w = (0, w1)"
    "onlp_gpio_get F junk gpio v0 w1 = Some (0, if v \<noteq> 0 then 1 else 0, w2)"
    unfolding onlp_gpio_set_def onlp_gpio_get_def onlp_file_write_def p d_def by (simp_all only:)
  then show ?thesis by (rule_tac exI, rule_tac exI) (rule conjI)
qed

text \<open>A temperature file that holds a number makes the sensor present.\<close>

lemma thermal_file_present:
  assumes "file_laws F content" and "content w fname = Some bs" and "plain_path fname" and "holds_number bs v"
  shows "\<exists>w'. onlplib_thermal_read_file F junk fname info w = Some (0, info\<lparr>ti_mcelsius := v, ti_status := ti_status info OR 1\<rparr>, w')"
proof -
  obtain w2 where "onlp_file_read_int F (ti_mcelsius info) junk fname w = Some (0, v, w2)"
    using file_read_number [OF assms] by blast
  then show ?thesis by (simp add: onlplib_thermal_read_file_def)
qed

lemma sint_small:
  fixes x :: u32
  assumes "unat x < 2 ^ 31"
  shows "sint x = int (unat x)"
proof -
  have u: "uint x = int (unat x)" by simp
  have "int (unat x) < int (2 ^ 31)" using assms by (simp only: of_nat_less_iff)
  also have "int (2 ^ 31) = 2 ^ 31" by simp
  finally have "uint x < 2 ^ 31" by (simp only: u)
  moreover have "- (2 ^ 31) \<le> uint x" by (rule order_trans [OF _ uint_ge_0]) simp
  ultimately have "sint x = uint x" by (simp add: sint_uint signed_take_bit_int_eq_self)
  then show ?thesis by (simp only: u)
qed

text \<open>The area that is mapped always holds the area asked for, up to two gigabytes.\<close>

lemma mmap_size_covers:
  assumes "0 < psize" and "unat sz + unat psize < 2 ^ 31"
  shows "uint sz < mmap_size psize sz"
proof -
  have u: "unat (sz div psize) = unat sz div unat psize" by (simp add: unat_div)
  have le: "(unat sz div unat psize + 1) * unat psize \<le> unat sz + unat psize"
    by simp
  then have lt: "(unat sz div unat psize + 1) * unat psize < 2 ^ 31" using assms(2) by linarith
  moreover have "unat (sz div psize + 1) = unat sz div unat psize + 1"
  proof -
    have "unat sz < 2147483648" using assms(2) by simp
    then have "unat sz div unat psize < 2147483648" using div_le_dividend [of "unat sz" "unat psize"] by linarith
    then have "unat sz div unat psize + 1 < 2 ^ 32" by simp
    then show ?thesis using u by (simp add: unat_plus_if')
  qed
  ultimately have n: "unat ((sz div psize + 1) * psize) = (unat sz div unat psize + 1) * unat psize"
    by (simp add: unat_mult_lem [THEN iffD1])
  then have "mmap_size psize sz = int ((unat sz div unat psize + 1) * unat psize)"
    using lt by (simp only: mmap_size_def sint_small)
  moreover have "0 < unat psize" using assms(1) by (simp add: word_less_nat_alt)
  then have "unat sz < (unat sz div unat psize + 1) * unat psize"
    using dividend_less_div_times [of "unat psize" "unat sz"] by simp
  then have "int (unat sz) < int ((unat sz div unat psize + 1) * unat psize)" by (simp only: of_nat_less_iff)
  moreover have "uint sz = int (unat sz)" by simp
  ultimately show ?thesis by (simp only:)
qed

end
