(* ===== verification/OomShim.thy ===== *)
theory OomShim
  imports SfpProps Kernel OidTree
begin

text \<open>
  \<open>oom_shim.c\<close>: the transceiver calls of ONLP behind the interface of the Open Optical Monitor
  (\<open>oom_south.h\<close>). \<open>None\<close> is undefined behaviour: an access past the end of the list of ports, of the
  256 bytes of a module or of the buffer of the caller.
\<close>

section \<open>The shim\<close>

definition OOM_PORT_CLASS_UNKNOWN :: int where [simp]: "OOM_PORT_CLASS_UNKNOWN = 0"
definition OOM_PORT_CLASS_SFF :: int where [simp]: "OOM_PORT_CLASS_SFF = 1"

record oom_port =
  handle :: u64
  oom_class :: int
  oom_name :: string

text \<open>The entry of one port; it is written before the module is looked at.\<close>

definition oom_entry :: "int \<Rightarrow> int \<Rightarrow> oom_port" where
  "oom_entry port rv =
     \<lparr>handle = word_of_int port + 1, oom_class = (if rv = 0 \<or> rv < 0 then OOM_PORT_CLASS_UNKNOWN else OOM_PORT_CLASS_SFF),
      oom_name = ''port'' @ dec_string (port + 1)\<rparr>"

fun portlist_loop ::
  "'l alock \<Rightarrow> 'b bitmap_ops \<Rightarrow> ('b, 'i, 'w) sfpi \<Rightarrow> int list \<Rightarrow> nat \<Rightarrow> oom_port list \<Rightarrow> 'l \<times> ('b, 'w) sfp_state \<Rightarrow>
     (oom_port list \<times> 'l \<times> ('b, 'w) sfp_state) option" where
  "portlist_loop L B S [] i portlist s = Some (portlist, s)"
| "portlist_loop L B S (port # ports) i portlist s =
     (if i < length portlist then
        do { (rv, s) \<leftarrow> onlp_sfp_is_present L B S port s;
             portlist_loop L B S ports (i + 1) (portlist[i := oom_entry port rv]) s }
      else None)"

definition oom_get_portlist ::
  "'l alock \<Rightarrow> 'b bitmap_ops \<Rightarrow> ('b, 'i, 'w) sfpi \<Rightarrow> oom_port list option \<Rightarrow> int \<Rightarrow> 'l \<times> ('b, 'w) sfp_state \<Rightarrow>
     ((int \<times> oom_port list option) \<times> 'l \<times> ('b, 'w) sfp_state) option" where
  "oom_get_portlist L B S portlist listsize s =
     do { ((_, bitmap), s) \<leftarrow> onlp_sfp_bitmap_get L B S (bm_init B) s;
          if portlist = None \<and> listsize = 0 then Some ((int (bm_count B bitmap), portlist), s)
          else
            do { (portlist, s) \<leftarrow> portlist_loop L B S (bm_iter B bitmap) 0 (case portlist of None \<Rightarrow> [] | Some pl \<Rightarrow> pl) s;
                 Some ((0, Some portlist), s) } }"

text \<open>A negative \<open>len\<close> is a huge \<open>size_t\<close>; the page is not looked at.\<close>

definition oom_get_memory_sff ::
  "'l alock \<Rightarrow> 'b bitmap_ops \<Rightarrow> ('b, 'i, 'w) sfpi \<Rightarrow> oom_port \<Rightarrow> int \<Rightarrow> int \<Rightarrow> int \<Rightarrow> int \<Rightarrow> u8 list \<Rightarrow> 'l \<times> ('b, 'w) sfp_state \<Rightarrow>
     ((int \<times> u8 list) \<times> 'l \<times> ('b, 'w) sfp_state) option" where
  "oom_get_memory_sff L B S port address page offset len data s =
     (let port_num = sint (ucast (handle port) - 1 :: u32) in
      if offset \<ge> 256 then Some ((-1, data), s)
      else if address \<noteq> 0xA0 \<and> address \<noteq> 0xA2 then Some ((- EINVAL, data), s)
      else
        do { ((rv, idprom), s) \<leftarrow>
               (if address = 0xA0 then onlp_sfp_eeprom_read L B S port_num None s else onlp_sfp_dom_read L B S port_num None s);
             if rv < 0 then Some ((-1, data), s)
             else
               (case idprom of
                  None \<Rightarrow> None
                | Some bytes \<Rightarrow>
                    if 0 \<le> offset \<and> 0 \<le> len \<and> offset + len \<le> int (length bytes) \<and> len \<le> int (length data)
                    then Some ((0, take (nat len) (drop (nat offset) bytes) @ drop (nat len) data), s)
                    else None) })"

text \<open>The rest is not implemented.\<close>

definition oom_not_implemented :: "'a \<Rightarrow> int \<times> 'a" where
  "oom_not_implemented data = (-1, data)"

section \<open>The list of ports\<close>

text \<open>Only free locks, and a driver that does not change while it is asked.\<close>

lemma present_locked:
  assumes S: "static_presence S pres pmap" and b: "bm_get B (sfpi_bitmap (snd s)) p" and g: "sh_free (fst s)"
  shows "\<exists>s'. onlp_sfp_is_present (shared_alock me) B S p s = Some (seen pres pmap p, s') \<and> sh_free (fst s') \<and> snd s' = snd s"
proof -
  have good: "shl.good s" using g by (simp add: shl.good_def)
  have "onlp_sfp_is_present (shared_alock me) B S p s =
      Some (seen pres pmap p, shl.after me ''onlp_sfp_is_present'' (fst s), snd s)"
    using shl.locked_api_eq [OF good, of "shared_alock me" me "''onlp_sfp_is_present''" "total1 (onlp_sfp_is_present_locked B S p)"] is_present_static [OF S b]
    by (simp add: onlp_sfp_is_present_def total1_def shared_alock_def)
  then show ?thesis using shl.after_good(2) [of "fst s" me] g by simp
qed

lemma portlist_loop_fills:
  assumes S: "static_presence S pres pmap"
  shows "\<forall>p \<in> set ports. bm_get B (sfpi_bitmap (snd s)) p \<Longrightarrow> sh_free (fst s) \<Longrightarrow> length xs = i \<Longrightarrow>
    (if length ports \<le> length ys then
       \<exists>s'. portlist_loop (shared_alock me) B S ports i (xs @ ys) s =
         Some (xs @ map (\<lambda>p. oom_entry p (seen pres pmap p)) ports @ drop (length ports) ys, s') \<and> sh_free (fst s') \<and> snd s' = snd s
     else portlist_loop (shared_alock me) B S ports i (xs @ ys) s = None)"
proof (induction ports arbitrary: i xs ys s)
  case (Cons p ports)
  show ?case
  proof (cases ys)
    case Nil
    with Cons.prems show ?thesis by simp
  next
    case (Cons y ys')
    let ?e = "oom_entry p (seen pres pmap p)"
    obtain s1 where s1: "onlp_sfp_is_present (shared_alock me) B S p s = Some (seen pres pmap p, s1)" "sh_free (fst s1)" "snd s1 = snd s"
      using present_locked [OF S] Cons.prems(1,2) by (metis list.set_intros(1))
    have "\<forall>q \<in> set ports. bm_get B (sfpi_bitmap (snd s1)) q" using Cons.prems(1) s1(3) by simp
    from Cons.IH [OF this s1(2), of "xs @ [?e]" "i + 1" ys'] Cons.prems(3) s1 show ?thesis
      by (auto simp: Cons list_update_append split: if_splits)
  qed
qed auto

text \<open>
  The shim writes one entry per port that ONLP knows, in order, with the port as its handle and the
  class of a module only where one is present; it does not look at the size of the list, so a list with
  fewer entries than ports is written past its end.
\<close>

theorem oom_portlist_one_entry_per_port:
  assumes S: "static_presence S pres pmap" and B: "bitmap_laws B" and g: "sh_free (fst s)"
  shows "let ports = bm_iter B (sfpi_bitmap (snd s)) in
    if length ports \<le> length pl then
      \<exists>s'. oom_get_portlist (shared_alock me) B S (Some pl) listsize s =
        Some ((0, Some (map (\<lambda>p. oom_entry p (seen pres pmap p)) ports @ drop (length ports) pl)), s')
    else oom_get_portlist (shared_alock me) B S (Some pl) listsize s = None"
proof -
  let ?ports = "bm_iter B (sfpi_bitmap (snd s))"
  have good: "shl.good s" using g by (simp add: shl.good_def)
  obtain s1 where s1: "onlp_sfp_bitmap_get (shared_alock me) B S (bm_init B) s = Some ((0, sfpi_bitmap (snd s)), s1)"
    "sh_free (fst s1)" "snd s1 = snd s"
    using shl.locked_total2 [OF good, of "shared_alock me" me "''onlp_sfp_bitmap_get''" "onlp_sfp_bitmap_get_locked (bm_init B)"]
      shl.after_good(2) [of "fst s" me] g
    by (simp add: onlp_sfp_bitmap_get_def shared_alock_def onlp_sfp_bitmap_get_locked_def)
  have "\<forall>p \<in> set ?ports. bm_get B (sfpi_bitmap (snd s1)) p" using B s1(3) by (simp add: bitmap_laws_def)
  from portlist_loop_fills [OF S this s1(2), of "[]" 0 pl me] s1(1) show ?thesis
    by (auto simp: oom_get_portlist_def Let_def)
qed

theorem oom_portlist_one_entry_per_port_witness:
  "(\<exists>s'. oom_get_portlist (shared_alock 0) list_bitmap demo_sfpi (Some (replicate 3 (oom_entry 0 0))) 3 (demo_lock, demo_sfp_state) =
     Some ((0, Some [oom_entry 5 0, oom_entry 7 1, oom_entry 0 0]), s')) \<and>
   oom_get_portlist (shared_alock 0) list_bitmap demo_sfpi (Some [oom_entry 0 0]) 1 (demo_lock, demo_sfp_state) = None"
  (is "?A \<and> ?B")
proof -
  have "sh_free demo_lock" by (simp add: sh_free_def demo_lock_def)
  then have g: "sh_free (fst (demo_lock, demo_sfp_state))" by simp
  have "sorted_list_of_set {p \<in> set [5, 7]. p \<in> {0..255}} = [5, 7 :: int]"
  proof -
    have "{p \<in> set [5, 7]. p \<in> {0..255}} = set [5, 7 :: int]" by auto
    then show ?thesis by (simp only: sorted_list_of_set_sort_remdups) simp
  qed
  then have p: "bm_iter list_bitmap (sfpi_bitmap (snd (demo_lock, demo_sfp_state))) = [5, 7]"
    by (simp add: list_bitmap_def demo_sfp_state_def)
  note r = oom_portlist_one_entry_per_port [OF demo_static list_bitmap_laws g, unfolded p Let_def, where me = 0]
  have ?A using r [of "replicate 3 (oom_entry 0 0)" 3] by (simp add: seen_def numeral_eq_Suc)
  moreover have ?B using r [of "[oom_entry 0 0]" 1] by simp
  ultimately show ?thesis ..
qed

section \<open>The bytes of a module\<close>

text \<open>Reading inside the 256 bytes gives exactly those bytes, and 0 instead of their number.\<close>

lemma oom_memory_reads:
  assumes "onlp_sfp_eeprom_read L B S (sint (ucast (handle port) - 1 :: u32)) None s = Some ((rv, Some bytes), s')" "0 \<le> rv"
    and "length bytes = 256" "0 \<le> offset" "0 \<le> len" "offset + len \<le> 256" "offset < 256" "len \<le> int (length data)"
  shows "oom_get_memory_sff L B S port 0xA0 page offset len data s =
    Some ((0, take (nat len) (drop (nat offset) bytes) @ drop (nat len) data), s')"
  using assms by (simp add: oom_get_memory_sff_def Let_def)

end
