(* ===== verification/FileUds.thy ===== *)
theory FileUds
  imports Prelude "HOL-Library.Monad_Syntax"
begin

text \<open>
  \<open>file_uds.c\<close>: files served by a process. Clients add and remove paths; a thread waits for connections
  on all of them and hands each to the handler of its path. The calls of the system and the handlers are
  a parameter. A pointer to a service is its place in the list, which only grows. \<open>None\<close> is the
  use of a place that is not there.
\<close>

section \<open>The system\<close>

text \<open>
  \<open>ud_wait\<close> gives the pointers of the events that carry \<open>EPOLLIN\<close>, or the error and whether it is
  \<open>EINTR\<close>; \<open>ud_epoll_add\<close> the error number.
\<close>

record 'w uds_os =
  ud_mkdir :: "string \<Rightarrow> 'w \<Rightarrow> int \<times> 'w"
  ud_socket :: "'w \<Rightarrow> int \<times> 'w"
  ud_unlink :: "string \<Rightarrow> 'w \<Rightarrow> 'w"
  ud_bind :: "int \<Rightarrow> string \<Rightarrow> 'w \<Rightarrow> int \<times> 'w"
  ud_listen :: "int \<Rightarrow> 'w \<Rightarrow> int \<times> 'w"
  ud_close :: "int \<Rightarrow> 'w \<Rightarrow> 'w"
  ud_accept :: "int \<Rightarrow> 'w \<Rightarrow> int \<times> 'w"
  ud_eventfd :: "'w \<Rightarrow> int \<times> 'w"
  ud_event_write :: "int \<Rightarrow> 'w \<Rightarrow> 'w"
  ud_event_read :: "int \<Rightarrow> 'w \<Rightarrow> 'w"
  ud_epoll_create :: "'w \<Rightarrow> int \<times> 'w"
  ud_epoll_add :: "int \<Rightarrow> nat option \<Rightarrow> 'w \<Rightarrow> (int + unit) \<times> 'w"
  ud_epoll_del :: "int \<Rightarrow> 'w \<Rightarrow> 'w"
  ud_epoll_wait :: "nat \<Rightarrow> 'w \<Rightarrow> (bool + nat option list) \<times> 'w"
  ud_thread :: "'w \<Rightarrow> int \<times> 'w"
  ud_handler :: "nat \<Rightarrow> int \<Rightarrow> 'w \<Rightarrow> 'w"

definition EEXIST :: int where [simp]: "EEXIST = 17"

section \<open>Services\<close>

text \<open>The handler and its cookie are a number here.\<close>

record uds_service =
  us_path :: "string option"
  us_lfd :: int
  us_handler :: nat
  us_active :: int

definition service_null :: uds_service where
  "service_null = \<lparr>us_path = None, us_lfd = 0, us_handler = 0, us_active = 0\<rparr>"

record uds =
  uds_eventfd :: int
  uds_running :: bool
  uds_terminate :: bool
  uds_list :: "uds_service list"

definition uds_service_clear :: "'w uds_os \<Rightarrow> uds_service \<Rightarrow> 'w \<Rightarrow> uds_service \<times> 'w" where
  "uds_service_clear E p w = (service_null, if us_lfd p > 0 then ud_close E (us_lfd p) w else w)"

definition uds_service_destroy :: "'w uds_os \<Rightarrow> uds_service \<Rightarrow> 'w \<Rightarrow> 'w" where
  "uds_service_destroy E p w = snd (uds_service_clear E p w)"

definition uds_service_create :: "'w uds_os \<Rightarrow> string \<Rightarrow> nat \<Rightarrow> 'w \<Rightarrow> uds_service option \<times> 'w" where
  "uds_service_create E path handler w =
     (let rv = service_null\<lparr>us_path := Some path\<rparr>;
          failed = (\<lambda>rv w. (None, uds_service_destroy E rv w));
          (r, w) = ud_mkdir E path w in
      if r \<noteq> 0 then failed rv w
      else
        (let (fd, w) = ud_socket E w; rv = rv\<lparr>us_lfd := fd\<rparr> in
         if fd = -1 then failed rv w
         else
           (let (r, w) = ud_bind E fd (take 107 path) (ud_unlink E path w) in
            if r = -1 then failed rv w
            else
              (let (r, w) = ud_listen E fd w in
               if r = -1 then failed rv w
               else (Some (rv\<lparr>us_handler := handler\<rparr>), w)))))"

section \<open>Clients\<close>

fun find_uds :: "uds_service list \<Rightarrow> string \<Rightarrow> nat option" where
  "find_uds [] path = None"
| "find_uds (s # ss) path = (if us_path s = Some path then Some 0 else map_option Suc (find_uds ss path))"

definition onlp_file_uds_add :: "'w uds_os \<Rightarrow> uds \<Rightarrow> string \<Rightarrow> nat \<Rightarrow> 'w \<Rightarrow> int \<times> uds \<times> 'w" where
  "onlp_file_uds_add E fuds path handler w =
     (let (rv, fuds, w) =
        (if find_uds (uds_list fuds) path \<noteq> None then (-1, fuds, w)
         else
           (case uds_service_create E path handler w of
              (None, w) \<Rightarrow> (0, fuds, w)
            | (Some ufp, w) \<Rightarrow> (0, fuds\<lparr>uds_list := uds_list fuds @ [ufp\<lparr>us_active := 1\<rparr>]\<rparr>, w))) in
      (rv, fuds, ud_event_write E (uds_eventfd fuds) w))"

definition onlp_file_uds_remove :: "uds \<Rightarrow> string \<Rightarrow> uds" where
  "onlp_file_uds_remove fuds path =
     (case find_uds (uds_list fuds) path of
        None \<Rightarrow> fuds
      | Some i \<Rightarrow> fuds\<lparr>uds_list := (uds_list fuds)[i := (uds_list fuds ! i)\<lparr>us_active := -1\<rparr>]\<rparr>)"

section \<open>The thread\<close>

definition epoll_add :: "'w uds_os \<Rightarrow> int \<Rightarrow> nat option \<Rightarrow> nat \<Rightarrow> 'w \<Rightarrow> int \<times> nat \<times> 'w" where
  "epoll_add E fd data counter w =
     (case ud_epoll_add E fd data w of
        (Inl errno, w) \<Rightarrow> if errno \<noteq> EEXIST then (-1, counter, w) else (0, counter + 1, w)
      | (Inr _, w) \<Rightarrow> (0, counter + 1, w))"

text \<open>Under the lock of the list: every active service is waited for, and those to be removed are cleared.\<close>

definition register_service :: "'w uds_os \<Rightarrow> nat \<Rightarrow> uds_service \<Rightarrow> nat \<Rightarrow> 'w \<Rightarrow> uds_service \<times> nat \<times> 'w" where
  "register_service E i ufp nfd w =
     (if us_active ufp = 1 then (let (_, nfd, w) = epoll_add E (us_lfd ufp) (Some i) nfd w in (ufp, nfd, w))
      else if us_active ufp = -1 then
        (let (ufp, w) = uds_service_clear E ufp (ud_epoll_del E (us_lfd ufp) w) in (ufp, nfd, w))
      else (ufp, nfd, w))"

fun register_services :: "'w uds_os \<Rightarrow> nat \<Rightarrow> uds_service list \<Rightarrow> nat \<Rightarrow> 'w \<Rightarrow> uds_service list \<times> nat \<times> 'w" where
  "register_services E i [] nfd w = ([], nfd, w)"
| "register_services E i (ufp # ufps) nfd w =
     (let (ufp, nfd, w) = register_service E i ufp nfd w;
          (ufps, nfd, w) = register_services E (i + 1) ufps nfd w in
      (ufp # ufps, nfd, w))"

text \<open>The descriptor is closed in any case, also when there is none and when the handler has closed it.\<close>

definition accept_service :: "'w uds_os \<Rightarrow> uds_service \<Rightarrow> 'w \<Rightarrow> 'w" where
  "accept_service E ufp w =
     (let (fd, w) = ud_accept E (us_lfd ufp) w;
          w = (if fd > 0 then ud_handler E (us_handler ufp) fd w else w) in
      ud_close E fd w)"

definition handle_event :: "'w uds_os \<Rightarrow> uds \<Rightarrow> nat option \<Rightarrow> 'w \<Rightarrow> 'w option" where
  "handle_event E control ev w =
     (case ev of
        None \<Rightarrow> Some (ud_event_read E (uds_eventfd control) w)
      | Some i \<Rightarrow>
          do { ufp \<leftarrow> rd (uds_list control) i;
               Some (if us_active ufp = 1 then accept_service E ufp w else w) })"

text \<open>What the thread does up to waiting: it ends, or it has so many descriptors to wait for.\<close>

datatype round = Ended | Wait nat

definition uds_register :: "'w uds_os \<Rightarrow> uds \<Rightarrow> 'w \<Rightarrow> round \<times> uds \<times> 'w" where
  "uds_register E control w =
     (if uds_terminate control then (Ended, control\<lparr>uds_running := False\<rparr>, w)
      else
        (let (rv, nfd, w) = epoll_add E (uds_eventfd control) None 0 w in
         if rv < 0 then (Ended, control, w)
         else
           (let (ufps, nfd, w) = register_services E 0 (uds_list control) nfd w in
            (Wait nfd, control\<lparr>uds_list := ufps\<rparr>, w))))"

section \<open>Creation and destruction\<close>

definition onlp_file_uds_destroy :: "'w uds_os \<Rightarrow> ('w \<Rightarrow> 'w) \<Rightarrow> uds \<Rightarrow> 'w \<Rightarrow> 'w" where
  "onlp_file_uds_destroy E join p w =
     (let w = (if uds_running p then join (ud_event_write E (uds_eventfd p) w) else w) in
      fold (uds_service_destroy E) (uds_list p) w)"

definition onlp_file_uds_create :: "'w uds_os \<Rightarrow> ('w \<Rightarrow> 'w) \<Rightarrow> 'w \<Rightarrow> int \<times> uds option \<times> 'w" where
  "onlp_file_uds_create E join w =
     (let (fd, w) = ud_eventfd E w;
          rv = \<lparr>uds_eventfd = fd, uds_running = False, uds_terminate = False, uds_list = []\<rparr> in
      if fd = -1 then (-1, None, onlp_file_uds_destroy E join rv w)
      else
        (let (r, w) = ud_thread E w in
         if r \<noteq> 0 then (-1, None, onlp_file_uds_destroy E join rv w) else (0, Some rv, w)))"

end
