(* ===== verification/FileUdsProps.thy ===== *)
theory FileUdsProps
  imports FileUds
begin

text \<open>
  Why a connection is handled by the service of its path: clients and the thread take turns, what the
  descriptors are bound to and waited for is read off the world by two views, and an invariant ties both to
  the list of the services.
\<close>

section \<open>The laws of the system\<close>

text \<open>
  \<open>bound w fd\<close> is the path a descriptor listens on, \<open>reg w fd\<close> the pointer the epoll set keeps for it. A new
  descriptor is in neither view and positive (0 is in use); closing a descriptor takes it out of both; an
  event carries a pointer of the set; nothing else changes a view. A handler may close its own connection.
\<close>

definition keeps_views :: "('w \<Rightarrow> int \<Rightarrow> string option) \<Rightarrow> ('w \<Rightarrow> int \<Rightarrow> nat option option) \<Rightarrow> 'w \<Rightarrow> 'w \<Rightarrow> bool" where
  "keeps_views bound reg w w' \<longleftrightarrow> bound w' = bound w \<and> reg w' = reg w"

definition gives_fresh ::
  "('w \<Rightarrow> int \<Rightarrow> string option) \<Rightarrow> ('w \<Rightarrow> int \<Rightarrow> nat option option) \<Rightarrow> 'w \<Rightarrow> int \<times> 'w \<Rightarrow> bool" where
  "gives_fresh bound reg w r \<longleftrightarrow> keeps_views bound reg w (snd r) \<and>
     (fst r = -1 \<or> 0 < fst r) \<and> bound w (fst r) = None \<and> reg w (fst r) = None"

definition uds_laws :: "'w uds_os \<Rightarrow> ('w \<Rightarrow> int \<Rightarrow> string option) \<Rightarrow> ('w \<Rightarrow> int \<Rightarrow> nat option option) \<Rightarrow> bool" where
  "uds_laws E bound reg \<longleftrightarrow>
     (\<forall>w. gives_fresh bound reg w (ud_socket E w)) \<and>
     (\<forall>w fd. gives_fresh bound reg w (ud_accept E fd w)) \<and>
     (\<forall>w fd. bound (ud_close E fd w) = (bound w)(fd := None) \<and> reg (ud_close E fd w) = (reg w)(fd := None)) \<and>
     (\<forall>w fd p. reg (snd (ud_bind E fd p w)) = reg w \<and>
        bound (snd (ud_bind E fd p w)) = (if fst (ud_bind E fd p w) = -1 then bound w else (bound w)(fd := Some p))) \<and>
     (\<forall>w fd d. bound (snd (ud_epoll_add E fd d w)) = bound w \<and>
        reg (snd (ud_epoll_add E fd d w)) =
          (case fst (ud_epoll_add E fd d w) of Inl _ \<Rightarrow> reg w | Inr _ \<Rightarrow> (reg w)(fd := Some d))) \<and>
     (\<forall>w fd. bound (ud_epoll_del E fd w) = bound w \<and> reg (ud_epoll_del E fd w) = (reg w)(fd := None)) \<and>
     (\<forall>w n. keeps_views bound reg w (snd (ud_epoll_wait E n w)) \<and>
        (\<forall>evs. fst (ud_epoll_wait E n w) = Inr evs \<longrightarrow> (\<forall>ev\<in>set evs. \<exists>fd. reg w fd = Some ev))) \<and>
     (\<forall>w p. keeps_views bound reg w (snd (ud_mkdir E p w)) \<and> keeps_views bound reg w (ud_unlink E p w)) \<and>
     (\<forall>w. keeps_views bound reg w (snd (ud_epoll_create E w))) \<and>
     (\<forall>w fd. keeps_views bound reg w (snd (ud_listen E fd w)) \<and> keeps_views bound reg w (ud_event_write E fd w) \<and>
        keeps_views bound reg w (ud_event_read E fd w)) \<and>
     (\<forall>w h fd. keeps_views bound reg w (ud_handler E h fd w))"

lemma uds_laws_fresh:
  assumes "uds_laws E bound reg"
  shows "ud_socket E w = (fd, w') \<Longrightarrow> keeps_views bound reg w w' \<and> (fd = -1 \<or> 0 < fd) \<and> bound w fd = None \<and> reg w fd = None"
    and "ud_accept E l w = (fd, w') \<Longrightarrow> keeps_views bound reg w w' \<and> (fd = -1 \<or> 0 < fd) \<and> bound w fd = None \<and> reg w fd = None"
proof -
  have "gives_fresh bound reg w (ud_socket E w)" "gives_fresh bound reg w (ud_accept E l w)"
    using assms by (simp_all add: uds_laws_def)
  then show "ud_socket E w = (fd, w') \<Longrightarrow> keeps_views bound reg w w' \<and> (fd = -1 \<or> 0 < fd) \<and> bound w fd = None \<and> reg w fd = None"
    and "ud_accept E l w = (fd, w') \<Longrightarrow> keeps_views bound reg w w' \<and> (fd = -1 \<or> 0 < fd) \<and> bound w fd = None \<and> reg w fd = None"
    by (simp_all add: gives_fresh_def)
qed

lemma uds_laws_change:
  assumes "uds_laws E bound reg"
  shows "bound (ud_close E fd w) = (bound w)(fd := None)" "reg (ud_close E fd w) = (reg w)(fd := None)"
    and "ud_bind E fd p w = (r, w') \<Longrightarrow> reg w' = reg w \<and> bound w' = (if r = -1 then bound w else (bound w)(fd := Some p))"
    and "ud_epoll_add E fd d w = (a, w') \<Longrightarrow>
      bound w' = bound w \<and> reg w' = (case a of Inl _ \<Rightarrow> reg w | Inr _ \<Rightarrow> (reg w)(fd := Some d))"
    and "bound (ud_epoll_del E fd w) = bound w" "reg (ud_epoll_del E fd w) = (reg w)(fd := None)"
proof -
  have "\<forall>w fd. bound (ud_close E fd w) = (bound w)(fd := None) \<and> reg (ud_close E fd w) = (reg w)(fd := None)"
    and b: "\<forall>w fd p. reg (snd (ud_bind E fd p w)) = reg w \<and>
        bound (snd (ud_bind E fd p w)) = (if fst (ud_bind E fd p w) = -1 then bound w else (bound w)(fd := Some p))"
    and a: "\<forall>w fd d. bound (snd (ud_epoll_add E fd d w)) = bound w \<and>
        reg (snd (ud_epoll_add E fd d w)) =
          (case fst (ud_epoll_add E fd d w) of Inl _ \<Rightarrow> reg w | Inr _ \<Rightarrow> (reg w)(fd := Some d))"
    and "\<forall>w fd. bound (ud_epoll_del E fd w) = bound w \<and> reg (ud_epoll_del E fd w) = (reg w)(fd := None)"
    using assms unfolding uds_laws_def by - (elim conjE, assumption)+
  then show "bound (ud_close E fd w) = (bound w)(fd := None)" "reg (ud_close E fd w) = (reg w)(fd := None)"
    and "bound (ud_epoll_del E fd w) = bound w" "reg (ud_epoll_del E fd w) = (reg w)(fd := None)"
    by simp_all
  show "reg w' = reg w \<and> bound w' = (if r = -1 then bound w else (bound w)(fd := Some p))"
    if "ud_bind E fd p w = (r, w')" using b [rule_format, where w=w and fd=fd and p=p] unfolding that by simp
  show "bound w' = bound w \<and> reg w' = (case a of Inl _ \<Rightarrow> reg w | Inr _ \<Rightarrow> (reg w)(fd := Some d))"
    if "ud_epoll_add E fd d w = (a, w')" using a [rule_format, where w=w and fd=fd and d=d] unfolding that by simp
qed

lemma uds_laws_keep:
  assumes "uds_laws E bound reg"
  shows "keeps_views bound reg w (ud_event_write E fd w)" "keeps_views bound reg w (ud_event_read E fd w)"
    and "keeps_views bound reg w (ud_handler E h fd w)" "keeps_views bound reg w (ud_unlink E p w)"
    and "ud_mkdir E p w = (r, w') \<Longrightarrow> keeps_views bound reg w w'"
    and "ud_listen E fd w = (r, w') \<Longrightarrow> keeps_views bound reg w w'"
    and "ud_epoll_wait E n w = (a, w') \<Longrightarrow> keeps_views bound reg w w'"
    and "ud_epoll_create E w = (r, w') \<Longrightarrow> keeps_views bound reg w w'"
    and "ud_epoll_wait E n w = (Inr evs, w') \<Longrightarrow> ev \<in> set evs \<Longrightarrow> \<exists>fd. reg w fd = Some ev"
proof -
  have k: "\<forall>w p. keeps_views bound reg w (snd (ud_mkdir E p w)) \<and> keeps_views bound reg w (ud_unlink E p w)"
    "\<forall>w fd. keeps_views bound reg w (snd (ud_listen E fd w)) \<and> keeps_views bound reg w (ud_event_write E fd w) \<and>
        keeps_views bound reg w (ud_event_read E fd w)"
    "\<forall>w h fd. keeps_views bound reg w (ud_handler E h fd w)"
    "\<forall>w. keeps_views bound reg w (snd (ud_epoll_create E w))"
    and wt: "\<forall>w n. keeps_views bound reg w (snd (ud_epoll_wait E n w)) \<and>
        (\<forall>evs. fst (ud_epoll_wait E n w) = Inr evs \<longrightarrow> (\<forall>ev\<in>set evs. \<exists>fd. reg w fd = Some ev))"
    using assms unfolding uds_laws_def by - (elim conjE, assumption)+
  then show "keeps_views bound reg w (ud_event_write E fd w)" "keeps_views bound reg w (ud_event_read E fd w)"
    and "keeps_views bound reg w (ud_handler E h fd w)" "keeps_views bound reg w (ud_unlink E p w)" by simp_all
  show "keeps_views bound reg w w'" if "ud_mkdir E p w = (r, w')"
    using k(1) [rule_format, where w=w and p=p] unfolding that by simp
  show "keeps_views bound reg w w'" if "ud_listen E fd w = (r, w')"
    using k(2) [rule_format, where w=w and fd=fd] unfolding that by simp
  show "keeps_views bound reg w w'" if "ud_epoll_wait E n w = (a, w')"
    using wt [rule_format, where w=w and n=n] unfolding that by simp
  show "keeps_views bound reg w w'" if "ud_epoll_create E w = (r, w')"
    using k(4) [rule_format, where w=w] unfolding that by simp
  show "\<exists>fd. reg w fd = Some ev" if "ud_epoll_wait E n w = (Inr evs, w')" "ev \<in> set evs"
    using wt [rule_format, where w=w and n=n] that by simp
qed

section \<open>The invariant of the list\<close>

text \<open>
  A cleared service is the null service. One that is not has a path of its own and listens on a descriptor
  of its own, which is bound to what of the path fits an address. A pointer of the epoll set is that of the
  service which listens on the descriptor.
\<close>

definition uds_live :: "('w \<Rightarrow> int \<Rightarrow> string option) \<Rightarrow> uds_service \<Rightarrow> 'w \<Rightarrow> bool" where
  "uds_live bound p w \<longleftrightarrow> us_path p \<noteq> None \<and> 0 < us_lfd p \<and> bound w (us_lfd p) = Some (take 107 (the (us_path p)))"

definition uds_ok ::
  "('w \<Rightarrow> int \<Rightarrow> string option) \<Rightarrow> ('w \<Rightarrow> int \<Rightarrow> nat option option) \<Rightarrow> uds_service list \<Rightarrow> 'w \<Rightarrow> bool" where
  "uds_ok bound reg ufps w \<longleftrightarrow>
     (\<forall>p\<in>set ufps. p = service_null \<or> uds_live bound p w) \<and>
     (\<forall>i j. i < j \<and> j < length ufps \<and> ufps ! i \<noteq> service_null \<and> ufps ! j \<noteq> service_null \<longrightarrow>
        us_path (ufps ! i) \<noteq> us_path (ufps ! j) \<and> us_lfd (ufps ! i) \<noteq> us_lfd (ufps ! j)) \<and>
     (\<forall>fd i. reg w fd = Some (Some i) \<longrightarrow> i < length ufps \<and> uds_live bound (ufps ! i) w \<and> us_lfd (ufps ! i) = fd)"

lemma uds_ok_views:
  "uds_ok bound reg ufps w \<Longrightarrow> keeps_views bound reg w w' \<Longrightarrow> uds_ok bound reg ufps w'"
  unfolding uds_ok_def keeps_views_def uds_live_def by (elim conjE [where P="bound w' = bound w"]) (simp only: simp_thms)

lemma keeps_views_trans:
  "keeps_views bound reg w w' \<Longrightarrow> keeps_views bound reg w' w'' \<Longrightarrow> keeps_views bound reg w w''"
  by (simp add: keeps_views_def)

lemma uds_ok_live:
  "uds_ok bound reg ufps w \<Longrightarrow> i < length ufps \<Longrightarrow> ufps ! i \<noteq> service_null \<Longrightarrow> uds_live bound (ufps ! i) w"
  unfolding uds_ok_def using nth_mem by blast

lemma uds_ok_distinct:
  assumes "uds_ok bound reg ufps w" "i \<noteq> j" "i < length ufps" "j < length ufps"
    "ufps ! i \<noteq> service_null" "ufps ! j \<noteq> service_null"
  shows "us_path (ufps ! i) \<noteq> us_path (ufps ! j) \<and> us_lfd (ufps ! i) \<noteq> us_lfd (ufps ! j)"
proof (cases "i < j")
  case True then show ?thesis using assms unfolding uds_ok_def by blast
next
  case False
  then have "j < i" using assms by simp
  then have "us_path (ufps ! j) \<noteq> us_path (ufps ! i) \<and> us_lfd (ufps ! j) \<noteq> us_lfd (ufps ! i)"
    using assms unfolding uds_ok_def by blast
  then show ?thesis by metis
qed

lemma uds_okI:
  assumes "\<And>i. i < length ufps \<Longrightarrow> ufps ! i = service_null \<or> uds_live bound (ufps ! i) w"
    "\<And>i j. i < j \<Longrightarrow> j < length ufps \<Longrightarrow> ufps ! i \<noteq> service_null \<Longrightarrow> ufps ! j \<noteq> service_null \<Longrightarrow>
       us_path (ufps ! i) \<noteq> us_path (ufps ! j) \<and> us_lfd (ufps ! i) \<noteq> us_lfd (ufps ! j)"
    "\<And>fd i. reg w fd = Some (Some i) \<Longrightarrow> i < length ufps \<and> uds_live bound (ufps ! i) w \<and> us_lfd (ufps ! i) = fd"
  shows "uds_ok bound reg ufps w"
  unfolding uds_ok_def
proof (intro conjI allI impI ballI)
  fix p assume "p \<in> set ufps"
  then obtain i where "i < length ufps" "p = ufps ! i" by (metis in_set_conv_nth)
  then show "p = service_null \<or> uds_live bound p w" using assms(1) by blast
next
  fix i j assume "i < j \<and> j < length ufps \<and> ufps ! i \<noteq> service_null \<and> ufps ! j \<noteq> service_null"
  then show "us_path (ufps ! i) \<noteq> us_path (ufps ! j)" "us_lfd (ufps ! i) \<noteq> us_lfd (ufps ! j)"
    using assms(2) by blast+
next
  fix fd i assume "reg w fd = Some (Some i)"
  then show "i < length ufps" "uds_live bound (ufps ! i) w" "us_lfd (ufps ! i) = fd" using assms(3) by blast+
qed

section \<open>Clients\<close>

lemma find_uds_None: "find_uds ufps path = None \<Longrightarrow> p \<in> set ufps \<Longrightarrow> us_path p \<noteq> Some path"
  by (induction ufps) (auto split: if_splits)

lemma find_uds_Some: "find_uds ufps path = Some i \<Longrightarrow> i < length ufps \<and> us_path (ufps ! i) = Some path"
  by (induction ufps arbitrary: i) (auto split: if_splits)

text \<open>A service that could not be made leaves the views as they were; the other is bound to its path.\<close>

lemma uds_service_close_fresh:
  assumes l: "uds_laws E bound reg" and "bound w fd = None" "reg w fd = None" "us_lfd p = fd"
    "reg w' = reg w" "bound w' = bound w"
  shows "keeps_views bound reg w (uds_service_destroy E p w')"
  using assms(2-)
  by (simp add: uds_service_destroy_def uds_service_clear_def keeps_views_def uds_laws_change(1,2) [OF l] fun_upd_idem)

lemma uds_service_create_views:
  assumes l: "uds_laws E bound reg" and r: "uds_service_create E path h w = (res, w')"
  shows "case res of None \<Rightarrow> keeps_views bound reg w w'
    | Some p \<Rightarrow> \<exists>fd. p = service_null\<lparr>us_path := Some path, us_lfd := fd, us_handler := h\<rparr> \<and> 0 < fd \<and>
        bound w fd = None \<and> reg w fd = None \<and> bound w' = (bound w)(fd \<mapsto> take 107 path) \<and> reg w' = reg w"
proof -
  let ?p = "service_null\<lparr>us_path := Some path\<rparr>"
  obtain r1 w1 where m: "ud_mkdir E path w = (r1, w1)" by fastforce
  obtain fd w2 where s: "ud_socket E w1 = (fd, w2)" by fastforce
  obtain r2 w3 where b: "ud_bind E fd (take 107 path) (ud_unlink E path w2) = (r2, w3)" by fastforce
  obtain r3 w4 where li: "ud_listen E fd w3 = (r3, w4)" by fastforce
  have k1: "bound w1 = bound w" "reg w1 = reg w" using uds_laws_keep(5) [OF l m] by (simp_all add: keeps_views_def)
  have k2: "bound w2 = bound w" "reg w2 = reg w" "fd = -1 \<or> 0 < fd" "bound w fd = None" "reg w fd = None"
    using uds_laws_fresh(1) [OF l s] k1 by (simp_all add: keeps_views_def)
  have u: "bound (ud_unlink E path w2) = bound w" "reg (ud_unlink E path w2) = reg w"
    using uds_laws_keep(4) [OF l, where w=w2 and p=path] k2 by (simp_all add: keeps_views_def)
  have k3: "reg w3 = reg w" "bound w3 = (if r2 = -1 then bound w else (bound w)(fd \<mapsto> take 107 path))"
    using uds_laws_change(3) [OF l b] u by simp_all
  have k4: "bound w4 = bound w3" "reg w4 = reg w"
    using uds_laws_keep(6) [OF l li] k3 by (simp_all add: keeps_views_def)
  have d: "keeps_views bound reg w (uds_service_destroy E (?p\<lparr>us_lfd := fd\<rparr>) w')"
    if "reg w' = reg w" "bound w' = bound w" for w'
    using uds_service_close_fresh [OF l k2(4,5), where p="?p\<lparr>us_lfd := fd\<rparr>"] that by simp
  have d4: "keeps_views bound reg w (uds_service_destroy E (?p\<lparr>us_lfd := fd\<rparr>) w4)" if "0 < fd"
    using that k2 k3 k4
    by (simp add: uds_service_destroy_def uds_service_clear_def keeps_views_def uds_laws_change(1,2) [OF l] fun_upd_idem)
  have d0: "uds_service_destroy E ?p w1 = w1"
    by (simp add: uds_service_destroy_def uds_service_clear_def service_null_def)
  consider "r1 \<noteq> 0" | "r1 = 0" "fd = -1" | "r1 = 0" "0 < fd" "r2 = -1" | "r1 = 0" "0 < fd" "r2 \<noteq> -1" "r3 = -1"
    | "r1 = 0" "0 < fd" "r2 \<noteq> -1" "r3 \<noteq> -1"
    using k2(3) by blast
  then show ?thesis
  proof cases
    case 1 then show ?thesis using r m k1 d0 by (simp add: uds_service_create_def keeps_views_def)
  next
    case 2 then show ?thesis using r m s k2 d [of w2] by (auto simp: uds_service_create_def)
  next
    case 3 then show ?thesis using r m s b k3 d [of w3] by (auto simp: uds_service_create_def)
  next
    case 4 then show ?thesis using r m s b li d4 by (auto simp: uds_service_create_def)
  next
    case 5 then show ?thesis using r m s b li k2 k3 k4 by (auto simp: uds_service_create_def)
  qed
qed

lemma uds_ok_append:
  assumes ok: "uds_ok bound reg ufps w" and new: "find_uds ufps path = None" "us_path p = Some path" "us_lfd p = fd"
    "0 < fd" "bound w fd = None" "reg w fd = None"
    and w': "bound w' = (bound w)(fd \<mapsto> take 107 path)" "reg w' = reg w"
  shows "uds_ok bound reg (ufps @ [p]) w'"
proof -
  have keep: "uds_live bound (ufps ! i) w' \<and> us_lfd (ufps ! i) \<noteq> fd \<and> us_path (ufps ! i) \<noteq> us_path p"
    if "i < length ufps" "uds_live bound (ufps ! i) w" for i
    using that new find_uds_None [OF new(1) nth_mem] by (auto simp: uds_live_def w')
  have p: "uds_live bound p w'" using new by (simp add: uds_live_def w')
  show ?thesis
  proof (rule uds_okI)
    fix i assume "i < length (ufps @ [p])"
    then show "(ufps @ [p]) ! i = service_null \<or> uds_live bound ((ufps @ [p]) ! i) w'"
      using keep uds_ok_live [OF ok] p by (auto simp: nth_append)
  next
    fix i j assume "i < j" "j < length (ufps @ [p])" "(ufps @ [p]) ! i \<noteq> service_null" "(ufps @ [p]) ! j \<noteq> service_null"
    then show "us_path ((ufps @ [p]) ! i) \<noteq> us_path ((ufps @ [p]) ! j) \<and> us_lfd ((ufps @ [p]) ! i) \<noteq> us_lfd ((ufps @ [p]) ! j)"
      using keep [of i] uds_ok_live [OF ok, of i] uds_ok_distinct [OF ok, of i j] new(3)
      by (cases "j < length ufps") (auto simp: nth_append less_Suc_eq)
  next
    fix f i assume "reg w' f = Some (Some i)"
    then have "i < length ufps" "uds_live bound (ufps ! i) w" "us_lfd (ufps ! i) = f"
      using ok by (auto simp: uds_ok_def w')
    then show "i < length (ufps @ [p]) \<and> uds_live bound ((ufps @ [p]) ! i) w' \<and> us_lfd ((ufps @ [p]) ! i) = f"
      using keep by (simp add: nth_append)
  qed
qed

lemma uds_add_ok:
  assumes l: "uds_laws E bound reg" and ok: "uds_ok bound reg (uds_list s) w"
    and r: "onlp_file_uds_add E s path h w = (rv, s', w')"
  shows "uds_ok bound reg (uds_list s') w' \<and> length (uds_list s) \<le> length (uds_list s') \<and>
    (\<forall>i<length (uds_list s). uds_list s' ! i = uds_list s ! i)"
proof (cases "find_uds (uds_list s) path")
  case (Some i)
  then show ?thesis using r uds_ok_views [OF ok uds_laws_keep(1) [OF l]] by (auto simp: onlp_file_uds_add_def)
next
  case None
  obtain res w1 where c: "uds_service_create E path h w = (res, w1)" by fastforce
  have v: "keeps_views bound reg w1 w'" using r None c uds_laws_keep(1) [OF l, where w=w1]
    by (auto simp: onlp_file_uds_add_def split: option.splits)
  show ?thesis
  proof (cases res)
    case None
    then have "keeps_views bound reg w w1" using uds_service_create_views [OF l c] by simp
    then show ?thesis using r \<open>find_uds _ _ = None\<close> c None uds_ok_views [OF ok] v
      by (auto simp: onlp_file_uds_add_def intro: keeps_views_trans)
  next
    case (Some p)
    then obtain fd where p: "p = service_null\<lparr>us_path := Some path, us_lfd := fd, us_handler := h\<rparr>" "0 < fd"
      "bound w fd = None" "reg w fd = None" "bound w1 = (bound w)(fd \<mapsto> take 107 path)" "reg w1 = reg w"
      using uds_service_create_views [OF l c] by auto
    have s': "uds_list s' = uds_list s @ [p\<lparr>us_active := 1\<rparr>]"
      using r None c Some by (auto simp: onlp_file_uds_add_def)
    have "uds_ok bound reg (uds_list s') w1"
      unfolding s' by (rule uds_ok_append [OF ok None _ _ p(2-6)]) (simp_all add: p(1))
    then show ?thesis using uds_ok_views [OF _ v] by (simp add: s' nth_append)
  qed
qed

lemma uds_live_active [simp]: "uds_live bound (p\<lparr>us_active := a\<rparr>) w \<longleftrightarrow> uds_live bound p w"
  by (simp add: uds_live_def)

lemma uds_live_not_null: "uds_live bound p w \<Longrightarrow> p \<noteq> service_null"
  by (auto simp: uds_live_def service_null_def)

lemma uds_ok_active:
  assumes ok: "uds_ok bound reg ufps w" and i: "i < length ufps" "ufps ! i \<noteq> service_null"
  shows "uds_ok bound reg (ufps[i := (ufps ! i)\<lparr>us_active := a\<rparr>]) w"
proof (rule uds_okI)
  fix j assume "j < length (ufps[i := (ufps ! i)\<lparr>us_active := a\<rparr>])"
  then show "ufps[i := (ufps ! i)\<lparr>us_active := a\<rparr>] ! j = service_null \<or>
      uds_live bound (ufps[i := (ufps ! i)\<lparr>us_active := a\<rparr>] ! j) w"
    using uds_ok_live [OF ok, of j] i by (cases "i = j") auto
next
  fix j k assume "j < k" "k < length (ufps[i := (ufps ! i)\<lparr>us_active := a\<rparr>])"
    "ufps[i := (ufps ! i)\<lparr>us_active := a\<rparr>] ! j \<noteq> service_null" "ufps[i := (ufps ! i)\<lparr>us_active := a\<rparr>] ! k \<noteq> service_null"
  then show "us_path (ufps[i := (ufps ! i)\<lparr>us_active := a\<rparr>] ! j) \<noteq> us_path (ufps[i := (ufps ! i)\<lparr>us_active := a\<rparr>] ! k) \<and>
      us_lfd (ufps[i := (ufps ! i)\<lparr>us_active := a\<rparr>] ! j) \<noteq> us_lfd (ufps[i := (ufps ! i)\<lparr>us_active := a\<rparr>] ! k)"
    using uds_ok_distinct [OF ok, of j k] i by (cases "i = j"; cases "i = k") auto
next
  fix fd j assume "reg w fd = Some (Some j)"
  then have "j < length ufps" "uds_live bound (ufps ! j) w" "us_lfd (ufps ! j) = fd"
    using ok by (auto simp: uds_ok_def)
  then show "j < length (ufps[i := (ufps ! i)\<lparr>us_active := a\<rparr>]) \<and>
      uds_live bound (ufps[i := (ufps ! i)\<lparr>us_active := a\<rparr>] ! j) w \<and> us_lfd (ufps[i := (ufps ! i)\<lparr>us_active := a\<rparr>] ! j) = fd"
    by (cases "i = j") auto
qed

lemma uds_remove_ok:
  assumes ok: "uds_ok bound reg (uds_list s) w"
  shows "uds_ok bound reg (uds_list (onlp_file_uds_remove s path)) w \<and>
    length (uds_list (onlp_file_uds_remove s path)) = length (uds_list s)"
proof (cases "find_uds (uds_list s) path")
  case None then show ?thesis using ok by (simp add: onlp_file_uds_remove_def)
next
  case (Some i)
  then have i: "i < length (uds_list s)" "us_path (uds_list s ! i) = Some path" using find_uds_Some by blast+
  then have "uds_list s ! i \<noteq> service_null" by (auto simp: service_null_def)
  then show ?thesis using uds_ok_active [OF ok i(1)] Some by (simp add: onlp_file_uds_remove_def)
qed

section \<open>The thread\<close>

lemma epoll_add_ok:
  assumes l: "uds_laws E bound reg" and ok: "uds_ok bound reg ufps w"
    and e: "epoll_add E fd d n w = (rv, n', w')"
    and d: "\<And>i. d = Some i \<Longrightarrow> i < length ufps \<and> ufps ! i \<noteq> service_null \<and> us_lfd (ufps ! i) = fd"
  shows "uds_ok bound reg ufps w'"
proof -
  obtain a w1 where a: "ud_epoll_add E fd d w = (a, w1)" by fastforce
  have v: "bound w1 = bound w" "reg w1 = (case a of Inl _ \<Rightarrow> reg w | Inr _ \<Rightarrow> (reg w)(fd := Some d))"
    using uds_laws_change(4) [OF l a] by simp_all
  have w1: "w' = w1" using e a by (auto simp: epoll_add_def split: sum.splits if_splits)
  have live: "uds_live bound p w1 \<longleftrightarrow> uds_live bound p w" for p by (simp add: uds_live_def v(1))
  show ?thesis unfolding w1
  proof (rule uds_okI)
    fix i assume "i < length ufps"
    then show "ufps ! i = service_null \<or> uds_live bound (ufps ! i) w1" using uds_ok_live [OF ok] live by blast
  next
    fix i j assume "i < j" "j < length ufps" "ufps ! i \<noteq> service_null" "ufps ! j \<noteq> service_null"
    then show "us_path (ufps ! i) \<noteq> us_path (ufps ! j) \<and> us_lfd (ufps ! i) \<noteq> us_lfd (ufps ! j)"
      using uds_ok_distinct [OF ok, of i j] by simp
  next
    fix f i assume "reg w1 f = Some (Some i)"
    then have "reg w f = Some (Some i) \<or> f = fd \<and> d = Some i" using v(2) by (auto split: sum.splits if_splits)
    then show "i < length ufps \<and> uds_live bound (ufps ! i) w1 \<and> us_lfd (ufps ! i) = f"
      using d uds_ok_live [OF ok] ok live by (auto simp: uds_ok_def)
  qed
qed

text \<open>
  A service to be removed is first taken out of the epoll set; its descriptor is its own, so closing it
  leaves the other services bound, and a later descriptor of the same number starts afresh.
\<close>

lemma uds_clear_ok:
  assumes l: "uds_laws E bound reg" and ok: "uds_ok bound reg ufps w"
    and i: "i < length ufps"
    and c: "uds_service_clear E (ufps ! i) (ud_epoll_del E (us_lfd (ufps ! i)) w) = (p, w')"
  shows "uds_ok bound reg (ufps[i := p]) w'"
proof -
  let ?fd = "us_lfd (ufps ! i)"
  have p: "p = service_null" using c by (simp add: uds_service_clear_def)
  have v: "reg w' = (reg w)(?fd := None)"
    "bound w' = (if 0 < ?fd then (bound w)(?fd := None) else bound w)"
    using c by (auto simp: uds_service_clear_def uds_laws_change [OF l])
  have other: "uds_live bound (ufps ! j) w'" if "j < length ufps" "j \<noteq> i" "ufps ! j \<noteq> service_null" for j
  proof (cases "ufps ! i = service_null")
    case True then show ?thesis using uds_ok_live [OF ok that(1,3)] v by (simp add: uds_live_def service_null_def)
  next
    case False
    then have "us_lfd (ufps ! j) \<noteq> ?fd" using uds_ok_distinct [OF ok that(2,1) i that(3)] by blast
    then show ?thesis using uds_ok_live [OF ok that(1,3)] v by (simp add: uds_live_def)
  qed
  show ?thesis
  proof (rule uds_okI)
    fix j assume "j < length (ufps[i := p])"
    then show "ufps[i := p] ! j = service_null \<or> uds_live bound (ufps[i := p] ! j) w'"
      using other p by (cases "j = i") auto
  next
    fix j k assume "j < k" "k < length (ufps[i := p])" "ufps[i := p] ! j \<noteq> service_null" "ufps[i := p] ! k \<noteq> service_null"
    then show "us_path (ufps[i := p] ! j) \<noteq> us_path (ufps[i := p] ! k) \<and> us_lfd (ufps[i := p] ! j) \<noteq> us_lfd (ufps[i := p] ! k)"
      using uds_ok_distinct [OF ok, of j k] i p by (cases "i = j"; cases "i = k") auto
  next
    fix f j assume "reg w' f = Some (Some j)"
    then have f: "f \<noteq> ?fd" "reg w f = Some (Some j)" using v by (auto split: if_splits)
    then have "j < length ufps" "uds_live bound (ufps ! j) w" "us_lfd (ufps ! j) = f" using ok by (auto simp: uds_ok_def)
    then show "j < length (ufps[i := p]) \<and> uds_live bound (ufps[i := p] ! j) w' \<and> us_lfd (ufps[i := p] ! j) = f"
      using other [of j] f(1) uds_live_not_null [of bound "ufps ! j" w] by (cases "j = i") auto
  qed
qed

lemma active_not_null [simp]: "us_active p = 1 \<Longrightarrow> p \<noteq> service_null"
  by (auto simp: service_null_def)

lemma register_services_ok:
  assumes l: "uds_laws E bound reg"
  shows "uds_ok bound reg (pre @ ufps) w \<Longrightarrow>
    register_services E (length pre) ufps n w = (ufps', n', w') \<Longrightarrow>
    uds_ok bound reg (pre @ ufps') w' \<and> length ufps' = length ufps"
proof (induction ufps arbitrary: pre n w ufps' n' w')
  case Nil then show ?case by simp
next
  case (Cons p ps)
  define i where "i = length pre"
  obtain q m w1 where one: "register_service E i p n w = (q, m, w1)" by (metis prod_cases3)
  obtain qs where rest: "register_services E (i + 1) ps m w1 = (qs, n', w')" "ufps' = q # qs"
    using Cons.prems(2) one by (auto simp: i_def split: prod.splits)
  have at: "(pre @ p # ps) ! i = p" "i < length (pre @ p # ps)" by (simp_all add: i_def)
  have "uds_ok bound reg (pre @ q # ps) w1"
  proof -
    consider "us_active p = 1" | "us_active p = -1" | "us_active p \<noteq> 1" "us_active p \<noteq> -1" by blast
    then show ?thesis
    proof cases
      case 1
      then obtain rv where "epoll_add E (us_lfd p) (Some i) n w = (rv, m, w1)" "q = p"
        using one by (auto simp: register_service_def split: prod.splits)
      then have e: "epoll_add E (us_lfd p) (Some i) n w = (rv, m, w1)" and "q = p" by simp_all
      have "uds_ok bound reg (pre @ p # ps) w1"
        by (rule epoll_add_ok [OF l Cons.prems(1) e]) (use 1 at in auto)
      then show ?thesis using \<open>q = p\<close> by simp
    next
      case 2
      then have "uds_service_clear E p (ud_epoll_del E (us_lfd p) w) = (q, w1)"
        using one by (auto simp: register_service_def split: prod.splits)
      then have "uds_ok bound reg ((pre @ p # ps)[i := q]) w1"
        using uds_clear_ok [OF l Cons.prems(1) at(2)] at(1) by simp
      then show ?thesis by (simp add: i_def)
    next
      case 3 then show ?thesis using one Cons.prems(1) by (simp add: register_service_def)
    qed
  qed
  then show ?case using Cons.IH [where pre="pre @ [q]" and w=w1] rest by (auto simp: i_def)
qed

section \<open>Clients and the thread, taking turns\<close>

text \<open>
  Where the thread is: not yet started, before its next round, waiting, with events in hand, or ended. A client may add and
  remove at any time; the thread's walk over the list is under the list's lock, one step.
\<close>

datatype uds_phase = Created | Top | Waiting nat | Handling "nat option list" | Over

inductive uds_step ::
  "'w uds_os \<Rightarrow> uds \<times> uds_phase \<times> 'w \<Rightarrow> uds \<times> uds_phase \<times> 'w \<Rightarrow> bool" for E where
  client_add: "onlp_file_uds_add E s path h w = (rv, s', w') \<Longrightarrow> uds_step E (s, ph, w) (s', ph, w')"
| client_remove: "uds_step E (s, ph, w) (onlp_file_uds_remove s path, ph, w)"
| thread_start: "ud_epoll_create E w = (epollfd, w') \<Longrightarrow> epollfd \<noteq> -1 \<Longrightarrow>
    uds_step E (s, Created, w) (s\<lparr>uds_running := True\<rparr>, Top, w')"
| thread_not_started: "ud_epoll_create E w = (-1, w') \<Longrightarrow> uds_step E (s, Created, w) (s, Over, w')"
| thread_register: "uds_register E s w = (Wait n, s', w') \<Longrightarrow> uds_step E (s, Top, w) (s', Waiting n, w')"
| thread_end: "uds_register E s w = (Ended, s', w') \<Longrightarrow> uds_step E (s, Top, w) (s', Over, w')"
| thread_wait: "ud_epoll_wait E n w = (Inr evs, w') \<Longrightarrow> uds_step E (s, Waiting n, w) (s, Handling evs, w')"
| thread_interrupted: "ud_epoll_wait E n w = (Inl True, w') \<Longrightarrow> uds_step E (s, Waiting n, w) (s, Top, w')"
| thread_failed: "ud_epoll_wait E n w = (Inl False, w') \<Longrightarrow>
    uds_step E (s, Waiting n, w) (s\<lparr>uds_running := False\<rparr>, Over, w')"
| thread_handle: "handle_event E s ev w = Some w' \<Longrightarrow>
    uds_step E (s, Handling (ev # evs), w) (s, Handling evs, w')"
| thread_handled: "uds_step E (s, Handling [], w) (s, Top, w)"

fun uds_inv :: "('w \<Rightarrow> int \<Rightarrow> string option) \<Rightarrow> ('w \<Rightarrow> int \<Rightarrow> nat option option) \<Rightarrow> uds \<times> uds_phase \<times> 'w \<Rightarrow> bool" where
  "uds_inv bound reg (s, ph, w) \<longleftrightarrow> uds_ok bound reg (uds_list s) w \<and>
     (case ph of Handling evs \<Rightarrow> \<forall>i. Some i \<in> set evs \<longrightarrow> i < length (uds_list s) | _ \<Rightarrow> True)"

lemma accept_service_keeps:
  assumes l: "uds_laws E bound reg"
  shows "keeps_views bound reg w (accept_service E p w)"
proof -
  obtain fd w1 where a: "ud_accept E (us_lfd p) w = (fd, w1)" by fastforce
  have v: "bound w1 = bound w" "reg w1 = reg w" "bound w fd = None" "reg w fd = None"
    using uds_laws_fresh(2) [OF l a] by (simp_all add: keeps_views_def)
  have "keeps_views bound reg w1 (ud_handler E (us_handler p) fd w1)" by (rule uds_laws_keep(3) [OF l])
  then show ?thesis using v by (simp add: accept_service_def a keeps_views_def uds_laws_change(1,2) [OF l] fun_upd_idem)
qed

lemma uds_register_ok:
  assumes l: "uds_laws E bound reg" and ok: "uds_ok bound reg (uds_list s) w"
    and r: "uds_register E s w = (rnd, s', w')"
  shows "uds_ok bound reg (uds_list s') w'"
proof (cases "uds_terminate s")
  case True then show ?thesis using r ok by (auto simp: uds_register_def)
next
  case False
  obtain rv n w1 where e: "epoll_add E (uds_eventfd s) None 0 w = (rv, n, w1)" by (metis prod_cases3)
  have ok1: "uds_ok bound reg (uds_list s) w1" by (rule epoll_add_ok [OF l ok e]) simp
  obtain ufps n' w2 where g: "register_services E 0 (uds_list s) n w1 = (ufps, n', w2)" by (metis prod_cases3)
  have "uds_ok bound reg ufps w2" using register_services_ok [OF l, where pre="[]"] ok1 g by auto
  then show ?thesis using r False e g ok1 by (auto simp: uds_register_def split: if_splits)
qed

lemma uds_step_inv:
  assumes l: "uds_laws E bound reg" and st: "uds_step E c c'" and inv: "uds_inv bound reg c"
  shows "uds_inv bound reg c'"
  using st inv
proof (cases rule: uds_step.cases)
  case (client_add s path h w rv s' w' ph)
  then show ?thesis using uds_add_ok [OF l _ client_add(3)] inv by (auto split: uds_phase.splits intro: less_le_trans)
next
  case (client_remove s ph w path)
  then show ?thesis using uds_remove_ok [of bound reg s w path] inv by (auto split: uds_phase.splits)
next
  case (thread_start w epollfd w' s)
  then show ?thesis using uds_ok_views [OF _ uds_laws_keep(8) [OF l thread_start(3)]] inv by simp
next
  case (thread_not_started w w' s)
  then show ?thesis using uds_ok_views [OF _ uds_laws_keep(8) [OF l thread_not_started(3)]] inv by simp
next
  case (thread_register s w n s' w')
  then show ?thesis using uds_register_ok [OF l _ thread_register(3)] inv by simp
next
  case (thread_end s w s' w')
  then show ?thesis using uds_register_ok [OF l _ thread_end(3)] inv by simp
next
  case (thread_wait n w evs w' s)
  have ok: "uds_ok bound reg (uds_list s) w" using inv thread_wait by simp
  have "i < length (uds_list s)" if "Some i \<in> set evs" for i
    using uds_laws_keep(9) [OF l thread_wait(3) that] ok by (auto simp: uds_ok_def)
  then show ?thesis using uds_ok_views [OF ok uds_laws_keep(7) [OF l thread_wait(3)]] thread_wait by simp
next
  case (thread_interrupted n w w' s)
  then show ?thesis using uds_ok_views [OF _ uds_laws_keep(7) [OF l thread_interrupted(3)]] inv by simp
next
  case (thread_failed n w w' s)
  then show ?thesis using uds_ok_views [OF _ uds_laws_keep(7) [OF l thread_failed(3)]] inv by simp
next
  case (thread_handle s ev w w' evs)
  have "keeps_views bound reg w w'"
    using thread_handle(3) accept_service_keeps [OF l] uds_laws_keep(2) [OF l]
    by (auto simp: handle_event_def keeps_views_def split: option.splits Option.bind_splits if_splits)
  then show ?thesis using uds_ok_views [of bound reg "uds_list s" w w'] thread_handle inv by auto
next
  case (thread_handled s w)
  then show ?thesis using inv by simp
qed

lemma uds_reachable_inv:
  assumes l: "uds_laws E bound reg" and "(uds_step E)\<^sup>*\<^sup>* c c'" "uds_inv bound reg c"
  shows "uds_inv bound reg c'"
  using assms(2,3) by (induction rule: rtranclp_induct) (auto intro: uds_step_inv [OF l])

section \<open>The claim\<close>


subsection \<open>A concrete system\<close>

text \<open>What is bound, what is waited for, and the next descriptor.\<close>

type_synonym toy_uds = "(int \<Rightarrow> string option) \<times> (int \<Rightarrow> nat option option) \<times> int"

definition toy_bound :: "toy_uds \<Rightarrow> int \<Rightarrow> string option" where
  "toy_bound w fd = (if fd \<le> 0 then None else fst w fd)"

definition toy_reg :: "toy_uds \<Rightarrow> int \<Rightarrow> nat option option" where
  "toy_reg w fd = (if fd \<le> 0 then None else fst (snd w) fd)"

definition toy_fresh :: "toy_uds \<Rightarrow> int \<times> toy_uds" where
  "toy_fresh w = (case w of (b, g, n) \<Rightarrow>
     (if 0 < n \<and> b n = None \<and> g n = None then n else -1, (b, g, n + 1)))"

definition toy_uds_os :: "toy_uds uds_os" where
  "toy_uds_os = \<lparr>ud_mkdir = \<lambda>p w. (0, w), ud_socket = toy_fresh, ud_unlink = \<lambda>p w. w,
     ud_bind = \<lambda>fd p (b, g, n). if fd \<le> 0 then (-1, (b, g, n)) else (0, (b(fd := Some p), g, n)),
     ud_listen = \<lambda>fd w. (0, w), ud_close = \<lambda>fd (b, g, n). (b(fd := None), g(fd := None), n),
     ud_accept = \<lambda>fd. toy_fresh, ud_eventfd = toy_fresh, ud_event_write = \<lambda>fd w. w, ud_event_read = \<lambda>fd w. w,
     ud_epoll_create = \<lambda>w. (1000, w),
     ud_epoll_add = \<lambda>fd d (b, g, n). if fd \<le> 0 then (Inl 9, (b, g, n)) else (Inr (), (b, g(fd := Some d), n)),
     ud_epoll_del = \<lambda>fd (b, g, n). (b, g(fd := None), n),
     ud_epoll_wait = \<lambda>m (b, g, n). (Inr (List.map_filter (toy_reg (b, g, n)) [1, 2]), (b, g, n)),
     ud_thread = \<lambda>w. (0, w), ud_handler = \<lambda>h fd w. w\<rparr>"

lemma toy_uds_laws: "uds_laws toy_uds_os toy_bound toy_reg"
  unfolding uds_laws_def
  by (auto simp: toy_uds_os_def gives_fresh_def keeps_views_def toy_fresh_def toy_bound_def toy_reg_def fun_eq_iff
      map_filter_def split: if_splits)
    (rule exI [of _ 1], simp, rule exI [of _ 2], simp, rule exI [of _ 2], simp, rule exI [of _ 1], simp)

definition toy_uds0 :: uds where
  "toy_uds0 = \<lparr>uds_eventfd = 1, uds_running = False, uds_terminate = False, uds_list = []\<rparr>"

definition toy_service :: uds_service where
  "toy_service = \<lparr>us_path = Some ''/a'', us_lfd = 2, us_handler = 7, us_active = 1\<rparr>"

definition toy_uds1 :: uds where
  "toy_uds1 = toy_uds0\<lparr>uds_running := True, uds_list := [toy_service]\<rparr>"

definition toy_world :: "nat option option \<Rightarrow> nat option option \<Rightarrow> toy_uds" where
  "toy_world g1 g2 = ((\<lambda>_. None)(2 \<mapsto> ''/a''), (\<lambda>_. None)(1 := g1, 2 := g2), 3)"

lemma toy_uds_create:
  "onlp_file_uds_create toy_uds_os id (\<lambda>_. None, \<lambda>_. None, 1) = (0, Some toy_uds0, (\<lambda>_. None, \<lambda>_. None, 2))"
  by (simp add: onlp_file_uds_create_def toy_uds_os_def toy_fresh_def toy_uds0_def)

lemma toy_uds_start:
  "ud_epoll_create toy_uds_os (\<lambda>_. None, \<lambda>_. None, 2) = (1000, (\<lambda>_. None, \<lambda>_. None, 2))"
  by (simp add: toy_uds_os_def)

lemma toy_uds_add:
  "onlp_file_uds_add toy_uds_os (toy_uds0\<lparr>uds_running := True\<rparr>) ''/a'' 7 (\<lambda>_. None, \<lambda>_. None, 2) = (0, toy_uds1, toy_world None None)"
  by (simp add: onlp_file_uds_add_def uds_service_create_def toy_uds_os_def toy_fresh_def toy_uds0_def toy_uds1_def
      toy_service_def toy_world_def service_null_def Let_def)

lemma toy_uds_register:
  "uds_register toy_uds_os toy_uds1 (toy_world None None) = (Wait 2, toy_uds1, toy_world (Some None) (Some (Some 0)))"
  by (simp add: uds_register_def epoll_add_def register_service_def toy_uds_os_def toy_uds0_def toy_uds1_def
      toy_service_def toy_world_def)

lemma toy_uds_wait:
  "ud_epoll_wait toy_uds_os 2 (toy_world (Some None) (Some (Some 0))) =
     (Inr [None, Some 0], toy_world (Some None) (Some (Some 0)))"
  by (simp add: toy_uds_os_def toy_world_def toy_reg_def map_filter_def)

lemma toy_uds_run:
  "(uds_step toy_uds_os)\<^sup>*\<^sup>* (toy_uds0, Created, (\<lambda>_. None, \<lambda>_. None, 2))
     (toy_uds1, Handling [None, Some 0], toy_world (Some None) (Some (Some 0)))"
proof -
  have "uds_step toy_uds_os (toy_uds0, Created, (\<lambda>_. None, \<lambda>_. None, 2))
      (toy_uds0\<lparr>uds_running := True\<rparr>, Top, (\<lambda>_. None, \<lambda>_. None, 2))"
    by (rule thread_start [OF toy_uds_start]) simp
  moreover have "uds_step toy_uds_os (toy_uds0\<lparr>uds_running := True\<rparr>, Top, (\<lambda>_. None, \<lambda>_. None, 2))
      (toy_uds1, Top, toy_world None None)"
    by (rule client_add [OF toy_uds_add])
  moreover have "uds_step toy_uds_os (toy_uds1, Top, toy_world None None)
      (toy_uds1, Waiting 2, toy_world (Some None) (Some (Some 0)))"
    by (rule thread_register [OF toy_uds_register])
  moreover have "uds_step toy_uds_os (toy_uds1, Waiting 2, toy_world (Some None) (Some (Some 0)))
      (toy_uds1, Handling [None, Some 0], toy_world (Some None) (Some (Some 0)))"
    by (rule thread_wait [OF toy_uds_wait])
  ultimately show ?thesis by (simp only: converse_rtranclp_into_rtranclp rtranclp.rtrancl_refl)
qed


end
