(* ===== verification/OnieJson.thy ===== *)
theory OnieJson
  imports Onie File Api "HOL-Library.Countable"
begin

text \<open>
  The rest of \<open>onie.c\<close>: reading TlvInfo data from a file, and the ONIE data as a JSON object. The JSON library
  is a parameter: its objects, and what looking up a name in one gives.
\<close>

section \<open>A file\<close>

text \<open>
  The size that \<open>ftell\<close> tells and the bytes \<open>fread\<close> gives of it. A short read is answered with its length,
  which a caller cannot tell from success; \<open>None\<close> is a failed allocation or a read outside the data.
\<close>

definition onlp_onie_decode_file ::
  "(onie_vx \<Rightarrow> onie_vx list \<Rightarrow> onie_vx list) \<Rightarrow> (int \<times> u8 list) option \<Rightarrow> onie_info \<Rightarrow> (int \<times> onie_info option) option" where
  "onlp_onie_decode_file lpush fp onie =
     (case fp of
        None \<Rightarrow> Some (-1, Some onie)
      | Some (sz, data) \<Rightarrow>
          if sz < 0 then None
          else if int (length data) = sz then onlp_onie_decode lpush (Some onie) (Some data) sz
          else Some (int (length data), Some onie))"

section \<open>JSON\<close>

record 'j cjson_api =
  js_create :: 'j
  js_add_string :: "string \<Rightarrow> u8 list \<Rightarrow> 'j \<Rightarrow> 'j"
  js_add_null :: "string \<Rightarrow> 'j \<Rightarrow> 'j"
  js_add_number :: "string \<Rightarrow> int \<Rightarrow> 'j \<Rightarrow> 'j"
  js_print :: "'j \<Rightarrow> u8 list"
  js_parse :: "u8 list \<Rightarrow> int \<times> 'j"
  js_lookup_string :: "'j \<Rightarrow> string \<Rightarrow> int \<times> u8 list"
  js_mac :: "u8 list \<Rightarrow> u8 list"

definition c_str :: "u8 list \<Rightarrow> u8 list" where
  "c_str = takeWhile (\<lambda>b. b \<noteq> 0)"

definition ascii :: "string \<Rightarrow> u8 list" where
  "ascii = map of_char"

text \<open>\<open>%x\<close>\<close>

fun hex_string :: "nat \<Rightarrow> string" where
  "hex_string n = (if n < 16 then [''0123456789abcdef'' ! n] else hex_string (n div 16) @ [''0123456789abcdef'' ! (n mod 16)])"

declare hex_string.simps [simp del]

subsection \<open>Writing\<close>

definition json_S :: "'j cjson_api \<Rightarrow> string \<Rightarrow> u8 list option \<Rightarrow> 'j \<Rightarrow> 'j" where
  "json_S J name member cj =
     (case member of Some v \<Rightarrow> js_add_string J name (c_str v) cj | None \<Rightarrow> js_add_null J name cj)"

definition onie_json :: "'j cjson_api \<Rightarrow> onie_info \<Rightarrow> 'j" where
  "onie_json J info =
     (let cj = js_create J;
          cj = json_S J ''Product Name'' (product_name info) cj;
          cj = json_S J ''Part Number'' (part_number info) cj;
          cj = json_S J ''Serial Number'' (serial_number info) cj;
          cj = js_add_string J ''MAC'' (js_mac J (mac info)) cj;
          cj = json_S J ''Manufacturer'' (manufacturer info) cj;
          cj = json_S J ''Manufacture Date'' (manufacture_date info) cj;
          cj = json_S J ''Vendor'' (vendor info) cj;
          cj = json_S J ''Platform Name'' (platform_name info) cj;
          cj = json_S J ''Label Revision'' (label_revision info) cj;
          cj = json_S J ''Country Code'' (country_code info) cj;
          cj = json_S J ''Diag Version'' (diag_version info) cj;
          cj = json_S J ''Service Tag'' (service_tag info) cj;
          cj = json_S J ''ONIE Version'' (onie_version info) cj;
          cj = js_add_number J ''Device Version'' (uint (device_version info)) cj in
      js_add_string J ''CRC'' (ascii (''0x'' @ hex_string (unat (onie_crc info)))) cj)"

definition onlp_onie_show_json :: "'j cjson_api \<Rightarrow> onie_info \<Rightarrow> iof_op list" where
  "onlp_onie_show_json J info = [Aprintf (''%s'' @ [CHR 0x0A]) [FBytes (js_print J (onie_json J info))]]"

subsection \<open>Reading\<close>

text \<open>One \<open>%x\<close> of \<open>sscanf\<close>: the number, and what follows it.\<close>

definition hex_val :: "u8 \<Rightarrow> int option" where
  "hex_val b =
     (if 0x30 \<le> b \<and> b \<le> 0x39 then Some (uint b - 0x30)
      else if 0x61 \<le> b \<and> b \<le> 0x66 then Some (uint b - 0x57)
      else if 0x41 \<le> b \<and> b \<le> 0x46 then Some (uint b - 0x37) else None)"

fun hex_digits :: "int \<Rightarrow> u8 list \<Rightarrow> int \<times> u8 list" where
  "hex_digits acc [] = (acc, [])"
| "hex_digits acc (b # bs) =
     (case hex_val b of None \<Rightarrow> (acc, b # bs) | Some d \<Rightarrow> hex_digits (acc * 16 + d) bs)"

definition scan_unsigned_hex :: "u8 list \<Rightarrow> (int \<times> u8 list) option" where
  "scan_unsigned_hex s =
     (let s = (case s of z # x # d # ds \<Rightarrow>
                 if z = 0x30 \<and> x \<in> {0x78, 0x58} \<and> hex_val d \<noteq> None then d # ds else s | _ \<Rightarrow> s) in
      case s of
        [] \<Rightarrow> None
      | b # bs \<Rightarrow> if hex_val b = None then None else (case hex_digits 0 s of (v, rest) \<Rightarrow> Some (min v (2 ^ 64 - 1), rest)))"

definition scan_x :: "u8 list \<Rightarrow> (int \<times> u8 list) option" where
  "scan_x s =
     (case dropWhile is_space s of
        [] \<Rightarrow> None
      | b # bs \<Rightarrow>
          if b = 0x2D then map_option (apfst uminus) (scan_unsigned_hex bs)
          else if b = 0x2B then scan_unsigned_hex bs else scan_unsigned_hex (b # bs))"

text \<open>\<open>%x:%x:%x:%x:%x:%x\<close>: what is not converted stays 0; each number is stored in a byte.\<close>

fun scan_mac :: "nat \<Rightarrow> u8 list \<Rightarrow> u8 list" where
  "scan_mac 0 s = []"
| "scan_mac (Suc n) s =
     (case scan_x s of
        None \<Rightarrow> replicate (Suc n) 0
      | Some (v, rest) \<Rightarrow>
          word_of_int v #
          (case rest of c # cs \<Rightarrow> if c = 0x3A then scan_mac n cs else replicate n 0 | [] \<Rightarrow> replicate n 0))"

definition lookup_entry :: "'j cjson_api \<Rightarrow> 'j \<Rightarrow> string \<Rightarrow> nat \<Rightarrow> u8 list option" where
  "lookup_entry J cj name code =
     (let (rv, str) = js_lookup_string J cj (''0x'' @ hex_string code);
          (rv, str) = (if rv < 0 then js_lookup_string J cj name else (rv, str)) in
      if rv < 0 then None else Some str)"

definition entry_mac :: "u8 list option \<Rightarrow> onie_info \<Rightarrow> onie_info" where
  "entry_mac s info = (case s of None \<Rightarrow> info | Some str \<Rightarrow> info\<lparr>mac := scan_mac 6 str\<rparr>)"

definition entry_int :: "u8 list option \<Rightarrow> (int \<Rightarrow> onie_info \<Rightarrow> onie_info) \<Rightarrow> onie_info \<Rightarrow> onie_info" where
  "entry_int s put info = (case s of None \<Rightarrow> info | Some v \<Rightarrow> (case atoi (v @ [0]) of None \<Rightarrow> info | Some n \<Rightarrow> put n info))"

text \<open>From what \<open>cjson_util_parse_file\<close> makes of the file.\<close>

definition onlp_onie_read_json :: "'j cjson_api \<Rightarrow> int \<times> 'j \<Rightarrow> int \<times> onie_info" where
  "onlp_onie_read_json J parsed =
     (case parsed of
        (rv, cj) \<Rightarrow>
          if rv < 0 then (rv, onie_zero)
          else
            (let info = onie_zero;
                 info = info\<lparr>product_name := lookup_entry J cj ''Product Name'' 0x21\<rparr>;
                 info = info\<lparr>part_number := lookup_entry J cj ''Part Number'' 0x22\<rparr>;
                 info = info\<lparr>serial_number := lookup_entry J cj ''Serial Number'' 0x23\<rparr>;
                 info = entry_mac (lookup_entry J cj ''MAC'' 0x24) info;
                 info = info\<lparr>manufacture_date := lookup_entry J cj ''Manufacture Date'' 0x25\<rparr>;
                 info = entry_int (lookup_entry J cj ''Device Version'' 0x26) (\<lambda>n i. i\<lparr>device_version := word_of_int n\<rparr>) info;
                 info = info\<lparr>label_revision := lookup_entry J cj ''Label Revision'' 0x27\<rparr>;
                 info = info\<lparr>platform_name := lookup_entry J cj ''Platform Name'' 0x28\<rparr>;
                 info = info\<lparr>onie_version := lookup_entry J cj ''ONIE Version'' 0x29\<rparr>;
                 info = entry_int (lookup_entry J cj ''MAC Range'' 0x2A) (\<lambda>n i. i\<lparr>mac_range := word_of_int n\<rparr>) info;
                 info = info\<lparr>manufacturer := lookup_entry J cj ''Manufacturer'' 0x2B\<rparr>;
                 info = info\<lparr>country_code := lookup_entry J cj ''Country Code'' 0x2C\<rparr>;
                 info = info\<lparr>vendor := lookup_entry J cj ''Vendor'' 0x2D\<rparr>;
                 info = info\<lparr>diag_version := lookup_entry J cj ''Diag Version'' 0x2E\<rparr>;
                 info = info\<lparr>service_tag := lookup_entry J cj ''Service Tag'' 0x2F\<rparr> in
             (0, info)))"

section \<open>What survives\<close>

text \<open>
  The view of an object: its members. Adding puts one, unless the name is taken; looking up a plain name gives
  the string member of this name, and fails when there is none or it is no string; printing and parsing keep
  the members.
\<close>

datatype jval = JString "u8 list" | JNull | JNumber int

definition js_laws :: "'j cjson_api \<Rightarrow> ('j \<Rightarrow> string \<Rightarrow> jval option) \<Rightarrow> bool" where
  "js_laws J view \<longleftrightarrow>
     view (js_create J) = Map.empty \<and>
     (\<forall>cj n v. view cj n = None \<longrightarrow> view (js_add_string J n v cj) = (view cj)(n \<mapsto> JString v)) \<and>
     (\<forall>cj n. view cj n = None \<longrightarrow> view (js_add_null J n cj) = (view cj)(n \<mapsto> JNull)) \<and>
     (\<forall>cj n k. view cj n = None \<longrightarrow> view (js_add_number J n k cj) = (view cj)(n \<mapsto> JNumber k)) \<and>
     (\<forall>cj n. CHR ''.'' \<notin> set n \<longrightarrow>
        (case view cj n of Some (JString v) \<Rightarrow> js_lookup_string J cj n = (0, v) | _ \<Rightarrow> fst (js_lookup_string J cj n) < 0)) \<and>
     (\<forall>cj. fst (js_parse J (js_print J cj @ [0x0A])) = 0 \<and> view (snd (js_parse J (js_print J cj @ [0x0A]))) = view cj)"

definition jmember :: "u8 list option \<Rightarrow> jval" where
  "jmember m = (case m of Some v \<Rightarrow> JString (c_str v) | None \<Rightarrow> JNull)"

fun json_put :: "'j cjson_api \<Rightarrow> string \<times> jval \<Rightarrow> 'j \<Rightarrow> 'j" where
  "json_put J (n, JString v) = js_add_string J n v"
| "json_put J (n, JNull) = js_add_null J n"
| "json_put J (n, JNumber k) = js_add_number J n k"

definition onie_members :: "'j cjson_api \<Rightarrow> onie_info \<Rightarrow> (string \<times> jval) list" where
  "onie_members J info =
     [(''Product Name'', jmember (product_name info)), (''Part Number'', jmember (part_number info)),
      (''Serial Number'', jmember (serial_number info)), (''MAC'', JString (js_mac J (mac info))),
      (''Manufacturer'', jmember (manufacturer info)), (''Manufacture Date'', jmember (manufacture_date info)),
      (''Vendor'', jmember (vendor info)), (''Platform Name'', jmember (platform_name info)),
      (''Label Revision'', jmember (label_revision info)), (''Country Code'', jmember (country_code info)),
      (''Diag Version'', jmember (diag_version info)), (''Service Tag'', jmember (service_tag info)),
      (''ONIE Version'', jmember (onie_version info)), (''Device Version'', JNumber (uint (device_version info))),
      (''CRC'', JString (ascii (''0x'' @ hex_string (unat (onie_crc info)))))]"

lemma json_S_put: "json_S J n m = json_put J (n, jmember m)"
  by (cases m) (simp_all add: json_S_def jmember_def fun_eq_iff)

lemma onie_json_members: "onie_json J info = fold (json_put J) (onie_members J info) (js_create J)"
  by (simp add: onie_json_def onie_members_def json_S_put Let_def)

lemma view_put:
  "js_laws J view \<Longrightarrow> view cj n = None \<Longrightarrow> view (json_put J (n, m) cj) = (view cj)(n \<mapsto> m)"
  by (cases m) (simp_all add: js_laws_def)

lemma view_members:
  assumes l: "js_laws J view"
  shows "distinct (map fst xs) \<Longrightarrow> \<forall>n\<in>set (map fst xs). view cj n = None \<Longrightarrow>
    view (fold (json_put J) xs cj) = view cj ++ map_of xs"
proof (induction xs arbitrary: cj)
  case (Cons x xs)
  obtain n m where x: "x = (n, m)" by fastforce
  have v: "view (json_put J (n, m) cj) = (view cj)(n \<mapsto> m)" by (rule view_put [OF l]) (use Cons.prems x in simp)
  have "view (fold (json_put J) xs (json_put J (n, m) cj)) = view (json_put J (n, m) cj) ++ map_of xs"
    by (rule Cons.IH) (use Cons.prems x v in auto)
  moreover have "n \<notin> dom (map_of xs)" using Cons.prems(1) x by (simp add: dom_map_of_conv_image_fst)
  ultimately show ?case by (auto simp: x v map_add_upd_left fun_eq_iff map_add_def split: option.splits)
qed simp

lemma view_onie_json:
  assumes l: "js_laws J view"
  shows "view (onie_json J info) = map_of (onie_members J info)"
proof -
  have "view (js_create J) = Map.empty" using l by (simp add: js_laws_def)
  then show ?thesis
    using view_members [OF l, of "onie_members J info" "js_create J"]
    by (simp add: onie_json_members) (simp add: onie_members_def)
qed

text \<open>The code of an entry is looked up first; the file has no member of that name.\<close>

lemma lookup_entry_view:
  assumes l: "js_laws J view" and n: "CHR ''.'' \<notin> set name" "CHR ''.'' \<notin> set (hex_string code)"
    and c: "view cj (''0x'' @ hex_string code) = None"
  shows "lookup_entry J cj name code = (case view cj name of Some (JString v) \<Rightarrow> Some v | _ \<Rightarrow> None)"
proof -
  have look: "case view cj n of Some (JString v) \<Rightarrow> js_lookup_string J cj n = (0, v) | _ \<Rightarrow> fst (js_lookup_string J cj n) < 0"
    if "CHR ''.'' \<notin> set n" for n using l that by (simp add: js_laws_def)
  have "fst (js_lookup_string J cj (''0x'' @ hex_string code)) < 0" using look [of "''0x'' @ hex_string code"] n c by simp
  then show ?thesis using look [OF n(1)]
    by (auto simp: lookup_entry_def Let_def split: option.splits jval.splits prod.splits)
qed

lemma hex_string_small: "n < 16 \<Longrightarrow> hex_string n = [''0123456789abcdef'' ! n]"
  by (simp add: hex_string.simps)

lemma entry_codes: "code \<in> {0x21..0x2F} \<Longrightarrow> \<exists>c. hex_string code = [CHR ''2'', ''0123456789abcdef'' ! c] \<and> 0 < c \<and> c < 16"
proof -
  assume "code \<in> {0x21..0x2F}"
  then have "code div 16 = 2" "\<not> code < 16" "0 < code mod 16" by (auto simp: div_if mod_if)
  then show ?thesis
    by (intro exI [of _ "code mod 16"]) (simp add: hex_string.simps [of code] hex_string_small)
qed

lemma entry_code_absent:
  assumes "code \<in> {0x21..0x2F}"
  shows "CHR ''.'' \<notin> set (hex_string code) \<and> map_of (onie_members J info) (''0x'' @ hex_string code) = None"
proof -
  obtain c where c: "hex_string code = [CHR ''2'', ''0123456789abcdef'' ! c]" "c < 16" using entry_codes [OF assms] by blast
  have "\<forall>c<16. ''0123456789abcdef'' ! c \<noteq> CHR ''.''" by (simp add: All_less_Suc numeral_eq_Suc)
  then have "''0123456789abcdef'' ! c \<noteq> CHR ''.''" using c(2) by blast
  then show ?thesis using c by (auto simp: onie_members_def)
qed


subsection \<open>A concrete JSON library\<close>

type_synonym toy_json = "(string \<times> nat \<times> u8 list \<times> int) list"

definition toy_view :: "toy_json \<Rightarrow> string \<Rightarrow> jval option" where
  "toy_view cj n = map_option (\<lambda>(k, v, i). if k = 0 then JString v else if k = 1 then JNull else JNumber i) (map_of cj n)"

definition toy_mac :: "u8 list \<Rightarrow> u8 list" where
  "toy_mac bs = tl (concat (map (\<lambda>b. 0x3A # ascii [''0123456789abcdef'' ! unat (b div 16), ''0123456789abcdef'' ! unat (b mod 16)]) bs))"

text \<open>An object is printed in unary.\<close>

definition toy_cjson :: "toy_json cjson_api" where
  "toy_cjson = \<lparr>js_create = [], js_add_string = \<lambda>n v cj. (n, 0, v, 0) # cj, js_add_null = \<lambda>n cj. (n, 1, [], 0) # cj,
     js_add_number = \<lambda>n i cj. (n, 2, [], i) # cj, js_print = \<lambda>cj. replicate (to_nat cj) 0x31,
     js_parse = \<lambda>s. (0, from_nat (length s - 1)),
     js_lookup_string = \<lambda>cj n. (case toy_view cj n of Some (JString v) \<Rightarrow> (0, v) | _ \<Rightarrow> (-1, [])),
     js_mac = toy_mac\<rparr>"

lemma toy_js_laws: "js_laws toy_cjson toy_view"
  by (auto simp: js_laws_def toy_cjson_def toy_view_def fun_eq_iff split: option.splits jval.splits)

definition toy_onie :: onie_info where
  "toy_onie = onie_zero\<lparr>product_name := Some (ascii ''AS4564'' @ [0, 0]), mac := [0, 0x0B, 0x10, 0x7F, 0xA5, 0xFF],
     device_version := 3, mac_range := 64\<rparr>"


end
