(* ===== verification/Onlpdump.thy ===== *)
theory Onlpdump
  imports OnieJson OidTree SfpProps
begin

text \<open>
  Starting ONLP (\<open>onlp.c\<close>), its JSON configuration (\<open>onlp_json.c\<close>), the dump of the whole platform
  (\<open>platform_dump.c\<close>) and the command line tool \<open>onlpdump\<close> (\<open>onlp_main.c\<close>). Standard output, standard error and the
  output object are one sequence of print calls.
\<close>

section \<open>The configuration file (\<open>onlp_json.c\<close>)\<close>

text \<open>\<open>parse\<close> is \<open>cjson_util_parse_file\<close> (a status, and the object unless it is \<open>NULL\<close>), \<open>obj\<close> the object of \<open>{}\<close>.\<close>

record 'j json_state =
  json_root :: "'j option"
  json_file :: "string option"

definition onlp_json_denit :: "'j json_state \<Rightarrow> 'j json_state" where
  "onlp_json_denit st = \<lparr>json_root = None, json_file = None\<rparr>"

definition onlp_json_init :: "(string option \<Rightarrow> int \<times> 'j option) \<Rightarrow> 'j \<Rightarrow> string option \<Rightarrow> 'j json_state \<Rightarrow> 'j json_state" where
  "onlp_json_init parse obj fname st =
     (let st = onlp_json_denit st; (rv, root) = parse fname in
      if rv < 0 \<or> root = None then st\<lparr>json_root := Some obj\<rparr> else st\<lparr>json_root := root, json_file := fname\<rparr>)"

text \<open>A reload hands the name of the file to a function that frees it before it is used: \<open>None\<close>.\<close>

definition onlp_json_get ::
  "(string option \<Rightarrow> int \<times> 'j option) \<Rightarrow> 'j \<Rightarrow> bool \<Rightarrow> 'j json_state \<Rightarrow> ('j option \<times> 'j json_state) option" where
  "onlp_json_get parse obj reload st =
     (if reload then
        (case json_file st of
           Some _ \<Rightarrow> None
         | None \<Rightarrow> (let st = onlp_json_init parse obj None st in Some (json_root st, st)))
      else Some (json_root st, st))"

section \<open>Starting (\<open>onlp.c\<close>)\<close>

text \<open>A call that does not know the transceivers, on the state of all of ONLP.\<close>

definition on_hw ::
  "('l \<times> 'w \<Rightarrow> ('a \<times> 'l \<times> 'w) option) \<Rightarrow> 'l \<times> ('b, 'w) sfp_state \<Rightarrow> ('a \<times> 'l \<times> ('b, 'w) sfp_state) option" where
  "on_hw f s = (case s of (l, st) \<Rightarrow> map_option (\<lambda>(a, l, w). (a, l, st\<lparr>hw := w\<rparr>)) (f (l, hw st)))"

text \<open>The start of the lock and the reading of the configuration are arguments; no status is looked at.\<close>

definition onlp_init ::
  "('l \<Rightarrow> 'l) \<Rightarrow> 'l alock \<Rightarrow> 'w platform \<Rightarrow> 'b bitmap_ops \<Rightarrow> ('b, 'i, 'w) sfpi \<Rightarrow> 'l \<times> ('b, 'w) sfp_state
     \<Rightarrow> (int \<times> 'l \<times> ('b, 'w) sfp_state) option" where
  "onlp_init lock_init L P B S s =
     do { let s = (lock_init (fst s), snd s);
          (_, s) \<leftarrow> on_hw (onlp_sys_init L P) s;
          (_, s) \<leftarrow> onlp_sfp_init L B S s;
          (_, s) \<leftarrow> on_hw (onlp_led_init L P) s;
          (_, s) \<leftarrow> on_hw (onlp_psu_init L P) s;
          (_, s) \<leftarrow> on_hw (onlp_fan_init L P) s;
          (_, s) \<leftarrow> on_hw (onlp_thermal_init L P) s;
          Some (0, s) }"

section \<open>The whole platform (\<open>platform_dump.c\<close>)\<close>

definition onlp_platform_dump ::
  "nat \<Rightarrow> 'l alock \<Rightarrow> 'w platform \<Rightarrow> 'b bitmap_ops \<Rightarrow> ('b, 'i, 'w) sfpi \<Rightarrow> u32 \<Rightarrow> ('l \<times> ('b, 'w) sfp_state) printer" where
  "onlp_platform_dump n L P B S flags s =
     do { (o1, s) \<leftarrow> on_hw (onlp_oid_dump n L P ONLP_OID_SYS flags) s;
          (o2, s) \<leftarrow> onlp_sfp_dump L B S s;
          Some (o1 @ [Aprintf (nl @ ''SFPs:'' @ nl) []] @ o2, s) }"

definition onlp_platform_show ::
  "nat \<Rightarrow> 'l alock \<Rightarrow> 'w platform \<Rightarrow> u32 \<Rightarrow> ('l \<times> ('b, 'w) sfp_state) printer" where
  "onlp_platform_show n L P flags s = on_hw (onlp_oid_show n L P ONLP_OID_SYS flags) s"

section \<open>The inventory\<close>

text \<open>The SFF library is a parameter: what it makes of the bytes of a module, and the database entry it prints.\<close>

record sff =
  sff_identified :: bool
  module_type_name :: string
  media_type_name :: string
  length_desc :: string
  sff_vendor :: string
  sff_model :: string
  sff_serial :: string

record sff_lib =
  sff_eeprom_parse :: "u8 list \<Rightarrow> sff"
  sff_db_entry_struct :: "sff \<Rightarrow> string"

definition status_letters :: "u32 \<Rightarrow> string" where
  "status_letters status =
     (if has status (2 ^ 2) then ''R'' else []) @ (if has status (2 ^ 3) then ''T'' else []) @
     (if has status (2 ^ 4) then ''X'' else []) @ (if has status (2 ^ 6) then ''L'' else [])"

definition inventory_error :: "int \<Rightarrow> int \<Rightarrow> iof_op list" where
  "inventory_error port rv = [Aprintf (''%4d  Error %{onlp_status}'' @ nl) [FInt port, FInt rv]]"

definition inventory_port ::
  "'l alock \<Rightarrow> 'b bitmap_ops \<Rightarrow> ('b, 'i, 'w) sfpi \<Rightarrow> sff_lib \<Rightarrow> bool \<Rightarrow> int \<Rightarrow> ('l \<times> ('b, 'w) sfp_state) printer" where
  "inventory_port L B S F database port s =
     do { (rv, s) \<leftarrow> onlp_sfp_is_present L B S port s;
          if rv = 0 then Some (if database then [] else [Aprintf (''%4d  NONE'' @ nl) [FInt port]], s)
          else if rv < 0 then Some (inventory_error port rv, s)
          else do {
            ((rv, datap), s) \<leftarrow> onlp_sfp_eeprom_read L B S port None s;
            if rv < 0 then Some (inventory_error port rv, s)
            else do {
              data \<leftarrow> datap;
              let f = sff_eeprom_parse F data;
              if \<not> sff_identified f then Some ([Aprintf (''%13d  UNK'' @ nl) [FInt port]], s)
              else if database then Some ([Aprintf ''%s'' [FStr (sff_db_entry_struct F f)]], s)
              else do {
                ((_, status), s) \<leftarrow> onlp_sfp_control_flags_get L B S port (Some 0) s;
                Some ([Aprintf (''%4d  %-14s  %-6s  %-6.6s  %-5.5s  %-16.16s  %-16.16s  %16.16s'' @ nl)
                  [FInt port, FStr (module_type_name f), FStr (media_type_name f),
                   FStr (status_letters (case status of None \<Rightarrow> 0 | Some v \<Rightarrow> v)), FStr (length_desc f),
                   FStr (sff_vendor f), FStr (sff_model f), FStr (sff_serial f)]], s) } } } }"

definition inventory_head :: "iof_op list" where
  "inventory_head =
     [Aprintf (''Port  Type            Media   Status  Len    Vendor            Model             S/N             '' @ nl) [],
      Aprintf (''----  --------------  ------  ------  -----  ----------------  ----------------  ----------------'' @ nl) []]"

definition show_inventory ::
  "'l alock \<Rightarrow> 'b bitmap_ops \<Rightarrow> ('b, 'i, 'w) sfpi \<Rightarrow> sff_lib \<Rightarrow> bool \<Rightarrow> ('l \<times> ('b, 'w) sfp_state) printer" where
  "show_inventory L B S F database s =
     do { ((_, bitmap), s) \<leftarrow> onlp_sfp_bitmap_get L B S (onlp_sfp_bitmap_t_init B) s;
          if bm_count B bitmap = 0 then Some ([Aprintf (''No SFPs on this platform.'' @ nl) []], s)
          else do {
            (os, s) \<leftarrow> each (inventory_port L B S F database) (bm_iter B bitmap) s;
            Some ((if database then [] else inventory_head) @ os, s) } }"

section \<open>The list of the OIDs\<close>

text \<open>The static counters, and what is printed.\<close>

record oid_counters =
  c_thermal :: int
  c_fan :: int
  c_psu :: int
  c_out :: "iof_op list"

definition iterate_oids_callback :: "onlp_oid_t \<Rightarrow> oid_counters \<Rightarrow> int \<times> oid_counters" where
  "iterate_oids_callback oid c =
     (let line = (\<lambda>fmt k. c_out c @ [Aprintf (fmt @ nl) [FWord (ONLP_OID_ID_GET oid), FInt k]]) in
      (0, if ONLP_OID_TYPE_GET oid = ONLP_OID_TYPE THERMAL
          then c\<lparr>c_out := line ''thermal,Thermal %d,%d'' (c_thermal c), c_thermal := c_thermal c + 1\<rparr>
          else if ONLP_OID_TYPE_GET oid = ONLP_OID_TYPE FAN
          then c\<lparr>c_out := line ''fan,Fan %d,%d'' (c_fan c), c_fan := c_fan c + 1\<rparr>
          else if ONLP_OID_TYPE_GET oid = ONLP_OID_TYPE PSU
          then c\<lparr>c_out := line ''psu,PSU %d,%d'' (c_psu c), c_psu := c_psu c + 1\<rparr>
          else c))"

definition iterate_oids :: "nat \<Rightarrow> 'l alock \<Rightarrow> 'w platform \<Rightarrow> ('l \<times> ('b, 'w) sfp_state) printer" where
  "iterate_oids n L P s =
     (case s of (l, st) \<Rightarrow>
        map_option (\<lambda>(_, (l, w), c). (c_out c, l, st\<lparr>hw := w\<rparr>))
          (onlp_oid_iterate n L P 0 iterate_oids_callback ONLP_OID_SYS
             ((l, hw st), \<lparr>c_thermal = 1, c_fan = 1, c_psu = 1, c_out = []\<rparr>)))"

section \<open>Options\<close>

text \<open>
  \<open>getopt\<close> of the C library on the arguments after the name: the options in their order, \<open>?\<close> for one that is
  not known or lacks its argument; other words are passed over, and nothing after \<open>--\<close> is an option.
\<close>

definition option_kind :: "char \<Rightarrow> bool option" where
  "option_kind c =
     (if c \<in> set ''MtOJ'' then Some True else if c \<in> set ''srehdojmyipxlSb'' then Some False else None)"

function (sequential) getopt :: "string \<Rightarrow> string list \<Rightarrow> (char \<times> string) list" where
  "getopt [] [] = []"
| "getopt [] (a # as) =
     (if a = ''--'' then [] else (case a of [] \<Rightarrow> getopt [] as | c # cs \<Rightarrow> if c = CHR ''-'' then getopt cs as else getopt [] as))"
| "getopt (c # cs) as =
     (case option_kind c of
        None \<Rightarrow> (CHR ''?'', []) # getopt cs as
      | Some False \<Rightarrow> (c, []) # getopt cs as
      | Some True \<Rightarrow>
          if cs \<noteq> [] then (c, cs) # getopt [] as
          else (case as of [] \<Rightarrow> [(CHR ''?'', [])] | x # xs \<Rightarrow> (c, x) # getopt [] xs))"
  by pat_completeness auto

termination
  by (relation "measure (\<lambda>(cs, as). length cs + 2 * length as + sum_list (map length as))")
    (auto split: if_splits)

record dump_options =
  o_show :: int
  o_showflags :: u32
  o_help :: bool
  o_rv :: int
  o_j :: bool
  o_o :: bool
  o_m :: bool
  o_i :: bool
  o_p :: bool
  o_x :: bool
  o_S :: bool
  o_l :: bool
  o_M :: bool
  o_b :: bool
  o_pidfile :: "string option"
  o_O :: "string option"
  o_t :: "string option"
  o_J :: "string option"

definition no_options :: dump_options where
  "no_options = \<lparr>o_show = 0, o_showflags = 0, o_help = False, o_rv = -1, o_j = False, o_o = False, o_m = False,
     o_i = False, o_p = False, o_x = False, o_S = False, o_l = False, o_M = False, o_b = False,
     o_pidfile = None, o_O = None, o_t = None, o_J = None\<rparr>"

definition set_option :: "char \<times> string \<Rightarrow> dump_options \<Rightarrow> dump_options" where
  "set_option ca ops =
     (let (c, optarg) = ca in
      if c = CHR ''s'' then ops\<lparr>o_show := 1\<rparr>
      else if c = CHR ''r'' then ops\<lparr>o_show := 1, o_showflags := o_showflags ops OR ONLP_OID_SHOW_RECURSE\<rparr>
      else if c = CHR ''e'' then ops\<lparr>o_show := 1, o_showflags := o_showflags ops OR ONLP_OID_SHOW_EXTENDED\<rparr>
      else if c = CHR ''d'' then ops\<lparr>o_show := 0\<rparr>
      else if c = CHR ''h'' then ops\<lparr>o_help := True, o_rv := 0\<rparr>
      else if c = CHR ''j'' then ops\<lparr>o_j := True\<rparr>
      else if c = CHR ''o'' then ops\<lparr>o_o := True\<rparr>
      else if c = CHR ''x'' then ops\<lparr>o_x := True\<rparr>
      else if c = CHR ''m'' then ops\<lparr>o_m := True\<rparr>
      else if c = CHR ''M'' then ops\<lparr>o_M := True, o_pidfile := Some optarg\<rparr>
      else if c = CHR ''i'' then ops\<lparr>o_i := True\<rparr>
      else if c = CHR ''p'' then ops\<lparr>o_p := True, o_show := -1\<rparr>
      else if c = CHR ''t'' then ops\<lparr>o_t := Some optarg\<rparr>
      else if c = CHR ''O'' then ops\<lparr>o_O := Some optarg\<rparr>
      else if c = CHR ''S'' then ops\<lparr>o_S := True\<rparr>
      else if c = CHR ''l'' then ops\<lparr>o_l := True\<rparr>
      else if c = CHR ''b'' then ops\<lparr>o_b := True\<rparr>
      else if c = CHR ''J'' then ops\<lparr>o_J := Some optarg\<rparr>
      else if c = CHR ''y'' then ops\<lparr>o_show := 1, o_showflags := o_showflags ops OR ONLP_OID_SHOW_YAML\<rparr>
      else ops\<lparr>o_help := True, o_rv := 1\<rparr>)"

definition usage :: "string \<Rightarrow> iof_op list" where
  "usage argv0 = Aprintf (''Usage: %s [OPTIONS]'' @ nl) [FStr argv0] #
     map (\<lambda>l. Aprintf (''  '' @ l @ nl) [])
       [''-d   Use dump(). This is the default.'', ''-s   Use show() instead of dump().'',
        ''-r   Recursive show(). Implies -s'', ''-e   Extended show(). Implies -s'', ''-y   Yaml show(). Implies -s'',
        ''-o   Dump ONIE data only.'', ''-x   Dump Platform Info only.'', ''-j   Dump ONIE data in JSON format.'',
        ''-m   Run platform manager.'', ''-M   Run as platform manager daemon.'', ''-i   Iterate OIDs.'',
        ''-p   Show SFP presence.'', ''-t   <file>  Decode TlvInfo data.'', ''-O   <oid> Dump OID.'',
        ''-S   Decode SFP Inventory'', ''-b   Decode SFP Inventory into SFF database entries.'',
        ''-l   API Lock test.'', ''-J   Decode ONIE JSON data.'']"

section \<open>The requests\<close>

text \<open>
  What the tool calls besides: files, JSON, the SFF library, the daemon, the test of the API lock (its status and
  the new state), and the platform manager, run for ten minutes.
\<close>

record ('j, 's) dump_env =
  de_cjson :: "'j cjson_api"
  de_parse :: "string \<Rightarrow> int \<times> 'j"
  de_file :: "string \<Rightarrow> (int \<times> u8 list) option"
  de_sff :: sff_lib
  de_daemon :: "string option \<Rightarrow> 's \<Rightarrow> 's"
  de_lock_test :: "'s \<Rightarrow> (int \<times> 's) option"
  de_manage :: "'s \<Rightarrow> 's option"
  de_junk_onie :: onie_info

text \<open>The test is repeated until it fails; \<open>None\<close> when it has not failed within the fuel.\<close>

fun lock_test_loop :: "('j, 's) dump_env \<Rightarrow> nat \<Rightarrow> int \<Rightarrow> 's \<Rightarrow> (iof_op list \<times> 's) option" where
  "lock_test_loop E 0 i s = None"
| "lock_test_loop E (Suc n) i s =
     do { (rv, s) \<leftarrow> de_lock_test E s;
          if rv \<noteq> 0 then Some ([], s)
          else do { (os, s) \<leftarrow> lock_test_loop E n (i + 1) s;
                    Some (Aprintf (''%d'' @ [CHR 0x0D]) [FInt i] # os, s) } }"

definition dump_onie_json :: "('j, 's) dump_env \<Rightarrow> string \<Rightarrow> int \<times> iof_op list" where
  "dump_onie_json E J =
     (let (rv, onie) = onlp_onie_read_json (de_cjson E) (de_parse E J) in
      if rv < 0 then (1, [Aprintf (''onie read json failed: %d'' @ nl) [FInt rv]]) else (0, onlp_onie_show onie))"

definition dump_tlv_file ::
  "(onie_vx \<Rightarrow> onie_vx list \<Rightarrow> onie_vx list) \<Rightarrow> ('j, 's) dump_env \<Rightarrow> string \<Rightarrow> (int \<times> iof_op list) option" where
  "dump_tlv_file lpush E t =
     do { (rv, onie) \<leftarrow> onlp_onie_decode_file lpush (de_file E t) (de_junk_onie E);
          onie \<leftarrow> onie;
          Some (if rv \<ge> 0 then (0, onlp_onie_show onie) else (1, [Aprintf ''Decode failed.'' []])) }"

text \<open>\<open>sscanf\<close> with \<open>0x%x\<close>\<close>

definition scan_oid :: "string \<Rightarrow> onlp_oid_t option" where
  "scan_oid s =
     (case s of
        z # x # rest \<Rightarrow>
          if z = CHR ''0'' \<and> x = CHR ''x'' then map_option (\<lambda>(v, _). word_of_int v) (scan_x (ascii rest)) else None
      | _ \<Rightarrow> None)"

definition dump_oid ::
  "nat \<Rightarrow> 'l alock \<Rightarrow> 'w platform \<Rightarrow> string \<Rightarrow> ('l \<times> ('b, 'w) sfp_state) printer" where
  "dump_oid n L P oarg s =
     (case scan_oid oarg of
        None \<Rightarrow> Some ([], s)
      | Some oid \<Rightarrow> on_hw (onlp_oid_dump n L P oid (ONLP_OID_DUMP_RECURSE OR ONLP_OID_DUMP_EVEN_IF_ABSENT)) s)"

definition dump_sys_info ::
  "'l alock \<Rightarrow> 'w platform \<Rightarrow> ('j, 's) dump_env \<Rightarrow> dump_options \<Rightarrow> 'l \<times> ('b, 'w) sfp_state
     \<Rightarrow> ((int \<times> iof_op list) \<times> 'l \<times> ('b, 'w) sfp_state) option" where
  "dump_sys_info L P E opt s =
     do { ((rv, si), s) \<leftarrow> on_hw (onlp_sys_info_get L P (Some sys_info_zero)) s;
          if rv < 0 then Some ((1, [Aprintf ''onlp_sys_info_get() failed.'' []]), s)
          else do {
            si \<leftarrow> si;
            let out =
              (if o_o opt then
                 if o_j opt then onlp_onie_show_json (de_cjson E) (si_onie si) else onlp_onie_show (si_onie si)
               else []) @
              (if o_x opt then
                 if o_j opt then onlp_platform_info_show_json (si_platform si) else onlp_platform_info_show (si_platform si)
               else []);
            Some ((0, out), fst s, (snd s)\<lparr>hw := onlp_sys_info_free P si (hw (snd s))\<rparr>) } }"

definition dump_presence ::
  "'l alock \<Rightarrow> 'b bitmap_ops \<Rightarrow> ('b, 'i, 'w) sfpi \<Rightarrow> ('l \<times> ('b, 'w) sfp_state) printer" where
  "dump_presence L B S s =
     do { ((rv, presence), s) \<leftarrow> onlp_sfp_presence_bitmap_get L B S (onlp_sfp_bitmap_t_init B) s;
          Some ([Aprintf ''Presence: '' [],
                 if rv < 0 then Aprintf (''Error %{onlp_status}'' @ nl) [FInt rv]
                 else Aprintf (''%{aim_bitmap}'' @ nl) (bm_arg B presence)], s) }"

definition dump_default ::
  "nat \<Rightarrow> 'l alock \<Rightarrow> 'w platform \<Rightarrow> 'b bitmap_ops \<Rightarrow> ('b, 'i, 'w) sfpi \<Rightarrow> ('j, 'l \<times> ('b, 'w) sfp_state) dump_env \<Rightarrow> dump_options
     \<Rightarrow> ('l \<times> ('b, 'w) sfp_state) printer" where
  "dump_default n L P B S E opt s =
     do { (o1, s) \<leftarrow>
            (if o_show opt < 0 then Some ([], s)
             else if o_show opt = 0 then
               onlp_platform_dump n L P B S (ONLP_OID_DUMP_RECURSE OR ONLP_OID_DUMP_EVEN_IF_ABSENT) s
             else onlp_platform_show n L P (o_showflags opt) s);
          (o2, s) \<leftarrow>
            (if o_m opt then
               do { s \<leftarrow> de_manage E s;
                    Some ([Aprintf (''Running the platform manager for 600 seconds...'' @ nl) [],
                           Aprintf (''Stopping the platform manager.'' @ nl) []], s) }
             else Some ([], s));
          (o3, s) \<leftarrow> (if o_p opt then dump_presence L B S s else Some ([], s));
          Some (o1 @ o2 @ o3, s) }"

text \<open>The requests in the order in which they are looked at; the lock test never comes to the next.\<close>

definition onlpdump_main ::
  "nat \<Rightarrow> ('l \<Rightarrow> 'l) \<Rightarrow> 'l alock \<Rightarrow> 'w platform \<Rightarrow> 'b bitmap_ops \<Rightarrow> ('b, 'i, 'w) sfpi \<Rightarrow> ('j, 'l \<times> ('b, 'w) sfp_state) dump_env
     \<Rightarrow> string \<Rightarrow> string list \<Rightarrow> 'l \<times> ('b, 'w) sfp_state \<Rightarrow> ((int \<times> iof_op list) \<times> 'l \<times> ('b, 'w) sfp_state) option" where
  "onlpdump_main n lock_init L P B S E argv0 args s =
     (let fin = (\<lambda>(os, s). ((0, os), s)); opt = fold set_option (getopt [] args) no_options in
      if args \<noteq> [] \<and> hd args = ''debug'' then
        do { (_, s) \<leftarrow> onlp_init lock_init L P B S s;
             (rv, s) \<leftarrow> on_hw (onlp_sys_debug L P (tl args)) s;
             Some ((rv, []), s) }
      else if args \<noteq> [] \<and> hd args = ''debugi'' then
        do { (rv, s) \<leftarrow> on_hw (\<lambda>(l, w). case onlp_sysi_debug (sys_drv P) (tl args) w of (rv, w) \<Rightarrow> Some (rv, l, w)) s;
             Some ((rv, []), s) }
      else if o_help opt then Some ((o_rv opt, usage argv0), s)
      else
        (case o_J opt of
           Some J \<Rightarrow> Some (dump_onie_json E J, s)
         | None \<Rightarrow>
             (case o_t opt of
                Some t \<Rightarrow> map_option (\<lambda>r. (r, s)) (dump_tlv_file (list_push P) E t)
              | None \<Rightarrow>
                  do { (_, s) \<leftarrow> onlp_init lock_init L P B S s;
                       if o_M opt then Some ((0, []), de_daemon E (o_pidfile opt) s)
                       else if o_l opt then map_option (\<lambda>(os, s). ((1, os), s)) (lock_test_loop E n 1 s)
                       else if o_S opt then map_option fin (show_inventory L B S (de_sff E) (o_b opt) s)
                       else if o_O opt \<noteq> None then map_option fin (dump_oid n L P (the (o_O opt)) s)
                       else if o_i opt then map_option fin (iterate_oids n L P s)
                       else if o_o opt \<or> o_x opt then dump_sys_info L P E opt s
                       else map_option fin (dump_default n L P B S E opt s) })))"

end
