(* ===== verification/OnlpdumpProps.thy ===== *)
theory OnlpdumpProps
  imports Onlpdump
begin

text \<open>
  The tool returns: every call it makes takes the API lock and gives it back, and what it prints is balanced.
\<close>

section \<open>Calls that return\<close>

definition returns :: "(shlock option \<times> 's \<Rightarrow> ('a \<times> shlock option \<times> 's) option) \<Rightarrow> ('a \<Rightarrow> bool) \<Rightarrow> bool" where
  "returns f Q \<longleftrightarrow> (\<forall>s. sh_free (fst s) \<longrightarrow> (\<exists>r s'. f s = Some (r, s') \<and> sh_free (fst s') \<and> Q r))"

named_theorems return_rules

lemma returnsD: "returns f Q \<Longrightarrow> sh_free (fst s) \<Longrightarrow> \<exists>r s'. f s = Some (r, s') \<and> sh_free (fst s') \<and> Q r"
  unfolding returns_def by blast

lemma returnsI: "(\<And>s. sh_free (fst s) \<Longrightarrow> \<exists>r s'. f s = Some (r, s') \<and> sh_free (fst s') \<and> Q r) \<Longrightarrow> returns f Q"
  unfolding returns_def by blast

lemma returns_Some [return_rules]: "Q a \<Longrightarrow> returns (\<lambda>s. Some (a, s)) Q"
  by (simp add: returns_def)

lemma returns_bind [return_rules]:
  fixes f :: "shlock option \<times> 's \<Rightarrow> ('a \<times> shlock option \<times> 's) option"
  assumes "returns f Q" "\<And>r. Q r \<Longrightarrow> returns (g r) R"
  shows "returns (\<lambda>s. Option.bind (f s) (\<lambda>(r, s). g r s)) R"
proof (rule returnsI)
  fix s :: "shlock option \<times> 's" assume "sh_free (fst s)"
  then obtain r s1 where f: "f s = Some (r, s1)" "sh_free (fst s1)" "Q r" using returnsD [OF assms(1)] by blast
  then show "\<exists>r' s'. Option.bind (f s) (\<lambda>(r, s). g r s) = Some (r', s') \<and> sh_free (fst s') \<and> R r'"
    using returnsD [OF assms(2) [OF f(3)] f(2)] by simp
qed

lemma returns_bind2 [return_rules]:
  assumes "returns f (\<lambda>(a, b). Q a b)" "\<And>a b. Q a b \<Longrightarrow> returns (g a b) R"
  shows "returns (\<lambda>s. Option.bind (f s) (\<lambda>((a, b), s). g a b s)) R"
  using returns_bind [of f "\<lambda>(a, b). Q a b" "\<lambda>(a, b). g a b" R] assms by (simp add: case_prod_unfold)

lemma returns_if [return_rules]:
  "(c \<Longrightarrow> returns f Q) \<Longrightarrow> (\<not> c \<Longrightarrow> returns g Q) \<Longrightarrow> returns (\<lambda>s. if c then f s else g s) Q"
  by (cases c) simp_all

lemma returns_weaken: "returns f Q \<Longrightarrow> (\<And>r. Q r \<Longrightarrow> R r) \<Longrightarrow> returns f R"
  unfolding returns_def by blast

lemma returns_locked:
  fixes body :: "'s \<Rightarrow> ('a \<times> 's) option"
  assumes "\<And>w. \<exists>r w'. body w = Some (r, w') \<and> Q r"
  shows "returns (locked_api (shared_alock me) api body) Q"
proof (rule returnsI)
  fix s :: "shlock option \<times> 's" assume free: "sh_free (fst s)"
  then have g: "shl.good s" by (simp add: shl.good_def)
  obtain r w where "body (snd s) = Some (r, w)" "Q r" using assms by blast
  then show "\<exists>r s'. locked_api (shared_alock me) api body s = Some (r, s') \<and> sh_free (fst s') \<and> Q r"
    using shl.locked_api_eq [OF g, of "shared_alock me" me api body] shl.after_good(2) [of "fst s" me] free
    by (simp add: shared_alock_def)
qed

lemma returns_total1: "returns (locked_api (shared_alock me) api (total1 f)) (\<lambda>_. True)"
  by (rule returns_locked) (auto simp: total1_def)

lemma returns_total2: "returns (locked_api (shared_alock me) api (total2 f)) (\<lambda>(_, _). True)"
  by (rule returns_locked) (auto simp: total2_def split: prod.splits)

lemma returns_on_hw [return_rules]: "returns f Q \<Longrightarrow> returns (on_hw f) Q"
  unfolding returns_def on_hw_def by fastforce

lemma returns_prints: "returns f balanced \<longleftrightarrow> prints shl.good f"
  by (simp add: returns_def prints_def shl.good_def) metis

lemma returns_each [return_rules]: "(\<And>x. returns (f x) balanced) \<Longrightarrow> returns (each f xs) balanced"
  unfolding returns_prints by (rule each_prints)

lemma returns_map: "returns f Q \<Longrightarrow> (\<And>r. Q r \<Longrightarrow> R (h r)) \<Longrightarrow> returns (\<lambda>s. map_option (\<lambda>(r, s). (h r, s)) (f s)) R"
  unfolding returns_def by fastforce

lemma balanced_lines: "\<forall>x\<in>set os. \<exists>fmt args. x = Aprintf fmt args \<or> x = Iprintf fmt args \<Longrightarrow> balanced os"
  by (induction os) (fastforce simp: balanced_def)+

section \<open>The transceiver calls\<close>

lemma sfp_returns [return_rules]:
  "returns (onlp_sfp_init (shared_alock me) B S) (\<lambda>_. True)"
  "returns (onlp_sfp_is_present (shared_alock me) B S port) (\<lambda>_. True)"
  "returns (onlp_sfp_bitmap_get (shared_alock me) B S bm) (\<lambda>(_, _). True)"
  "returns (onlp_sfp_presence_bitmap_get (shared_alock me) B S bm) (\<lambda>(_, _). True)"
  "returns (onlp_sfp_rx_los_bitmap_get (shared_alock me) B S bm) (\<lambda>(_, _). True)"
  "returns (onlp_sfp_control_get (shared_alock me) B S port c v) (\<lambda>(_, _). True)"
  by (simp_all add: onlp_sfp_init_def onlp_sfp_is_present_def onlp_sfp_bitmap_get_def onlp_sfp_presence_bitmap_get_def
      onlp_sfp_rx_los_bitmap_get_def onlp_sfp_control_get_def returns_total1 returns_total2)

lemma eeprom_returns [return_rules]:
  "returns (onlp_sfp_eeprom_read (shared_alock me) B S port None) (\<lambda>(rv, d). rv < 0 \<or> d \<noteq> None)"
  unfolding onlp_sfp_eeprom_read_def
  by (rule returns_locked)
    (auto simp: total2_def onlp_sfp_eeprom_read_locked_def read_256_def Let_def split: prod.splits option.splits)

lemma control_flags_loop_returns:
  "returns (control_flags_loop (shared_alock me) B S port cs fl v) (\<lambda>(_, _). True)"
proof (induction cs arbitrary: fl v)
  case Nil then show ?case by (simp add: returns_def)
next
  case (Cons c cs)
  have "returns (\<lambda>s. Option.bind (onlp_sfp_control_get (shared_alock me) B S port c v s) (\<lambda>((rv, v), s).
      if rv \<ge> 0 then control_flags_loop (shared_alock me) B S port cs (if v \<noteq> Some 0 then fl OR push_bit (nat c) 1 else fl) v s
      else if rv \<noteq> ONLP_STATUS_E_UNSUPPORTED then Some ((rv, fl), s)
      else control_flags_loop (shared_alock me) B S port cs fl v s)) (\<lambda>(_, _). True)"
    by (rule returns_bind2 [OF sfp_returns(6)]) (intro returns_if returns_Some Cons.IH; simp)
  moreover have "control_flags_loop (shared_alock me) B S port (c # cs) fl v = (\<lambda>s. Option.bind (onlp_sfp_control_get (shared_alock me) B S port c v s)
      (\<lambda>((rv, v), s). if rv \<ge> 0 then control_flags_loop (shared_alock me) B S port cs (if v \<noteq> Some 0 then fl OR push_bit (nat c) 1 else fl) v s
         else if rv \<noteq> ONLP_STATUS_E_UNSUPPORTED then Some ((rv, fl), s)
         else control_flags_loop (shared_alock me) B S port cs fl v s))"
    by (rule ext) simp
  ultimately show ?case by (rule ssubst [where P="\<lambda>f. returns f (\<lambda>(_, _). True)", rotated])
qed

lemma control_flags_returns [return_rules]:
  fixes S :: "('b, 'i, 'w) sfpi"
  shows "returns (onlp_sfp_control_flags_get (shared_alock me) B S port (Some v)) (\<lambda>(_, _). True)"
proof (rule returnsI)
  fix s :: "shlock option \<times> ('b, 'w) sfp_state" assume "sh_free (fst s)"
  from returnsD [OF control_flags_loop_returns this] obtain r s1 where
    "control_flags_loop (shared_alock me) B S port queried_controls 0 (Some (sfp_junk S (hw (snd s)))) s = Some (r, s1)" "sh_free (fst s1)"
    by blast
  then show "\<exists>r s'. onlp_sfp_control_flags_get (shared_alock me) B S port (Some v) s = Some (r, s') \<and> sh_free (fst s') \<and>
      (case r of (_, _) \<Rightarrow> True)"
    by (cases r) (auto simp: onlp_sfp_control_flags_get_def)
qed

lemma returns_opt [return_rules]:
  "m \<noteq> None \<Longrightarrow> (\<And>d. m = Some d \<Longrightarrow> returns (g d) Q) \<Longrightarrow> returns (\<lambda>s. Option.bind m (\<lambda>d. g d s)) Q"
  by (cases m) simp_all

lemma balanced_line [simp]: "balanced [Aprintf fmt args]" "balanced (Aprintf fmt args # os) \<longleftrightarrow> balanced os"
  by (simp_all add: balanced_def)

lemma sfp_dump_present_returns [return_rules]:
  "returns (sfp_dump_present (shared_alock me) B S p) balanced"
  unfolding sfp_dump_present_def [abs_def]
  by (rule returns_bind2 [OF control_flags_returns], rule returns_bind2 [OF eeprom_returns], rule returns_Some) simp

lemma sfp_dump_port_returns [return_rules]: "returns (sfp_dump_port (shared_alock me) B S p) balanced"
  unfolding sfp_dump_port_def [abs_def]
  by (rule returns_bind [OF sfp_returns(2)], rule returns_bind [where Q=balanced], intro return_rules; simp)
    (rule returns_Some, simp)

lemma dump_bitmap_balanced [simp]: "balanced (dump_bitmap B err rv bm)"
  by (simp add: dump_bitmap_def)

lemma onlp_sfp_dump_returns [return_rules]:
  fixes S :: "('b, 'i, 'w) sfpi"
  shows "returns (onlp_sfp_dump (shared_alock me) B S) balanced"
proof (rule returnsI)
  fix s :: "shlock option \<times> ('b, 'w) sfp_state" assume g: "sh_free (fst s)"
  obtain r1 s1 where 1: "onlp_sfp_presence_bitmap_get (shared_alock me) B S (onlp_sfp_bitmap_t_init B) s = Some (r1, s1)" "sh_free (fst s1)"
    using returnsD [OF sfp_returns(4) g] by blast
  obtain r2 s2 where 2: "onlp_sfp_rx_los_bitmap_get (shared_alock me) B S (snd r1) s1 = Some (r2, s2)" "sh_free (fst s2)"
    using returnsD [OF sfp_returns(5) 1(2)] by blast
  obtain os s3 where 3: "each (sfp_dump_port (shared_alock me) B S) (bm_iter B (sfpi_bitmap (snd s2))) s2 = Some (os, s3)"
    "sh_free (fst s3)" "balanced os"
    using returnsD [OF returns_each [where f="sfp_dump_port (shared_alock me) B S", OF sfp_dump_port_returns] 2(2)] by blast
  then show "\<exists>r s'. onlp_sfp_dump (shared_alock me) B S s = Some (r, s') \<and> sh_free (fst s') \<and> balanced r"
    using 1 2 g by (cases r1; cases r2; cases s; cases s3) (auto simp: onlp_sfp_dump_def intro!: balanced_append)
qed

section \<open>The requests\<close>

lemma inventory_port_returns [return_rules]: "returns (inventory_port (shared_alock me) B S F database p) balanced"
  unfolding inventory_port_def [abs_def] Let_def
  apply (rule returns_bind [OF sfp_returns(2)])
  apply (intro returns_if returns_bind2 [OF eeprom_returns] returns_opt returns_bind2 [OF control_flags_returns] returns_Some)
  apply (auto simp: inventory_error_def)
  done

lemma show_inventory_returns [return_rules]: "returns (show_inventory (shared_alock me) B S F database) balanced"
  unfolding show_inventory_def [abs_def]
  apply (rule returns_bind2 [OF sfp_returns(3)])
  apply (intro returns_if returns_Some returns_bind [OF returns_each [OF inventory_port_returns]])
  apply (auto simp: inventory_head_def)
  done

lemma dump_presence_returns [return_rules]: "returns (dump_presence (shared_alock me) B S) balanced"
  unfolding dump_presence_def [abs_def]
  by (rule returns_bind2 [OF sfp_returns(4)], rule returns_Some) simp

lemma oid_dump_returns:
  assumes "ranked P rank" "onie_readable P" "rank (oid_or_sys oid) < n"
  shows "returns (on_hw (onlp_oid_dump n (shared_alock me) P oid flags)) balanced"
    and "returns (on_hw (onlp_oid_show n (shared_alock me) P oid flags)) balanced"
proof -
  have "prints shl.good (onlp_oid_showdump n b (shared_alock me) P oid flags)" for b
    by (rule shl.onlp_oid_showdump_prints [OF _ assms]) (simp add: shared_alock_def)
  then have "returns (onlp_oid_showdump n b (shared_alock me) P oid flags) balanced" for b by (simp add: returns_prints)
  then show "returns (on_hw (onlp_oid_dump n (shared_alock me) P oid flags)) balanced"
    "returns (on_hw (onlp_oid_show n (shared_alock me) P oid flags)) balanced"
    by (auto simp: onlp_oid_dump_def [abs_def] onlp_oid_show_def [abs_def] intro: returns_on_hw)
qed

lemma platform_dump_returns:
  assumes "ranked P rank" "onie_readable P" "rank ONLP_OID_SYS < n"
  shows "returns (onlp_platform_dump n (shared_alock me) P B S flags) balanced"
    and "returns (onlp_platform_show n (shared_alock me) P flags) balanced"
proof -
  have r: "rank (oid_or_sys ONLP_OID_SYS) < n" using assms(3) by (simp add: oid_or_sys_def)
  show "returns (onlp_platform_dump n (shared_alock me) P B S flags) balanced"
    unfolding onlp_platform_dump_def [abs_def]
    by (rule returns_bind [OF oid_dump_returns(1) [OF assms(1,2) r]], rule returns_bind [OF onlp_sfp_dump_returns], rule returns_Some)
      (simp add: balanced_append)
  show "returns (onlp_platform_show n (shared_alock me) P flags) balanced"
    unfolding onlp_platform_show_def [abs_def] by (rule oid_dump_returns(2) [OF assms(1,2) r])
qed

lemma sys_info_returns:
  assumes "ranked P rank" "onie_readable P"
  shows "returns (onlp_sys_info_get (shared_alock me) P (Some x)) (\<lambda>(rv, si). rv = 0 \<and> si \<noteq> None)"
  unfolding onlp_sys_info_get_def
proof (rule returns_locked)
  fix w show "\<exists>r w'. onlp_sys_info_get_locked P (Some x) w = Some (r, w') \<and> (case r of (rv, si) \<Rightarrow> rv = 0 \<and> si \<noteq> None)"
    using sys_info_body [OF assms(2,1), of x w] by fastforce
qed

lemma balanced_printed [simp]:
  "balanced (onlp_onie_show i)" "balanced (onlp_onie_show_json J i)" "balanced (onlp_platform_info_show p)"
  "balanced (onlp_platform_info_show_json p)" "balanced (usage a)"
proof -
  show "balanced (onlp_onie_show i)"
    by (rule balanced_lines) (auto simp: onlp_onie_show_def show_str_def only_def split: option.splits if_splits)
  show "balanced (onlp_onie_show_json J i)" "balanced (usage a)"
    by (rule balanced_lines; auto simp: onlp_onie_show_json_def usage_def)+
  show "balanced (onlp_platform_info_show p)" "balanced (onlp_platform_info_show_json p)"
    by (rule balanced_lines; auto simp: onlp_platform_info_show_def onlp_platform_info_show_json_def strout_def split: option.splits)+
qed

lemma dump_sys_info_returns:
  fixes P :: "'w platform"
  assumes "ranked P rank" "onie_readable P"
  shows "returns (dump_sys_info (shared_alock me) P E opt :: shlock option \<times> ('b, 'w) sfp_state \<Rightarrow> _) (\<lambda>(code, out). code = 0 \<and> balanced out)"
proof (rule returnsI)
  fix s :: "shlock option \<times> ('b, 'w) sfp_state" assume "sh_free (fst s)"
  from returnsD [OF returns_on_hw [OF sys_info_returns [OF assms]] this] obtain si s1 where
    "on_hw (onlp_sys_info_get (shared_alock me) P (Some sys_info_zero)) s = Some ((0, Some si), s1)" "sh_free (fst s1)"
    by blast
  then show "\<exists>r s'. dump_sys_info (shared_alock me) P E opt s = Some (r, s') \<and> sh_free (fst s') \<and>
      (case r of (code, out) \<Rightarrow> code = 0 \<and> balanced out)"
    by (cases s1) (auto simp: dump_sys_info_def Let_def intro!: balanced_append)
qed

lemma init_returns:
  fixes P :: "'w platform" and S :: "('b, 'i, 'w) sfpi"
  assumes "\<forall>w. onlp_sys_init_locked P w \<noteq> None" and li: "\<And>g. sh_free g \<Longrightarrow> sh_free (lock_init g)"
  shows "returns (onlp_init lock_init (shared_alock me) P B S) (\<lambda>_. True)"
proof -
  have sys: "returns (onlp_sys_init (shared_alock me) P) (\<lambda>_. True)"
    unfolding onlp_sys_init_def by (rule returns_locked) (use assms(1) in auto)
  have led: "returns (onlp_led_init (shared_alock me) P) (\<lambda>_. True)"
    and psu: "returns (onlp_psu_init (shared_alock me) P) (\<lambda>_. True)"
    and fan: "returns (onlp_fan_init (shared_alock me) P) (\<lambda>_. True)"
    and thermal: "returns (onlp_thermal_init (shared_alock me) P) (\<lambda>_. True)"
    by (simp_all add: onlp_led_init_def onlp_psu_init_def onlp_fan_init_def onlp_thermal_init_def returns_total1)
  have r: "returns (\<lambda>s. do { (_, s) \<leftarrow> on_hw (onlp_sys_init (shared_alock me) P) s;
      (_, s) \<leftarrow> onlp_sfp_init (shared_alock me) B S s; (_, s) \<leftarrow> on_hw (onlp_led_init (shared_alock me) P) s;
      (_, s) \<leftarrow> on_hw (onlp_psu_init (shared_alock me) P) s; (_, s) \<leftarrow> on_hw (onlp_fan_init (shared_alock me) P) s;
      (_, s) \<leftarrow> on_hw (onlp_thermal_init (shared_alock me) P) s; Some (0 :: int, s) }) (\<lambda>_. True)"
    by (rule returns_bind [OF returns_on_hw [OF sys]], rule returns_bind [OF sfp_returns(1)],
        rule returns_bind [OF returns_on_hw [OF led]], rule returns_bind [OF returns_on_hw [OF psu]],
        rule returns_bind [OF returns_on_hw [OF fan]], rule returns_bind [OF returns_on_hw [OF thermal]], rule returns_Some) simp
  show ?thesis
  proof (rule returnsI)
    fix s :: "shlock option \<times> ('b, 'w) sfp_state" assume "sh_free (fst s)"
    then have "sh_free (fst (lock_init (fst s), snd s))" using li by simp
    from returnsD [OF r this] show "\<exists>r s'. onlp_init lock_init (shared_alock me) P B S s = Some (r, s') \<and> sh_free (fst s') \<and> True"
      by (simp add: onlp_init_def Let_def)
  qed
qed

lemma dump_oid_returns:
  assumes "ranked P rank" "onie_readable P" "\<forall>oid. rank oid < n"
  shows "returns (dump_oid n (shared_alock me) P oarg) balanced"
  unfolding dump_oid_def [abs_def]
  by (cases "scan_oid oarg") (simp_all add: returns_Some oid_dump_returns(1) [OF assms(1,2)] assms(3))

lemma dump_default_returns:
  assumes "ranked P rank" "onie_readable P" "\<forall>oid. rank oid < n" "\<not> o_m opt"
  shows "returns (dump_default n (shared_alock me) P B S E opt) balanced"
proof -
  note platform = platform_dump_returns [OF assms(1,2), of n, OF assms(3) [rule_format]]
  show ?thesis
    unfolding dump_default_def [abs_def]
    apply (rule returns_bind [where Q=balanced])
     apply (intro returns_if returns_Some platform; simp)
    apply (rule returns_bind [where Q=balanced])
     apply (simp add: assms(4) returns_Some)
    apply (rule returns_bind [where Q=balanced])
     apply (intro returns_if returns_Some dump_presence_returns; simp)
    apply (rule returns_Some, simp add: balanced_append)
    done
qed

lemma fin_returns: "returns f balanced \<Longrightarrow> returns (\<lambda>s. map_option (\<lambda>(os, s). ((0, os), s)) (f s)) (\<lambda>(code, out). code = 0 \<and> balanced out)"
  by (rule returns_map) simp_all

lemma plain_request_returns:
  assumes P: "ranked P rank" "onie_readable P" "\<forall>oid. rank oid < n" "\<forall>w. onlp_sys_init_locked P w \<noteq> None"
    and lock: "\<And>g. sh_free g \<Longrightarrow> sh_free (lock_init g)" and m: "\<not> o_m opt"
  shows "returns (\<lambda>s. Option.bind (onlp_init lock_init (shared_alock me) P B S s) (\<lambda>(_, s).
       if o_S opt then map_option (\<lambda>(os, s). ((0, os), s)) (show_inventory (shared_alock me) B S (de_sff E) (o_b opt) s)
       else if o_O opt \<noteq> None then map_option (\<lambda>(os, s). ((0, os), s)) (dump_oid n (shared_alock me) P (the (o_O opt)) s)
       else if o_o opt \<or> o_x opt then dump_sys_info (shared_alock me) P E opt s
       else map_option (\<lambda>(os, s). ((0, os), s)) (dump_default n (shared_alock me) P B S E opt s)))
     (\<lambda>(code, out). code = (0 :: int) \<and> balanced out)"
  by (rule returns_bind [OF init_returns [OF P(4) lock]], assumption)
    (intro returns_if fin_returns show_inventory_returns dump_oid_returns [OF P(1-3)] dump_sys_info_returns [OF P(1,2)]
      dump_default_returns [OF P(1-3) m])


definition tool_platform :: "unit platform" where
  "tool_platform = (demo_platform [oid_fan1])\<lparr>sys_drv := (sys_drv (demo_platform [oid_fan1]))
     \<lparr>onlp_sysi_platform_get := Some ''demo'', sys_file := \<lambda>_. Some ''demo''\<rparr>\<rparr>"

definition tool_env :: "(toy_json, shlock option \<times> (int list, unit) sfp_state) dump_env" where
  "tool_env = \<lparr>de_cjson = toy_cjson, de_parse = \<lambda>_. (-1, []), de_file = \<lambda>_. None,
     de_sff = \<lparr>sff_eeprom_parse = \<lambda>_. \<lparr>sff_identified = False, module_type_name = [], media_type_name = [], length_desc = [],
       sff_vendor = [], sff_model = [], sff_serial = []\<rparr>, sff_db_entry_struct = \<lambda>_. []\<rparr>,
     de_daemon = \<lambda>_ s. s, de_lock_test = \<lambda>s. Some (0, s), de_manage = Some, de_junk_onie = onie_zero\<rparr>"


end
