(* ===== verification/As4564Gpio.thy ===== *)
theory As4564Gpio
  imports As4564Kernel
begin

text \<open>
  The GPIO driver of the AS4564-26P (\<open>arm64-accton-as4564-26p-gpio-i2c.c\<close>): lines that are bits of CPLD registers,
  read and written through the two calls that the CPLD driver exports. The lines come from the device tree.
\<close>

section \<open>The driver\<close>

record gpio_i2c_reg =
  gr_num :: u32
  gr_addr :: u32
  gr_mask :: u32

definition GPIO_I2C_RETRY_COUNT :: nat where [simp]: "GPIO_I2C_RETRY_COUNT = 10"

fun gpio_i2c_retry :: "nat \<Rightarrow> ('s \<Rightarrow> (int \<times> 's) option) \<Rightarrow> int \<Rightarrow> 's \<Rightarrow> (int \<times> 's) option" where
  "gpio_i2c_retry 0 f status s = Some (status, s)"
| "gpio_i2c_retry (Suc retry) f status s =
     do { (status, s) \<leftarrow> f s; if status < 0 then gpio_i2c_retry retry f status s else Some (status, s) }"

definition gpio_i2c_read :: "'w kernel \<Rightarrow> u8 \<Rightarrow> 'w cpld \<Rightarrow> (int \<times> 'w cpld) option" where
  "gpio_i2c_read K reg s = gpio_i2c_retry GPIO_I2C_RETRY_COUNT (as4564_26p_cpld_read K 0x40 reg) 0 s"

definition gpio_i2c_write :: "'w kernel \<Rightarrow> u8 \<Rightarrow> u8 \<Rightarrow> 'w cpld \<Rightarrow> (int \<times> 'w cpld) option" where
  "gpio_i2c_write K reg v s = gpio_i2c_retry GPIO_I2C_RETRY_COUNT (as4564_26p_cpld_write K 0x40 reg v) 0 s"

definition gpio_i2c_reg_by_num :: "gpio_i2c_reg list \<Rightarrow> u32 \<Rightarrow> gpio_i2c_reg option" where
  "gpio_i2c_reg_by_num lines offs = find (\<lambda>r. gr_num r = offs) lines"

text \<open>The status of the read is masked like a value.\<close>

definition gpio_i2c_get_value :: "'w kernel \<Rightarrow> gpio_i2c_reg list \<Rightarrow> u32 \<Rightarrow> 'w cpld \<Rightarrow> (int \<times> 'w cpld) option" where
  "gpio_i2c_get_value K lines offs s =
     (case gpio_i2c_reg_by_num lines offs of
        None \<Rightarrow> Some (- EINVAL, s)
      | Some r \<Rightarrow>
          do { (val, s) \<leftarrow> gpio_i2c_read K (ucast (gr_addr r)) s;
               Some (sint ((word_of_int val :: u32) AND gr_mask r), s) })"

definition gpio_i2c_set_value :: "'w kernel \<Rightarrow> gpio_i2c_reg list \<Rightarrow> u32 \<Rightarrow> int \<Rightarrow> 'w cpld \<Rightarrow> 'w cpld option" where
  "gpio_i2c_set_value K lines offs lvl s =
     (case gpio_i2c_reg_by_num lines offs of
        None \<Rightarrow> Some s
      | Some r \<Rightarrow>
          do { (status, s) \<leftarrow> gpio_i2c_read K (ucast (gr_addr r)) s;
               let val = (word_of_int status :: u32) AND NOT (gr_mask r);
               let val = (if lvl \<noteq> 0 then val OR gr_mask r else val);
               (_, s) \<leftarrow> gpio_i2c_write K (ucast (gr_addr r)) (ucast val) s;
               Some s })"

section \<open>The device tree\<close>

text \<open>What the two properties of a node give (an error or the value), and whether the allocation succeeds.\<close>

record gpio_node =
  gn_map :: "int + u32 \<times> u32"
  gn_num :: "int + u32"
  gn_alloc :: bool

definition gpio_i2c_reg_parse :: "gpio_node \<Rightarrow> gpio_i2c_reg list \<Rightarrow> int \<times> gpio_i2c_reg list" where
  "gpio_i2c_reg_parse node lines =
     (case gn_map node of
        Inl err \<Rightarrow> (err, lines)
      | Inr (reg_addr, reg_mask) \<Rightarrow>
          (case gn_num node of
             Inl err \<Rightarrow> (err, lines)
           | Inr num \<Rightarrow>
               if \<not> gn_alloc node then (0, lines)
               else (0, \<lparr>gr_num = num, gr_addr = reg_addr, gr_mask = reg_mask\<rparr> # lines)))"

fun gpio_i2c_map_parse :: "gpio_node list \<Rightarrow> gpio_i2c_reg list \<Rightarrow> int \<times> gpio_i2c_reg list" where
  "gpio_i2c_map_parse [] lines = (0, lines)"
| "gpio_i2c_map_parse (node # nodes) lines =
     (let (err, lines) = gpio_i2c_reg_parse node lines in
      if err \<noteq> 0 then (err, lines) else gpio_i2c_map_parse nodes lines)"

text \<open>The node of the device, the allocation, the nodes under \<open>gpio-map\<close>, and what adding the chip gives.\<close>

definition gpio_i2c_probe :: "bool \<Rightarrow> bool \<Rightarrow> gpio_node list option \<Rightarrow> int \<Rightarrow> int \<times> gpio_i2c_reg list option" where
  "gpio_i2c_probe np alloc gpio_map add =
     (if \<not> np then (- EINVAL, None)
      else if \<not> alloc then (- ENOMEM, None)
      else
        (let (err, lines) = (case gpio_map of None \<Rightarrow> (0, []) | Some nodes \<Rightarrow> gpio_i2c_map_parse nodes []) in
         if err \<noteq> 0 then (err, None) else (add, if add = 0 then Some lines else None)))"

section \<open>A line is a bit of its register\<close>

lemma find_client_read:
  "\<not> list_lock s \<Longrightarrow> find (\<lambda>c. cl_addr c = a) (client_list s) = Some c \<Longrightarrow>
   as4564_26p_cpld_read K a reg s = Some (on_kw (cpld_read_internal K c reg) s)"
  by (simp add: as4564_26p_cpld_read_def)

lemma gpio_read_bank:
  assumes "register_bank K c regs" "\<not> list_lock s" "find (\<lambda>c. cl_addr c = 0x40) (client_list s) = Some c"
  shows "gpio_i2c_read K reg s = Some (uint (regs (kw s) reg), s)"
  using assms by (simp add: gpio_i2c_read_def eval_nat_numeral find_client_read read_bank on_kw_def)

lemma gpio_write_bank:
  assumes b: "register_bank K c regs" and l: "\<not> list_lock s" "find (\<lambda>c. cl_addr c = 0x40) (client_list s) = Some c"
    and r: "reg \<noteq> I2C_WRITE_REQUEST_REG"
  obtains w' where "gpio_i2c_write K reg v s = Some (0, s\<lparr>kw := w'\<rparr>)"
    and "\<And>r. r \<noteq> I2C_WRITE_REQUEST_REG \<Longrightarrow> regs w' r = ((regs (kw s))(reg := v)) r"
proof -
  obtain w' where w: "cpld_write_internal K c reg v (kw s) = (0, w')"
    "\<And>r. r \<noteq> I2C_WRITE_REQUEST_REG \<Longrightarrow> regs w' r = ((regs (kw s))(reg := v)) r"
    using write_bank [OF b r] by blast
  then show ?thesis
    using that [of w'] l by (simp add: gpio_i2c_write_def eval_nat_numeral as4564_26p_cpld_write_def on_kw_def)
qed

lemma low_mask:
  assumes "(m :: u32) \<le> 0xFF"
  obtains k :: u8 where "m = ucast k"
proof
  have "unat m \<le> 255" using assms by (simp add: word_le_nat_alt)
  then have "unat m mod 256 = unat m" by simp
  then show "m = ucast (ucast m :: u8)"
    by (simp add: word_unat_eq_iff unsigned_ucast_eq take_bit_eq_mod unat_mod)
qed

lemma wide_byte: "(word_of_int (uint (x :: u8)) :: u32) = ucast x"
  by (rule bit_word_eqI) (simp add: bit_word_of_int_iff bit_unsigned_iff bit_uint_iff bit_ucast_iff)

lemma narrow_and_not: "(ucast ((ucast (x :: u8) :: u32) AND NOT (ucast (k :: u8))) :: u8) = x AND NOT k"
  by (rule bit_word_eqI) (auto simp: bit_and_iff bit_not_iff bit_ucast_iff)

lemma narrow_or: "(ucast (((ucast (x :: u8) :: u32) AND NOT (ucast (k :: u8))) OR ucast k) :: u8) = (x AND NOT k) OR k"
  by (rule bit_word_eqI) (auto simp: bit_and_iff bit_or_iff bit_not_iff bit_ucast_iff)

lemma wide_and: "(ucast (x :: u8) :: u32) AND ucast (k :: u8) = ucast (x AND k)"
  by (rule bit_word_eqI) (auto simp: bit_and_iff bit_ucast_iff)

lemma sint_wide: "sint (ucast (x :: u8) :: u32) = uint x"
proof -
  have "uint x < 2 ^ 8" by (rule order_less_le_trans [OF uint_bounded]) simp
  then have "- (2 ^ 31) \<le> uint x" "uint x < 2 ^ 31" by (simp_all add: order_trans [OF _ uint_ge_0])
  then have "signed_take_bit 31 (uint x) = uint x" by (rule signed_take_bit_int_eq_self)
  then show ?thesis by (simp add: sint_uint uint_up_ucast is_up)
qed

text \<open>
  C25: on a CPLD that is a bank of registers, setting a GPIO line changes exactly the bits of its mask in its register and no
  other register (the arbiter's apart), and getting the line afterwards gives its mask when it was set and 0 when
  it was cleared.
\<close>
theorem gpio_set_then_get:
  assumes b: "register_bank K c regs" and l: "\<not> list_lock s" "find (\<lambda>c. cl_addr c = 0x40) (client_list s) = Some c"
    and line: "gpio_i2c_reg_by_num lines offs = Some r" "ucast (gr_addr r) \<noteq> I2C_WRITE_REQUEST_REG" "gr_mask r \<le> 0xFF"
  shows "\<exists>s'. gpio_i2c_set_value K lines offs v s = Some s' \<and>
    (\<forall>a. a \<noteq> I2C_WRITE_REQUEST_REG \<longrightarrow> regs (kw s') a =
       (if a = ucast (gr_addr r)
        then (regs (kw s) a AND NOT (ucast (gr_mask r))) OR (if v \<noteq> 0 then ucast (gr_mask r) else 0) else regs (kw s) a)) \<and>
    gpio_i2c_get_value K lines offs s' = Some (if v \<noteq> 0 then uint (gr_mask r) else 0, s')"
proof -
  let ?a = "ucast (gr_addr r) :: u8"
  obtain k :: u8 where k: "gr_mask r = ucast k" using low_mask [OF line(3)] by blast
  define x where "x = regs (kw s) ?a"
  define y where "y = (if v \<noteq> 0 then (x AND NOT k) OR k else x AND NOT k)"
  obtain w' where w: "gpio_i2c_write K ?a y s = Some (0, s\<lparr>kw := w'\<rparr>)"
    "\<And>r. r \<noteq> I2C_WRITE_REQUEST_REG \<Longrightarrow> regs w' r = ((regs (kw s))(?a := y)) r"
    using gpio_write_bank [OF b l line(2)] by blast
  have set: "gpio_i2c_set_value K lines offs v s = Some (s\<lparr>kw := w'\<rparr>)"
    using w(1) line(1)
    by (cases "v = 0")
      (simp_all add: gpio_i2c_set_value_def gpio_read_bank [OF b l] wide_byte k narrow_and_not narrow_or y_def Let_def flip: x_def)
  have mask: "y AND k = (if v \<noteq> 0 then k else 0)"
    unfolding y_def by (rule bit_word_eqI) (auto simp: bit_and_iff bit_or_iff bit_not_iff)
  have l': "\<not> list_lock (s\<lparr>kw := w'\<rparr>)" "find (\<lambda>c. cl_addr c = 0x40) (client_list (s\<lparr>kw := w'\<rparr>)) = Some c" using l by simp_all
  have "gpio_i2c_get_value K lines offs (s\<lparr>kw := w'\<rparr>) = Some (uint (y AND k), s\<lparr>kw := w'\<rparr>)"
    using line(1) w(2) [OF line(2)]
    by (simp add: gpio_i2c_get_value_def gpio_read_bank [OF b l'] wide_byte k wide_and sint_wide)
  moreover have "uint (ucast k :: u32) = uint k" by (simp add: uint_up_ucast is_up)
  moreover have "ucast (ucast k :: u32) = k" by (simp add: ucast_up_ucast_id is_up)
  ultimately show ?thesis
    using set w(2) mask by (auto simp: k y_def x_def)
qed

theorem gpio_set_then_get_witness:
  "\<exists>s'. gpio_i2c_set_value bank_kernel [\<lparr>gr_num = 3, gr_addr = 0x11, gr_mask = 0x20\<rparr>] 3 1 bank_cpld = Some s' \<and>
     kw s' 0x11 = 0x20 \<and> gpio_i2c_get_value bank_kernel [\<lparr>gr_num = 3, gr_addr = 0x11, gr_mask = 0x20\<rparr>] 3 s' = Some (0x20, s')"
proof -
  let ?r = "\<lparr>gr_num = 3, gr_addr = 0x11, gr_mask = 0x20\<rparr>"
  have l: "\<not> list_lock bank_cpld" "find (\<lambda>c. cl_addr c = 0x40) (client_list bank_cpld) = Some cpld_client"
    by (simp_all add: bank_cpld_def cpld_client_def)
  have line: "gpio_i2c_reg_by_num [?r] 3 = Some ?r" "ucast (gr_addr ?r) \<noteq> I2C_WRITE_REQUEST_REG" "gr_mask ?r \<le> 0xFF"
    by (simp_all add: gpio_i2c_reg_by_num_def I2C_WRITE_REQUEST_REG_def)
  show ?thesis
    using gpio_set_then_get [OF bank_kernel_bank l line, of 1] by (auto simp: I2C_WRITE_REQUEST_REG_def bank_cpld_def)
qed

section \<open>A register that cannot be read\<close>

lemma rw_retry_fails: "(\<And>w. f w = (e, w)) \<Longrightarrow> e < 0 \<Longrightarrow> rw_retry (Suc n) f st w = (e, w)"
  by (induction n arbitrary: st) simp_all

lemma gpio_read_fails:
  assumes f: "\<And>w. smbus_read K c reg w = (e, w)" "e < 0"
    and l: "\<not> list_lock s" "find (\<lambda>c. cl_addr c = 0x40) (client_list s) = Some c"
  shows "gpio_i2c_read K reg s = Some (e, s)"
proof -
  have "cpld_read_internal K c reg w = (e, w)" for w
    using rw_retry_fails [of "smbus_read K c reg" e 9 0 w] f by (simp add: cpld_read_internal_def)
  then have once: "as4564_26p_cpld_read K 0x40 reg s = Some (e, s)"
    by (simp add: find_client_read [OF l] on_kw_def)
  then have "gpio_i2c_retry (Suc n) (as4564_26p_cpld_read K 0x40 reg) st s = Some (e, s)" for n st
    using f(2) by (induction n arbitrary: st) simp_all
  from this [of 9 0] show ?thesis by (simp add: gpio_i2c_read_def)
qed

text \<open>
  The status of a read that failed on every attempt is taken for the contents of the register. With \<open>EIO\<close> (-5) a line
  of any mask but bit 2 reads as set, and setting or clearing a line writes ones to all the other lines of the register
  but that bit.
\<close>

theorem gpio_after_failed_read:
  assumes f: "\<And>w. smbus_read K c (ucast (gr_addr r)) w = (- 5, w)"
    and l: "\<not> list_lock s" "find (\<lambda>c. cl_addr c = 0x40) (client_list s) = Some c"
    and line: "gpio_i2c_reg_by_num lines offs = Some r" "gr_mask r = ucast (k :: u8)"
  shows "gpio_i2c_get_value K lines offs s = Some (uint (0xFB AND k), s)"
    and "gpio_i2c_set_value K lines offs v s =
      map_option snd (gpio_i2c_write K (ucast (gr_addr r)) (if v \<noteq> 0 then (0xFB AND NOT k) OR k else 0xFB AND NOT k) s)"
proof -
  have rd: "gpio_i2c_read K (ucast (gr_addr r)) s = Some (- 5, s)"
    by (rule gpio_read_fails [OF f _ l]) simp
  have g: "(- 5 :: u32) AND ucast k = ucast (0xFB AND k)"
    and n: "(ucast ((- 5 :: u32) AND NOT (ucast k)) :: u8) = 0xFB AND NOT k"
    and o': "(ucast (((- 5 :: u32) AND NOT (ucast k)) OR ucast k) :: u8) = (0xFB AND NOT k) OR k"
  proof -
    have low: "(ucast (- 5 :: u32) :: u8) = 0xFB" by simp
    have b: "bit (- 5 :: u32) i = bit (0xFB :: u8) i" if "i < 8" for i
      using that low by (metis bit_ucast_iff len_bit0 len_num1 mult_2 one_add_one numeral_Bit0 bit_imp_le_length nat_mult_1_right)
    have k8: "i < 8" if "bit k i" for i using bit_imp_le_length [OF that] by simp
    show "(- 5 :: u32) AND ucast k = ucast (0xFB AND k)"
    proof (rule bit_word_eqI)
      fix i :: nat assume "i < LENGTH(32)"
      show "bit ((- 5 :: u32) AND ucast k) i = bit (ucast (0xFB AND k) :: u32) i"
        using b [of i] k8 [of i] by (auto simp: bit_and_iff bit_ucast_iff)
    qed
    show "(ucast ((- 5 :: u32) AND NOT (ucast k)) :: u8) = 0xFB AND NOT k"
    proof (rule bit_word_eqI)
      fix i :: nat assume "i < LENGTH(8)"
      then show "bit (ucast ((- 5 :: u32) AND NOT (ucast k)) :: u8) i = bit (0xFB AND NOT k) i"
        using b [of i] by (auto simp: bit_and_iff bit_not_iff bit_ucast_iff)
    qed
    show "(ucast (((- 5 :: u32) AND NOT (ucast k)) OR ucast k) :: u8) = (0xFB AND NOT k) OR k"
    proof (rule bit_word_eqI)
      fix i :: nat assume "i < LENGTH(8)"
      then show "bit (ucast (((- 5 :: u32) AND NOT (ucast k)) OR ucast k) :: u8) i = bit ((0xFB AND NOT k) OR k) i"
        using b [of i] by (auto simp: bit_and_iff bit_or_iff bit_not_iff bit_ucast_iff)
    qed
  qed
  show "gpio_i2c_get_value K lines offs s = Some (uint (0xFB AND k), s)"
    by (simp add: gpio_i2c_get_value_def line rd g sint_wide)
  show "gpio_i2c_set_value K lines offs v s =
      map_option snd (gpio_i2c_write K (ucast (gr_addr r)) (if v \<noteq> 0 then (0xFB AND NOT k) OR k else 0xFB AND NOT k) s)"
    by (cases "v = 0"; cases "gpio_i2c_write K (ucast (gr_addr r)) (if v \<noteq> 0 then (0xFB AND NOT k) OR k else 0xFB AND NOT k) s")
      (auto simp: gpio_i2c_set_value_def line rd n o' Let_def)
qed

end
