(* ===== verification/As4564Life.thy ===== *)
theory As4564Life
  imports As4564Gpio As4564Hwmon
begin

text \<open>
  How the kernel drivers of the AS4564-26P come and go: probe, removal, and the start and end of their modules. The
  answers of the kernel are a record; what is allocated or registered is a set.
\<close>

section \<open>What a driver takes\<close>

datatype taken = T_data | T_group nat | T_gpio | T_mmio | T_driver | T_device

record life_env =
  le_smbus_byte :: bool
  le_kzalloc :: bool
  le_group :: "nat \<Rightarrow> int"
  le_gpio :: int
  le_node :: bool
  le_ioremap :: bool
  le_driver :: int
  le_device :: int

text \<open>The groups of attributes: created in order up to the first error, removed in reverse order from the one before.\<close>

fun create_groups :: "(nat \<Rightarrow> int) \<Rightarrow> nat \<Rightarrow> nat \<Rightarrow> taken set \<Rightarrow> int \<times> nat \<times> taken set" where
  "create_groups ret i 0 res = (0, i, res)"
| "create_groups ret i (Suc k) res =
     (if ret i \<noteq> 0 then (ret i, i, res) else create_groups ret (i + 1) k (insert (T_group i) res))"

fun remove_groups :: "nat \<Rightarrow> taken set \<Rightarrow> taken set" where
  "remove_groups 0 res = res"
| "remove_groups (Suc i) res = remove_groups i (res - {T_group i})"

section \<open>The CPLD\<close>

definition CPLD_GROUPS :: nat where [simp]: "CPLD_GROUPS = 3"

text \<open>A client that could not be put on the list is no error. The data is freed before the attributes that use it are removed.\<close>

definition as4564_26p_cpld_probe ::
  "life_env \<Rightarrow> client \<Rightarrow> taken set \<times> 'w cpld \<Rightarrow> (int \<times> taken set \<times> 'w cpld) option" where
  "as4564_26p_cpld_probe e c rs =
     (let (res, s) = rs in
      if \<not> le_smbus_byte e then Some (- ENODEV, res, s)
      else if \<not> le_kzalloc e then Some (- ENOMEM, res, s)
      else
        (let (ret, i, res) = create_groups (le_group e) 0 CPLD_GROUPS (insert T_data res) in
         if ret \<noteq> 0 then Some (ret, remove_groups i (res - {T_data}), s)
         else if le_gpio e \<noteq> 0 then Some (le_gpio e, remove_groups i (res - {T_data}), s)
         else do { s \<leftarrow> as4564_26p_cpld_add_client (le_node e) c s; Some (0, insert T_gpio res, s) }))"

definition as4564_26p_cpld_remove :: "client \<Rightarrow> taken set \<times> 'w cpld \<Rightarrow> (int \<times> taken set \<times> 'w cpld) option" where
  "as4564_26p_cpld_remove c rs =
     (let (res, s) = rs in
      do { s \<leftarrow> as4564_26p_cpld_remove_client c s;
           Some (0, remove_groups CPLD_GROUPS (res - {T_gpio}) - {T_data}, s) })"

text \<open>The module of the CPLD driver only adds a driver; devices are probed when the bus finds them.\<close>

definition as4564_26p_cpld_init :: "life_env \<Rightarrow> taken set \<times> 'w cpld \<Rightarrow> int \<times> taken set \<times> 'w cpld" where
  "as4564_26p_cpld_init e rs =
     (let (res, s) = rs; s = s\<lparr>list_lock := False\<rparr> in
      (le_driver e, if le_driver e = 0 then insert T_driver res else res, s))"

definition as4564_26p_cpld_exit :: "taken set \<Rightarrow> taken set" where
  "as4564_26p_cpld_exit res = res - {T_driver}"

section \<open>The platform drivers\<close>

definition FAN_GROUPS :: nat where [simp]: "FAN_GROUPS = 3"

definition as4564_fan_probe :: "life_env \<Rightarrow> taken set \<Rightarrow> int \<times> taken set" where
  "as4564_fan_probe e res =
     (let (status, i, res) = create_groups (le_group e) 0 FAN_GROUPS res in
      if status \<noteq> 0 then (status, remove_groups i res) else (0, res))"

definition as4564_fan_remove :: "taken set \<Rightarrow> taken set" where
  "as4564_fan_remove res = remove_groups FAN_GROUPS res"

definition as4564_psu_probe :: "life_env \<Rightarrow> taken set \<Rightarrow> int \<times> taken set" where
  "as4564_psu_probe e res = (if le_group e 0 \<noteq> 0 then (le_group e 0, res) else (0, insert (T_group 0) res))"

definition as4564_psu_remove :: "taken set \<Rightarrow> taken set" where
  "as4564_psu_remove res = res - {T_group 0}"

definition as4564_26p_thermal_probe :: "life_env \<Rightarrow> taken set \<Rightarrow> int \<times> taken set" where
  "as4564_26p_thermal_probe e res =
     (if \<not> le_ioremap e then (- ENOMEM, res)
      else if le_group e 0 \<noteq> 0 then (le_group e 0, insert T_mmio res - {T_mmio})
      else (0, insert (T_group 0) (insert T_mmio res)))"

definition as4564_26p_thermal_remove :: "taken set \<Rightarrow> taken set" where
  "as4564_26p_thermal_remove res = res - {T_group 0} - {T_mmio}"

text \<open>
  The three modules start alike: data, driver, device. Registering the device probes it; it stays registered, and the
  module loaded, when the probe fails. The flag tells whether the device is bound to the driver.
\<close>

definition platform_module_init ::
  "(life_env \<Rightarrow> taken set \<Rightarrow> int \<times> taken set) \<Rightarrow> life_env \<Rightarrow> taken set \<Rightarrow> int \<times> bool \<times> taken set" where
  "platform_module_init probe e res =
     (if \<not> le_kzalloc e then (- ENOMEM, False, res)
      else
        (let res = insert T_data res in
         if le_driver e < 0 then (le_driver e, False, res - {T_data})
         else
           (let res = insert T_driver res in
            if le_device e < 0 then (le_device e, False, res - {T_driver} - {T_data})
            else
              (let res = insert T_device res; (status, res) = probe e res in (0, status = 0, res)))))"

definition platform_module_exit :: "(taken set \<Rightarrow> taken set) \<Rightarrow> bool \<Rightarrow> taken set \<Rightarrow> taken set" where
  "platform_module_exit remove bound res =
     (let res = (if bound then remove res else res) - {T_device} in res - {T_driver} - {T_data})"

definition as4564_fan_init :: "life_env \<Rightarrow> taken set \<Rightarrow> int \<times> bool \<times> taken set" where
  "as4564_fan_init = platform_module_init as4564_fan_probe"

definition as4564_fan_exit :: "bool \<Rightarrow> taken set \<Rightarrow> taken set" where
  "as4564_fan_exit = platform_module_exit as4564_fan_remove"

definition as4564_psu_init :: "life_env \<Rightarrow> taken set \<Rightarrow> int \<times> bool \<times> taken set" where
  "as4564_psu_init = platform_module_init as4564_psu_probe"

definition as4564_psu_exit :: "bool \<Rightarrow> taken set \<Rightarrow> taken set" where
  "as4564_psu_exit = platform_module_exit as4564_psu_remove"

definition as4564_26p_thermal_init :: "life_env \<Rightarrow> taken set \<Rightarrow> int \<times> bool \<times> taken set" where
  "as4564_26p_thermal_init = platform_module_init as4564_26p_thermal_probe"

definition as4564_26p_thermal_exit :: "bool \<Rightarrow> taken set \<Rightarrow> taken set" where
  "as4564_26p_thermal_exit = platform_module_exit as4564_26p_thermal_remove"

section \<open>Nothing is left behind\<close>

lemma remove_groups_eq: "remove_groups n res = res - T_group ` {..<n}"
  by (induction n arbitrary: res) (auto simp: lessThan_Suc)

lemma create_groups_eq:
  "create_groups ret i k res = (r, j, res') \<Longrightarrow>
    i \<le> j \<and> j \<le> i + k \<and> res' = res \<union> T_group ` {i..<j} \<and> (r = 0 \<longrightarrow> j = i + k) \<and> (r \<noteq> 0 \<longrightarrow> j < i + k \<and> r = ret j)"
proof (induction k arbitrary: i res)
  case (Suc k)
  show ?case
  proof (cases "ret i = 0")
    case True
    with Suc.prems have "create_groups ret (i + 1) k (insert (T_group i) res) = (r, j, res')" by simp
    from Suc.IH [OF this] have "i < j" "res' = insert (T_group i) res \<union> T_group ` {i + 1..<j}"
      "j \<le> i + 1 + k" "r = 0 \<longrightarrow> j = i + 1 + k" "r \<noteq> 0 \<longrightarrow> j < i + 1 + k \<and> r = ret j" by auto
    moreover have "{i..<j} = insert i {i + 1..<j}" using \<open>i < j\<close> by auto
    ultimately show ?thesis by auto
  next
    case False
    with Suc.prems show ?thesis by auto
  qed
qed auto

text \<open>
  A probe that fails takes nothing, and what a successful one took its removal gives back; the same holds for the
  modules, also when the device could not be bound. The list of the CPLD clients is as it was before.
\<close>

lemma cpld_probe_leaves_nothing:
  assumes p: "as4564_26p_cpld_probe e c ({}, s) = Some (ret, res, s1)" and new: "c \<notin> set (client_list s)" and l: "\<not> list_lock s"
  shows "(ret \<noteq> 0 \<longrightarrow> res = {} \<and> s1 = s) \<and>
    (ret = 0 \<longrightarrow> T_data \<in> res \<and> T_gpio \<in> res \<and> T_group ` {..<3} \<subseteq> res \<and>
       as4564_26p_cpld_remove c (res, s1) = Some (0, {}, s))"
proof -
  obtain r i res1 where g: "create_groups (le_group e) 0 CPLD_GROUPS {T_data} = (r, i, res1)" by (metis prod_cases3)
  note eq = create_groups_eq [OF this]
  have "{0..<i} = {..<i}" by auto
  then have res1: "res1 = insert T_data (T_group ` {..<i})" "r = 0 \<longrightarrow> i = 3" using eq by auto
  have undone: "remove_groups n (res1 - {T_data}) = {}" if "i \<le> n" for n
    using that res1(1) by (auto simp: remove_groups_eq)
  have i3: "i \<le> 3" using eq by simp
  show ?thesis
  proof (cases "le_smbus_byte e \<and> le_kzalloc e \<and> r = 0 \<and> le_gpio e = 0")
    case False
    then show ?thesis using p g undone [of i] i3 by (auto simp: as4564_26p_cpld_probe_def split: if_splits)
  next
    case True
    then have "ret = 0" "res = insert T_gpio res1" "s1 = s \<or> s1 = s\<lparr>client_list := c # client_list s\<rparr>"
      using p g l by (auto simp: as4564_26p_cpld_probe_def as4564_26p_cpld_add_client_def split: if_splits)
    moreover have "s\<lparr>client_list := client_list s\<rparr> = s" by simp
    ultimately show ?thesis using res1 True l new
      by (auto simp: as4564_26p_cpld_remove_def as4564_26p_cpld_remove_client_def remove_groups_eq remove1_idem)
  qed
qed

lemma module_leaves_nothing:
  assumes probe: "\<And>res st res'. T_group ` UNIV \<inter> res = {} \<Longrightarrow> T_mmio \<notin> res \<Longrightarrow> probe e res = (st, res') \<Longrightarrow>
      (if st = 0 then remove res' = res else res' = res)"
    and m: "platform_module_init probe e {} = (ret, bound, res)"
  shows "(ret \<noteq> 0 \<longrightarrow> res = {}) \<and> platform_module_exit remove bound res = {}"
proof -
  obtain st res' where p: "probe e {T_data, T_driver, T_device} = (st, res')" by fastforce
  have "if st = 0 then remove res' = {T_data, T_driver, T_device} else res' = {T_data, T_driver, T_device}"
    by (rule probe [OF _ _ p]) auto
  then show ?thesis
    using m p unfolding platform_module_init_def platform_module_exit_def Let_def
    by (auto simp: insert_commute split: if_splits)
qed

theorem platform_drivers_leave_nothing:
  shows "as4564_fan_init e {} = (ret, bound, res) \<Longrightarrow> (ret \<noteq> 0 \<longrightarrow> res = {}) \<and> as4564_fan_exit bound res = {}"
    and "as4564_psu_init e {} = (ret, bound, res) \<Longrightarrow> (ret \<noteq> 0 \<longrightarrow> res = {}) \<and> as4564_psu_exit bound res = {}"
    and "as4564_26p_thermal_init e {} = (ret, bound, res) \<Longrightarrow> (ret \<noteq> 0 \<longrightarrow> res = {}) \<and> as4564_26p_thermal_exit bound res = {}"
proof -
  have fan: "if st = 0 then as4564_fan_remove res' = res else res' = res"
    if "T_group ` UNIV \<inter> res = {}" "as4564_fan_probe e res = (st, res')" for res st res'
  proof -
    obtain r i res1 where g: "create_groups (le_group e) 0 FAN_GROUPS res = (r, i, res1)" by (metis prod_cases3)
    have "{0..<i} = {..<i}" by auto
    with create_groups_eq [OF g] have "res1 = res \<union> T_group ` {..<i}" "r = 0 \<longrightarrow> i = 3" by auto
    with g that show ?thesis
      by (auto simp: as4564_fan_probe_def as4564_fan_remove_def remove_groups_eq split: if_splits)
  qed
  show "(ret \<noteq> 0 \<longrightarrow> res = {}) \<and> as4564_fan_exit bound res = {}" if "as4564_fan_init e {} = (ret, bound, res)"
    unfolding as4564_fan_exit_def
    by (rule module_leaves_nothing [OF _ that [unfolded as4564_fan_init_def]]) (rule fan)
  show "(ret \<noteq> 0 \<longrightarrow> res = {}) \<and> as4564_psu_exit bound res = {}" if "as4564_psu_init e {} = (ret, bound, res)"
    unfolding as4564_psu_exit_def
    by (rule module_leaves_nothing [OF _ that [unfolded as4564_psu_init_def]])
      (auto simp: as4564_psu_probe_def as4564_psu_remove_def split: if_splits)
  show "(ret \<noteq> 0 \<longrightarrow> res = {}) \<and> as4564_26p_thermal_exit bound res = {}" if "as4564_26p_thermal_init e {} = (ret, bound, res)"
    unfolding as4564_26p_thermal_exit_def
    by (rule module_leaves_nothing [OF _ that [unfolded as4564_26p_thermal_init_def]])
      (auto simp: as4564_26p_thermal_probe_def as4564_26p_thermal_remove_def split: if_splits)
qed

end
