(* ===== verification/LockCalls.thy ===== *)
theory LockCalls
  imports Api File
begin

text \<open>
  The calls around the shared lock of \<open>shlocks.c\<close> that one process makes (\<open>LockProtocol\<close> has several processes), and the
  test of the API lock in \<open>onlp_locks.c\<close>. \<open>None\<close> is \<open>AIM_DIE\<close> or a null pointer that is used.
\<close>

section \<open>The global lock\<close>

text \<open>From the result of \<open>onlp_shmem_create\<close> and that of initialising a mutex in the segment.\<close>

definition onlp_shlock_create :: "int \<times> shlock shmptr \<Rightarrow> int \<Rightarrow> string \<Rightarrow> (int \<times> shlock) option" where
  "onlp_shlock_create shmem init_rv name =
     (case shmem of
        (rv, l) \<Rightarrow>
          if rv \<ge> 0 then
            (case l of Shm l \<Rightarrow> do { l \<leftarrow> onlp_shlock_init init_rv name l; Some (rv, l) } | _ \<Rightarrow> None)
          else None)"

definition onlp_shlock_destroy :: "shlock \<Rightarrow> int \<times> shlock" where
  "onlp_shlock_destroy l = (0, l)"

definition onlp_shlock_name :: "shlock \<Rightarrow> string" where
  "onlp_shlock_name l = lock_name l"

definition onlp_shlock_global_init :: "int \<times> shlock shmptr \<Rightarrow> int \<Rightarrow> shlock option \<Rightarrow> shlock option option" where
  "onlp_shlock_global_init shmem init_rv g =
     (case g of
        Some l \<Rightarrow> Some (Some l)
      | None \<Rightarrow>
          do { (rv, l) \<leftarrow> onlp_shlock_create shmem init_rv ''onlp-global-lock'';
               if rv < 0 then None else Some (Some l) })"

text \<open>The configuration macro is not defined in this file, so the initialisation is always attempted first.\<close>

definition onlp_shlock_global_take ::
  "nat \<Rightarrow> int \<times> shlock shmptr \<Rightarrow> int \<Rightarrow> shlock option \<Rightarrow> (int \<times> shlock) outcome" where
  "onlp_shlock_global_take me shmem init_rv g =
     (case onlp_shlock_global_init shmem init_rv g of None \<Rightarrow> Dies | Some g \<Rightarrow> onlp_shlock_take me g)"

definition onlp_shlock_global_give :: "nat \<Rightarrow> shlock option \<Rightarrow> (int \<times> shlock) outcome" where
  "onlp_shlock_global_give me g = onlp_shlock_give me g"

text \<open>
  A second initialisation changes nothing, and a segment that another process has initialised keeps its mutex, whoever holds
  it; a new one is free.
\<close>

lemma global_init_again: "onlp_shlock_global_init shmem rv (Some l) = Some (Some l)"
  by (simp add: onlp_shlock_global_init_def)

lemma global_init_attaches:
  "0 \<le> rv \<Longrightarrow> magic l = SHLOCK_MAGIC \<Longrightarrow> onlp_shlock_global_init (rv, Shm l) init_rv None = Some (Some l)"
  by (simp add: onlp_shlock_global_init_def onlp_shlock_create_def onlp_shlock_init_def)

lemma global_init_new:
  "0 \<le> rv \<Longrightarrow> magic l \<noteq> SHLOCK_MAGIC \<Longrightarrow>
   \<exists>l'. onlp_shlock_global_init (rv, Shm l) 0 None = Some (Some l') \<and> sh_free (Some l') \<and> onlp_shlock_name l' = ''onlp-global-lock''"
  by (simp add: onlp_shlock_global_init_def onlp_shlock_create_def onlp_shlock_init_def sh_free_def onlp_shlock_name_def)

text \<open>Taking the global lock before any initialisation, and giving it, leaves it free.\<close>

lemma global_take_give:
  assumes "0 \<le> rv" "magic l \<noteq> SHLOCK_MAGIC"
  shows "\<exists>l1 l2. onlp_shlock_global_take me (rv, Shm l) 0 None = Done (0, l1) \<and>
    onlp_shlock_global_give me (Some l1) = Done (0, l2) \<and> sh_free (Some l2)"
  using assms
  by (simp add: onlp_shlock_global_take_def onlp_shlock_global_give_def onlp_shlock_global_init_def onlp_shlock_create_def
      onlp_shlock_init_def sh_free_def)

section \<open>The test of the API lock\<close>

text \<open>
  \<open>touch\<close> opens the file for writing and closes it (\<open>None\<close>: it cannot be opened, and a null pointer is closed). The state
  is the static counter and the system's.
\<close>

definition lock_test_file :: string where "lock_test_file = ''/tmp/onlp_api_lock_test''"

definition onlp_api_lock_test_locked ::
  "'w fs \<Rightarrow> u8 list \<Rightarrow> (string \<Rightarrow> 'w \<Rightarrow> 'w option) \<Rightarrow> int \<times> 'w \<Rightarrow> (int \<times> int \<times> 'w) option" where
  "onlp_api_lock_test_locked F junk touch cw =
     (let (counter, w) = cw in
      do { w \<leftarrow> touch lock_test_file w;
           let (_, w) = onlp_file_write_int F counter lock_test_file w;
           (_, readback, w) \<leftarrow> onlp_file_read_int F 0 junk lock_test_file w;
           Some (if readback \<noteq> counter then (-1, counter, w) else (0, counter + 1, w)) })"

definition onlp_api_lock_test ::
  "'l alock \<Rightarrow> 'w fs \<Rightarrow> u8 list \<Rightarrow> (string \<Rightarrow> 'w \<Rightarrow> 'w option) \<Rightarrow> 'l \<times> int \<times> 'w \<Rightarrow> (int \<times> 'l \<times> int \<times> 'w) option" where
  "onlp_api_lock_test L F junk touch = locked_api L ''onlp_api_lock_test'' (onlp_api_lock_test_locked F junk touch)"

end
