(* ===== verification/Daemons.thy ===== *)
theory Daemons
  imports Faultd Snmp FileUds
begin

text \<open>
  What the two daemons do around their loops. \<open>faultd_main\<close> after the server is open: going into the background, the file
  with the process number, the loop. The thread that measures the load of the processor for the SNMP agent
  (\<open>onlp_snmp_platform.c\<close>): the file it serves, its rounds and how long they sleep, and the start of the agent's threads.
\<close>

section \<open>The fault daemon (\<open>faultd_main.c\<close>)\<close>

text \<open>
  \<open>aim_daemonize\<close> is of the AIM library: it gets the directory and, with \<open>-dr\<close>, how to restart. What \<open>raise(SIGTERM)\<close> leads
  to is the end of the process, with status \<open>128 + 15\<close>.
\<close>

record restart_config =
  rc_argv :: "string list"
  rc_not_restarted :: "string list"
  rc_maximum_restarts :: int

record 'w main_os =
  m_daemonize :: "string \<Rightarrow> restart_config option \<Rightarrow> 'w \<Rightarrow> 'w"
  m_fopen :: "string \<Rightarrow> 'w \<Rightarrow> int option \<times> 'w"
  m_fprintf :: "int \<Rightarrow> u8 list \<Rightarrow> 'w \<Rightarrow> 'w"
  m_fclose :: "int \<Rightarrow> 'w \<Rightarrow> 'w"
  m_getpid :: "'w \<Rightarrow> int"
  m_print_error :: "string \<Rightarrow> 'w \<Rightarrow> 'w"

definition daemonize_step :: "'w main_os \<Rightarrow> string list \<Rightarrow> faultd_options \<Rightarrow> 'w \<Rightarrow> 'w" where
  "daemonize_step M argv opts w =
     (if o_daemonize opts then
        m_daemonize M ''/''
          (if o_restart opts
           then Some \<lparr>rc_argv = argv, rc_not_restarted = [''SIGTERM'', ''SIGKILL''], rc_maximum_restarts = 0\<rparr>
           else None) w
      else w)"

definition pidfile_step :: "'w main_os \<Rightarrow> faultd_options \<Rightarrow> 'w \<Rightarrow> (int + unit) \<times> 'w" where
  "pidfile_step M opts w =
     (case o_pidfile opts of
        None \<Rightarrow> (Inr (), w)
      | Some path \<Rightarrow>
          (case m_fopen M path w of
             (None, w) \<Rightarrow> (Inl 143, m_print_error M path w)
           | (Some fp, w) \<Rightarrow> (Inr (), m_fclose M fp (m_fprintf M fp (dec_int (m_getpid M w) @ [0x0A]) w))))"

text \<open>The first \<open>n\<close> rounds: \<open>Inl\<close> is a status, \<open>Inr\<close> what the rounds gave. \<open>None\<close> is a fault in a round.\<close>

definition faultd_main ::
  "'w signal_os \<Rightarrow> 'w main_os \<Rightarrow> (handler_statics \<times> 'w \<Rightarrow> handler_statics \<times> 'w) \<Rightarrow> u8 \<Rightarrow> (faultd_received \<Rightarrow> u8 list option)
   \<Rightarrow> bool \<Rightarrow> nat \<Rightarrow> string \<Rightarrow> string list \<Rightarrow> handler_statics \<times> 'w \<Rightarrow> ((int + int list \<times> u8 list) \<times> handler_statics \<times> 'w) option" where
  "faultd_main S M raise_usr2 junk show_info isatty n argv0 args st =
     (case faultd_start S raise_usr2 (bytes_of argv0) args st of
        (Inl status, st) \<Rightarrow> Some (Inl status, st)
      | (Inr (fso, sid, opts), h, w) \<Rightarrow>
          (case pidfile_step M opts (daemonize_step M (argv0 # args) opts w) of
             (Inl status, w) \<Rightarrow> Some (Inl status, h, w)
           | (Inr _, w) \<Rightarrow>
               map_option (\<lambda>(rvs, out, fso, w). (Inr (rvs, out), h, w)) (faultd_serve (s_pipe S) junk show_info isatty sid n fso w)))"

text \<open>The last of \<open>-d\<close> and \<open>-dr\<close> decides, and a restart is only ever asked for a daemon.\<close>

lemma restart_of_daemon:
  "parse_args args opts = Inr opts' \<Longrightarrow> (o_restart opts \<longrightarrow> o_daemonize opts) \<Longrightarrow> o_restart opts' \<longrightarrow> o_daemonize opts'"
proof (induction args arbitrary: opts rule: length_induct)
  case (1 args)
  show ?case
  proof (cases args)
    case (Cons arg as)
    have IH: "parse_args bs o1 = Inr opts' \<Longrightarrow> length bs \<le> length as \<Longrightarrow> (o_restart o1 \<longrightarrow> o_daemonize o1) \<Longrightarrow>
      o_restart opts' \<longrightarrow> o_daemonize opts'" for bs o1
      using 1(1) unfolding Cons by (simp only: length_Cons less_Suc_eq_le) blast
    show ?thesis
    proof (cases "arg \<in> {''-pid'', ''-p''}")
      case True
      then show ?thesis
        using 1(2,3) IH [of "tl as"] unfolding Cons by (cases as) auto
    next
      case False
      then show ?thesis
        using 1(2,3) IH [of as] unfolding Cons by (simp split: if_split_asm)
    qed
  qed (use 1 in simp)
qed

text \<open>Words the program does not know are passed over.\<close>

lemma parse_unknown:
  assumes "\<forall>a\<in>set args. a \<notin> {''-dr'', ''-d'', ''-pid'', ''-p'', ''-t'', ''-h'', ''--help''}"
  shows "parse_args (args @ rest) opts = parse_args rest opts"
  using assms by (induction args) auto

text \<open>
  The process number in the file is that of the process that serves, after it went into the background; when the file cannot
  be written nothing is served.
\<close>

lemma pidfile_of_the_daemon:
  assumes "faultd_start S raise (bytes_of argv0) args st = (Inr (fso, sid, opts), h, w)" "o_pidfile opts = Some path"
    "m_fopen M path (daemonize_step M (argv0 # args) opts w) = (Some fp, w')"
    "faultd_main S M raise junk show_info isatty 0 argv0 args st = Some (r, h', w'')"
  shows "w'' = m_fclose M fp (m_fprintf M fp (dec_int (m_getpid M w') @ [0x0A]) w')"
  using assms by (auto simp: faultd_main_def pidfile_step_def)

lemma no_pidfile_no_service:
  assumes "faultd_start S raise (bytes_of argv0) args st = (Inr (fso, sid, opts), h, w)" "o_pidfile opts = Some path"
    "m_fopen M path (daemonize_step M (argv0 # args) opts w) = (None, w')"
  shows "faultd_main S M raise junk show_info isatty n argv0 args st = Some (Inl 143, h, m_print_error M path w')"
  using assms by (simp add: faultd_main_def pidfile_step_def)

section \<open>The thread for the load of the processor (\<open>onlp_snmp_platform.c\<close>)\<close>

text \<open>
  The clock moves between any two looks at it. \<open>t_script\<close> is the pipe to \<open>onl-snmp-mpstat\<close>: what cJSON finds under
  \<open>all.%idle\<close> in each line, or that it could not be started. The state of the thread is the two buffers and the system's.
\<close>

record 'w thread_os =
  t_monotonic :: "'w \<Rightarrow> u64 \<times> 'w"
  t_script :: "'w \<Rightarrow> int option list option \<times> 'w"
  t_usleep :: "u32 \<Rightarrow> 'w \<Rightarrow> 'w"

definition update_round :: "'w thread_os \<Rightarrow> resource_state \<times> 'w \<Rightarrow> resource_state \<times> 'w" where
  "update_round T sw =
     (let (st, w) = sw;
          (now, w) = t_monotonic T w;
          (lines, w) = (if now - last_resource_update_time st > ONLP_SNMP_CONFIG_RESOURCE_UPDATE_SECONDS * 1000 * 1000
                        then t_script T w else (None, w));
          st = resource_update now lines st;
          (now, w) = t_monotonic T w in
      (st, t_usleep T (us_to_next_update ONLP_SNMP_CONFIG_RESOURCE_UPDATE_SECONDS now (last_resource_update_time st)) w))"

fun update_rounds :: "'w thread_os \<Rightarrow> nat \<Rightarrow> resource_state \<times> 'w \<Rightarrow> resource_state \<times> 'w" where
  "update_rounds T 0 sw = sw"
| "update_rounds T (Suc n) sw = update_rounds T n (update_round T sw)"

text \<open>The handler of the file is number 0. Nobody looks at the result of the registration.\<close>

definition do_update ::
  "'w uds_os \<Rightarrow> ('w \<Rightarrow> 'w) \<Rightarrow> 'w thread_os \<Rightarrow> nat \<Rightarrow> resource_state \<times> 'w \<Rightarrow> uds option \<times> resource_state \<times> 'w" where
  "do_update E join T n sw =
     (let (st, w) = sw;
          (rv, uds, w) = onlp_file_uds_create E join w;
          (uds, w) =
            (if rv \<ge> 0 then
               (case uds of
                  Some u \<Rightarrow> (let (_, u, w) = onlp_file_uds_add E u ''/var/run/onl/cpu-utilization'' 0 w in (Some u, w))
                | None \<Rightarrow> (None, w))
             else (None, w)) in
      (uds, update_rounds T n (st, w)))"

text \<open>\<open>pthread_create\<close> gives 0 or a positive error number.\<close>

definition onlp_snmp_update_start :: "int \<Rightarrow> int" where
  "onlp_snmp_update_start created = (if created < 0 then -1 else 0)"

lemma update_start_never_fails: "0 \<le> created \<Longrightarrow> onlp_snmp_update_start created = 0"
  by (simp add: onlp_snmp_update_start_def)

subsection \<open>What it shows\<close>

text \<open>
  The shares in a buffer add up to the whole once the script has answered; both start from 0. The handlers read the current
  buffer only.
\<close>

definition shares_ok :: "resources \<Rightarrow> bool" where
  "shares_ok r \<longleftrightarrow> utilization_percent r + idle_percent r = 10000 \<or> (utilization_percent r = 0 \<and> idle_percent r = 0)"

definition resource_ok :: "resource_state \<Rightarrow> bool" where
  "resource_ok st \<longleftrightarrow> curr_resource st < 2 \<and> (\<forall>i. shares_ok (resource_buffers st i))"

lemma resource_line_ok: "resource_ok st \<Longrightarrow> resource_ok (resource_line l st)"
  by (simp add: resource_ok_def resource_line_def shares_ok_def next_resource_def flip: of_int_add split: option.splits)

lemma resource_lines_ok: "resource_ok st \<Longrightarrow> resource_ok (fold resource_line ls st)"
  by (induction ls arbitrary: st) (simp_all add: resource_line_ok)

lemma resource_update_ok: "resource_ok st \<Longrightarrow> resource_ok (resource_update now lines st)"
proof -
  assume "resource_ok st"
  then have "resource_ok (st\<lparr>last_resource_update_time := now\<rparr>)" by (simp add: resource_ok_def)
  with \<open>resource_ok st\<close> show ?thesis by (simp add: resource_update_def Let_def resource_lines_ok split: option.splits)
qed

lemma update_rounds_ok: "resource_ok (fst sw) \<Longrightarrow> resource_ok (fst (update_rounds T n sw))"
  by (induction n arbitrary: sw) (auto simp: update_round_def Let_def resource_update_ok split: prod.splits)

text \<open>A line the script printed is what is shown next, and the other buffer keeps the value before it.\<close>

lemma resource_line_shown:
  assumes "curr_resource st < 2"
  shows "idle_percent (get_curr_resources (resource_line (Some r) st)) = word_of_int r"
    and "resource_buffers (resource_line (Some r) st) (curr_resource st) = get_curr_resources st"
  using assms by (auto simp: resource_line_def get_curr_resources_def next_resource_def less_2_cases_iff)

subsection \<open>How long it sleeps\<close>

text \<open>
  The thread never sleeps longer than a period, and when it is on time it wakes at the end of the period. When the period has
  passed between the look at the clock and the computation, it sleeps for a whole period more.
\<close>

lemma sleep_bounded: "us_to_next_update 5 now t \<le> 5000000"
proof -
  have "(x :: u64) \<le> 5000000 \<Longrightarrow> ucast x \<le> (5000000 :: u32)" for x
    by (simp add: word_le_nat_alt unsigned_ucast_eq take_bit_eq_mod) 
  then show ?thesis by (simp add: us_to_next_update_def Let_def)
qed

lemma sleep_until_period:
  assumes "now - t \<le> (5000000 :: u64)"
  shows "unat (us_to_next_update 5 now t) = 5000000 - unat (now - t)"
proof -
  have d: "unat (now - t) \<le> 5000000" using assms by (simp add: word_le_nat_alt)
  have s: "unat (5000000 - (now - t)) = 5000000 - unat (now - t)" using unat_sub [OF assms] by simp
  then show ?thesis using d
    by (auto simp: us_to_next_update_def Let_def unsigned_ucast_eq take_bit_eq_mod word_less_nat_alt)
qed

lemma sleep_when_late:
  assumes "(5000000 :: u64) < now - t"
  shows "us_to_next_update 5 now t = 5000000"
proof -
  have "\<not> 5000000 - x < 5000000" if "5000000 < x" for x :: u64
    using that unsigned_less [of x, where ?'a = nat] by (simp add: word_less_nat_alt unat_sub_if_size word_size)
  from this [OF assms] have "\<not> 5000000 - (now - t) < 5000000" .
  then show ?thesis by (simp add: us_to_next_update_def Let_def)
qed

end
