(* ===== verification/Spec2Isabelle.thy ===== *)
theory Spec2Isabelle
  imports Onie LockProtocol Guards SfpProps Manager I2cProps As4564FanProps As4564Hwmon As4564System OptoeProps PmbusProps EmersonProps FaultdProps SnmpProps OnlpieProps OnlplibMisc OomShim FileUdsProps OnlpdumpProps As4564Life LockCalls Daemons
begin

text \<open>
  A verification development of dentOS: the Open Network Linux Platform library (ONLP), the kernel
  drivers and the daemons around it.

  THE PROGRAM. \<open>src/packages/base/any\<close> holds what every switch shares. ONLP (\<open>onlp/src/onlp\<close>) gives
  management software one view of fans, power supplies, thermal sensors, LEDs, transceivers and the
  ONIE data of a switch. Objects are named by OIDs, 32-bit words that form a tree. A public call takes
  the API lock, which may be shared by all processes (\<open>onlplib/shlocks.c\<close>), runs a body ending in
  \<open>_locked__\<close>, and gives the lock back; the body asks a platform driver through the functions of
  \<open>onlp/platformi\<close>. A driver reads files of sysfs (\<open>onlplib/file.c\<close>) and I2C devices (\<open>onlplib/i2c.c\<close>); the
  files are made by kernel drivers. On top sit the manager thread (\<open>platform_manager.c\<close>), which runs the
  fan control of the platform and reports changes, the SNMP agent (\<open>onlp-snmpd\<close>) and the daemon that
  collects the reports of crashed processes (\<open>faultd\<close>).

  HOW IT IS MODELLED. Records are the structs, words the machine integers (an \<open>int\<close> that the code keeps
  within 32 bits is an \<open>int\<close>, with the wrap-around written out where it can happen). Stateful code takes
  its state and returns it. An output parameter is passed in with its old contents and comes back with
  its new ones. \<open>None\<close> is undefined behaviour or a call that never returns, each theory says which.
  What is not under \<open>src\<close> (AIM bitmaps, lists and timer wheels, system calls, the kernel, net-snmp) is a
  parameter, a record of functions over a world, with what the code relies on as a named predicate.

  THE THEORIES.
  \<^item> \<open>Prelude\<close>: machine types, the status codes of \<open>onlp.h\<close>, collections of facts. \<open>Kernel\<close>: what kernel
    drivers and daemons share (error numbers, \<open>time_after\<close>, byte arrays).
  \<^item> \<open>Crc32\<close> (\<open>crc32.c\<close>): the table-driven CRC is the bit-serial one and sees every burst of four bytes.
  \<^item> \<open>Onie\<close> (\<open>onie.c\<close>): the TlvInfo decoder; images decode to their fields, bursts are detected, the
    decoder stays within 2304 bytes.
  \<^item> \<open>Oids\<close>, \<open>Platform\<close> (headers of \<open>onlp\<close> and \<open>platformi\<close>, \<open>onlp_platform_defaults\<close>): data and drivers; the
    locale \<open>item_with_fallback\<close> is the contract of every partial read.
  \<^item> \<open>Locks\<close>, \<open>LockProtocol\<close> (\<open>shlocks.c\<close>, \<open>onlp_locks.c\<close>): a robust mutex in shared memory; the locale
    \<open>api_lock\<close> is the contract of the API lock, interpreted on both variants; \<open>LockProtocol\<close> has the steps
    of several processes, of which any may die, with mutual exclusion as an invariant. \<open>LockCalls\<close> has the
    global lock and the test of the API lock.
  \<^item> \<open>Api\<close>, \<open>Fan\<close>, \<open>Thermal\<close>, \<open>Psu\<close>, \<open>Led\<close>, \<open>Sys\<close> (\<open>fan.c\<close>, \<open>thermal.c\<close>, \<open>psu.c\<close>, \<open>led.c\<close>, \<open>sys.c\<close>, \<open>onlp_util.c\<close>):
    the calls per class with their printers. \<open>Guards\<close>: no setter reaches the driver unless the object is
    present and able, and what a partial read has to do with a whole one.
  \<^item> \<open>OidTree\<close> (\<open>oids.c\<close>, \<open>platform_dump.c\<close>): dump, show and iteration over the tree. The recursion of the
    code has no bound of its own; it is run with fuel and shown to return, for every amount of fuel above
    the rank of the OID, on any platform whose children have a smaller rank than their parents.
  \<^item> \<open>Sfp\<close>, \<open>SfpProps\<close> (\<open>sfp.c\<close>): ports, presence, controls, over any bitmap with \<open>bitmap_laws\<close>.
  \<^item> \<open>Notify\<close>, \<open>Manager\<close> (\<open>platform_manager.c\<close>): the status monitors (locales \<open>status_monitor\<close> and
    \<open>tracked_bit\<close>, interpreted on power supplies and fans) and the thread on a timer wheel with
    \<open>wheel_laws\<close>.
  \<^item> \<open>File\<close>, \<open>FileProps\<close>, \<open>I2c\<close>, \<open>I2cProps\<close> (\<open>file.c\<close>, \<open>i2c.c\<close>): files and buses, descriptors, retries,
    multiplexers.
  \<^item> \<open>As4564\<close>, \<open>As4564Props\<close>, \<open>As4564System\<close> (\<open>platforms/accton/arm64/as4564-26p/onlp\<close>): a real platform, its
    fan control as a decision table, and ONLP on it as a whole.
  \<^item> \<open>As4564Cpld\<close>, \<open>As4564Fan\<close>, \<open>As4564Hwmon\<close>, \<open>As4564Kernel\<close>, \<open>As4564FanProps\<close>, \<open>As4564Gpio\<close>, \<open>As4564Life\<close>
    (\<open>as4564-26p/modules\<close>): its kernel drivers, on a CPLD that is a bank of registers behind an arbiter, and how they
    come and go.
  \<^item> \<open>Optoe\<close>, \<open>OptoeProps\<close> (\<open>optoe.c\<close>): the paged memory of a transceiver as one linear file, a refinement
    in every transfer mode.
  \<^item> \<open>Pmbus\<close>, \<open>Ym2651y\<close>, \<open>AcctonPsu\<close>, \<open>Dps850\<close>, \<open>PmbusProps\<close>, \<open>EmersonProps\<close> (\<open>kernels/modules\<close>): the drivers of
    the power supplies; numbers, caches, and the strings whose length the supply announces.
  \<^item> \<open>Faultd\<close>, \<open>FaultdProps\<close> (\<open>faultd\<close>): the fault server, its clients and the signal handler.
  \<^item> \<open>Snmp\<close>, \<open>SnmpProps\<close> (\<open>onlp-snmpd\<close>): the sensor tables of the SNMP agent, two threads as a step relation
    with its invariant.
  \<^item> \<open>Onlpie\<close>, \<open>OnlpieProps\<close> (\<open>onlp/src/onlpie\<close>): the example platform; ONLP on it, from its ONIE data to the
    scalars the SNMP agent registers.
  \<^item> \<open>OnlplibMisc\<close> (\<open>gpio.c\<close>, \<open>mmap.c\<close>, \<open>thermal.c\<close>, \<open>sfp.c\<close> of \<open>onlplib\<close>) and \<open>OomShim\<close> (\<open>oom_shim.c\<close>): small
    layers on top of the files and of the transceiver calls.
  \<^item> \<open>FileUds\<close>, \<open>FileUdsProps\<close> (\<open>onlplib/file_uds.c\<close>): files served over domain sockets, clients and the
    thread as a step relation with its invariant.
  \<^item> \<open>OnieJson\<close> (the rest of \<open>onlplib/onie.c\<close>), \<open>Onlpdump\<close>, \<open>OnlpdumpProps\<close> (\<open>onlp.c\<close>, \<open>onlp_json.c\<close>,
    \<open>platform_dump.c\<close>, \<open>onlp_main.c\<close>): ONIE data from files and as JSON, the start of ONLP and its command line
    tool on top of all public calls.
  \<^item> \<open>Daemons\<close> (\<open>faultd_main.c\<close>, \<open>onlp_snmp_platform.c\<close>): what the daemons do around their loops.

  FUEL AND BOUNDS. The printers and the iteration of \<open>OidTree\<close> have fuel, and any that exceeds the rank of the
  OIDs is enough; so have the loop of \<open>Manager\<close> over what is due, for which five steps are enough, and the lock test of
  \<open>Onlpdump\<close>, which runs until it fails. Retry loops recurse on the number of attempts the code has as a constant (ten for the CPLD, sixteen for SMBus) and the loops of
  optoe on the time that is left, with the theorem that they return as long as the clock moves.

  NOT MODELLED. Logging, the AIM modules and the enumeration tables generated for them, and the drivers of the other platforms, which repeat what the AS4564-26P does with other tables. PROJECT.json lists every part with its status.
\<close>

end
